(* ===== verification/Prelude.thy ===== *)
theory Prelude
  imports Main "HOL-Library.Char_ord" "HOL-Library.List_Lexorder" "HOL-Library.Product_Lexorder"
    "HOL-Library.AList"
begin

text \<open>
  Shared notions of the development: the pieces of Go's standard library that the modelled
  packages use (byte strings, \<open>strings.TrimSpace\<close>, decimal formatting, the \<open>%q\<close> verb,
  64-bit signed wrap-around), the UUID and timestamp values of \<open>pgtype\<close>, JSON documents, and
  the generic lemmas about lists, association lists and stable sorting that the component
  theories share.  A Go string is a sequence of bytes, which is what \<open>string\<close> is here; Go
  compares strings bytewise, which is the order of \<open>HOL-Library.List_Lexorder\<close>.
\<close>

named_theorems go_defs "definitions of the Go standard-library fragments"

section \<open>Results\<close>

text \<open>Go's pair \<open>(value, error)\<close> is a sum: \<open>Inl\<close> holds the error.\<close>

definition bind_res :: "'e + 'a \<Rightarrow> ('a \<Rightarrow> 'e + 'b) \<Rightarrow> 'e + 'b" where
  "bind_res r f = (case r of Inl e \<Rightarrow> Inl e | Inr a \<Rightarrow> f a)"

lemma bind_res_simps [simp]:
  "bind_res (Inl e) f = Inl e"
  "bind_res (Inr a) f = f a"
  by (simp_all add: bind_res_def)

lemma bind_res_eq_Inr [simp]:
  "bind_res r f = Inr b \<longleftrightarrow> (\<exists>a. r = Inr a \<and> f a = Inr b)"
  by (cases r) auto

lemma bind_res_eq_Inl:
  "bind_res r f = Inl e \<longleftrightarrow> r = Inl e \<or> (\<exists>a. r = Inr a \<and> f a = Inl e)"
  by (cases r) auto

lemma bind_res_cong [fundef_cong]:
  "r = r' \<Longrightarrow> (\<And>a. r' = Inr a \<Longrightarrow> f a = g a) \<Longrightarrow> bind_res r f = bind_res r' g"
  by (cases r') auto

section \<open>Signed 64-bit integers\<close>

text \<open>\<open>i64\<close> is the value Go's \<open>int64\<close> holds after an arithmetic result \<open>x\<close> wrapped around.\<close>

definition max_int64 :: int where "max_int64 = 9223372036854775807"

definition min_int64 :: int where "min_int64 = - 9223372036854775808"

definition i64 :: "int \<Rightarrow> int" where
  "i64 x = (x + 9223372036854775808) mod 18446744073709551616 - 9223372036854775808"

definition is_int64 :: "int \<Rightarrow> bool" where
  "is_int64 x \<longleftrightarrow> min_int64 \<le> x \<and> x \<le> max_int64"

lemma i64_id: "is_int64 x \<Longrightarrow> i64 x = x"
  by (simp add: i64_def is_int64_def max_int64_def min_int64_def)

lemma is_int64_i64: "is_int64 (i64 x)"
  by (simp add: i64_def is_int64_def max_int64_def min_int64_def)

section \<open>Byte strings\<close>

text \<open>
  The UTF-8 encodings of the code points \<open>unicode.IsSpace\<close> accepts: tab, newline, vertical
  tab, form feed, carriage return, space, U+0085, U+00A0, U+1680, U+2000 to U+200A, U+2028,
  U+2029, U+202F, U+205F and U+3000.  \<open>strings.TrimSpace\<close> removes them at both ends; none of
  them is a suffix of another's encoding, so removal by byte prefix and byte suffix is what
  decoding rune by rune does.
\<close>

definition go_spaces :: "string list" where
  "go_spaces =
     [[CHR 0x20], [CHR 0x09], [CHR 0x0A], [CHR 0x0B], [CHR 0x0C], [CHR 0x0D],
      [CHR 0xC2, CHR 0x85], [CHR 0xC2, CHR 0xA0], [CHR 0xE1, CHR 0x9A, CHR 0x80],
      [CHR 0xE2, CHR 0x80, CHR 0x80], [CHR 0xE2, CHR 0x80, CHR 0x81],
      [CHR 0xE2, CHR 0x80, CHR 0x82], [CHR 0xE2, CHR 0x80, CHR 0x83],
      [CHR 0xE2, CHR 0x80, CHR 0x84], [CHR 0xE2, CHR 0x80, CHR 0x85],
      [CHR 0xE2, CHR 0x80, CHR 0x86], [CHR 0xE2, CHR 0x80, CHR 0x87],
      [CHR 0xE2, CHR 0x80, CHR 0x88], [CHR 0xE2, CHR 0x80, CHR 0x89],
      [CHR 0xE2, CHR 0x80, CHR 0x8A], [CHR 0xE2, CHR 0x80, CHR 0xA8],
      [CHR 0xE2, CHR 0x80, CHR 0xA9], [CHR 0xE2, CHR 0x80, CHR 0xAF],
      [CHR 0xE2, CHR 0x81, CHR 0x9F], [CHR 0xE3, CHR 0x80, CHR 0x80]]"

definition lead_space :: "string list \<Rightarrow> string \<Rightarrow> nat" where
  "lead_space encs s =
     (case find (\<lambda>e. take (length e) s = e) encs of None \<Rightarrow> 0 | Some e \<Rightarrow> length e)"

function trim_lead :: "string list \<Rightarrow> string \<Rightarrow> string" where
  "trim_lead encs s =
     (if s = [] \<or> lead_space encs s = 0 then s
      else trim_lead encs (drop (lead_space encs s) s))"
  by pat_completeness auto
termination
  by (relation "measure (\<lambda>(_, s). length s)") auto

declare trim_lead.simps [simp del]

definition TrimSpace :: "string \<Rightarrow> string" where
  "TrimSpace s = rev (trim_lead (map rev go_spaces) (rev (trim_lead go_spaces s)))"

definition blank :: "string \<Rightarrow> bool" where
  "blank s \<longleftrightarrow> TrimSpace s = []"

lemma trim_lead_Nil [simp]: "trim_lead encs [] = []"
  by (simp add: trim_lead.simps)

lemma TrimSpace_Nil [simp]: "TrimSpace [] = []"
  by (simp add: TrimSpace_def)

lemma blank_Nil [simp]: "blank []"
  by (simp add: blank_def)

lemma trim_lead_suffix: "\<exists>p. s = p @ trim_lead encs s"
proof (induction encs s rule: trim_lead.induct)
  case (1 encs s)
  show ?case
  proof (cases "s = [] \<or> lead_space encs s = 0")
    case True
    then show ?thesis by (subst trim_lead.simps) simp
  next
    case False
    with "1.IH" obtain p where "drop (lead_space encs s) s = p @ trim_lead encs (drop (lead_space encs s) s)"
      by blast
    then have "s = (take (lead_space encs s) s @ p) @ trim_lead encs (drop (lead_space encs s) s)"
      by (metis append_take_drop_id append.assoc)
    moreover have "trim_lead encs s = trim_lead encs (drop (lead_space encs s) s)"
      using False by (subst trim_lead.simps) simp
    ultimately show ?thesis by metis
  qed
qed

lemma length_trim_lead: "length (trim_lead encs s) \<le> length s"
  using trim_lead_suffix [of s encs] by (metis le_add2 length_append)

lemma length_TrimSpace: "length (TrimSpace s) \<le> length s"
  unfolding TrimSpace_def by (metis length_rev length_trim_lead order_trans)

lemma trim_lead_normal:
  "[] \<notin> set encs \<Longrightarrow> trim_lead encs s = [] \<or> lead_space encs (trim_lead encs s) = 0"
proof (induction encs s rule: trim_lead.induct)
  case (1 encs s)
  show ?case
  proof (cases "s = [] \<or> lead_space encs s = 0")
    case True
    then show ?thesis by (subst (1 2) trim_lead.simps) auto
  next
    case False
    then show ?thesis using 1 by (subst (1 2) trim_lead.simps) simp
  qed
qed

lemma lead_space_0_iff:
  "[] \<notin> set encs \<Longrightarrow> lead_space encs s = 0 \<longleftrightarrow> (\<forall>e \<in> set encs. take (length e) s \<noteq> e)"
  by (auto simp: lead_space_def find_None_iff find_Some_iff split: option.splits)
    (metis in_set_conv_nth length_0_conv)

lemma trim_lead_fix: "s = [] \<or> lead_space encs s = 0 \<Longrightarrow> trim_lead encs s = s"
  by (subst trim_lead.simps) simp

lemma lead_space_prefix:
  assumes "[] \<notin> set encs" and "lead_space encs (u @ v) = 0"
  shows "lead_space encs u = 0"
  unfolding lead_space_0_iff [OF assms(1)]
proof (intro ballI notI)
  fix e assume e: "e \<in> set encs" "take (length e) u = e"
  then have "length e \<le> length u" by (metis length_take min.absorb_iff2 nat_le_linear take_all)
  then have "take (length e) (u @ v) = e" using e(2) by simp
  then show False using assms e(1) by (simp add: lead_space_0_iff)
qed

lemma TrimSpace_idem: "TrimSpace (TrimSpace s) = TrimSpace s"
proof -
  let ?R = "map rev go_spaces"
  have E: "[] \<notin> set go_spaces" "[] \<notin> set ?R" by (simp_all add: go_spaces_def)
  define t where "t = trim_lead go_spaces s"
  define u where "u = trim_lead ?R (rev t)"
  obtain p where p: "rev t = p @ u" using trim_lead_suffix unfolding u_def by blast
  then have t: "t = rev u @ rev p" by (metis rev_append rev_rev_ident)
  have "t = [] \<or> lead_space go_spaces t = 0" unfolding t_def by (rule trim_lead_normal [OF E(1)])
  then have "rev u = [] \<or> lead_space go_spaces (rev u) = 0"
    using lead_space_prefix [OF E(1)] t by auto
  then have "trim_lead go_spaces (rev u) = rev u" by (rule trim_lead_fix)
  moreover have "trim_lead ?R u = u"
    using trim_lead_normal [OF E(2)] unfolding u_def by (intro trim_lead_fix) simp
  ultimately show ?thesis by (simp add: TrimSpace_def u_def t_def)
qed

text \<open>ASCII letters folded to lower case, as \<open>strings.ToLower\<close> does on ASCII text; the two
  non-ASCII code points whose lower case is an ASCII letter (U+0130 and U+212A) are folded as
  well, so that comparisons with ASCII constants come out as in Go.\<close>

definition lower_char :: "char \<Rightarrow> char" where
  "lower_char c =
     (if 65 \<le> (of_char c :: nat) \<and> (of_char c :: nat) \<le> 90
      then char_of ((of_char c :: nat) + 32) else c)"

fun ToLower :: "string \<Rightarrow> string" where
  "ToLower [] = []"
| "ToLower (a # b # c # s) =
     (if a = CHR 0xE2 \<and> b = CHR 0x84 \<and> c = CHR 0xAA then CHR ''k'' # ToLower s
      else if a = CHR 0xC4 \<and> b = CHR 0xB0 then CHR ''i'' # ToLower (c # s)
      else lower_char a # ToLower (b # c # s))"
| "ToLower (a # b # []) =
     (if a = CHR 0xC4 \<and> b = CHR 0xB0 then [CHR ''i''] else [lower_char a, lower_char b])"
| "ToLower (a # []) = [lower_char a]"

fun has_prefix :: "string \<Rightarrow> string \<Rightarrow> bool" where
  "has_prefix [] s = True"
| "has_prefix (p # ps) [] = False"
| "has_prefix (p # ps) (c # s) = (p = c \<and> has_prefix ps s)"

fun Contains :: "string \<Rightarrow> string \<Rightarrow> bool" where
  "Contains [] sub = (sub = [])"
| "Contains (c # s) sub = (has_prefix sub (c # s) \<or> Contains s sub)"

lemma has_prefix_iff: "has_prefix p s \<longleftrightarrow> (\<exists>t. s = p @ t)"
  by (induction p s rule: has_prefix.induct) auto

lemma Contains_iff: "Contains s sub \<longleftrightarrow> (\<exists>a b. s = a @ sub @ b)"
proof (induction s)
  case Nil
  then show ?case by simp
next
  case (Cons c s)
  have "(\<exists>a b. c # s = a @ sub @ b) \<longleftrightarrow> (\<exists>b. c # s = sub @ b) \<or> (\<exists>a b. s = a @ sub @ b)"
    (is "?l \<longleftrightarrow> ?r")
  proof
    assume ?l
    then obtain a b where "c # s = a @ sub @ b" by blast
    then show ?r by (cases a) auto
  next
    assume ?r
    then show ?l by (metis append_Cons append_Nil)
  qed
  with Cons show ?case by (simp add: has_prefix_iff)
qed

subsection \<open>Decimal and quoted formatting\<close>

definition digit :: "nat \<Rightarrow> char" where
  "digit n = char_of (48 + n)"

fun string_of_nat :: "nat \<Rightarrow> string" where
  "string_of_nat value =
     (if value div 10 = 0 then [digit value]
      else string_of_nat (value div 10) @ [digit (value mod 10)])"

declare string_of_nat.simps [simp del]

definition string_of_int :: "int \<Rightarrow> string" where
  "string_of_int value =
     (if 0 \<le> value then string_of_nat (nat value) else ''-'' @ string_of_nat (nat (- value)))"

definition hex_digit :: "nat \<Rightarrow> char" where
  "hex_digit n = (if n < 10 then char_of (48 + n) else char_of (87 + n))"

text \<open>The verb \<open>%q\<close>: quotes, backslashes and control bytes are escaped as \<open>strconv.Quote\<close>
  does on ASCII; bytes of multi-byte characters are kept as they are.\<close>

definition quote_char :: "char \<Rightarrow> string" where
  "quote_char c =
     (if c = CHR 0x22 then [CHR 0x5C, CHR 0x22]
      else if c = CHR 0x5C then [CHR 0x5C, CHR 0x5C]
      else if c = CHR 0x07 then CHR 0x5C # ''a''
      else if c = CHR 0x08 then CHR 0x5C # ''b''
      else if c = CHR 0x0C then CHR 0x5C # ''f''
      else if c = CHR 0x0A then CHR 0x5C # ''n''
      else if c = CHR 0x0D then CHR 0x5C # ''r''
      else if c = CHR 0x09 then CHR 0x5C # ''t''
      else if c = CHR 0x0B then CHR 0x5C # ''v''
      else if (of_char c :: nat) < 32 \<or> (of_char c :: nat) = 127
      then CHR 0x5C # CHR ''x'' # [hex_digit (of_char c div 16), hex_digit (of_char c mod 16)]
      else [c])"

definition go_quote :: "string \<Rightarrow> string" where
  "go_quote s = [CHR 0x22] @ concat (map quote_char s) @ [CHR 0x22]"

section \<open>UUIDs, timestamps and JSON\<close>

text \<open>
  A \<open>pgtype.UUID\<close> is identified with its canonical text: \<open>None\<close> is the invalid (SQL NULL)
  value, whose bytes are zero, and \<open>Some s\<close> the valid value whose text is \<open>s\<close>.
  \<open>uuidText\<close> and \<open>optionalUUIDText\<close> are the two renderings the code uses.
\<close>

type_synonym uuid = "string option"

definition nil_uuid :: string where
  "nil_uuid = ''00000000-0000-0000-0000-000000000000''"

definition uuidText :: "uuid \<Rightarrow> string" where
  "uuidText u = (case u of None \<Rightarrow> nil_uuid | Some s \<Rightarrow> s)"

definition optionalUUIDText :: "uuid \<Rightarrow> string" where
  "optionalUUIDText u = (case u of None \<Rightarrow> [] | Some _ \<Rightarrow> uuidText u)"

definition validUUID :: "uuid \<Rightarrow> bool" where
  "validUUID u = (case u of None \<Rightarrow> False | Some s \<Rightarrow> s \<noteq> nil_uuid)"

lemma uuidText_simps [simp]: "uuidText (Some s) = s" "uuidText None = nil_uuid"
  by (simp_all add: uuidText_def)

text \<open>
  A time is its number of nanoseconds since the Unix epoch; \<open>zero_time\<close> is Go's zero value
  (January 1, year 1).  \<open>pgtype.Timestamptz\<close> and \<open>pgtype.Text\<close> are options.
\<close>

type_synonym time = int
type_synonym timestamptz = "int option"
type_synonym pgtext = "string option"

definition zero_time :: time where
  "zero_time = - 62135596800000000000"

definition second :: int where
  "second = 1000000000"

text \<open>A JSON document as \<open>encoding/json\<close> parses it, an object with its members in order; \<open>JReal\<close> is the
  literal of a number with a fraction or an exponent.\<close>

datatype json =
    JNull | JBool bool | JNum int | JReal string | JStr string | JArr "json list"
  | JObj "(string \<times> json) list"

section \<open>Lists\<close>

definition find_last :: "('a \<Rightarrow> bool) \<Rightarrow> 'a list \<Rightarrow> 'a option" where
  "find_last P xs = find P (rev xs)"

text \<open>Replace the first element that satisfies \<open>P\<close>, as the loops that search by index do.\<close>

fun replace_first :: "('a \<Rightarrow> bool) \<Rightarrow> 'a \<Rightarrow> 'a list \<Rightarrow> 'a list" where
  "replace_first P y [] = []"
| "replace_first P y (x # xs) = (if P x then y # xs else x # replace_first P y xs)"

lemma length_replace_first [simp]: "length (replace_first P y xs) = length xs"
  by (induction xs) auto

lemma find_SomeD: "find P xs = Some x \<Longrightarrow> x \<in> set xs \<and> P x"
  by (auto simp: find_Some_iff)

lemma find_None_iff_set: "find P xs = None \<longleftrightarrow> (\<forall>x \<in> set xs. \<not> P x)"
  by (auto simp: find_None_iff)

lemma find_last_SomeD: "find_last P xs = Some x \<Longrightarrow> x \<in> set xs \<and> P x"
  unfolding find_last_def by (drule find_SomeD) simp

lemma find_last_append: "find_last P (xs @ [x]) = (if P x then Some x else find_last P xs)"
  by (simp add: find_last_def)

lemma set_replace_first: "set (replace_first P y xs) \<subseteq> insert y (set xs)"
  by (induction xs) auto

lemma map_replace_first_same:
  "(\<And>x. x \<in> set xs \<Longrightarrow> P x \<Longrightarrow> f y = f x) \<Longrightarrow> map f (replace_first P y xs) = map f xs"
  by (induction xs) auto

lemma list_ex_iff_set: "list_ex P xs \<longleftrightarrow> (\<exists>x \<in> set xs. P x)"
  by (simp add: list_ex_iff)

lemma sort_key_hd_le:
  assumes "sort_key f xs = y # ys" and "x \<in> set xs"
  shows "f y \<le> f x"
proof -
  have "sorted (map f (y # ys))" using sorted_sort_key [of f xs] assms(1) by simp
  moreover have "x \<in> set (y # ys)" using assms by (metis set_sort)
  ultimately show ?thesis by auto
qed

lemma take_sorted_le:
  assumes "sorted xs" and "x \<in> set (take n xs)" and "y \<in> set (drop n xs)"
  shows "x \<le> y"
proof -
  have "sorted (take n xs @ drop n xs)" using assms(1) by simp
  with assms(2,3) show ?thesis by (simp only: sorted_append)
qed

end
