(* ===== verification/OrchTypes.thy ===== *)
theory OrchTypes
  imports Prelude
begin

text \<open>
  The domain types of \<open>server/internal/service/orchestration/types.go\<close>.  A Go string type with
  named constants is a datatype with one constructor per constant and one, \<open>..._Other\<close>, for
  every other string; JSON tags are dropped.  \<open>int\<close> and \<open>int64\<close> fields are \<open>int\<close>.
\<close>

datatype MissionStatus =
    MissionStatusDraft | MissionStatusReady | MissionStatusRunning | MissionStatusBlocked
  | MissionStatusCompleted | MissionStatusFailed | MissionStatusCancelled
  | MissionStatus_Other string

datatype TaskStatus =
    TaskStatusPending | TaskStatusReady | TaskStatusAssigned | TaskStatusRunning
  | TaskStatusReview | TaskStatusRework | TaskStatusBlocked | TaskStatusCompleted
  | TaskStatusFailed | TaskStatusCancelled | TaskStatus_Other string

datatype AssignmentStatus =
    AssignmentStatusActive | AssignmentStatusFulfilled | AssignmentStatusSuperseded
  | AssignmentStatusRevoked | AssignmentStatus_Other string

datatype RunStatus =
    RunStatusQueued | RunStatusDispatched | RunStatusRunning | RunStatusSucceeded
  | RunStatusFailed | RunStatusCancelled | RunStatus_Other string

datatype Duty = DutyPlanner | DutyExecutor | DutyReviewer | DutyIntegrator | Duty_Other string

datatype ArtifactKind =
    ArtifactKindBranch | ArtifactKindCommit | ArtifactKindDiff | ArtifactKindFile
  | ArtifactKindTestReceipt | ArtifactKindFinalDelivery | ArtifactKindPlanProposal
  | ArtifactKind_Other string

datatype PlanSource =
    PlanSourceManual | PlanSourceProposal | PlanSourceFixedTemplate | PlanSource_Other string

text \<open>The text of each constant, as \<open>String()\<close> and the conversions to \<open>string\<close> give it.\<close>

fun MissionStatus_String :: "MissionStatus \<Rightarrow> string" where
  "MissionStatus_String MissionStatusDraft = ''draft''"
| "MissionStatus_String MissionStatusReady = ''ready''"
| "MissionStatus_String MissionStatusRunning = ''running''"
| "MissionStatus_String MissionStatusBlocked = ''blocked''"
| "MissionStatus_String MissionStatusCompleted = ''completed''"
| "MissionStatus_String MissionStatusFailed = ''failed''"
| "MissionStatus_String MissionStatusCancelled = ''cancelled''"
| "MissionStatus_String (MissionStatus_Other s) = s"

fun TaskStatus_String :: "TaskStatus \<Rightarrow> string" where
  "TaskStatus_String TaskStatusPending = ''pending''"
| "TaskStatus_String TaskStatusReady = ''ready''"
| "TaskStatus_String TaskStatusAssigned = ''assigned''"
| "TaskStatus_String TaskStatusRunning = ''running''"
| "TaskStatus_String TaskStatusReview = ''review''"
| "TaskStatus_String TaskStatusRework = ''rework''"
| "TaskStatus_String TaskStatusBlocked = ''blocked''"
| "TaskStatus_String TaskStatusCompleted = ''completed''"
| "TaskStatus_String TaskStatusFailed = ''failed''"
| "TaskStatus_String TaskStatusCancelled = ''cancelled''"
| "TaskStatus_String (TaskStatus_Other s) = s"

fun AssignmentStatus_String :: "AssignmentStatus \<Rightarrow> string" where
  "AssignmentStatus_String AssignmentStatusActive = ''active''"
| "AssignmentStatus_String AssignmentStatusFulfilled = ''fulfilled''"
| "AssignmentStatus_String AssignmentStatusSuperseded = ''superseded''"
| "AssignmentStatus_String AssignmentStatusRevoked = ''revoked''"
| "AssignmentStatus_String (AssignmentStatus_Other s) = s"

fun RunStatus_String :: "RunStatus \<Rightarrow> string" where
  "RunStatus_String RunStatusQueued = ''queued''"
| "RunStatus_String RunStatusDispatched = ''dispatched''"
| "RunStatus_String RunStatusRunning = ''running''"
| "RunStatus_String RunStatusSucceeded = ''succeeded''"
| "RunStatus_String RunStatusFailed = ''failed''"
| "RunStatus_String RunStatusCancelled = ''cancelled''"
| "RunStatus_String (RunStatus_Other s) = s"

fun Duty_String :: "Duty \<Rightarrow> string" where
  "Duty_String DutyPlanner = ''planner''"
| "Duty_String DutyExecutor = ''executor''"
| "Duty_String DutyReviewer = ''reviewer''"
| "Duty_String DutyIntegrator = ''integrator''"
| "Duty_String (Duty_Other s) = s"

fun ArtifactKind_String :: "ArtifactKind \<Rightarrow> string" where
  "ArtifactKind_String ArtifactKindBranch = ''branch''"
| "ArtifactKind_String ArtifactKindCommit = ''commit''"
| "ArtifactKind_String ArtifactKindDiff = ''diff''"
| "ArtifactKind_String ArtifactKindFile = ''file''"
| "ArtifactKind_String ArtifactKindTestReceipt = ''test_receipt''"
| "ArtifactKind_String ArtifactKindFinalDelivery = ''final_delivery''"
| "ArtifactKind_String ArtifactKindPlanProposal = ''plan_proposal''"
| "ArtifactKind_String (ArtifactKind_Other s) = s"

fun Duty_Valid :: "Duty \<Rightarrow> bool" where
  "Duty_Valid DutyPlanner = True"
| "Duty_Valid DutyExecutor = True"
| "Duty_Valid DutyReviewer = True"
| "Duty_Valid DutyIntegrator = True"
| "Duty_Valid (Duty_Other _) = False"

definition TaskNodeDuty :: "Duty \<Rightarrow> bool" where
  "TaskNodeDuty d \<longleftrightarrow> d = DutyExecutor \<or> d = DutyIntegrator"

fun ArtifactKind_Valid :: "ArtifactKind \<Rightarrow> bool" where
  "ArtifactKind_Valid ArtifactKindBranch = True"
| "ArtifactKind_Valid ArtifactKindCommit = True"
| "ArtifactKind_Valid ArtifactKindDiff = True"
| "ArtifactKind_Valid ArtifactKindFile = True"
| "ArtifactKind_Valid ArtifactKindTestReceipt = True"
| "ArtifactKind_Valid ArtifactKindFinalDelivery = True"
| "ArtifactKind_Valid _ = False"

definition PlanSchemaVersion :: int where "PlanSchemaVersion = 1"

definition MaxPlanNodes :: nat where "MaxPlanNodes = 16"

definition MaxPlanDependencyDepth :: int where "MaxPlanDependencyDepth = 4"

record BudgetPolicy =
  MaxTokens :: "int option"
  MaxCostUSDTicks :: "int option"
  Gate :: string

record PlanLimits =
  MaxParallelRuns :: int
  MaxTaskAttempts :: int
  MaxReworkCycles :: int
  Budget :: "BudgetPolicy option"

record BudgetEstimate =
  est_Tokens :: int
  est_CostUSDTicks :: int

definition DefaultPlanHardLimits :: PlanLimits where
  "DefaultPlanHardLimits =
     \<lparr>MaxParallelRuns = 8, MaxTaskAttempts = 5, MaxReworkCycles = 3, Budget = None\<rparr>"

record PlanNode =
  pn_Key :: string
  pn_Title :: string
  pn_Description :: string
  pn_Duty :: Duty
  pn_AcceptanceCriteria :: "string list"
  pn_ArtifactKinds :: "ArtifactKind list"
  pn_DependsOn :: "string list"
  pn_BudgetEstimate :: BudgetEstimate

record Plan =
  plan_SchemaVersion :: int
  plan_MissionID :: string
  plan_PlanKey :: string
  plan_Limits :: PlanLimits
  plan_Nodes :: "PlanNode list"

record ValidationError =
  Path :: string
  Code :: string
  Message :: string

record NodeSnapshot =
  ns_Key :: string
  ns_Status :: TaskStatus
  ns_Priority :: int
  ns_CreatedOrder :: int
  ns_DependencyKeys :: "string list"
  ns_HasActiveAssignment :: bool

text \<open>
  The errors of the package: its sentinel values, \<open>transitionError\<close>, \<open>CommandValidationError\<close>,
  \<open>pgx.ErrNoRows\<close> and unique-index violations as the database reports them, and errors made by
  \<open>fmt.Errorf\<close>, of which the text before a wrapped cause is kept.  \<open>CommandRace\<close> is the violation of
  the dedupe index by a command's own activity, which \<open>isActivityDedupeViolation\<close> recognizes and no
  command returns.
\<close>

datatype error =
    ErrCommandConflict | ErrMissionNotDraft | ErrRevisionConflict | ErrMissionNotStartable
  | ErrMissionNotCancellable | ErrMissionHasNoTasks | ErrMissionHasNoReadyTasks
  | ErrReviewAlreadyRecorded | ErrBudgetApprovalNotRequired | ErrHumanGateNotPending
  | ErrHumanGateRevisionConflict | ErrHumanGateResolutionRequired | ErrMissionNotRetryable
  | ErrTaskNodeNotRetryable | ErrTaskRevisionConflict | ErrRoutingSelectionUnstable
  | ErrRolePolicyAlreadyFrozen | ErrOwnerRequired | ErrNoRows | ErrPlanningInProgress
  | ErrNoPlanningAgent | ErrPlanProposalNotPending | ErrMailboxPermissionDenied
  | ErrMailboxReferenceInvalid | ErrMailboxDedupeConflict | ErrMailboxStatusConflict
  | ErrMailboxExpired | ErrInvalidActivityCursor | ErrInvalidActivityLimit | CommandRace
  | ErrOrchestrationRunNotDispatchable | ErrNotOrchestrationTask
  | RoutingUnavailableError Duty json
  | UniqueViolation string
  | transitionError string string string
  | CommandValidationError "ValidationError list"
  | Errorf string
  | Wrapped string error

end
