(* ===== verification/Budget.thy ===== *)
theory Budget
  imports OrchTypes
begin

text \<open>
  \<open>budget.go\<close>: admission of a run against the mission's budget, and the validation of budget
  policies and estimates.  The amounts are \<open>int64\<close>; \<open>saturatingAdd\<close> is written with the wrap-around
  of the final \<open>left + right\<close>.  \<open>budget_ok\<close> is the abstract contract: the exact sums, cut off at
  the largest \<open>int64\<close>, stay within the limit.
\<close>

definition BudgetGateFailClosed :: string where "BudgetGateFailClosed = ''fail_closed''"
definition BudgetGateOwnerApproval :: string where "BudgetGateOwnerApproval = ''owner_approval''"
definition BudgetGateStatusNone :: string where "BudgetGateStatusNone = ''none''"
definition BudgetGateStatusApproved :: string where "BudgetGateStatusApproved = ''approved''"
definition BudgetGateStatusApprovalRequired :: string where
  "BudgetGateStatusApprovalRequired = ''approval_required''"
definition BudgetGateStatusExceeded :: string where "BudgetGateStatusExceeded = ''exceeded''"

lemmas budget_gate_defs =
  BudgetGateFailClosed_def BudgetGateOwnerApproval_def BudgetGateStatusNone_def
  BudgetGateStatusApproved_def BudgetGateStatusApprovalRequired_def BudgetGateStatusExceeded_def

record BudgetUsage =
  ConsumedTokens :: int
  ReservedTokens :: int
  ConsumedCostUSDTicks :: int
  ReservedCostUSDTicks :: int

record BudgetAllowance =
  GrantTokens :: int
  GrantCostUSDTicks :: int

record BudgetDecision =
  Allowed :: bool
  bd_Status :: string
  Dimension :: string
  Limit :: int
  Consumed :: int
  Reserved :: int
  Candidate :: int
  Effective :: int

definition allowedBudgetDecision :: "string \<Rightarrow> BudgetDecision" where
  "allowedBudgetDecision status =
     \<lparr>Allowed = True, bd_Status = status, Dimension = [], Limit = 0, Consumed = 0,
      Reserved = 0, Candidate = 0, Effective = 0\<rparr>"

definition saturatingAdd :: "int \<Rightarrow> int \<Rightarrow> int" where
  "saturatingAdd left right =
     (if right > 0 \<and> left > i64 (max_int64 - right) then max_int64 else i64 (left + right))"

definition exceededBudgetDecision ::
    "string \<Rightarrow> string \<Rightarrow> int \<Rightarrow> int \<Rightarrow> int \<Rightarrow> int \<Rightarrow> int \<Rightarrow> BudgetDecision" where
  "exceededBudgetDecision gate dimension limit consumed reserved candidate effective =
     (let status = (if gate = BudgetGateOwnerApproval then BudgetGateStatusApprovalRequired
                    else BudgetGateStatusExceeded) in
      \<lparr>Allowed = False, bd_Status = status, Dimension = dimension, Limit = limit,
       Consumed = consumed, Reserved = reserved, Candidate = candidate,
       Effective = effective\<rparr>)"

definition EvaluateBudgetAdmission ::
    "BudgetPolicy option \<Rightarrow> BudgetUsage \<Rightarrow> BudgetAllowance \<Rightarrow> BudgetEstimate \<Rightarrow> BudgetDecision" where
  "EvaluateBudgetAdmission policy usage allowance candidate =
     (case policy of
        None \<Rightarrow> allowedBudgetDecision BudgetGateStatusNone
      | Some p \<Rightarrow>
          let check = (\<lambda>max grant dimension consumed reserved cand.
                case max of
                  None \<Rightarrow> None
                | Some m \<Rightarrow>
                    let limit = saturatingAdd m grant;
                        effective = saturatingAdd (saturatingAdd consumed reserved) cand in
                    if effective > limit
                    then Some (exceededBudgetDecision (Gate p) dimension limit consumed reserved
                                 cand effective)
                    else None) in
          case check (MaxTokens p) (GrantTokens allowance) ''tokens'' (ConsumedTokens usage)
                 (ReservedTokens usage) (est_Tokens candidate) of
            Some d \<Rightarrow> d
          | None \<Rightarrow>
              (case check (MaxCostUSDTicks p) (GrantCostUSDTicks allowance) ''cost_usd_ticks''
                      (ConsumedCostUSDTicks usage) (ReservedCostUSDTicks usage)
                      (est_CostUSDTicks candidate) of
                 Some d \<Rightarrow> d
               | None \<Rightarrow>
                   allowedBudgetDecision
                     (if GrantTokens allowance > 0 \<or> GrantCostUSDTicks allowance > 0
                      then BudgetGateStatusApproved else BudgetGateStatusNone)))"

definition AddBudgetReservation :: "BudgetUsage \<Rightarrow> BudgetEstimate \<Rightarrow> BudgetUsage" where
  "AddBudgetReservation usage estimate =
     usage\<lparr>ReservedTokens := saturatingAdd (ReservedTokens usage) (est_Tokens estimate),
           ReservedCostUSDTicks :=
             saturatingAdd (ReservedCostUSDTicks usage) (est_CostUSDTicks estimate)\<rparr>"

definition verr :: "string \<Rightarrow> string \<Rightarrow> string \<Rightarrow> ValidationError" where
  "verr path code message = \<lparr>Path = path, Code = code, Message = message\<rparr>"

definition err_when :: "bool \<Rightarrow> string \<Rightarrow> string \<Rightarrow> string \<Rightarrow> ValidationError list" where
  "err_when b path code message = (if b then [verr path code message] else [])"

lemma err_when_Nil [simp]: "err_when b p c m = [] \<longleftrightarrow> \<not> b"
  by (simp add: err_when_def)

lemma err_when_False [simp]: "err_when False p c m = []"
  by (simp add: err_when_def)

definition validateBudgetPolicy :: "BudgetPolicy option \<Rightarrow> ValidationError list" where
  "validateBudgetPolicy policy =
     (case policy of
        None \<Rightarrow> []
      | Some p \<Rightarrow>
          err_when (MaxTokens p = None \<and> MaxCostUSDTicks p = None)
            ''limits.budget'' ''missing_budget_limit'' ''at least one budget limit is required'' @
          err_when (case MaxTokens p of None \<Rightarrow> False | Some v \<Rightarrow> v < 1)
            ''limits.budget.max_tokens'' ''invalid_budget_limit'' ''max_tokens must be at least 1'' @
          err_when (case MaxCostUSDTicks p of None \<Rightarrow> False | Some v \<Rightarrow> v < 1)
            ''limits.budget.max_cost_usd_ticks'' ''invalid_budget_limit''
            ''max_cost_usd_ticks must be at least 1'' @
          err_when (Gate p \<noteq> BudgetGateFailClosed \<and> Gate p \<noteq> BudgetGateOwnerApproval)
            ''limits.budget.gate'' ''invalid_budget_gate''
            (''budget gate must be '' @ go_quote BudgetGateFailClosed @ '' or '' @
             go_quote BudgetGateOwnerApproval))"

definition validateNodeBudgetEstimate ::
    "PlanNode \<Rightarrow> nat \<Rightarrow> BudgetPolicy option \<Rightarrow> ValidationError list" where
  "validateNodeBudgetEstimate node index policy =
     (let est = pn_BudgetEstimate node; path = ''nodes['' @ string_of_nat index @ '']'' in
      if est_Tokens est < 0 \<or> est_CostUSDTicks est < 0 then
        [verr (path @ ''.budget_estimate'') ''invalid_budget_estimate''
           ''budget estimates cannot be negative'']
      else case policy of
        None \<Rightarrow> []
      | Some p \<Rightarrow>
          err_when (MaxTokens p \<noteq> None \<and> est_Tokens est < 1)
            (path @ ''.budget_estimate.tokens'') ''missing_budget_estimate''
            ''a positive token estimate is required when max_tokens is enabled'' @
          err_when (MaxCostUSDTicks p \<noteq> None \<and> est_CostUSDTicks est < 1)
            (path @ ''.budget_estimate.cost_usd_ticks'') ''missing_budget_estimate''
            ''a positive cost estimate is required when max_cost_usd_ticks is enabled'')"

section \<open>Saturation\<close>

lemma saturatingAdd_nonneg:
  assumes "0 \<le> x" and "0 \<le> y" and "x \<le> max_int64" and "y \<le> max_int64"
  shows "saturatingAdd x y = min max_int64 (x + y)"
proof (cases "y > 0 \<and> x > max_int64 - y")
  case True
  with assms show ?thesis
    by (simp add: saturatingAdd_def i64_id is_int64_def min_int64_def max_int64_def)
next
  case False
  with assms have "x + y \<le> max_int64" by auto
  with assms False show ?thesis
    by (simp add: saturatingAdd_def i64_id is_int64_def min_int64_def max_int64_def)
qed

lemma saturatingAdd_range: "is_int64 (saturatingAdd x y)"
  by (auto simp: saturatingAdd_def is_int64_i64) (simp add: is_int64_def max_int64_def min_int64_def)

lemma saturatingAdd_bounds:
  assumes "0 \<le> x" and "0 \<le> y" and "x \<le> max_int64" and "y \<le> max_int64"
  shows "0 \<le> saturatingAdd x y \<and> saturatingAdd x y \<le> max_int64"
  using assms by (simp add: saturatingAdd_nonneg max_int64_def)

section \<open>The admission contract\<close>

definition nonneg64 :: "int \<Rightarrow> bool" where
  "nonneg64 x \<longleftrightarrow> 0 \<le> x \<and> x \<le> max_int64"

definition usage_ok :: "BudgetUsage \<Rightarrow> bool" where
  "usage_ok u \<longleftrightarrow> nonneg64 (ConsumedTokens u) \<and> nonneg64 (ReservedTokens u) \<and>
     nonneg64 (ConsumedCostUSDTicks u) \<and> nonneg64 (ReservedCostUSDTicks u)"

definition allowance_ok :: "BudgetAllowance \<Rightarrow> bool" where
  "allowance_ok a \<longleftrightarrow> nonneg64 (GrantTokens a) \<and> nonneg64 (GrantCostUSDTicks a)"

definition estimate_ok :: "BudgetEstimate \<Rightarrow> bool" where
  "estimate_ok e \<longleftrightarrow> nonneg64 (est_Tokens e) \<and> nonneg64 (est_CostUSDTicks e)"

definition policy_ok :: "BudgetPolicy \<Rightarrow> bool" where
  "policy_ok p \<longleftrightarrow>
     (\<forall>v \<in> set_option (MaxTokens p). nonneg64 v) \<and>
     (\<forall>v \<in> set_option (MaxCostUSDTicks p). nonneg64 v)"

definition dim_ok :: "int option \<Rightarrow> int \<Rightarrow> int \<Rightarrow> bool" where
  "dim_ok limit grant amount \<longleftrightarrow>
     (case limit of None \<Rightarrow> True | Some m \<Rightarrow> min max_int64 amount \<le> min max_int64 (m + grant))"

definition budget_ok ::
    "BudgetPolicy \<Rightarrow> BudgetAllowance \<Rightarrow> int \<Rightarrow> int \<Rightarrow> bool" where
  "budget_ok p a tokens ticks \<longleftrightarrow>
     dim_ok (MaxTokens p) (GrantTokens a) tokens \<and>
     dim_ok (MaxCostUSDTicks p) (GrantCostUSDTicks a) ticks"

definition usage_tokens :: "BudgetUsage \<Rightarrow> int" where
  "usage_tokens u = ConsumedTokens u + ReservedTokens u"

definition usage_ticks :: "BudgetUsage \<Rightarrow> int" where
  "usage_ticks u = ConsumedCostUSDTicks u + ReservedCostUSDTicks u"

lemma saturatingAdd_three:
  assumes "nonneg64 a" and "nonneg64 b" and "nonneg64 c"
  shows "saturatingAdd (saturatingAdd a b) c = min max_int64 (a + b + c)"
proof -
  have ab: "saturatingAdd a b = min max_int64 (a + b)"
    using assms by (simp add: saturatingAdd_nonneg nonneg64_def)
  have "saturatingAdd (min max_int64 (a + b)) c = min max_int64 (min max_int64 (a + b) + c)"
    using assms by (intro saturatingAdd_nonneg) (auto simp: nonneg64_def max_int64_def)
  also have "\<dots> = min max_int64 (a + b + c)"
    using assms by (auto simp: nonneg64_def)
  finally show ?thesis by (simp add: ab)
qed

lemma admission_iff:
  assumes "usage_ok u" and "allowance_ok a" and "estimate_ok e" and "policy_ok p"
  shows "Allowed (EvaluateBudgetAdmission (Some p) u a e) \<longleftrightarrow>
    budget_ok p a (usage_tokens u + est_Tokens e) (usage_ticks u + est_CostUSDTicks e)"
  using assms
  by (auto simp: EvaluateBudgetAdmission_def Let_def budget_ok_def dim_ok_def usage_ok_def
      allowance_ok_def estimate_ok_def policy_ok_def saturatingAdd_three saturatingAdd_nonneg
      nonneg64_def usage_tokens_def usage_ticks_def exceededBudgetDecision_def
      allowedBudgetDecision_def split: option.splits)

lemma admission_None: "Allowed (EvaluateBudgetAdmission None u a e)"
  by (simp add: EvaluateBudgetAdmission_def allowedBudgetDecision_def)

lemma admission_status:
  "bd_Status (EvaluateBudgetAdmission p u a e) \<in>
     (if Allowed (EvaluateBudgetAdmission p u a e)
      then {BudgetGateStatusNone, BudgetGateStatusApproved}
      else {BudgetGateStatusApprovalRequired, BudgetGateStatusExceeded})"
  by (auto simp: EvaluateBudgetAdmission_def Let_def exceededBudgetDecision_def
      allowedBudgetDecision_def split: option.splits)

lemma dim_ok_mono: "dim_ok l g t \<Longrightarrow> t' \<le> t \<Longrightarrow> dim_ok l g t'"
  by (auto simp: dim_ok_def split: option.splits)

lemma dim_ok_grant_mono: "dim_ok l g t \<Longrightarrow> g \<le> g' \<Longrightarrow> dim_ok l g' t"
  by (auto simp: dim_ok_def split: option.splits)

lemma reservation_ok: "usage_ok u \<Longrightarrow> estimate_ok e \<Longrightarrow> usage_ok (AddBudgetReservation u e)"
  by (auto simp: usage_ok_def estimate_ok_def AddBudgetReservation_def nonneg64_def
      saturatingAdd_bounds)

lemma dim_ok_min: "0 \<le> c \<Longrightarrow> dim_ok l g (c + min max_int64 r) \<longleftrightarrow> dim_ok l g (c + r)"
  by (auto simp: dim_ok_def min_def split: option.splits)

lemma reservation_budget_ok:
  assumes "usage_ok u" and "estimate_ok e"
  shows "budget_ok p a (usage_tokens (AddBudgetReservation u e))
           (usage_ticks (AddBudgetReservation u e)) \<longleftrightarrow>
     budget_ok p a (usage_tokens u + est_Tokens e) (usage_ticks u + est_CostUSDTicks e)"
  using assms
  by (simp add: budget_ok_def usage_tokens_def usage_ticks_def AddBudgetReservation_def
      usage_ok_def estimate_ok_def nonneg64_def saturatingAdd_nonneg dim_ok_min add.assoc)

text \<open>
  Admission of a sequence of candidates as a dispatch loop performs it: each admitted estimate is
  reserved before the next candidate is looked at, and the loop stops at the first refusal.
\<close>

fun admit_all ::
    "BudgetPolicy option \<Rightarrow> BudgetAllowance \<Rightarrow> BudgetUsage \<Rightarrow> BudgetEstimate list \<Rightarrow>
     BudgetUsage \<times> nat" where
  "admit_all p a u [] = (u, 0)"
| "admit_all p a u (e # es) =
     (if Allowed (EvaluateBudgetAdmission p u a e)
      then (case admit_all p a (AddBudgetReservation u e) es of (u', n) \<Rightarrow> (u', Suc n))
      else (u, 0))"

lemma admit_all_within_budget:
  assumes "usage_ok u" and "allowance_ok a" and "policy_ok p" and "\<forall>e \<in> set es. estimate_ok e"
    and "budget_ok p a (usage_tokens u) (usage_ticks u)"
  shows "budget_ok p a (usage_tokens (fst (admit_all (Some p) a u es)))
           (usage_ticks (fst (admit_all (Some p) a u es)))"
  using assms
proof (induction es arbitrary: u)
  case Nil
  then show ?case by simp
next
  case (Cons e es)
  show ?case
  proof (cases "Allowed (EvaluateBudgetAdmission (Some p) u a e)")
    case True
    then have "budget_ok p a (usage_tokens (AddBudgetReservation u e))
        (usage_ticks (AddBudgetReservation u e))"
      using Cons.prems by (simp add: admission_iff reservation_budget_ok)
    moreover have "usage_ok (AddBudgetReservation u e)"
      using Cons.prems by (simp add: reservation_ok)
    ultimately show ?thesis
      using Cons.IH [of "AddBudgetReservation u e"] Cons.prems True
      by (simp split: prod.splits) (metis fst_conv)
  next
    case False
    with Cons.prems show ?thesis by simp
  qed
qed

section \<open>Validation\<close>

lemma validateBudgetPolicy_Nil_iff:
  "validateBudgetPolicy (Some p) = [] \<longleftrightarrow>
     (MaxTokens p \<noteq> None \<or> MaxCostUSDTicks p \<noteq> None) \<and>
     (\<forall>v \<in> set_option (MaxTokens p). 1 \<le> v) \<and>
     (\<forall>v \<in> set_option (MaxCostUSDTicks p). 1 \<le> v) \<and>
     Gate p \<in> {BudgetGateFailClosed, BudgetGateOwnerApproval}"
  by (auto simp: validateBudgetPolicy_def split: option.splits)

lemma validateNodeBudgetEstimate_Nil_iff:
  "validateNodeBudgetEstimate n i policy = [] \<longleftrightarrow>
     0 \<le> est_Tokens (pn_BudgetEstimate n) \<and> 0 \<le> est_CostUSDTicks (pn_BudgetEstimate n) \<and>
     (\<forall>p \<in> set_option policy.
        (MaxTokens p \<noteq> None \<longrightarrow> 1 \<le> est_Tokens (pn_BudgetEstimate n)) \<and>
        (MaxCostUSDTicks p \<noteq> None \<longrightarrow> 1 \<le> est_CostUSDTicks (pn_BudgetEstimate n)))"
  by (auto simp: validateNodeBudgetEstimate_def Let_def split: option.splits)

end
