(* ===== verification/GoText.thy ===== *)
theory GoText
  imports Prelude "HOL-Library.Word"
begin

text \<open>
  More of Go's standard library: UTF-8 decoding as \<open>unicode/utf8\<close> does it, the text
  \<open>encoding/json\<close> writes for a document, hexadecimal text and \<open>crypto/sha256\<close>.  The hash is the
  real function (FIPS 180-4 on 32-bit words), so that the references and content hashes of the
  routing and role-policy components are the ones the program computes.
\<close>

section \<open>UTF-8\<close>

definition byte :: "char \<Rightarrow> nat" where
  "byte c = of_char c"

definition between :: "nat \<Rightarrow> nat \<Rightarrow> nat \<Rightarrow> bool" where
  "between lo hi n \<longleftrightarrow> lo \<le> n \<and> n \<le> hi"

definition cont :: "char \<Rightarrow> bool" where
  "cont c \<longleftrightarrow> between 0x80 0xBF (byte c)"

text \<open>The length of the rune at the start of a string, \<open>None\<close> where the bytes are not valid
  UTF-8 (Go then consumes one byte and reports U+FFFD).\<close>

fun rune3 :: "nat \<Rightarrow> char \<Rightarrow> char \<Rightarrow> bool" where
  "rune3 a b c =
     (cont c \<and>
      (if a = 0xE0 then between 0xA0 0xBF (byte b)
       else if a = 0xED then between 0x80 0x9F (byte b)
       else between 0xE1 0xEF a \<and> cont b))"

fun rune4 :: "nat \<Rightarrow> char \<Rightarrow> char \<Rightarrow> char \<Rightarrow> bool" where
  "rune4 a b c d =
     (cont c \<and> cont d \<and>
      (if a = 0xF0 then between 0x90 0xBF (byte b)
       else if a = 0xF4 then between 0x80 0x8F (byte b)
       else between 0xF1 0xF3 a \<and> cont b))"

fun rune_len :: "string \<Rightarrow> nat option" where
  "rune_len [] = None"
| "rune_len (a # s) =
     (if byte a < 0x80 then Some 1
      else case s of
        b # s' \<Rightarrow>
          if between 0xC2 0xDF (byte a) \<and> cont b then Some 2
          else (case s' of
            c # s'' \<Rightarrow>
              if rune3 (byte a) b c then Some 3
              else (case s'' of
                d # _ \<Rightarrow> if rune4 (byte a) b c d then Some 4 else None
              | [] \<Rightarrow> None)
          | [] \<Rightarrow> None)
      | [] \<Rightarrow> None)"

definition rune_step :: "string \<Rightarrow> nat" where
  "rune_step s = (case rune_len s of None \<Rightarrow> 1 | Some n \<Rightarrow> n)"

lemma rune_step_pos: "0 < rune_step s"
  by (cases s) (auto simp: rune_step_def split: option.splits list.splits if_splits)

lemma rune_step_le: "s \<noteq> [] \<Longrightarrow> rune_step s \<le> length s"
  by (cases s) (auto simp: rune_step_def split: option.splits list.splits if_splits)

function RuneCount :: "string \<Rightarrow> nat" where
  "RuneCount s = (if s = [] then 0 else Suc (RuneCount (drop (rune_step s) s)))"
  by pat_completeness auto
termination by (relation "measure length") (auto simp: rune_step_pos)

declare RuneCount.simps [simp del]

function ValidString :: "string \<Rightarrow> bool" where
  "ValidString s = (if s = [] then True
     else rune_len s \<noteq> None \<and> ValidString (drop (rune_step s) s))"
  by pat_completeness auto
termination by (relation "measure length") (auto simp: rune_step_pos)

declare ValidString.simps [simp del]

lemma ValidString_Nil [simp]: "ValidString []"
  by (simp add: ValidString.simps)

lemma ValidString_ascii: "list_all (\<lambda>c. byte c < 128) s \<Longrightarrow> ValidString s"
  by (induction s) (subst ValidString.simps, simp add: rune_step_def)+

lemma RuneCount_le_length: "RuneCount s \<le> length s"
proof (induction s rule: RuneCount.induct)
  case (1 s)
  show ?case
  proof (cases "s = []")
    case False
    have "RuneCount (drop (rune_step s) s) \<le> length s - rune_step s" using 1 False by simp
    moreover have "0 < rune_step s" "rune_step s \<le> length s"
      using rune_step_pos rune_step_le False by auto
    ultimately show ?thesis by (subst RuneCount.simps) (simp add: False)
  qed (simp add: RuneCount.simps)
qed

section \<open>JSON text\<close>

definition hex2 :: "nat \<Rightarrow> string" where
  "hex2 n = [hex_digit (n div 16 mod 16), hex_digit (n mod 16)]"

definition json_char :: "char \<Rightarrow> string" where
  "json_char c =
     (if c = CHR 0x22 then [CHR 0x5C, CHR 0x22]
      else if c = CHR 0x5C then [CHR 0x5C, CHR 0x5C]
      else if c = CHR 0x08 then CHR 0x5C # ''b''
      else if c = CHR 0x0C then CHR 0x5C # ''f''
      else if c = CHR 0x0A then CHR 0x5C # ''n''
      else if c = CHR 0x0D then CHR 0x5C # ''r''
      else if c = CHR 0x09 then CHR 0x5C # ''t''
      else if byte c < 32 \<or> c = CHR ''<'' \<or> c = CHR ''>'' \<or> c = CHR ''&''
      then CHR 0x5C # ''u00'' @ hex2 (byte c)
      else [c])"

text \<open>The body of a JSON string: runes are copied, except that \<open>encoding/json\<close> escapes the HTML
  characters, U+2028 and U+2029, and replaces invalid bytes by U+FFFD.\<close>

function json_body :: "string \<Rightarrow> string" where
  "json_body s =
     (case s of
        [] \<Rightarrow> []
      | c # _ \<Rightarrow>
          (case rune_len s of
             None \<Rightarrow> CHR 0x5C # ''ufffd''
           | Some n \<Rightarrow>
               if n = 1 then json_char c
               else if take n s = [CHR 0xE2, CHR 0x80, CHR 0xA8] then CHR 0x5C # ''u2028''
               else if take n s = [CHR 0xE2, CHR 0x80, CHR 0xA9] then CHR 0x5C # ''u2029''
               else take n s) @
          json_body (drop (rune_step s) s))"
  by pat_completeness auto
termination by (relation "measure length") (auto simp: rune_step_pos)

declare json_body.simps [simp del]

definition json_string :: "string \<Rightarrow> string" where
  "json_string s = [CHR 0x22] @ json_body s @ [CHR 0x22]"

fun sep_by :: "string list \<Rightarrow> string" where
  "sep_by [] = []"
| "sep_by [x] = x"
| "sep_by (x # y # xs) = x @ '','' @ sep_by (y # xs)"

fun json_marshal :: "json \<Rightarrow> string" where
  "json_marshal JNull = ''null''"
| "json_marshal (JBool b) = (if b then ''true'' else ''false'')"
| "json_marshal (JNum i) = string_of_int i"
| "json_marshal (JReal r) = r"
| "json_marshal (JStr s) = json_string s"
| "json_marshal (JArr xs) = ''['' @ sep_by (map json_marshal xs) @ '']''"
| "json_marshal (JObj ms) =
     ''{'' @ sep_by (map (\<lambda>(k, v). json_string k @ '':'' @ json_marshal v) ms) @ ''}''"

section \<open>SHA-256\<close>

type_synonym w32 = "32 word"

text \<open>The round constants and the initial state, each as one number that holds the 32-bit words from the
  most significant one down.\<close>

definition sha_words :: "nat \<Rightarrow> nat \<Rightarrow> w32 list" where
  "sha_words n table = map (\<lambda>i. of_nat (table div 2 ^ (32 * (n - 1 - i)) mod 2 ^ 32)) [0..<n]"

definition sha_k :: "w32 list" where
  "sha_k = sha_words 64
     8399870144517823301722239222130927227141849779511242471197906795369846673996008864786532278482947930035050432913372875699354429524650716672308175015812472005008943341011247634627600705591103756174659437448007297240981034636327441933849465611186184660803773840414514428031635770391245199770927811112653141372483794982516161135727373084047811483050876080270389320947077305721183235613169389468744126235534648516788175255292025668825020963291224099932572215580391753777671218957634024159536228058522778003881673030597872562207069818177476920296259993961459554031943090626293016819766823808480230688357231269177224952050"

definition sha_h0 :: "w32 list" where
  "sha_h0 = sha_words 8
     47962653771679561900652889051773562940742041696833059450490514104358170316057"

unbundle bit_operations_syntax

definition sha_ch :: "w32 \<Rightarrow> w32 \<Rightarrow> w32 \<Rightarrow> w32" where
  "sha_ch e f g = xor (e AND f) ((NOT e) AND g)"

definition sha_maj :: "w32 \<Rightarrow> w32 \<Rightarrow> w32 \<Rightarrow> w32" where
  "sha_maj a b c = xor (xor (a AND b) (a AND c)) (b AND c)"

definition rotr :: "nat \<Rightarrow> w32 \<Rightarrow> w32" where
  "rotr n x = (drop_bit n x) OR (push_bit (32 - n) x)"

definition big_sigma0 :: "w32 \<Rightarrow> w32" where
  "big_sigma0 x = xor (xor (rotr 2 x) (rotr 13 x)) (rotr 22 x)"

definition big_sigma1 :: "w32 \<Rightarrow> w32" where
  "big_sigma1 x = xor (xor (rotr 6 x) (rotr 11 x)) (rotr 25 x)"

definition small_sigma0 :: "w32 \<Rightarrow> w32" where
  "small_sigma0 x = xor (xor (rotr 7 x) (rotr 18 x)) (drop_bit 3 x)"

definition small_sigma1 :: "w32 \<Rightarrow> w32" where
  "small_sigma1 x = xor (xor (rotr 17 x) (rotr 19 x)) (drop_bit 10 x)"

text \<open>The message schedule, kept newest first.\<close>

fun sha_extend :: "nat \<Rightarrow> w32 list \<Rightarrow> w32 list" where
  "sha_extend 0 ws = ws"
| "sha_extend (Suc n) ws =
     sha_extend n ((small_sigma1 (ws ! 1) + ws ! 6 + small_sigma0 (ws ! 14) + ws ! 15) # ws)"

fun sha_round :: "w32 \<times> w32 \<Rightarrow> w32 list \<Rightarrow> w32 list" where
  "sha_round (k, w) [a, b, c, d, e, f, g, h] =
     (let t1 = h + big_sigma1 e + sha_ch e f g + k + w;
          t2 = big_sigma0 a + sha_maj a b c in
      [t1 + t2, a, b, c, d + t1, e, f, g])"
| "sha_round _ st = st"

definition sha_block :: "w32 list \<Rightarrow> w32 list \<Rightarrow> w32 list" where
  "sha_block block h =
     map2 (+) h (fold sha_round (zip sha_k (rev (sha_extend 48 (rev block)))) h)"

fun be_words :: "nat list \<Rightarrow> w32 list" where
  "be_words (a # b # c # d # bs) =
     word_of_nat (((a * 256 + b) * 256 + c) * 256 + d) # be_words bs"
| "be_words _ = []"

definition be_bytes :: "nat \<Rightarrow> nat \<Rightarrow> nat list" where
  "be_bytes len n = map (\<lambda>i. n div 256 ^ (len - 1 - i) mod 256) [0 ..< len]"

definition sha_pad :: "nat list \<Rightarrow> nat list" where
  "sha_pad bs = bs @ [128] @ replicate ((119 - length bs mod 64) mod 64) 0 @
     be_bytes 8 (8 * length bs)"

function sha_blocks :: "w32 list \<Rightarrow> w32 list \<Rightarrow> w32 list" where
  "sha_blocks ws h = (if ws = [] then h else sha_blocks (drop 16 ws) (sha_block (take 16 ws) h))"
  by pat_completeness auto
termination by (relation "measure (length \<circ> fst)") auto

declare sha_blocks.simps [simp del]

definition sha256 :: "string \<Rightarrow> nat list" where
  "sha256 s = concat (map (\<lambda>w. be_bytes 4 (unat w)) (sha_blocks (be_words (sha_pad (map byte s))) sha_h0))"

definition hex_encode :: "nat list \<Rightarrow> string" where
  "hex_encode bs = concat (map hex2 bs)"


section \<open>What lies outside the repository\<close>

text \<open>
  The parameters of the model: \<open>uuid.Parse\<close> of \<open>github.com/google/uuid\<close> and \<open>Scan\<close> of pgx's
  \<open>pgtype.UUID\<close> (the canonical text of the UUID they parse, \<open>None\<close> for an error), \<open>uuid.NewSHA1\<close> (of the text of the
  name space and the name), the length of the
  text PostgreSQL renders a \<open>jsonb\<close> value with, its \<open>gen_random_uuid()\<close> (the \<open>n\<close>-th value drawn) and
  its \<open>now()\<close>, the time of the transaction.  \<open>env_ok\<close> names what the proofs may assume of them:
  parsing gives back a canonical text unchanged and so does scanning, and generated values are
  distinct canonical non-zero UUIDs.
\<close>

record env =
  env_uuid_parse :: "string \<Rightarrow> string option"
  env_uuid_scan :: "string \<Rightarrow> string option"
  env_uuid_sha1 :: "string \<Rightarrow> string \<Rightarrow> string"
  env_jsonb_size :: "json \<Rightarrow> nat"
  env_gen_uuid :: "nat \<Rightarrow> string"
  env_now :: time

definition env_ok :: "env \<Rightarrow> bool" where
  "env_ok \<epsilon> \<longleftrightarrow>
     (\<forall>s t. env_uuid_parse \<epsilon> s = Some t \<longrightarrow> env_uuid_parse \<epsilon> t = Some t) \<and>
     (\<forall>s. env_uuid_parse \<epsilon> s = Some s \<longrightarrow> env_uuid_scan \<epsilon> s = Some s) \<and>
     inj (env_gen_uuid \<epsilon>) \<and>
     (\<forall>n. env_uuid_parse \<epsilon> (env_gen_uuid \<epsilon> n) = Some (env_gen_uuid \<epsilon> n) \<and>
          env_gen_uuid \<epsilon> n \<noteq> nil_uuid)"

text \<open>
  \<open>Time.MarshalJSON\<close>: the layout \<open>RFC3339Nano\<close> of a UTC time, with the trailing zeros of the fraction
  dropped; an error outside the years 0 to 9999.  The civil date is computed from the day number with
  years that begin in March.
\<close>

definition civil_date :: "int \<Rightarrow> int \<times> int \<times> int" where
  "civil_date days =
     (let z = days + 719468; era = z div 146097; doe = z mod 146097;
          yoe = (doe - doe div 1460 + doe div 36524 - doe div 146096) div 365;
          doy = doe - (365 * yoe + yoe div 4 - yoe div 100);
          mp = (5 * doy + 2) div 153;
          d = doy - (153 * mp + 2) div 5 + 1;
          m = (if mp < 10 then mp + 3 else mp - 9) in
      (yoe + era * 400 + (if m \<le> 2 then 1 else 0), m, d))"

definition pad_digits :: "nat \<Rightarrow> int \<Rightarrow> string" where
  "pad_digits n v = (let s = string_of_nat (nat v) in replicate (n - length s) (CHR ''0'') @ s)"

definition time_fraction :: "int \<Rightarrow> string" where
  "time_fraction nanos =
     (if nanos = 0 then []
      else CHR ''.'' # rev (dropWhile (\<lambda>c. c = CHR ''0'') (rev (pad_digits 9 nanos))))"

definition time_text :: "time \<Rightarrow> string option" where
  "time_text t =
     (let secs = t div 1000000000; days = secs div 86400; sod = secs mod 86400 in
      case civil_date days of (y, m, d) \<Rightarrow>
        if y < 0 \<or> 9999 < y then None
        else Some (pad_digits 4 y @ ''-'' @ pad_digits 2 m @ ''-'' @ pad_digits 2 d @ ''T'' @
          pad_digits 2 (sod div 3600) @ '':'' @ pad_digits 2 (sod div 60 mod 60) @ '':'' @
          pad_digits 2 (sod mod 60) @ time_fraction (t mod 1000000000) @ ''Z''))"

end
