(* ===== verification/RoleConfig.thy ===== *)
theory RoleConfig
  imports Budget GoText
begin

text \<open>
  The configuration behind a role profile (\<open>role_profile.go\<close>) and the role-policy bindings of
  \<open>role_policy_snapshot.go\<close>: their types, their normalization and validation.  The lemmas show that
  normalization is idempotent and keeps a configuration valid, so a stored configuration is
  accepted again, unchanged, whenever it is read back, and that start bindings are accepted
  exactly when they name each of the three start duties once.
\<close>

record RoleRuntimePreferences =
  AllowedRuntimeIDs :: "string list"
  PreferredRuntimeIDs :: "string list"
  Providers :: "string list"
  Models :: "string list"

record RoleToolPermissions =
  AllowedTools :: "string list"
  AllowedPaths :: "string list"

record RoleBudgetLimits =
  rb_MaxTokens :: "int option"
  rb_MaxCostUSDTicks :: "int option"
  rb_MaxReworkCycles :: int
  rb_MaxTechnicalRetries :: int

record RoleProfileConfig =
  Instructions :: string
  RequiredCapabilities :: "string list"
  cfg_Runtime :: RoleRuntimePreferences
  cfg_Tools :: RoleToolPermissions
  cfg_Budget :: RoleBudgetLimits
  cfg_TimeoutSeconds :: int
  cfg_MaxConcurrency :: int

definition maxRoleProfileInstructionsBytes :: nat where
  "maxRoleProfileInstructionsBytes = 32 * 1024"

definition maxRoleProfileListItems :: nat where "maxRoleProfileListItems = 64"

text \<open>The pattern of profile keys: a lower-case letter, then at most 63 of \<open>[a-z0-9_-]\<close>.\<close>

definition key_lower :: "char \<Rightarrow> bool" where
  "key_lower c \<longleftrightarrow> between 97 122 (byte c)"

fun roleProfileKeyPattern :: "string \<Rightarrow> bool" where
  "roleProfileKeyPattern [] = False"
| "roleProfileKeyPattern (c # cs) =
     (key_lower c \<and>
      list_all (\<lambda>d. key_lower d \<or> between 48 57 (byte d) \<or> d = CHR ''_'' \<or> d = CHR ''-'') cs \<and>
      length cs \<le> 63)"

definition validateRoleProfileIdentity ::
    "string \<Rightarrow> Duty \<Rightarrow> string \<Rightarrow> string \<Rightarrow> ValidationError list" where
  "validateRoleProfileIdentity key duty name description =
     err_when (\<not> roleProfileKeyPattern key) ''profile_key'' ''invalid_profile_key''
       (''profile_key must start with a lowercase letter and contain only lowercase letters, '' @
        ''digits, underscores, or hyphens'') @
     err_when (\<not> Duty_Valid duty) ''duty'' ''invalid_duty''
       ''duty must be planner, executor, reviewer, or integrator'' @
     err_when (name = [] \<or> RuneCount name > 120) ''name'' ''invalid_name''
       ''name must contain between 1 and 120 characters'' @
     err_when (RuneCount description > 1000) ''description'' ''description_too_long''
       ''description must contain at most 1000 characters''"

section \<open>Lists\<close>

text \<open>The loop over the raw values: \<open>None\<close> stands for the return on an invalid item.\<close>

fun normalize_items :: "string list \<Rightarrow> string list \<Rightarrow> string list option" where
  "normalize_items acc [] = Some acc"
| "normalize_items acc (raw # raws) =
     (let value = TrimSpace raw in
      if value = [] \<or> length value > 512 then None
      else if value \<in> set acc then normalize_items acc raws
      else normalize_items (acc @ [value]) raws)"

definition normalizeRoleProfileList ::
    "string \<Rightarrow> string list \<Rightarrow> bool \<Rightarrow> string list \<times> ValidationError list" where
  "normalizeRoleProfileList path values preserveOrder =
     (if length values > maxRoleProfileListItems
      then ([], [verr path ''too_many_items'' ''list must contain at most 64 items''])
      else case normalize_items [] values of
        None \<Rightarrow> ([], [verr path ''invalid_item'' ''list items must contain between 1 and 512 bytes''])
      | Some normalized \<Rightarrow> (if preserveOrder then normalized else sort normalized, []))"

definition runtime_id_errors :: "env \<Rightarrow> string \<Rightarrow> string list \<Rightarrow> ValidationError list" where
  "runtime_id_errors \<epsilon> path ids =
     err_when (list_ex (\<lambda>i. env_uuid_parse \<epsilon> i = None \<or> env_uuid_parse \<epsilon> i = Some nil_uuid) ids)
       path ''invalid_runtime_id'' ''runtime identifiers must be non-zero UUIDs''"

definition normalizeAndValidateRoleProfileConfig ::
    "env \<Rightarrow> RoleProfileConfig \<Rightarrow> RoleProfileConfig \<times> ValidationError list" where
  "normalizeAndValidateRoleProfileConfig \<epsilon> config =
     (let instructions = TrimSpace (Instructions config);
          rt = cfg_Runtime config; tools = cfg_Tools config; budget = cfg_Budget config;
          caps = normalizeRoleProfileList ''config.required_capabilities''
                   (RequiredCapabilities config) False;
          allowed = normalizeRoleProfileList ''config.runtime.allowed_runtime_ids''
                   (AllowedRuntimeIDs rt) False;
          preferred = normalizeRoleProfileList ''config.runtime.preferred_runtime_ids''
                   (PreferredRuntimeIDs rt) True;
          providers = normalizeRoleProfileList ''config.runtime.providers'' (Providers rt) False;
          models = normalizeRoleProfileList ''config.runtime.models'' (Models rt) False;
          allowedTools = normalizeRoleProfileList ''config.tools.allowed_tools'' (AllowedTools tools) False;
          allowedPaths = normalizeRoleProfileList ''config.tools.allowed_paths'' (AllowedPaths tools) False in
      (config\<lparr>Instructions := instructions, RequiredCapabilities := fst caps,
              cfg_Runtime := \<lparr>AllowedRuntimeIDs = fst allowed, PreferredRuntimeIDs = fst preferred,
                              Providers = fst providers, Models = fst models\<rparr>,
              cfg_Tools := \<lparr>AllowedTools = fst allowedTools, AllowedPaths = fst allowedPaths\<rparr>\<rparr>,
       err_when (length instructions > maxRoleProfileInstructionsBytes) ''config.instructions''
         ''instructions_too_long'' ''instructions must be at most 32768 bytes'' @
       snd caps @ snd allowed @ snd preferred @ snd providers @ snd models @ snd allowedTools @
       snd allowedPaths @
       runtime_id_errors \<epsilon> ''config.runtime.allowed_runtime_ids'' (fst allowed) @
       runtime_id_errors \<epsilon> ''config.runtime.preferred_runtime_ids'' (fst preferred) @
       err_when (fst allowed \<noteq> [] \<and> list_ex (\<lambda>i. i \<notin> set (fst allowed)) (fst preferred))
         ''config.runtime.preferred_runtime_ids'' ''preferred_runtime_not_allowed''
         ''preferred runtimes must be included in allowed_runtime_ids when an allow-list is present'' @
       err_when (cfg_TimeoutSeconds config < 1 \<or> cfg_TimeoutSeconds config > 86400)
         ''config.timeout_seconds'' ''invalid_timeout'' ''timeout_seconds must be between 1 and 86400'' @
       err_when (cfg_MaxConcurrency config < 1 \<or> cfg_MaxConcurrency config > 32)
         ''config.max_concurrency'' ''invalid_concurrency'' ''max_concurrency must be between 1 and 32'' @
       err_when (case rb_MaxTokens budget of None \<Rightarrow> False | Some v \<Rightarrow> v < 0)
         ''config.budget.max_tokens'' ''invalid_budget'' ''max_tokens must not be negative'' @
       err_when (case rb_MaxCostUSDTicks budget of None \<Rightarrow> False | Some v \<Rightarrow> v < 0)
         ''config.budget.max_cost_usd_ticks'' ''invalid_budget''
         ''max_cost_usd_ticks must not be negative'' @
       err_when (rb_MaxReworkCycles budget < 0 \<or> rb_MaxTechnicalRetries budget < 0)
         ''config.budget'' ''invalid_retry_budget''
         ''rework and technical retry budgets must not be negative''))"

section \<open>Bindings\<close>

record RolePolicyBinding =
  rpb_Duty :: Duty
  rpb_ProfileKey :: string
  rpb_Version :: int
  rpb_AgentID :: uuid

definition normalizeRolePolicyBinding ::
    "RolePolicyBinding \<Rightarrow> string \<Rightarrow> RolePolicyBinding \<times> ValidationError list" where
  "normalizeRolePolicyBinding binding path =
     (let b = binding\<lparr>rpb_ProfileKey := TrimSpace (rpb_ProfileKey binding)\<rparr> in
      (b,
       err_when (\<not> Duty_Valid (rpb_Duty b)) (path @ ''.duty'') ''invalid_duty''
         ''duty must be planner, executor, reviewer, or integrator'' @
       err_when (\<not> roleProfileKeyPattern (rpb_ProfileKey b)) (path @ ''.profile_key'')
         ''invalid_profile_key'' ''profile_key must identify an explicit RoleProfile'' @
       err_when (rpb_Version b < 1) (path @ ''.version'') ''invalid_version''
         ''version must be at least 1'' @
       err_when (rpb_AgentID b \<noteq> None \<and> \<not> validUUID (rpb_AgentID b)) (path @ ''.agent_id'')
         ''invalid_uuid'' ''agent_id must be a non-zero UUID when provided''))"

definition normalizePlannerRolePolicyBinding ::
    "RolePolicyBinding \<Rightarrow> RolePolicyBinding \<times> ValidationError list" where
  "normalizePlannerRolePolicyBinding binding =
     (let r = normalizeRolePolicyBinding binding ''role_policy_binding'' in
      (fst r, snd r @
         err_when (rpb_Duty (fst r) \<noteq> DutyPlanner) ''role_policy_binding.duty'' ''invalid_duty''
           ''role_policy_binding duty must be planner''))"

definition startDuties :: "Duty list" where
  "startDuties = [DutyExecutor, DutyReviewer, DutyIntegrator]"

text \<open>The loop over the bindings; \<open>seen\<close> holds the duties whose flag in \<open>expected\<close> is set.\<close>

fun start_bindings_loop ::
    "nat \<Rightarrow> Duty list \<Rightarrow> RolePolicyBinding list \<Rightarrow>
     (RolePolicyBinding list \<times> ValidationError list) \<times> Duty list" where
  "start_bindings_loop index seen [] = (([], []), seen)"
| "start_bindings_loop index seen (b # bs) =
     (let path = ''role_policy_bindings['' @ string_of_nat index @ '']'';
          item = normalizeRolePolicyBinding b path; d = rpb_Duty (fst item);
          errs = (if d \<notin> set startDuties
                  then [verr (path @ ''.duty'') ''invalid_duty''
                          ''start bindings only accept executor, reviewer, and integrator'']
                  else if d \<in> set seen
                  then [verr (path @ ''.duty'') ''duplicate_duty''
                          ''each start duty must appear exactly once'']
                  else []);
          rest = start_bindings_loop (index + 1)
                   (if d \<in> set startDuties \<and> d \<notin> set seen then d # seen else seen) bs in
      ((fst item # fst (fst rest), snd item @ errs @ snd (fst rest)), snd rest))"

definition normalizeStartRolePolicyBindings ::
    "RolePolicyBinding list \<Rightarrow> RolePolicyBinding list \<times> ValidationError list" where
  "normalizeStartRolePolicyBindings bindings =
     (let r = start_bindings_loop 0 [] bindings in
      (sort_key (\<lambda>b. Duty_String (rpb_Duty b)) (fst (fst r)),
       snd (fst r) @
       concat (map (\<lambda>d. err_when (d \<notin> set (snd r)) ''role_policy_bindings'' ''missing_duty''
                          (''role_policy_bindings must include '' @ Duty_String d)) startDuties)))"

section \<open>Normalization is idempotent\<close>

definition norm_items :: "string list \<Rightarrow> bool" where
  "norm_items xs \<longleftrightarrow> distinct xs \<and> (\<forall>x \<in> set xs. TrimSpace x = x \<and> x \<noteq> [] \<and> length x \<le> 512)"

lemma normalize_items_norm:
  "normalize_items acc xs = Some ys \<Longrightarrow> norm_items acc \<Longrightarrow>
     norm_items ys \<and> length ys \<le> length acc + length xs"
proof (induction acc xs rule: normalize_items.induct)
  case (1 acc)
  then show ?case by simp
next
  case (2 acc raw raws)
  let ?v = "TrimSpace raw"
  have ok: "?v \<noteq> []" "length ?v \<le> 512"
    using "2.prems"(1) by (auto simp: Let_def split: if_splits)
  show ?case
  proof (cases "?v \<in> set acc")
    case True
    then show ?thesis using 2 ok by (simp add: Let_def)
  next
    case False
    have "norm_items (acc @ [?v])"
      using "2.prems"(2) ok False by (auto simp: norm_items_def TrimSpace_idem)
    then show ?thesis using 2 ok False by (simp add: Let_def)
  qed
qed

lemma normalize_items_fix:
  "norm_items xs \<Longrightarrow> set acc \<inter> set xs = {} \<Longrightarrow> normalize_items acc xs = Some (acc @ xs)"
proof (induction xs arbitrary: acc)
  case (Cons x xs)
  have "norm_items xs" "TrimSpace x = x" "x \<noteq> []" "length x \<le> 512" "x \<notin> set xs"
    using Cons.prems(1) by (auto simp: norm_items_def)
  moreover have "normalize_items (acc @ [x]) xs = Some ((acc @ [x]) @ xs)"
    using Cons.prems \<open>x \<notin> set xs\<close> by (intro Cons.IH \<open>norm_items xs\<close>) auto
  ultimately show ?case using Cons.prems(2) by (simp add: Let_def)
qed simp

text \<open>What a list looks like after it was accepted.\<close>

definition norm_list :: "bool \<Rightarrow> string list \<Rightarrow> bool" where
  "norm_list preserve xs \<longleftrightarrow> norm_items xs \<and> length xs \<le> 64 \<and> (preserve \<or> sorted xs)"

lemma norm_items_sort: "norm_items (sort xs) \<longleftrightarrow> norm_items xs"
  by (simp add: norm_items_def)

lemma normalizeRoleProfileList_norm:
  assumes "normalizeRoleProfileList path xs p = (ys, [])"
  shows "norm_list p ys"
proof -
  obtain zs where zs: "normalize_items [] xs = Some zs" "length xs \<le> 64"
      "ys = (if p then zs else sort zs)"
    using assms
    by (auto simp: normalizeRoleProfileList_def maxRoleProfileListItems_def split: if_splits option.splits)
  have "norm_items zs \<and> length zs \<le> length xs"
    using normalize_items_norm [OF zs(1)] by (simp add: norm_items_def)
  then show ?thesis using zs by (simp add: norm_list_def norm_items_sort)
qed

lemma normalizeRoleProfileList_fix:
  "norm_list p xs \<Longrightarrow> normalizeRoleProfileList path xs p = (xs, [])"
  by (auto simp: normalizeRoleProfileList_def norm_list_def normalize_items_fix
      maxRoleProfileListItems_def sorted_sort_id)

lemma normalizeRoleProfileList_again:
  assumes "snd (normalizeRoleProfileList path xs p) = []"
  shows "normalizeRoleProfileList path' (fst (normalizeRoleProfileList path xs p)) p =
    (fst (normalizeRoleProfileList path xs p), [])"
  using normalizeRoleProfileList_norm [of path xs p] assms normalizeRoleProfileList_fix
  by (metis prod.collapse)

lemma normalizeConfig_again:
  assumes "snd (normalizeAndValidateRoleProfileConfig \<epsilon> c) = []"
  shows "normalizeAndValidateRoleProfileConfig \<epsilon> (fst (normalizeAndValidateRoleProfileConfig \<epsilon> c)) =
    (fst (normalizeAndValidateRoleProfileConfig \<epsilon> c), [])"
  using assms
  by (simp add: normalizeAndValidateRoleProfileConfig_def Let_def normalizeRoleProfileList_again
      TrimSpace_idem)

section \<open>Start bindings\<close>

definition binding_ok :: "RolePolicyBinding \<Rightarrow> bool" where
  "binding_ok b \<longleftrightarrow> Duty_Valid (rpb_Duty b) \<and> roleProfileKeyPattern (TrimSpace (rpb_ProfileKey b)) \<and>
     1 \<le> rpb_Version b \<and> (rpb_AgentID b \<noteq> None \<longrightarrow> validUUID (rpb_AgentID b))"

lemma normalizeRolePolicyBinding_Nil: "snd (normalizeRolePolicyBinding b p) = [] \<longleftrightarrow> binding_ok b"
  by (auto simp: normalizeRolePolicyBinding_def Let_def binding_ok_def)

lemma normalizeRolePolicyBinding_duty [simp]:
  "rpb_Duty (fst (normalizeRolePolicyBinding b p)) = rpb_Duty b"
  by (simp add: normalizeRolePolicyBinding_def Let_def)

lemma start_bindings_loop_ok:
  "snd (fst (start_bindings_loop i seen bs)) = [] \<longleftrightarrow>
     (\<forall>b \<in> set bs. binding_ok b \<and> rpb_Duty b \<in> set startDuties \<and> rpb_Duty b \<notin> set seen) \<and>
     distinct (map rpb_Duty bs)"
proof (induction bs arbitrary: i seen)
  case (Cons b bs)
  have fresh: "(\<forall>c \<in> set bs. rpb_Duty c \<notin> set (rpb_Duty b # seen)) \<longleftrightarrow>
      rpb_Duty b \<notin> rpb_Duty ` set bs \<and> (\<forall>c \<in> set bs. rpb_Duty c \<notin> set seen)"
    by (auto, metis image_eqI)
  show ?case
    using fresh by (simp add: Let_def normalizeRolePolicyBinding_Nil Cons.IH) blast
qed simp

lemma start_bindings_loop_seen:
  "set (snd (start_bindings_loop i seen bs)) =
     set seen \<union> (rpb_Duty ` set bs \<inter> set startDuties)"
  by (induction i seen bs rule: start_bindings_loop.induct) (auto simp: Let_def)

lemma start_bindings_loop_duties:
  "map rpb_Duty (fst (fst (start_bindings_loop i seen bs))) = map rpb_Duty bs"
  by (induction i seen bs rule: start_bindings_loop.induct) (auto simp: Let_def)

lemma start_bindings_accepted:
  "snd (normalizeStartRolePolicyBindings bs) = [] \<longleftrightarrow>
     (\<forall>b \<in> set bs. binding_ok b) \<and> distinct (map rpb_Duty bs) \<and>
     rpb_Duty ` set bs = {DutyExecutor, DutyReviewer, DutyIntegrator}"
proof -
  have start: "set startDuties = {DutyExecutor, DutyReviewer, DutyIntegrator}"
    by (simp add: startDuties_def)
  have "snd (normalizeStartRolePolicyBindings bs) = [] \<longleftrightarrow>
      snd (fst (start_bindings_loop 0 [] bs)) = [] \<and>
      (\<forall>d \<in> set startDuties. d \<in> set (snd (start_bindings_loop 0 [] bs)))"
    by (simp add: normalizeStartRolePolicyBindings_def Let_def startDuties_def)
  also have "\<dots> \<longleftrightarrow> (\<forall>b \<in> set bs. binding_ok b) \<and> distinct (map rpb_Duty bs) \<and>
      rpb_Duty ` set bs = set startDuties"
    unfolding start_bindings_loop_ok start_bindings_loop_seen by auto
  finally show ?thesis by (simp only: start)
qed

end
