(* ===== verification/RoleSnapshot.thy ===== *)
theory RoleSnapshot
  imports RoleConfig
begin

text \<open>
  The immutable copy of a role policy that a mission owns (\<open>role_policy_snapshot.go\<close>): its record, the
  JSON text it is hashed from and its content hash, and the check of a binding against it.  The
  field order of the JSON objects is that of the Go structs; fields tagged \<open>omitempty\<close> are left out
  when empty.  Lists are never null here, as in every configuration that went through
  normalization.
\<close>

definition RolePolicySnapshotSchemaVersion :: int where "RolePolicySnapshotSchemaVersion = 1"

record RolePolicySnapshot =
  rps_ID :: string
  rps_WorkspaceID :: string
  rps_MissionID :: string
  rps_SchemaVersion :: int
  rps_Duty :: Duty
  rps_RoleProfileID :: string
  rps_RoleProfileKey :: string
  rps_RoleProfileVersion :: int
  rps_ProfileName :: string
  rps_ProfileDescription :: string
  rps_Config :: RoleProfileConfig
  rps_AgentID :: string
  rps_ContentHash :: string
  rps_FrozenBy :: string
  rps_FrozenAt :: time

record RoleProfileVersion =
  rpv_ID :: string
  rpv_WorkspaceID :: string
  rpv_ProfileKey :: string
  rpv_Version :: int
  rpv_Duty :: Duty
  rpv_Name :: string
  rpv_Description :: string
  rpv_Config :: RoleProfileConfig
  rpv_CreatedBy :: string
  rpv_CreatedAt :: time

definition json_strings :: "string list \<Rightarrow> json" where
  "json_strings xs = JArr (map JStr xs)"

definition json_opt :: "string \<Rightarrow> int option \<Rightarrow> (string \<times> json) list" where
  "json_opt k v = (case v of None \<Rightarrow> [] | Some i \<Rightarrow> [(k, JNum i)])"

definition json_omit :: "string \<Rightarrow> string \<Rightarrow> (string \<times> json) list" where
  "json_omit k v = (if v = [] then [] else [(k, JStr v)])"

definition RoleProfileConfig_json :: "RoleProfileConfig \<Rightarrow> json" where
  "RoleProfileConfig_json c =
     JObj
       [(''instructions'', JStr (Instructions c)),
        (''required_capabilities'', json_strings (RequiredCapabilities c)),
        (''runtime'', JObj
           [(''allowed_runtime_ids'', json_strings (AllowedRuntimeIDs (cfg_Runtime c))),
            (''preferred_runtime_ids'', json_strings (PreferredRuntimeIDs (cfg_Runtime c))),
            (''providers'', json_strings (Providers (cfg_Runtime c))),
            (''models'', json_strings (Models (cfg_Runtime c)))]),
        (''tools'', JObj
           [(''allowed_tools'', json_strings (AllowedTools (cfg_Tools c))),
            (''allowed_paths'', json_strings (AllowedPaths (cfg_Tools c)))]),
        (''budget'', JObj
           (json_opt ''max_tokens'' (rb_MaxTokens (cfg_Budget c)) @
            json_opt ''max_cost_usd_ticks'' (rb_MaxCostUSDTicks (cfg_Budget c)) @
            [(''max_rework_cycles'', JNum (rb_MaxReworkCycles (cfg_Budget c))),
             (''max_technical_retries'', JNum (rb_MaxTechnicalRetries (cfg_Budget c)))])),
        (''timeout_seconds'', JNum (cfg_TimeoutSeconds c)),
        (''max_concurrency'', JNum (cfg_MaxConcurrency c))]"

definition rolePolicySnapshotContent :: "RoleProfileVersion \<Rightarrow> RolePolicyBinding \<Rightarrow> string \<times> string" where
  "rolePolicySnapshotContent profile binding =
     (let encoded = json_marshal (JObj
            ([(''schema_version'', JNum RolePolicySnapshotSchemaVersion),
              (''duty'', JStr (Duty_String (rpb_Duty binding))),
              (''role_profile_id'', JStr (rpv_ID profile)),
              (''role_profile_key'', JStr (rpv_ProfileKey profile)),
              (''role_profile_version'', JNum (rpv_Version profile)),
              (''profile_name'', JStr (rpv_Name profile)),
              (''profile_description'', JStr (rpv_Description profile)),
              (''config'', RoleProfileConfig_json (rpv_Config profile))] @
             json_omit ''agent_id'' (uuidText (rpb_AgentID binding)))) in
      (encoded, hex_encode (sha256 encoded)))"

definition rolePolicyBindingMatchesSnapshot :: "RolePolicyBinding \<Rightarrow> RolePolicySnapshot \<Rightarrow> bool" where
  "rolePolicyBindingMatchesSnapshot binding snapshot \<longleftrightarrow>
     rpb_Duty binding = rps_Duty snapshot \<and>
     rpb_ProfileKey binding = rps_RoleProfileKey snapshot \<and>
     rpb_Version binding = rps_RoleProfileVersion snapshot \<and>
     optionalUUIDText (rpb_AgentID binding) = rps_AgentID snapshot"

end
