(* ===== verification/Routing.thy ===== *)
theory Routing
  imports RoleSnapshot "HOL-Library.Multiset"
begin

text \<open>
  \<open>internal/agentaccess/agentaccess.go\<close> and \<open>routing_selector.go\<close>: who may invoke an agent, and the
  choice of the agent and runtime for a task.  \<open>routing_eligible\<close> is the contract of the hard
  filters; the lemmas show that a candidate passes \<open>evaluateRoutingCandidate\<close> exactly when it meets
  that contract, that the selected one is the best-ranked of those, and that the choice does not
  depend on the order of the candidates.
\<close>

section \<open>Agent access\<close>

record Principal =
  ActorType :: string
  ActorID :: string
  OriginatorUserID :: string

record GrantFacts =
  OwnerID :: string
  PermissionMode :: string
  IsWorkspaceMember :: bool

record Target =
  target_Type :: string
  target_ID :: string

definition EffectiveUserID :: "Principal \<Rightarrow> string" where
  "EffectiveUserID p = (if ActorType p = ''member'' then ActorID p else OriginatorUserID p)"

text \<open>One iteration of the loop over the targets: whether it returns true.\<close>

definition target_admits :: "Principal \<Rightarrow> GrantFacts \<Rightarrow> Target \<Rightarrow> bool" where
  "target_admits actor grant target =
     (let effectiveUser = EffectiveUserID actor;
          workspaceBroad = (ActorType actor = ''agent'' \<or> ActorType actor = ''system'') in
      if target_Type target = ''workspace'' then IsWorkspaceMember grant \<or> workspaceBroad
      else if target_Type target = ''member''
      then effectiveUser \<noteq> [] \<and> target_ID target = effectiveUser
      else False)"

definition CanInvoke :: "Principal \<Rightarrow> GrantFacts \<Rightarrow> Target list \<Rightarrow> bool" where
  "CanInvoke actor grant targets =
     (let effectiveUser = EffectiveUserID actor in
      if effectiveUser \<noteq> [] \<and> OwnerID grant \<noteq> [] \<and> OwnerID grant = effectiveUser then True
      else if PermissionMode grant \<noteq> ''public_to'' then False
      else list_ex (target_admits actor grant) targets)"

lemma target_admits_iff:
  "target_admits p g t \<longleftrightarrow>
     (target_Type t = ''workspace'' \<and> (IsWorkspaceMember g \<or> ActorType p \<in> {''agent'', ''system''})) \<or>
     (target_Type t = ''member'' \<and> EffectiveUserID p \<noteq> [] \<and> target_ID t = EffectiveUserID p)"
  by (auto simp: target_admits_def Let_def)

lemma CanInvoke_iff:
  "CanInvoke p g ts \<longleftrightarrow>
     (EffectiveUserID p \<noteq> [] \<and> OwnerID g = EffectiveUserID p) \<or>
     (PermissionMode g = ''public_to'' \<and> (\<exists>t \<in> set ts. target_admits p g t))"
  by (auto simp: CanInvoke_def Let_def list_ex_iff)

section \<open>Facts, input and result\<close>

definition RoutingSelectionVersion :: string where "RoutingSelectionVersion = ''4b5.v1''"

record RoutingCandidateFacts =
  rf_AgentID :: string
  rf_RuntimeID :: string
  rf_AgentCreatedAt :: time
  rf_Archived :: bool
  rf_AgentOwnerID :: string
  rf_PermissionMode :: string
  rf_WorkspaceGrant :: bool
  rf_MemberGrant :: bool
  rf_Model :: string
  rf_MaxConcurrentTasks :: int
  rf_RuntimeBound :: bool
  rf_RuntimeStatus :: string
  rf_Provider :: string
  rf_MetadataCapabilitiesKnown :: bool
  rf_MetadataCapabilities :: "string list"
  rf_MetadataCapabilitiesMalformed :: bool
  rf_RuntimeOwnerPresent :: bool
  rf_RuntimeOwnerID :: string
  rf_RuntimeVisibility :: string
  rf_CurrentLoad :: int

record RoutingSelectionInput =
  ri_Snapshot :: RolePolicySnapshot
  ri_EffectiveOwnerID :: string
  ri_Candidates :: "RoutingCandidateFacts list"
  ri_ProducerAgentID :: string
  ri_AvoidAgentID :: string

record RoutingSelectedCandidate =
  sel_AgentID :: string
  sel_RuntimeID :: string

record RoutingCandidateEvaluation =
  re_CandidateRef :: string
  re_Eligible :: bool
  re_ReasonCodes :: "string list"
  re_SeparationPreferred :: bool
  re_PreferredRuntimeRank :: int
  re_CurrentLoad :: int

record RoutingSelectionResult =
  rr_SelectionVersion :: string
  rr_SnapshotHash :: string
  rr_Selected :: "RoutingSelectedCandidate option"
  rr_Evaluations :: "RoutingCandidateEvaluation list"
  rr_EvidenceHash :: string

definition routing_contains :: "string list \<Rightarrow> string \<Rightarrow> bool" where
  "routing_contains values value = list_ex (\<lambda>item. item = value) values"

definition routing_subset :: "string list \<Rightarrow> string list \<Rightarrow> bool" where
  "routing_subset required available = list_all (routing_contains available) required"

definition capabilityValuesMalformed :: "string list \<Rightarrow> bool" where
  "capabilityValuesMalformed values = list_ex (\<lambda>v. TrimSpace v = []) values"

fun normalize_capabilities :: "string list \<Rightarrow> string list \<Rightarrow> string list" where
  "normalize_capabilities acc [] = acc"
| "normalize_capabilities acc (v # vs) =
     (let value = TrimSpace v in
      if value \<in> set acc then normalize_capabilities acc vs
      else normalize_capabilities (acc @ [value]) vs)"

definition normalizeCapabilityValues :: "string list \<Rightarrow> string list" where
  "normalizeCapabilityValues values = normalize_capabilities [] values"

fun preferred_rank_from :: "int \<Rightarrow> string list \<Rightarrow> string \<Rightarrow> int option" where
  "preferred_rank_from i [] runtimeID = None"
| "preferred_rank_from i (p # ps) runtimeID =
     (if p = runtimeID then Some i else preferred_rank_from (i + 1) ps runtimeID)"

definition preferredRuntimeRank :: "string list \<Rightarrow> string \<Rightarrow> int" where
  "preferredRuntimeRank preferred runtimeID =
     (case preferred_rank_from 0 preferred runtimeID of
        Some i \<Rightarrow> i
      | None \<Rightarrow> int (length preferred) + 1)"

definition routingCandidateRef :: "RolePolicySnapshot \<Rightarrow> string \<Rightarrow> string \<Rightarrow> string" where
  "routingCandidateRef snapshot agentID runtimeID =
     ''candidate_'' @
     hex_encode (take 16 (sha256
       (rps_WorkspaceID snapshot @ [CHR 0x00] @ agentID @ [CHR 0x00] @ runtimeID)))"

definition routingSnapshotHash :: "RolePolicySnapshot \<Rightarrow> string" where
  "routingSnapshotHash snapshot =
     (if TrimSpace (rps_ContentHash snapshot) \<noteq> [] then rps_ContentHash snapshot
      else hex_encode (sha256 (json_marshal (JObj
        ([(''schema_version'', JNum (rps_SchemaVersion snapshot)),
          (''duty'', JStr (Duty_String (rps_Duty snapshot))),
          (''profile_key'', JStr (rps_RoleProfileKey snapshot)),
          (''version'', JNum (rps_RoleProfileVersion snapshot)),
          (''config'', RoleProfileConfig_json (rps_Config snapshot))] @
         json_omit ''agent_id'' (rps_AgentID snapshot))))))"

section \<open>Hard filters\<close>

definition reason_when :: "bool \<Rightarrow> string \<Rightarrow> string list" where
  "reason_when b code = (if b then [code] else [])"

lemma reason_when_Nil [simp]: "reason_when b c = [] \<longleftrightarrow> \<not> b"
  by (simp add: reason_when_def)

definition routing_can_invoke :: "RoutingSelectionInput \<Rightarrow> RoutingCandidateFacts \<Rightarrow> bool" where
  "routing_can_invoke input facts =
     CanInvoke
       \<lparr>ActorType = ''member'', ActorID = ri_EffectiveOwnerID input, OriginatorUserID = []\<rparr>
       \<lparr>OwnerID = rf_AgentOwnerID facts, PermissionMode = rf_PermissionMode facts,
        IsWorkspaceMember = rf_WorkspaceGrant facts\<rparr>
       ((if rf_WorkspaceGrant facts then [\<lparr>target_Type = ''workspace'', target_ID = []\<rparr>] else []) @
        (if rf_MemberGrant facts
         then [\<lparr>target_Type = ''member'', target_ID = ri_EffectiveOwnerID input\<rparr>] else []))"

definition runtime_reasons :: "RoutingSelectionInput \<Rightarrow> RoutingCandidateFacts \<Rightarrow> string list" where
  "runtime_reasons input facts =
     reason_when (\<not> rf_RuntimeBound facts) ''runtime_unbound'' @
     reason_when (rf_RuntimeBound facts \<and> rf_RuntimeStatus facts \<noteq> ''online'') ''runtime_offline'' @
     (if rf_RuntimeBound facts \<and> \<not> rf_RuntimeOwnerPresent facts then [''runtime_owner_missing'']
      else if rf_RuntimeBound facts \<and> TrimSpace (rf_RuntimeOwnerID facts) = []
      then [''runtime_owner_missing'']
      else if rf_RuntimeBound facts \<and> rf_RuntimeOwnerID facts \<noteq> ri_EffectiveOwnerID input \<and>
              rf_RuntimeVisibility facts \<noteq> ''public''
      then [''runtime_permission_denied''] else [])"

definition capability_reasons :: "RoleProfileConfig \<Rightarrow> RoutingCandidateFacts \<Rightarrow> string list" where
  "capability_reasons config facts =
     (if RequiredCapabilities config = [] then []
      else if \<not> rf_MetadataCapabilitiesKnown facts then [''capability_unknown'']
      else if rf_MetadataCapabilitiesMalformed facts \<or>
              capabilityValuesMalformed (rf_MetadataCapabilities facts)
      then [''capability_malformed'']
      else if \<not> routing_subset (RequiredCapabilities config)
                  (normalizeCapabilityValues (rf_MetadataCapabilities facts))
      then [''capability_missing''] else [])"

definition capacity_reasons :: "RoleProfileConfig \<Rightarrow> RoutingCandidateFacts \<Rightarrow> string list" where
  "capacity_reasons config facts =
     (let limit = rf_MaxConcurrentTasks facts in
      if limit \<le> 0 \<or> cfg_MaxConcurrency config \<le> 0 then [''invalid_capacity_limit'']
      else
        let limit = (if cfg_MaxConcurrency config < limit then cfg_MaxConcurrency config else limit) in
        reason_when (rf_CurrentLoad facts \<ge> limit) ''capacity_exhausted'')"

definition evaluateRoutingCandidate ::
    "RoutingSelectionInput \<Rightarrow> RoutingCandidateFacts \<Rightarrow> RoutingCandidateEvaluation" where
  "evaluateRoutingCandidate input facts =
     (let snapshot = ri_Snapshot input; config = rps_Config snapshot; rt = cfg_Runtime config;
          tools = cfg_Tools config;
          producer = TrimSpace (ri_ProducerAgentID input) in
      \<lparr>re_CandidateRef = routingCandidateRef snapshot (rf_AgentID facts) (rf_RuntimeID facts),
       re_Eligible = False,
       re_ReasonCodes =
         reason_when (rf_Archived facts) ''agent_archived'' @
         reason_when (rps_Duty snapshot = DutyReviewer \<and> producer \<noteq> [] \<and> rf_AgentID facts = producer)
           ''reviewer_is_producer'' @
         reason_when (\<not> routing_can_invoke input facts) ''permission_denied'' @
         runtime_reasons input facts @
         reason_when (AllowedRuntimeIDs rt \<noteq> [] \<and>
             \<not> routing_contains (AllowedRuntimeIDs rt) (rf_RuntimeID facts)) ''runtime_not_allowed'' @
         reason_when (Providers rt \<noteq> [] \<and> \<not> routing_contains (Providers rt) (rf_Provider facts))
           ''provider_not_allowed'' @
         reason_when (Models rt \<noteq> [] \<and> \<not> routing_contains (Models rt) (rf_Model facts))
           ''model_not_allowed'' @
         capability_reasons config facts @
         reason_when (AllowedTools tools \<noteq> []) ''tool_policy_unsupported'' @
         reason_when (AllowedPaths tools \<noteq> []) ''path_policy_unsupported'' @
         capacity_reasons config facts,
       re_SeparationPreferred = False, re_PreferredRuntimeRank = 0,
       re_CurrentLoad = rf_CurrentLoad facts\<rparr>)"

section \<open>Selection\<close>

text \<open>An evaluated candidate; \<open>ev_ok\<close> is set before the explicit-binding reason is prepended.\<close>

record evaluated =
  ev_facts :: RoutingCandidateFacts
  ev_eval :: RoutingCandidateEvaluation
  ev_ok :: bool

definition considered :: "RoutingSelectionInput \<Rightarrow> RoutingCandidateFacts list" where
  "considered input =
     (let explicit = TrimSpace (rps_AgentID (ri_Snapshot input)) in
      filter (\<lambda>f. explicit = [] \<or> rf_AgentID f = explicit) (ri_Candidates input))"

definition evaluate_one :: "RoutingSelectionInput \<Rightarrow> RoutingCandidateFacts \<Rightarrow> evaluated" where
  "evaluate_one input facts =
     (let e = evaluateRoutingCandidate input facts;
          explicit = TrimSpace (rps_AgentID (ri_Snapshot input)) in
      \<lparr>ev_facts = facts,
       ev_eval = (if explicit \<noteq> [] \<and> re_ReasonCodes e \<noteq> []
                  then e\<lparr>re_ReasonCodes := ''explicit_binding_unavailable'' # re_ReasonCodes e\<rparr> else e),
       ev_ok = (re_ReasonCodes e = [])\<rparr>)"

definition separation_id :: "RoutingSelectionInput \<Rightarrow> string" where
  "separation_id input =
     (if TrimSpace (ri_ProducerAgentID input) = [] then TrimSpace (ri_AvoidAgentID input)
      else TrimSpace (ri_ProducerAgentID input))"

definition rank_one :: "RoutingSelectionInput \<Rightarrow> evaluated \<Rightarrow> evaluated" where
  "rank_one input e =
     e\<lparr>ev_eval := (ev_eval e)
         \<lparr>re_SeparationPreferred := separation_id input \<noteq> [] \<and>
            rf_AgentID (ev_facts e) \<noteq> separation_id input,
          re_PreferredRuntimeRank := preferredRuntimeRank
            (PreferredRuntimeIDs (cfg_Runtime (rps_Config (ri_Snapshot input)))) (rf_RuntimeID (ev_facts e))\<rparr>\<rparr>"

text \<open>The comparison of \<open>sort.SliceStable\<close>, as the key of a stable sort.\<close>

definition rank_key :: "evaluated \<Rightarrow> bool \<times> int \<times> int \<times> time \<times> string" where
  "rank_key e =
     (\<not> re_SeparationPreferred (ev_eval e), re_PreferredRuntimeRank (ev_eval e),
      rf_CurrentLoad (ev_facts e), rf_AgentCreatedAt (ev_facts e), rf_AgentID (ev_facts e))"

definition eligible_ranked :: "RoutingSelectionInput \<Rightarrow> evaluated list" where
  "eligible_ranked input =
     sort_key rank_key (map (rank_one input)
       (filter (\<lambda>e. re_ReasonCodes (ev_eval e) = []) (map (evaluate_one input) (considered input))))"

definition selected_json :: "RoutingSelectedCandidate option \<Rightarrow> (string \<times> json) list" where
  "selected_json s =
     (case s of None \<Rightarrow> []
      | Some c \<Rightarrow> [(''selected'', JObj [(''agent_id'', JStr (sel_AgentID c)),
                                       (''runtime_id'', JStr (sel_RuntimeID c))])])"

definition evaluation_json :: "RoutingCandidateEvaluation \<Rightarrow> json" where
  "evaluation_json e =
     JObj [(''candidate_ref'', JStr (re_CandidateRef e)), (''eligible'', JBool (re_Eligible e)),
           (''reason_codes'', if re_ReasonCodes e = [] then JNull else json_strings (re_ReasonCodes e)),
           (''separation_preferred'', JBool (re_SeparationPreferred e)),
           (''preferred_runtime_rank'', JNum (re_PreferredRuntimeRank e)),
           (''current_load'', JNum (re_CurrentLoad e))]"

definition finalizeRoutingEvidence :: "RoutingSelectionResult \<Rightarrow> RoutingSelectionResult" where
  "finalizeRoutingEvidence result =
     result\<lparr>rr_EvidenceHash := hex_encode (sha256 (json_marshal (JObj
       ([(''version'', JStr (rr_SelectionVersion result)),
         (''snapshot_hash'', JStr (rr_SnapshotHash result))] @
        selected_json (rr_Selected result) @
        [(''evaluations'', if rr_Evaluations result = [] then JNull
                         else JArr (map evaluation_json (rr_Evaluations result)))]))))\<rparr>"

definition SelectRoutingCandidate :: "RoutingSelectionInput \<Rightarrow> RoutingSelectionResult" where
  "SelectRoutingCandidate input =
     (let snapshot = ri_Snapshot input;
          base = \<lparr>rr_SelectionVersion = RoutingSelectionVersion,
                  rr_SnapshotHash = routingSnapshotHash snapshot, rr_Selected = None,
                  rr_Evaluations = [], rr_EvidenceHash = []\<rparr>;
          explicit = TrimSpace (rps_AgentID snapshot) in
      if explicit \<noteq> [] \<and> considered input = [] then
        finalizeRoutingEvidence (base\<lparr>rr_Evaluations :=
          [\<lparr>re_CandidateRef = routingCandidateRef snapshot explicit [], re_Eligible = False,
            re_ReasonCodes = [''explicit_binding_missing''], re_SeparationPreferred = False,
            re_PreferredRuntimeRank = 0, re_CurrentLoad = 0\<rparr>]\<rparr>)
      else
        let evaluated = map (evaluate_one input) (considered input);
            eligible = map (\<lambda>e. e\<lparr>ev_eval := (ev_eval e)\<lparr>re_Eligible := True\<rparr>\<rparr>)
                         (eligible_ranked input);
            rejected = sort_key (\<lambda>e. re_CandidateRef (ev_eval e)) (filter (\<lambda>e. \<not> ev_ok e) evaluated) in
        finalizeRoutingEvidence (base
          \<lparr>rr_Selected := (case eligible of [] \<Rightarrow> None
             | e # _ \<Rightarrow> Some \<lparr>sel_AgentID = rf_AgentID (ev_facts e),
                             sel_RuntimeID = rf_RuntimeID (ev_facts e)\<rparr>),
           rr_Evaluations := map ev_eval eligible @ map ev_eval rejected\<rparr>))"

section \<open>Sorting\<close>

lemma insort_key_map:
  "(\<And>x. k (h x) = k' x) \<Longrightarrow> insort_key k (h z) (map h ys) = map h (insort_key k' z ys)"
  by (induction ys) simp_all

lemma sort_key_map:
  "(\<And>x. k (h x) = k' x) \<Longrightarrow> sort_key k (map h xs) = map h (sort_key k' xs)"
  by (induction xs) (simp_all add: insort_key_map [of k h k'])

lemma map_sort_key_fun:
  assumes "\<And>x. k (h x) = k' x" and "\<And>x. g (h x) = x"
  shows "map g (sort_key k (map h xs)) = sort_key k' xs"
  using assms by (simp add: sort_key_map [of k h k'] o_def)

lemma sort_key_mset_eq:
  assumes "mset xs = mset ys" and "inj_on f (set xs)"
  shows "sort_key f xs = sort_key f ys"
proof (rule properties_for_sort_key)
  show "mset (sort_key f ys) = mset xs" using assms(1) by simp
  show "sorted (map f (sort_key f ys))" by simp
  fix k assume k: "k \<in> set (sort_key f ys)"
  have "filter (\<lambda>x. f k = f x) zs = replicate (count (mset zs) k) k" if "set zs \<subseteq> set xs" for zs
    using that k assms by (induction zs) (auto simp: inj_on_def dest: mset_eq_setD)
  moreover have "set (sort_key f ys) \<subseteq> set xs" using assms(1) by (metis mset_eq_setD set_sort subset_refl)
  ultimately show "filter (\<lambda>x. f k = f x) (sort_key f ys) = filter (\<lambda>x. f k = f x) xs"
    using assms(1) by simp
qed

section \<open>The contract of the hard filters\<close>

definition may_invoke :: "RoutingSelectionInput \<Rightarrow> RoutingCandidateFacts \<Rightarrow> bool" where
  "may_invoke input f \<longleftrightarrow>
     (ri_EffectiveOwnerID input \<noteq> [] \<and> rf_AgentOwnerID f = ri_EffectiveOwnerID input) \<or>
     (rf_PermissionMode f = ''public_to'' \<and>
      (rf_WorkspaceGrant f \<or> (rf_MemberGrant f \<and> ri_EffectiveOwnerID input \<noteq> [])))"

definition runtime_usable :: "RoutingSelectionInput \<Rightarrow> RoutingCandidateFacts \<Rightarrow> bool" where
  "runtime_usable input f \<longleftrightarrow>
     rf_RuntimeBound f \<and> rf_RuntimeStatus f = ''online'' \<and> rf_RuntimeOwnerPresent f \<and>
     \<not> blank (rf_RuntimeOwnerID f) \<and>
     (rf_RuntimeOwnerID f = ri_EffectiveOwnerID input \<or> rf_RuntimeVisibility f = ''public'')"

definition policy_allows :: "RoleProfileConfig \<Rightarrow> RoutingCandidateFacts \<Rightarrow> bool" where
  "policy_allows c f \<longleftrightarrow>
     (AllowedRuntimeIDs (cfg_Runtime c) \<noteq> [] \<longrightarrow> rf_RuntimeID f \<in> set (AllowedRuntimeIDs (cfg_Runtime c))) \<and>
     (Providers (cfg_Runtime c) \<noteq> [] \<longrightarrow> rf_Provider f \<in> set (Providers (cfg_Runtime c))) \<and>
     (Models (cfg_Runtime c) \<noteq> [] \<longrightarrow> rf_Model f \<in> set (Models (cfg_Runtime c))) \<and>
     (RequiredCapabilities c \<noteq> [] \<longrightarrow>
        rf_MetadataCapabilitiesKnown f \<and> \<not> rf_MetadataCapabilitiesMalformed f \<and>
        (\<forall>v \<in> set (rf_MetadataCapabilities f). \<not> blank v) \<and>
        set (RequiredCapabilities c) \<subseteq> TrimSpace ` set (rf_MetadataCapabilities f)) \<and>
     AllowedTools (cfg_Tools c) = [] \<and> AllowedPaths (cfg_Tools c) = [] \<and>
     0 < rf_MaxConcurrentTasks f \<and> 0 < cfg_MaxConcurrency c \<and>
     rf_CurrentLoad f < min (rf_MaxConcurrentTasks f) (cfg_MaxConcurrency c)"

definition routing_eligible :: "RoutingSelectionInput \<Rightarrow> RoutingCandidateFacts \<Rightarrow> bool" where
  "routing_eligible input f \<longleftrightarrow>
     \<not> rf_Archived f \<and>
     (rps_Duty (ri_Snapshot input) = DutyReviewer \<and> \<not> blank (ri_ProducerAgentID input) \<longrightarrow>
        rf_AgentID f \<noteq> TrimSpace (ri_ProducerAgentID input)) \<and>
     may_invoke input f \<and> runtime_usable input f \<and>
     policy_allows (rps_Config (ri_Snapshot input)) f"

lemma routing_can_invoke_iff: "routing_can_invoke input f \<longleftrightarrow> may_invoke input f"
  by (auto simp: routing_can_invoke_def may_invoke_def CanInvoke_iff target_admits_iff
      EffectiveUserID_def)

lemma runtime_reasons_Nil: "runtime_reasons input f = [] \<longleftrightarrow> runtime_usable input f"
  by (auto simp: runtime_reasons_def runtime_usable_def blank_def)

lemma routing_contains_iff: "routing_contains vs v \<longleftrightarrow> v \<in> set vs"
  by (auto simp: routing_contains_def list_ex_iff)

lemma normalize_capabilities_set:
  "set (normalize_capabilities acc vs) = set acc \<union> TrimSpace ` set vs"
  by (induction acc vs rule: normalize_capabilities.induct) (auto simp: Let_def)

lemma capability_reasons_Nil:
  "capability_reasons c f = [] \<longleftrightarrow>
     (RequiredCapabilities c \<noteq> [] \<longrightarrow>
        rf_MetadataCapabilitiesKnown f \<and> \<not> rf_MetadataCapabilitiesMalformed f \<and>
        (\<forall>v \<in> set (rf_MetadataCapabilities f). \<not> blank v) \<and>
        set (RequiredCapabilities c) \<subseteq> TrimSpace ` set (rf_MetadataCapabilities f))"
proof -
  have "routing_subset (RequiredCapabilities c) (normalizeCapabilityValues (rf_MetadataCapabilities f))
      \<longleftrightarrow> set (RequiredCapabilities c) \<subseteq> TrimSpace ` set (rf_MetadataCapabilities f)"
    by (auto simp: routing_subset_def list_all_iff routing_contains_iff normalizeCapabilityValues_def
        normalize_capabilities_set)
  moreover have "capabilityValuesMalformed (rf_MetadataCapabilities f) \<longleftrightarrow>
      \<not> (\<forall>v \<in> set (rf_MetadataCapabilities f). \<not> blank v)"
    by (simp add: capabilityValuesMalformed_def list_ex_iff blank_def)
  ultimately show ?thesis by (simp add: capability_reasons_def)
qed

lemma capacity_reasons_Nil:
  "capacity_reasons c f = [] \<longleftrightarrow>
     0 < rf_MaxConcurrentTasks f \<and> 0 < cfg_MaxConcurrency c \<and>
     rf_CurrentLoad f < min (rf_MaxConcurrentTasks f) (cfg_MaxConcurrency c)"
  by (auto simp: capacity_reasons_def Let_def)

lemma evaluate_Nil_iff:
  "re_ReasonCodes (evaluateRoutingCandidate input f) = [] \<longleftrightarrow> routing_eligible input f"
  by (auto simp: evaluateRoutingCandidate_def Let_def routing_eligible_def routing_can_invoke_iff
      runtime_reasons_Nil routing_contains_iff policy_allows_def capability_reasons_Nil
      capacity_reasons_Nil blank_def)

section \<open>What is selected\<close>

definition candidate_rank ::
    "RoutingSelectionInput \<Rightarrow> RoutingCandidateFacts \<Rightarrow> bool \<times> int \<times> int \<times> time \<times> string" where
  "candidate_rank input f =
     (separation_id input = [] \<or> rf_AgentID f = separation_id input,
      preferredRuntimeRank (PreferredRuntimeIDs (cfg_Runtime (rps_Config (ri_Snapshot input))))
        (rf_RuntimeID f),
      rf_CurrentLoad f, rf_AgentCreatedAt f, rf_AgentID f)"

definition eligible_facts :: "RoutingSelectionInput \<Rightarrow> RoutingCandidateFacts list" where
  "eligible_facts input = filter (routing_eligible input) (considered input)"

lemma map_ranked_facts:
  "map ev_facts (eligible_ranked input) = sort_key (candidate_rank input) (eligible_facts input)"
proof -
  have k: "rank_key (rank_one input (evaluate_one input f)) = candidate_rank input f" for f
    by (auto simp: rank_key_def rank_one_def evaluate_one_def candidate_rank_def Let_def)
  have r: "re_ReasonCodes (ev_eval (evaluate_one input f)) = [] \<longleftrightarrow> routing_eligible input f" for f
    by (simp add: evaluate_one_def Let_def evaluate_Nil_iff [symmetric])
  have e: "eligible_ranked input = sort_key rank_key
      (map (\<lambda>f. rank_one input (evaluate_one input f)) (eligible_facts input))"
    by (simp add: eligible_ranked_def eligible_facts_def filter_map o_def r)
  have g: "ev_facts (rank_one input (evaluate_one input f)) = f" for f
    by (simp add: rank_one_def evaluate_one_def Let_def)
  show ?thesis unfolding e
    by (rule map_sort_key_fun [where h = "\<lambda>f. rank_one input (evaluate_one input f)"]) (rule k g)+
qed

lemma Selected_eq:
  "rr_Selected (SelectRoutingCandidate input) =
     (case sort_key (candidate_rank input) (eligible_facts input) of
        [] \<Rightarrow> None
      | f # _ \<Rightarrow> Some \<lparr>sel_AgentID = rf_AgentID f, sel_RuntimeID = rf_RuntimeID f\<rparr>)"
proof -
  have "eligible_facts input = []" if "considered input = []"
    using that by (simp add: eligible_facts_def)
  then show ?thesis
    unfolding map_ranked_facts [symmetric]
    by (auto simp: SelectRoutingCandidate_def Let_def finalizeRoutingEvidence_def eligible_ranked_def
        split: list.splits)
qed

lemma Selected_None_iff:
  "rr_Selected (SelectRoutingCandidate input) = None \<longleftrightarrow>
     (\<forall>f \<in> set (considered input). \<not> routing_eligible input f)"
proof -
  have "sort_key (candidate_rank input) (eligible_facts input) = [] \<longleftrightarrow> eligible_facts input = []"
    by (metis length_0_conv length_sort)
  then show ?thesis
    by (auto simp: Selected_eq eligible_facts_def filter_empty_conv split: list.splits)
qed

lemma Selected_Some:
  assumes "rr_Selected (SelectRoutingCandidate input) = Some c"
  obtains f where "f \<in> set (considered input)" and "routing_eligible input f"
    and "sel_AgentID c = rf_AgentID f" and "sel_RuntimeID c = rf_RuntimeID f"
    and "\<And>g. g \<in> set (considered input) \<Longrightarrow> routing_eligible input g \<Longrightarrow>
      candidate_rank input f \<le> candidate_rank input g"
proof -
  obtain f fs where fs: "sort_key (candidate_rank input) (eligible_facts input) = f # fs"
      "c = \<lparr>sel_AgentID = rf_AgentID f, sel_RuntimeID = rf_RuntimeID f\<rparr>"
    using assms by (auto simp: Selected_eq split: list.splits)
  have "f \<in> set (eligible_facts input)"
    using fs(1) by (metis list.set_intros(1) set_sort)
  moreover have "candidate_rank input f \<le> candidate_rank input g" if "g \<in> set (eligible_facts input)" for g
    using sort_key_hd_le [OF fs(1) that] .
  ultimately show ?thesis using that [of f] fs(2) by (simp add: eligible_facts_def)
qed

lemma Selected_perm:
  assumes "mset cs = mset (ri_Candidates input)" and "distinct (map rf_AgentID (ri_Candidates input))"
  shows "rr_Selected (SelectRoutingCandidate (input\<lparr>ri_Candidates := cs\<rparr>)) =
    rr_Selected (SelectRoutingCandidate input)"
proof -
  let ?i = "input\<lparr>ri_Candidates := cs\<rparr>"
  have same: "routing_eligible ?i f = routing_eligible input f"
      "candidate_rank ?i f = candidate_rank input f" for f
    by (simp_all add: routing_eligible_def may_invoke_def runtime_usable_def candidate_rank_def
        separation_id_def)
  let ?P = "\<lambda>f. TrimSpace (rps_AgentID (ri_Snapshot input)) = [] \<or>
      rf_AgentID f = TrimSpace (rps_AgentID (ri_Snapshot input))"
  have ef: "eligible_facts ?i = filter (routing_eligible input) (filter ?P cs)"
      "eligible_facts input = filter (routing_eligible input) (filter ?P (ri_Candidates input))"
    using same(1) by (simp_all add: eligible_facts_def considered_def Let_def)
  have ms: "mset (eligible_facts ?i) = mset (eligible_facts input)"
    unfolding ef mset_filter assms(1) ..
  have "inj_on rf_AgentID (set (ri_Candidates input))" using assms(2) by (simp add: distinct_map)
  then have "inj_on (candidate_rank input) (set (ri_Candidates input))"
    by (simp add: inj_on_def candidate_rank_def)
  then have "inj_on (candidate_rank input) (set (eligible_facts input))"
    by (rule inj_on_subset) (simp add: ef)
  with ms have "sort_key (candidate_rank input) (eligible_facts ?i) =
      sort_key (candidate_rank input) (eligible_facts input)"
    by (intro sort_key_mset_eq) (auto dest: mset_eq_setD)
  moreover have "candidate_rank ?i = candidate_rank input" using same by blast
  ultimately show ?thesis by (simp add: Selected_eq)
qed

end
