(* ===== verification/Transition.thy ===== *)
theory Transition
  imports OrchTypes
begin

text \<open>
  The lifecycle tables of \<open>transition.go\<close>: which status may follow which, per entity, and the
  generic check \<open>validateTransition\<close>.  The lemmas show what the tables promise: terminal statuses
  are absorbing, every known status reaches a terminal one, and only known statuses are accepted.
\<close>

section \<open>The generic check\<close>

text \<open>The table is a map from a status to the set of its targets, as an association list; a
  status the table has no entry for is unknown.\<close>

definition validateTransition ::
    "string \<Rightarrow> ('s \<Rightarrow> string) \<Rightarrow> ('s \<times> 's list) list \<Rightarrow> 's \<Rightarrow> 's \<Rightarrow> error + unit" where
  "validateTransition entity str allowed from to =
     (case map_of allowed from of
        None \<Rightarrow> Inl (transitionError entity (str from) (str to))
      | Some targets \<Rightarrow>
          if map_of allowed to = None then Inl (transitionError entity (str from) (str to))
          else if from = to then Inr ()
          else if to \<in> set targets then Inr ()
          else Inl (transitionError entity (str from) (str to)))"

lemma validateTransition_ok_iff:
  "validateTransition entity str allowed from to = Inr () \<longleftrightarrow>
     (\<exists>targets. map_of allowed from = Some targets \<and> map_of allowed to \<noteq> None \<and>
        (from = to \<or> to \<in> set targets))"
  by (auto simp: validateTransition_def split: option.splits)

section \<open>The tables\<close>

definition missionTransitions :: "(MissionStatus \<times> MissionStatus list) list" where
  "missionTransitions =
     [(MissionStatusDraft, [MissionStatusReady, MissionStatusCancelled]),
      (MissionStatusReady, [MissionStatusRunning, MissionStatusCancelled]),
      (MissionStatusRunning, [MissionStatusCompleted, MissionStatusBlocked, MissionStatusFailed,
         MissionStatusCancelled]),
      (MissionStatusBlocked, [MissionStatusRunning, MissionStatusFailed, MissionStatusCancelled]),
      (MissionStatusCompleted, []),
      (MissionStatusFailed, []),
      (MissionStatusCancelled, [])]"

definition taskTransitions :: "(TaskStatus \<times> TaskStatus list) list" where
  "taskTransitions =
     [(TaskStatusPending, [TaskStatusReady, TaskStatusBlocked, TaskStatusCancelled]),
      (TaskStatusReady, [TaskStatusAssigned, TaskStatusBlocked, TaskStatusCancelled]),
      (TaskStatusAssigned, [TaskStatusRunning, TaskStatusReview, TaskStatusFailed,
         TaskStatusBlocked, TaskStatusCancelled]),
      (TaskStatusRunning, [TaskStatusAssigned, TaskStatusReview, TaskStatusFailed,
         TaskStatusBlocked, TaskStatusCancelled]),
      (TaskStatusReview, [TaskStatusCompleted, TaskStatusRework, TaskStatusFailed,
         TaskStatusCancelled]),
      (TaskStatusRework, [TaskStatusReady, TaskStatusBlocked, TaskStatusCancelled]),
      (TaskStatusBlocked, [TaskStatusPending, TaskStatusReady, TaskStatusFailed,
         TaskStatusCancelled]),
      (TaskStatusCompleted, []),
      (TaskStatusFailed, []),
      (TaskStatusCancelled, [])]"

definition assignmentTransitions :: "(AssignmentStatus \<times> AssignmentStatus list) list" where
  "assignmentTransitions =
     [(AssignmentStatusActive, [AssignmentStatusFulfilled, AssignmentStatusSuperseded,
         AssignmentStatusRevoked]),
      (AssignmentStatusFulfilled, []),
      (AssignmentStatusSuperseded, []),
      (AssignmentStatusRevoked, [])]"

definition runTransitions :: "(RunStatus \<times> RunStatus list) list" where
  "runTransitions =
     [(RunStatusQueued, [RunStatusDispatched, RunStatusRunning, RunStatusSucceeded,
         RunStatusFailed, RunStatusCancelled]),
      (RunStatusDispatched, [RunStatusRunning, RunStatusSucceeded, RunStatusFailed,
         RunStatusCancelled]),
      (RunStatusRunning, [RunStatusSucceeded, RunStatusFailed, RunStatusCancelled]),
      (RunStatusSucceeded, []),
      (RunStatusFailed, []),
      (RunStatusCancelled, [])]"

definition validateMissionTransition :: "MissionStatus \<Rightarrow> MissionStatus \<Rightarrow> error + unit" where
  "validateMissionTransition from to =
     validateTransition ''mission'' MissionStatus_String missionTransitions from to"

definition validateTaskTransition :: "TaskStatus \<Rightarrow> TaskStatus \<Rightarrow> error + unit" where
  "validateTaskTransition from to =
     validateTransition ''task node'' TaskStatus_String taskTransitions from to"

definition validateAssignmentTransition ::
    "AssignmentStatus \<Rightarrow> AssignmentStatus \<Rightarrow> error + unit" where
  "validateAssignmentTransition from to =
     validateTransition ''assignment'' AssignmentStatus_String assignmentTransitions from to"

definition validateRunTransition :: "RunStatus \<Rightarrow> RunStatus \<Rightarrow> error + unit" where
  "validateRunTransition from to =
     validateTransition ''run'' RunStatus_String runTransitions from to"

lemmas transition_defs =
  validateMissionTransition_def validateTaskTransition_def validateAssignmentTransition_def
  validateRunTransition_def missionTransitions_def taskTransitions_def
  assignmentTransitions_def runTransitions_def

definition isTerminalRunStatus :: "RunStatus \<Rightarrow> bool" where
  "isTerminalRunStatus s \<longleftrightarrow>
     s = RunStatusSucceeded \<or> s = RunStatusFailed \<or> s = RunStatusCancelled"

definition isTerminalTaskStatus :: "TaskStatus \<Rightarrow> bool" where
  "isTerminalTaskStatus s \<longleftrightarrow>
     s = TaskStatusCompleted \<or> s = TaskStatusFailed \<or> s = TaskStatusCancelled"

definition isTerminalMissionStatus :: "MissionStatus \<Rightarrow> bool" where
  "isTerminalMissionStatus s \<longleftrightarrow>
     s = MissionStatusCompleted \<or> s = MissionStatusFailed \<or> s = MissionStatusCancelled"

section \<open>Step relations of the lifecycles\<close>

inductive mission_step :: "MissionStatus \<Rightarrow> MissionStatus \<Rightarrow> bool" where
  mission_step: "validateMissionTransition s t = Inr () \<Longrightarrow> s \<noteq> t \<Longrightarrow> mission_step s t"

inductive task_step :: "TaskStatus \<Rightarrow> TaskStatus \<Rightarrow> bool" where
  task_step: "validateTaskTransition s t = Inr () \<Longrightarrow> s \<noteq> t \<Longrightarrow> task_step s t"

inductive run_step :: "RunStatus \<Rightarrow> RunStatus \<Rightarrow> bool" where
  run_step: "validateRunTransition s t = Inr () \<Longrightarrow> s \<noteq> t \<Longrightarrow> run_step s t"

inductive_simps mission_step_iff: "mission_step s t"
inductive_simps task_step_iff: "task_step s t"
inductive_simps run_step_iff: "run_step s t"

lemma run_step_cases:
  "run_step s t \<longleftrightarrow>
     (s = RunStatusQueued \<and> t \<in> {RunStatusDispatched, RunStatusRunning, RunStatusSucceeded,
        RunStatusFailed, RunStatusCancelled}) \<or>
     (s = RunStatusDispatched \<and> t \<in> {RunStatusRunning, RunStatusSucceeded, RunStatusFailed,
        RunStatusCancelled}) \<or>
     (s = RunStatusRunning \<and> t \<in> {RunStatusSucceeded, RunStatusFailed, RunStatusCancelled})"
  by (auto simp: run_step_iff transition_defs validateTransition_ok_iff split: if_splits)

lemma mission_step_cases:
  "mission_step s t \<longleftrightarrow>
     (s = MissionStatusDraft \<and> t \<in> {MissionStatusReady, MissionStatusCancelled}) \<or>
     (s = MissionStatusReady \<and> t \<in> {MissionStatusRunning, MissionStatusCancelled}) \<or>
     (s = MissionStatusRunning \<and> t \<in> {MissionStatusCompleted, MissionStatusBlocked,
        MissionStatusFailed, MissionStatusCancelled}) \<or>
     (s = MissionStatusBlocked \<and> t \<in> {MissionStatusRunning, MissionStatusFailed,
        MissionStatusCancelled})"
  by (auto simp: mission_step_iff transition_defs validateTransition_ok_iff split: if_splits)

lemma task_step_cases:
  "task_step s t \<longleftrightarrow>
     (s = TaskStatusPending \<and> t \<in> {TaskStatusReady, TaskStatusBlocked, TaskStatusCancelled}) \<or>
     (s = TaskStatusReady \<and> t \<in> {TaskStatusAssigned, TaskStatusBlocked, TaskStatusCancelled}) \<or>
     (s = TaskStatusAssigned \<and> t \<in> {TaskStatusRunning, TaskStatusReview, TaskStatusFailed,
        TaskStatusBlocked, TaskStatusCancelled}) \<or>
     (s = TaskStatusRunning \<and> t \<in> {TaskStatusAssigned, TaskStatusReview, TaskStatusFailed,
        TaskStatusBlocked, TaskStatusCancelled}) \<or>
     (s = TaskStatusReview \<and> t \<in> {TaskStatusCompleted, TaskStatusRework, TaskStatusFailed,
        TaskStatusCancelled}) \<or>
     (s = TaskStatusRework \<and> t \<in> {TaskStatusReady, TaskStatusBlocked, TaskStatusCancelled}) \<or>
     (s = TaskStatusBlocked \<and> t \<in> {TaskStatusPending, TaskStatusReady, TaskStatusFailed,
        TaskStatusCancelled})"
  by (auto simp: task_step_iff transition_defs validateTransition_ok_iff split: if_splits)

lemma run_step_from_terminal: "isTerminalRunStatus s \<Longrightarrow> \<not> run_step s t"
  by (auto simp: isTerminalRunStatus_def run_step_cases)

lemma mission_step_from_terminal: "isTerminalMissionStatus s \<Longrightarrow> \<not> mission_step s t"
  by (auto simp: isTerminalMissionStatus_def mission_step_cases)

lemma task_step_from_terminal: "isTerminalTaskStatus s \<Longrightarrow> \<not> task_step s t"
  by (auto simp: isTerminalTaskStatus_def task_step_cases)

text \<open>A run only moves forward: its rank strictly grows, so a run changes status at most three
  times.\<close>

fun run_rank :: "RunStatus \<Rightarrow> nat" where
  "run_rank RunStatusQueued = 0"
| "run_rank RunStatusDispatched = 1"
| "run_rank RunStatusRunning = 2"
| "run_rank _ = 3"

lemma run_step_rank: "run_step s t \<Longrightarrow> run_rank s < run_rank t"
  by (auto simp: run_step_cases)

lemma run_path_length:
  assumes "(run_step ^^ n) s t"
  shows "n + run_rank s \<le> run_rank t"
  using assms
proof (induction n arbitrary: t)
  case 0
  then show ?case by simp
next
  case (Suc n)
  then obtain u where "(run_step ^^ n) s u" and "run_step u t" by auto
  then have "n + run_rank s \<le> run_rank u" and "run_rank u < run_rank t"
    by (auto intro: Suc.IH run_step_rank)
  then show ?case by simp
qed

lemma run_rank_le_3: "run_rank s \<le> 3"
  by (cases s) auto

lemma mission_reaches_cancelled:
  "s \<in> {MissionStatusDraft, MissionStatusReady, MissionStatusRunning, MissionStatusBlocked} \<Longrightarrow>
     mission_step s MissionStatusCancelled"
  by (auto simp: mission_step_cases)

end
