(* ===== verification/Store.thy ===== *)
theory Store
  imports Transition RoleSnapshot
begin

text \<open>
  The database the orchestration repository works on: one record per table (the generated row
  structs of \<open>pkg/db/generated\<close>, their JSON columns by their decoded value), the queries of
  \<open>pkg/db/queries/orchestration.sql\<close> that the code calls, with the unique indexes of the
  migrations, and transactions.  A transaction is a function from the state to an error or a
  result with the new state; an error discards every change, which is the deferred rollback.
  \<open>sql_eq\<close> is SQL's equality, never true of NULL.  Status and duty columns hold the value of the Go
  type they are converted to.
\<close>

section \<open>Rows\<close>

record IssueRow =
  i_ID :: uuid
  i_WorkspaceID :: uuid
  i_Title :: string
  i_Description :: pgtext
  i_Status :: string
  i_CreatorType :: string
  i_CreatorID :: uuid
  i_ParentIssueID :: uuid
  i_ProjectID :: uuid
  i_Number :: int
  i_Position :: int

record MissionRow =
  m_IssueID :: uuid
  m_WorkspaceID :: uuid
  m_Status :: MissionStatus
  m_PlanKey :: pgtext
  m_PlanSchemaVersion :: "int option"
  m_Plan :: "Plan option"
  m_Limits :: PlanLimits
  m_NextActivitySequence :: int
  m_Revision :: int
  m_CreatedBy :: uuid
  m_CreatedAt :: time
  m_UpdatedAt :: time
  m_BudgetGateStatus :: string
  m_BudgetGrantTokens :: int
  m_BudgetGrantCostUsdTicks :: int
  m_BudgetApprovedBy :: uuid
  m_BudgetApprovedAt :: timestamptz

record TaskNodeRow =
  t_IssueID :: uuid
  t_WorkspaceID :: uuid
  t_MissionID :: uuid
  t_NodeKey :: string
  t_Role :: Duty
  t_AcceptanceCriteria :: "string list"
  t_ArtifactKinds :: "ArtifactKind list"
  t_Priority :: int
  t_Status :: TaskStatus
  t_BlockReason :: pgtext
  t_ReworkCount :: int
  t_Revision :: int
  t_CreatedAt :: time
  t_UpdatedAt :: time
  t_BudgetEstimateTokens :: int
  t_BudgetEstimateCostUsdTicks :: int

record DependencyRow =
  d_IssueID :: uuid
  d_DependsOnIssueID :: uuid

record AssignmentRow =
  a_ID :: uuid
  a_WorkspaceID :: uuid
  a_MissionID :: uuid
  a_TaskNodeID :: uuid
  a_Role :: Duty
  a_AgentID :: uuid
  a_RuntimeID :: uuid
  a_Status :: AssignmentStatus
  a_Sequence :: int
  a_SupersedesID :: uuid
  a_CreatedBy :: uuid
  a_CreatedAt :: time
  a_EndedAt :: timestamptz

record RunRow =
  r_ID :: uuid
  r_WorkspaceID :: uuid
  r_MissionID :: uuid
  r_TaskNodeID :: uuid
  r_AssignmentID :: uuid
  r_Purpose :: string
  r_Attempt :: int
  r_Status :: RunStatus
  r_Input :: json
  r_RetryOfID :: uuid
  r_FailureKind :: pgtext
  r_FailureMessage :: pgtext
  r_DispatchDeadlineAt :: timestamptz
  r_TimeoutSeconds :: int
  r_StartedAt :: timestamptz
  r_FinishedAt :: timestamptz
  r_CreatedAt :: timestamptz

record ArtifactRow =
  ar_ID :: uuid
  ar_WorkspaceID :: uuid
  ar_MissionID :: uuid
  ar_TaskNodeID :: uuid
  ar_RunID :: uuid
  ar_Kind :: ArtifactKind
  ar_Version :: int
  ar_Uri :: string
  ar_ContentHash :: pgtext
  ar_Summary :: string
  ar_Metadata :: json
  ar_CreatedAt :: time

record VerdictRow =
  v_ID :: uuid
  v_WorkspaceID :: uuid
  v_MissionID :: uuid
  v_TaskNodeID :: uuid
  v_ReviewRunID :: uuid
  v_ArtifactID :: uuid
  v_Decision :: string
  v_Evidence :: json
  v_RequestedChanges :: json
  v_CreatedAt :: time

record ActivityRow =
  ac_ID :: uuid
  ac_WorkspaceID :: uuid
  ac_MissionID :: uuid
  ac_TaskNodeID :: uuid
  ac_RunID :: uuid
  ac_Type :: string
  ac_ActorType :: string
  ac_ActorID :: uuid
  ac_SubjectType :: string
  ac_SubjectID :: uuid
  ac_CausationID :: uuid
  ac_CorrelationID :: uuid
  ac_PayloadVersion :: int
  ac_Payload :: json
  ac_DedupeKey :: string
  ac_Sequence :: int
  ac_OccurredAt :: time

record HumanGateRow =
  g_ID :: uuid
  g_WorkspaceID :: uuid
  g_MissionID :: uuid
  g_TaskNodeID :: uuid
  g_ArtifactID :: uuid
  g_SourceRunID :: uuid
  g_Kind :: string
  g_Status :: string
  g_Reason :: string
  g_Context :: json
  g_Revision :: int
  g_ResolvedBy :: uuid
  g_Resolution :: pgtext
  g_ResolutionReason :: pgtext
  g_ResolvedAt :: timestamptz
  g_CreatedAt :: time

record MailboxRow =
  mb_ID :: uuid
  mb_WorkspaceID :: uuid
  mb_MissionID :: uuid
  mb_TaskNodeID :: uuid
  mb_RunID :: uuid
  mb_ArtifactID :: uuid
  mb_ReplyToMessageID :: uuid
  mb_SchemaVersion :: int
  mb_Type :: string
  mb_SenderType :: string
  mb_SenderID :: uuid
  mb_RecipientType :: string
  mb_RecipientID :: uuid
  mb_Status :: string
  mb_DedupeKey :: string
  mb_Hops :: int
  mb_PayloadVersion :: int
  mb_Payload :: json
  mb_CommandID :: uuid
  mb_CreatedBy :: uuid
  mb_Revision :: int
  mb_CreatedAt :: time
  mb_ExpiresAt :: time
  mb_StatusChangedAt :: time

record AgentTaskRow =
  q_ID :: uuid
  q_AgentID :: uuid
  q_RuntimeID :: uuid
  q_IssueID :: uuid
  q_Status :: string
  q_Priority :: int
  q_Context :: "json option"
  q_CreatedAt :: time
  q_OrchestrationRunID :: uuid
  q_DispatchedAt :: timestamptz
  q_StartedAt :: timestamptz
  q_CompletedAt :: timestamptz
  q_FailureReason :: pgtext
  q_Error :: pgtext
  q_Result :: "json option"
  q_Attempt :: int
  q_MaxAttempts :: int
  q_ParentTaskID :: uuid
  q_RetryOfTaskID :: uuid
  q_RerunOfTaskID :: uuid
  q_EscalationForTaskID :: uuid
  q_FireAt :: timestamptz
  q_PrepareLeaseExpiresAt :: timestamptz
  q_ForceFreshSession :: bool
  q_SessionID :: pgtext
  q_WorkDir :: pgtext
  q_BranchName :: pgtext
  q_SessionRolloutMissing :: bool
  q_RetiredSessionID :: pgtext
  q_WaitReason :: pgtext
  q_TriggerCommentID :: uuid
  q_CoalescedCommentIds :: "uuid list"
  q_DeliveredCommentIds :: "uuid list"

record UsageRow =
  u_TaskID :: uuid
  u_Tokens :: int
  u_CostUsdTicks :: "int option"

record RoleProfileRow =
  rp_ID :: uuid
  rp_WorkspaceID :: uuid
  rp_ProfileKey :: string
  rp_Version :: int
  rp_Duty :: Duty
  rp_Name :: string
  rp_Description :: string
  rp_Config :: RoleProfileConfig
  rp_CommandID :: uuid
  rp_CreatedBy :: uuid
  rp_CreatedAt :: time

record SnapshotRow =
  sn_ID :: uuid
  sn_WorkspaceID :: uuid
  sn_MissionID :: uuid
  sn_Duty :: Duty
  sn_RoleProfileID :: uuid
  sn_RoleProfileKey :: string
  sn_RoleProfileVersion :: int
  sn_ProfileName :: string
  sn_ProfileDescription :: string
  sn_Config :: RoleProfileConfig
  sn_AgentID :: uuid
  sn_SchemaVersion :: int
  sn_ContentHash :: string
  sn_FrozenBy :: uuid
  sn_FrozenAt :: time

record AgentRow =
  ag_ID :: uuid
  ag_WorkspaceID :: uuid
  ag_RuntimeID :: uuid
  ag_OwnerID :: uuid
  ag_PermissionMode :: string
  ag_Model :: pgtext
  ag_MaxConcurrentTasks :: int
  ag_ArchivedAt :: timestamptz
  ag_Status :: string
  ag_CreatedAt :: time

record RuntimeRow =
  rt_ID :: uuid
  rt_WorkspaceID :: uuid
  rt_Status :: string
  rt_Provider :: string
  rt_Metadata :: "json option"
  rt_OwnerID :: uuid
  rt_Visibility :: string
  rt_LastSeenAt :: timestamptz

record InvocationTargetRow =
  it_AgentID :: uuid
  it_TargetType :: string
  it_TargetID :: uuid

record MemberRow =
  mem_UserID :: uuid
  mem_WorkspaceID :: uuid
  mem_Role :: string

section \<open>The state\<close>

record db =
  db_issues :: "IssueRow list"
  db_counters :: "(uuid \<times> int) list"
  db_missions :: "MissionRow list"
  db_nodes :: "TaskNodeRow list"
  db_dependencies :: "DependencyRow list"
  db_assignments :: "AssignmentRow list"
  db_runs :: "RunRow list"
  db_artifacts :: "ArtifactRow list"
  db_verdicts :: "VerdictRow list"
  db_activities :: "ActivityRow list"
  db_gates :: "HumanGateRow list"
  db_mailbox :: "MailboxRow list"
  db_tasks :: "AgentTaskRow list"
  db_usage :: "UsageRow list"
  db_profiles :: "RoleProfileRow list"
  db_snapshots :: "SnapshotRow list"
  db_agents :: "AgentRow list"
  db_runtimes :: "RuntimeRow list"
  db_targets :: "InvocationTargetRow list"
  db_members :: "MemberRow list"
  db_projects :: "(uuid \<times> uuid) list"
  db_drawn :: nat

section \<open>Transactions\<close>

type_synonym 'a tx = "db \<Rightarrow> error + 'a \<times> db"

definition tx_return :: "'a \<Rightarrow> 'a tx" where
  "tx_return a = (\<lambda>s. Inr (a, s))"

definition tx_fail :: "error \<Rightarrow> 'a tx" where
  "tx_fail e = (\<lambda>s. Inl e)"

definition tx_bind :: "'a tx \<Rightarrow> ('a \<Rightarrow> 'b tx) \<Rightarrow> 'b tx" where
  "tx_bind m f = (\<lambda>s. case m s of Inl e \<Rightarrow> Inl e | Inr (a, s') \<Rightarrow> f a s')"

text \<open>\<open>fmt.Errorf("msg: %w", err)\<close> on the error of a step.\<close>

definition tx_wrap :: "string \<Rightarrow> 'a tx \<Rightarrow> 'a tx" where
  "tx_wrap msg m = (\<lambda>s. case m s of Inl e \<Rightarrow> Inl (Wrapped msg e) | Inr r \<Rightarrow> Inr r)"

definition tx_query :: "(db \<Rightarrow> 'a) \<Rightarrow> 'a tx" where
  "tx_query f = (\<lambda>s. Inr (f s, s))"

text \<open>A query for one row: \<open>pgx.ErrNoRows\<close> when there is none.\<close>

definition tx_one :: "(db \<Rightarrow> 'a option) \<Rightarrow> 'a tx" where
  "tx_one f = (\<lambda>s. case f s of None \<Rightarrow> Inl ErrNoRows | Some a \<Rightarrow> Inr (a, s))"

definition tx_guard :: "bool \<Rightarrow> error \<Rightarrow> unit tx" where
  "tx_guard b e = (if b then tx_return () else tx_fail e)"

definition tx_lift :: "error + 'a \<Rightarrow> 'a tx" where
  "tx_lift r = (\<lambda>s. case r of Inl e \<Rightarrow> Inl e | Inr a \<Rightarrow> Inr (a, s))"

text \<open>\<open>errors.Is(err, pgx.ErrNoRows)\<close> taken as "there is none".\<close>

definition tx_absent :: "'a tx \<Rightarrow> 'a option tx" where
  "tx_absent m =
     (\<lambda>s. case m s of Inl e \<Rightarrow> if e = ErrNoRows then Inr (None, s) else Inl e
          | Inr (a, s') \<Rightarrow> Inr (Some a, s'))"

text \<open>A transaction of its own, begun after another one was committed: its failure is reported with the
  result and undoes nothing of the first.\<close>

definition tx_try :: "'a tx \<Rightarrow> (error + 'a) tx" where
  "tx_try m = (\<lambda>s. case m s of Inl e \<Rightarrow> Inr (Inl e, s) | Inr (a, s') \<Rightarrow> Inr (Inr a, s'))"

fun tx_map :: "('a \<Rightarrow> 'b tx) \<Rightarrow> 'a list \<Rightarrow> 'b list tx" where
  "tx_map f [] = tx_return []"
| "tx_map f (x # xs) = tx_bind (f x) (\<lambda>y. tx_bind (tx_map f xs) (\<lambda>ys. tx_return (y # ys)))"

lemma tx_return_apply [simp]: "tx_return a s = Inr (a, s)"
  by (simp add: tx_return_def)

lemma tx_fail_apply [simp]: "tx_fail e s = Inl e"
  by (simp add: tx_fail_def)

lemma tx_query_apply [simp]: "tx_query f s = Inr (f s, s)"
  by (simp add: tx_query_def)

lemma tx_bind_Inr [simp]:
  "tx_bind m f s = Inr r \<longleftrightarrow> (\<exists>a s'. m s = Inr (a, s') \<and> f a s' = Inr r)"
  by (auto simp: tx_bind_def split: sum.splits)

lemma tx_bind_Inl:
  "tx_bind m f s = Inl e \<longleftrightarrow> m s = Inl e \<or> (\<exists>a s'. m s = Inr (a, s') \<and> f a s' = Inl e)"
  by (auto simp: tx_bind_def split: sum.splits)

lemma tx_wrap_Inr [simp]: "tx_wrap msg m s = Inr r \<longleftrightarrow> m s = Inr r"
  by (auto simp: tx_wrap_def split: sum.splits)

lemma tx_one_Inr [simp]: "tx_one f s = Inr (a, s') \<longleftrightarrow> f s = Some a \<and> s' = s"
  by (auto simp: tx_one_def split: option.splits)

lemma tx_guard_Inr [simp]: "tx_guard b e s = Inr (u, s') \<longleftrightarrow> b \<and> s' = s"
  by (auto simp: tx_guard_def)

lemma tx_lift_Inr [simp]: "tx_lift r s = Inr (a, s') \<longleftrightarrow> r = Inr a \<and> s' = s"
  by (auto simp: tx_lift_def split: sum.splits)

lemma tx_absent_Inr [simp]:
  "tx_absent m s = Inr (x, t) \<longleftrightarrow>
     (m s = Inl ErrNoRows \<and> x = None \<and> t = s) \<or> (\<exists>a. m s = Inr (a, t) \<and> x = Some a)"
  by (auto simp: tx_absent_def split: sum.splits)

lemma tx_try_Inr [simp]:
  "tx_try m s = Inr (x, t) \<longleftrightarrow> (\<exists>e. m s = Inl e \<and> x = Inl e \<and> t = s) \<or> (\<exists>a. m s = Inr (a, t) \<and> x = Inr a)"
  by (auto simp: tx_try_def split: sum.splits)

lemma tx_bind_apply_return [simp]: "tx_bind (tx_return a) f = f a"
  by (simp add: tx_bind_def tx_return_def)

lemma tx_bind_assoc: "tx_bind (tx_bind m f) g = tx_bind m (\<lambda>a. tx_bind (f a) g)"
  by (rule ext) (simp add: tx_bind_def split: sum.splits)

section \<open>SQL\<close>

definition sql_eq :: "uuid \<Rightarrow> uuid \<Rightarrow> bool" where
  "sql_eq a b \<longleftrightarrow> a \<noteq> None \<and> a = b"

text \<open>\<open>UPDATE ... WHERE P ... RETURNING *\<close> of one row: the first updated row.\<close>

definition update_rows :: "('r \<Rightarrow> bool) \<Rightarrow> ('r \<Rightarrow> 'r) \<Rightarrow> 'r list \<Rightarrow> 'r list" where
  "update_rows P f rows = map (\<lambda>r. if P r then f r else r) rows"

definition tx_update ::
    "(db \<Rightarrow> 'r list) \<Rightarrow> ('r list \<Rightarrow> db \<Rightarrow> db) \<Rightarrow> ('r \<Rightarrow> bool) \<Rightarrow> ('r \<Rightarrow> 'r) \<Rightarrow> 'r tx" where
  "tx_update get put P f =
     (\<lambda>s. case find P (get s) of
            None \<Rightarrow> Inl ErrNoRows
          | Some r \<Rightarrow> Inr (f r, put (update_rows P f (get s)) s))"

text \<open>\<open>INSERT ... RETURNING *\<close> under a unique index: \<open>clash\<close> tells which existing rows conflict.\<close>

definition tx_insert ::
    "(db \<Rightarrow> 'r list) \<Rightarrow> ('r list \<Rightarrow> db \<Rightarrow> db) \<Rightarrow> (string \<times> ('r \<Rightarrow> bool)) list \<Rightarrow> 'r \<Rightarrow> 'r tx" where
  "tx_insert get put indexes row =
     (\<lambda>s. case find (\<lambda>(name, clash). list_ex clash (get s)) indexes of
            Some (name, _) \<Rightarrow> Inl (UniqueViolation name)
          | None \<Rightarrow> Inr (row, put (get s @ [row]) s))"

definition draw_uuid :: "env \<Rightarrow> uuid tx" where
  "draw_uuid \<epsilon> = (\<lambda>s. Inr (Some (env_gen_uuid \<epsilon> (db_drawn s)), s\<lparr>db_drawn := db_drawn s + 1\<rparr>))"

lemma tx_update_Inr:
  "tx_update get put P f s = Inr (r, s') \<longleftrightarrow>
     (\<exists>r0. find P (get s) = Some r0 \<and> r = f r0 \<and> s' = put (update_rows P f (get s)) s)"
  by (auto simp: tx_update_def split: option.splits)

lemma tx_insert_Inr:
  "tx_insert get put indexes row s = Inr (r, s') \<longleftrightarrow>
     (\<forall>(name, clash) \<in> set indexes. \<forall>x \<in> set (get s). \<not> clash x) \<and> r = row \<and>
     s' = put (get s @ [row]) s"
  by (auto simp: tx_insert_def find_None_iff find_Some_iff list_ex_iff split: option.splits)
    (metis (no_types, lifting) case_prodD nth_mem)+

end
