(* ===== verification/Queries.thy ===== *)
theory Queries
  imports Store
begin

text \<open>
  The queries of \<open>pkg/db/queries/orchestration.sql\<close> (with the few of \<open>issue.sql\<close>, \<open>member.sql\<close> and
  \<open>workspace.sql\<close>) that the orchestration service calls, on missions, task nodes, issues, assignments,
  runs, artifacts, verdicts and activities.  Row locks are no-ops here: each command is one
  transaction, and the mission row is locked before anything is decided on it.
\<close>

definition uuid_key :: "uuid \<Rightarrow> bool \<times> string" where
  "uuid_key u = (u = None, case u of None \<Rightarrow> [] | Some s \<Rightarrow> s)"

section \<open>Missions\<close>

definition mission_is :: "uuid \<Rightarrow> uuid \<Rightarrow> MissionRow \<Rightarrow> bool" where
  "mission_is ws mid m \<longleftrightarrow> sql_eq (m_IssueID m) mid \<and> sql_eq (m_WorkspaceID m) ws"

definition GetMissionInWorkspace :: "uuid \<Rightarrow> uuid \<Rightarrow> MissionRow tx" where
  "GetMissionInWorkspace ws mid = tx_one (\<lambda>s. find (mission_is ws mid) (db_missions s))"

definition LockMissionInWorkspace :: "uuid \<Rightarrow> uuid \<Rightarrow> MissionRow tx" where
  "LockMissionInWorkspace ws mid = GetMissionInWorkspace ws mid"

definition update_mission :: "(MissionRow \<Rightarrow> bool) \<Rightarrow> (MissionRow \<Rightarrow> MissionRow) \<Rightarrow> MissionRow tx" where
  "update_mission = tx_update db_missions (\<lambda>rows s. s\<lparr>db_missions := rows\<rparr>)"

definition touch_mission :: "env \<Rightarrow> MissionRow \<Rightarrow> MissionRow" where
  "touch_mission \<epsilon> m = m\<lparr>m_Revision := m_Revision m + 1, m_UpdatedAt := env_now \<epsilon>\<rparr>"

definition CreateMissionRecord :: "env \<Rightarrow> uuid \<Rightarrow> uuid \<Rightarrow> PlanLimits \<Rightarrow> uuid \<Rightarrow> MissionRow tx" where
  "CreateMissionRecord \<epsilon> issueID ws limits createdBy =
     tx_insert db_missions (\<lambda>rows s. s\<lparr>db_missions := rows\<rparr>)
       [(''mission_pkey'', \<lambda>m. sql_eq (m_IssueID m) issueID)]
       \<lparr>m_IssueID = issueID, m_WorkspaceID = ws, m_Status = MissionStatusDraft, m_PlanKey = None,
        m_PlanSchemaVersion = None, m_Plan = None, m_Limits = limits, m_NextActivitySequence = 1,
        m_Revision = 1, m_CreatedBy = createdBy, m_CreatedAt = env_now \<epsilon>, m_UpdatedAt = env_now \<epsilon>,
        m_BudgetGateStatus = ''none'', m_BudgetGrantTokens = 0, m_BudgetGrantCostUsdTicks = 0,
        m_BudgetApprovedBy = None, m_BudgetApprovedAt = None\<rparr>"

definition AcceptMissionPlan :: "env \<Rightarrow> uuid \<Rightarrow> uuid \<Rightarrow> Plan \<Rightarrow> int \<Rightarrow> MissionRow tx" where
  "AcceptMissionPlan \<epsilon> ws mid plan expected =
     update_mission
       (\<lambda>m. mission_is ws mid m \<and> m_Status m = MissionStatusDraft \<and> m_Revision m = expected)
       (\<lambda>m. touch_mission \<epsilon> (m\<lparr>m_Status := MissionStatusReady, m_PlanKey := Some (plan_PlanKey plan),
              m_PlanSchemaVersion := Some (plan_SchemaVersion plan), m_Plan := Some plan,
              m_Limits := plan_Limits plan\<rparr>))"

definition StartMissionRecord :: "env \<Rightarrow> uuid \<Rightarrow> uuid \<Rightarrow> int \<Rightarrow> MissionRow tx" where
  "StartMissionRecord \<epsilon> ws mid expected =
     update_mission
       (\<lambda>m. mission_is ws mid m \<and> m_Status m = MissionStatusReady \<and> m_Revision m = expected)
       (\<lambda>m. touch_mission \<epsilon> (m\<lparr>m_Status := MissionStatusRunning\<rparr>))"

definition CancelMissionRecord :: "env \<Rightarrow> uuid \<Rightarrow> uuid \<Rightarrow> int \<Rightarrow> MissionRow tx" where
  "CancelMissionRecord \<epsilon> ws mid expected =
     update_mission
       (\<lambda>m. mission_is ws mid m \<and>
          m_Status m \<in> {MissionStatusDraft, MissionStatusReady, MissionStatusRunning,
                        MissionStatusBlocked} \<and> m_Revision m = expected)
       (\<lambda>m. touch_mission \<epsilon> (m\<lparr>m_Status := MissionStatusCancelled\<rparr>))"

definition SetMissionBudgetGate :: "env \<Rightarrow> uuid \<Rightarrow> uuid \<Rightarrow> string \<Rightarrow> MissionRow tx" where
  "SetMissionBudgetGate \<epsilon> ws mid gateStatus =
     update_mission
       (\<lambda>m. mission_is ws mid m \<and> m_Status m \<in> {MissionStatusRunning, MissionStatusBlocked})
       (\<lambda>m. touch_mission \<epsilon> (m\<lparr>m_Status := MissionStatusBlocked, m_BudgetGateStatus := gateStatus\<rparr>))"

definition ResumeMissionForTaskRetry :: "env \<Rightarrow> uuid \<Rightarrow> uuid \<Rightarrow> int \<Rightarrow> MissionRow tx" where
  "ResumeMissionForTaskRetry \<epsilon> ws mid expected =
     update_mission
       (\<lambda>m. mission_is ws mid m \<and> m_Status m \<in> {MissionStatusRunning, MissionStatusBlocked} \<and>
          m_Revision m = expected)
       (\<lambda>m. touch_mission \<epsilon> (m\<lparr>m_Status := MissionStatusRunning\<rparr>))"

definition TransitionMissionState ::
    "env \<Rightarrow> uuid \<Rightarrow> uuid \<Rightarrow> MissionStatus \<Rightarrow> MissionStatus \<Rightarrow> MissionRow tx" where
  "TransitionMissionState \<epsilon> ws mid target expected =
     update_mission (\<lambda>m. mission_is ws mid m \<and> m_Status m = expected)
       (\<lambda>m. touch_mission \<epsilon> (m\<lparr>m_Status := target\<rparr>))"

definition AllocateMissionActivitySequence :: "env \<Rightarrow> uuid \<Rightarrow> uuid \<Rightarrow> int tx" where
  "AllocateMissionActivitySequence \<epsilon> ws mid =
     tx_bind (update_mission (mission_is ws mid)
         (\<lambda>m. m\<lparr>m_NextActivitySequence := m_NextActivitySequence m + 1, m_UpdatedAt := env_now \<epsilon>\<rparr>))
       (\<lambda>m. tx_return (m_NextActivitySequence m - 1))"

section \<open>Issues\<close>

definition GetIssueInWorkspace :: "uuid \<Rightarrow> uuid \<Rightarrow> IssueRow tx" where
  "GetIssueInWorkspace ws iid =
     tx_one (\<lambda>s. find (\<lambda>i. sql_eq (i_ID i) iid \<and> sql_eq (i_WorkspaceID i) ws) (db_issues s))"

definition UpdateIssueStatus :: "uuid \<Rightarrow> uuid \<Rightarrow> string \<Rightarrow> IssueRow tx" where
  "UpdateIssueStatus ws iid status =
     tx_update db_issues (\<lambda>rows s. s\<lparr>db_issues := rows\<rparr>)
       (\<lambda>i. sql_eq (i_ID i) iid \<and> sql_eq (i_WorkspaceID i) ws) (\<lambda>i. i\<lparr>i_Status := status\<rparr>)"

text \<open>\<open>UPDATE workspace SET issue_counter = issue_counter + 1 ... RETURNING issue_counter\<close>.\<close>

definition IncrementIssueCounter :: "uuid \<Rightarrow> int tx" where
  "IncrementIssueCounter ws =
     (\<lambda>s. case find (\<lambda>(w, n). sql_eq w ws) (db_counters s) of
            None \<Rightarrow> Inl ErrNoRows
          | Some (_, n) \<Rightarrow>
              Inr (n + 1, s\<lparr>db_counters := update_rows (\<lambda>(w, n). sql_eq w ws) (\<lambda>(w, n). (w, n + 1))
                              (db_counters s)\<rparr>))"

text \<open>\<open>issueposition.NextTopPosition\<close>: one less than the least position of the column, zero when it
  is empty.  Positions are only ever moved by whole numbers here.\<close>

definition NextTopPosition :: "uuid \<Rightarrow> string \<Rightarrow> int tx" where
  "NextTopPosition ws status =
     tx_query (\<lambda>s.
       (case map i_Position (filter (\<lambda>i. sql_eq (i_WorkspaceID i) ws \<and> i_Status i = status) (db_issues s)) of
          [] \<Rightarrow> 0
        | p # ps \<Rightarrow> fold min ps p) - 1)"

definition CreateIssue :: "env \<Rightarrow> IssueRow \<Rightarrow> IssueRow tx" where
  "CreateIssue \<epsilon> row =
     tx_bind (draw_uuid \<epsilon>) (\<lambda>iid.
       tx_insert db_issues (\<lambda>rows s. s\<lparr>db_issues := rows\<rparr>) [(''issue_pkey'', \<lambda>i. sql_eq (i_ID i) iid)]
         (row\<lparr>i_ID := iid\<rparr>))"

definition CreateOrchestrationIssueDependency :: "uuid \<Rightarrow> uuid \<Rightarrow> DependencyRow tx" where
  "CreateOrchestrationIssueDependency issueID dependsOn =
     tx_insert db_dependencies (\<lambda>rows s. s\<lparr>db_dependencies := rows\<rparr>) []
       \<lparr>d_IssueID = issueID, d_DependsOnIssueID = dependsOn\<rparr>"

section \<open>Task nodes\<close>

definition node_in :: "uuid \<Rightarrow> uuid \<Rightarrow> TaskNodeRow \<Rightarrow> bool" where
  "node_in ws mid n \<longleftrightarrow> sql_eq (t_WorkspaceID n) ws \<and> sql_eq (t_MissionID n) mid"

definition node_is :: "uuid \<Rightarrow> uuid \<Rightarrow> uuid \<Rightarrow> TaskNodeRow \<Rightarrow> bool" where
  "node_is ws mid nid n \<longleftrightarrow> sql_eq (t_IssueID n) nid \<and> node_in ws mid n"

definition update_node :: "(TaskNodeRow \<Rightarrow> bool) \<Rightarrow> (TaskNodeRow \<Rightarrow> TaskNodeRow) \<Rightarrow> TaskNodeRow tx" where
  "update_node = tx_update db_nodes (\<lambda>rows s. s\<lparr>db_nodes := rows\<rparr>)"

definition touch_node :: "env \<Rightarrow> TaskNodeRow \<Rightarrow> TaskNodeRow" where
  "touch_node \<epsilon> n = n\<lparr>t_Revision := t_Revision n + 1, t_UpdatedAt := env_now \<epsilon>\<rparr>"

definition CreateTaskNodeRecord :: "env \<Rightarrow> uuid \<Rightarrow> uuid \<Rightarrow> uuid \<Rightarrow> PlanNode \<Rightarrow> TaskNodeRow tx" where
  "CreateTaskNodeRecord \<epsilon> issueID ws mid node =
     tx_insert db_nodes (\<lambda>rows s. s\<lparr>db_nodes := rows\<rparr>)
       [(''task_node_pkey'', \<lambda>n. sql_eq (t_IssueID n) issueID),
        (''idx_task_node_mission_key_unique'',
           \<lambda>n. sql_eq (t_MissionID n) mid \<and> t_NodeKey n = pn_Key node)]
       \<lparr>t_IssueID = issueID, t_WorkspaceID = ws, t_MissionID = mid, t_NodeKey = pn_Key node,
        t_Role = pn_Duty node, t_AcceptanceCriteria = pn_AcceptanceCriteria node,
        t_ArtifactKinds = pn_ArtifactKinds node, t_Priority = 0, t_Status = TaskStatusPending,
        t_BlockReason = None, t_ReworkCount = 0, t_Revision = 1, t_CreatedAt = env_now \<epsilon>,
        t_UpdatedAt = env_now \<epsilon>,
        t_BudgetEstimateTokens = est_Tokens (pn_BudgetEstimate node),
        t_BudgetEstimateCostUsdTicks = est_CostUSDTicks (pn_BudgetEstimate node)\<rparr>"

definition node_order :: "TaskNodeRow \<Rightarrow> int \<times> time \<times> string" where
  "node_order n = (- t_Priority n, t_CreatedAt n, t_NodeKey n)"

definition ListTaskNodesByMission :: "uuid \<Rightarrow> uuid \<Rightarrow> TaskNodeRow list tx" where
  "ListTaskNodesByMission ws mid =
     tx_query (\<lambda>s. sort_key node_order (filter (node_in ws mid) (db_nodes s)))"

definition GetTaskNodeInMission :: "uuid \<Rightarrow> uuid \<Rightarrow> uuid \<Rightarrow> TaskNodeRow tx" where
  "GetTaskNodeInMission ws mid nid = tx_one (\<lambda>s. find (node_is ws mid nid) (db_nodes s))"

definition LockTaskNodeForReconcile :: "uuid \<Rightarrow> uuid \<Rightarrow> uuid \<Rightarrow> TaskNodeRow tx" where
  "LockTaskNodeForReconcile ws mid nid = GetTaskNodeInMission ws mid nid"

definition MarkTaskNodeReady :: "env \<Rightarrow> uuid \<Rightarrow> uuid \<Rightarrow> uuid \<Rightarrow> int \<Rightarrow> TaskNodeRow tx" where
  "MarkTaskNodeReady \<epsilon> ws mid nid expected =
     update_node
       (\<lambda>n. node_is ws mid nid n \<and> t_Status n = TaskStatusPending \<and> t_Revision n = expected)
       (\<lambda>n. touch_node \<epsilon> (n\<lparr>t_Status := TaskStatusReady, t_BlockReason := None\<rparr>))"

definition TransitionTaskNodeState ::
    "env \<Rightarrow> uuid \<Rightarrow> uuid \<Rightarrow> uuid \<Rightarrow> TaskStatus \<Rightarrow> pgtext \<Rightarrow> TaskStatus \<Rightarrow> TaskNodeRow tx" where
  "TransitionTaskNodeState \<epsilon> ws mid nid target blockReason expected =
     update_node (\<lambda>n. node_is ws mid nid n \<and> t_Status n = expected)
       (\<lambda>n. touch_node \<epsilon> (n\<lparr>t_Status := target, t_BlockReason := blockReason\<rparr>))"

definition TransitionTaskNodeForRework ::
    "env \<Rightarrow> uuid \<Rightarrow> uuid \<Rightarrow> uuid \<Rightarrow> TaskStatus \<Rightarrow> int \<Rightarrow> TaskNodeRow tx" where
  "TransitionTaskNodeForRework \<epsilon> ws mid nid target expectedReworkCount =
     update_node
       (\<lambda>n. node_is ws mid nid n \<and> t_Status n = TaskStatusReview \<and>
          t_ReworkCount n = expectedReworkCount)
       (\<lambda>n. touch_node \<epsilon> (n\<lparr>t_Status := target, t_BlockReason := None,
              t_ReworkCount := t_ReworkCount n + 1\<rparr>))"

definition RetryBlockedTaskNode :: "env \<Rightarrow> uuid \<Rightarrow> uuid \<Rightarrow> uuid \<Rightarrow> int \<Rightarrow> TaskNodeRow tx" where
  "RetryBlockedTaskNode \<epsilon> ws mid nid expected =
     update_node
       (\<lambda>n. node_is ws mid nid n \<and> t_Status n = TaskStatusBlocked \<and> t_Revision n = expected)
       (\<lambda>n. touch_node \<epsilon> (n\<lparr>t_Status := TaskStatusPending, t_BlockReason := None\<rparr>))"

text \<open>The \<open>UPDATE ... RETURNING *\<close> of every open node of a mission.\<close>

definition CancelMissionTaskNodes :: "env \<Rightarrow> uuid \<Rightarrow> uuid \<Rightarrow> TaskNodeRow list tx" where
  "CancelMissionTaskNodes \<epsilon> ws mid =
     (\<lambda>s. let P = (\<lambda>n. node_in ws mid n \<and> \<not> isTerminalTaskStatus (t_Status n));
              f = (\<lambda>n. touch_node \<epsilon> (n\<lparr>t_Status := TaskStatusCancelled\<rparr>)) in
          Inr (map f (filter P (db_nodes s)), s\<lparr>db_nodes := update_rows P f (db_nodes s)\<rparr>))"

definition dependency_order :: "DependencyRow \<Rightarrow> (bool \<times> string) \<times> (bool \<times> string)" where
  "dependency_order d = (uuid_key (d_IssueID d), uuid_key (d_DependsOnIssueID d))"

definition ListOrchestrationIssueDependencies :: "uuid \<Rightarrow> uuid \<Rightarrow> DependencyRow list tx" where
  "ListOrchestrationIssueDependencies ws mid =
     tx_query (\<lambda>s. sort_key dependency_order
       (filter (\<lambda>d. list_ex (\<lambda>n. sql_eq (t_IssueID n) (d_IssueID d) \<and> node_in ws mid n) (db_nodes s))
          (db_dependencies s)))"

section \<open>Assignments and runs\<close>

definition assignment_in :: "uuid \<Rightarrow> uuid \<Rightarrow> AssignmentRow \<Rightarrow> bool" where
  "assignment_in ws mid a \<longleftrightarrow> sql_eq (a_WorkspaceID a) ws \<and> sql_eq (a_MissionID a) mid"

definition RevokeMissionAssignments :: "env \<Rightarrow> uuid \<Rightarrow> uuid \<Rightarrow> AssignmentRow list tx" where
  "RevokeMissionAssignments \<epsilon> ws mid =
     (\<lambda>s. let P = (\<lambda>a. assignment_in ws mid a \<and> a_Status a = AssignmentStatusActive);
              f = (\<lambda>a. a\<lparr>a_Status := AssignmentStatusRevoked, a_EndedAt := Some (env_now \<epsilon>)\<rparr>) in
          Inr (map f (filter P (db_assignments s)),
               s\<lparr>db_assignments := update_rows P f (db_assignments s)\<rparr>))"

definition EndOrchestrationAssignment ::
    "env \<Rightarrow> uuid \<Rightarrow> uuid \<Rightarrow> uuid \<Rightarrow> AssignmentStatus \<Rightarrow> AssignmentRow tx" where
  "EndOrchestrationAssignment \<epsilon> ws mid aid target =
     tx_update db_assignments (\<lambda>rows s. s\<lparr>db_assignments := rows\<rparr>)
       (\<lambda>a. sql_eq (a_ID a) aid \<and> assignment_in ws mid a \<and> a_Status a = AssignmentStatusActive)
       (\<lambda>a. a\<lparr>a_Status := target, a_EndedAt := Some (env_now \<epsilon>)\<rparr>)"

definition GetOrchestrationAssignmentInWorkspace :: "uuid \<Rightarrow> uuid \<Rightarrow> AssignmentRow tx" where
  "GetOrchestrationAssignmentInWorkspace ws aid =
     tx_one (\<lambda>s. find (\<lambda>a. sql_eq (a_ID a) aid \<and> sql_eq (a_WorkspaceID a) ws) (db_assignments s))"

definition assignment_order :: "AssignmentRow \<Rightarrow> (bool \<times> string) \<times> string \<times> int" where
  "assignment_order a = (uuid_key (a_TaskNodeID a), Duty_String (a_Role a), a_Sequence a)"

definition ListOrchestrationAssignmentsByMission :: "uuid \<Rightarrow> uuid \<Rightarrow> AssignmentRow list tx" where
  "ListOrchestrationAssignmentsByMission ws mid =
     tx_query (\<lambda>s. sort_key assignment_order (filter (assignment_in ws mid) (db_assignments s)))"

text \<open>The insert of an assignment, under the unique indexes of migrations 316, 317, 341 and 342.\<close>

definition assignment_indexes ::
    "uuid \<Rightarrow> uuid \<Rightarrow> uuid \<Rightarrow> Duty \<Rightarrow> int \<Rightarrow> (string \<times> (AssignmentRow \<Rightarrow> bool)) list" where
  "assignment_indexes ws mid nid role seq =
     [(''idx_orchestration_assignment_active_unique'',
         \<lambda>a. sql_eq (a_TaskNodeID a) nid \<and> a_Role a = role \<and> a_Status a = AssignmentStatusActive),
      (''idx_orchestration_assignment_sequence_unique'',
         \<lambda>a. sql_eq (a_TaskNodeID a) nid \<and> a_Role a = role \<and> a_Sequence a = seq),
      (''idx_planning_assignment_active_unique'',
         \<lambda>a. nid = None \<and> role = DutyPlanner \<and> a_TaskNodeID a = None \<and> a_Role a = DutyPlanner \<and>
             assignment_in ws mid a \<and> a_Status a = AssignmentStatusActive),
      (''idx_planning_assignment_sequence_unique'',
         \<lambda>a. nid = None \<and> role = DutyPlanner \<and> a_TaskNodeID a = None \<and> a_Role a = DutyPlanner \<and>
             assignment_in ws mid a \<and> a_Sequence a = seq)]"

definition CreateOrchestrationAssignment ::
    "env \<Rightarrow> uuid \<Rightarrow> uuid \<Rightarrow> uuid \<Rightarrow> Duty \<Rightarrow> uuid \<Rightarrow> uuid \<Rightarrow> int \<Rightarrow> uuid \<Rightarrow> uuid \<Rightarrow> AssignmentRow tx" where
  "CreateOrchestrationAssignment \<epsilon> ws mid nid role agentID runtimeID seq supersedes createdBy =
     tx_bind (draw_uuid \<epsilon>) (\<lambda>aid.
       tx_insert db_assignments (\<lambda>rows s. s\<lparr>db_assignments := rows\<rparr>)
         (assignment_indexes ws mid nid role seq)
         \<lparr>a_ID = aid, a_WorkspaceID = ws, a_MissionID = mid, a_TaskNodeID = nid, a_Role = role,
          a_AgentID = agentID, a_RuntimeID = runtimeID, a_Status = AssignmentStatusActive,
          a_Sequence = seq, a_SupersedesID = supersedes, a_CreatedBy = createdBy,
          a_CreatedAt = env_now \<epsilon>, a_EndedAt = None\<rparr>)"

definition isActiveRunStatus :: "RunStatus \<Rightarrow> bool" where
  "isActiveRunStatus st \<longleftrightarrow> st \<in> {RunStatusQueued, RunStatusDispatched, RunStatusRunning}"

definition run_in :: "uuid \<Rightarrow> uuid \<Rightarrow> RunRow \<Rightarrow> bool" where
  "run_in ws mid r \<longleftrightarrow> sql_eq (r_WorkspaceID r) ws \<and> sql_eq (r_MissionID r) mid"

definition run_order :: "RunRow \<Rightarrow> time \<times> (bool \<times> string)" where
  "run_order r = (case r_CreatedAt r of None \<Rightarrow> 0 | Some t \<Rightarrow> t, uuid_key (r_ID r))"

definition CreateOrchestrationRun ::
    "env \<Rightarrow> uuid \<Rightarrow> uuid \<Rightarrow> uuid \<Rightarrow> uuid \<Rightarrow> string \<Rightarrow> int \<Rightarrow> json \<Rightarrow> uuid \<Rightarrow> timestamptz \<Rightarrow> int \<Rightarrow>
     RunRow tx" where
  "CreateOrchestrationRun \<epsilon> ws mid nid aid purpose attempt input retryOf deadline timeoutSeconds =
     tx_bind (draw_uuid \<epsilon>) (\<lambda>rid.
       tx_insert db_runs (\<lambda>rows s. s\<lparr>db_runs := rows\<rparr>)
         [(''idx_orchestration_run_attempt_unique'',
             \<lambda>r. sql_eq (r_AssignmentID r) aid \<and> r_Attempt r = attempt)]
         \<lparr>r_ID = rid, r_WorkspaceID = ws, r_MissionID = mid, r_TaskNodeID = nid, r_AssignmentID = aid,
          r_Purpose = purpose, r_Attempt = attempt, r_Status = RunStatusQueued, r_Input = input,
          r_RetryOfID = retryOf, r_FailureKind = None, r_FailureMessage = None,
          r_DispatchDeadlineAt = deadline, r_TimeoutSeconds = timeoutSeconds, r_StartedAt = None,
          r_FinishedAt = None, r_CreatedAt = Some (env_now \<epsilon>)\<rparr>)"

definition ListOrchestrationRunsByMission :: "uuid \<Rightarrow> uuid \<Rightarrow> RunRow list tx" where
  "ListOrchestrationRunsByMission ws mid =
     tx_query (\<lambda>s. sort_key run_order (filter (run_in ws mid) (db_runs s)))"

definition ListActiveMissionRuns :: "uuid \<Rightarrow> uuid \<Rightarrow> RunRow list tx" where
  "ListActiveMissionRuns ws mid =
     tx_query (\<lambda>s. sort_key run_order
       (filter (\<lambda>r. run_in ws mid r \<and> isActiveRunStatus (r_Status r)) (db_runs s)))"

definition GetOrchestrationRunInWorkspace :: "uuid \<Rightarrow> uuid \<Rightarrow> RunRow tx" where
  "GetOrchestrationRunInWorkspace ws rid =
     tx_one (\<lambda>s. find (\<lambda>r. sql_eq (r_ID r) rid \<and> sql_eq (r_WorkspaceID r) ws) (db_runs s))"

definition LockOrchestrationRunForReconcile :: "uuid \<Rightarrow> uuid \<Rightarrow> RunRow tx" where
  "LockOrchestrationRunForReconcile ws rid = GetOrchestrationRunInWorkspace ws rid"

definition ListQueuedOrchestrationRunsWithoutTask :: "uuid \<Rightarrow> uuid \<Rightarrow> RunRow list tx" where
  "ListQueuedOrchestrationRunsWithoutTask ws mid =
     tx_query (\<lambda>s. sort_key run_order
       (filter (\<lambda>r. run_in ws mid r \<and> r_Status r = RunStatusQueued \<and>
                    \<not> list_ex (\<lambda>q. sql_eq (q_OrchestrationRunID q) (r_ID r)) (db_tasks s)) (db_runs s)))"

definition UpdateOrchestrationRunFromReconcile ::
    "uuid \<Rightarrow> uuid \<Rightarrow> RunStatus \<Rightarrow> RunStatus \<Rightarrow> pgtext \<Rightarrow> pgtext \<Rightarrow> timestamptz \<Rightarrow> timestamptz \<Rightarrow> RunRow tx" where
  "UpdateOrchestrationRunFromReconcile ws rid target expected failureKind failureMessage startedAt finishedAt =
     tx_update db_runs (\<lambda>rows s. s\<lparr>db_runs := rows\<rparr>)
       (\<lambda>r. sql_eq (r_ID r) rid \<and> sql_eq (r_WorkspaceID r) ws \<and> r_Status r = expected)
       (\<lambda>r. r\<lparr>r_Status := target, r_FailureKind := failureKind, r_FailureMessage := failureMessage,
              r_StartedAt := (case r_StartedAt r of None \<Rightarrow> startedAt | t \<Rightarrow> t),
              r_FinishedAt := finishedAt\<rparr>)"

section \<open>Budget usage\<close>

text \<open>
  \<open>GetMissionBudgetUsage\<close>: per run of the mission that has a task node, its recorded usage, or, once
  it is no longer active and nothing was recorded, the node's estimate; an active run reserves what
  its estimate leaves over.
\<close>

definition run_usage :: "db \<Rightarrow> RunRow \<Rightarrow> UsageRow list" where
  "run_usage s r =
     filter (\<lambda>u. list_ex (\<lambda>q. sql_eq (q_OrchestrationRunID q) (r_ID r) \<and> sql_eq (q_ID q) (u_TaskID u))
                   (db_tasks s)) (db_usage s)"

definition run_consumption :: "db \<Rightarrow> RunRow \<Rightarrow> TaskNodeRow \<Rightarrow> BudgetUsage" where
  "run_consumption s r n =
     (let us = run_usage s r; costs = List.map_filter u_CostUsdTicks us;
          tokens = sum_list (map u_Tokens us); ticks = sum_list costs;
          active = isActiveRunStatus (r_Status r) in
      \<lparr>ConsumedTokens = (if \<not> active \<and> us = [] then t_BudgetEstimateTokens n else tokens),
       ReservedTokens = (if active then max (t_BudgetEstimateTokens n - tokens) 0 else 0),
       ConsumedCostUSDTicks = (if \<not> active \<and> costs = [] then t_BudgetEstimateCostUsdTicks n else ticks),
       ReservedCostUSDTicks = (if active then max (t_BudgetEstimateCostUsdTicks n - ticks) 0 else 0)\<rparr>)"

definition GetMissionBudgetUsage :: "uuid \<Rightarrow> uuid \<Rightarrow> BudgetUsage tx" where
  "GetMissionBudgetUsage ws mid =
     tx_query (\<lambda>s.
       let per_run = concat (map (\<lambda>r. map (run_consumption s r)
             (filter (node_is (r_WorkspaceID r) (r_MissionID r) (r_TaskNodeID r)) (db_nodes s)))
             (filter (run_in ws mid) (db_runs s))) in
       \<lparr>ConsumedTokens = sum_list (map ConsumedTokens per_run),
        ReservedTokens = sum_list (map ReservedTokens per_run),
        ConsumedCostUSDTicks = sum_list (map ConsumedCostUSDTicks per_run),
        ReservedCostUSDTicks = sum_list (map ReservedCostUSDTicks per_run)\<rparr>)"

section \<open>Artifacts, verdicts and activities\<close>

definition artifact_order ::
    "ArtifactRow \<Rightarrow> (bool \<times> string) \<times> string \<times> int \<times> time \<times> (bool \<times> string)" where
  "artifact_order a = (uuid_key (ar_TaskNodeID a), ArtifactKind_String (ar_Kind a), ar_Version a,
     ar_CreatedAt a, uuid_key (ar_ID a))"

definition ListArtifactsByMission :: "uuid \<Rightarrow> uuid \<Rightarrow> ArtifactRow list tx" where
  "ListArtifactsByMission ws mid =
     tx_query (\<lambda>s. sort_key artifact_order
       (filter (\<lambda>a. sql_eq (ar_WorkspaceID a) ws \<and> sql_eq (ar_MissionID a) mid) (db_artifacts s)))"

definition GetArtifactInWorkspace :: "uuid \<Rightarrow> uuid \<Rightarrow> ArtifactRow tx" where
  "GetArtifactInWorkspace ws aid =
     tx_one (\<lambda>s. find (\<lambda>a. sql_eq (ar_ID a) aid \<and> sql_eq (ar_WorkspaceID a) ws) (db_artifacts s))"

definition ListReviewVerdictsByMission :: "uuid \<Rightarrow> uuid \<Rightarrow> VerdictRow list tx" where
  "ListReviewVerdictsByMission ws mid =
     tx_query (\<lambda>s. sort_key (\<lambda>v. (v_CreatedAt v, uuid_key (v_ID v)))
       (filter (\<lambda>v. sql_eq (v_WorkspaceID v) ws \<and> sql_eq (v_MissionID v) mid) (db_verdicts s)))"

definition GetOrchestrationActivityByDedupeKey :: "uuid \<Rightarrow> string \<Rightarrow> db \<Rightarrow> ActivityRow option" where
  "GetOrchestrationActivityByDedupeKey ws key s =
     find (\<lambda>a. sql_eq (ac_WorkspaceID a) ws \<and> ac_DedupeKey a = key) (db_activities s)"

definition CreateOrchestrationActivity :: "env \<Rightarrow> ActivityRow \<Rightarrow> ActivityRow tx" where
  "CreateOrchestrationActivity \<epsilon> row =
     tx_bind (draw_uuid \<epsilon>) (\<lambda>aid.
       tx_insert db_activities (\<lambda>rows s. s\<lparr>db_activities := rows\<rparr>)
         [(''idx_orchestration_activity_dedupe_unique'',
             \<lambda>a. sql_eq (ac_WorkspaceID a) (ac_WorkspaceID row) \<and> ac_DedupeKey a = ac_DedupeKey row),
          (''idx_orchestration_activity_sequence_unique'',
             \<lambda>a. sql_eq (ac_MissionID a) (ac_MissionID row) \<and> ac_Sequence a = ac_Sequence row)]
         (row\<lparr>ac_ID := aid, ac_OccurredAt := env_now \<epsilon>\<rparr>))"

definition activity_in :: "uuid \<Rightarrow> uuid \<Rightarrow> ActivityRow \<Rightarrow> bool" where
  "activity_in ws mid a \<longleftrightarrow> sql_eq (ac_WorkspaceID a) ws \<and> sql_eq (ac_MissionID a) mid"

definition ListOrchestrationActivitiesByCausation :: "uuid \<Rightarrow> uuid \<Rightarrow> uuid \<Rightarrow> ActivityRow list tx" where
  "ListOrchestrationActivitiesByCausation ws mid causation =
     tx_query (\<lambda>s. sort_key ac_Sequence
       (filter (\<lambda>a. activity_in ws mid a \<and> sql_eq (ac_CausationID a) causation) (db_activities s)))"

section \<open>Members\<close>

definition GetMemberByUserAndWorkspace :: "uuid \<Rightarrow> uuid \<Rightarrow> db \<Rightarrow> MemberRow option" where
  "GetMemberByUserAndWorkspace user ws s =
     find (\<lambda>m. sql_eq (mem_UserID m) user \<and> sql_eq (mem_WorkspaceID m) ws) (db_members s)"

end
