(* ===== verification/TxLogic.thy ===== *)
theory TxLogic
  imports Store "HOL-Library.Sublist"
begin

text \<open>
  How a transaction may change the database.  \<open>obeys R act\<close> says that every successful run of
  \<open>act\<close> takes a state to an \<open>R\<close>-successor of it; an aborted transaction changes nothing.  The locale
  \<open>tx_preorder\<close> is the interface of every relation that composes along a transaction: it gives one
  rule per transaction combinator, collected in \<open>tx_rules\<close> after an interpretation.  An invariant
  \<open>I\<close> is the preorder \<open>preserves I\<close>.  \<open>rows_evolve Q\<close> relates two versions of a table in which rows
  are only appended and updated along \<open>Q\<close>.
\<close>

definition obeys :: "(db \<Rightarrow> db \<Rightarrow> bool) \<Rightarrow> 'a tx \<Rightarrow> bool" where
  "obeys R act \<longleftrightarrow> (\<forall>s a t. act s = Inr (a, t) \<longrightarrow> R s t)"

lemma obeysI: "(\<And>s a t. act s = Inr (a, t) \<Longrightarrow> R s t) \<Longrightarrow> obeys R act"
  by (simp add: obeys_def)

lemma obeysD: "obeys R act \<Longrightarrow> act s = Inr (a, t) \<Longrightarrow> R s t"
  by (auto simp: obeys_def)

lemma obeys_mono: "obeys R act \<Longrightarrow> (\<And>s t. R s t \<Longrightarrow> R' s t) \<Longrightarrow> obeys R' act"
  by (auto simp: obeys_def)

lemma obeys_conj: "obeys R act \<Longrightarrow> obeys R' act \<Longrightarrow> obeys (\<lambda>s t. R s t \<and> R' s t) act"
  by (auto simp: obeys_def)

locale tx_preorder =
  fixes R :: "db \<Rightarrow> db \<Rightarrow> bool"
  assumes R_refl: "R s s" and R_trans: "R s t \<Longrightarrow> R t u \<Longrightarrow> R s u"
begin

lemma return: "obeys R (tx_return a)"
  and fail: "obeys R (tx_fail e)"
  and query: "obeys R (tx_query f)"
  and one: "obeys R (tx_one g)"
  and guard: "obeys R (tx_guard b e)"
  and lift: "obeys R (tx_lift r)"
  by (auto intro!: obeysI R_refl)

lemma wrap: "obeys R act \<Longrightarrow> obeys R (tx_wrap msg act)"
  by (auto simp: obeys_def)

lemma absent: "obeys R act \<Longrightarrow> obeys R (tx_absent act)"
  by (auto simp: obeys_def R_refl)

lemma attempt: "obeys R act \<Longrightarrow> obeys R (tx_try act)"
  by (auto simp: obeys_def R_refl)

lemma bind: "obeys R act \<Longrightarrow> (\<And>a. obeys R (f a)) \<Longrightarrow> obeys R (tx_bind act f)"
  unfolding obeys_def tx_bind_Inr by (blast intro: R_trans)

lemma bind_result:
  assumes "obeys R act" and "\<And>s a t. act s = Inr (a, t) \<Longrightarrow> obeys R (f a)"
  shows "obeys R (tx_bind act f)"
  using assms unfolding obeys_def tx_bind_Inr by (blast intro: R_trans)

lemma map: "(\<And>x. x \<in> set xs \<Longrightarrow> obeys R (f x)) \<Longrightarrow> obeys R (tx_map f xs)"
  by (induction xs) (auto intro!: bind return)

lemma branch: "(b \<Longrightarrow> obeys R act) \<Longrightarrow> (\<not> b \<Longrightarrow> obeys R act') \<Longrightarrow> obeys R (if b then act else act')"
  by simp

lemma optional:
  "(x = None \<Longrightarrow> obeys R act) \<Longrightarrow> (\<And>a. x = Some a \<Longrightarrow> obeys R (f a)) \<Longrightarrow>
     obeys R (case x of None \<Rightarrow> act | Some a \<Rightarrow> f a)"
  by (cases x) simp_all

lemma pair: "(\<And>a b. x = (a, b) \<Longrightarrow> obeys R (f a b)) \<Longrightarrow> obeys R (case x of (a, b) \<Rightarrow> f a b)"
  by (cases x) simp

lemmas rules = return fail query one guard lift wrap absent attempt bind map branch optional pair

end

section \<open>Invariants\<close>

definition preserves :: "(db \<Rightarrow> bool) \<Rightarrow> db \<Rightarrow> db \<Rightarrow> bool" where
  "preserves I s t \<longleftrightarrow> (I s \<longrightarrow> I t)"

interpretation preserved: tx_preorder "preserves I" for I
  by unfold_locales (auto simp: preserves_def)

section \<open>Tables\<close>

definition rows_evolve :: "('r \<Rightarrow> 'r \<Rightarrow> bool) \<Rightarrow> 'r list \<Rightarrow> 'r list \<Rightarrow> bool" where
  "rows_evolve Q xs ys \<longleftrightarrow> length xs \<le> length ys \<and> (\<forall>i < length xs. Q (xs ! i) (ys ! i))"

lemma rows_evolve_refl: "(\<And>x. Q x x) \<Longrightarrow> rows_evolve Q xs xs"
  by (simp add: rows_evolve_def)

lemma rows_evolve_trans:
  "rows_evolve Q xs ys \<Longrightarrow> rows_evolve Q ys zs \<Longrightarrow> (\<And>x y z. Q x y \<Longrightarrow> Q y z \<Longrightarrow> Q x z) \<Longrightarrow>
     rows_evolve Q xs zs"
  unfolding rows_evolve_def by (meson le_trans less_le_trans)

lemma rows_evolve_append: "(\<And>x. Q x x) \<Longrightarrow> rows_evolve Q xs (xs @ ys)"
  by (simp add: rows_evolve_def nth_append)

lemma rows_evolve_update:
  "(\<And>x. Q x x) \<Longrightarrow> (\<And>x. x \<in> set xs \<Longrightarrow> P x \<Longrightarrow> Q x (f x)) \<Longrightarrow> rows_evolve Q xs (update_rows P f xs)"
  by (simp add: rows_evolve_def update_rows_def)

lemma rows_evolve_member:
  assumes "rows_evolve Q xs ys" and "x \<in> set xs"
  obtains y where "y \<in> set ys" and "Q x y"
  using assms unfolding rows_evolve_def in_set_conv_nth by (metis less_le_trans)

lemma rows_evolve_prefix: "rows_evolve (=) xs ys \<longleftrightarrow> prefix xs ys"
proof
  assume "rows_evolve (=) xs ys"
  then have "xs = take (length xs) ys" by (auto simp: rows_evolve_def intro: nth_equalityI)
  then show "prefix xs ys" by (metis take_is_prefix)
qed (auto simp: prefix_def rows_evolve_def nth_append)

lemma set_update_rows: "set (update_rows P f xs) = (\<lambda>x. if P x then f x else x) ` set xs"
  by (simp add: update_rows_def)

lemma update_rows_append [simp]: "update_rows P f (xs @ ys) = update_rows P f xs @ update_rows P f ys"
  by (simp add: update_rows_def)

lemma map_update_rows_same: "(\<And>x. P x \<Longrightarrow> g (f x) = g x) \<Longrightarrow> map g (update_rows P f xs) = map g xs"
  by (auto simp: update_rows_def)

lemma obeys_update:
  assumes "\<And>s. R s (put (update_rows P f (get s)) s)"
  shows "obeys R (tx_update get put P f)"
  using assms by (auto intro!: obeysI simp: tx_update_Inr)

lemma obeys_insert:
  assumes "\<And>s. (\<And>name clash x. (name, clash) \<in> set indexes \<Longrightarrow> x \<in> set (get s) \<Longrightarrow> \<not> clash x) \<Longrightarrow>
    R s (put (get s @ [row]) s)"
  shows "obeys R (tx_insert get put indexes row)"
  using assms by (fastforce intro!: obeysI simp: tx_insert_Inr)

end
