(* ===== verification/CommandBase.thy ===== *)
theory CommandBase
  imports Queries TxLogic
begin

text \<open>
  What every orchestration command shares: the checks of \<open>service.go\<close> (command identity, workspace
  ownership) and the helpers of \<open>repository.go\<close> (dedupe keys, correlation, the activity log with its
  per-mission sequence, issue creation).  The activity log is the interface the commands rely on:
  the locale \<open>activity_log\<close> states its contract, under which a recorded command is carried out at most
  once, and the interpretation \<open>command_log\<close> discharges it for the model's tables.
\<close>

section \<open>Identity and authorization\<close>

definition check_uuid :: "string \<Rightarrow> uuid \<Rightarrow> ValidationError list" where
  "check_uuid path u = err_when (\<not> validUUID u) path ''invalid_uuid'' (path @ '' must be a non-zero UUID'')"

definition validateCommandIdentity ::
    "uuid \<Rightarrow> uuid \<Rightarrow> uuid \<Rightarrow> uuid \<Rightarrow> uuid \<Rightarrow> bool \<Rightarrow> ValidationError list" where
  "validateCommandIdentity workspaceID missionID commandID correlationID actorID requireMission =
     check_uuid ''workspace_id'' workspaceID @
     (if requireMission then check_uuid ''mission_id'' missionID else []) @
     check_uuid ''command_id'' commandID @
     check_uuid ''actor_id'' actorID @
     err_when (correlationID \<noteq> None \<and> \<not> validUUID correlationID) ''correlation_id'' ''invalid_uuid''
       ''correlation_id must be a non-zero UUID''"

definition check_revision :: "string \<Rightarrow> int \<Rightarrow> ValidationError list" where
  "check_revision path r =
     err_when (r < 1) path ''invalid_revision'' (path @ '' must be at least 1'')"

definition requireOwner :: "uuid \<Rightarrow> uuid \<Rightarrow> unit tx" where
  "requireOwner workspaceID actorID =
     (\<lambda>s. case GetMemberByUserAndWorkspace actorID workspaceID s of
            None \<Rightarrow> Inl ErrOwnerRequired
          | Some m \<Rightarrow> if mem_Role m \<noteq> ''owner'' then Inl ErrOwnerRequired else Inr ((), s))"

lemma requireOwner_Inr:
  "requireOwner ws actor s = Inr r \<longleftrightarrow>
     (\<exists>m. GetMemberByUserAndWorkspace actor ws s = Some m \<and> mem_Role m = ''owner'' \<and> r = ((), s))"
  by (auto simp: requireOwner_def split: option.splits)

section \<open>Keys\<close>

definition commandDedupeKey :: "uuid \<Rightarrow> error + string" where
  "commandDedupeKey commandID =
     (case commandID of
        None \<Rightarrow> Inl (Errorf ''command id is required'')
      | Some _ \<Rightarrow> Inr (''command:'' @ uuidText commandID))"

definition correlationOrCommand :: "uuid \<Rightarrow> uuid \<Rightarrow> uuid" where
  "correlationOrCommand correlationID commandID =
     (if correlationID \<noteq> None then correlationID else commandID)"

definition issueCreatorType :: "string \<Rightarrow> string" where
  "issueCreatorType actorType = (if actorType = ''agent'' then ''agent'' else ''member'')"

lemma commandDedupeKey_inj:
  "commandDedupeKey a = Inr k \<Longrightarrow> commandDedupeKey b = Inr k \<Longrightarrow> a = b"
  by (auto simp: commandDedupeKey_def split: option.splits)

section \<open>Issues\<close>

definition createOrchestrationIssue ::
    "env \<Rightarrow> uuid \<Rightarrow> string \<Rightarrow> pgtext \<Rightarrow> string \<Rightarrow> string \<Rightarrow> uuid \<Rightarrow> uuid \<Rightarrow> uuid \<Rightarrow> IssueRow tx" where
  "createOrchestrationIssue \<epsilon> ws title description status creatorType creatorID parent project =
     tx_bind (tx_wrap ''increment issue counter'' (IncrementIssueCounter ws)) (\<lambda>number.
     tx_bind (tx_wrap ''next issue position'' (NextTopPosition ws status)) (\<lambda>position.
     tx_wrap ''insert issue'' (CreateIssue \<epsilon>
       \<lparr>i_ID = None, i_WorkspaceID = ws, i_Title = title, i_Description = description,
        i_Status = status, i_CreatorType = creatorType, i_CreatorID = creatorID,
        i_ParentIssueID = parent, i_ProjectID = project, i_Number = number,
        i_Position = position\<rparr>)))"

section \<open>The activity log\<close>

definition allocateActivitySequence :: "env \<Rightarrow> uuid \<Rightarrow> uuid \<Rightarrow> int tx" where
  "allocateActivitySequence \<epsilon> ws mid =
     tx_wrap ''allocate activity sequence'' (AllocateMissionActivitySequence \<epsilon> ws mid)"

text \<open>The parameters of one activity; the row's id, sequence and time are filled in.\<close>

record activity_spec =
  as_WorkspaceID :: uuid
  as_MissionID :: uuid
  as_TaskNodeID :: uuid
  as_RunID :: uuid
  as_Type :: string
  as_ActorType :: string
  as_ActorID :: uuid
  as_SubjectType :: string
  as_SubjectID :: uuid
  as_CausationID :: uuid
  as_CorrelationID :: uuid
  as_Payload :: json
  as_DedupeKey :: string

definition activity_row :: "activity_spec \<Rightarrow> int \<Rightarrow> ActivityRow" where
  "activity_row a seq =
     \<lparr>ac_ID = None, ac_WorkspaceID = as_WorkspaceID a, ac_MissionID = as_MissionID a,
      ac_TaskNodeID = as_TaskNodeID a, ac_RunID = as_RunID a, ac_Type = as_Type a,
      ac_ActorType = as_ActorType a, ac_ActorID = as_ActorID a, ac_SubjectType = as_SubjectType a,
      ac_SubjectID = as_SubjectID a, ac_CausationID = as_CausationID a,
      ac_CorrelationID = as_CorrelationID a, ac_PayloadVersion = 1, ac_Payload = as_Payload a,
      ac_DedupeKey = as_DedupeKey a, ac_Sequence = seq, ac_OccurredAt = 0\<rparr>"

text \<open>Allocate the next sequence number and insert the row: the two calls that every command and
  \<open>createAutomaticActivity\<close> make one after the other.\<close>

definition log_activity :: "env \<Rightarrow> string \<Rightarrow> string \<Rightarrow> activity_spec \<Rightarrow> ActivityRow tx" where
  "log_activity \<epsilon> seqMsg insertMsg a =
     tx_bind (tx_wrap seqMsg (allocateActivitySequence \<epsilon> (as_WorkspaceID a) (as_MissionID a))) (\<lambda>seq.
     tx_wrap insertMsg (CreateOrchestrationActivity \<epsilon> (activity_row a seq)))"

definition createAutomaticActivity ::
    "env \<Rightarrow> MissionRow \<Rightarrow> uuid \<Rightarrow> uuid \<Rightarrow> string \<Rightarrow> string \<Rightarrow> uuid \<Rightarrow> uuid \<Rightarrow> uuid \<Rightarrow> string \<Rightarrow> json \<Rightarrow>
     ActivityRow tx" where
  "createAutomaticActivity \<epsilon> mission taskNodeID runID typ subjectType subjectID causationID
     correlationID dedupeKey payload =
     tx_bind (allocateActivitySequence \<epsilon> (m_WorkspaceID mission) (m_IssueID mission)) (\<lambda>seq.
     tx_wrap (''advance mission: create '' @ typ @ '' activity'') (CreateOrchestrationActivity \<epsilon>
       (activity_row
         \<lparr>as_WorkspaceID = m_WorkspaceID mission, as_MissionID = m_IssueID mission,
          as_TaskNodeID = taskNodeID, as_RunID = runID, as_Type = typ, as_ActorType = ''orchestrator'',
          as_ActorID = None, as_SubjectType = subjectType, as_SubjectID = subjectID,
          as_CausationID = causationID, as_CorrelationID = correlationID, as_Payload = payload,
          as_DedupeKey = dedupeKey\<rparr> seq)))"

section \<open>Commands are recorded in the log\<close>

text \<open>
  A command writes its own activity under the key \<open>command:<id>\<close>.  It first looks the key up and, when
  it is recorded, loads the recorded result instead of acting; when the insert finds the key taken by a
  concurrent copy, the transaction is rolled back and the recorded result is loaded.
\<close>

definition tx_race :: "string \<Rightarrow> 'a tx \<Rightarrow> 'a tx" where
  "tx_race msg act =
     (\<lambda>s. case act s of
            Inl e \<Rightarrow> if e = UniqueViolation ''idx_orchestration_activity_dedupe_unique'' then Inl CommandRace
                     else Inl (Wrapped msg e)
          | Inr r \<Rightarrow> Inr r)"

definition log_command_activity :: "env \<Rightarrow> string \<Rightarrow> string \<Rightarrow> activity_spec \<Rightarrow> ActivityRow tx" where
  "log_command_activity \<epsilon> seqMsg insertMsg a =
     tx_bind (tx_wrap seqMsg (allocateActivitySequence \<epsilon> (as_WorkspaceID a) (as_MissionID a))) (\<lambda>seq.
     tx_race insertMsg (CreateOrchestrationActivity \<epsilon> (activity_row a seq)))"

definition recorded_command ::
    "(db \<Rightarrow> ActivityRow option) \<Rightarrow> string \<Rightarrow> (ActivityRow \<Rightarrow> 'r tx) \<Rightarrow> 'r tx \<Rightarrow> 'r tx" where
  "recorded_command recorded loadMsg load body =
     (\<lambda>s. case recorded s of
            Some a \<Rightarrow> load a s
          | None \<Rightarrow>
              (case body s of
                 Inr r \<Rightarrow> Inr r
               | Inl e \<Rightarrow>
                   if e \<noteq> CommandRace then Inl e
                   else (case recorded s of
                           None \<Rightarrow> Inl (Wrapped loadMsg ErrNoRows)
                         | Some a \<Rightarrow> load a s)))"

text \<open>The second look at the key, after the mission row was locked.\<close>

definition replay_or :: "(db \<Rightarrow> ActivityRow option) \<Rightarrow> (ActivityRow \<Rightarrow> 'r tx) \<Rightarrow> 'r tx \<Rightarrow> 'r tx" where
  "replay_or recorded load otherwise =
     (\<lambda>s. case recorded s of Some a \<Rightarrow> load a s | None \<Rightarrow> otherwise s)"

text \<open>Reading transactions, such as the ones that load a recorded result.\<close>

abbreviation reads :: "'a tx \<Rightarrow> bool" where
  "reads \<equiv> obeys (\<lambda>s t. t = s)"

interpretation unchanged: tx_preorder "\<lambda>s t. t = s"
  by unfold_locales simp_all

locale activity_log = tx_preorder grows for grows :: "db \<Rightarrow> db \<Rightarrow> bool" +
  fixes recorded :: "uuid \<Rightarrow> string \<Rightarrow> db \<Rightarrow> ActivityRow option"
    and record_command :: "activity_spec \<Rightarrow> ActivityRow tx"
  assumes recorded_stays: "grows s t \<Longrightarrow> recorded ws k s = Some a \<Longrightarrow> recorded ws k t = Some a"
    and record_grows: "obeys grows (record_command c)"
    and record_recorded: "record_command c s = Inr (row, t) \<Longrightarrow> as_WorkspaceID c \<noteq> None \<Longrightarrow>
      recorded (as_WorkspaceID c) (as_DedupeKey c) t = Some row"
    and record_row: "record_command c s = Inr (row, t) \<Longrightarrow>
      ac_Type row = as_Type c \<and> ac_SubjectType row = as_SubjectType c \<and>
      ac_SubjectID row = as_SubjectID c \<and> ac_MissionID row = as_MissionID c \<and>
      ac_CausationID row = as_CausationID c"
begin

text \<open>Whatever happens after the recording, the record stays.\<close>

lemma bind_recorded:
  assumes "tx_bind (record_command a) f s = Inr (r, t)" and "\<And>row. obeys grows (f row)"
    and "as_WorkspaceID a \<noteq> None"
  shows "\<exists>row. recorded (as_WorkspaceID a) (as_DedupeKey a) t = Some row \<and> ac_Type row = as_Type a \<and>
    ac_MissionID row = as_MissionID a"
proof -
  obtain row u where w: "record_command a s = Inr (row, u)" and f: "f row u = Inr (r, t)"
    using assms(1) by auto
  have "grows u t" using assms(2) f by (auto dest: obeysD)
  then have "recorded (as_WorkspaceID a) (as_DedupeKey a) t = Some row"
    using record_recorded [OF w assms(3)] by (rule recorded_stays)
  then show ?thesis using record_row [OF w] by auto
qed

text \<open>A command that succeeded is never carried out a second time: in every later state it only loads
  the recorded result.\<close>

lemma at_most_once:
  assumes "recorded ws k t = Some a" and "grows t u"
  shows "recorded_command (recorded ws k) msg load body u = load a u"
  using recorded_stays [OF assms(2,1)] by (simp add: recorded_command_def)

lemma command_recorded:
  assumes "recorded_command (recorded ws k) msg load body s = Inr (r, t)"
    and "\<And>a. reads (load a)"
    and "\<And>r t. body s = Inr (r, t) \<Longrightarrow> \<exists>a. recorded ws k t = Some a"
  shows "\<exists>a. recorded ws k t = Some a"
proof (cases "recorded ws k s")
  case None
  then have "body s = Inr (r, t)"
    using assms(1) by (auto simp: recorded_command_def split: sum.splits if_splits)
  then show ?thesis by (rule assms(3))
next
  case (Some a)
  then have "t = s" using assms(1) obeysD [OF assms(2)] by (simp add: recorded_command_def)
  then show ?thesis using Some by simp
qed

end

section \<open>The log of the model\<close>

definition log_grows :: "db \<Rightarrow> db \<Rightarrow> bool" where
  "log_grows s t \<longleftrightarrow> prefix (db_activities s) (db_activities t)"

lemma find_prefix: "prefix xs ys \<Longrightarrow> find P xs = Some x \<Longrightarrow> find P ys = Some x"
proof (induction xs arbitrary: ys)
  case (Cons a xs)
  then show ?case by (cases ys) (auto split: if_splits)
qed simp

lemma find_append_new: "\<forall>x \<in> set xs. \<not> P x \<Longrightarrow> P y \<Longrightarrow> find P (xs @ [y]) = Some y"
  by (induction xs) auto

lemma tx_race_Inr [simp]: "tx_race msg act s = Inr r \<longleftrightarrow> act s = Inr r"
  by (auto simp: tx_race_def split: sum.splits if_splits)

lemma allocate_Inr:
  "allocateActivitySequence \<epsilon> ws mid s = Inr (n, t) \<Longrightarrow>
     \<exists>rows. t = s\<lparr>db_missions := rows\<rparr> \<and>
       rows = update_rows (mission_is ws mid)
         (\<lambda>m. m\<lparr>m_NextActivitySequence := m_NextActivitySequence m + 1, m_UpdatedAt := env_now \<epsilon>\<rparr>) (db_missions s) \<and>
       (\<exists>m. find (mission_is ws mid) (db_missions s) = Some m \<and> n = m_NextActivitySequence m)"
  by (auto simp: allocateActivitySequence_def AllocateMissionActivitySequence_def update_mission_def
      tx_update_Inr)

lemma create_activity_Inr:
  "CreateOrchestrationActivity \<epsilon> row s = Inr (r, t) \<longleftrightarrow>
     (\<forall>a \<in> set (db_activities s).
        \<not> (sql_eq (ac_WorkspaceID a) (ac_WorkspaceID row) \<and> ac_DedupeKey a = ac_DedupeKey row) \<and>
        \<not> (sql_eq (ac_MissionID a) (ac_MissionID row) \<and> ac_Sequence a = ac_Sequence row)) \<and>
     r = row\<lparr>ac_ID := Some (env_gen_uuid \<epsilon> (db_drawn s)), ac_OccurredAt := env_now \<epsilon>\<rparr> \<and>
     t = s\<lparr>db_drawn := db_drawn s + 1, db_activities := db_activities s @ [r]\<rparr>"
  by (auto simp: CreateOrchestrationActivity_def draw_uuid_def tx_insert_Inr)

interpretation command_log: activity_log log_grows GetOrchestrationActivityByDedupeKey
  "log_command_activity \<epsilon> seqMsg insertMsg" for \<epsilon> seqMsg insertMsg
proof unfold_locales
  fix a :: activity_spec and s t row
  assume w: "log_command_activity \<epsilon> seqMsg insertMsg a s = Inr (row, t)"
  then obtain n u where n: "allocateActivitySequence \<epsilon> (as_WorkspaceID a) (as_MissionID a) s = Inr (n, u)"
      and c: "CreateOrchestrationActivity \<epsilon> (activity_row a n) u = Inr (row, t)"
    by (auto simp: log_command_activity_def)
  note u = allocate_Inr [OF n]
  show "ac_Type row = as_Type a \<and> ac_SubjectType row = as_SubjectType a \<and>
      ac_SubjectID row = as_SubjectID a \<and> ac_MissionID row = as_MissionID a \<and>
      ac_CausationID row = as_CausationID a"
    using c by (auto simp: create_activity_Inr activity_row_def)
  show "GetOrchestrationActivityByDedupeKey (as_WorkspaceID a) (as_DedupeKey a) t = Some row"
    if "as_WorkspaceID a \<noteq> None"
    using c that unfolding create_activity_Inr GetOrchestrationActivityByDedupeKey_def
    by (auto simp: activity_row_def sql_eq_def intro!: find_append_new)
next
  fix a
  show "obeys log_grows (log_command_activity \<epsilon> seqMsg insertMsg a)"
    by (rule obeysI) (auto simp: log_command_activity_def log_grows_def create_activity_Inr
        dest!: allocate_Inr)
qed (auto simp: log_grows_def GetOrchestrationActivityByDedupeKey_def intro: find_prefix)

end
