(* ===== verification/RolePolicy.thy ===== *)
theory RolePolicy
  imports CommandBase TxLogic
begin

text \<open>
  Role profiles and the policies frozen from them (\<open>role_profile.go\<close>, \<open>role_policy_snapshot.go\<close>, the
  queries of \<open>role_profile.sql\<close> and \<open>role_policy_snapshot.sql\<close>).  A profile is an append-only series
  of versions per workspace and key; a mission freezes one version per duty, with a content hash that
  every later read recomputes.  The lemmas show that versions are allocated without gaps, that a
  frozen snapshot always verifies, and that freezing the same bindings again changes nothing.
\<close>

section \<open>Queries\<close>

definition profile_series :: "uuid \<Rightarrow> string \<Rightarrow> RoleProfileRow \<Rightarrow> bool" where
  "profile_series ws key p \<longleftrightarrow> sql_eq (rp_WorkspaceID p) ws \<and> rp_ProfileKey p = key"

definition GetNextRoleProfileVersion :: "uuid \<Rightarrow> string \<Rightarrow> int tx" where
  "GetNextRoleProfileVersion ws key =
     tx_query (\<lambda>s. fold max (map rp_Version (filter (profile_series ws key) (db_profiles s))) 0 + 1)"

definition CreateRoleProfileVersion_row :: "env \<Rightarrow> RoleProfileRow \<Rightarrow> RoleProfileRow tx" where
  "CreateRoleProfileVersion_row \<epsilon> row =
     tx_bind (draw_uuid \<epsilon>) (\<lambda>pid.
       tx_insert db_profiles (\<lambda>rows s. s\<lparr>db_profiles := rows\<rparr>)
         [(''idx_role_profile_workspace_key_version'',
             \<lambda>p. profile_series (rp_WorkspaceID row) (rp_ProfileKey row) p \<and>
                 rp_Version p = rp_Version row),
          (''idx_role_profile_workspace_command'',
             \<lambda>p. sql_eq (rp_WorkspaceID p) (rp_WorkspaceID row) \<and>
                 sql_eq (rp_CommandID p) (rp_CommandID row))]
         (row\<lparr>rp_ID := pid, rp_CreatedAt := env_now \<epsilon>\<rparr>))"

definition GetRoleProfileVersionByCommand :: "uuid \<Rightarrow> uuid \<Rightarrow> db \<Rightarrow> RoleProfileRow option" where
  "GetRoleProfileVersionByCommand ws command s =
     find (\<lambda>p. sql_eq (rp_WorkspaceID p) ws \<and> sql_eq (rp_CommandID p) command) (db_profiles s)"

definition GetRoleProfileVersionByKey :: "uuid \<Rightarrow> string \<Rightarrow> int \<Rightarrow> db \<Rightarrow> RoleProfileRow option" where
  "GetRoleProfileVersionByKey ws key version s =
     find (\<lambda>p. profile_series ws key p \<and> rp_Version p = version) (db_profiles s)"

definition ListLatestRoleProfiles_rows :: "uuid \<Rightarrow> RoleProfileRow list tx" where
  "ListLatestRoleProfiles_rows ws =
     tx_query (\<lambda>s.
       let rows = sort_key (\<lambda>p. (rp_ProfileKey p, - rp_Version p, uuid_key (rp_ID p)))
             (filter (\<lambda>p. sql_eq (rp_WorkspaceID p) ws) (db_profiles s)) in
       map (\<lambda>k. the (find (\<lambda>p. rp_ProfileKey p = k) rows)) (remdups_adj (map rp_ProfileKey rows)))"

definition snapshot_of :: "uuid \<Rightarrow> uuid \<Rightarrow> Duty \<Rightarrow> SnapshotRow \<Rightarrow> bool" where
  "snapshot_of ws mid duty r \<longleftrightarrow>
     sql_eq (sn_WorkspaceID r) ws \<and> sql_eq (sn_MissionID r) mid \<and> sn_Duty r = duty"

definition GetMissionRolePolicySnapshot :: "uuid \<Rightarrow> uuid \<Rightarrow> Duty \<Rightarrow> db \<Rightarrow> SnapshotRow option" where
  "GetMissionRolePolicySnapshot ws mid duty s = find (snapshot_of ws mid duty) (db_snapshots s)"

definition CreateMissionRolePolicySnapshot :: "env \<Rightarrow> SnapshotRow \<Rightarrow> SnapshotRow tx" where
  "CreateMissionRolePolicySnapshot \<epsilon> row =
     tx_bind (draw_uuid \<epsilon>) (\<lambda>sid.
       tx_insert db_snapshots (\<lambda>rows s. s\<lparr>db_snapshots := rows\<rparr>)
         [(''idx_mission_role_policy_snapshot_workspace_mission_duty'',
             snapshot_of (sn_WorkspaceID row) (sn_MissionID row) (sn_Duty row))]
         (row\<lparr>sn_ID := sid, sn_FrozenAt := env_now \<epsilon>\<rparr>))"

definition ListMissionRolePolicySnapshots :: "uuid \<Rightarrow> uuid \<Rightarrow> SnapshotRow list tx" where
  "ListMissionRolePolicySnapshots ws mid =
     tx_query (\<lambda>s. sort_key (\<lambda>r. (Duty_String (sn_Duty r), uuid_key (sn_ID r)))
       (filter (\<lambda>r. sql_eq (sn_WorkspaceID r) ws \<and> sql_eq (sn_MissionID r) mid) (db_snapshots s)))"

definition GetAgentInWorkspace :: "uuid \<Rightarrow> uuid \<Rightarrow> db \<Rightarrow> AgentRow option" where
  "GetAgentInWorkspace agent ws s =
     find (\<lambda>a. sql_eq (ag_ID a) agent \<and> sql_eq (ag_WorkspaceID a) ws) (db_agents s)"

section \<open>Role profiles\<close>

definition mapRoleProfileVersion :: "env \<Rightarrow> RoleProfileRow \<Rightarrow> error + RoleProfileVersion" where
  "mapRoleProfileVersion \<epsilon> row =
     (case normalizeAndValidateRoleProfileConfig \<epsilon> (rp_Config row) of (normalized, errs) \<Rightarrow>
        if errs \<noteq> []
        then Inl (Errorf (''decode role profile '' @ uuidText (rp_ID row) @
                          '' config: stored config is invalid''))
        else Inr \<lparr>rpv_ID = uuidText (rp_ID row), rpv_WorkspaceID = uuidText (rp_WorkspaceID row),
               rpv_ProfileKey = rp_ProfileKey row, rpv_Version = rp_Version row,
               rpv_Duty = rp_Duty row, rpv_Name = rp_Name row, rpv_Description = rp_Description row,
               rpv_Config = normalized, rpv_CreatedBy = uuidText (rp_CreatedBy row),
               rpv_CreatedAt = rp_CreatedAt row\<rparr>)"

fun mapRoleProfileVersions :: "env \<Rightarrow> RoleProfileRow list \<Rightarrow> error + RoleProfileVersion list" where
  "mapRoleProfileVersions \<epsilon> [] = Inr []"
| "mapRoleProfileVersions \<epsilon> (r # rs) =
     bind_res (mapRoleProfileVersion \<epsilon> r) (\<lambda>p. bind_res (mapRoleProfileVersions \<epsilon> rs) (\<lambda>ps. Inr (p # ps)))"

record CreateRoleProfileVersionParams =
  crp_WorkspaceID :: uuid
  crp_CommandID :: uuid
  crp_ActorID :: uuid
  crp_ProfileKey :: string
  crp_Duty :: Duty
  crp_Name :: string
  crp_Description :: string
  crp_Config :: RoleProfileConfig

record CreateRoleProfileVersionResult =
  crr_Profile :: RoleProfileVersion
  crr_Idempotent :: bool

text \<open>Whether a replayed command asks for what was recorded under its id.\<close>

definition profile_matches :: "RoleProfileVersion \<Rightarrow> CreateRoleProfileVersionParams \<Rightarrow> bool" where
  "profile_matches p params \<longleftrightarrow>
     rpv_ProfileKey p = crp_ProfileKey params \<and> rpv_Duty p = crp_Duty params \<and>
     rpv_Name p = crp_Name params \<and> rpv_Description p = crp_Description params \<and>
     rpv_Config p = crp_Config params"

text \<open>The repository method.  The code maps the inserted row after the commit; for the normalized
  configurations the service passes this mapping cannot fail (lemma \<open>mapRoleProfileVersion_normalized\<close>).\<close>

definition CreateRoleProfileVersion_repo ::
    "env \<Rightarrow> CreateRoleProfileVersionParams \<Rightarrow> CreateRoleProfileVersionResult tx" where
  "CreateRoleProfileVersion_repo \<epsilon> params =
     tx_bind (tx_query (GetRoleProfileVersionByCommand (crp_WorkspaceID params) (crp_CommandID params)))
       (\<lambda>existing. case existing of
          Some row \<Rightarrow>
            tx_bind (tx_lift (mapRoleProfileVersion \<epsilon> row)) (\<lambda>profile.
            tx_bind (tx_guard (profile_matches profile params) ErrCommandConflict) (\<lambda>_.
            tx_return \<lparr>crr_Profile = profile, crr_Idempotent = True\<rparr>))
        | None \<Rightarrow>
            tx_bind (GetNextRoleProfileVersion (crp_WorkspaceID params) (crp_ProfileKey params)) (\<lambda>version.
            tx_bind (tx_wrap ''create role profile version: insert'' (CreateRoleProfileVersion_row \<epsilon>
              \<lparr>rp_ID = None, rp_WorkspaceID = crp_WorkspaceID params,
               rp_ProfileKey = crp_ProfileKey params, rp_Version = version, rp_Duty = crp_Duty params,
               rp_Name = crp_Name params, rp_Description = crp_Description params,
               rp_Config = crp_Config params, rp_CommandID = crp_CommandID params,
               rp_CreatedBy = crp_ActorID params, rp_CreatedAt = 0\<rparr>)) (\<lambda>row.
            tx_bind (tx_lift (mapRoleProfileVersion \<epsilon> row)) (\<lambda>profile.
            tx_return \<lparr>crr_Profile = profile, crr_Idempotent = False\<rparr>))))"

definition CreateRoleProfileVersion ::
    "env \<Rightarrow> CreateRoleProfileVersionParams \<Rightarrow> CreateRoleProfileVersionResult tx" where
  "CreateRoleProfileVersion \<epsilon> command =
     (let key = TrimSpace (crp_ProfileKey command); name = TrimSpace (crp_Name command);
          description = TrimSpace (crp_Description command) in
      case normalizeAndValidateRoleProfileConfig \<epsilon> (crp_Config command) of (config, configErrs) \<Rightarrow>
      let errs = validateCommandIdentity (crp_WorkspaceID command) None (crp_CommandID command) None
                   (crp_ActorID command) False @
                 validateRoleProfileIdentity key (crp_Duty command) name description @ configErrs in
      tx_bind (tx_guard (errs = []) (CommandValidationError errs)) (\<lambda>_.
      tx_bind (requireOwner (crp_WorkspaceID command) (crp_ActorID command)) (\<lambda>_.
      CreateRoleProfileVersion_repo \<epsilon>
        (command\<lparr>crp_ProfileKey := key, crp_Name := name, crp_Description := description,
                crp_Config := config\<rparr>))))"

definition ListLatestRoleProfiles :: "env \<Rightarrow> uuid \<Rightarrow> RoleProfileVersion list tx" where
  "ListLatestRoleProfiles \<epsilon> ws =
     tx_bind (tx_guard (validUUID ws)
       (CommandValidationError [verr ''workspace_id'' ''invalid_uuid''
          ''workspace_id must be a non-zero UUID''])) (\<lambda>_.
     tx_bind (ListLatestRoleProfiles_rows ws) (\<lambda>rows. tx_lift (mapRoleProfileVersions \<epsilon> rows)))"

section \<open>Frozen policies\<close>

definition mapRolePolicySnapshot :: "env \<Rightarrow> SnapshotRow \<Rightarrow> error + RolePolicySnapshot" where
  "mapRolePolicySnapshot \<epsilon> row =
     (if sn_SchemaVersion row \<noteq> RolePolicySnapshotSchemaVersion
      then Inl (Errorf (''decode role policy snapshot '' @ uuidText (sn_ID row) @
             '': unsupported schema version '' @ string_of_int (sn_SchemaVersion row)))
      else case normalizeAndValidateRoleProfileConfig \<epsilon> (sn_Config row) of (config, errs) \<Rightarrow>
      if errs \<noteq> []
      then Inl (Errorf (''decode role policy snapshot '' @ uuidText (sn_ID row) @
             '' config: stored config is invalid''))
      else
        let snapshot =
              \<lparr>rps_ID = uuidText (sn_ID row), rps_WorkspaceID = uuidText (sn_WorkspaceID row),
               rps_MissionID = uuidText (sn_MissionID row), rps_SchemaVersion = sn_SchemaVersion row,
               rps_Duty = sn_Duty row, rps_RoleProfileID = uuidText (sn_RoleProfileID row),
               rps_RoleProfileKey = sn_RoleProfileKey row,
               rps_RoleProfileVersion = sn_RoleProfileVersion row,
               rps_ProfileName = sn_ProfileName row,
               rps_ProfileDescription = sn_ProfileDescription row, rps_Config = config,
               rps_AgentID = optionalUUIDText (sn_AgentID row),
               rps_ContentHash = sn_ContentHash row, rps_FrozenBy = uuidText (sn_FrozenBy row),
               rps_FrozenAt = sn_FrozenAt row\<rparr>;
            profile =
              \<lparr>rpv_ID = rps_RoleProfileID snapshot, rpv_WorkspaceID = [],
               rpv_ProfileKey = rps_RoleProfileKey snapshot,
               rpv_Version = rps_RoleProfileVersion snapshot, rpv_Duty = rps_Duty snapshot,
               rpv_Name = rps_ProfileName snapshot,
               rpv_Description = rps_ProfileDescription snapshot, rpv_Config = rps_Config snapshot,
               rpv_CreatedBy = [], rpv_CreatedAt = zero_time\<rparr>;
            binding =
              \<lparr>rpb_Duty = rps_Duty snapshot, rpb_ProfileKey = rps_RoleProfileKey snapshot,
               rpb_Version = rps_RoleProfileVersion snapshot, rpb_AgentID = sn_AgentID row\<rparr> in
        if \<not> Duty_Valid (rps_Duty snapshot)
        then Inl (Errorf (''decode role policy snapshot '' @ rps_ID snapshot @ '': invalid duty '' @
               go_quote (Duty_String (rps_Duty snapshot))))
        else if snd (rolePolicySnapshotContent profile binding) \<noteq> rps_ContentHash snapshot
        then Inl (Errorf (''decode role policy snapshot '' @ rps_ID snapshot @
               '': content hash mismatch''))
        else Inr snapshot)"

fun mapRolePolicySnapshots :: "env \<Rightarrow> SnapshotRow list \<Rightarrow> error + RolePolicySnapshot list" where
  "mapRolePolicySnapshots \<epsilon> [] = Inr []"
| "mapRolePolicySnapshots \<epsilon> (r # rs) =
     bind_res (mapRolePolicySnapshot \<epsilon> r) (\<lambda>x. bind_res (mapRolePolicySnapshots \<epsilon> rs) (\<lambda>xs. Inr (x # xs)))"

definition binding_error :: "string \<Rightarrow> string \<Rightarrow> error" where
  "binding_error code msg = CommandValidationError [verr ''role_policy_bindings'' code msg]"

definition profile_text :: "RolePolicyBinding \<Rightarrow> string" where
  "profile_text b = ''RoleProfile '' @ rpb_ProfileKey b @ '' version '' @ string_of_int (rpb_Version b)"

text \<open>The row the loop inserts for a binding whose duty has no snapshot yet.\<close>

definition frozen_row ::
    "uuid \<Rightarrow> uuid \<Rightarrow> uuid \<Rightarrow> RolePolicyBinding \<Rightarrow> RoleProfileRow \<Rightarrow> RoleProfileVersion \<Rightarrow> SnapshotRow" where
  "frozen_row ws mid actor b row profile =
     \<lparr>sn_ID = None, sn_WorkspaceID = ws, sn_MissionID = mid, sn_Duty = rpb_Duty b,
      sn_RoleProfileID = rp_ID row, sn_RoleProfileKey = rpv_ProfileKey profile,
      sn_RoleProfileVersion = rpv_Version profile, sn_ProfileName = rpv_Name profile,
      sn_ProfileDescription = rpv_Description profile, sn_Config = rpv_Config profile,
      sn_AgentID = rpb_AgentID b, sn_SchemaVersion = RolePolicySnapshotSchemaVersion,
      sn_ContentHash = snd (rolePolicySnapshotContent profile b), sn_FrozenBy = actor,
      sn_FrozenAt = 0\<rparr>"

definition freeze_new :: "env \<Rightarrow> uuid \<Rightarrow> uuid \<Rightarrow> uuid \<Rightarrow> RolePolicyBinding \<Rightarrow> RolePolicySnapshot tx" where
  "freeze_new \<epsilon> ws mid actor b =
     tx_bind (tx_query (GetRoleProfileVersionByKey ws (rpb_ProfileKey b) (rpb_Version b))) (\<lambda>found.
       case found of
         None \<Rightarrow> tx_fail (binding_error ''role_profile_not_found''
                   (profile_text b @ '' does not exist in the workspace''))
       | Some row \<Rightarrow>
           tx_bind (tx_lift (mapRoleProfileVersion \<epsilon> row)) (\<lambda>profile.
           tx_bind (tx_guard (rpv_Duty profile = rpb_Duty b)
             (binding_error ''role_profile_duty_mismatch'' (profile_text b @ '' belongs to duty '' @
                Duty_String (rpv_Duty profile) @ '', not '' @ Duty_String (rpb_Duty b)))) (\<lambda>_.
           tx_bind (tx_query (GetAgentInWorkspace (rpb_AgentID b) ws)) (\<lambda>agent.
           tx_bind (tx_guard (rpb_AgentID b = None \<or> agent \<noteq> None)
             (binding_error ''agent_not_found'' ''bound agent does not exist in the workspace'')) (\<lambda>_.
           tx_bind (tx_wrap (''freeze role policy '' @ Duty_String (rpb_Duty b) @ '': insert snapshot'')
             (CreateMissionRolePolicySnapshot \<epsilon> (frozen_row ws mid actor b row profile))) (\<lambda>created.
           tx_lift (mapRolePolicySnapshot \<epsilon> created)))))))"

definition freeze_binding ::
    "env \<Rightarrow> uuid \<Rightarrow> uuid \<Rightarrow> uuid \<Rightarrow> RolePolicyBinding \<Rightarrow> RolePolicySnapshot tx" where
  "freeze_binding \<epsilon> ws mid actor b =
     tx_bind (tx_query (GetMissionRolePolicySnapshot ws mid (rpb_Duty b))) (\<lambda>existing.
       case existing of
         Some row \<Rightarrow>
           tx_bind (tx_lift (mapRolePolicySnapshot \<epsilon> row)) (\<lambda>snapshot.
           tx_bind (tx_guard (rolePolicyBindingMatchesSnapshot b snapshot) ErrRolePolicyAlreadyFrozen)
             (\<lambda>_. tx_return snapshot))
       | None \<Rightarrow> freeze_new \<epsilon> ws mid actor b)"

definition freezeRolePolicyBindings ::
    "env \<Rightarrow> uuid \<Rightarrow> uuid \<Rightarrow> uuid \<Rightarrow> RolePolicyBinding list \<Rightarrow> RolePolicySnapshot list tx" where
  "freezeRolePolicyBindings \<epsilon> ws mid actor bindings =
     tx_bind (tx_map (freeze_binding \<epsilon> ws mid actor) bindings) (\<lambda>snapshots.
     tx_return (sort_key (\<lambda>r. Duty_String (rps_Duty r)) snapshots))"

definition check_frozen :: "env \<Rightarrow> uuid \<Rightarrow> uuid \<Rightarrow> RolePolicyBinding \<Rightarrow> unit tx" where
  "check_frozen \<epsilon> ws mid b =
     tx_bind (tx_query (GetMissionRolePolicySnapshot ws mid (rpb_Duty b))) (\<lambda>found.
       case found of
         None \<Rightarrow> tx_fail ErrCommandConflict
       | Some row \<Rightarrow>
           tx_bind (tx_lift (mapRolePolicySnapshot \<epsilon> row)) (\<lambda>snapshot.
           tx_guard (rolePolicyBindingMatchesSnapshot b snapshot) ErrCommandConflict))"

definition ensureFrozenRolePolicyBindingsMatch ::
    "env \<Rightarrow> uuid \<Rightarrow> uuid \<Rightarrow> RolePolicyBinding list \<Rightarrow> unit tx" where
  "ensureFrozenRolePolicyBindingsMatch \<epsilon> ws mid bindings =
     tx_bind (tx_map (check_frozen \<epsilon> ws mid) bindings) (\<lambda>_. tx_return ())"

section \<open>A frozen snapshot verifies\<close>

text \<open>What the service guarantees of a stored profile: its configuration is normalized.\<close>

definition config_normal :: "env \<Rightarrow> RoleProfileConfig \<Rightarrow> bool" where
  "config_normal \<epsilon> c \<longleftrightarrow> normalizeAndValidateRoleProfileConfig \<epsilon> c = (c, [])"

lemma config_normal_result:
  "normalizeAndValidateRoleProfileConfig \<epsilon> c = (c', []) \<Longrightarrow> config_normal \<epsilon> c'"
  using normalizeConfig_again [of \<epsilon> c] by (simp add: config_normal_def)

lemma mapRoleProfileVersion_normalized:
  "config_normal \<epsilon> (rp_Config row) \<Longrightarrow> \<exists>p. mapRoleProfileVersion \<epsilon> row = Inr p \<and> rpv_Config p = rp_Config row"
  by (simp add: mapRoleProfileVersion_def config_normal_def)

lemma mapRoleProfileVersion_Inr:
  "mapRoleProfileVersion \<epsilon> row = Inr p \<Longrightarrow>
     config_normal \<epsilon> (rpv_Config p) \<and> rpv_ID p = uuidText (rp_ID row) \<and>
     rpv_ProfileKey p = rp_ProfileKey row \<and> rpv_Version p = rp_Version row \<and>
     rpv_Duty p = rp_Duty row \<and> rpv_Name p = rp_Name row"
  by (auto simp: mapRoleProfileVersion_def split: prod.splits if_splits dest: config_normal_result)

lemma mapRolePolicySnapshot_Inr:
  "mapRolePolicySnapshot \<epsilon> row = Inr snap \<Longrightarrow>
     rps_Duty snap = sn_Duty row \<and> rps_RoleProfileKey snap = sn_RoleProfileKey row \<and>
     rps_RoleProfileVersion snap = sn_RoleProfileVersion row \<and>
     rps_AgentID snap = optionalUUIDText (sn_AgentID row) \<and>
     rps_ContentHash snap = sn_ContentHash row \<and> rps_SchemaVersion snap = RolePolicySnapshotSchemaVersion \<and>
     config_normal \<epsilon> (rps_Config snap) \<and>
     rps_Config snap = fst (normalizeAndValidateRoleProfileConfig \<epsilon> (sn_Config row))"
  by (auto simp: mapRolePolicySnapshot_def Let_def split: prod.splits if_splits
      dest: config_normal_result)

lemma content_cong:
  "rpv_ID p = rpv_ID q \<Longrightarrow> rpv_ProfileKey p = rpv_ProfileKey q \<Longrightarrow> rpv_Version p = rpv_Version q \<Longrightarrow>
   rpv_Name p = rpv_Name q \<Longrightarrow> rpv_Description p = rpv_Description q \<Longrightarrow> rpv_Config p = rpv_Config q \<Longrightarrow>
   rpb_Duty b = rpb_Duty c \<Longrightarrow> rpb_AgentID b = rpb_AgentID c \<Longrightarrow>
   rolePolicySnapshotContent p b = rolePolicySnapshotContent q c"
  by (simp add: rolePolicySnapshotContent_def)

text \<open>The row written for a binding is read back: its configuration is normal and its hash is the one
  that reading recomputes.\<close>

lemma frozen_row_verifies:
  assumes m: "mapRoleProfileVersion \<epsilon> prow = Inr profile" and d: "Duty_Valid (rpb_Duty b)"
  shows "\<exists>snap. mapRolePolicySnapshot \<epsilon>
     ((frozen_row ws mid actor b prow profile)\<lparr>sn_ID := sid, sn_FrozenAt := t\<rparr>) = Inr snap"
proof -
  have n: "normalizeAndValidateRoleProfileConfig \<epsilon> (rpv_Config profile) = (rpv_Config profile, [])"
    and f: "rpv_ID profile = uuidText (rp_ID prow)"
    using mapRoleProfileVersion_Inr [OF m] by (simp_all add: config_normal_def)
  have c: "rolePolicySnapshotContent q c = rolePolicySnapshotContent profile b"
    if "rpv_ID q = uuidText (rp_ID prow)" "rpv_ProfileKey q = rpv_ProfileKey profile"
      "rpv_Version q = rpv_Version profile" "rpv_Name q = rpv_Name profile"
      "rpv_Description q = rpv_Description profile" "rpv_Config q = rpv_Config profile"
      "rpb_Duty c = rpb_Duty b" "rpb_AgentID c = rpb_AgentID b" for q c
    by (rule content_cong) (simp_all add: that f)
  show ?thesis
    by (simp add: mapRolePolicySnapshot_def frozen_row_def n d Let_def c)
qed

section \<open>Freezing is stable\<close>

lemma find_append_None: "find P xs = None \<Longrightarrow> P y \<Longrightarrow> find P (xs @ [y]) = Some y"
  by (induction xs) (auto split: if_splits)

lemma find_append_Some: "find P xs = Some x \<Longrightarrow> find P (xs @ ys) = Some x"
  by (induction xs) (auto split: if_splits)

text \<open>\<open>frozen \<epsilon> ws mid b snap s\<close>: the mission has a snapshot for the duty of \<open>b\<close>, it reads as \<open>snap\<close>
  and it matches \<open>b\<close>.\<close>

definition frozen :: "env \<Rightarrow> uuid \<Rightarrow> uuid \<Rightarrow> RolePolicyBinding \<Rightarrow> RolePolicySnapshot \<Rightarrow> db \<Rightarrow> bool" where
  "frozen \<epsilon> ws mid b snap s \<longleftrightarrow>
     (\<exists>row. GetMissionRolePolicySnapshot ws mid (rpb_Duty b) s = Some row \<and>
        mapRolePolicySnapshot \<epsilon> row = Inr snap \<and> rolePolicyBindingMatchesSnapshot b snap)"

lemma freeze_new_Inr:
  assumes "freeze_new \<epsilon> ws mid actor b s = Inr (snap, t)"
    and "GetMissionRolePolicySnapshot ws mid (rpb_Duty b) s = None" and "ws \<noteq> None" and "mid \<noteq> None"
  obtains row where "db_snapshots t = db_snapshots s @ [row]" and "frozen \<epsilon> ws mid b snap t"
proof -
  obtain prow profile row u where
      p: "GetRoleProfileVersionByKey ws (rpb_ProfileKey b) (rpb_Version b) s = Some prow"
      "mapRoleProfileVersion \<epsilon> prow = Inr profile" "rpv_Duty profile = rpb_Duty b"
    and c: "CreateMissionRolePolicySnapshot \<epsilon> (frozen_row ws mid actor b prow profile) s = Inr (row, t)"
      "mapRolePolicySnapshot \<epsilon> row = Inr snap"
    using assms(1) by (auto simp: freeze_new_def split: option.splits)
  have row: "row = (frozen_row ws mid actor b prow profile)\<lparr>sn_ID := Some (env_gen_uuid \<epsilon> (db_drawn s)),
      sn_FrozenAt := env_now \<epsilon>\<rparr>" and t: "db_snapshots t = db_snapshots s @ [row]"
    using c(1) by (auto simp: CreateMissionRolePolicySnapshot_def draw_uuid_def tx_insert_Inr)
  have "profile_series ws (rpb_ProfileKey b) prow" "rp_Version prow = rpb_Version b"
    using p(1) by (auto simp: GetRoleProfileVersionByKey_def dest: find_SomeD)
  then have k: "rpv_ProfileKey profile = rpb_ProfileKey b" "rpv_Version profile = rpb_Version b"
    using mapRoleProfileVersion_Inr [OF p(2)] by (simp_all add: profile_series_def)
  have "snapshot_of ws mid (rpb_Duty b) row"
    using assms(3,4) by (simp add: row snapshot_of_def frozen_row_def sql_eq_def)
  then have "GetMissionRolePolicySnapshot ws mid (rpb_Duty b) t = Some row"
    using assms(2) t by (simp add: GetMissionRolePolicySnapshot_def find_append_None)
  moreover have "rolePolicyBindingMatchesSnapshot b snap"
    using mapRolePolicySnapshot_Inr [OF c(2)] k
    by (simp add: rolePolicyBindingMatchesSnapshot_def row frozen_row_def)
  ultimately show thesis using that t c(2) by (auto simp: frozen_def)
qed

lemma freeze_binding_Inr:
  assumes "freeze_binding \<epsilon> ws mid actor b s = Inr (snap, t)" and "ws \<noteq> None" and "mid \<noteq> None"
  shows "frozen \<epsilon> ws mid b snap t \<and> (\<exists>rows. db_snapshots t = db_snapshots s @ rows)"
proof (cases "GetMissionRolePolicySnapshot ws mid (rpb_Duty b) s")
  case None
  then have "freeze_new \<epsilon> ws mid actor b s = Inr (snap, t)"
    using assms(1) by (simp add: freeze_binding_def)
  from freeze_new_Inr [OF this None assms(2,3)] show ?thesis by metis
next
  case (Some row)
  then show ?thesis using assms(1) by (auto simp: freeze_binding_def frozen_def)
qed

lemma frozen_stays: "frozen \<epsilon> ws mid b snap s \<Longrightarrow> db_snapshots t = db_snapshots s @ rows \<Longrightarrow> frozen \<epsilon> ws mid b snap t"
  by (auto simp: frozen_def GetMissionRolePolicySnapshot_def find_append_Some)

lemma freeze_frozen: "frozen \<epsilon> ws mid b snap s \<Longrightarrow> freeze_binding \<epsilon> ws mid actor b s = Inr (snap, s)"
  by (auto simp: frozen_def freeze_binding_def tx_bind_def tx_lift_def tx_guard_def)

lemma freeze_map_Inr:
  "tx_map (freeze_binding \<epsilon> ws mid actor) bs s = Inr (snaps, t) \<Longrightarrow> ws \<noteq> None \<Longrightarrow> mid \<noteq> None \<Longrightarrow>
     list_all2 (\<lambda>b snap. frozen \<epsilon> ws mid b snap t) bs snaps \<and> (\<exists>rows. db_snapshots t = db_snapshots s @ rows)"
proof (induction bs arbitrary: s snaps)
  case (Cons b bs)
  from Cons.prems(1) obtain x u xs where
    x: "freeze_binding \<epsilon> ws mid actor b s = Inr (x, u)" and
    xs: "tx_map (freeze_binding \<epsilon> ws mid actor) bs u = Inr (xs, t)" "snaps = x # xs" by auto
  from Cons.IH [OF xs(1) Cons.prems(2,3)] freeze_binding_Inr [OF x Cons.prems(2,3)]
  show ?case using xs(2) by (auto intro: frozen_stays)
qed auto

lemma freeze_map_frozen:
  "list_all2 (\<lambda>b snap. frozen \<epsilon> ws mid b snap s) bs snaps \<Longrightarrow>
     tx_map (freeze_binding \<epsilon> ws mid actor) bs s = Inr (snaps, s)"
  by (induction rule: list_all2_induct) (simp_all add: tx_bind_def freeze_frozen)

text \<open>Freezing is idempotent, whoever repeats it: once it succeeded the same bindings give the same
  snapshots and leave the database alone.\<close>

lemma freeze_again:
  assumes "freezeRolePolicyBindings \<epsilon> ws mid actor bs s = Inr (snaps, t)" and "ws \<noteq> None" and "mid \<noteq> None"
  shows "freezeRolePolicyBindings \<epsilon> ws mid actor' bs t = Inr (snaps, t)"
proof -
  obtain xs where xs: "tx_map (freeze_binding \<epsilon> ws mid actor) bs s = Inr (xs, t)"
      "snaps = sort_key (\<lambda>r. Duty_String (rps_Duty r)) xs"
    using assms(1) by (auto simp: freezeRolePolicyBindings_def)
  with freeze_map_Inr [OF xs(1) assms(2,3)] freeze_map_frozen [of \<epsilon> ws mid t bs xs actor']
  show ?thesis by (simp add: freezeRolePolicyBindings_def tx_bind_def)
qed

lemma freeze_other_binding:
  assumes "frozen \<epsilon> ws mid b snap s" and "rpb_Duty c = rpb_Duty b"
    and "\<not> rolePolicyBindingMatchesSnapshot c snap"
  shows "freeze_binding \<epsilon> ws mid actor c s = Inl ErrRolePolicyAlreadyFrozen"
  using assms by (auto simp: frozen_def freeze_binding_def tx_bind_def tx_lift_def tx_guard_def)

text \<open>A binding without an agent whose profile exists is frozen, when its duty has no snapshot yet.\<close>

lemma freeze_succeeds:
  assumes "GetMissionRolePolicySnapshot ws mid (rpb_Duty b) s = None"
    and "GetRoleProfileVersionByKey ws (rpb_ProfileKey b) (rpb_Version b) s = Some row"
    and "mapRoleProfileVersion \<epsilon> row = Inr profile" and "rpv_Duty profile = rpb_Duty b"
    and "Duty_Valid (rpb_Duty b)" and "rpb_AgentID b = None"
  shows "\<exists>snap t. freeze_binding \<epsilon> ws mid actor b s = Inr (snap, t)"
proof -
  let ?row = "(frozen_row ws mid actor b row profile)\<lparr>sn_ID := Some (env_gen_uuid \<epsilon> (db_drawn s)),
      sn_FrozenAt := env_now \<epsilon>\<rparr>"
  obtain snap where "mapRolePolicySnapshot \<epsilon> ?row = Inr snap"
    using frozen_row_verifies [OF assms(3,5)] by blast
  moreover have "\<not> list_ex (snapshot_of ws mid (rpb_Duty b)) (db_snapshots s)"
    using assms(1) by (simp add: GetMissionRolePolicySnapshot_def find_None_iff list_ex_iff)
  ultimately show ?thesis
    using assms by (simp add: freeze_binding_def freeze_new_def tx_bind_def tx_lift_def tx_guard_def
        tx_wrap_def CreateMissionRolePolicySnapshot_def draw_uuid_def tx_insert_def frozen_row_def)
qed

section \<open>Versions of a profile\<close>

text \<open>\<open>series_dense s\<close>: in every workspace the versions of a key are 1, 2, ..., in order of creation.\<close>

definition series :: "uuid \<Rightarrow> string \<Rightarrow> db \<Rightarrow> RoleProfileRow list" where
  "series ws key s = filter (profile_series ws key) (db_profiles s)"

definition series_dense :: "db \<Rightarrow> bool" where
  "series_dense s \<longleftrightarrow> (\<forall>ws key. map rp_Version (series ws key s) = map int [1..<Suc (length (series ws key s))])"

lemma fold_max_upto: "fold max (map int [1..<Suc n]) 0 = int n"
  by (induction n) simp_all

lemma next_version:
  "series_dense s \<Longrightarrow>
     GetNextRoleProfileVersion ws key s = Inr (int (length (series ws key s)) + 1, s)"
  using fold_max_upto [of "length (series ws key s)"]
  by (simp add: GetNextRoleProfileVersion_def series_dense_def series_def [symmetric])

lemma create_row_dense:
  assumes "CreateRoleProfileVersion_row \<epsilon> row s = Inr (r, t)" and "series_dense s"
    and v: "rp_Version row = int (length (series (rp_WorkspaceID row) (rp_ProfileKey row) s)) + 1"
  shows "series_dense t \<and> db_profiles t = db_profiles s @ [r]"
proof -
  obtain pid where r: "r = row\<lparr>rp_ID := pid, rp_CreatedAt := env_now \<epsilon>\<rparr>"
      and t: "db_profiles t = db_profiles s @ [r]"
    using assms(1) by (auto simp: CreateRoleProfileVersion_row_def draw_uuid_def tx_insert_Inr)
  have "map rp_Version (series ws key t) = map int [1..<Suc (length (series ws key t))]" for ws key
    using assms(2) v by (auto simp: series_dense_def series_def t r profile_series_def sql_eq_def)
  then show ?thesis using t by (simp add: series_dense_def)
qed

lemma CreateRoleProfileVersion_repo_cases:
  assumes "CreateRoleProfileVersion_repo \<epsilon> params s = Inr (res, t)" and "series_dense s"
  shows "if crr_Idempotent res then t = s
     else (\<exists>row. db_profiles t = db_profiles s @ [row] \<and> mapRoleProfileVersion \<epsilon> row = Inr (crr_Profile res) \<and>
       rp_WorkspaceID row = crp_WorkspaceID params \<and> rp_CommandID row = crp_CommandID params \<and>
       rp_ProfileKey row = crp_ProfileKey params \<and> rp_Duty row = crp_Duty params \<and>
       rp_Name row = crp_Name params \<and> rp_Description row = crp_Description params \<and>
       rp_Config row = crp_Config params \<and>
       rp_Version row = int (length (series (crp_WorkspaceID params) (crp_ProfileKey params) s)) + 1 \<and>
       GetRoleProfileVersionByCommand (crp_WorkspaceID params) (crp_CommandID params) s = None) \<and>
       series_dense t"
proof (cases "GetRoleProfileVersionByCommand (crp_WorkspaceID params) (crp_CommandID params) s")
  case (Some row)
  then show ?thesis using assms(1) by (auto simp: CreateRoleProfileVersion_repo_def)
next
  case None
  obtain row where row: "CreateRoleProfileVersion_row \<epsilon>
      \<lparr>rp_ID = None, rp_WorkspaceID = crp_WorkspaceID params, rp_ProfileKey = crp_ProfileKey params,
       rp_Version = int (length (series (crp_WorkspaceID params) (crp_ProfileKey params) s)) + 1,
       rp_Duty = crp_Duty params, rp_Name = crp_Name params, rp_Description = crp_Description params,
       rp_Config = crp_Config params, rp_CommandID = crp_CommandID params,
       rp_CreatedBy = crp_ActorID params, rp_CreatedAt = 0\<rparr> s = Inr (row, t)"
    and p: "mapRoleProfileVersion \<epsilon> row = Inr (crr_Profile res)" "\<not> crr_Idempotent res"
    using assms None by (auto simp: CreateRoleProfileVersion_repo_def next_version)
  have "series_dense t \<and> db_profiles t = db_profiles s @ [row]"
    by (rule create_row_dense [OF row assms(2)]) simp
  moreover have "rp_WorkspaceID row = crp_WorkspaceID params \<and> rp_CommandID row = crp_CommandID params \<and>
      rp_ProfileKey row = crp_ProfileKey params \<and> rp_Duty row = crp_Duty params \<and>
      rp_Name row = crp_Name params \<and> rp_Description row = crp_Description params \<and>
      rp_Config row = crp_Config params \<and>
      rp_Version row = int (length (series (crp_WorkspaceID params) (crp_ProfileKey params) s)) + 1"
    using row by (auto simp: CreateRoleProfileVersion_row_def tx_insert_Inr)
  ultimately show ?thesis using p None by auto
qed

text \<open>Repeating the command returns the recorded version and changes nothing.\<close>

lemma CreateRoleProfileVersion_repo_replay:
  assumes "CreateRoleProfileVersion_repo \<epsilon> params s = Inr (res, t)" and "series_dense s"
    and "config_normal \<epsilon> (crp_Config params)"
    and "crp_WorkspaceID params \<noteq> None" and "crp_CommandID params \<noteq> None"
  shows "CreateRoleProfileVersion_repo \<epsilon> params t = Inr (res\<lparr>crr_Idempotent := True\<rparr>, t)"
proof (cases "crr_Idempotent res")
  case True
  then show ?thesis using CreateRoleProfileVersion_repo_cases [OF assms(1,2)] assms(1) by simp
next
  case False
  then obtain row where row: "db_profiles t = db_profiles s @ [row]"
      "mapRoleProfileVersion \<epsilon> row = Inr (crr_Profile res)"
      "rp_WorkspaceID row = crp_WorkspaceID params" "rp_CommandID row = crp_CommandID params"
      "rp_ProfileKey row = crp_ProfileKey params" "rp_Duty row = crp_Duty params"
      "rp_Name row = crp_Name params" "rp_Description row = crp_Description params"
      "rp_Config row = crp_Config params"
    and n: "GetRoleProfileVersionByCommand (crp_WorkspaceID params) (crp_CommandID params) s = None"
    using CreateRoleProfileVersion_repo_cases [OF assms(1,2)] by auto
  have "GetRoleProfileVersionByCommand (crp_WorkspaceID params) (crp_CommandID params) t = Some row"
    using n assms(4,5) row by (simp add: GetRoleProfileVersionByCommand_def find_append_None sql_eq_def)
  moreover have "profile_matches (crr_Profile res) params"
    using row assms(3)
    by (cases "crr_Profile res")
      (simp add: profile_matches_def mapRoleProfileVersion_def config_normal_def)
  ultimately show ?thesis
    using row(2) False
    by (cases res) (simp add: CreateRoleProfileVersion_repo_def tx_bind_def tx_lift_def tx_guard_def)
qed

lemma CreateRoleProfileVersion_Inr:
  assumes "CreateRoleProfileVersion \<epsilon> command s = Inr (res, t)"
  obtains params where "CreateRoleProfileVersion_repo \<epsilon> params s = Inr (res, t)"
    and "config_normal \<epsilon> (crp_Config params)" and "crp_WorkspaceID params = crp_WorkspaceID command"
    and "crp_CommandID params = crp_CommandID command"
    and "crp_ProfileKey params = TrimSpace (crp_ProfileKey command)"
    and "\<And>u. CreateRoleProfileVersion \<epsilon> command u =
      tx_bind (requireOwner (crp_WorkspaceID command) (crp_ActorID command))
        (\<lambda>_. CreateRoleProfileVersion_repo \<epsilon> params) u"
    and "validUUID (crp_WorkspaceID command)" and "validUUID (crp_CommandID command)"
proof -
  obtain config where c: "normalizeAndValidateRoleProfileConfig \<epsilon> (crp_Config command) = (config, [])"
    using assms by (auto simp: CreateRoleProfileVersion_def Let_def split: prod.splits)
  let ?p = "command\<lparr>crp_ProfileKey := TrimSpace (crp_ProfileKey command),
      crp_Name := TrimSpace (crp_Name command), crp_Description := TrimSpace (crp_Description command),
      crp_Config := config\<rparr>"
  have g: "validateCommandIdentity (crp_WorkspaceID command) None (crp_CommandID command) None
        (crp_ActorID command) False @
      validateRoleProfileIdentity (TrimSpace (crp_ProfileKey command)) (crp_Duty command)
        (TrimSpace (crp_Name command)) (TrimSpace (crp_Description command)) = []"
    and run: "CreateRoleProfileVersion_repo \<epsilon> ?p s = Inr (res, t)"
    using assms by (auto simp: CreateRoleProfileVersion_def Let_def c requireOwner_Inr)
  show thesis
  proof (rule that [OF run])
    show "config_normal \<epsilon> (crp_Config ?p)" using config_normal_result [OF c] by simp
    show "CreateRoleProfileVersion \<epsilon> command u =
        tx_bind (requireOwner (crp_WorkspaceID command) (crp_ActorID command))
          (\<lambda>_. CreateRoleProfileVersion_repo \<epsilon> ?p) u" for u
      using g by (simp add: CreateRoleProfileVersion_def Let_def c tx_guard_def)
    show "validUUID (crp_WorkspaceID command)" "validUUID (crp_CommandID command)"
      using g by (simp_all add: validateCommandIdentity_def check_uuid_def)
  qed simp_all
qed

end
