(* ===== verification/RoutingRepo.thy ===== *)
theory RoutingRepo
  imports Routing RolePolicy
begin

text \<open>
  \<open>routing_repository.go\<close>: the routing facts read from the database and the loop that locks the
  selected agent, reads the facts again and accepts the choice only when it is made a second time.  The
  loop goes through the interface \<open>routingFactsQuerier\<close>, of which the locale \<open>routing_querier\<close> states
  what a transaction guarantees; under it the first choice is always confirmed.
\<close>

section \<open>The facts of the agents\<close>

text \<open>The two row types of the generated queries: the runtime columns are NULL-able in the listing only.\<close>

record agent_facts =
  lf_AgentID :: uuid
  lf_RuntimeID :: uuid
  lf_AgentCreatedAt :: time
  lf_ArchivedAt :: timestamptz
  lf_AgentOwnerID :: uuid
  lf_PermissionMode :: string
  lf_Model :: pgtext
  lf_MaxConcurrentTasks :: int
  lf_RuntimeMetadata :: "json option"
  lf_RuntimeOwnerID :: uuid
  lf_CurrentLoad :: int
  lf_HasWorkspaceInvocationTarget :: bool
  lf_HasMemberInvocationTarget :: bool

record ListOrchestrationAgentRoutingFactsRow = agent_facts +
  lr_RuntimeStatus :: pgtext
  lr_RuntimeProvider :: pgtext
  lr_RuntimeVisibility :: pgtext

record LockOrchestrationAgentRoutingFactsRow = agent_facts +
  lk_RuntimeStatus :: string
  lk_RuntimeProvider :: string
  lk_RuntimeVisibility :: string

definition runtime_of :: "AgentRow \<Rightarrow> db \<Rightarrow> RuntimeRow option" where
  "runtime_of a s =
     find (\<lambda>rt. sql_eq (rt_ID rt) (ag_RuntimeID a) \<and> sql_eq (rt_WorkspaceID rt) (ag_WorkspaceID a))
       (db_runtimes s)"

text \<open>The sub-queries \<open>current_load\<close>, \<open>has_workspace_invocation_target\<close> and
  \<open>has_member_invocation_target\<close>, which the two queries share.\<close>

definition agent_load :: "uuid \<Rightarrow> AgentRow \<Rightarrow> db \<Rightarrow> int" where
  "agent_load ws a s =
     int (length (filter (\<lambda>r. sql_eq (r_WorkspaceID r) ws \<and> isActiveRunStatus (r_Status r) \<and>
           list_ex (\<lambda>x. sql_eq (a_ID x) (r_AssignmentID r) \<and> sql_eq (a_WorkspaceID x) ws \<and>
             sql_eq (a_MissionID x) (r_MissionID r) \<and> sql_eq (a_AgentID x) (ag_ID a)) (db_assignments s))
         (db_runs s))) +
     int (length (filter (\<lambda>q. sql_eq (q_AgentID q) (ag_ID a) \<and> q_OrchestrationRunID q = None \<and>
           q_Status q \<in> {''queued'', ''deferred'', ''dispatched'', ''waiting_local_directory'', ''running''} \<and>
           list_ex (\<lambda>i. sql_eq (i_ID i) (q_IssueID q) \<and> sql_eq (i_WorkspaceID i) ws) (db_issues s))
         (db_tasks s)))"

definition has_target :: "AgentRow \<Rightarrow> string \<Rightarrow> uuid \<Rightarrow> db \<Rightarrow> bool" where
  "has_target a typ target s =
     list_ex (\<lambda>x. sql_eq (it_AgentID x) (ag_ID a) \<and> it_TargetType x = typ \<and> sql_eq (it_TargetID x) target)
       (db_targets s)"

definition agent_facts_of :: "uuid \<Rightarrow> uuid \<Rightarrow> db \<Rightarrow> AgentRow \<Rightarrow> RuntimeRow option \<Rightarrow> agent_facts" where
  "agent_facts_of ws user s a rt =
     \<lparr>lf_AgentID = ag_ID a, lf_RuntimeID = ag_RuntimeID a, lf_AgentCreatedAt = ag_CreatedAt a,
      lf_ArchivedAt = ag_ArchivedAt a, lf_AgentOwnerID = ag_OwnerID a,
      lf_PermissionMode = ag_PermissionMode a, lf_Model = ag_Model a,
      lf_MaxConcurrentTasks = ag_MaxConcurrentTasks a,
      lf_RuntimeMetadata = (case rt of None \<Rightarrow> None | Some r \<Rightarrow> rt_Metadata r),
      lf_RuntimeOwnerID = (case rt of None \<Rightarrow> None | Some r \<Rightarrow> rt_OwnerID r),
      lf_CurrentLoad = agent_load ws a s,
      lf_HasWorkspaceInvocationTarget = has_target a ''workspace'' ws s,
      lf_HasMemberInvocationTarget = has_target a ''member'' user s\<rparr>"

definition listing_of ::
    "uuid \<Rightarrow> uuid \<Rightarrow> db \<Rightarrow> AgentRow \<Rightarrow> ListOrchestrationAgentRoutingFactsRow" where
  "listing_of ws user s a =
     (let rt = runtime_of a s in
      agent_facts.extend (agent_facts_of ws user s a rt)
        (ListOrchestrationAgentRoutingFactsRow.fields (map_option rt_Status rt) (map_option rt_Provider rt)
           (map_option rt_Visibility rt)))"

definition ListOrchestrationAgentRoutingFacts ::
    "uuid \<Rightarrow> uuid \<Rightarrow> ListOrchestrationAgentRoutingFactsRow list tx" where
  "ListOrchestrationAgentRoutingFacts ws user =
     tx_query (\<lambda>s. map (listing_of ws user s) (filter (\<lambda>a. sql_eq (ag_WorkspaceID a) ws) (db_agents s)))"

definition lockable_agent :: "uuid \<Rightarrow> uuid \<Rightarrow> db \<Rightarrow> AgentRow \<Rightarrow> bool" where
  "lockable_agent ws agentID s a \<longleftrightarrow>
     sql_eq (ag_WorkspaceID a) ws \<and> sql_eq (ag_ID a) agentID \<and> ag_ArchivedAt a = None \<and>
     ag_RuntimeID a \<noteq> None \<and>
     (case runtime_of a s of None \<Rightarrow> False | Some rt \<Rightarrow> rt_Status rt = ''online'')"

definition locked_row ::
    "uuid \<Rightarrow> uuid \<Rightarrow> db \<Rightarrow> AgentRow \<Rightarrow> RuntimeRow \<Rightarrow> LockOrchestrationAgentRoutingFactsRow" where
  "locked_row ws user s a rt =
     agent_facts.extend (agent_facts_of ws user s a (Some rt))
       (LockOrchestrationAgentRoutingFactsRow.fields (rt_Status rt) (rt_Provider rt) (rt_Visibility rt))"

definition LockOrchestrationAgentRoutingFacts ::
    "uuid \<Rightarrow> uuid \<Rightarrow> uuid \<Rightarrow> LockOrchestrationAgentRoutingFactsRow tx" where
  "LockOrchestrationAgentRoutingFacts ws user agentID =
     tx_one (\<lambda>s. case find (lockable_agent ws agentID s) (db_agents s) of
                   None \<Rightarrow> None
                 | Some a \<Rightarrow> map_option (locked_row ws user s a) (runtime_of a s))"

section \<open>Candidate facts\<close>

record routingMetadataCapabilities =
  Known :: bool
  Values :: "string list"
  Malformed :: bool

definition unknown_capabilities :: routingMetadataCapabilities where
  "unknown_capabilities = \<lparr>Known = False, Values = [], Malformed = False\<rparr>"

definition malformed_capabilities :: routingMetadataCapabilities where
  "malformed_capabilities = \<lparr>Known = True, Values = [], Malformed = True\<rparr>"

text \<open>The loop over the array: \<open>None\<close> when an item is not a non-blank string (null reads as empty).\<close>

fun capability_items :: "string list \<Rightarrow> json list \<Rightarrow> string list option" where
  "capability_items result [] = Some result"
| "capability_items result (item # items) =
     (case item of
        JStr v \<Rightarrow>
          (let value = TrimSpace v in
           if value = [] then None
           else if value \<in> set result then capability_items result items
           else capability_items (result @ [value]) items)
      | _ \<Rightarrow> None)"

definition parseRoutingMetadataCapabilities :: "json option \<Rightarrow> routingMetadataCapabilities" where
  "parseRoutingMetadataCapabilities raw =
     (case raw of
        None \<Rightarrow> unknown_capabilities
      | Some JNull \<Rightarrow> unknown_capabilities
      | Some (JObj members) \<Rightarrow>
          (case find_last (\<lambda>(k, v). k = ''capabilities'') members of
             None \<Rightarrow> unknown_capabilities
           | Some (_, JNull) \<Rightarrow> unknown_capabilities
           | Some (_, JArr values) \<Rightarrow>
               (case capability_items [] values of
                  None \<Rightarrow> malformed_capabilities
                | Some result \<Rightarrow> \<lparr>Known = True, Values = sort result, Malformed = False\<rparr>)
           | Some _ \<Rightarrow> malformed_capabilities)
      | Some _ \<Rightarrow> malformed_capabilities)"

definition text_String :: "pgtext \<Rightarrow> string" where
  "text_String t = (case t of None \<Rightarrow> [] | Some s \<Rightarrow> s)"

definition routing_facts ::
    "'a agent_facts_scheme \<Rightarrow> string \<Rightarrow> string \<Rightarrow> string \<Rightarrow> RoutingCandidateFacts" where
  "routing_facts row status provider visibility =
     (let capabilities = parseRoutingMetadataCapabilities (lf_RuntimeMetadata row) in
      \<lparr>rf_AgentID = uuidText (lf_AgentID row), rf_RuntimeID = uuidText (lf_RuntimeID row),
       rf_AgentCreatedAt = lf_AgentCreatedAt row, rf_Archived = (lf_ArchivedAt row \<noteq> None),
       rf_AgentOwnerID = uuidText (lf_AgentOwnerID row), rf_PermissionMode = lf_PermissionMode row,
       rf_WorkspaceGrant = lf_HasWorkspaceInvocationTarget row,
       rf_MemberGrant = lf_HasMemberInvocationTarget row, rf_Model = text_String (lf_Model row),
       rf_MaxConcurrentTasks = lf_MaxConcurrentTasks row, rf_RuntimeBound = (lf_RuntimeID row \<noteq> None),
       rf_RuntimeStatus = status, rf_Provider = provider,
       rf_MetadataCapabilitiesKnown = Known capabilities,
       rf_MetadataCapabilities = Values capabilities,
       rf_MetadataCapabilitiesMalformed = Malformed capabilities,
       rf_RuntimeOwnerPresent = (lf_RuntimeOwnerID row \<noteq> None),
       rf_RuntimeOwnerID = uuidText (lf_RuntimeOwnerID row), rf_RuntimeVisibility = visibility,
       rf_CurrentLoad = lf_CurrentLoad row\<rparr>)"

definition routingCandidateFactsFromListRow ::
    "ListOrchestrationAgentRoutingFactsRow \<Rightarrow> RoutingCandidateFacts" where
  "routingCandidateFactsFromListRow row =
     routing_facts row (text_String (lr_RuntimeStatus row)) (text_String (lr_RuntimeProvider row))
       (text_String (lr_RuntimeVisibility row))"

definition routingCandidateFactsFromLockRow ::
    "LockOrchestrationAgentRoutingFactsRow \<Rightarrow> RoutingCandidateFacts" where
  "routingCandidateFactsFromLockRow row =
     routing_facts row (lk_RuntimeStatus row) (lk_RuntimeProvider row) (lk_RuntimeVisibility row)"

section \<open>Selection under a lock\<close>

definition mustParseUUID :: "env \<Rightarrow> string \<Rightarrow> uuid" where
  "mustParseUUID \<epsilon> value = env_uuid_parse \<epsilon> value"

definition uuidFromText :: "env \<Rightarrow> string \<Rightarrow> error + uuid" where
  "uuidFromText \<epsilon> value =
     (case env_uuid_scan \<epsilon> value of
        None \<Rightarrow> Inl (Errorf ''cannot parse UUID'') | Some u \<Rightarrow> Inr (Some u))"

text \<open>The facts listed after the lock, with those of the locked row in place of the agent's own.\<close>

definition post_facts ::
    "RoutingCandidateFacts list \<Rightarrow> RoutingCandidateFacts \<Rightarrow> RoutingCandidateFacts list" where
  "post_facts facts locked =
     (if list_ex (\<lambda>f. rf_AgentID f = rf_AgentID locked) facts
      then replace_first (\<lambda>f. rf_AgentID f = rf_AgentID locked) locked facts
      else facts @ [locked])"

text \<open>The loop, with the number of attempts left.\<close>

fun select_and_lock ::
    "env \<Rightarrow> ListOrchestrationAgentRoutingFactsRow list tx \<Rightarrow>
     (uuid \<Rightarrow> LockOrchestrationAgentRoutingFactsRow tx) \<Rightarrow>
     (RoutingCandidateFacts list \<Rightarrow> RoutingSelectionInput) \<Rightarrow> nat \<Rightarrow>
     ListOrchestrationAgentRoutingFactsRow list \<Rightarrow> RoutingSelectionResult tx" where
  "select_and_lock \<epsilon> list lock input 0 rows = tx_fail ErrRoutingSelectionUnstable"
| "select_and_lock \<epsilon> list lock input (Suc n) rows =
     (let selected = SelectRoutingCandidate (input (map routingCandidateFactsFromListRow rows)) in
      case rr_Selected selected of
        None \<Rightarrow> tx_return selected
      | Some choice \<Rightarrow>
          tx_bind (tx_wrap ''lock routing candidate''
            (tx_absent (lock (mustParseUUID \<epsilon> (sel_AgentID choice))))) (\<lambda>locked.
          case locked of
            None \<Rightarrow>
              tx_bind (tx_wrap ''re-list routing candidates after lock race'' list)
                (select_and_lock \<epsilon> list lock input n)
          | Some row \<Rightarrow>
              tx_bind (tx_wrap ''re-list routing candidates after lock'' list) (\<lambda>rows.
              let post = SelectRoutingCandidate (input (post_facts
                    (map routingCandidateFactsFromListRow rows) (routingCandidateFactsFromLockRow row))) in
              if rr_Selected post = Some choice then tx_return post
              else
                tx_bind (tx_wrap ''re-list routing candidates after re-selection'' list)
                  (select_and_lock \<epsilon> list lock input n))))"

definition selectAndLockRoutingCandidate ::
    "env \<Rightarrow> uuid \<Rightarrow> uuid \<Rightarrow> RolePolicySnapshot \<Rightarrow> string \<Rightarrow> string \<Rightarrow> RoutingSelectionResult tx" where
  "selectAndLockRoutingCandidate \<epsilon> workspaceID effectiveUserID snapshot producerAgentID avoidAgentID =
     tx_bind (tx_wrap ''list routing candidates''
       (ListOrchestrationAgentRoutingFacts workspaceID effectiveUserID)) (\<lambda>rows.
     select_and_lock \<epsilon> (ListOrchestrationAgentRoutingFacts workspaceID effectiveUserID)
       (LockOrchestrationAgentRoutingFacts workspaceID effectiveUserID)
       (\<lambda>facts. \<lparr>ri_Snapshot = snapshot, ri_EffectiveOwnerID = uuidText effectiveUserID,
                 ri_Candidates = facts, ri_ProducerAgentID = producerAgentID,
                 ri_AvoidAgentID = avoidAgentID\<rparr>)
       (length rows + 2) rows)"

section \<open>The interface of the loop\<close>

text \<open>
  Inside one transaction: the listing does not change, agents are listed once and under canonical ids,
  and an agent that is listed unarchived and with an online runtime can be locked, showing the same facts.
\<close>

locale routing_querier =
  fixes \<epsilon> :: env
    and listed :: "db \<Rightarrow> ListOrchestrationAgentRoutingFactsRow list"
    and lock :: "uuid \<Rightarrow> LockOrchestrationAgentRoutingFactsRow tx"
    and ok :: "db \<Rightarrow> bool"
  assumes listed_once: "ok s \<Longrightarrow> distinct (map (\<lambda>r. uuidText (lf_AgentID r)) (listed s))"
    and listed_id: "ok s \<Longrightarrow> r \<in> set (listed s) \<Longrightarrow>
      mustParseUUID \<epsilon> (uuidText (lf_AgentID r)) = lf_AgentID r"
    and lockable: "ok s \<Longrightarrow> r \<in> set (listed s) \<Longrightarrow> lf_ArchivedAt r = None \<Longrightarrow>
      lf_RuntimeID r \<noteq> None \<Longrightarrow> lr_RuntimeStatus r = Some ''online'' \<Longrightarrow>
      \<exists>l. lock (lf_AgentID r) s = Inr (l, s) \<and>
        routingCandidateFactsFromLockRow l = routingCandidateFactsFromListRow r"
begin

lemma post_facts_same:
  "distinct (map rf_AgentID facts) \<Longrightarrow> f \<in> set facts \<Longrightarrow> post_facts facts f = facts"
proof -
  have "replace_first (\<lambda>g. rf_AgentID g = rf_AgentID f) f facts = facts"
    if "distinct (map rf_AgentID facts)" "f \<in> set facts"
    using that by (induction facts) force+
  then show "distinct (map rf_AgentID facts) \<Longrightarrow> f \<in> set facts \<Longrightarrow> post_facts facts f = facts"
    by (auto simp: post_facts_def list_ex_iff)
qed

lemma settles:
  assumes ok: "ok s" and keeps: "\<And>fs. ri_Candidates (input fs) = fs"
  shows "select_and_lock \<epsilon> (tx_query listed) lock input (Suc n) (listed s) s =
    Inr (SelectRoutingCandidate (input (map routingCandidateFactsFromListRow (listed s))), s)"
proof -
  let ?facts = "map routingCandidateFactsFromListRow (listed s)"
  let ?sel = "SelectRoutingCandidate (input ?facts)"
  show ?thesis
  proof (cases "rr_Selected ?sel")
    case None
    then show ?thesis by (simp add: Let_def)
  next
    case (Some c)
    then obtain f where f: "f \<in> set (considered (input ?facts))" "routing_eligible (input ?facts) f"
        "sel_AgentID c = rf_AgentID f"
      by (rule Selected_Some)
    then obtain r where r: "r \<in> set (listed s)" "f = routingCandidateFactsFromListRow r"
      by (auto simp: considered_def Let_def keeps)
    have "lf_ArchivedAt r = None" "lf_RuntimeID r \<noteq> None" "lr_RuntimeStatus r = Some ''online''"
      using f(2) unfolding r(2)
      by (auto simp: routing_eligible_def runtime_usable_def routingCandidateFactsFromListRow_def
          routing_facts_def Let_def text_String_def split: option.splits)
    from lockable [OF ok r(1) this] obtain l where l: "lock (lf_AgentID r) s = Inr (l, s)"
        "routingCandidateFactsFromLockRow l = f" using r(2) by auto
    have id: "mustParseUUID \<epsilon> (sel_AgentID c) = lf_AgentID r"
      using listed_id [OF ok r(1)] f(3) unfolding r(2)
      by (simp add: routingCandidateFactsFromListRow_def routing_facts_def Let_def)
    have ids: "map rf_AgentID ?facts = map (\<lambda>r. uuidText (lf_AgentID r)) (listed s)"
      by (simp add: routingCandidateFactsFromListRow_def routing_facts_def Let_def)
    have "distinct (map rf_AgentID ?facts)" unfolding ids by (rule listed_once [OF ok])
    then have "post_facts ?facts f = ?facts" by (rule post_facts_same) (simp add: r)
    then show ?thesis using Some l id
      by (simp add: Let_def tx_bind_def tx_wrap_def tx_absent_def)
  qed
qed

end

section \<open>The transaction guarantees the interface\<close>

text \<open>Agents have distinct valid ids, of which \<open>uuid.Parse\<close> reads back the text.\<close>

definition agents_ok :: "env \<Rightarrow> db \<Rightarrow> bool" where
  "agents_ok \<epsilon> s \<longleftrightarrow> distinct (map ag_ID (db_agents s)) \<and>
     list_all (\<lambda>a. ag_ID a \<noteq> None \<and> env_uuid_parse \<epsilon> (uuidText (ag_ID a)) = ag_ID a) (db_agents s)"

lemma distinct_map_filter_inj:
  "distinct (map f xs) \<Longrightarrow> distinct (map f (filter P xs))"
  by (induction xs) auto

lemma find_unique_id:
  "distinct (map f xs) \<Longrightarrow> x \<in> set xs \<Longrightarrow> P x \<Longrightarrow> (\<And>y. P y \<Longrightarrow> f y = f x) \<Longrightarrow> find P xs = Some x"
proof (induction xs)
  case (Cons y ys)
  show ?case
  proof (cases "P y")
    case True
    then have "f y = f x" by (rule Cons.prems(4))
    then have "x = y" using Cons.prems(1,2) by auto
    then show ?thesis using True by simp
  next
    case False
    then have "x \<in> set ys" using Cons.prems(2,3) by auto
    then have "find P ys = Some x"
      using Cons.prems(1) by (intro Cons.IH Cons.prems(3,4)) simp_all
    then show ?thesis using False by simp
  qed
qed simp

interpretation routing_facts: routing_querier \<epsilon>
  "\<lambda>s. map (listing_of ws user s) (filter (\<lambda>a. sql_eq (ag_WorkspaceID a) ws) (db_agents s))"
  "LockOrchestrationAgentRoutingFacts ws user" "agents_ok \<epsilon>" for \<epsilon> ws user
proof
  fix s assume ok: "agents_ok \<epsilon> s"
  let ?as = "filter (\<lambda>a. sql_eq (ag_WorkspaceID a) ws) (db_agents s)"
  have inj: "inj_on (\<lambda>a. uuidText (ag_ID a)) (set (db_agents s))"
  proof (rule inj_onI)
    fix a b
    assume ab: "a \<in> set (db_agents s)" "b \<in> set (db_agents s)" "uuidText (ag_ID a) = uuidText (ag_ID b)"
    have "env_uuid_parse \<epsilon> (uuidText (ag_ID x)) = ag_ID x" if "x \<in> set (db_agents s)" for x
      using ok that by (simp add: agents_ok_def list_all_iff)
    from this [OF ab(1)] this [OF ab(2)] have "ag_ID a = ag_ID b" unfolding ab(3) by (rule trans [OF sym])
    moreover have "inj_on ag_ID (set (db_agents s))" using ok by (simp add: agents_ok_def distinct_map)
    ultimately show "a = b" using ab(1,2) by (simp add: inj_on_eq_iff)
  qed
  have d: "distinct (map (\<lambda>a. uuidText (ag_ID a)) ?as)"
    using ok inj by (auto simp: agents_ok_def distinct_map intro: inj_on_subset)
  have ids: "map (\<lambda>r. uuidText (lf_AgentID r)) (map (listing_of ws user s) ?as) = map (\<lambda>a. uuidText (ag_ID a)) ?as"
    by (simp add: listing_of_def Let_def agent_facts.defs ListOrchestrationAgentRoutingFactsRow.defs
        agent_facts_of_def)
  show "distinct (map (\<lambda>r. uuidText (lf_AgentID r)) (map (listing_of ws user s) ?as))"
    unfolding ids by (rule d)
  fix r assume "r \<in> set (map (listing_of ws user s) ?as)"
  then obtain a where a: "a \<in> set (db_agents s)" "sql_eq (ag_WorkspaceID a) ws" "r = listing_of ws user s a"
    by auto
  have id: "lf_AgentID r = ag_ID a" "lf_ArchivedAt r = ag_ArchivedAt a" "lf_RuntimeID r = ag_RuntimeID a"
      "lr_RuntimeStatus r = map_option rt_Status (runtime_of a s)"
    by (simp_all add: a(3) listing_of_def Let_def agent_facts.defs
        ListOrchestrationAgentRoutingFactsRow.defs agent_facts_of_def)
  show "mustParseUUID \<epsilon> (uuidText (lf_AgentID r)) = lf_AgentID r"
    using ok a(1) id(1) by (auto simp: mustParseUUID_def agents_ok_def list_all_iff)
  assume free: "lf_ArchivedAt r = None" "lf_RuntimeID r \<noteq> None" "lr_RuntimeStatus r = Some ''online''"
  then obtain rt where rt: "runtime_of a s = Some rt" "rt_Status rt = ''online''" using id(4) by auto
  have "find (lockable_agent ws (ag_ID a) s) (db_agents s) = Some a"
    using ok a free id(2,3) rt
    by (intro find_unique_id [where f = ag_ID])
      (auto simp: agents_ok_def list_all_iff lockable_agent_def sql_eq_def)
  then show "\<exists>l. LockOrchestrationAgentRoutingFacts ws user (lf_AgentID r) s = Inr (l, s) \<and>
      routingCandidateFactsFromLockRow l = routingCandidateFactsFromListRow r"
    using rt unfolding id(1) a(3)
    by (simp add: LockOrchestrationAgentRoutingFacts_def tx_one_def routingCandidateFactsFromLockRow_def
        routingCandidateFactsFromListRow_def locked_row_def listing_of_def Let_def agent_facts.defs
        ListOrchestrationAgentRoutingFactsRow.defs LockOrchestrationAgentRoutingFactsRow.defs
        routing_facts_def agent_facts_of_def text_String_def)
qed

definition routing_input ::
    "uuid \<Rightarrow> uuid \<Rightarrow> RolePolicySnapshot \<Rightarrow> string \<Rightarrow> string \<Rightarrow> db \<Rightarrow> RoutingSelectionInput" where
  "routing_input ws user snapshot producer avoid s =
     \<lparr>ri_Snapshot = snapshot, ri_EffectiveOwnerID = uuidText user,
      ri_Candidates = map (routingCandidateFactsFromListRow \<circ> listing_of ws user s)
        (filter (\<lambda>a. sql_eq (ag_WorkspaceID a) ws) (db_agents s)),
      ri_ProducerAgentID = producer, ri_AvoidAgentID = avoid\<rparr>"

lemma selectAndLock_settles:
  assumes "agents_ok \<epsilon> s"
  shows "selectAndLockRoutingCandidate \<epsilon> ws user snapshot producer avoid s =
    Inr (SelectRoutingCandidate (routing_input ws user snapshot producer avoid s), s)"
  using routing_facts.settles [OF assms, of "\<lambda>facts. \<lparr>ri_Snapshot = snapshot,
      ri_EffectiveOwnerID = uuidText user, ri_Candidates = facts, ri_ProducerAgentID = producer,
      ri_AvoidAgentID = avoid\<rparr>" ws user]
  by (simp add: selectAndLockRoutingCandidate_def ListOrchestrationAgentRoutingFacts_def tx_bind_def
      tx_wrap_def routing_input_def)

text \<open>Whatever it returns, it only reads.\<close>

lemma reads_select_and_lock:
  assumes "reads list" and "\<And>a. reads (lock a)"
  shows "reads (select_and_lock \<epsilon> list lock input n rows)"
proof (induction n arbitrary: rows)
  case 0
  show ?case by (rule obeysI) simp
next
  case (Suc n)
  then show ?case
    unfolding select_and_lock.simps Let_def
    by (intro unchanged.rules assms)
qed

lemma reads_selectAndLock: "reads (selectAndLockRoutingCandidate \<epsilon> ws user snapshot producer avoid)"
  unfolding selectAndLockRoutingCandidate_def ListOrchestrationAgentRoutingFacts_def
    LockOrchestrationAgentRoutingFacts_def
  by (intro unchanged.rules reads_select_and_lock)

end
