(* ===== verification/PlanTopology.thy ===== *)
theory PlanTopology
  imports Budget "HOL-Library.Multiset"
begin

text \<open>
  \<open>validatePlanTopology\<close> of \<open>plan.go\<close>: the queue-driven topological pass over a plan's dependency
  graph.  The Go maps are an association list (\<open>indegree\<close>) and total functions whose default is
  Go's zero value (\<open>depth\<close>, \<open>dependents\<close>).  The lemmas show that the pass visits every node exactly
  when the graph is acyclic and that it computes the length of the longest dependency chain.
\<close>

record topo =
  to_indegree :: "(string \<times> int) list"
  to_depth :: "string \<Rightarrow> int"
  to_queue :: "string list"
  to_processed :: int
  to_maxDepth :: int

definition indegree_of :: "topo \<Rightarrow> string \<Rightarrow> int" where
  "indegree_of st k = (case map_of (to_indegree st) k of None \<Rightarrow> 0 | Some v \<Rightarrow> v)"

text \<open>The body of the inner loop, for one dependent of the node taken from the queue.\<close>

definition relax_dependent :: "string \<Rightarrow> string \<Rightarrow> topo \<Rightarrow> topo" where
  "relax_dependent key dependent st =
     (let depth = (if to_depth st dependent < to_depth st key + 1
                   then (to_depth st)(dependent := to_depth st key + 1) else to_depth st);
          maxDepth = (if depth dependent > to_maxDepth st then depth dependent else to_maxDepth st);
          left = indegree_of st dependent - 1;
          queue = (if left = 0 then sort (to_queue st @ [dependent]) else to_queue st) in
      st\<lparr>to_indegree := AList.update dependent left (to_indegree st), to_depth := depth,
         to_queue := queue, to_maxDepth := maxDepth\<rparr>)"

definition topo_size :: "topo \<Rightarrow> nat" where
  "topo_size st = length (to_queue st) + sum_list (map (nat \<circ> snd) (to_indegree st))"

lemma sum_list_update:
  "sum_list (map (nat \<circ> snd) (AList.update k v al)) +
     nat (case map_of al k of None \<Rightarrow> 0 | Some w \<Rightarrow> w) =
   sum_list (map (nat \<circ> snd) al) + nat v"
  by (induction al) (auto split: option.splits)

lemma topo_size_relax: "topo_size (relax_dependent key d st) \<le> topo_size st"
  using sum_list_update [of d "indegree_of st d - 1" "to_indegree st"]
  by (auto simp: relax_dependent_def topo_size_def Let_def indegree_of_def split: option.splits)

lemma topo_size_fold: "topo_size (fold (relax_dependent key) ds st) \<le> topo_size st"
proof (induction ds arbitrary: st)
  case (Cons d ds)
  have "topo_size (fold (relax_dependent key) ds (relax_dependent key d st))
      \<le> topo_size (relax_dependent key d st)" by (rule Cons.IH)
  also have "\<dots> \<le> topo_size st" by (rule topo_size_relax)
  finally show ?case by simp
qed simp

definition topo_pop :: "(string \<Rightarrow> string list) \<Rightarrow> string \<Rightarrow> string list \<Rightarrow> topo \<Rightarrow> topo" where
  "topo_pop dependents key rest st =
     fold (relax_dependent key) (dependents key)
       (st\<lparr>to_queue := rest, to_processed := to_processed st + 1\<rparr>)"

function topo_loop :: "(string \<Rightarrow> string list) \<Rightarrow> topo \<Rightarrow> topo" where
  "topo_loop dependents st =
     (case to_queue st of
        [] \<Rightarrow> st
      | key # rest \<Rightarrow> topo_loop dependents (topo_pop dependents key rest st))"
  by pat_completeness auto
termination
proof (relation "measure (\<lambda>(_, st). topo_size st)")
  show "wf (measure (\<lambda>(_, st). topo_size st))" by simp
next
  fix dependents :: "string \<Rightarrow> string list" and st :: topo and key rest
  assume "to_queue st = key # rest"
  then have "topo_size (st\<lparr>to_queue := rest, to_processed := to_processed st + 1\<rparr>) < topo_size st"
    by (simp add: topo_size_def)
  then have "topo_size (topo_pop dependents key rest st) < topo_size st"
    unfolding topo_pop_def by (rule le_less_trans [OF topo_size_fold])
  then show "((dependents, topo_pop dependents key rest st), dependents, st)
      \<in> measure (\<lambda>(_, st). topo_size st)" by simp
qed

declare topo_loop.simps [simp del]

definition topo_init :: "(string \<times> PlanNode) list \<Rightarrow> topo" where
  "topo_init nodesByKey =
     \<lparr>to_indegree = map (\<lambda>(k, n). (k, int (length (pn_DependsOn n)))) nodesByKey,
      to_depth = (\<lambda>_. 0),
      to_queue = sort (map fst (filter (\<lambda>(k, n). pn_DependsOn n = []) nodesByKey)),
      to_processed = 0, to_maxDepth = 0\<rparr>"

definition validatePlanTopology ::
    "(string \<times> PlanNode) list \<Rightarrow> (string \<Rightarrow> string list) \<Rightarrow> ValidationError list" where
  "validatePlanTopology nodesByKey dependents =
     (let st = topo_loop dependents (topo_init nodesByKey) in
      if to_processed st \<noteq> int (length nodesByKey) then
        [verr ''nodes'' ''dependency_cycle'' ''task dependencies must form an acyclic graph'']
      else
        err_when (to_maxDepth st > MaxPlanDependencyDepth) ''nodes'' ''dependency_depth_exceeded''
          (''dependency depth may not exceed '' @ string_of_int MaxPlanDependencyDepth))"

section \<open>One visit\<close>

lemma indegree_of_relax:
  "indegree_of (relax_dependent key d st) k = indegree_of st k - (if k = d then 1 else 0)"
  by (auto simp: relax_dependent_def indegree_of_def Let_def update_Some_unfold update_conv'
      split: option.splits)

lemma depth_relax:
  "to_depth (relax_dependent key d st) k =
     (if k = d then max (to_depth st d) (to_depth st key + 1) else to_depth st k)"
  by (auto simp: relax_dependent_def Let_def)

lemma processed_relax: "to_processed (relax_dependent key d st) = to_processed st"
  by (simp add: relax_dependent_def Let_def)

lemma queue_relax:
  "mset (to_queue (relax_dependent key d st)) =
     mset (to_queue st) + (if indegree_of st d = 1 then {#d#} else {#})"
  by (simp add: relax_dependent_def Let_def)

lemma maxDepth_relax:
  "to_maxDepth (relax_dependent key d st) =
     max (to_maxDepth st) (to_depth (relax_dependent key d st) d)"
  by (auto simp: relax_dependent_def Let_def)

lemma indegree_fold:
  "distinct ds \<Longrightarrow> indegree_of (fold (relax_dependent key) ds st) k =
     indegree_of st k - (if k \<in> set ds then 1 else 0)"
  by (induction ds arbitrary: st) (auto simp: indegree_of_relax)

lemma depth_fold:
  "key \<notin> set ds \<Longrightarrow> to_depth (fold (relax_dependent key) ds st) k =
     (if k \<in> set ds then max (to_depth st k) (to_depth st key + 1) else to_depth st k)"
  by (induction ds arbitrary: st) (auto simp: depth_relax)

lemma processed_fold: "to_processed (fold (relax_dependent key) ds st) = to_processed st"
  by (induction ds arbitrary: st) (auto simp: processed_relax)

lemma queue_fold:
  "distinct ds \<Longrightarrow> mset (to_queue (fold (relax_dependent key) ds st)) =
     mset (to_queue st) + mset (filter (\<lambda>d. indegree_of st d = 1) ds)"
proof (induction ds arbitrary: st)
  case (Cons d ds)
  have "filter (\<lambda>k. indegree_of (relax_dependent key d st) k = 1) ds =
      filter (\<lambda>k. indegree_of st k = 1) ds"
    using Cons.prems by (intro filter_cong) (auto simp: indegree_of_relax)
  then show ?case using Cons.prems by (simp add: Cons.IH queue_relax)
qed simp

lemma maxDepth_fold:
  assumes "key \<notin> set ds" and "distinct ds"
  shows "to_maxDepth st \<le> to_maxDepth (fold (relax_dependent key) ds st) \<and>
    (\<forall>k \<in> set ds. to_depth (fold (relax_dependent key) ds st) k
        \<le> to_maxDepth (fold (relax_dependent key) ds st)) \<and>
    (to_maxDepth (fold (relax_dependent key) ds st) = to_maxDepth st \<or>
     (\<exists>k \<in> set ds. to_maxDepth (fold (relax_dependent key) ds st) =
        to_depth (fold (relax_dependent key) ds st) k))"
  using assms
proof (induction ds arbitrary: st)
  case (Cons d ds)
  let ?st = "relax_dependent key d st" and ?fin = "fold (relax_dependent key) ds (relax_dependent key d st)"
  have IH: "to_maxDepth ?st \<le> to_maxDepth ?fin"
      "\<forall>k \<in> set ds. to_depth ?fin k \<le> to_maxDepth ?fin"
      "to_maxDepth ?fin = to_maxDepth ?st \<or> (\<exists>k \<in> set ds. to_maxDepth ?fin = to_depth ?fin k)"
    using Cons.IH [of ?st] Cons.prems by simp_all
  have d: "to_depth ?fin d = to_depth ?st d"
    using Cons.prems by (simp add: depth_fold)
  have m: "to_maxDepth ?st = max (to_maxDepth st) (to_depth ?st d)"
    by (rule maxDepth_relax)
  have "to_maxDepth st \<le> to_maxDepth ?fin" and "to_depth ?fin d \<le> to_maxDepth ?fin"
    using IH(1) m d by simp_all
  moreover have "to_maxDepth ?fin = to_maxDepth st \<or>
      (\<exists>k \<in> set (d # ds). to_maxDepth ?fin = to_depth ?fin k)"
    using IH(3) m d by (auto simp: max_def split: if_splits)
  ultimately show ?case using IH(2) by simp
qed simp

section \<open>The invariant of the pass\<close>

text \<open>
  \<open>dep_graph K D dependents\<close>: \<open>K\<close> holds the node keys, \<open>D k\<close> the dependencies of \<open>k\<close>, and
  \<open>dependents p\<close> lists, without repetition, the nodes that depend on \<open>p\<close>.  \<open>topo_inv\<close> is what holds
  when the set \<open>P\<close> of nodes has been processed: the counters count the unprocessed dependencies,
  the queue holds the nodes that have none left, and \<open>depth\<close> is the longest chain seen so far.
\<close>

definition dep_graph ::
    "string set \<Rightarrow> (string \<Rightarrow> string set) \<Rightarrow> (string \<Rightarrow> string list) \<Rightarrow> bool" where
  "dep_graph K D dependents \<longleftrightarrow> finite K \<and>
     (\<forall>k \<in> K. D k \<subseteq> K \<and> k \<notin> D k) \<and>
     (\<forall>p. distinct (dependents p) \<and> set (dependents p) = {k \<in> K. p \<in> D k})"

definition dep_edges :: "string set \<Rightarrow> (string \<Rightarrow> string set) \<Rightarrow> (string \<times> string) set" where
  "dep_edges K D = {(p, k). k \<in> K \<and> p \<in> D k}"

definition topo_inv :: "string set \<Rightarrow> (string \<Rightarrow> string set) \<Rightarrow> string set \<Rightarrow> topo \<Rightarrow> bool" where
  "topo_inv K D P st \<longleftrightarrow>
     P \<subseteq> K \<and> set (to_queue st) \<subseteq> K \<and> distinct (to_queue st) \<and> set (to_queue st) \<inter> P = {} \<and>
     (\<forall>k \<in> K. indegree_of st k = int (card (D k - P))) \<and>
     (\<forall>k \<in> K. k \<in> P \<or> k \<in> set (to_queue st) \<longleftrightarrow> D k \<subseteq> P) \<and>
     (\<forall>k \<in> K. 0 \<le> to_depth st k \<and> (\<forall>p \<in> D k \<inter> P. to_depth st p + 1 \<le> to_depth st k)) \<and>
     (\<forall>k \<in> K. to_depth st k = 0 \<or> (\<exists>p \<in> D k \<inter> P. to_depth st k = to_depth st p + 1)) \<and>
     (\<forall>k \<in> K. to_depth st k \<le> to_maxDepth st) \<and>
     (to_maxDepth st = 0 \<or> (\<exists>k \<in> K. to_depth st k = to_maxDepth st)) \<and>
     to_processed st = int (card P)"

lemma card_diff_insert:
  "finite A \<Longrightarrow> x \<in> A \<Longrightarrow> x \<notin> P \<Longrightarrow> card (A - P) = Suc (card (A - insert x P))"
proof -
  assume "finite A" "x \<in> A" "x \<notin> P"
  then have "Suc (card (A - P - {x})) = card (A - P)" by (intro card_Suc_Diff1) auto
  moreover have "A - P - {x} = A - insert x P" by auto
  ultimately show "card (A - P) = Suc (card (A - insert x P))" by metis
qed

lemma topo_pop_inv:
  assumes g: "dep_graph K D dependents" and inv: "topo_inv K D P st"
    and q: "to_queue st = key # rest"
  shows "topo_inv K D (insert key P) (topo_pop dependents key rest st)"
proof -
  let ?ds = "dependents key"
  define st0 where "st0 = st\<lparr>to_queue := rest, to_processed := to_processed st + 1\<rparr>"
  define st1 where "st1 = fold (relax_dependent key) ?ds st0"
  have st1: "topo_pop dependents key rest st = st1"
    by (simp add: topo_pop_def st1_def st0_def)
  have ds: "distinct ?ds" "set ?ds = {k \<in> K. key \<in> D k}"
    using g by (simp_all add: dep_graph_def)
  have fin: "finite K" "\<And>k. k \<in> K \<Longrightarrow> finite (D k)" "\<And>k. k \<in> K \<Longrightarrow> D k \<subseteq> K" "\<And>k. k \<in> K \<Longrightarrow> k \<notin> D k"
    using g by (auto simp: dep_graph_def intro: finite_subset)
  have key: "key \<in> K" "key \<notin> P" "key \<notin> set rest" "set rest \<subseteq> K" "distinct rest"
      "set rest \<inter> P = {}" "D key \<subseteq> P"
    using inv q by (auto simp: topo_inv_def)
  have key_ds: "key \<notin> set ?ds" using ds fin(4) key(1) by auto
  have P: "P \<subseteq> K" "finite P" using inv fin(1) by (auto simp: topo_inv_def intro: finite_subset)
  have closed: "D k \<subseteq> P" if "k \<in> P" for k using that inv P by (auto simp: topo_inv_def)
  have deg0: "indegree_of st0 k = indegree_of st k" for k
    by (simp add: st0_def indegree_of_def)
  have deg: "indegree_of st1 k = int (card (D k - insert key P))" if "k \<in> K" for k
  proof -
    have a: "indegree_of st1 k = indegree_of st k - (if key \<in> D k then 1 else 0)"
      using ds that by (simp add: st1_def indegree_fold deg0)
    have b: "indegree_of st k = int (card (D k - P))" using that inv by (simp add: topo_inv_def)
    show ?thesis
    proof (cases "key \<in> D k")
      case True
      then have "indegree_of st1 k = indegree_of st k - 1" using a by (simp only: if_True)
      then show ?thesis
        using b card_diff_insert [OF fin(2) [OF that] True key(2)] by linarith
    next
      case False
      then have "D k - insert key P = D k - P" by auto
      then show ?thesis using a b False by (simp only: if_False diff_zero)
    qed
  qed
  have one: "indegree_of st k = 1 \<longleftrightarrow> D k \<subseteq> insert key P" if "k \<in> set ?ds" for k
  proof -
    have k: "k \<in> K" "key \<in> D k" using that ds by auto
    have "indegree_of st k = int (card (D k - P))" using k inv by (simp add: topo_inv_def)
    moreover have "card (D k - P) = Suc (card (D k - insert key P))"
      by (rule card_diff_insert [OF fin(2) [OF k(1)] k(2) key(2)])
    ultimately have "indegree_of st k = 1 \<longleftrightarrow> card (D k - insert key P) = 0" by linarith
    also have "\<dots> \<longleftrightarrow> D k - insert key P = {}"
      using fin(2) [OF k(1)] by (intro card_0_eq finite_Diff)
    also have "\<dots> \<longleftrightarrow> D k \<subseteq> insert key P" by (rule Diff_eq_empty_iff)
    finally show ?thesis .
  qed
  have mq: "mset (to_queue st1) = mset rest + mset (filter (\<lambda>d. indegree_of st d = 1) ?ds)"
    using ds by (simp add: st1_def queue_fold deg0) (simp add: st0_def)
  have queue: "set (to_queue st1) = set rest \<union> {k \<in> set ?ds. D k \<subseteq> insert key P}"
    using arg_cong [OF mq, of set_mset] one by auto
  have new: "k \<notin> P \<and> k \<notin> set rest \<and> k \<noteq> key" if "k \<in> set ?ds" for k
  proof -
    have "\<not> D k \<subseteq> P" using that ds key(2) by auto
    then show ?thesis using inv q that ds key(7) by (auto simp: topo_inv_def)
  qed
  have dist: "distinct (to_queue st1)"
  proof -
    have "distinct (rest @ filter (\<lambda>d. indegree_of st d = 1) ?ds)"
      using key(5) ds(1) new by auto
    then show ?thesis using mq by (metis mset_append mset_eq_imp_distinct_iff)
  qed
  have depth: "to_depth st1 k =
      (if k \<in> set ?ds then max (to_depth st k) (to_depth st key + 1) else to_depth st k)" for k
    using key_ds by (simp add: st1_def depth_fold) (simp add: st0_def)
  have old: "to_depth st1 p = to_depth st p" if "p \<in> insert key P" for p
    using that new depth by auto
  have inq: "k \<in> insert key P \<or> k \<in> set (to_queue st1) \<longleftrightarrow> D k \<subseteq> insert key P" if "k \<in> K" for k
  proof
    assume "k \<in> insert key P \<or> k \<in> set (to_queue st1)"
    then show "D k \<subseteq> insert key P"
      using queue closed key(7) that inv q by (fastforce simp: topo_inv_def)
  next
    assume sub: "D k \<subseteq> insert key P"
    show "k \<in> insert key P \<or> k \<in> set (to_queue st1)"
    proof (cases "key \<in> D k")
      case True
      then show ?thesis using sub queue ds that by auto
    next
      case False
      then have "D k \<subseteq> P" using sub by auto
      then show ?thesis using inv q queue that by (auto simp: topo_inv_def)
    qed
  qed
  have max: "to_maxDepth st \<le> to_maxDepth st1"
      "\<forall>k \<in> set ?ds. to_depth st1 k \<le> to_maxDepth st1"
      "to_maxDepth st1 = to_maxDepth st \<or> (\<exists>k \<in> set ?ds. to_maxDepth st1 = to_depth st1 k)"
    using maxDepth_fold [OF key_ds ds(1), of st0] by (simp_all add: st1_def) (simp_all add: st0_def)
  have invd: "\<And>k. k \<in> K \<Longrightarrow> 0 \<le> to_depth st k"
      "\<And>k p. k \<in> K \<Longrightarrow> p \<in> D k \<Longrightarrow> p \<in> P \<Longrightarrow> to_depth st p + 1 \<le> to_depth st k"
      "\<And>k. k \<in> K \<Longrightarrow> to_depth st k = 0 \<or> (\<exists>p \<in> D k \<inter> P. to_depth st k = to_depth st p + 1)"
      "\<And>k. k \<in> K \<Longrightarrow> to_depth st k \<le> to_maxDepth st"
      "to_maxDepth st = 0 \<or> (\<exists>k \<in> K. to_depth st k = to_maxDepth st)"
    using inv by (simp_all add: topo_inv_def)
  have c7: "0 \<le> to_depth st1 k \<and> (\<forall>p \<in> D k \<inter> insert key P. to_depth st1 p + 1 \<le> to_depth st1 k)"
    if "k \<in> K" for k
    using that invd(1,2) [of k] old ds depth [of k] by (auto simp: le_max_iff_disj)
  have c8: "to_depth st1 k = 0 \<or> (\<exists>p \<in> D k \<inter> insert key P. to_depth st1 k = to_depth st1 p + 1)"
    if "k \<in> K" for k
    using that invd(3) [of k] old ds depth [of k] by (auto simp: max_def)
  have c9: "to_depth st1 k \<le> to_maxDepth st1" if "k \<in> K" for k
    using that invd(4) [of k] max(1,2) depth [of k] by (cases "k \<in> set ?ds") auto
  have c10: "to_maxDepth st1 = 0 \<or> (\<exists>k \<in> K. to_depth st1 k = to_maxDepth st1)"
    using max(3)
  proof
    assume eq: "to_maxDepth st1 = to_maxDepth st"
    from invd(5) show ?thesis
    proof
      assume "\<exists>k \<in> K. to_depth st k = to_maxDepth st"
      then obtain k where k: "k \<in> K" "to_depth st k = to_maxDepth st" by blast
      have "to_depth st k \<le> to_depth st1 k" by (simp add: depth)
      then have "to_depth st1 k = to_maxDepth st1" using k eq c9 [OF k(1)] by simp
      then show ?thesis using k by blast
    qed (simp add: eq)
  next
    assume "\<exists>k \<in> set ?ds. to_maxDepth st1 = to_depth st1 k"
    then show ?thesis using ds by auto
  qed
  have proc: "to_processed st1 = int (card (insert key P))"
    using inv P key(2) by (simp add: st1_def processed_fold) (simp add: st0_def topo_inv_def)
  have sub: "set (to_queue st1) \<subseteq> K" "set (to_queue st1) \<inter> insert key P = {}"
    using queue ds key new by auto
  show ?thesis
    unfolding st1 topo_inv_def
    using P key(1) sub dist deg inq c7 c8 c9 c10 proc by simp
qed

section \<open>What the pass computes\<close>

lemma topo_loop_inv:
  "dep_graph K D dependents \<Longrightarrow> topo_inv K D P st \<Longrightarrow>
     \<exists>P'. topo_inv K D P' (topo_loop dependents st) \<and> to_queue (topo_loop dependents st) = []"
proof (induction dependents st arbitrary: P rule: topo_loop.induct)
  case (1 dependents st)
  show ?case
  proof (cases "to_queue st")
    case Nil
    then show ?thesis using 1 by (auto simp: topo_loop.simps [of dependents st])
  next
    case (Cons key rest)
    have "topo_inv K D (insert key P) (topo_pop dependents key rest st)"
      using "1.prems" Cons by (rule topo_pop_inv)
    then show ?thesis
      using "1.IH" [OF Cons "1.prems"(1)] Cons by (simp add: topo_loop.simps [of dependents st])
  qed
qed

lemma depth_chain:
  assumes inv: "topo_inv K D P st" and sub: "\<And>k. k \<in> K \<Longrightarrow> D k \<subseteq> K"
  shows "k \<in> K \<Longrightarrow> to_depth st k = int n \<Longrightarrow> \<exists>x. (x, k) \<in> dep_edges K D ^^ n"
proof (induction n arbitrary: k)
  case 0
  then show ?case by auto
next
  case (Suc n)
  have "to_depth st k = 0 \<or> (\<exists>p \<in> D k \<inter> P. to_depth st k = to_depth st p + 1)"
    using inv Suc.prems(1) by (simp add: topo_inv_def)
  then obtain p where p: "p \<in> D k" "to_depth st p = int n" using Suc.prems(2) by auto
  then obtain x where "(x, p) \<in> dep_edges K D ^^ n" using Suc.IH [of p] sub Suc.prems(1) by blast
  moreover have "(p, k) \<in> dep_edges K D" using p Suc.prems(1) by (simp add: dep_edges_def)
  ultimately show ?case by auto
qed

lemma chain_depth:
  assumes inv: "topo_inv K D K st"
  shows "(x, k) \<in> dep_edges K D ^^ n \<Longrightarrow> k \<in> K \<Longrightarrow> (\<And>k. k \<in> K \<Longrightarrow> D k \<subseteq> K) \<Longrightarrow> int n \<le> to_depth st k"
proof (induction n arbitrary: k)
  case 0
  then show ?case using inv by (simp add: topo_inv_def)
next
  case (Suc n)
  then obtain p where p: "(x, p) \<in> dep_edges K D ^^ n" "p \<in> D k" by (auto simp: dep_edges_def)
  then have "p \<in> K" using Suc.prems by blast
  then have "int n \<le> to_depth st p" using Suc p by blast
  moreover have "to_depth st p + 1 \<le> to_depth st k"
    using inv p \<open>p \<in> K\<close> Suc.prems(2) by (simp add: topo_inv_def)
  ultimately show ?case by simp
qed

lemma processed_all_iff_acyclic:
  assumes g: "dep_graph K D dependents" and inv: "topo_inv K D P st" and q: "to_queue st = []"
  shows "P = K \<longleftrightarrow> acyclic (dep_edges K D)"
proof
  assume eq: "P = K"
  have "dep_edges K D \<subseteq> measure (\<lambda>k. nat (to_depth st k))"
  proof (rule subrelI)
    fix p k assume "(p, k) \<in> dep_edges K D"
    then have k: "k \<in> K" "p \<in> D k" "p \<in> K" using g by (auto simp: dep_edges_def dep_graph_def)
    then have "0 \<le> to_depth st p" and "to_depth st p + 1 \<le> to_depth st k"
      using inv by (simp_all add: topo_inv_def eq)
    then show "(p, k) \<in> measure (\<lambda>k. nat (to_depth st k))" by simp
  qed
  then have "wf (dep_edges K D)" by (rule wf_subset [OF wf_measure])
  then show "acyclic (dep_edges K D)" by (rule wf_acyclic)
next
  assume ac: "acyclic (dep_edges K D)"
  have fin: "finite (dep_edges K D)"
  proof (rule finite_subset)
    show "dep_edges K D \<subseteq> K \<times> K" using g by (auto simp: dep_edges_def dep_graph_def)
    show "finite (K \<times> K)" using g by (simp add: dep_graph_def)
  qed
  show "P = K"
  proof (rule ccontr)
    assume "P \<noteq> K"
    then obtain k0 where k0: "k0 \<in> K - P" using inv by (auto simp: topo_inv_def)
    have "wf (dep_edges K D)" using fin ac by (rule finite_acyclic_wf)
    then obtain k where k: "k \<in> K - P" "\<And>p. (p, k) \<in> dep_edges K D \<Longrightarrow> p \<notin> K - P"
      using k0 by (rule wfE_min) blast
    then have "D k \<subseteq> P" using g by (auto simp: dep_edges_def dep_graph_def)
    then have "k \<in> P" using inv k(1) q by (simp add: topo_inv_def) blast
    then show False using k(1) by simp
  qed
qed

lemma maxDepth_iff_chain:
  assumes g: "dep_graph K D dependents" and inv: "topo_inv K D K st"
  shows "int n < to_maxDepth st \<longleftrightarrow> dep_edges K D ^^ Suc n \<noteq> {}"
proof
  assume less: "int n < to_maxDepth st"
  then obtain k where k: "k \<in> K" "to_depth st k = to_maxDepth st"
    using inv by (auto simp: topo_inv_def)
  then obtain m where m: "to_depth st k = int (Suc n + m)"
    using less by (metis zless_iff_Suc_zadd add_Suc_right add_Suc of_nat_add)
  obtain x where "(x, k) \<in> dep_edges K D ^^ (Suc n + m)"
    using depth_chain [OF inv _ k(1) m] g by (auto simp: dep_graph_def)
  then show "dep_edges K D ^^ Suc n \<noteq> {}" by (simp only: relpow_add) blast
next
  assume "dep_edges K D ^^ Suc n \<noteq> {}"
  then obtain x k where "(x, k) \<in> dep_edges K D ^^ Suc n" by fast
  moreover from this have "k \<in> K" by (auto simp: dep_edges_def)
  ultimately have "int (Suc n) \<le> to_depth st k"
    using g by (intro chain_depth [OF inv]) (auto simp: dep_graph_def)
  moreover have "to_depth st k \<le> to_maxDepth st" using inv \<open>k \<in> K\<close> by (simp add: topo_inv_def)
  ultimately show "int n < to_maxDepth st" by simp
qed

lemma topo_init_inv:
  assumes dk: "distinct (map fst byKey)"
    and K: "K = fst ` set byKey"
    and D: "\<And>k n. (k, n) \<in> set byKey \<Longrightarrow> D k = set (pn_DependsOn n) \<and> distinct (pn_DependsOn n)"
  shows "topo_inv K D {} (topo_init byKey)"
proof -
  have deg: "indegree_of (topo_init byKey) k = int (length (pn_DependsOn n))"
    if "(k, n) \<in> set byKey" for k n
  proof -
    have "map_of (map (\<lambda>(k, n). (k, int (length (pn_DependsOn n)))) byKey) k
        = map_option (\<lambda>n. int (length (pn_DependsOn n))) (map_of byKey k)"
      by (induction byKey) auto
    moreover have "map_of byKey k = Some n" using that dk by simp
    ultimately show ?thesis by (simp add: indegree_of_def topo_init_def)
  qed
  have "distinct (map fst (filter (\<lambda>(k, n). pn_DependsOn n = []) byKey))"
    using dk by (rule distinct_map_filter)
  moreover have "(k \<in> set (to_queue (topo_init byKey))) \<longleftrightarrow> D k = {}" if "k \<in> K" for k
  proof -
    obtain n where n: "(k, n) \<in> set byKey" using \<open>k \<in> K\<close> unfolding K by auto
    have uniq: "m = n" if "(k, m) \<in> set byKey" for m
      using n that dk by (metis map_of_eq_Some_iff option.inject)
    have "k \<in> set (to_queue (topo_init byKey)) \<longleftrightarrow> (\<exists>m. (k, m) \<in> set byKey \<and> pn_DependsOn m = [])"
      by (force simp: topo_init_def)
    also have "\<dots> \<longleftrightarrow> pn_DependsOn n = []" using n uniq by blast
    also have "\<dots> \<longleftrightarrow> D k = {}" using D [OF n] by simp
    finally show ?thesis .
  qed
  moreover have "indegree_of (topo_init byKey) k = int (card (D k))" if "k \<in> K" for k
  proof -
    obtain n where n: "(k, n) \<in> set byKey" using \<open>k \<in> K\<close> unfolding K by auto
    then show ?thesis using deg [OF n] D [OF n] by (simp add: distinct_card)
  qed
  moreover have "set (to_queue (topo_init byKey)) \<subseteq> K" using K by (force simp: topo_init_def)
  ultimately show ?thesis by (auto simp: topo_inv_def topo_init_def)
qed

lemma validatePlanTopology_Nil_iff:
  assumes dk: "distinct (map fst byKey)"
    and g: "dep_graph (fst ` set byKey) D dependents"
    and D: "\<And>k n. (k, n) \<in> set byKey \<Longrightarrow> D k = set (pn_DependsOn n) \<and> distinct (pn_DependsOn n)"
  shows "validatePlanTopology byKey dependents = [] \<longleftrightarrow>
    acyclic (dep_edges (fst ` set byKey) D) \<and> dep_edges (fst ` set byKey) D ^^ 5 = {}"
proof -
  let ?K = "fst ` set byKey" and ?st = "topo_loop dependents (topo_init byKey)"
  have "topo_inv ?K D {} (topo_init byKey)" using dk refl D by (rule topo_init_inv)
  then obtain P where P: "topo_inv ?K D P ?st" "to_queue ?st = []"
    using topo_loop_inv [OF g] by blast
  have sub: "P \<subseteq> ?K" "to_processed ?st = int (card P)" using P(1) by (simp_all add: topo_inv_def)
  have card: "card ?K = length byKey" using dk by (metis distinct_card length_map list.set_map)
  have "to_processed ?st = int (length byKey) \<longleftrightarrow> P = ?K"
    using sub card by (metis card_subset_eq finite_imageI finite_set of_nat_eq_iff)
  also have "\<dots> \<longleftrightarrow> acyclic (dep_edges ?K D)"
    using g P by (rule processed_all_iff_acyclic)
  finally have ac: "to_processed ?st = int (length byKey) \<longleftrightarrow> acyclic (dep_edges ?K D)" .
  have "int 4 < to_maxDepth ?st \<longleftrightarrow> dep_edges ?K D ^^ Suc 4 \<noteq> {}" if "P = ?K"
    using P(1) that by (intro maxDepth_iff_chain [OF g]) simp
  moreover have "Suc 4 = (5::nat)" by simp
  ultimately have md: "4 < to_maxDepth ?st \<longleftrightarrow> dep_edges ?K D ^^ 5 \<noteq> {}" if "P = ?K"
    using that by (metis of_nat_numeral)
  show ?thesis
    using ac md processed_all_iff_acyclic [OF g P]
    by (simp add: validatePlanTopology_def Let_def MaxPlanDependencyDepth_def)
qed

end
