(* ===== verification/PlanCheck.thy ===== *)
theory PlanCheck
  imports PlanTopology
begin

text \<open>
  \<open>ValidatePlan\<close> of \<open>plan.go\<close>: the checks of a plan's header, its limits, each node, its
  dependency links, its integrators and, when the graph is well formed, its topology.  The errors
  are collected in the order of the code.  \<open>plan_ok\<close> states what an accepted plan is, over sets and
  relations, and \<open>ValidatePlan_Nil_iff\<close> proves that exactly those plans are accepted.
\<close>

section \<open>Node keys\<close>

definition key_alnum :: "char \<Rightarrow> bool" where
  "key_alnum c \<longleftrightarrow> (let n = of_char c :: nat in
     (65 \<le> n \<and> n \<le> 90) \<or> (97 \<le> n \<and> n \<le> 122) \<or> (48 \<le> n \<and> n \<le> 57))"

definition key_char :: "char \<Rightarrow> bool" where
  "key_char c \<longleftrightarrow> key_alnum c \<or> c = CHR ''_'' \<or> c = CHR ''-''"

fun nodeKeyPattern :: "string \<Rightarrow> bool" where
  "nodeKeyPattern [] = False"
| "nodeKeyPattern (c # cs) = (key_alnum c \<and> list_all key_char cs \<and> length cs \<le> 63)"

definition allowedArtifactKinds :: "ArtifactKind list" where
  "allowedArtifactKinds =
     [ArtifactKindBranch, ArtifactKindCommit, ArtifactKindDiff, ArtifactKindFile,
      ArtifactKindTestReceipt, ArtifactKindFinalDelivery]"

section \<open>Limits\<close>

definition check_limit :: "string \<Rightarrow> int \<Rightarrow> int \<Rightarrow> ValidationError list" where
  "check_limit path value hardLimit =
     (if value < 1 then [verr path ''invalid_limit'' (path @ '' must be at least 1'')]
      else if hardLimit < 1 \<or> value > hardLimit
      then [verr path ''limit_exceeded'' (path @ '' exceeds the system hard limit'')]
      else [])"

definition validatePlanLimits :: "PlanLimits \<Rightarrow> PlanLimits \<Rightarrow> ValidationError list" where
  "validatePlanLimits limits hardLimits =
     check_limit ''limits.max_parallel_runs'' (MaxParallelRuns limits) (MaxParallelRuns hardLimits) @
     check_limit ''limits.max_task_attempts'' (MaxTaskAttempts limits) (MaxTaskAttempts hardLimits) @
     check_limit ''limits.max_rework_cycles'' (MaxReworkCycles limits) (MaxReworkCycles hardLimits) @
     validateBudgetPolicy (Budget limits)"

section \<open>The pass over the nodes\<close>

record plan_scan =
  ps_errs :: "ValidationError list"
  ps_nodesByKey :: "(string \<times> PlanNode) list"
  ps_hasRoot :: bool
  ps_graphValid :: bool

definition node_path :: "nat \<Rightarrow> string" where
  "node_path index = ''nodes['' @ string_of_nat index @ '']''"

definition indexed :: "string \<Rightarrow> string \<Rightarrow> nat \<Rightarrow> string" where
  "indexed path field index = path @ field @ ''['' @ string_of_nat index @ '']''"

definition node_key_errors :: "string \<Rightarrow> (string \<times> PlanNode) list \<Rightarrow> string \<Rightarrow> ValidationError list" where
  "node_key_errors path nodesByKey key =
     (if key = [] then [verr (path @ ''.key'') ''missing_node_key'' ''node key is required'']
      else if \<not> nodeKeyPattern key then
        [verr (path @ ''.key'') ''invalid_node_key''
           ''node key must use 1-64 ASCII letters, digits, underscores, or hyphens'']
      else if map_of nodesByKey key \<noteq> None then
        [verr (path @ ''.key'') ''duplicate_node_key''
           (''node key '' @ go_quote key @ '' is duplicated'')]
      else [])"

fun criteria_errors :: "string \<Rightarrow> nat \<Rightarrow> string list \<Rightarrow> ValidationError list" where
  "criteria_errors path i [] = []"
| "criteria_errors path i (c # cs) =
     err_when (TrimSpace c = []) (indexed path ''.acceptance_criteria'' i)
       ''empty_acceptance_criterion'' ''acceptance criteria cannot be empty'' @
     criteria_errors path (i + 1) cs"

fun kind_errors :: "string \<Rightarrow> nat \<Rightarrow> ArtifactKind list \<Rightarrow> ArtifactKind list \<Rightarrow> ValidationError list" where
  "kind_errors path i seen [] = []"
| "kind_errors path i seen (k # ks) =
     err_when (k \<notin> set allowedArtifactKinds) (indexed path ''.artifact_kinds'' i)
       ''invalid_artifact_kind''
       (''artifact kind '' @ go_quote (ArtifactKind_String k) @ '' is not supported'') @
     err_when (k \<in> set seen) (indexed path ''.artifact_kinds'' i) ''duplicate_artifact_kind''
       (''artifact kind '' @ go_quote (ArtifactKind_String k) @ '' is duplicated'') @
     kind_errors path (i + 1) (k # seen) ks"

fun dependency_errors :: "string \<Rightarrow> string \<Rightarrow> nat \<Rightarrow> string list \<Rightarrow> string list \<Rightarrow> ValidationError list" where
  "dependency_errors path key i seen [] = []"
| "dependency_errors path key i seen (d # ds) =
     err_when (d = key) (indexed path ''.depends_on'' i) ''self_dependency''
       ''a node cannot depend on itself'' @
     err_when (d \<in> set seen) (indexed path ''.depends_on'' i) ''duplicate_dependency''
       (''dependency '' @ go_quote d @ '' is duplicated'') @
     dependency_errors path key (i + 1) (d # seen) ds"

text \<open>
  One iteration of the loop over \<open>plan.Nodes\<close>.  Every branch of the key check and of the
  dependency check that reports an error also clears \<open>graphValid\<close>.
\<close>

definition scan_node :: "BudgetPolicy option \<Rightarrow> nat \<Rightarrow> PlanNode \<Rightarrow> plan_scan \<Rightarrow> plan_scan" where
  "scan_node budget index node st =
     (let path = node_path index;
          keyErrs = node_key_errors path (ps_nodesByKey st) (pn_Key node);
          depErrs = dependency_errors path (pn_Key node) 0 [] (pn_DependsOn node);
          hasFinalDelivery = list_ex (\<lambda>k. k = ArtifactKindFinalDelivery) (pn_ArtifactKinds node) in
      \<lparr>ps_errs = ps_errs st @ keyErrs @
         err_when (TrimSpace (pn_Title node) = []) (path @ ''.title'') ''missing_title''
           ''node title is required'' @
         err_when (TrimSpace (pn_Description node) = []) (path @ ''.description'')
           ''missing_description'' ''node description is required'' @
         err_when (\<not> TaskNodeDuty (pn_Duty node)) (path @ ''.duty'') ''invalid_node_duty''
           ''node duty must be executor or integrator'' @
         validateNodeBudgetEstimate node index budget @
         err_when (pn_AcceptanceCriteria node = []) (path @ ''.acceptance_criteria'')
           ''missing_acceptance_criteria'' ''at least one acceptance criterion is required'' @
         criteria_errors path 0 (pn_AcceptanceCriteria node) @
         err_when (pn_ArtifactKinds node = []) (path @ ''.artifact_kinds'')
           ''missing_artifact_kind'' ''at least one artifact kind is required'' @
         kind_errors path 0 [] (pn_ArtifactKinds node) @
         err_when (pn_Duty node = DutyIntegrator \<and> \<not> hasFinalDelivery) (path @ ''.artifact_kinds'')
           ''missing_final_delivery'' ''integrator nodes must produce a final_delivery artifact'' @
         depErrs,
       ps_nodesByKey = (if keyErrs = [] then ps_nodesByKey st @ [(pn_Key node, node)]
                        else ps_nodesByKey st),
       ps_hasRoot = (ps_hasRoot st \<or> pn_DependsOn node = []),
       ps_graphValid = (ps_graphValid st \<and> keyErrs = [] \<and> depErrs = [])\<rparr>)"

fun scan_nodes :: "BudgetPolicy option \<Rightarrow> nat \<Rightarrow> PlanNode list \<Rightarrow> plan_scan \<Rightarrow> plan_scan" where
  "scan_nodes budget index [] st = st"
| "scan_nodes budget index (n # ns) st = scan_nodes budget (index + 1) ns (scan_node budget index n st)"

section \<open>Dependency links and integrators\<close>

record link_scan =
  ls_errs :: "ValidationError list"
  ls_dependents :: "string \<Rightarrow> string list"
  ls_graphValid :: bool

fun link_dependencies ::
    "(string \<times> PlanNode) list \<Rightarrow> nat \<Rightarrow> string \<Rightarrow> nat \<Rightarrow> string list \<Rightarrow> link_scan \<Rightarrow> link_scan" where
  "link_dependencies nodesByKey index key j [] st = st"
| "link_dependencies nodesByKey index key j (d # ds) st =
     link_dependencies nodesByKey index key (j + 1) ds
       (if map_of nodesByKey d = None then
          st\<lparr>ls_errs := ls_errs st @
               [verr (indexed (node_path index) ''.depends_on'' j) ''unknown_dependency''
                  (''dependency '' @ go_quote d @ '' does not reference a plan node'')],
             ls_graphValid := False\<rparr>
        else st\<lparr>ls_dependents := (ls_dependents st)(d := ls_dependents st d @ [key])\<rparr>)"

fun link_nodes :: "(string \<times> PlanNode) list \<Rightarrow> nat \<Rightarrow> PlanNode list \<Rightarrow> link_scan \<Rightarrow> link_scan" where
  "link_nodes nodesByKey index [] st = st"
| "link_nodes nodesByKey index (n # ns) st =
     link_nodes nodesByKey (index + 1) ns
       (link_dependencies nodesByKey index (pn_Key n) 0 (pn_DependsOn n) st)"

definition hasNonIntegratorDependency :: "(string \<times> PlanNode) list \<Rightarrow> PlanNode \<Rightarrow> bool" where
  "hasNonIntegratorDependency nodesByKey node =
     list_ex (\<lambda>d. case map_of nodesByKey d of None \<Rightarrow> False
                  | Some predecessor \<Rightarrow> pn_Duty predecessor \<noteq> DutyIntegrator) (pn_DependsOn node)"

fun integrator_errors :: "(string \<times> PlanNode) list \<Rightarrow> nat \<Rightarrow> PlanNode list \<Rightarrow> ValidationError list" where
  "integrator_errors nodesByKey index [] = []"
| "integrator_errors nodesByKey index (n # ns) =
     err_when (pn_Duty n = DutyIntegrator \<and> \<not> hasNonIntegratorDependency nodesByKey n)
       (node_path index @ ''.depends_on'') ''integrator_missing_input''
       ''integrator nodes must depend on a non-integrator node'' @
     integrator_errors nodesByKey (index + 1) ns"

definition hasIntegratorLeaf :: "(string \<Rightarrow> string list) \<Rightarrow> PlanNode list \<Rightarrow> bool" where
  "hasIntegratorLeaf dependents nodes =
     list_ex (\<lambda>n. pn_Duty n = DutyIntegrator \<and> dependents (pn_Key n) = []) nodes"

section \<open>ValidatePlan\<close>

definition ValidatePlan :: "Plan \<Rightarrow> string \<Rightarrow> PlanLimits \<Rightarrow> ValidationError list" where
  "ValidatePlan plan expectedMissionID hardLimits =
     (let nodes = plan_Nodes plan;
          scan = scan_nodes (Budget (plan_Limits plan)) 0 nodes
            \<lparr>ps_errs = [], ps_nodesByKey = [], ps_hasRoot = False, ps_graphValid = True\<rparr>;
          byKey = ps_nodesByKey scan;
          link = link_nodes byKey 0 nodes
            \<lparr>ls_errs = [], ls_dependents = (\<lambda>_. []), ls_graphValid = ps_graphValid scan\<rparr> in
      err_when (plan_SchemaVersion plan \<noteq> PlanSchemaVersion) ''schema_version''
        ''unsupported_schema_version'' (''schema_version must be '' @ string_of_int PlanSchemaVersion) @
      err_when (TrimSpace (plan_MissionID plan) = [] \<or> plan_MissionID plan \<noteq> expectedMissionID)
        ''mission_id'' ''mission_mismatch'' ''mission_id must match the target mission'' @
      (if TrimSpace (plan_PlanKey plan) = []
       then [verr ''plan_key'' ''missing_plan_key'' ''plan_key is required'']
       else err_when (length (plan_PlanKey plan) > 255) ''plan_key'' ''plan_key_too_long''
              ''plan_key may not exceed 255 bytes'') @
      validatePlanLimits (plan_Limits plan) hardLimits @
      err_when (length nodes = 0) ''nodes'' ''missing_nodes'' ''at least one node is required'' @
      err_when (length nodes > MaxPlanNodes) ''nodes'' ''node_limit_exceeded''
        (''a plan may contain at most '' @ string_of_nat MaxPlanNodes @ '' nodes'') @
      ps_errs scan @
      ls_errs link @
      err_when (\<not> ps_hasRoot scan) ''nodes'' ''missing_root_node''
        ''the plan must contain at least one root node'' @
      integrator_errors byKey 0 nodes @
      err_when (\<not> hasIntegratorLeaf (ls_dependents link) nodes) ''nodes'' ''missing_integrator_leaf''
        ''the plan must contain an integrator leaf node'' @
      (if ls_graphValid link \<and> length byKey = length nodes
       then validatePlanTopology byKey (ls_dependents link) else []))"

section \<open>What an accepted plan is\<close>

definition limit_ok :: "int \<Rightarrow> int \<Rightarrow> bool" where
  "limit_ok v hard \<longleftrightarrow> 1 \<le> v \<and> v \<le> hard"

definition limits_ok :: "PlanLimits \<Rightarrow> PlanLimits \<Rightarrow> bool" where
  "limits_ok l hard \<longleftrightarrow>
     limit_ok (MaxParallelRuns l) (MaxParallelRuns hard) \<and>
     limit_ok (MaxTaskAttempts l) (MaxTaskAttempts hard) \<and>
     limit_ok (MaxReworkCycles l) (MaxReworkCycles hard) \<and>
     validateBudgetPolicy (Budget l) = []"

definition node_ok :: "BudgetPolicy option \<Rightarrow> PlanNode \<Rightarrow> bool" where
  "node_ok budget n \<longleftrightarrow>
     nodeKeyPattern (pn_Key n) \<and> \<not> blank (pn_Title n) \<and> \<not> blank (pn_Description n) \<and>
     pn_Duty n \<in> {DutyExecutor, DutyIntegrator} \<and>
     validateNodeBudgetEstimate n 0 budget = [] \<and>
     pn_AcceptanceCriteria n \<noteq> [] \<and> (\<forall>c \<in> set (pn_AcceptanceCriteria n). \<not> blank c) \<and>
     pn_ArtifactKinds n \<noteq> [] \<and> set (pn_ArtifactKinds n) \<subseteq> set allowedArtifactKinds \<and>
     distinct (pn_ArtifactKinds n) \<and>
     (pn_Duty n = DutyIntegrator \<longrightarrow> ArtifactKindFinalDelivery \<in> set (pn_ArtifactKinds n)) \<and>
     pn_Key n \<notin> set (pn_DependsOn n) \<and> distinct (pn_DependsOn n)"

definition plan_keys :: "Plan \<Rightarrow> string set" where
  "plan_keys plan = pn_Key ` set (plan_Nodes plan)"

definition plan_edges :: "Plan \<Rightarrow> (string \<times> string) set" where
  "plan_edges plan = {(d, pn_Key n) | d n. n \<in> set (plan_Nodes plan) \<and> d \<in> set (pn_DependsOn n)}"

definition plan_ok :: "Plan \<Rightarrow> string \<Rightarrow> PlanLimits \<Rightarrow> bool" where
  "plan_ok plan mission hard \<longleftrightarrow>
     plan_SchemaVersion plan = PlanSchemaVersion \<and>
     \<not> blank mission \<and> plan_MissionID plan = mission \<and>
     \<not> blank (plan_PlanKey plan) \<and> length (plan_PlanKey plan) \<le> 255 \<and>
     limits_ok (plan_Limits plan) hard \<and>
     plan_Nodes plan \<noteq> [] \<and> length (plan_Nodes plan) \<le> 16 \<and>
     (\<forall>n \<in> set (plan_Nodes plan). node_ok (Budget (plan_Limits plan)) n) \<and>
     distinct (map pn_Key (plan_Nodes plan)) \<and>
     Domain (plan_edges plan) \<subseteq> plan_keys plan \<and>
     (\<exists>n \<in> set (plan_Nodes plan). pn_DependsOn n = []) \<and>
     (\<exists>n \<in> set (plan_Nodes plan). pn_Duty n = DutyIntegrator \<and>
        pn_Key n \<notin> Domain (plan_edges plan)) \<and>
     (\<forall>n \<in> set (plan_Nodes plan). pn_Duty n = DutyIntegrator \<longrightarrow>
        (\<exists>m \<in> set (plan_Nodes plan). pn_Key m \<in> set (pn_DependsOn n) \<and>
           pn_Duty m \<noteq> DutyIntegrator)) \<and>
     acyclic (plan_edges plan) \<and> plan_edges plan ^^ 5 = {}"

section \<open>The collected errors\<close>

lemma check_limit_Nil: "check_limit p v h = [] \<longleftrightarrow> limit_ok v h"
  by (auto simp: check_limit_def limit_ok_def)

lemma validatePlanLimits_Nil: "validatePlanLimits l h = [] \<longleftrightarrow> limits_ok l h"
  by (simp add: validatePlanLimits_def limits_ok_def check_limit_Nil)

lemma criteria_errors_Nil: "criteria_errors p i cs = [] \<longleftrightarrow> (\<forall>c \<in> set cs. \<not> blank c)"
  by (induction p i cs rule: criteria_errors.induct) (auto simp: blank_def)

lemma kind_errors_Nil:
  "kind_errors p i seen ks = [] \<longleftrightarrow>
     set ks \<subseteq> set allowedArtifactKinds \<and> distinct ks \<and> set ks \<inter> set seen = {}"
  by (induction p i seen ks rule: kind_errors.induct) auto

lemma dependency_errors_Nil:
  "dependency_errors p k i seen ds = [] \<longleftrightarrow>
     k \<notin> set ds \<and> distinct ds \<and> set ds \<inter> set seen = {}"
  by (induction p k i seen ds rule: dependency_errors.induct) auto

lemma node_key_errors_Nil:
  "node_key_errors p byKey k = [] \<longleftrightarrow> nodeKeyPattern k \<and> map_of byKey k = None"
  by (cases k) (auto simp: node_key_errors_def)

lemma scan_node_errs_Nil:
  "ps_errs (scan_node b i n st) = [] \<longleftrightarrow>
     ps_errs st = [] \<and> node_ok b n \<and> map_of (ps_nodesByKey st) (pn_Key n) = None"
proof -
  have "TaskNodeDuty d \<longleftrightarrow> d \<in> {DutyExecutor, DutyIntegrator}" for d
    by (simp add: TaskNodeDuty_def)
  moreover have "validateNodeBudgetEstimate n i b = [] \<longleftrightarrow> validateNodeBudgetEstimate n 0 b = []"
    by (simp add: validateNodeBudgetEstimate_Nil_iff)
  ultimately show ?thesis
    by (auto simp: scan_node_def Let_def node_ok_def criteria_errors_Nil kind_errors_Nil
        dependency_errors_Nil node_key_errors_Nil blank_def list_ex_iff)
qed

lemma scan_node_ok:
  assumes "node_ok b n" and "map_of (ps_nodesByKey st) (pn_Key n) = None"
  shows "ps_nodesByKey (scan_node b i n st) = ps_nodesByKey st @ [(pn_Key n, n)]"
    and "ps_graphValid (scan_node b i n st) = ps_graphValid st"
  using assms
  by (simp_all add: scan_node_def Let_def node_ok_def dependency_errors_Nil node_key_errors_Nil)

lemma scan_node_hasRoot:
  "ps_hasRoot (scan_node b i n st) \<longleftrightarrow> ps_hasRoot st \<or> pn_DependsOn n = []"
  by (simp add: scan_node_def Let_def)

lemma scan_node_fresh:
  assumes "node_ok b n" and "map_of (ps_nodesByKey st) (pn_Key n) = None"
  shows "map_of (ps_nodesByKey (scan_node b i n st)) k = None \<longleftrightarrow>
    map_of (ps_nodesByKey st) k = None \<and> k \<noteq> pn_Key n"
  using assms by (auto simp: scan_node_ok map_add_def split: option.splits)

lemma scan_nodes_errs_Nil:
  "ps_errs (scan_nodes b i ns st) = [] \<longleftrightarrow>
     ps_errs st = [] \<and> (\<forall>n \<in> set ns. node_ok b n) \<and>
     distinct (map pn_Key ns) \<and> (\<forall>n \<in> set ns. map_of (ps_nodesByKey st) (pn_Key n) = None)"
proof (induction b i ns st rule: scan_nodes.induct)
  case (1 b i st)
  then show ?case by simp
next
  case (2 b i n ns st)
  show ?case
  proof (cases "node_ok b n \<and> map_of (ps_nodesByKey st) (pn_Key n) = None")
    case True
    have "(\<forall>m \<in> set ns. map_of (ps_nodesByKey (scan_node b i n st)) (pn_Key m) = None) \<longleftrightarrow>
        (\<forall>m \<in> set ns. map_of (ps_nodesByKey st) (pn_Key m) = None) \<and> pn_Key n \<notin> set (map pn_Key ns)"
      using True by (simp only: scan_node_fresh [OF conjunct1 [OF True] conjunct2 [OF True]])
        (auto, metis image_eqI)
    then show ?thesis
      using 2 True by (simp add: scan_node_errs_Nil) blast
  next
    case False
    then show ?thesis using 2 by (auto simp: scan_node_errs_Nil)
  qed
qed

lemma scan_nodes_ok:
  assumes "\<forall>n \<in> set ns. node_ok b n" and "distinct (map pn_Key ns)"
    and "\<forall>n \<in> set ns. map_of (ps_nodesByKey st) (pn_Key n) = None"
  shows "ps_nodesByKey (scan_nodes b i ns st) = ps_nodesByKey st @ map (\<lambda>n. (pn_Key n, n)) ns \<and>
    ps_graphValid (scan_nodes b i ns st) = ps_graphValid st \<and>
    (ps_hasRoot (scan_nodes b i ns st) \<longleftrightarrow> ps_hasRoot st \<or> (\<exists>n \<in> set ns. pn_DependsOn n = []))"
  using assms
proof (induction b i ns st rule: scan_nodes.induct)
  case (2 b i n ns st)
  have "\<forall>m \<in> set ns. map_of (ps_nodesByKey (scan_node b i n st)) (pn_Key m) = None"
    using "2.prems" by (subst scan_node_fresh) (auto, metis image_eqI)
  then show ?case
    using "2.IH" "2.prems" by (auto simp: scan_node_ok scan_node_hasRoot)
qed simp

section \<open>The links\<close>

lemma link_dependencies_errs_Nil:
  "ls_errs (link_dependencies byKey i k j ds st) = [] \<longleftrightarrow>
     ls_errs st = [] \<and> (\<forall>d \<in> set ds. map_of byKey d \<noteq> None)"
  by (induction byKey i k j ds st rule: link_dependencies.induct) auto

lemma link_dependencies_ok:
  "\<forall>d \<in> set ds. map_of byKey d \<noteq> None \<Longrightarrow>
     ls_graphValid (link_dependencies byKey i k j ds st) = ls_graphValid st \<and>
     ls_dependents (link_dependencies byKey i k j ds st) p =
       ls_dependents st p @ map (\<lambda>_. k) (filter ((=) p) ds)"
  by (induction byKey i k j ds st rule: link_dependencies.induct) auto

lemma link_nodes_errs_Nil:
  "ls_errs (link_nodes byKey i ns st) = [] \<longleftrightarrow>
     ls_errs st = [] \<and> (\<forall>n \<in> set ns. \<forall>d \<in> set (pn_DependsOn n). map_of byKey d \<noteq> None)"
  by (induction byKey i ns st rule: link_nodes.induct) (auto simp: link_dependencies_errs_Nil)

lemma link_nodes_ok:
  "\<forall>n \<in> set ns. \<forall>d \<in> set (pn_DependsOn n). map_of byKey d \<noteq> None \<Longrightarrow>
     ls_graphValid (link_nodes byKey i ns st) = ls_graphValid st \<and>
     ls_dependents (link_nodes byKey i ns st) p =
       ls_dependents st p @ concat (map (\<lambda>n. map (\<lambda>_. pn_Key n) (filter ((=) p) (pn_DependsOn n))) ns)"
  by (induction byKey i ns st rule: link_nodes.induct) (auto simp: link_dependencies_ok)

lemma filter_eq_distinct:
  "distinct ds \<Longrightarrow> filter ((=) p) ds = (if p \<in> set ds then [p] else [])"
  by (induction ds) auto

definition plan_dependents :: "PlanNode list \<Rightarrow> string \<Rightarrow> string list" where
  "plan_dependents ns p = map pn_Key (filter (\<lambda>n. p \<in> set (pn_DependsOn n)) ns)"

lemma concat_dependents:
  "\<forall>n \<in> set ns. distinct (pn_DependsOn n) \<Longrightarrow>
     concat (map (\<lambda>n. map (\<lambda>_. pn_Key n) (filter ((=) p) (pn_DependsOn n))) ns) =
     plan_dependents ns p"
  by (induction ns) (auto simp: plan_dependents_def filter_eq_distinct)

section \<open>Soundness and completeness\<close>

lemma integrator_errors_Nil:
  "integrator_errors byKey i ns = [] \<longleftrightarrow>
     (\<forall>n \<in> set ns. pn_Duty n = DutyIntegrator \<longrightarrow> hasNonIntegratorDependency byKey n)"
  by (induction byKey i ns rule: integrator_errors.induct) auto

definition keyed :: "PlanNode list \<Rightarrow> (string \<times> PlanNode) list" where
  "keyed ns = map (\<lambda>n. (pn_Key n, n)) ns"

lemma map_of_keyed:
  "distinct (map pn_Key ns) \<Longrightarrow>
     map_of (keyed ns) k = Some n \<longleftrightarrow> n \<in> set ns \<and> pn_Key n = k"
  by (subst map_of_eq_Some_iff) (auto simp: keyed_def o_def)

lemma map_of_keyed_None: "map_of (keyed ns) k = None \<longleftrightarrow> k \<notin> pn_Key ` set ns"
  by (force simp: keyed_def map_of_eq_None_iff)

lemma hasNonIntegratorDependency_iff:
  "distinct (map pn_Key ns) \<Longrightarrow>
     hasNonIntegratorDependency (keyed ns) n \<longleftrightarrow>
       (\<exists>m \<in> set ns. pn_Key m \<in> set (pn_DependsOn n) \<and> pn_Duty m \<noteq> DutyIntegrator)"
  by (auto simp: hasNonIntegratorDependency_def list_ex_iff map_of_keyed split: option.splits)
    (metis map_of_keyed option.simps(3) option.inject)+

text \<open>The dependencies of a key, as a set.\<close>

definition deps_of :: "PlanNode list \<Rightarrow> string \<Rightarrow> string set" where
  "deps_of ns k = (case map_of (keyed ns) k of None \<Rightarrow> {} | Some n \<Rightarrow> set (pn_DependsOn n))"

lemma deps_of_node:
  "distinct (map pn_Key ns) \<Longrightarrow> n \<in> set ns \<Longrightarrow> deps_of ns (pn_Key n) = set (pn_DependsOn n)"
  using map_of_keyed [of ns "pn_Key n" n] by (simp add: deps_of_def)

lemma topology_of_nodes:
  assumes dk: "distinct (map pn_Key ns)"
    and local: "\<forall>n \<in> set ns. pn_Key n \<notin> set (pn_DependsOn n) \<and> distinct (pn_DependsOn n)"
    and known: "\<forall>n \<in> set ns. set (pn_DependsOn n) \<subseteq> pn_Key ` set ns"
    and E: "E = {(d, pn_Key n) | d n. n \<in> set ns \<and> d \<in> set (pn_DependsOn n)}"
  shows "validatePlanTopology (keyed ns) (plan_dependents ns) = [] \<longleftrightarrow> acyclic E \<and> E ^^ 5 = {}"
proof -
  let ?K = "fst ` set (keyed ns)"
  have K: "?K = pn_Key ` set ns" by (force simp: keyed_def)
  have D: "deps_of ns k = set (pn_DependsOn n) \<and> distinct (pn_DependsOn n)"
    if "(k, n) \<in> set (keyed ns)" for k n
    using that local deps_of_node [OF dk] by (auto simp: keyed_def)
  have "dep_graph ?K (deps_of ns) (plan_dependents ns)"
    unfolding dep_graph_def K
  proof (intro conjI allI ballI)
    show "finite (pn_Key ` set ns)" by simp
    fix k assume "k \<in> pn_Key ` set ns"
    then obtain n where n: "n \<in> set ns" "k = pn_Key n" by blast
    then show "deps_of ns k \<subseteq> pn_Key ` set ns" and "k \<notin> deps_of ns k"
      using deps_of_node [OF dk n(1)] local known by simp_all
  next
    fix p
    show "distinct (plan_dependents ns p)"
      unfolding plan_dependents_def using dk by (rule distinct_map_filter)
    show "set (plan_dependents ns p) = {k \<in> pn_Key ` set ns. p \<in> deps_of ns k}"
      using deps_of_node [OF dk] by (auto simp: plan_dependents_def)
  qed
  moreover have "distinct (map fst (keyed ns))" using dk by (simp add: keyed_def o_def)
  moreover have "dep_edges ?K (deps_of ns) = E"
    unfolding dep_edges_def K E using deps_of_node [OF dk] by auto
  ultimately show ?thesis using validatePlanTopology_Nil_iff [OF _ _ D] by simp
qed

text \<open>When the pass over the nodes reports nothing, \<open>nodesByKey\<close> and \<open>dependents\<close> are the
  plan's own tables.\<close>

definition scan_start :: plan_scan where
  "scan_start = \<lparr>ps_errs = [], ps_nodesByKey = [], ps_hasRoot = False, ps_graphValid = True\<rparr>"

definition link_start :: "bool \<Rightarrow> link_scan" where
  "link_start valid = \<lparr>ls_errs = [], ls_dependents = (\<lambda>_. []), ls_graphValid = valid\<rparr>"

lemma scan_clean:
  assumes "ps_errs (scan_nodes b 0 ns scan_start) = []"
  shows "ps_nodesByKey (scan_nodes b 0 ns scan_start) = keyed ns"
    and "ps_graphValid (scan_nodes b 0 ns scan_start)"
    and "ps_hasRoot (scan_nodes b 0 ns scan_start) \<longleftrightarrow> (\<exists>n \<in> set ns. pn_DependsOn n = [])"
proof -
  have "\<forall>n \<in> set ns. node_ok b n" "distinct (map pn_Key ns)"
      "\<forall>n \<in> set ns. map_of (ps_nodesByKey scan_start) (pn_Key n) = None"
    using assms by (simp_all add: scan_nodes_errs_Nil)
  from scan_nodes_ok [OF this, of 0]
  show "ps_nodesByKey (scan_nodes b 0 ns scan_start) = keyed ns"
    and "ps_graphValid (scan_nodes b 0 ns scan_start)"
    and "ps_hasRoot (scan_nodes b 0 ns scan_start) \<longleftrightarrow> (\<exists>n \<in> set ns. pn_DependsOn n = [])"
    by (simp_all add: scan_start_def keyed_def)
qed

lemma scan_start_errs_Nil:
  "ps_errs (scan_nodes b 0 ns scan_start) = [] \<longleftrightarrow>
     (\<forall>n \<in> set ns. node_ok b n) \<and> distinct (map pn_Key ns)"
  by (auto simp: scan_nodes_errs_Nil scan_start_def)

lemma link_clean:
  assumes "ls_errs (link_nodes byKey 0 ns (link_start v)) = []"
    and "\<forall>n \<in> set ns. distinct (pn_DependsOn n)"
  shows "ls_dependents (link_nodes byKey 0 ns (link_start v)) = plan_dependents ns"
    and "ls_graphValid (link_nodes byKey 0 ns (link_start v)) = v"
  using assms
  by (simp_all add: fun_eq_iff link_nodes_errs_Nil link_nodes_ok concat_dependents link_start_def)

lemma link_start_errs_Nil:
  "ls_errs (link_nodes byKey 0 ns (link_start v)) = [] \<longleftrightarrow>
     (\<forall>n \<in> set ns. \<forall>d \<in> set (pn_DependsOn n). map_of byKey d \<noteq> None)"
  by (simp add: link_nodes_errs_Nil link_start_def)

lemma hasIntegratorLeaf_iff:
  "hasIntegratorLeaf (plan_dependents ns) ns \<longleftrightarrow>
     (\<exists>n \<in> set ns. pn_Duty n = DutyIntegrator \<and>
        pn_Key n \<notin> Domain {(d, pn_Key n) | d n. n \<in> set ns \<and> d \<in> set (pn_DependsOn n)})"
  by (auto simp: hasIntegratorLeaf_def list_ex_iff plan_dependents_def filter_empty_conv)

definition header_ok :: "Plan \<Rightarrow> string \<Rightarrow> PlanLimits \<Rightarrow> bool" where
  "header_ok plan mission hard \<longleftrightarrow>
     plan_SchemaVersion plan = PlanSchemaVersion \<and>
     \<not> blank mission \<and> plan_MissionID plan = mission \<and>
     \<not> blank (plan_PlanKey plan) \<and> length (plan_PlanKey plan) \<le> 255 \<and>
     limits_ok (plan_Limits plan) hard \<and>
     plan_Nodes plan \<noteq> [] \<and> length (plan_Nodes plan) \<le> 16"

definition nodes_accepted :: "BudgetPolicy option \<Rightarrow> PlanNode list \<Rightarrow> bool" where
  "nodes_accepted budget ns \<longleftrightarrow>
     (let scan = scan_nodes budget 0 ns scan_start; byKey = ps_nodesByKey scan;
          link = link_nodes byKey 0 ns (link_start (ps_graphValid scan)) in
      ps_errs scan = [] \<and> ls_errs link = [] \<and> ps_hasRoot scan \<and>
      integrator_errors byKey 0 ns = [] \<and> hasIntegratorLeaf (ls_dependents link) ns \<and>
      (ls_graphValid link \<and> length byKey = length ns \<longrightarrow>
         validatePlanTopology byKey (ls_dependents link) = []))"

lemma ValidatePlan_Nil_split:
  "ValidatePlan plan mission hard = [] \<longleftrightarrow>
     header_ok plan mission hard \<and> nodes_accepted (Budget (plan_Limits plan)) (plan_Nodes plan)"
  by (auto simp: ValidatePlan_def Let_def header_ok_def nodes_accepted_def scan_start_def
      link_start_def validatePlanLimits_Nil blank_def MaxPlanNodes_def)

lemma nodes_accepted_iff:
  assumes E: "E = {(d, pn_Key n) | d n. n \<in> set ns \<and> d \<in> set (pn_DependsOn n)}"
  shows "nodes_accepted b ns \<longleftrightarrow>
    (\<forall>n \<in> set ns. node_ok b n) \<and> distinct (map pn_Key ns) \<and>
    Domain E \<subseteq> pn_Key ` set ns \<and>
    (\<exists>n \<in> set ns. pn_DependsOn n = []) \<and>
    (\<exists>n \<in> set ns. pn_Duty n = DutyIntegrator \<and> pn_Key n \<notin> Domain E) \<and>
    (\<forall>n \<in> set ns. pn_Duty n = DutyIntegrator \<longrightarrow>
       (\<exists>m \<in> set ns. pn_Key m \<in> set (pn_DependsOn n) \<and> pn_Duty m \<noteq> DutyIntegrator)) \<and>
    acyclic E \<and> E ^^ 5 = {}"
proof (cases "(\<forall>n \<in> set ns. node_ok b n) \<and> distinct (map pn_Key ns)")
  case False
  then show ?thesis by (auto simp: nodes_accepted_def Let_def scan_start_errs_Nil)
next
  case True
  then have scan: "ps_errs (scan_nodes b 0 ns scan_start) = []" by (simp add: scan_start_errs_Nil)
  have dk: "distinct (map pn_Key ns)" using True by simp
  have local: "\<forall>n \<in> set ns. pn_Key n \<notin> set (pn_DependsOn n) \<and> distinct (pn_DependsOn n)"
    using True by (simp add: node_ok_def)
  have links: "ls_errs (link_nodes (keyed ns) 0 ns (link_start True)) = [] \<longleftrightarrow>
      Domain E \<subseteq> pn_Key ` set ns"
    unfolding link_start_errs_Nil map_of_keyed_None E by blast
  show ?thesis
  proof (cases "Domain E \<subseteq> pn_Key ` set ns")
    case False
    then show ?thesis
      using links scan_clean [OF scan] by (simp add: nodes_accepted_def Let_def)
  next
    case sub: True
    have known: "\<forall>n \<in> set ns. set (pn_DependsOn n) \<subseteq> pn_Key ` set ns"
      using sub unfolding E by blast
    have l: "ls_dependents (link_nodes (keyed ns) 0 ns (link_start True)) = plan_dependents ns"
        "ls_graphValid (link_nodes (keyed ns) 0 ns (link_start True))"
      using link_clean [of "keyed ns" ns True] links sub local by simp_all
    have leaf: "hasIntegratorLeaf (plan_dependents ns) ns \<longleftrightarrow>
        (\<exists>n \<in> set ns. pn_Duty n = DutyIntegrator \<and> pn_Key n \<notin> Domain E)"
      unfolding E by (rule hasIntegratorLeaf_iff)
    have input: "integrator_errors (keyed ns) 0 ns = [] \<longleftrightarrow>
        (\<forall>n \<in> set ns. pn_Duty n = DutyIntegrator \<longrightarrow>
           (\<exists>m \<in> set ns. pn_Key m \<in> set (pn_DependsOn n) \<and> pn_Duty m \<noteq> DutyIntegrator))"
      by (simp add: integrator_errors_Nil hasNonIntegratorDependency_iff [OF dk])
    have len: "length (keyed ns) = length ns" by (simp add: keyed_def)
    show ?thesis
      unfolding nodes_accepted_def Let_def
      using scan scan_clean [OF scan] links sub True l leaf input len
        topology_of_nodes [OF dk local known E]
      by simp blast
  qed
qed

lemma ValidatePlan_Nil_iff:
  "ValidatePlan plan mission hard = [] \<longleftrightarrow> plan_ok plan mission hard"
  unfolding ValidatePlan_Nil_split plan_ok_def header_ok_def
    nodes_accepted_iff [OF plan_edges_def] plan_keys_def
  by blast

end
