(* ===== verification/JsonText.thy ===== *)
theory JsonText
  imports GoText
begin

text \<open>
  Reading JSON text as \<open>encoding/json\<close> does: the scanner's grammar with its nesting limit, strings with
  their escapes (a lone surrogate and a byte that is not UTF-8 become U+FFFD), numbers.  The reader
  recurses on fuel, one unit per value, item or member; \<open>json_read\<close> gives it twice the length of
  the text, and \<open>read_fuel\<close> shows that more would change nothing.
\<close>

section \<open>Tokens\<close>

definition json_space :: "char \<Rightarrow> bool" where
  "json_space c \<longleftrightarrow> c = CHR '' '' \<or> c = CHR 0x09 \<or> c = CHR 0x0A \<or> c = CHR 0x0D"

definition skip_space :: "string \<Rightarrow> string" where
  "skip_space s = dropWhile json_space s"

definition is_digit :: "char \<Rightarrow> bool" where
  "is_digit c \<longleftrightarrow> between 48 57 (byte c)"

definition digits_value :: "string \<Rightarrow> nat" where
  "digits_value s = foldl (\<lambda>n c. 10 * n + (byte c - 48)) 0 s"

text \<open>The fraction and the exponent of a number, empty where there is none, and the rest.\<close>

definition read_fraction :: "string \<Rightarrow> (string \<times> string) option" where
  "read_fraction s =
     (case s of
        c # s' \<Rightarrow>
          if c = CHR ''.'' then
            (let d = takeWhile is_digit s' in if d = [] then None else Some (c # d, dropWhile is_digit s'))
          else Some ([], s)
      | [] \<Rightarrow> Some ([], s))"

definition read_exponent :: "string \<Rightarrow> (string \<times> string) option" where
  "read_exponent s =
     (case s of
        c # s' \<Rightarrow>
          if c = CHR ''e'' \<or> c = CHR ''E'' then
            (let sign = (if s' \<noteq> [] \<and> (hd s' = CHR ''+'' \<or> hd s' = CHR ''-'') then [hd s'] else []);
                 t = drop (length sign) s'; d = takeWhile is_digit t in
             if d = [] then None else Some (c # sign @ d, dropWhile is_digit t))
          else Some ([], s)
      | [] \<Rightarrow> Some ([], s))"

definition read_number :: "string \<Rightarrow> (json \<times> string) option" where
  "read_number s =
     (let sign = (if s \<noteq> [] \<and> hd s = CHR ''-'' then ''-'' else []);
          t = drop (length sign) s; d = takeWhile is_digit t in
      if d = [] \<or> (hd d = CHR ''0'' \<and> length d \<noteq> 1) then None
      else case read_fraction (dropWhile is_digit t) of
        None \<Rightarrow> None
      | Some (fraction, t1) \<Rightarrow>
          (case read_exponent t1 of
             None \<Rightarrow> None
           | Some (exponent, t2) \<Rightarrow>
               Some (if fraction = [] \<and> exponent = []
                     then JNum (if sign = [] then int (digits_value d) else - int (digits_value d))
                     else JReal (sign @ d @ fraction @ exponent), t2)))"

section \<open>Strings\<close>

definition hex_value :: "char \<Rightarrow> nat option" where
  "hex_value c =
     (if is_digit c then Some (byte c - 48)
      else if between 97 102 (byte c) then Some (byte c - 87)
      else if between 65 70 (byte c) then Some (byte c - 55)
      else None)"

fun hex4 :: "string \<Rightarrow> nat option" where
  "hex4 (a # b # c # d # s) =
     (case (hex_value a, hex_value b, hex_value c, hex_value d) of
        (Some p, Some q, Some r, Some t) \<Rightarrow> Some (((16 * p + q) * 16 + r) * 16 + t)
      | _ \<Rightarrow> None)"
| "hex4 _ = None"

text \<open>The UTF-8 encoding of a code point.\<close>

definition encode_rune :: "nat \<Rightarrow> string" where
  "encode_rune n =
     (if n < 0x80 then [char_of n]
      else if n < 0x800 then [char_of (0xC0 + n div 64), char_of (0x80 + n mod 64)]
      else if n < 0x10000 then
        [char_of (0xE0 + n div 4096), char_of (0x80 + n div 64 mod 64), char_of (0x80 + n mod 64)]
      else
        [char_of (0xF0 + n div 262144), char_of (0x80 + n div 4096 mod 64),
         char_of (0x80 + n div 64 mod 64), char_of (0x80 + n mod 64)])"

definition rune_error :: string where
  "rune_error = [CHR 0xEF, CHR 0xBF, CHR 0xBD]"

definition simple_escape :: "char \<Rightarrow> char option" where
  "simple_escape c =
     (if c = CHR 0x22 \<or> c = CHR 0x5C \<or> c = CHR ''/'' then Some c
      else if c = CHR ''b'' then Some (CHR 0x08) else if c = CHR ''f'' then Some (CHR 0x0C)
      else if c = CHR ''n'' then Some (CHR 0x0A) else if c = CHR ''r'' then Some (CHR 0x0D)
      else if c = CHR ''t'' then Some (CHR 0x09) else None)"

text \<open>What one step over the body of a string yields and how many bytes it takes; \<open>s\<close> begins with
  neither the closing quote nor the end.  After \<open>\\u\<close> a pair of surrogates is one code point.\<close>

definition unicode_escape :: "string \<Rightarrow> (string \<times> nat) option" where
  "unicode_escape s =
     (case hex4 (drop 2 s) of
        None \<Rightarrow> None
      | Some r \<Rightarrow>
          if \<not> between 0xD800 0xDFFF r then Some (encode_rune r, 6)
          else if has_prefix [CHR 0x5C, CHR ''u''] (drop 6 s) then
            (case hex4 (drop 8 s) of
               Some r2 \<Rightarrow>
                 if between 0xD800 0xDBFF r \<and> between 0xDC00 0xDFFF r2
                 then Some (encode_rune (0x10000 + (r - 0xD800) * 0x400 + (r2 - 0xDC00)), 12)
                 else Some (rune_error, 6)
             | None \<Rightarrow> Some (rune_error, 6))
          else Some (rune_error, 6))"

definition string_step :: "string \<Rightarrow> (string \<times> nat) option" where
  "string_step s =
     (case s of
        [] \<Rightarrow> None
      | c # s' \<Rightarrow>
          if byte c < 32 then None
          else if c = CHR 0x5C then
            (case s' of
               [] \<Rightarrow> None
             | e # _ \<Rightarrow>
                 if e = CHR ''u'' then unicode_escape s
                 else (case simple_escape e of None \<Rightarrow> None | Some x \<Rightarrow> Some ([x], 2)))
          else (case rune_len s of None \<Rightarrow> Some (rune_error, 1) | Some n \<Rightarrow> Some (take n s, n)))"

lemma string_step_pos: "string_step s = Some (out, n) \<Longrightarrow> 0 < n \<and> s \<noteq> []"
  using rune_step_pos [of s]
  by (auto simp: string_step_def unicode_escape_def rune_step_def split: list.splits if_splits option.splits)

text \<open>The body of a string up to its closing quote, and what follows the quote.\<close>

function read_string :: "string \<Rightarrow> (string \<times> string) option" where
  "read_string s =
     (if s = [] then None
      else if hd s = CHR 0x22 then Some ([], tl s)
      else case string_step s of
        None \<Rightarrow> None
      | Some (out, n) \<Rightarrow>
          if n = 0 then None
          else (case read_string (drop n s) of
                  None \<Rightarrow> None
                | Some (body, rest) \<Rightarrow> Some (out @ body, rest)))"
  by pat_completeness auto
termination by (relation "measure length") auto

declare read_string.simps [simp del]

section \<open>Values\<close>

definition maxNestingDepth :: nat where "maxNestingDepth = 10000"

definition read_word :: "string \<Rightarrow> json \<Rightarrow> string \<Rightarrow> (json \<times> string) option" where
  "read_word w j s = (if has_prefix w s then Some (j, drop (length w) s) else None)"

fun read_value :: "nat \<Rightarrow> nat \<Rightarrow> string \<Rightarrow> (json \<times> string) option"
  and read_items :: "nat \<Rightarrow> nat \<Rightarrow> string \<Rightarrow> (json list \<times> string) option"
  and read_members :: "nat \<Rightarrow> nat \<Rightarrow> string \<Rightarrow> ((string \<times> json) list \<times> string) option" where
  "read_value 0 depth s = None"
| "read_value (Suc n) depth s =
     (case skip_space s of
        [] \<Rightarrow> None
      | c # t \<Rightarrow>
          if c = CHR 0x22 then map_option (\<lambda>(x, rest). (JStr x, rest)) (read_string t)
          else if c = CHR ''['' then
            (if depth = 0 then None
             else if skip_space t \<noteq> [] \<and> hd (skip_space t) = CHR '']'' then Some (JArr [], tl (skip_space t))
             else map_option (\<lambda>(xs, rest). (JArr xs, rest)) (read_items n (depth - 1) t))
          else if c = CHR ''{'' then
            (if depth = 0 then None
             else if skip_space t \<noteq> [] \<and> hd (skip_space t) = CHR ''}'' then Some (JObj [], tl (skip_space t))
             else map_option (\<lambda>(ms, rest). (JObj ms, rest)) (read_members n (depth - 1) t))
          else if c = CHR ''n'' then read_word ''null'' JNull (c # t)
          else if c = CHR ''t'' then read_word ''true'' (JBool True) (c # t)
          else if c = CHR ''f'' then read_word ''false'' (JBool False) (c # t)
          else read_number (c # t))"
| "read_items 0 depth s = None"
| "read_items (Suc n) depth s =
     (case read_value n depth s of
        None \<Rightarrow> None
      | Some (x, t) \<Rightarrow>
          (case skip_space t of
             [] \<Rightarrow> None
           | c # t' \<Rightarrow>
               if c = CHR '']'' then Some ([x], t')
               else if c = CHR '','' then map_option (\<lambda>(xs, rest). (x # xs, rest)) (read_items n depth t')
               else None))"
| "read_members 0 depth s = None"
| "read_members (Suc n) depth s =
     (case skip_space s of
        [] \<Rightarrow> None
      | q # t \<Rightarrow>
          if q \<noteq> CHR 0x22 then None
          else (case read_string t of
            None \<Rightarrow> None
          | Some (key, t1) \<Rightarrow>
              if skip_space t1 = [] \<or> hd (skip_space t1) \<noteq> CHR '':'' then None
              else (case read_value n depth (tl (skip_space t1)) of
                None \<Rightarrow> None
              | Some (x, t2) \<Rightarrow>
                  (case skip_space t2 of
                     [] \<Rightarrow> None
                   | c # t3 \<Rightarrow>
                       if c = CHR ''}'' then Some ([(key, x)], t3)
                       else if c = CHR '',''
                       then map_option (\<lambda>(ms, rest). ((key, x) # ms, rest)) (read_members n depth t3)
                       else None))))"

text \<open>One value with nothing but white space around it: \<open>Unmarshal\<close>, or \<open>Decode\<close> followed by the end.\<close>

definition json_read :: "string \<Rightarrow> json option" where
  "json_read s =
     (case read_value (Suc (2 * length s)) maxNestingDepth s of
        None \<Rightarrow> None
      | Some (j, rest) \<Rightarrow> if skip_space rest = [] then Some j else None)"

text \<open>What \<open>encoding/json\<close> reports of a text it cannot read, whatever the reason.\<close>

definition json_error :: string where "json_error = ''invalid JSON''"

section \<open>Enough fuel\<close>

lemma skip_space_le: "length (skip_space s) \<le> length s"
  unfolding skip_space_def by (rule length_dropWhile_le)

lemma read_string_consumes: "read_string s = Some (x, t) \<Longrightarrow> length t < length s"
proof (induction s arbitrary: x t rule: read_string.induct)
  case (1 s)
  have ne: "s \<noteq> []" using "1.prems" by (subst (asm) read_string.simps) (auto split: if_splits)
  show ?case
  proof (cases "hd s = CHR 0x22")
    case True
    then have "t = tl s" using "1.prems" ne by (subst (asm) read_string.simps) auto
    then show ?thesis using ne by (cases s) auto
  next
    case False
    then obtain out n x' where n: "string_step s = Some (out, n)" "n \<noteq> 0" "read_string (drop n s) = Some (x', t)"
      using "1.prems" ne by (subst (asm) read_string.simps) (auto split: option.splits prod.splits if_splits)
    then have "length t < length (drop n s)" using "1.IH" [OF ne False] by blast
    then show ?thesis by simp
  qed
qed

lemma read_fraction_le: "read_fraction s = Some (x, t) \<Longrightarrow> length t \<le> length s"
  by (cases s) (auto simp: read_fraction_def Let_def split: if_splits intro: le_SucI [OF length_dropWhile_le])

lemma read_exponent_le: "read_exponent s = Some (x, t) \<Longrightarrow> length t \<le> length s"
  by (cases s) (auto simp: read_exponent_def Let_def split: if_splits
      intro: le_SucI le_SucI [OF le_SucI] length_dropWhile_le order_trans [OF length_dropWhile_le])

lemma read_number_consumes: "read_number s = Some (j, t) \<Longrightarrow> length t < length s"
proof -
  assume r: "read_number s = Some (j, t)"
  define sign where "sign = (if s \<noteq> [] \<and> hd s = CHR ''-'' then ''-'' else [])"
  define u where "u = drop (length sign) s"
  have d: "takeWhile is_digit u \<noteq> []" using r by (auto simp: read_number_def Let_def sign_def u_def split: if_splits)
  obtain t1 t2 e where f: "read_fraction (dropWhile is_digit u) = Some (t1, t2)"
      and e: "read_exponent t2 = Some (e, t)"
    using r by (auto simp: read_number_def Let_def sign_def u_def split: if_splits option.splits prod.splits)
  note read_fraction_le [OF f] read_exponent_le [OF e]
  moreover have "length (dropWhile is_digit u) < length u"
    using d by (metis length_append length_greater_0_conv less_add_same_cancel2 takeWhile_dropWhile_id)
  moreover have "length u \<le> length s" by (simp add: u_def)
  ultimately show ?thesis by linarith
qed

lemma read_consumes:
  "read_value n d s = Some (j, t) \<Longrightarrow> length t < length s"
  "read_items n d s = Some (xs, t) \<Longrightarrow> length t < length s"
  "read_members n d s = Some (ms, t) \<Longrightarrow> length t < length s"
proof (induction n d s and n d s and n d s arbitrary: j t and xs t and ms t
    rule: read_value_read_items_read_members.induct)
  case (2 n depth s)
  then obtain c u where c: "skip_space s = c # u" by (cases "skip_space s") auto
  have "length t < length (c # u)"
    using "2.prems" "2.IH" [OF c] c skip_space_le [of u]
    by (auto simp: read_word_def split: if_splits option.splits prod.splits dest: read_string_consumes
        read_number_consumes)
  then show ?case using skip_space_le [of s] c by simp
next
  case (4 n depth s)
  then obtain x u where v: "read_value n depth s = Some (x, u)" by (cases "read_value n depth s") auto
  then obtain c w where c: "skip_space u = c # w" using "4.prems" by (cases "skip_space u") auto
  have "length t \<le> length w"
    using "4.prems" v c "4.IH"(2) [OF v _ c] by (fastforce split: if_splits dest: less_imp_le)
  moreover have "length u < length s" using "4.IH"(1) v by blast
  ultimately show ?case using skip_space_le [of u] c by simp
next
  case (6 n depth s)
  then obtain q u where q: "skip_space s = q # u" "q = CHR 0x22" by (cases "skip_space s") (auto split: if_splits)
  then obtain key t1 where k: "read_string u = Some (key, t1)" using "6.prems" by (cases "read_string u") auto
  then obtain t2 x where v: "skip_space t1 \<noteq> []" "hd (skip_space t1) = CHR '':''"
      "read_value n depth (tl (skip_space t1)) = Some (x, t2)"
    using "6.prems" q by (auto split: if_splits option.splits)
  then obtain c w where c: "skip_space t2 = c # w" using "6.prems" q k by (cases "skip_space t2") auto
  have "length t \<le> length w"
    using "6.prems" q k v c "6.IH"(2) [OF q(1) _ k _ _ v(3) _ c] by (fastforce split: if_splits dest: less_imp_le)
  moreover have "length t2 < length (tl (skip_space t1))" using "6.IH"(1) q k v by auto
  moreover have "length t1 < length u" using k by (rule read_string_consumes)
  moreover have "length (tl (skip_space t1)) \<le> length t1" using skip_space_le [of t1] by simp
  ultimately show ?case using skip_space_le [of s] skip_space_le [of t2] q c by simp
qed auto

lemma read_fuel:
  "2 * length s < n \<Longrightarrow> read_value (Suc n) d s = read_value n d s"
  "Suc (2 * length s) < n \<Longrightarrow> read_items (Suc n) d s = read_items n d s"
  "2 * length s < n \<Longrightarrow> read_members (Suc n) d s = read_members n d s"
proof (induction n d s and n d s and n d s rule: read_value_read_items_read_members.induct)
  case (2 n depth s)
  show ?case
  proof (cases "skip_space s")
    case (Cons c t)
    have t: "Suc (2 * length t) < n" using "2.prems" skip_space_le [of s] Cons by simp
    have i: "read_items (Suc n) (depth - 1) t = read_items n (depth - 1) t"
      if "c = CHR ''[''" "depth \<noteq> 0" "\<not> (skip_space t \<noteq> [] \<and> hd (skip_space t) = CHR '']'')"
      using that t by (intro "2.IH"(1) [OF Cons]) auto
    have m: "read_members (Suc n) (depth - 1) t = read_members n (depth - 1) t"
      if "c = CHR ''{''" "depth \<noteq> 0" "\<not> (skip_space t \<noteq> [] \<and> hd (skip_space t) = CHR ''}'')"
      using that t by (intro "2.IH"(2) [OF Cons]) auto
    show ?thesis
      unfolding read_value.simps(2) [of "Suc n" depth s] read_value.simps(2) [of n depth s] Cons list.case
      using i m by (simp del: read_items.simps read_members.simps)
  qed simp
next
  case (4 n depth s)
  have v: "read_value (Suc n) depth s = read_value n depth s" using "4.prems" by (intro "4.IH"(1)) simp
  have i: "read_items (Suc n) depth t' = read_items n depth t'"
    if "read_value n depth s = Some (x, t)" "skip_space t = c # t'" "c \<noteq> CHR '']''" "c = CHR '',''" for x t c t'
  proof (rule "4.IH"(2) [OF that(1) _ that(2-4)])
    show "Suc (2 * length t') < n"
      using read_consumes(1) [OF that(1)] skip_space_le [of t] that(2) "4.prems" by simp
  qed simp
  show ?case
    unfolding read_items.simps(2) [of "Suc n" depth s] read_items.simps(2) [of n depth s] v
    by (auto simp del: read_items.simps simp: i split: option.splits list.splits)
next
  case (6 n depth s)
  have v: "read_value (Suc n) depth (tl (skip_space t1)) = read_value n depth (tl (skip_space t1)) \<and>
      length t1 < length s"
    if "skip_space s = q # t" "read_string t = Some (key, t1)" "\<not> (q \<noteq> CHR 0x22)"
      "\<not> (skip_space t1 = [] \<or> hd (skip_space t1) \<noteq> CHR '':'')" for q t key t1
  proof
    show l: "length t1 < length s"
      using read_string_consumes [OF that(2)] skip_space_le [of s] that(1) by simp
    show "read_value (Suc n) depth (tl (skip_space t1)) = read_value n depth (tl (skip_space t1))"
      by (rule "6.IH"(1) [OF that(1,3,2) _ that(4)])
        (use "6.prems" l skip_space_le [of t1] in auto)
  qed
  have m: "read_members (Suc n) depth t3 = read_members n depth t3"
    if "skip_space s = q # t" "read_string t = Some (key, t1)" "\<not> (q \<noteq> CHR 0x22)"
      "\<not> (skip_space t1 = [] \<or> hd (skip_space t1) \<noteq> CHR '':'')"
      "read_value n depth (tl (skip_space t1)) = Some (x, t2)" "skip_space t2 = c # t3"
      "c \<noteq> CHR ''}''" "c = CHR '',''" for q t key t1 x t2 c t3
  proof (rule "6.IH"(2) [OF that(1,3,2) _ that(4,5) _ that(6-8)])
    have "length t2 < length (tl (skip_space t1))" using that(5) by (rule read_consumes)
    moreover have "Suc (length t3) \<le> length t2" using skip_space_le [of t2] that(6) by simp
    ultimately show "2 * length t3 < n"
      using conjunct2 [OF v [OF that(1-4)]] skip_space_le [of t1] "6.prems" unfolding length_tl by linarith
  qed simp_all
  show ?case
    unfolding read_members.simps(2) [of "Suc n" depth s] read_members.simps(2) [of n depth s]
    by (auto simp del: read_members.simps read_value.simps simp: conjunct1 [OF v] m split: option.splits list.splits)
qed auto

end
