(* ===== verification/JsonLaws.thy ===== *)
theory JsonLaws
  imports JsonText
begin

text \<open>
  What \<open>json.Marshal\<close> writes is read back: \<open>json_read_marshal\<close>, for documents whose strings are UTF-8 and
  whose numbers are integers, nested no deeper than the reader allows.
\<close>

section \<open>Strings\<close>

lemma rune_len_le: "rune_len s = Some n \<Longrightarrow> 1 \<le> n \<and> n \<le> length s"
  by (cases s rule: rune_len.cases) (auto split: if_splits list.splits)

lemma rune_len_take: "rune_len s = Some n \<Longrightarrow> rune_len (take n s @ t) = Some n"
  by (cases s rule: rune_len.cases) (auto simp del: rune3.simps rune4.simps split: if_splits list.splits)

lemma byte_less: "byte c < 256"
  by (simp add: byte_def)

lemma char_of_byte [simp]: "char_of (byte c) = c"
  by (simp add: byte_def)

lemma byte_char_of [simp]: "n < 256 \<Longrightarrow> byte (char_of n) = n"
  by (simp add: byte_def)

lemma hex_value_digit: "n < 16 \<Longrightarrow> hex_value (hex_digit n) = Some n"
  by (auto simp: hex_digit_def hex_value_def is_digit_def between_def)

lemma byte_eq_iff: "byte c = byte d \<longleftrightarrow> c = d"
  by (simp add: byte_def)

lemma escape_hex2:
  assumes "byte c < 128" shows "unicode_escape (CHR 0x5C # CHR ''u'' # CHR ''0'' # CHR ''0'' # hex2 (byte c) @ t) = Some ([c], 6)"
proof -
  have h: "hex_value CHR ''0'' = Some 0" by (simp add: hex_value_def is_digit_def between_def byte_def)
  have "hex4 (CHR ''0'' # CHR ''0'' # hex2 (byte c) @ t) = Some (byte c)"
    using assms by (simp add: hex2_def hex_value_digit h)
  then show ?thesis using assms
    by (simp add: unicode_escape_def numeral_2_eq_2 between_def encode_rune_def)
qed

lemma json_char_step:
  assumes "byte c < 128"
  shows "string_step (json_char c @ t) = Some ([c], length (json_char c)) \<and> json_char c \<noteq> [] \<and> hd (json_char c) \<noteq> CHR 0x22"
proof (cases "byte c < 32 \<or> c = CHR ''<'' \<or> c = CHR ''>'' \<or> c = CHR ''&''")
  case True
  then show ?thesis using escape_hex2 [OF assms, of t]
    by (auto simp: json_char_def string_step_def simple_escape_def byte_def hex2_def)
next
  case False
  then show ?thesis using assms
    by (auto simp: json_char_def string_step_def simple_escape_def byte_def)
qed

lemma read_string_step:
  assumes "string_step (x @ t) = Some (out, length x)" and "x \<noteq> []" and "hd x \<noteq> CHR 0x22"
  shows "read_string (x @ t) = map_option (\<lambda>(b, rest). (out @ b, rest)) (read_string t)"
  using assms by (subst read_string.simps) (auto split: option.splits)

definition json_rune :: "string \<Rightarrow> nat \<Rightarrow> string" where
  "json_rune s n =
     (if n = 1 then json_char (hd s)
      else if take n s = [CHR 0xE2, CHR 0x80, CHR 0xA8] then CHR 0x5C # ''u2028''
      else if take n s = [CHR 0xE2, CHR 0x80, CHR 0xA9] then CHR 0x5C # ''u2029''
      else take n s)"

lemma json_body_rune:
  "rune_len s = Some n \<Longrightarrow> json_body s = json_rune s n @ json_body (drop n s)"
  by (cases s) (simp_all del: rune_len.simps(2) add: json_body.simps [of "_ # _"] json_rune_def rune_step_def)

lemma rune_len_1: "rune_len (c # s) = Some 1 \<Longrightarrow> byte c < 128"
  by (auto split: if_splits list.splits)

lemma rune_len_multi: "rune_len (c # s) = Some n \<Longrightarrow> n \<noteq> 1 \<Longrightarrow> 128 \<le> byte c"
  by (auto split: if_splits list.splits)

lemma line_separators:
  "string_step ((CHR 0x5C # ''u2028'') @ t) = Some ([CHR 0xE2, CHR 0x80, CHR 0xA8], 6)"
  "string_step ((CHR 0x5C # ''u2029'') @ t) = Some ([CHR 0xE2, CHR 0x80, CHR 0xA9], 6)"
proof -
  have h: "hex4 (''2028'' @ t) = Some 0x2028" "hex4 (''2029'' @ t) = Some 0x2029"
    by (simp_all add: hex_value_def is_digit_def between_def byte_def)
  have e: "encode_rune 0x2028 = [CHR 0xE2, CHR 0x80, CHR 0xA8]" "encode_rune 0x2029 = [CHR 0xE2, CHR 0x80, CHR 0xA9]"
    by (simp_all add: encode_rune_def byte_eq_iff [symmetric] byte_def)
  show "string_step ((CHR 0x5C # ''u2028'') @ t) = Some ([CHR 0xE2, CHR 0x80, CHR 0xA8], 6)"
    "string_step ((CHR 0x5C # ''u2029'') @ t) = Some ([CHR 0xE2, CHR 0x80, CHR 0xA9], 6)"
    using h e by (simp_all add: string_step_def unicode_escape_def byte_def between_def numeral_2_eq_2 del: hex4.simps)
qed

lemma json_rune_step:
  assumes "rune_len s = Some n"
  shows "string_step (json_rune s n @ t) = Some (take n s, length (json_rune s n)) \<and>
    json_rune s n \<noteq> [] \<and> hd (json_rune s n) \<noteq> CHR 0x22"
proof -
  obtain c u where s: "s = c # u" using assms by (cases s) auto
  show ?thesis
  proof (cases "n = 1")
    case True
    then show ?thesis using json_char_step [of c t] rune_len_1 [of c u] assms
      by (simp add: json_rune_def s del: rune_len.simps)
  next
    case False
    have c: "128 \<le> byte c" using assms False unfolding s by (rule rune_len_multi)
    note le = rune_len_le [OF assms]
    have r: "rune_len (take n s @ t) = Some n" using assms by (rule rune_len_take)
    obtain v where v: "take n s = c # v" using le by (cases n) (auto simp: s)
    have n: "length (take n s) = n" using le by simp
    have "c \<noteq> CHR 0x5C" "c \<noteq> CHR 0x22" "\<not> byte c < 32" using c by (auto simp: byte_def)
    then have "string_step (take n s @ t) = Some (take n s, n)"
    proof -
      have "take n ((c # v) @ t) = c # v" using n unfolding v by (metis append_eq_conv_conj)
      then show ?thesis
        using r \<open>c \<noteq> CHR 0x5C\<close> \<open>\<not> byte c < 32\<close> unfolding v by (simp add: string_step_def del: rune_len.simps)
    qed
    moreover note line_separators [of t]
    ultimately show ?thesis using False \<open>c \<noteq> CHR 0x22\<close> v n by (auto simp: json_rune_def)
  qed
qed
lemma read_json_body: "ValidString s \<Longrightarrow> read_string (json_body s @ CHR 0x22 # rest) = Some (s, rest)"
proof (induction s rule: ValidString.induct)
  case (1 s)
  show ?case
  proof (cases "s = []")
    case True
    then show ?thesis by (simp add: json_body.simps [of "[]"] read_string.simps)
  next
    case False
    then obtain n where n: "rune_len s = Some n" and v: "ValidString (drop n s)"
      using "1.prems" by (subst (asm) ValidString.simps) (auto simp: rune_step_def)
    then have "read_string (json_body (drop n s) @ CHR 0x22 # rest) = Some (drop n s, rest)"
      using "1.IH" [OF False] by (simp add: rune_step_def)
    moreover note json_rune_step [OF n, of "json_body (drop n s) @ CHR 0x22 # rest"]
    ultimately show ?thesis
      by (simp add: json_body_rune [OF n] read_string_step)
  qed
qed

section \<open>Numbers\<close>

lemma byte_digit: "n < 10 \<Longrightarrow> byte (digit n) = 48 + n"
  by (simp add: digit_def)

lemma is_digit_digit [simp]: "n < 10 \<Longrightarrow> is_digit (digit n)"
  by (simp add: is_digit_def between_def byte_digit)

lemma digits_value_snoc: "digits_value (s @ [c]) = 10 * digits_value s + (byte c - 48)"
  by (simp add: digits_value_def)

lemma string_of_nat_ne: "string_of_nat n \<noteq> []"
  by (subst string_of_nat.simps) simp

lemma string_of_nat_digits: "list_all is_digit (string_of_nat n)"
  by (induction n rule: string_of_nat.induct) (subst string_of_nat.simps, simp)

lemma digits_value_string_of_nat: "digits_value (string_of_nat n) = n"
proof (induction n rule: string_of_nat.induct)
  case (1 n)
  show ?case
  proof (cases "n div 10 = 0")
    case True
    then show ?thesis by (subst string_of_nat.simps) (simp add: digits_value_def byte_digit)
  next
    case False
    then show ?thesis using 1
      by (subst string_of_nat.simps) (simp add: digits_value_snoc byte_digit)
  qed
qed

lemma string_of_nat_hd: "0 < n \<Longrightarrow> hd (string_of_nat n) \<noteq> CHR ''0''"
proof (induction n rule: string_of_nat.induct)
  case (1 n)
  show ?case
  proof (cases "n div 10 = 0")
    case True
    then have "n < 10" by simp
    moreover have "byte CHR ''0'' = 48" by (simp add: byte_def)
    ultimately have "digit n \<noteq> CHR ''0''" using "1.prems" byte_digit [of n] by auto
    then show ?thesis using True by (subst string_of_nat.simps) auto
  next
    case False
    then show ?thesis using 1 by (subst string_of_nat.simps) (simp add: string_of_nat_ne)
  qed
qed

lemma string_of_nat_0: "string_of_nat 0 = ''0''"
  by (subst string_of_nat.simps) (simp add: digit_def byte_eq_iff [symmetric], simp add: byte_def)

text \<open>What may follow a number in a document.\<close>

definition after_value :: "string \<Rightarrow> bool" where
  "after_value s \<longleftrightarrow> s = [] \<or> hd s = CHR '','' \<or> hd s = CHR '']'' \<or> hd s = CHR ''}''"

lemma after_value_char: "after_value (c # s) \<Longrightarrow> \<not> is_digit c \<and> c \<noteq> CHR ''.'' \<and> c \<noteq> CHR ''e'' \<and> c \<noteq> CHR ''E''"
  by (auto simp: after_value_def is_digit_def between_def byte_def)

lemma take_digits:
  assumes "list_all is_digit d" and "after_value t"
  shows "takeWhile is_digit (d @ t) = d" and "dropWhile is_digit (d @ t) = t"
  using assms after_value_char by (cases t; simp add: list_all_iff; fail)+

lemma read_string_of_nat:
  assumes "after_value t"
  shows "read_number (string_of_nat n @ t) = Some (JNum (int n), t)"
    and "read_number (CHR ''-'' # string_of_nat n @ t) = Some (JNum (- int n), t)"
proof -
  let ?d = "string_of_nat n"
  have ends: "read_fraction t = Some ([], t)" "read_exponent t = Some ([], t)"
    using after_value_char assms by (cases t; simp add: read_fraction_def read_exponent_def)+
  have "hd ?d = CHR ''0'' \<longrightarrow> length ?d = 1"
    using string_of_nat_hd [of n] by (cases "n = 0") (simp_all add: string_of_nat_0)
  moreover obtain c u where c: "?d = c # u" using string_of_nat_ne by (cases ?d) auto
  moreover have "is_digit c" using string_of_nat_digits [of n] c by simp
  then have "c \<noteq> CHR ''-''" by (auto simp: is_digit_def between_def byte_def)
  moreover note take_digits [OF string_of_nat_digits [of n] assms] ends digits_value_string_of_nat [of n]
  ultimately show "read_number (?d @ t) = Some (JNum (int n), t)"
    "read_number (CHR ''-'' # ?d @ t) = Some (JNum (- int n), t)"
    by (auto simp: read_number_def Let_def)
qed

lemma read_string_of_int: "after_value t \<Longrightarrow> read_number (string_of_int i @ t) = Some (JNum i, t)"
  by (auto simp: string_of_int_def read_string_of_nat)

section \<open>Reading back what was written\<close>

text \<open>The documents \<open>json.Marshal\<close> writes without loss: strings in UTF-8, integers, nesting up to \<open>d\<close>.\<close>

fun json_plain :: "nat \<Rightarrow> json \<Rightarrow> bool" where
  "json_plain d JNull \<longleftrightarrow> True"
| "json_plain d (JBool b) \<longleftrightarrow> True"
| "json_plain d (JNum i) \<longleftrightarrow> True"
| "json_plain d (JReal r) \<longleftrightarrow> False"
| "json_plain d (JStr s) \<longleftrightarrow> ValidString s"
| "json_plain d (JArr xs) \<longleftrightarrow> 0 < d \<and> (\<forall>x \<in> set xs. json_plain (d - 1) x)"
| "json_plain d (JObj ms) \<longleftrightarrow> 0 < d \<and> (\<forall>kv \<in> set ms. ValidString (fst kv) \<and> json_plain (d - 1) (snd kv))"

lemma json_plain_mono: "json_plain d j \<Longrightarrow> d \<le> e \<Longrightarrow> json_plain e j"
proof (induction d j arbitrary: e rule: json_plain.induct)
  case (6 d xs)
  then have "0 < e" "d - 1 \<le> e - 1" by auto
  with 6 show ?case by auto
next
  case (7 d ms)
  then have "0 < e" "d - 1 \<le> e - 1" by auto
  with 7 show ?case by auto
qed simp_all

lemma skip_space_Cons [simp]: "\<not> json_space c \<Longrightarrow> skip_space (c # s) = c # s"
  by (simp add: skip_space_def)

lemma not_space [simp]:
  "\<not> json_space CHR 0x22" "\<not> json_space CHR ''[''" "\<not> json_space CHR '']''" "\<not> json_space CHR ''{''"
  "\<not> json_space CHR ''}''" "\<not> json_space CHR '',''" "\<not> json_space CHR '':''" "\<not> json_space CHR ''n''"
  "\<not> json_space CHR ''t''" "\<not> json_space CHR ''f''" "\<not> json_space CHR ''-''"
  by (simp_all add: json_space_def)

lemma string_of_int_hd:
  "\<exists>c u. string_of_int i = c # u \<and> (is_digit c \<or> c = CHR ''-'')"
proof -
  obtain c u where "string_of_nat (nat i) = c # u" using string_of_nat_ne by (cases "string_of_nat (nat i)") auto
  moreover have "is_digit c" using string_of_nat_digits [of "nat i"] calculation by simp
  ultimately show ?thesis by (auto simp: string_of_int_def)
qed

lemma digit_not: "is_digit c \<Longrightarrow> \<not> json_space c \<and> c \<notin> {CHR 0x22, CHR ''['', CHR '']'', CHR ''{'', CHR ''}'',
    CHR ''n'', CHR ''t'', CHR ''f''}"
  by (auto simp: is_digit_def between_def byte_def json_space_def)

lemma marshal_hd:
  assumes "json_plain d j"
  shows "\<exists>c u. json_marshal j = c # u \<and> \<not> json_space c \<and> c \<noteq> CHR '']'' \<and> c \<noteq> CHR ''}''"
proof (cases j)
  case (JNum i)
  then show ?thesis using string_of_int_hd [of i] digit_not by auto
next
  case (JReal r)
  then show ?thesis using assms by simp
qed (auto simp: json_string_def json_space_def)

lemma read_items_marshal:
  assumes "\<And>x n rest. x \<in> set xs \<Longrightarrow> after_value rest \<Longrightarrow> length (json_marshal x) < n \<Longrightarrow>
      read_value n d (json_marshal x @ rest) = Some (x, rest)"
    and "xs \<noteq> []" and "Suc (length (sep_by (map json_marshal xs))) < n"
  shows "read_items n d (sep_by (map json_marshal xs) @ CHR '']'' # rest) = Some (xs, rest)"
  using assms
proof (induction xs arbitrary: n)
  case (Cons x xs)
  obtain m where n: "n = Suc m" using Cons.prems(3) by (cases n) auto
  show ?case
  proof (cases xs)
    case Nil
    have "read_value m d (json_marshal x @ CHR '']'' # rest) = Some (x, CHR '']'' # rest)"
      using Cons.prems(1) [of x "CHR '']'' # rest" m] Cons.prems(3) by (simp add: n Nil after_value_def)
    then show ?thesis by (simp add: n Nil)
  next
    case (Cons y ys)
    let ?t = "sep_by (map json_marshal xs) @ CHR '']'' # rest"
    have "read_value m d (json_marshal x @ CHR '','' # ?t) = Some (x, CHR '','' # ?t)"
      using Cons.prems(1) [of x "CHR '','' # ?t" m] Cons.prems(3) by (simp add: n Cons after_value_def)
    moreover have "read_items m d ?t = Some (xs, rest)"
      using Cons.prems(3) by (intro Cons.IH Cons.prems(1)) (auto simp: n Cons)
    ultimately show ?thesis by (simp add: n Cons)
  qed
qed simp

lemma read_members_marshal:
  assumes "\<And>k x n rest. (k, x) \<in> set ms \<Longrightarrow> after_value rest \<Longrightarrow> length (json_marshal x) < n \<Longrightarrow>
      read_value n d (json_marshal x @ rest) = Some (x, rest)"
    and "\<And>k x. (k, x) \<in> set ms \<Longrightarrow> ValidString k"
    and "ms \<noteq> []" and "length (sep_by (map (\<lambda>(k, v). json_string k @ '':'' @ json_marshal v) ms)) < n"
  shows "read_members n d (sep_by (map (\<lambda>(k, v). json_string k @ '':'' @ json_marshal v) ms) @ CHR ''}'' # rest) =
    Some (ms, rest)"
  using assms
proof (induction ms arbitrary: n)
  case (Cons kx ms)
  obtain k x where kx: "kx = (k, x)" by (cases kx)
  obtain m where n: "n = Suc m" using Cons.prems(4) by (cases n) auto
  have k: "read_string (json_body k @ CHR 0x22 # t) = Some (k, t)" for t
    using Cons.prems(2) [of k x] by (intro read_json_body) (simp add: kx)
  let ?f = "\<lambda>(k, v). json_string k @ '':'' @ json_marshal v"
  show ?case
  proof (cases ms)
    case Nil
    have "read_value m d (json_marshal x @ CHR ''}'' # rest) = Some (x, CHR ''}'' # rest)"
      using Cons.prems(1) [of k x "CHR ''}'' # rest" m] Cons.prems(4) by (simp add: n kx Nil after_value_def)
    then show ?thesis by (simp add: n kx Nil json_string_def k)
  next
    case (Cons y ys)
    let ?t = "sep_by (map ?f ms) @ CHR ''}'' # rest"
    have "read_value m d (json_marshal x @ CHR '','' # ?t) = Some (x, CHR '','' # ?t)"
      using Cons.prems(1) [of k x "CHR '','' # ?t" m] Cons.prems(4) by (simp add: n kx Cons after_value_def)
    moreover have "read_members m d ?t = Some (ms, rest)"
      using Cons.prems(4) by (intro Cons.IH Cons.prems(1,2)) (auto simp: n kx Cons)
    ultimately show ?thesis by (simp add: n kx Cons json_string_def k)
  qed
qed simp

lemma skip_space_marshal:
  assumes "json_plain d x"
  shows "skip_space (json_marshal x @ t) = json_marshal x @ t \<and> json_marshal x @ t \<noteq> [] \<and>
    hd (json_marshal x @ t) \<noteq> CHR '']''"
  using marshal_hd [OF assms] by auto

lemma sep_by_Cons: "sep_by (x # xs) = x @ (if xs = [] then [] else '','' @ sep_by xs)"
  by (cases xs) simp_all

lemma read_marshal:
  "json_plain d j \<Longrightarrow> after_value rest \<Longrightarrow> length (json_marshal j) < n \<Longrightarrow>
     read_value n d (json_marshal j @ rest) = Some (j, rest)"
proof (induction j arbitrary: d n rest rule: json_marshal.induct)
  case (3 i)
  obtain c u where c: "string_of_int i = c # u" "is_digit c \<or> c = CHR ''-''" using string_of_int_hd by blast
  then have "\<not> json_space c" "c \<notin> {CHR 0x22, CHR ''['', CHR ''{'', CHR ''n'', CHR ''t'', CHR ''f''}"
    using digit_not by auto
  moreover obtain m where "n = Suc m" using 3 by (cases n) auto
  ultimately show ?case using read_string_of_int [OF "3.prems"(2), of i] c(1) by simp
next
  case (6 xs)
  obtain m where n: "n = Suc m" using "6.prems"(3) by (cases n) auto
  obtain e where d: "d = Suc e" and p: "\<forall>x \<in> set xs. json_plain e x" using "6.prems"(1) by (cases d) auto
  show ?case
  proof (cases xs)
    case Nil
    then show ?thesis by (simp add: n d)
  next
    case (Cons y ys)
    let ?t = "sep_by (map json_marshal xs) @ CHR '']'' # rest"
    have "skip_space ?t = ?t \<and> ?t \<noteq> [] \<and> hd ?t \<noteq> CHR '']''"
      using skip_space_marshal [of e y] p by (simp add: Cons sep_by_Cons)
    moreover have "read_items m e ?t = Some (xs, rest)"
      using "6.prems"(3) p by (intro read_items_marshal "6.IH") (auto simp: n Cons)
    ultimately show ?thesis by (simp add: n d)
  qed
next
  case (7 ms)
  obtain m where n: "n = Suc m" using "7.prems"(3) by (cases n) auto
  obtain e where d: "d = Suc e" and p: "\<forall>kv \<in> set ms. ValidString (fst kv) \<and> json_plain e (snd kv)"
    using "7.prems"(1) by (cases d) auto
  let ?f = "\<lambda>(k, v). json_string k @ '':'' @ json_marshal v"
  show ?case
  proof (cases ms)
    case Nil
    then show ?thesis by (simp add: n d)
  next
    case (Cons y ys)
    let ?t = "sep_by (map ?f ms) @ CHR ''}'' # rest"
    have "skip_space ?t = ?t \<and> ?t \<noteq> [] \<and> hd ?t \<noteq> CHR ''}''"
      by (cases y) (simp add: Cons sep_by_Cons json_string_def)
    moreover have "read_members m e ?t = Some (ms, rest)"
      using "7.prems"(3) p
      by (intro read_members_marshal) (auto simp: n Cons intro!: "7.IH" [OF _ refl])
    ultimately show ?thesis by (simp add: n d)
  qed
qed (auto simp: json_string_def read_json_body read_word_def elim!: less_natE split: if_splits)

lemma json_read_marshal: "json_plain maxNestingDepth j \<Longrightarrow> json_read (json_marshal j) = Some j"
  using read_marshal [of maxNestingDepth j "[]"]
  by (simp add: json_read_def after_value_def skip_space_def del: read_value.simps)

end
