(* ===== verification/PlanProposal.thy ===== *)
theory PlanProposal
  imports PlanCheck RoleSnapshot JsonLaws
begin

text \<open>
  \<open>plan_proposal.go\<close>: the plan proposals that planners return.  Their types, their JSON form, the
  strict decoder (\<open>DisallowUnknownFields\<close>), the conversion to a plan and the validation.
  \<open>DecodePlanProposal\<close> reads the text with \<open>json_read\<close>, which replaces what is not UTF-8, and decodes its tree;
  a jsonb column is given as its tree.  The decoders follow the rules of \<open>encoding/json\<close>: a null leaves the zero
  value, names match up to ASCII case.  Of repeated members the last is read, which is what jsonb keeps;
  a text with repeated members, the earlier of which \<open>encoding/json\<close> also decodes, is outside of the model.  The context
  references are compared by \<open>reflect.DeepEqual\<close>, for which a nil slice differs from an empty one: they
  are an option; the other slices are lists, a nil one being encoded like an empty one.
\<close>

record PlanProposalContextRef =
  cr_Kind :: string
  cr_URI :: string
  cr_ContentHash :: string

record PlanProposalInput =
  Objective :: string
  ContextRefs :: "PlanProposalContextRef list option"
  DeliveryCriteria :: "string list"

record PlanProposal =
  pp_SchemaVersion :: int
  pp_MissionID :: string
  pp_ProposalKey :: string
  pp_Input :: PlanProposalInput
  pp_Limits :: PlanLimits
  pp_Nodes :: "PlanNode list"

definition PlanProposalSchemaVersion :: int where "PlanProposalSchemaVersion = 1"
definition maxPlanProposalContextRefs :: nat where "maxPlanProposalContextRefs = 32"
definition maxPlanProposalCriteria :: nat where "maxPlanProposalCriteria = 32"
definition maxPlanProposalTextBytes :: nat where "maxPlanProposalTextBytes = 32 * 1024"
definition maxPlanProposalReferenceSize :: nat where "maxPlanProposalReferenceSize = 4 * 1024"

section \<open>Encoding\<close>

definition BudgetPolicy_json :: "BudgetPolicy \<Rightarrow> json" where
  "BudgetPolicy_json p =
     JObj (json_opt ''max_tokens'' (MaxTokens p) @ json_opt ''max_cost_usd_ticks'' (MaxCostUSDTicks p) @
           [(''gate'', JStr (Gate p))])"

definition PlanLimits_json :: "PlanLimits \<Rightarrow> json" where
  "PlanLimits_json l =
     JObj ([(''max_parallel_runs'', JNum (MaxParallelRuns l)),
            (''max_task_attempts'', JNum (MaxTaskAttempts l)),
            (''max_rework_cycles'', JNum (MaxReworkCycles l))] @
           (case Budget l of None \<Rightarrow> [] | Some p \<Rightarrow> [(''budget'', BudgetPolicy_json p)]))"

definition BudgetEstimate_json :: "BudgetEstimate \<Rightarrow> json" where
  "BudgetEstimate_json e =
     JObj [(''tokens'', JNum (est_Tokens e)), (''cost_usd_ticks'', JNum (est_CostUSDTicks e))]"

definition PlanProposalNode_json :: "PlanNode \<Rightarrow> json" where
  "PlanProposalNode_json n =
     JObj [(''key'', JStr (pn_Key n)), (''title'', JStr (pn_Title n)),
           (''description'', JStr (pn_Description n)), (''duty'', JStr (Duty_String (pn_Duty n))),
           (''acceptance_criteria'', json_strings (pn_AcceptanceCriteria n)),
           (''artifact_kinds'', json_strings (map ArtifactKind_String (pn_ArtifactKinds n))),
           (''depends_on'', json_strings (pn_DependsOn n)),
           (''budget_estimate'', BudgetEstimate_json (pn_BudgetEstimate n))]"

definition ContextRef_json :: "PlanProposalContextRef \<Rightarrow> json" where
  "ContextRef_json r =
     JObj ([(''kind'', JStr (cr_Kind r)), (''uri'', JStr (cr_URI r))] @
       json_omit ''content_hash'' (cr_ContentHash r))"

text \<open>A slice that may be nil, which is written as null.\<close>

definition json_slice :: "('a \<Rightarrow> json) \<Rightarrow> 'a list option \<Rightarrow> json" where
  "json_slice f xs = (case xs of None \<Rightarrow> JNull | Some xs \<Rightarrow> JArr (map f xs))"

definition slice_items :: "'a list option \<Rightarrow> 'a list" where
  "slice_items xs = (case xs of None \<Rightarrow> [] | Some xs \<Rightarrow> xs)"

definition PlanProposalInput_json :: "PlanProposalInput \<Rightarrow> json" where
  "PlanProposalInput_json i =
     JObj [(''objective'', JStr (Objective i)),
           (''context_refs'', json_slice ContextRef_json (ContextRefs i)),
           (''delivery_criteria'', json_strings (DeliveryCriteria i))]"

definition PlanProposal_json :: "PlanProposal \<Rightarrow> json" where
  "PlanProposal_json p =
     JObj [(''schema_version'', JNum (pp_SchemaVersion p)), (''mission_id'', JStr (pp_MissionID p)),
           (''proposal_key'', JStr (pp_ProposalKey p)), (''input'', PlanProposalInput_json (pp_Input p)),
           (''limits'', PlanLimits_json (pp_Limits p)),
           (''nodes'', JArr (map PlanProposalNode_json (pp_Nodes p)))]"

definition EncodePlanProposal :: "PlanProposal \<Rightarrow> string" where
  "EncodePlanProposal p = json_marshal (PlanProposal_json p)"

definition planProposalContentHash :: "string \<Rightarrow> string" where
  "planProposalContentHash canonical = ''sha256:'' @ hex_encode (sha256 canonical)"

section \<open>Decoding\<close>

fun duty_of_string :: "string \<Rightarrow> Duty" where
  "duty_of_string s =
     (if s = ''planner'' then DutyPlanner else if s = ''executor'' then DutyExecutor
      else if s = ''reviewer'' then DutyReviewer else if s = ''integrator'' then DutyIntegrator
      else Duty_Other s)"

fun artifact_kind_of_string :: "string \<Rightarrow> ArtifactKind" where
  "artifact_kind_of_string s =
     (if s = ''branch'' then ArtifactKindBranch else if s = ''commit'' then ArtifactKindCommit
      else if s = ''diff'' then ArtifactKindDiff else if s = ''file'' then ArtifactKindFile
      else if s = ''test_receipt'' then ArtifactKindTestReceipt
      else if s = ''final_delivery'' then ArtifactKindFinalDelivery
      else if s = ''plan_proposal'' then ArtifactKindPlanProposal
      else ArtifactKind_Other s)"

definition decode_error :: error where
  "decode_error = Errorf (''decode plan proposal: '' @ json_error)"

definition dec_string :: "json \<Rightarrow> error + string" where
  "dec_string j = (case j of JStr s \<Rightarrow> Inr s | JNull \<Rightarrow> Inr [] | _ \<Rightarrow> Inl decode_error)"

definition dec_int :: "json \<Rightarrow> error + int" where
  "dec_int j = (case j of JNum i \<Rightarrow> if is_int64 i then Inr i else Inl decode_error
                | JNull \<Rightarrow> Inr 0 | _ \<Rightarrow> Inl decode_error)"

definition dec_int_ptr :: "json \<Rightarrow> error + int option" where
  "dec_int_ptr j = (case j of JNull \<Rightarrow> Inr None | _ \<Rightarrow> bind_res (dec_int j) (\<lambda>i. Inr (Some i)))"

fun dec_all :: "('a \<Rightarrow> error + 'b) \<Rightarrow> 'a list \<Rightarrow> error + 'b list" where
  "dec_all f [] = Inr []"
| "dec_all f (x # xs) = bind_res (f x) (\<lambda>y. bind_res (dec_all f xs) (\<lambda>ys. Inr (y # ys)))"

definition dec_list :: "(json \<Rightarrow> error + 'b) \<Rightarrow> json \<Rightarrow> error + 'b list" where
  "dec_list f j = (case j of JArr xs \<Rightarrow> dec_all f xs | JNull \<Rightarrow> Inr [] | _ \<Rightarrow> Inl decode_error)"

text \<open>The members of an object all of whose names are known; a missing member reads as null.\<close>

definition dec_object :: "string list \<Rightarrow> json \<Rightarrow> error + (string \<Rightarrow> json)" where
  "dec_object names j =
     (case j of
        JObj ms \<Rightarrow>
          if list_all (\<lambda>(k, _). ToLower k \<in> set names) ms
          then Inr (\<lambda>n. case find (\<lambda>(k, v). ToLower k = n) (rev ms) of None \<Rightarrow> JNull | Some (_, v) \<Rightarrow> v)
          else Inl decode_error
      | JNull \<Rightarrow> Inr (\<lambda>_. JNull)
      | _ \<Rightarrow> Inl decode_error)"

definition dec_BudgetPolicy :: "json \<Rightarrow> error + BudgetPolicy option" where
  "dec_BudgetPolicy j =
     (if j = JNull then Inr None else
      bind_res (dec_object [''max_tokens'', ''max_cost_usd_ticks'', ''gate''] j) (\<lambda>m.
      bind_res (dec_int_ptr (m ''max_tokens'')) (\<lambda>tokens.
      bind_res (dec_int_ptr (m ''max_cost_usd_ticks'')) (\<lambda>cost.
      bind_res (dec_string (m ''gate'')) (\<lambda>gate.
        Inr (Some \<lparr>MaxTokens = tokens, MaxCostUSDTicks = cost, Gate = gate\<rparr>))))))"

definition dec_PlanLimits :: "json \<Rightarrow> error + PlanLimits" where
  "dec_PlanLimits j =
     bind_res (dec_object [''max_parallel_runs'', ''max_task_attempts'', ''max_rework_cycles'', ''budget''] j)
       (\<lambda>m.
     bind_res (dec_int (m ''max_parallel_runs'')) (\<lambda>a.
     bind_res (dec_int (m ''max_task_attempts'')) (\<lambda>b.
     bind_res (dec_int (m ''max_rework_cycles'')) (\<lambda>c.
     bind_res (dec_BudgetPolicy (m ''budget'')) (\<lambda>p.
       Inr \<lparr>MaxParallelRuns = a, MaxTaskAttempts = b, MaxReworkCycles = c, Budget = p\<rparr>)))))"

definition dec_BudgetEstimate :: "json \<Rightarrow> error + BudgetEstimate" where
  "dec_BudgetEstimate j =
     bind_res (dec_object [''tokens'', ''cost_usd_ticks''] j) (\<lambda>m.
     bind_res (dec_int (m ''tokens'')) (\<lambda>t.
     bind_res (dec_int (m ''cost_usd_ticks'')) (\<lambda>c.
       Inr \<lparr>est_Tokens = t, est_CostUSDTicks = c\<rparr>)))"

definition dec_Node :: "json \<Rightarrow> error + PlanNode" where
  "dec_Node j =
     bind_res (dec_object [''key'', ''title'', ''description'', ''duty'', ''acceptance_criteria'',
                           ''artifact_kinds'', ''depends_on'', ''budget_estimate''] j) (\<lambda>m.
     bind_res (dec_string (m ''key'')) (\<lambda>key.
     bind_res (dec_string (m ''title'')) (\<lambda>title.
     bind_res (dec_string (m ''description'')) (\<lambda>description.
     bind_res (dec_string (m ''duty'')) (\<lambda>duty.
     bind_res (dec_list dec_string (m ''acceptance_criteria'')) (\<lambda>criteria.
     bind_res (dec_list dec_string (m ''artifact_kinds'')) (\<lambda>kinds.
     bind_res (dec_list dec_string (m ''depends_on'')) (\<lambda>deps.
     bind_res (dec_BudgetEstimate (m ''budget_estimate'')) (\<lambda>est.
       Inr \<lparr>pn_Key = key, pn_Title = title, pn_Description = description,
            pn_Duty = duty_of_string duty, pn_AcceptanceCriteria = criteria,
            pn_ArtifactKinds = map artifact_kind_of_string kinds, pn_DependsOn = deps,
            pn_BudgetEstimate = est\<rparr>)))))))))"

definition dec_ContextRef :: "json \<Rightarrow> error + PlanProposalContextRef" where
  "dec_ContextRef j =
     bind_res (dec_object [''kind'', ''uri'', ''content_hash''] j) (\<lambda>m.
     bind_res (dec_string (m ''kind'')) (\<lambda>kind.
     bind_res (dec_string (m ''uri'')) (\<lambda>uri.
     bind_res (dec_string (m ''content_hash'')) (\<lambda>h.
       Inr \<lparr>cr_Kind = kind, cr_URI = uri, cr_ContentHash = h\<rparr>))))"

definition dec_slice :: "(json \<Rightarrow> error + 'b) \<Rightarrow> json \<Rightarrow> error + 'b list option" where
  "dec_slice f j = (if j = JNull then Inr None else bind_res (dec_list f j) (\<lambda>xs. Inr (Some xs)))"

definition dec_Input :: "json \<Rightarrow> error + PlanProposalInput" where
  "dec_Input j =
     bind_res (dec_object [''objective'', ''context_refs'', ''delivery_criteria''] j) (\<lambda>m.
     bind_res (dec_string (m ''objective'')) (\<lambda>objective.
     bind_res (dec_slice dec_ContextRef (m ''context_refs'')) (\<lambda>refs.
     bind_res (dec_list dec_string (m ''delivery_criteria'')) (\<lambda>criteria.
       Inr \<lparr>Objective = objective, ContextRefs = refs, DeliveryCriteria = criteria\<rparr>))))"

definition dec_PlanProposal :: "json \<Rightarrow> error + PlanProposal" where
  "dec_PlanProposal j =
     bind_res (dec_object [''schema_version'', ''mission_id'', ''proposal_key'', ''input'', ''limits'',
                           ''nodes''] j) (\<lambda>m.
     bind_res (dec_int (m ''schema_version'')) (\<lambda>v.
     bind_res (dec_string (m ''mission_id'')) (\<lambda>mission.
     bind_res (dec_string (m ''proposal_key'')) (\<lambda>key.
     bind_res (dec_Input (m ''input'')) (\<lambda>input.
     bind_res (dec_PlanLimits (m ''limits'')) (\<lambda>limits.
     bind_res (dec_list dec_Node (m ''nodes'')) (\<lambda>nodes.
       Inr \<lparr>pp_SchemaVersion = v, pp_MissionID = mission, pp_ProposalKey = key, pp_Input = input,
            pp_Limits = limits, pp_Nodes = nodes\<rparr>)))))))"

text \<open>One document, and nothing but white space after it.\<close>

definition DecodePlanProposal :: "string \<Rightarrow> error + PlanProposal" where
  "DecodePlanProposal data =
     (case json_read data of None \<Rightarrow> Inl decode_error | Some j \<Rightarrow> dec_PlanProposal j)"

section \<open>Validation\<close>

fun context_ref_errors :: "nat \<Rightarrow> PlanProposalContextRef list \<Rightarrow> ValidationError list" where
  "context_ref_errors i [] = []"
| "context_ref_errors i (r # rs) =
     (let path = ''input.context_refs['' @ string_of_nat i @ '']'' in
      err_when (TrimSpace (cr_Kind r) = []) (path @ ''.kind'') ''missing_context_kind''
        ''context kind is required'' @
      (if TrimSpace (cr_URI r) = []
       then [verr (path @ ''.uri'') ''missing_context_uri'' ''context URI is required'']
       else err_when (length (cr_URI r) > maxPlanProposalReferenceSize) (path @ ''.uri'')
              ''context_uri_too_long'' ''context URI may not exceed 4096 bytes'') @
      err_when (length (cr_ContentHash r) > maxPlanProposalReferenceSize) (path @ ''.content_hash'')
        ''context_hash_too_long'' ''content hash may not exceed 4096 bytes'' @
      context_ref_errors (i + 1) rs)"

fun delivery_errors :: "nat \<Rightarrow> string list \<Rightarrow> ValidationError list" where
  "delivery_errors i [] = []"
| "delivery_errors i (c # cs) =
     (let path = ''input.delivery_criteria['' @ string_of_nat i @ '']'' in
      (if TrimSpace c = []
       then [verr path ''empty_delivery_criterion'' ''delivery criteria cannot be empty'']
       else err_when (length c > maxPlanProposalReferenceSize) path ''delivery_criterion_too_long''
              ''delivery criteria may not exceed 4096 bytes'') @
      delivery_errors (i + 1) cs)"

definition ValidatePlanProposalInput :: "PlanProposalInput \<Rightarrow> ValidationError list" where
  "ValidatePlanProposalInput input =
     (if TrimSpace (Objective input) = []
      then [verr ''input.objective'' ''missing_objective'' ''objective is required'']
      else err_when (length (Objective input) > maxPlanProposalTextBytes) ''input.objective''
             ''objective_too_long'' ''objective may not exceed 32768 bytes'') @
     err_when (length (slice_items (ContextRefs input)) > maxPlanProposalContextRefs) ''input.context_refs''
       ''context_ref_limit_exceeded'' ''context_refs may contain at most 32 items'' @
     context_ref_errors 0 (slice_items (ContextRefs input)) @
     (if DeliveryCriteria input = []
      then [verr ''input.delivery_criteria'' ''missing_delivery_criteria''
              ''at least one delivery criterion is required'']
      else err_when (length (DeliveryCriteria input) > maxPlanProposalCriteria)
             ''input.delivery_criteria'' ''delivery_criteria_limit_exceeded''
             ''delivery_criteria may contain at most 32 items'') @
     delivery_errors 0 (DeliveryCriteria input)"

definition PlanFromProposal :: "PlanProposal \<Rightarrow> Plan" where
  "PlanFromProposal p =
     \<lparr>plan_SchemaVersion = PlanSchemaVersion, plan_MissionID = pp_MissionID p,
      plan_PlanKey = pp_ProposalKey p, plan_Limits = pp_Limits p, plan_Nodes = pp_Nodes p\<rparr>"

fun node_duty_errors :: "nat \<Rightarrow> PlanNode list \<Rightarrow> ValidationError list" where
  "node_duty_errors i [] = []"
| "node_duty_errors i (n # ns) =
     err_when (pn_Duty n \<noteq> DutyExecutor \<and> pn_Duty n \<noteq> DutyIntegrator)
       (''nodes['' @ string_of_nat i @ ''].duty'') ''invalid_node_duty''
       ''task node duty must be executor or integrator'' @
     node_duty_errors (i + 1) ns"

text \<open>\<open>strings.Replace(path, old, new, 1)\<close>: the first occurrence only.\<close>

fun replace_once :: "string \<Rightarrow> string \<Rightarrow> string \<Rightarrow> string" where
  "replace_once old new [] = []"
| "replace_once old new (c # s) =
     (if has_prefix old (c # s) then new @ drop (length old) (c # s)
      else c # replace_once old new s)"

definition ValidatePlanProposal :: "PlanProposal \<Rightarrow> string \<Rightarrow> PlanLimits \<Rightarrow> ValidationError list" where
  "ValidatePlanProposal proposal expectedMissionID hardLimits =
     err_when (pp_SchemaVersion proposal \<noteq> PlanProposalSchemaVersion) ''schema_version''
       ''unsupported_schema_version''
       (''schema_version must be '' @ string_of_int PlanProposalSchemaVersion) @
     ValidatePlanProposalInput (pp_Input proposal) @
     node_duty_errors 0 (pp_Nodes proposal) @
     map (\<lambda>e. e\<lparr>Path := replace_once ''plan_key'' ''proposal_key'' (Path e)\<rparr>)
       (filter (\<lambda>e. Code e \<noteq> ''invalid_node_duty'')
         (ValidatePlan (PlanFromProposal proposal) expectedMissionID hardLimits))"

definition validate_decoded ::
    "error + PlanProposal \<Rightarrow> string \<Rightarrow> PlanLimits \<Rightarrow> PlanProposal option \<times> ValidationError list" where
  "validate_decoded decoded expectedMissionID hardLimits =
     (case decoded of
        Inl _ \<Rightarrow> (None, [verr ''$'' ''invalid_proposal_schema'' (''decode plan proposal: '' @ json_error)])
      | Inr p \<Rightarrow> (Some p, ValidatePlanProposal p expectedMissionID hardLimits))"

definition DecodeAndValidatePlanProposal ::
    "string \<Rightarrow> string \<Rightarrow> PlanLimits \<Rightarrow> PlanProposal option \<times> ValidationError list" where
  "DecodeAndValidatePlanProposal data = validate_decoded (DecodePlanProposal data)"

text \<open>The same for the text of a jsonb column.\<close>

definition DecodeAndValidate_jsonb ::
    "json \<Rightarrow> string \<Rightarrow> PlanLimits \<Rightarrow> PlanProposal option \<times> ValidationError list" where
  "DecodeAndValidate_jsonb j = validate_decoded (dec_PlanProposal j)"

section \<open>Round trip\<close>

definition duty_canonical :: "Duty \<Rightarrow> bool" where
  "duty_canonical d \<longleftrightarrow> duty_of_string (Duty_String d) = d"

definition kind_canonical :: "ArtifactKind \<Rightarrow> bool" where
  "kind_canonical k \<longleftrightarrow> artifact_kind_of_string (ArtifactKind_String k) = k"

definition budget64 :: "BudgetPolicy \<Rightarrow> bool" where
  "budget64 p \<longleftrightarrow> (\<forall>v \<in> set_option (MaxTokens p) \<union> set_option (MaxCostUSDTicks p). is_int64 v)"

definition limits64 :: "PlanLimits \<Rightarrow> bool" where
  "limits64 l \<longleftrightarrow> is_int64 (MaxParallelRuns l) \<and> is_int64 (MaxTaskAttempts l) \<and>
     is_int64 (MaxReworkCycles l) \<and> (\<forall>p \<in> set_option (Budget l). budget64 p)"

definition node64 :: "PlanNode \<Rightarrow> bool" where
  "node64 n \<longleftrightarrow> is_int64 (est_Tokens (pn_BudgetEstimate n)) \<and>
     is_int64 (est_CostUSDTicks (pn_BudgetEstimate n)) \<and> duty_canonical (pn_Duty n) \<and>
     (\<forall>k \<in> set (pn_ArtifactKinds n). kind_canonical k)"

definition proposal64 :: "PlanProposal \<Rightarrow> bool" where
  "proposal64 p \<longleftrightarrow> is_int64 (pp_SchemaVersion p) \<and> limits64 (pp_Limits p) \<and>
     (\<forall>n \<in> set (pp_Nodes p). node64 n)"

lemma dec_all_map: "(\<And>x. x \<in> set xs \<Longrightarrow> f (g x) = Inr x) \<Longrightarrow> dec_all f (map g xs) = Inr xs"
  by (induction xs) auto

lemma dec_strings [simp]: "dec_list dec_string (json_strings xs) = Inr xs"
  by (simp add: dec_list_def json_strings_def dec_all_map dec_string_def)

lemma dec_simple [simp]:
  "dec_string (JStr s) = Inr s" "dec_string JNull = Inr []"
  "is_int64 i \<Longrightarrow> dec_int (JNum i) = Inr i"
  "is_int64 i \<Longrightarrow> dec_int_ptr (JNum i) = Inr (Some i)" "dec_int_ptr JNull = Inr None"
  by (simp_all add: dec_string_def dec_int_def dec_int_ptr_def)

lemma dec_BudgetPolicy_json:
  "budget64 p \<Longrightarrow> dec_BudgetPolicy (BudgetPolicy_json p) = Inr (Some p)"
  by (cases "MaxTokens p"; cases "MaxCostUSDTicks p")
    (auto simp: dec_BudgetPolicy_def BudgetPolicy_json_def dec_object_def json_opt_def budget64_def
      lower_char_def)

lemma dec_PlanLimits_json: "limits64 l \<Longrightarrow> dec_PlanLimits (PlanLimits_json l) = Inr l"
proof (cases "Budget l")
  case None
  then show "limits64 l \<Longrightarrow> ?thesis"
    by (cases l) (auto simp: dec_PlanLimits_def PlanLimits_json_def dec_object_def limits64_def
        lower_char_def dec_BudgetPolicy_def)
next
  case (Some p)
  then show "limits64 l \<Longrightarrow> ?thesis"
    by (cases l) (auto simp: dec_PlanLimits_def PlanLimits_json_def dec_object_def limits64_def
        lower_char_def dec_BudgetPolicy_json)
qed

lemma dec_BudgetEstimate_json:
  "is_int64 (est_Tokens e) \<Longrightarrow> is_int64 (est_CostUSDTicks e) \<Longrightarrow>
     dec_BudgetEstimate (BudgetEstimate_json e) = Inr e"
  by (cases e) (auto simp: dec_BudgetEstimate_def BudgetEstimate_json_def dec_object_def lower_char_def)

lemma dec_Node_json:
  assumes "node64 n" shows "dec_Node (PlanProposalNode_json n) = Inr n"
proof -
  have "map artifact_kind_of_string (map ArtifactKind_String (pn_ArtifactKinds n)) = pn_ArtifactKinds n"
    using assms by (auto simp: node64_def kind_canonical_def map_idI)
  moreover have "dec_BudgetEstimate (BudgetEstimate_json (pn_BudgetEstimate n)) = Inr (pn_BudgetEstimate n)"
    using assms by (simp add: node64_def dec_BudgetEstimate_json)
  ultimately show ?thesis
    using assms
    by (cases n) (auto simp: dec_Node_def PlanProposalNode_json_def dec_object_def lower_char_def
        node64_def duty_canonical_def simp del: duty_of_string.simps artifact_kind_of_string.simps
        map_map)
qed

lemma dec_ContextRef_json:
  "dec_ContextRef (JObj ([(''kind'', JStr (cr_Kind r)), (''uri'', JStr (cr_URI r))] @
     json_omit ''content_hash'' (cr_ContentHash r))) = Inr r"
  by (cases r) (auto simp: dec_ContextRef_def dec_object_def json_omit_def lower_char_def)

lemma dec_slice_json:
  assumes "\<And>x. f (g x) = Inr x" shows "dec_slice f (json_slice g xs) = Inr xs"
  using assms by (cases xs) (simp_all add: dec_slice_def json_slice_def dec_list_def dec_all_map)

lemma dec_Input_json: "dec_Input (PlanProposalInput_json i) = Inr i"
proof -
  have "dec_slice dec_ContextRef (json_slice ContextRef_json (ContextRefs i)) = Inr (ContextRefs i)"
    by (intro dec_slice_json) (simp add: ContextRef_json_def dec_ContextRef_json [simplified])
  then show ?thesis
    by (cases i) (simp add: dec_Input_def PlanProposalInput_json_def dec_object_def lower_char_def)
qed

lemma dec_PlanProposal_json:
  assumes "proposal64 p" shows "dec_PlanProposal (PlanProposal_json p) = Inr p"
proof -
  have "dec_list dec_Node (JArr (map PlanProposalNode_json (pp_Nodes p))) = Inr (pp_Nodes p)"
    using assms unfolding dec_list_def
    by (simp add: dec_all_map dec_Node_json proposal64_def)
  moreover have "dec_PlanLimits (PlanLimits_json (pp_Limits p)) = Inr (pp_Limits p)"
    using assms by (simp add: dec_PlanLimits_json proposal64_def)
  ultimately show ?thesis
    using assms
    by (cases p) (simp add: dec_PlanProposal_def PlanProposal_json_def dec_object_def lower_char_def
        dec_Input_json proposal64_def)
qed

text \<open>The proposals all of whose texts are UTF-8, which \<open>json.Marshal\<close> writes unchanged.\<close>

definition input_utf8 :: "PlanProposalInput \<Rightarrow> bool" where
  "input_utf8 i \<longleftrightarrow> ValidString (Objective i) \<and> list_all ValidString (DeliveryCriteria i) \<and>
     list_all (\<lambda>r. ValidString (cr_Kind r) \<and> ValidString (cr_URI r) \<and> ValidString (cr_ContentHash r))
       (slice_items (ContextRefs i))"

definition node_utf8 :: "PlanNode \<Rightarrow> bool" where
  "node_utf8 n \<longleftrightarrow> ValidString (pn_Key n) \<and> ValidString (pn_Title n) \<and> ValidString (pn_Description n) \<and>
     ValidString (Duty_String (pn_Duty n)) \<and> list_all ValidString (pn_AcceptanceCriteria n) \<and>
     list_all (\<lambda>k. ValidString (ArtifactKind_String k)) (pn_ArtifactKinds n) \<and>
     list_all ValidString (pn_DependsOn n)"

definition proposal_utf8 :: "PlanProposal \<Rightarrow> bool" where
  "proposal_utf8 p \<longleftrightarrow> ValidString (pp_MissionID p) \<and> ValidString (pp_ProposalKey p) \<and>
     input_utf8 (pp_Input p) \<and> (\<forall>b \<in> set_option (Budget (pp_Limits p)). ValidString (Gate b)) \<and>
     list_all node_utf8 (pp_Nodes p)"

lemma member_names_utf8 [simp]:
  "ValidString ''max_tokens''" "ValidString ''max_cost_usd_ticks''" "ValidString ''gate''"
  "ValidString ''max_parallel_runs''" "ValidString ''max_task_attempts''"
  "ValidString ''max_rework_cycles''" "ValidString ''budget''" "ValidString ''tokens''"
  "ValidString ''cost_usd_ticks''" "ValidString ''key''" "ValidString ''title''"
  "ValidString ''description''" "ValidString ''duty''" "ValidString ''acceptance_criteria''"
  "ValidString ''artifact_kinds''" "ValidString ''depends_on''" "ValidString ''budget_estimate''"
  "ValidString ''kind''" "ValidString ''uri''" "ValidString ''content_hash''" "ValidString ''objective''"
  "ValidString ''context_refs''" "ValidString ''delivery_criteria''" "ValidString ''schema_version''"
  "ValidString ''mission_id''" "ValidString ''proposal_key''" "ValidString ''input''"
  "ValidString ''limits''" "ValidString ''nodes''"
  by code_simp+

lemma plain_strings [simp]: "0 < d \<Longrightarrow> json_plain d (json_strings xs) \<longleftrightarrow> list_all ValidString xs"
  by (auto simp: json_strings_def list_all_iff)

lemma BudgetPolicy_plain: "ValidString (Gate b) \<Longrightarrow> json_plain 1 (BudgetPolicy_json b)"
  by (auto simp: BudgetPolicy_json_def json_opt_def split: option.splits)

lemma PlanLimits_plain:
  "\<forall>b \<in> set_option (Budget l). ValidString (Gate b) \<Longrightarrow> json_plain 2 (PlanLimits_json l)"
  using BudgetPolicy_plain
  by (auto simp: PlanLimits_json_def split: option.splits)

lemma Node_plain: "node_utf8 n \<Longrightarrow> json_plain 2 (PlanProposalNode_json n)"
  by (simp add: PlanProposalNode_json_def BudgetEstimate_json_def node_utf8_def list_all_length)

lemma Input_plain: "input_utf8 i \<Longrightarrow> json_plain 3 (PlanProposalInput_json i)"
  by (auto simp: PlanProposalInput_json_def ContextRef_json_def json_slice_def slice_items_def json_omit_def
      input_utf8_def list_all_iff split: option.splits)

lemma PlanProposal_plain:
  assumes "proposal_utf8 p" shows "json_plain maxNestingDepth (PlanProposal_json p)"
proof -
  have "json_plain 3 (PlanLimits_json (pp_Limits p))" "json_plain 3 (PlanProposalInput_json (pp_Input p))"
    using assms by (auto simp: proposal_utf8_def intro: json_plain_mono [OF PlanLimits_plain] Input_plain)
  moreover have "\<forall>n \<in> set (pp_Nodes p). json_plain 2 (PlanProposalNode_json n)"
    using assms by (auto simp: proposal_utf8_def list_all_iff intro: Node_plain)
  ultimately have "json_plain 4 (PlanProposal_json p)"
    using assms by (auto simp: PlanProposal_json_def proposal_utf8_def)
  then show ?thesis by (rule json_plain_mono) (simp add: maxNestingDepth_def)
qed

lemma DecodePlanProposal_Encode:
  assumes "proposal64 p" and "json_plain maxNestingDepth (PlanProposal_json p)"
  shows "DecodePlanProposal (EncodePlanProposal p) = Inr p"
  by (simp add: DecodePlanProposal_def EncodePlanProposal_def json_read_marshal [OF assms(2)]
      dec_PlanProposal_json [OF assms(1)])

section \<open>Accepted proposals\<close>

lemma node_duty_errors_Nil: "node_duty_errors i ns = [] \<longleftrightarrow> (\<forall>n \<in> set ns. TaskNodeDuty (pn_Duty n))"
  by (induction i ns rule: node_duty_errors.induct) (auto simp: TaskNodeDuty_def)

text \<open>The only errors of \<open>ValidatePlan\<close> that \<open>ValidatePlanProposal\<close> drops are those of a node whose duty
  it has already reported.\<close>

definition only_duty_errors :: "ValidationError list \<Rightarrow> bool" where
  "only_duty_errors es \<longleftrightarrow> (\<forall>e \<in> set es. Code e = ''invalid_node_duty'')"

lemma filter_duty_Nil: "filter (\<lambda>e. Code e \<noteq> ''invalid_node_duty'') es = [] \<longleftrightarrow> only_duty_errors es"
  by (auto simp: filter_empty_conv only_duty_errors_def)

definition no_duty_code :: "ValidationError list \<Rightarrow> bool" where
  "no_duty_code es \<longleftrightarrow> (\<forall>e \<in> set es. Code e \<noteq> ''invalid_node_duty'')"

lemma no_duty_code_simps [simp]:
  "no_duty_code []"
  "no_duty_code (e # es) \<longleftrightarrow> Code e \<noteq> ''invalid_node_duty'' \<and> no_duty_code es"
  "no_duty_code (es @ es') \<longleftrightarrow> no_duty_code es \<and> no_duty_code es'"
  by (auto simp: no_duty_code_def)

lemma no_duty_code_when [simp]:
  "no_duty_code (err_when b p c m) \<longleftrightarrow> b \<longrightarrow> c \<noteq> ''invalid_node_duty''"
  by (simp add: err_when_def verr_def)

lemma Code_verr [simp]: "Code (verr p c m) = c"
  by (simp add: verr_def)

lemma no_duty_budget [simp]: "no_duty_code (validateBudgetPolicy b)"
  by (simp add: validateBudgetPolicy_def split: option.split)

lemma no_duty_estimate [simp]: "no_duty_code (validateNodeBudgetEstimate n i b)"
  by (simp add: validateNodeBudgetEstimate_def Let_def split: option.split)

lemma no_duty_criteria [simp]: "no_duty_code (criteria_errors p i cs)"
  by (induction p i cs rule: criteria_errors.induct) auto

lemma no_duty_kinds [simp]: "no_duty_code (kind_errors p i seen ks)"
  by (induction p i seen ks rule: kind_errors.induct) auto

lemma no_duty_deps [simp]: "no_duty_code (dependency_errors p k i seen ds)"
  by (induction p k i seen ds rule: dependency_errors.induct) auto

lemma no_duty_key [simp]: "no_duty_code (node_key_errors p m k)"
  by (simp add: node_key_errors_def)

lemma no_duty_limits [simp]: "no_duty_code (validatePlanLimits l h)"
  by (simp add: validatePlanLimits_def check_limit_def)

lemma no_duty_scan_node:
  "TaskNodeDuty (pn_Duty n) \<Longrightarrow> no_duty_code (ps_errs (scan_node b i n st)) \<longleftrightarrow> no_duty_code (ps_errs st)"
  by (auto simp: scan_node_def Let_def)

lemma no_duty_scan:
  "\<forall>n \<in> set ns. TaskNodeDuty (pn_Duty n) \<Longrightarrow>
     no_duty_code (ps_errs (scan_nodes b i ns st)) \<longleftrightarrow> no_duty_code (ps_errs st)"
  by (induction b i ns st rule: scan_nodes.induct) (auto simp: no_duty_scan_node)

lemma no_duty_link_deps:
  "no_duty_code (ls_errs (link_dependencies m i k j ds st)) \<longleftrightarrow> no_duty_code (ls_errs st)"
  by (induction m i k j ds st rule: link_dependencies.induct) auto

lemma no_duty_link: "no_duty_code (ls_errs (link_nodes m i ns st)) \<longleftrightarrow> no_duty_code (ls_errs st)"
  by (induction m i ns st rule: link_nodes.induct) (auto simp: no_duty_link_deps)

lemma no_duty_integrators [simp]: "no_duty_code (integrator_errors m i ns)"
  by (induction m i ns rule: integrator_errors.induct) auto

lemma no_duty_topology [simp]: "no_duty_code (validatePlanTopology m d)"
  by (simp add: validatePlanTopology_def Let_def)

lemma no_duty_ValidatePlan:
  assumes "\<forall>n \<in> set (plan_Nodes plan). TaskNodeDuty (pn_Duty n)"
  shows "no_duty_code (ValidatePlan plan mission hard)"
  using assms by (auto simp: ValidatePlan_def Let_def no_duty_scan no_duty_link)

lemma ValidatePlanProposal_accepted:
  "ValidatePlanProposal p mission hard = [] \<longleftrightarrow>
     pp_SchemaVersion p = PlanProposalSchemaVersion \<and> ValidatePlanProposalInput (pp_Input p) = [] \<and>
     ValidatePlan (PlanFromProposal p) mission hard = []"
proof -
  let ?es = "ValidatePlan (PlanFromProposal p) mission hard"
  have "?es = []" if "\<forall>n \<in> set (pp_Nodes p). TaskNodeDuty (pn_Duty n)" "only_duty_errors ?es"
    using no_duty_ValidatePlan [of "PlanFromProposal p" mission hard] that
    by (cases ?es) (auto simp: PlanFromProposal_def only_duty_errors_def)
  moreover have "\<forall>n \<in> set (pp_Nodes p). TaskNodeDuty (pn_Duty n)" if "?es = []"
    using that unfolding ValidatePlan_Nil_iff plan_ok_def
    by (auto simp: PlanFromProposal_def node_ok_def TaskNodeDuty_def)
  moreover have "only_duty_errors []" by (simp add: only_duty_errors_def)
  ultimately show ?thesis
    by (auto simp: ValidatePlanProposal_def node_duty_errors_Nil filter_duty_Nil)
qed

end
