(* ===== verification/Mailbox.thy ===== *)
theory Mailbox
  imports RoutingRepo PlanProposal
begin

text \<open>
  \<open>mailbox.go\<close>, \<open>repository_mailbox.go\<close> (reading rows) and \<open>mailbox_context.go\<close>: the contract of mailbox
  messages, and the context a new run is given: the oldest pending messages for its agent, at most
  sixteen of them and at most 64 KiB of payload, frozen into the run's input and consumed in the same
  transaction.  A \<open>json.RawMessage\<close> is its length in bytes with the document \<open>encoding/json\<close> reads from
  it (\<open>None\<close> when it is not one JSON value) and the bytes of the document encoded again; the members of an object that was decoded into a map and
  encoded again are those \<open>canonical_members\<close> gives.
\<close>

section \<open>JSON objects as maps\<close>

record RawJSON =
  raw_size :: nat
  raw_doc :: "json option"
  raw_compact :: nat

text \<open>The last of repeated members wins; \<open>json.Marshal\<close> writes a map in the order of its keys.\<close>

definition canonical_members :: "(string \<times> json) list \<Rightarrow> (string \<times> json) list" where
  "canonical_members ms = sort_key fst (AList.clearjunk (rev ms))"

definition decode_object :: "json option \<Rightarrow> (string \<times> json) list option" where
  "decode_object doc = (case doc of Some (JObj ms) \<Rightarrow> Some (canonical_members ms) | _ \<Rightarrow> None)"

lemma canonical_members_set: "set (canonical_members ms) = set (AList.clearjunk (rev ms))"
  by (simp add: canonical_members_def)

lemma canonical_members_distinct: "distinct (map fst (canonical_members ms))"
proof -
  have "mset (map fst (canonical_members ms)) = mset (map fst (AList.clearjunk (rev ms)))"
    by (simp add: canonical_members_def)
  then show ?thesis using distinct_clearjunk mset_eq_imp_distinct_iff by metis
qed

lemma map_of_canonical: "map_of (canonical_members ms) = map_of (rev ms)"
proof -
  have "distinct (map fst (AList.clearjunk (rev ms)))" by (rule distinct_clearjunk)
  then have "map_of (canonical_members ms) = map_of (AList.clearjunk (rev ms))"
    using canonical_members_distinct [of ms]
    by (metis canonical_members_set map_of_inject_set)
  then show ?thesis by (simp add: map_of_clearjunk)
qed

section \<open>The contract of a message\<close>

definition MailboxSchemaVersion :: int where "MailboxSchemaVersion = 1"
definition MailboxPayloadVersion :: int where "MailboxPayloadVersion = 1"
definition MailboxMaxPayloadBytes :: nat where "MailboxMaxPayloadBytes = 16 * 1024"
definition MailboxMaxPayloadFields :: nat where "MailboxMaxPayloadFields = 64"
definition MailboxMaxDedupeBytes :: nat where "MailboxMaxDedupeBytes = 128"
definition MailboxMaxHops :: int where "MailboxMaxHops = 8"
definition MailboxMaxTTL :: int where "MailboxMaxTTL = 7 * 24 * 3600 * 1000000000"

definition MailboxMessageType_Valid :: "string \<Rightarrow> bool" where
  "MailboxMessageType_Valid value \<longleftrightarrow>
     value \<in> {''context_request'', ''context_response'', ''handoff'', ''artifact_notice'',
              ''review_feedback'', ''blocker'', ''decision_request''}"

definition MailboxMessageStatus_Valid :: "string \<Rightarrow> bool" where
  "MailboxMessageStatus_Valid value \<longleftrightarrow>
     value \<in> {''pending'', ''consumed'', ''expired'', ''cancelled''}"

record MailboxActorRef =
  act_Type :: string
  act_ID :: string

record MailboxMessageV1 =
  mm_SchemaVersion :: int
  mm_ID :: string
  mm_WorkspaceID :: string
  mm_MissionID :: string
  mm_TaskNodeID :: string
  mm_RunID :: string
  mm_ArtifactID :: string
  mm_ReplyToMessageID :: string
  mm_Type :: string
  mm_Sender :: MailboxActorRef
  mm_Recipient :: MailboxActorRef
  mm_Status :: string
  mm_DedupeKey :: string
  mm_CreatedAt :: time
  mm_ExpiresAt :: time
  mm_Hops :: int
  mm_PayloadVersion :: int
  mm_Payload :: RawJSON

definition validateMailboxActor ::
    "env \<Rightarrow> string \<Rightarrow> MailboxActorRef \<Rightarrow> bool \<Rightarrow> ValidationError list" where
  "validateMailboxActor \<epsilon> path actor sender =
     (if act_Type actor = ''member'' \<or> act_Type actor = ''agent''
      then err_when (env_uuid_parse \<epsilon> (act_ID actor) = None) path ''invalid_actor_id''
             (path @ '' member/agent id must be a UUID'')
      else if act_Type actor = ''orchestrator''
      then err_when (\<not> sender) path ''invalid_recipient_type'' ''recipient must be a member or agent'' @
           err_when (act_ID actor \<noteq> []) path ''unexpected_actor_id''
             ''orchestrator actor must not carry an id''
      else [verr path ''invalid_actor_type'' (path @ '' actor type is not supported'')])"

definition mailbox_uuid_field :: "env \<Rightarrow> string \<times> string \<times> bool \<Rightarrow> ValidationError list" where
  "mailbox_uuid_field \<epsilon> field =
     (case field of (path, value, required) \<Rightarrow>
        if value = [] then err_when required path ''missing_uuid'' (path @ '' is required'')
        else err_when (env_uuid_parse \<epsilon> value = None) path ''invalid_uuid'' (path @ '' must be a UUID''))"

definition mailbox_payload_errors :: "RawJSON \<Rightarrow> ValidationError list" where
  "mailbox_payload_errors payload =
     (if raw_size payload = 0 \<or> raw_size payload > MailboxMaxPayloadBytes
      then [verr ''payload'' ''invalid_payload_size''
              ''payload must contain one JSON object of at most 16384 bytes'']
      else case decode_object (raw_doc payload) of
        None \<Rightarrow> [verr ''payload'' ''invalid_payload'' ''payload must contain exactly one JSON object'']
      | Some members \<Rightarrow>
          err_when (length members > MailboxMaxPayloadFields) ''payload'' ''too_many_payload_fields''
            ''payload may contain at most 64 top-level fields'')"

definition mailbox_expiry_errors :: "MailboxMessageV1 \<Rightarrow> ValidationError list" where
  "mailbox_expiry_errors message =
     (if mm_ExpiresAt message = zero_time
      then [verr ''expires_at'' ''missing_expires_at'' ''expires_at is required'']
      else if mm_CreatedAt message \<noteq> zero_time
      then let ttl = mm_ExpiresAt message - mm_CreatedAt message in
           err_when (ttl \<le> 0 \<or> ttl > MailboxMaxTTL) ''expires_at'' ''invalid_ttl''
             ''TTL must be positive and at most 168h0m0s''
      else [])"

definition ValidateMailboxMessageV1 :: "env \<Rightarrow> MailboxMessageV1 \<Rightarrow> ValidationError list" where
  "ValidateMailboxMessageV1 \<epsilon> message =
     err_when (mm_SchemaVersion message \<noteq> MailboxSchemaVersion) ''schema_version''
       ''unsupported_schema_version'' ''schema_version must be 1'' @
     concat (map (mailbox_uuid_field \<epsilon>)
       [(''id'', mm_ID message, True), (''workspace_id'', mm_WorkspaceID message, True),
        (''mission_id'', mm_MissionID message, True), (''task_node_id'', mm_TaskNodeID message, False),
        (''run_id'', mm_RunID message, False), (''artifact_id'', mm_ArtifactID message, False),
        (''reply_to_message_id'', mm_ReplyToMessageID message, False)]) @
     err_when (\<not> MailboxMessageType_Valid (mm_Type message)) ''type'' ''unsupported_message_type''
       (''message type '' @ go_quote (mm_Type message) @ '' is not supported'') @
     err_when (\<not> MailboxMessageStatus_Valid (mm_Status message)) ''status'' ''unsupported_message_status''
       (''message status '' @ go_quote (mm_Status message) @ '' is not supported'') @
     validateMailboxActor \<epsilon> ''sender'' (mm_Sender message) True @
     validateMailboxActor \<epsilon> ''recipient'' (mm_Recipient message) False @
     err_when (TrimSpace (mm_DedupeKey message) = [] \<or>
         length (mm_DedupeKey message) > MailboxMaxDedupeBytes \<or>
         CHR 0x0D \<in> set (mm_DedupeKey message) \<or> CHR 0x0A \<in> set (mm_DedupeKey message))
       ''dedupe_key'' ''invalid_dedupe_key'' ''dedupe_key must contain 1 to 128 single-line bytes'' @
     err_when (mm_CreatedAt message = zero_time) ''created_at'' ''missing_created_at''
       ''created_at is required'' @
     mailbox_expiry_errors message @
     err_when (mm_Hops message < 0 \<or> mm_Hops message > MailboxMaxHops) ''hops'' ''invalid_hops''
       ''hops must be between 0 and 8'' @
     err_when (mm_PayloadVersion message \<noteq> MailboxPayloadVersion) ''payload_version''
       ''unsupported_payload_version'' ''payload_version must be 1'' @
     mailbox_payload_errors (mm_Payload message) @
     (if mm_Type message = ''context_response''
      then err_when (mm_ReplyToMessageID message = []) ''reply_to_message_id''
             ''missing_context_request'' ''context_response must reference its request'' @
           err_when (mm_Hops message = 0) ''hops'' ''missing_response_hop''
             ''context_response hops must be greater than zero''
      else err_when (mm_ReplyToMessageID message \<noteq> []) ''reply_to_message_id'' ''unexpected_reply''
             ''only context_response may reference another mailbox message'') @
     err_when ((mm_Type message = ''artifact_notice'' \<or> mm_Type message = ''review_feedback'') \<and>
         mm_ArtifactID message = []) ''artifact_id'' ''missing_artifact''
       (mm_Type message @ '' must reference an artifact'')"

section \<open>Stored messages\<close>

record StoredMailboxMessage =
  stm_Message :: MailboxMessageV1
  stm_Revision :: int
  stm_StatusChangedAt :: time

definition mailbox_of_row :: "env \<Rightarrow> MailboxRow \<Rightarrow> MailboxMessageV1" where
  "mailbox_of_row \<epsilon> row =
     \<lparr>mm_SchemaVersion = mb_SchemaVersion row, mm_ID = uuidText (mb_ID row),
      mm_WorkspaceID = uuidText (mb_WorkspaceID row), mm_MissionID = uuidText (mb_MissionID row),
      mm_TaskNodeID = optionalUUIDText (mb_TaskNodeID row), mm_RunID = optionalUUIDText (mb_RunID row),
      mm_ArtifactID = optionalUUIDText (mb_ArtifactID row),
      mm_ReplyToMessageID = optionalUUIDText (mb_ReplyToMessageID row), mm_Type = mb_Type row,
      mm_Sender = \<lparr>act_Type = mb_SenderType row, act_ID = optionalUUIDText (mb_SenderID row)\<rparr>,
      mm_Recipient = \<lparr>act_Type = mb_RecipientType row, act_ID = uuidText (mb_RecipientID row)\<rparr>,
      mm_Status = mb_Status row, mm_DedupeKey = mb_DedupeKey row, mm_CreatedAt = mb_CreatedAt row,
      mm_ExpiresAt = mb_ExpiresAt row, mm_Hops = mb_Hops row,
      mm_PayloadVersion = mb_PayloadVersion row,
      mm_Payload = \<lparr>raw_size = env_jsonb_size \<epsilon> (mb_Payload row), raw_doc = Some (mb_Payload row),
        raw_compact = length (json_marshal (mb_Payload row))\<rparr>\<rparr>"

definition mapStoredMailboxMessage :: "env \<Rightarrow> MailboxRow \<Rightarrow> error + StoredMailboxMessage" where
  "mapStoredMailboxMessage \<epsilon> row =
     (let message = mailbox_of_row \<epsilon> row in
      if ValidateMailboxMessageV1 \<epsilon> message \<noteq> []
      then Inl (Errorf ''map mailbox message: persisted row violates v1 contract'')
      else Inr \<lparr>stm_Message = message, stm_Revision = mb_Revision row,
                stm_StatusChangedAt = mb_StatusChangedAt row\<rparr>)"

definition canonicalMailboxPayload :: "RawJSON \<Rightarrow> error + json" where
  "canonicalMailboxPayload payload =
     (case decode_object (raw_doc payload) of
        None \<Rightarrow> Inl (Errorf ''canonical mailbox payload: expected one JSON object'')
      | Some members \<Rightarrow> Inr (JObj members))"

section \<open>The context of a run\<close>

definition MailboxRunContextSchemaVersion :: int where "MailboxRunContextSchemaVersion = 1"
definition MailboxRunContextMaxMessages :: nat where "MailboxRunContextMaxMessages = 16"
definition MailboxRunContextMaxPayload :: nat where "MailboxRunContextMaxPayload = 64 * 1024"

record MailboxRunMessageV1 =
  mr_MessageID :: string
  mr_MessageRevision :: int
  mr_Type :: string
  mr_Sender :: MailboxActorRef
  mr_TaskNodeID :: string
  mr_RunID :: string
  mr_ArtifactID :: string
  mr_ReplyToMessageID :: string
  mr_Hops :: int
  mr_CreatedAt :: time
  mr_ExpiresAt :: time
  mr_PayloadVersion :: int
  mr_Payload :: json
  mr_ContentHash :: string

record MailboxRunContextV1 =
  mc_SchemaVersion :: int
  mc_Recipient :: MailboxActorRef
  mc_Messages :: "MailboxRunMessageV1 list"
  mc_ContentHash :: string

definition empty_mailbox_context :: MailboxRunContextV1 where
  "empty_mailbox_context =
     \<lparr>mc_SchemaVersion = 0, mc_Recipient = \<lparr>act_Type = [], act_ID = []\<rparr>, mc_Messages = [],
      mc_ContentHash = []\<rparr>"

definition MailboxActorRef_json :: "MailboxActorRef \<Rightarrow> json" where
  "MailboxActorRef_json a = JObj ([(''type'', JStr (act_Type a))] @ json_omit ''id'' (act_ID a))"

definition time_json :: "time \<Rightarrow> error + json" where
  "time_json t =
     (case time_text t of
        None \<Rightarrow> Inl (Errorf ''Time.MarshalJSON: year outside of range [0,9999]'')
      | Some s \<Rightarrow> Inr (JStr s))"

definition MailboxRunMessageV1_json :: "MailboxRunMessageV1 \<Rightarrow> error + json" where
  "MailboxRunMessageV1_json m =
     bind_res (time_json (mr_CreatedAt m)) (\<lambda>created.
     bind_res (time_json (mr_ExpiresAt m)) (\<lambda>expires.
       Inr (JObj
         ([(''message_id'', JStr (mr_MessageID m)), (''message_revision'', JNum (mr_MessageRevision m)),
           (''type'', JStr (mr_Type m)), (''sender'', MailboxActorRef_json (mr_Sender m))] @
          json_omit ''task_node_id'' (mr_TaskNodeID m) @ json_omit ''run_id'' (mr_RunID m) @
          json_omit ''artifact_id'' (mr_ArtifactID m) @
          json_omit ''reply_to_message_id'' (mr_ReplyToMessageID m) @
          [(''hops'', JNum (mr_Hops m)), (''created_at'', created), (''expires_at'', expires),
           (''payload_version'', JNum (mr_PayloadVersion m)), (''payload'', mr_Payload m)] @
          json_omit ''content_hash'' (mr_ContentHash m)))))"

definition MailboxRunContextV1_json :: "MailboxRunContextV1 \<Rightarrow> error + json" where
  "MailboxRunContextV1_json c =
     bind_res (dec_all MailboxRunMessageV1_json (mc_Messages c)) (\<lambda>messages.
       Inr (JObj
         ([(''schema_version'', JNum (mc_SchemaVersion c)),
           (''recipient'', MailboxActorRef_json (mc_Recipient c)), (''messages'', JArr messages)] @
          json_omit ''content_hash'' (mc_ContentHash c))))"

definition hashMailboxJSON :: "error + json \<Rightarrow> error + string" where
  "hashMailboxJSON encoded =
     (case encoded of
        Inl e \<Rightarrow> Inl (Wrapped ''hash mailbox JSON'' e)
      | Inr j \<Rightarrow> Inr (hex_encode (sha256 (json_marshal j))))"

text \<open>The loop over the rows, with the bytes taken so far; it stops at the first row that does not fit.\<close>

definition mailbox_run_message :: "StoredMailboxMessage \<Rightarrow> json \<Rightarrow> MailboxRunMessageV1" where
  "mailbox_run_message stored payload =
     (let m = stm_Message stored in
      \<lparr>mr_MessageID = mm_ID m, mr_MessageRevision = stm_Revision stored, mr_Type = mm_Type m,
       mr_Sender = mm_Sender m, mr_TaskNodeID = mm_TaskNodeID m, mr_RunID = mm_RunID m,
       mr_ArtifactID = mm_ArtifactID m, mr_ReplyToMessageID = mm_ReplyToMessageID m,
       mr_Hops = mm_Hops m, mr_CreatedAt = mm_CreatedAt m, mr_ExpiresAt = mm_ExpiresAt m,
       mr_PayloadVersion = mm_PayloadVersion m, mr_Payload = payload, mr_ContentHash = []\<rparr>)"

definition payload_bytes :: "json \<Rightarrow> nat" where
  "payload_bytes j = length (json_marshal j)"

fun mailbox_select ::
    "env \<Rightarrow> MailboxRow list \<Rightarrow> nat \<Rightarrow> error + (MailboxRow \<times> MailboxRunMessageV1) list" where
  "mailbox_select \<epsilon> [] totalPayload = Inr []"
| "mailbox_select \<epsilon> (row # rows) totalPayload =
     bind_res (mapStoredMailboxMessage \<epsilon> row) (\<lambda>stored.
     bind_res (canonicalMailboxPayload (mm_Payload (stm_Message stored))) (\<lambda>payload.
     if totalPayload + payload_bytes payload > MailboxRunContextMaxPayload then Inr []
     else
       let message = mailbox_run_message stored payload in
       bind_res (hashMailboxJSON (MailboxRunMessageV1_json message)) (\<lambda>contentHash.
       bind_res (mailbox_select \<epsilon> rows (totalPayload + payload_bytes payload)) (\<lambda>rest.
         Inr ((row, message\<lparr>mr_ContentHash := contentHash\<rparr>) # rest)))))"

definition buildMailboxRunContext ::
    "env \<Rightarrow> uuid \<Rightarrow> MailboxRow list \<Rightarrow> error + MailboxRunContextV1 \<times> MailboxRow list" where
  "buildMailboxRunContext \<epsilon> recipientAgentID rows =
     bind_res (mailbox_select \<epsilon> rows 0) (\<lambda>selected.
     if selected = [] then Inr (empty_mailbox_context, [])
     else
       let result = \<lparr>mc_SchemaVersion = MailboxRunContextSchemaVersion,
             mc_Recipient = \<lparr>act_Type = ''agent'', act_ID = uuidText recipientAgentID\<rparr>,
             mc_Messages = map snd selected, mc_ContentHash = []\<rparr> in
       bind_res (hashMailboxJSON (MailboxRunContextV1_json result)) (\<lambda>contentHash.
         Inr (result\<lparr>mc_ContentHash := contentHash\<rparr>, map fst selected)))"

definition mailbox_pending_for ::
    "uuid \<Rightarrow> uuid \<Rightarrow> uuid \<Rightarrow> uuid \<Rightarrow> time \<Rightarrow> MailboxRow \<Rightarrow> bool" where
  "mailbox_pending_for ws mid taskNodeID recipient observedAt r \<longleftrightarrow>
     sql_eq (mb_WorkspaceID r) ws \<and> sql_eq (mb_MissionID r) mid \<and> mb_RecipientType r = ''agent'' \<and>
     sql_eq (mb_RecipientID r) recipient \<and> mb_Status r = ''pending'' \<and>
     mb_CreatedAt r \<le> observedAt \<and> mb_ExpiresAt r > observedAt \<and>
     (mb_TaskNodeID r = None \<or> sql_eq (mb_TaskNodeID r) taskNodeID)"

definition mailbox_order :: "MailboxRow \<Rightarrow> time \<times> (bool \<times> string)" where
  "mailbox_order r = (mb_CreatedAt r, uuid_key (mb_ID r))"

definition ListPendingMailboxMessagesForRun ::
    "uuid \<Rightarrow> uuid \<Rightarrow> uuid \<Rightarrow> time \<Rightarrow> uuid \<Rightarrow> nat \<Rightarrow> MailboxRow list tx" where
  "ListPendingMailboxMessagesForRun ws mid recipient observedAt taskNodeID pageSize =
     tx_query (\<lambda>s. take pageSize (sort_key mailbox_order
       (filter (mailbox_pending_for ws mid taskNodeID recipient observedAt) (db_mailbox s))))"

definition selectMailboxRunContext ::
    "env \<Rightarrow> uuid \<Rightarrow> uuid \<Rightarrow> uuid \<Rightarrow> uuid \<Rightarrow> time \<Rightarrow> (MailboxRunContextV1 \<times> MailboxRow list) tx" where
  "selectMailboxRunContext \<epsilon> workspaceID missionID taskNodeID recipientAgentID observedAt =
     tx_bind (tx_wrap ''select mailbox run context'' (ListPendingMailboxMessagesForRun workspaceID missionID
       recipientAgentID observedAt taskNodeID MailboxRunContextMaxMessages)) (\<lambda>rows.
     tx_lift (buildMailboxRunContext \<epsilon> recipientAgentID rows))"

definition attachMailboxRunContext :: "json \<Rightarrow> MailboxRunContextV1 \<Rightarrow> error + json" where
  "attachMailboxRunContext input mailbox =
     (if mc_Messages mailbox = [] then Inr input
      else case decode_object (Some input) of
        None \<Rightarrow> Inl (Errorf ''attach mailbox run context: run input must be one JSON object'')
      | Some members \<Rightarrow>
          if map_of members ''mailbox_context'' \<noteq> None
          then Inl (Errorf ''attach mailbox run context: mailbox_context is already frozen'')
          else case MailboxRunContextV1_json mailbox of
            Inl e \<Rightarrow> Inl (Wrapped ''attach mailbox run context'' e)
          | Inr encoded \<Rightarrow> Inr (JObj (canonical_members (members @ [(''mailbox_context'', encoded)]))))"

section \<open>Delivery\<close>

definition TransitionMailboxMessageStatus ::
    "string \<Rightarrow> time \<Rightarrow> uuid \<Rightarrow> uuid \<Rightarrow> uuid \<Rightarrow> int \<Rightarrow> MailboxRow tx" where
  "TransitionMailboxMessageStatus target observedAt messageID ws mid expected =
     tx_update db_mailbox (\<lambda>rows s. s\<lparr>db_mailbox := rows\<rparr>)
       (\<lambda>r. sql_eq (mb_ID r) messageID \<and> sql_eq (mb_WorkspaceID r) ws \<and> sql_eq (mb_MissionID r) mid \<and>
          mb_Status r = ''pending'' \<and> mb_Revision r = expected)
       (\<lambda>r. r\<lparr>mb_Status := target, mb_Revision := mb_Revision r + 1, mb_StatusChangedAt := observedAt\<rparr>)"

definition createMailboxDeliveryActivity ::
    "env \<Rightarrow> MissionRow \<Rightarrow> RunRow \<Rightarrow> MailboxRow \<Rightarrow> uuid \<Rightarrow> uuid \<Rightarrow> json \<Rightarrow> ActivityRow tx" where
  "createMailboxDeliveryActivity \<epsilon> mission run message recipientAgentID correlationID payload =
     tx_bind (allocateActivitySequence \<epsilon> (m_WorkspaceID mission) (m_IssueID mission)) (\<lambda>seq.
     tx_wrap ''consume mailbox run context: create activity'' (CreateOrchestrationActivity \<epsilon>
       (activity_row
         \<lparr>as_WorkspaceID = m_WorkspaceID mission, as_MissionID = m_IssueID mission,
          as_TaskNodeID = mb_TaskNodeID message, as_RunID = r_ID run,
          as_Type = ''mailbox.message_consumed'', as_ActorType = ''agent'', as_ActorID = recipientAgentID,
          as_SubjectType = ''mailbox_message'', as_SubjectID = mb_ID message,
          as_CausationID = r_ID run, as_CorrelationID = correlationID, as_Payload = payload,
          as_DedupeKey = ''mailbox:'' @ uuidText (mb_ID message) @ '':consumed:run:'' @ uuidText (r_ID run)\<rparr>
         seq)))"

definition consume_message ::
    "env \<Rightarrow> MissionRow \<Rightarrow> RunRow \<Rightarrow> uuid \<Rightarrow> MailboxRunContextV1 \<Rightarrow> time \<Rightarrow> uuid \<Rightarrow>
     MailboxRow \<times> MailboxRunMessageV1 \<Rightarrow> ActivityRow tx" where
  "consume_message \<epsilon> mission run recipientAgentID contextSnapshot observedAt correlationID item =
     (case item of (row, message) \<Rightarrow>
        tx_bind (tx_wrap (''consume mailbox run context: transition message '' @ uuidText (mb_ID row))
          (TransitionMailboxMessageStatus ''consumed'' observedAt (mb_ID row) (m_WorkspaceID mission)
             (m_IssueID mission) (mb_Revision row))) (\<lambda>updated.
        createMailboxDeliveryActivity \<epsilon> mission run row recipientAgentID correlationID
          (JObj [(''context_content_hash'', JStr (mc_ContentHash contextSnapshot)),
                 (''delivery_run_id'', JStr (uuidText (r_ID run))),
                 (''from_status'', JStr (mb_Status row)),
                 (''message_content_hash'', JStr (mr_ContentHash message)),
                 (''message_id'', JStr (mr_MessageID message)),
                 (''message_type'', JStr (mr_Type message)),
                 (''to_status'', JStr (mb_Status updated))])))"

definition consumeMailboxRunContext ::
    "env \<Rightarrow> MissionRow \<Rightarrow> RunRow \<Rightarrow> uuid \<Rightarrow> MailboxRunContextV1 \<Rightarrow> MailboxRow list \<Rightarrow> time \<Rightarrow> uuid \<Rightarrow>
     ActivityRow list tx" where
  "consumeMailboxRunContext \<epsilon> mission run recipientAgentID contextSnapshot rows observedAt correlationID =
     (if rows = [] then tx_return []
      else tx_bind (tx_guard (length rows = length (mc_Messages contextSnapshot))
          (Errorf ''consume mailbox run context: row/snapshot count mismatch'')) (\<lambda>_.
        tx_map (consume_message \<epsilon> mission run recipientAgentID contextSnapshot observedAt correlationID)
          (zip rows (mc_Messages contextSnapshot))))"

section \<open>The bounds of a context\<close>

lemma mailbox_select_prefix:
  "mailbox_select \<epsilon> rows n = Inr sel \<Longrightarrow> prefix (map fst sel) rows"
  by (induction \<epsilon> rows n arbitrary: sel rule: mailbox_select.induct)
    (auto simp: Let_def split: if_splits)

lemma mailbox_select_bytes:
  "mailbox_select \<epsilon> rows n = Inr sel \<Longrightarrow> n \<le> MailboxRunContextMaxPayload \<Longrightarrow>
     n + sum_list (map (payload_bytes \<circ> mr_Payload \<circ> snd) sel) \<le> MailboxRunContextMaxPayload"
proof (induction \<epsilon> rows n arbitrary: sel rule: mailbox_select.induct)
  case (2 \<epsilon> row rows total)
  then show ?case
    by (force simp: Let_def mailbox_run_message_def split: if_splits)
qed simp

lemma buildMailboxRunContext_Inr:
  assumes "buildMailboxRunContext \<epsilon> agent rows = Inr (context, selected)"
  shows "\<exists>sel. mailbox_select \<epsilon> rows 0 = Inr sel \<and> mc_Messages context = map snd sel \<and> selected = map fst sel"
  using assms by (auto simp: buildMailboxRunContext_def empty_mailbox_context_def Let_def split: if_splits)

end
