(* ===== verification/ReadyNodes.thy ===== *)
theory ReadyNodes
  imports PlanCheck
begin

text \<open>
  \<open>ReadyNodeKeys\<close> of \<open>plan.go\<close>: the choice of the task nodes to start.  The checks of the snapshot
  list are recursions over it; \<open>sort.Slice\<close> orders by descending priority, then creation order,
  then key, which is a total order on nodes with distinct keys, so the sorted list is the one
  \<open>sort_key\<close> gives for the tuple \<open>ready_rank\<close>.
\<close>

fun index_snapshots ::
    "NodeSnapshot list \<Rightarrow> (string \<times> NodeSnapshot) list \<Rightarrow> error + (string \<times> NodeSnapshot) list" where
  "index_snapshots [] byKey = Inr byKey"
| "index_snapshots (n # ns) byKey =
     (if TrimSpace (ns_Key n) = [] then Inl (Errorf ''node key is required'')
      else if map_of byKey (ns_Key n) \<noteq> None
      then Inl (Errorf (''duplicate node key '' @ go_quote (ns_Key n)))
      else index_snapshots ns (byKey @ [(ns_Key n, n)]))"

fun check_snapshot_dependencies ::
    "(string \<times> NodeSnapshot) list \<Rightarrow> NodeSnapshot list \<Rightarrow> error + unit" where
  "check_snapshot_dependencies byKey [] = Inr ()"
| "check_snapshot_dependencies byKey (n # ns) =
     (case find (\<lambda>d. map_of byKey d = None) (ns_DependencyKeys n) of
        Some d \<Rightarrow> Inl (Errorf (''node '' @ go_quote (ns_Key n) @ '' has unknown dependency '' @
                          go_quote d))
      | None \<Rightarrow> check_snapshot_dependencies byKey ns)"

definition dependencies_completed :: "(string \<times> NodeSnapshot) list \<Rightarrow> NodeSnapshot \<Rightarrow> bool" where
  "dependencies_completed byKey n =
     list_all (\<lambda>d. case map_of byKey d of None \<Rightarrow> False
                  | Some p \<Rightarrow> ns_Status p = TaskStatusCompleted) (ns_DependencyKeys n)"

definition ready_candidate :: "(string \<times> NodeSnapshot) list \<Rightarrow> NodeSnapshot \<Rightarrow> bool" where
  "ready_candidate byKey n \<longleftrightarrow>
     (ns_Status n = TaskStatusPending \<or> ns_Status n = TaskStatusRework) \<and>
     \<not> ns_HasActiveAssignment n \<and> dependencies_completed byKey n"

definition ready_rank :: "NodeSnapshot \<Rightarrow> int \<times> int \<times> string" where
  "ready_rank n = (- ns_Priority n, ns_CreatedOrder n, ns_Key n)"

definition ReadyNodeKeys ::
    "MissionStatus \<Rightarrow> NodeSnapshot list \<Rightarrow> int \<Rightarrow> int \<Rightarrow> error + string list" where
  "ReadyNodeKeys missionStatus nodes activeRuns maxParallelRuns =
     (if maxParallelRuns < 1 then Inl (Errorf ''max parallel runs must be at least 1'')
      else if activeRuns < 0 then Inl (Errorf ''active runs cannot be negative'')
      else
        bind_res (index_snapshots nodes []) (\<lambda>nodesByKey.
        bind_res (check_snapshot_dependencies nodesByKey nodes) (\<lambda>_.
        if missionStatus \<noteq> MissionStatusRunning \<or> activeRuns \<ge> maxParallelRuns then Inr []
        else
          let candidates = sort_key ready_rank (filter (ready_candidate nodesByKey) nodes);
              slots = maxParallelRuns - activeRuns in
          Inr (map ns_Key (take (nat slots) candidates)))))"

section \<open>The checks\<close>

definition snapshots_ok :: "NodeSnapshot list \<Rightarrow> bool" where
  "snapshots_ok ns \<longleftrightarrow> (\<forall>n \<in> set ns. \<not> blank (ns_Key n)) \<and> distinct (map ns_Key ns) \<and>
     (\<forall>n \<in> set ns. set (ns_DependencyKeys n) \<subseteq> ns_Key ` set ns)"

definition snap_keyed :: "NodeSnapshot list \<Rightarrow> (string \<times> NodeSnapshot) list" where
  "snap_keyed ns = map (\<lambda>n. (ns_Key n, n)) ns"

lemma map_of_snap_keyed_None: "map_of (snap_keyed ns) k = None \<longleftrightarrow> k \<notin> ns_Key ` set ns"
  by (force simp: snap_keyed_def map_of_eq_None_iff)

lemma map_of_snap_keyed:
  "distinct (map ns_Key ns) \<Longrightarrow>
     map_of (snap_keyed ns) k = Some n \<longleftrightarrow> n \<in> set ns \<and> ns_Key n = k"
  by (subst map_of_eq_Some_iff) (auto simp: snap_keyed_def o_def)

lemma index_snapshots_Inr:
  "index_snapshots ns (snap_keyed done) = Inr byKey \<longleftrightarrow>
     byKey = snap_keyed (done @ ns) \<and> (\<forall>n \<in> set ns. \<not> blank (ns_Key n)) \<and>
     distinct (map ns_Key ns) \<and> ns_Key ` set done \<inter> ns_Key ` set ns = {}"
proof (induction ns arbitrary: "done")
  case Nil
  then show ?case by (auto simp: snap_keyed_def)
next
  case (Cons n ns)
  have step: "snap_keyed done @ [(ns_Key n, n)] = snap_keyed (done @ [n])"
    by (simp add: snap_keyed_def)
  show ?case
  proof (cases "blank (ns_Key n) \<or> ns_Key n \<in> ns_Key ` set done")
    case True
    then show ?thesis using map_of_snap_keyed_None [of "done" "ns_Key n"]
      by (auto simp: blank_def)
  next
    case False
    then have "map_of (snap_keyed done) (ns_Key n) = None" "TrimSpace (ns_Key n) \<noteq> []"
      by (simp_all add: map_of_snap_keyed_None blank_def)
    then show ?thesis using Cons.IH [of "done @ [n]"] False by (auto simp: step blank_def)
  qed
qed

lemma check_snapshot_dependencies_Inr:
  "check_snapshot_dependencies byKey ns = Inr u \<longleftrightarrow>
     (\<forall>n \<in> set ns. \<forall>d \<in> set (ns_DependencyKeys n). map_of byKey d \<noteq> None)"
  by (induction byKey ns rule: check_snapshot_dependencies.induct)
    (auto simp: find_None_iff_set find_Some_iff split: option.splits)

lemma dependencies_completed_iff:
  assumes "distinct (map ns_Key ns)"
  shows "dependencies_completed (snap_keyed ns) n \<longleftrightarrow>
    (\<forall>d \<in> set (ns_DependencyKeys n). \<exists>p \<in> set ns. ns_Key p = d \<and> ns_Status p = TaskStatusCompleted)"
proof -
  have "(case map_of (snap_keyed ns) d of None \<Rightarrow> False | Some p \<Rightarrow> ns_Status p = TaskStatusCompleted)
      \<longleftrightarrow> (\<exists>p. map_of (snap_keyed ns) d = Some p \<and> ns_Status p = TaskStatusCompleted)" for d
    by (cases "map_of (snap_keyed ns) d") auto
  then show ?thesis
    by (simp add: dependencies_completed_def list_all_iff map_of_snap_keyed [OF assms] conj_assoc
        Bex_def)
qed

definition ready_set :: "NodeSnapshot list \<Rightarrow> NodeSnapshot set" where
  "ready_set ns = {n \<in> set ns. ns_Status n \<in> {TaskStatusPending, TaskStatusRework} \<and>
     \<not> ns_HasActiveAssignment n \<and>
     (\<forall>d \<in> set (ns_DependencyKeys n). \<exists>p \<in> set ns. ns_Key p = d \<and> ns_Status p = TaskStatusCompleted)}"

lemma ready_candidates_set:
  "distinct (map ns_Key ns) \<Longrightarrow> set (filter (ready_candidate (snap_keyed ns)) ns) = ready_set ns"
  by (auto simp: ready_candidate_def ready_set_def dependencies_completed_iff)

lemma ReadyNodeKeys_Inr:
  "ReadyNodeKeys ms ns active maxp = Inr keys \<longleftrightarrow>
     1 \<le> maxp \<and> 0 \<le> active \<and> snapshots_ok ns \<and>
     keys = (if ms = MissionStatusRunning \<and> active < maxp
             then map ns_Key (take (nat (maxp - active))
                    (sort_key ready_rank (filter (ready_candidate (snap_keyed ns)) ns)))
             else [])"
proof -
  have idx: "index_snapshots ns [] = Inr byKey \<longleftrightarrow> byKey = snap_keyed ns \<and>
      (\<forall>n \<in> set ns. \<not> blank (ns_Key n)) \<and> distinct (map ns_Key ns)" for byKey
    using index_snapshots_Inr [of ns "[]"] by (simp add: snap_keyed_def [of "[]"])
  have deps: "check_snapshot_dependencies (snap_keyed ns) ns = Inr () \<longleftrightarrow>
      (\<forall>n \<in> set ns. set (ns_DependencyKeys n) \<subseteq> ns_Key ` set ns)"
    unfolding check_snapshot_dependencies_Inr map_of_snap_keyed_None by blast
  show ?thesis
    by (auto simp add: ReadyNodeKeys_def idx deps snapshots_ok_def Let_def)
qed

lemma ready_rank_inj: "distinct (map ns_Key ns) \<Longrightarrow> inj_on ready_rank (set ns)"
  by (auto simp: inj_on_def ready_rank_def distinct_map)

section \<open>What is chosen\<close>

definition chosen :: "NodeSnapshot list \<Rightarrow> nat \<Rightarrow> NodeSnapshot list" where
  "chosen ns slots = take slots (sort_key ready_rank (filter (ready_candidate (snap_keyed ns)) ns))"

lemma chosen_subset: "distinct (map ns_Key ns) \<Longrightarrow> set (chosen ns k) \<subseteq> ready_set ns"
  using ready_candidates_set [of ns] unfolding chosen_def by (metis set_sort set_take_subset)

lemma chosen_all_or_full:
  assumes "distinct (map ns_Key ns)"
  shows "length (chosen ns k) = min k (card (ready_set ns))"
proof -
  have "distinct ns" using assms by (simp add: distinct_map)
  then have "card (ready_set ns) = length (filter (ready_candidate (snap_keyed ns)) ns)"
    using ready_candidates_set [OF assms] by (metis distinct_card distinct_filter)
  then show ?thesis by (simp add: chosen_def)
qed

lemma chosen_before_rest:
  assumes d: "distinct (map ns_Key ns)" and x: "x \<in> set (chosen ns k)"
    and y: "y \<in> ready_set ns" "y \<notin> set (chosen ns k)"
  shows "ready_rank x < ready_rank y"
proof -
  let ?s = "sort_key ready_rank (filter (ready_candidate (snap_keyed ns)) ns)"
  have y': "y \<in> set (drop k ?s)"
  proof -
    have "y \<in> set ?s" using y(1) ready_candidates_set [OF d] by (simp only: set_sort)
    then show ?thesis using y(2) unfolding chosen_def by (metis append_take_drop_id Un_iff set_append)
  qed
  have "sorted (map ready_rank ?s)" by (rule sorted_sort_key)
  moreover have "ready_rank x \<in> set (take k (map ready_rank ?s))"
    using x unfolding chosen_def take_map by simp
  moreover have "ready_rank y \<in> set (drop k (map ready_rank ?s))"
    using y' by (simp add: drop_map)
  ultimately have "ready_rank x \<le> ready_rank y" by (rule take_sorted_le)
  moreover have "ready_rank x \<noteq> ready_rank y"
  proof
    assume "ready_rank x = ready_rank y"
    moreover have "x \<in> set ns" "y \<in> set ns"
      using chosen_subset [OF d] x y(1) by (auto simp: ready_set_def)
    ultimately have "x = y" using ready_rank_inj [OF d] by (auto dest: inj_onD)
    then show False using x y(2) by simp
  qed
  ultimately show ?thesis by simp
qed

lemma ready_rank_less_iff:
  "ready_rank x < ready_rank y \<longleftrightarrow>
     ns_Priority y < ns_Priority x \<or>
     ns_Priority x = ns_Priority y \<and>
       (ns_CreatedOrder x < ns_CreatedOrder y \<or>
        ns_CreatedOrder x = ns_CreatedOrder y \<and> ns_Key x < ns_Key y)"
  by (auto simp: ready_rank_def less_prod_def' )

end
