(* ===== verification/Lifecycle.thy ===== *)
theory Lifecycle
  imports RolePolicy ReadyNodes PlanProposal
begin

text \<open>
  The lifecycle commands of a mission, \<open>repository.go\<close>, \<open>repository_lifecycle.go\<close> and their service
  methods in \<open>service.go\<close>: create, submit a plan (or an accepted proposal), start and cancel.  Each
  repository method is one transaction: it replays a recorded command, checks the mission's status and
  revision, writes, and logs an activity per change.  \<open>CancelMission\<close> stops the executions of active
  runs after its commit, through the execution gateway; the transaction returns the runs.
\<close>

section \<open>Create\<close>

record CreateMissionParams =
  cm_WorkspaceID :: uuid
  cm_CommandID :: uuid
  cm_CorrelationID :: uuid
  cm_ActorID :: uuid
  cm_Title :: string
  cm_Description :: pgtext
  cm_ProjectID :: uuid
  cm_Limits :: PlanLimits

record CreateMissionResult =
  cmr_Issue :: IssueRow
  cmr_Mission :: MissionRow
  cmr_Activity :: ActivityRow
  cmr_Idempotent :: bool

definition loadCreateMissionResult :: "uuid \<Rightarrow> ActivityRow \<Rightarrow> CreateMissionResult tx" where
  "loadCreateMissionResult ws activity =
     tx_bind (tx_guard (ac_Type activity = ''mission.created'' \<and> ac_SubjectType activity = ''mission'')
       ErrCommandConflict) (\<lambda>_.
     tx_bind (tx_wrap ''load mission command result'' (GetMissionInWorkspace ws (ac_MissionID activity))) (\<lambda>mission.
     tx_bind (tx_wrap ''load mission issue command result'' (GetIssueInWorkspace ws (ac_MissionID activity))) (\<lambda>issue.
     tx_return \<lparr>cmr_Issue = issue, cmr_Mission = mission, cmr_Activity = activity, cmr_Idempotent = True\<rparr>)))"

definition CreateMission_body :: "env \<Rightarrow> CreateMissionParams \<Rightarrow> string \<Rightarrow> CreateMissionResult tx" where
  "CreateMission_body \<epsilon> params dedupeKey =
     tx_bind (tx_wrap ''create mission'' (createOrchestrationIssue \<epsilon> (cm_WorkspaceID params)
       (cm_Title params) (cm_Description params) ''backlog'' ''member'' (cm_ActorID params) None
       (cm_ProjectID params))) (\<lambda>issue.
     tx_bind (tx_wrap ''create mission record'' (CreateMissionRecord \<epsilon> (i_ID issue) (cm_WorkspaceID params)
       (cm_Limits params) (cm_ActorID params))) (\<lambda>mission.
     tx_bind (log_command_activity \<epsilon> ''create mission'' ''create mission activity''
       \<lparr>as_WorkspaceID = cm_WorkspaceID params, as_MissionID = m_IssueID mission, as_TaskNodeID = None,
        as_RunID = None, as_Type = ''mission.created'', as_ActorType = ''user'',
        as_ActorID = cm_ActorID params, as_SubjectType = ''mission'', as_SubjectID = m_IssueID mission,
        as_CausationID = cm_CommandID params,
        as_CorrelationID = correlationOrCommand (cm_CorrelationID params) (cm_CommandID params),
        as_Payload = JObj [(''mission_id'', JStr (uuidText (m_IssueID mission)))],
        as_DedupeKey = dedupeKey\<rparr>) (\<lambda>activity.
     tx_return \<lparr>cmr_Issue = issue, cmr_Mission = mission, cmr_Activity = activity,
                cmr_Idempotent = False\<rparr>)))"

definition CreateMission_repo :: "env \<Rightarrow> CreateMissionParams \<Rightarrow> CreateMissionResult tx" where
  "CreateMission_repo \<epsilon> params =
     tx_bind (tx_wrap ''create mission'' (tx_lift (commandDedupeKey (cm_CommandID params)))) (\<lambda>dedupeKey.
     recorded_command (GetOrchestrationActivityByDedupeKey (cm_WorkspaceID params) dedupeKey)
       ''load create mission command result'' (loadCreateMissionResult (cm_WorkspaceID params))
       (CreateMission_body \<epsilon> params dedupeKey))"

definition CreateMission :: "env \<Rightarrow> PlanLimits \<Rightarrow> CreateMissionParams \<Rightarrow> CreateMissionResult tx" where
  "CreateMission \<epsilon> hardLimits command =
     (let errs = validateCommandIdentity (cm_WorkspaceID command) None (cm_CommandID command)
                   (cm_CorrelationID command) (cm_ActorID command) False @
                 err_when (TrimSpace (cm_Title command) = []) ''title'' ''missing_title''
                   ''title is required'' @
                 validatePlanLimits (cm_Limits command) hardLimits in
      tx_bind (tx_guard (errs = []) (CommandValidationError errs)) (\<lambda>_.
      tx_bind (requireOwner (cm_WorkspaceID command) (cm_ActorID command)) (\<lambda>_.
      tx_bind (tx_query (\<lambda>s. list_ex (\<lambda>(p, ws). sql_eq p (cm_ProjectID command) \<and>
                                         sql_eq ws (cm_WorkspaceID command)) (db_projects s))) (\<lambda>known.
      tx_bind (tx_guard (cm_ProjectID command = None \<or> known)
        (CommandValidationError [verr ''project_id'' ''project_not_found''
           ''project does not belong to the workspace''])) (\<lambda>_.
      CreateMission_repo \<epsilon> (command\<lparr>cm_Title := TrimSpace (cm_Title command)\<rparr>))))))"

section \<open>Submit a plan\<close>

record SubmitPlanParams =
  sp_WorkspaceID :: uuid
  sp_MissionID :: uuid
  sp_CommandID :: uuid
  sp_CorrelationID :: uuid
  sp_ActorType :: string
  sp_ActorID :: uuid
  sp_ExpectedRevision :: int
  sp_Plan :: Plan
  sp_SourceArtifactID :: uuid
  sp_PlanSource :: PlanSource

record SubmitPlanResult =
  spr_Mission :: MissionRow
  spr_TaskNodes :: "TaskNodeRow list"
  spr_Dependencies :: "DependencyRow list"
  spr_Activity :: ActivityRow
  spr_Idempotent :: bool

text \<open>The empty source of a request is \<open>PlanSource_Other []\<close>.\<close>

definition PlanSource_String :: "PlanSource \<Rightarrow> string" where
  "PlanSource_String source =
     (case source of PlanSourceManual \<Rightarrow> ''manual'' | PlanSourceProposal \<Rightarrow> ''proposal''
      | PlanSourceFixedTemplate \<Rightarrow> ''fixed_template'' | PlanSource_Other s \<Rightarrow> s)"

definition normalizePlanSource :: "PlanSource \<Rightarrow> uuid \<Rightarrow> error + PlanSource" where
  "normalizePlanSource source sourceArtifactID =
     (if PlanSource_String source = []
      then Inr (if sourceArtifactID \<noteq> None then PlanSourceProposal else PlanSourceManual)
      else if sourceArtifactID \<noteq> None
      then if source \<noteq> PlanSourceProposal
           then Inl (Errorf ''source artifact requires proposal plan source'') else Inr source
      else if source = PlanSourceProposal
      then Inl (Errorf ''proposal plan source requires source artifact'')
      else if source \<noteq> PlanSourceManual \<and> source \<noteq> PlanSourceFixedTemplate
      then Inl (Errorf (''unsupported plan source '' @ go_quote (PlanSource_String source)))
      else Inr source)"

definition loadSubmitPlanResult :: "uuid \<Rightarrow> uuid \<Rightarrow> ActivityRow \<Rightarrow> SubmitPlanResult tx" where
  "loadSubmitPlanResult ws mid activity =
     tx_bind (tx_guard (ac_Type activity = ''mission.plan_accepted'' \<and>
         ac_SubjectType activity = ''mission'' \<and> ac_MissionID activity = mid) ErrCommandConflict) (\<lambda>_.
     tx_bind (tx_wrap ''load planned mission command result'' (GetMissionInWorkspace ws mid)) (\<lambda>mission.
     tx_bind (ListTaskNodesByMission ws mid) (\<lambda>taskNodes.
     tx_bind (ListOrchestrationIssueDependencies ws mid) (\<lambda>dependencies.
     tx_return \<lparr>spr_Mission = mission, spr_TaskNodes = taskNodes, spr_Dependencies = dependencies,
                spr_Activity = activity, spr_Idempotent = True\<rparr>))))"

definition validatePlanProposalSource :: "SubmitPlanParams \<Rightarrow> MissionRow \<Rightarrow> uuid tx" where
  "validatePlanProposalSource params mission =
     tx_bind (tx_wrap ''submit plan: load source artifact''
       (GetArtifactInWorkspace (sp_WorkspaceID params) (sp_SourceArtifactID params))) (\<lambda>artifact.
     tx_bind (tx_guard (ar_MissionID artifact = m_IssueID mission \<and> ar_TaskNodeID artifact = None \<and>
         ar_Kind artifact = ArtifactKindPlanProposal)
       (Errorf ''submit plan: source artifact is not a Mission-scoped PlanProposal'')) (\<lambda>_.
     tx_bind (tx_wrap ''submit plan: load source run''
       (GetOrchestrationRunInWorkspace (sp_WorkspaceID params) (ar_RunID artifact))) (\<lambda>run.
     tx_bind (tx_guard (r_MissionID run = m_IssueID mission \<and> r_TaskNodeID run = None \<and>
         r_Purpose run = ''plan'' \<and> r_Status run = RunStatusSucceeded)
       (Errorf ''submit plan: source artifact does not belong to a successful Planning Run'')) (\<lambda>_.
     tx_bind (tx_wrap ''submit plan: load source assignment''
       (GetOrchestrationAssignmentInWorkspace (sp_WorkspaceID params) (r_AssignmentID run))) (\<lambda>assignment.
     tx_bind (tx_guard (a_MissionID assignment = m_IssueID mission \<and> a_TaskNodeID assignment = None \<and>
         a_Role assignment = DutyPlanner \<and> a_Status assignment = AssignmentStatusActive)
       (Errorf ''submit plan: source artifact does not belong to the active Planning Assignment'')) (\<lambda>_.
     case DecodeAndValidate_jsonb (ar_Metadata artifact) (uuidText (m_IssueID mission))
            (plan_Limits (sp_Plan params)) of
       (None, errs) \<Rightarrow> tx_fail (CommandValidationError errs)
     | (Some proposal, errs) \<Rightarrow>
         tx_bind (tx_guard (errs = []) (CommandValidationError errs)) (\<lambda>_.
         tx_bind (tx_guard (PlanFromProposal proposal = sp_Plan params)
           (Errorf ''submit plan: source artifact payload does not match the submitted plan'')) (\<lambda>_.
         tx_bind (tx_guard (ar_ContentHash artifact =
             Some (planProposalContentHash (EncodePlanProposal proposal)))
           (Errorf ''submit plan: source artifact content hash mismatch'')) (\<lambda>_.
         tx_return (a_ID assignment))))))))))"


text \<open>One node of the plan: its issue, then its row.\<close>

definition create_plan_node :: "env \<Rightarrow> SubmitPlanParams \<Rightarrow> uuid \<Rightarrow> PlanNode \<Rightarrow> TaskNodeRow tx" where
  "create_plan_node \<epsilon> params project node =
     tx_bind (tx_wrap (''submit plan: create issue for node '' @ go_quote (pn_Key node))
       (createOrchestrationIssue \<epsilon> (sp_WorkspaceID params) (pn_Title node) (Some (pn_Description node))
          ''backlog'' (issueCreatorType (sp_ActorType params)) (sp_ActorID params) (sp_MissionID params)
          project)) (\<lambda>issue.
     tx_wrap (''submit plan: create task node '' @ go_quote (pn_Key node))
       (CreateTaskNodeRecord \<epsilon> (i_ID issue) (sp_WorkspaceID params) (sp_MissionID params) node))"

text \<open>The map \<open>nodeIDs\<close> the loop builds; a later node of the same key replaces an earlier one.\<close>

definition plan_node_ids :: "PlanNode list \<Rightarrow> TaskNodeRow list \<Rightarrow> string \<Rightarrow> uuid option" where
  "plan_node_ids nodes rows =
     map_of (rev (map (\<lambda>(n, r). (pn_Key n, t_IssueID r)) (zip nodes rows)))"

definition create_plan_dependency ::
    "(string \<Rightarrow> uuid option) \<Rightarrow> string \<times> string \<Rightarrow> DependencyRow tx" where
  "create_plan_dependency nodeIDs edge =
     (case edge of (nodeKey, dependencyKey) \<Rightarrow>
        case nodeIDs dependencyKey of
          None \<Rightarrow> tx_fail (Errorf (''submit plan: dependency '' @ go_quote dependencyKey @ '' for node '' @
                    go_quote nodeKey @ '' was not persisted''))
        | Some dependencyID \<Rightarrow>
            tx_wrap (''submit plan: create dependency '' @ go_quote nodeKey @ '' -> '' @
                go_quote dependencyKey)
              (CreateOrchestrationIssueDependency
                 (case nodeIDs nodeKey of None \<Rightarrow> None | Some u \<Rightarrow> u) dependencyID))"

definition plan_dependency_keys :: "PlanNode list \<Rightarrow> (string \<times> string) list" where
  "plan_dependency_keys nodes = concat (map (\<lambda>n. map (Pair (pn_Key n)) (pn_DependsOn n)) nodes)"

definition plan_payload :: "SubmitPlanParams \<Rightarrow> PlanSource \<Rightarrow> json" where
  "plan_payload params planSource =
     JObj ([(''plan_key'', JStr (plan_PlanKey (sp_Plan params))),
            (''node_count'', JNum (int (length (plan_Nodes (sp_Plan params)))))] @
           json_omit ''source_artifact_id'' (optionalUUIDText (sp_SourceArtifactID params)) @
           [(''plan_source'', JStr (PlanSource_String planSource))])"

text \<open>The writes, once the mission was found in draft at the expected revision.\<close>

definition SubmitPlan_write ::
    "env \<Rightarrow> SubmitPlanParams \<Rightarrow> string \<Rightarrow> PlanSource \<Rightarrow> IssueRow \<Rightarrow> uuid \<Rightarrow> SubmitPlanResult tx" where
  "SubmitPlan_write \<epsilon> params dedupeKey planSource rootIssue planningAssignmentID =
     (let ws = sp_WorkspaceID params; mid = sp_MissionID params; nodes = plan_Nodes (sp_Plan params) in
      tx_bind (tx_wrap ''submit plan: accept mission plan''
        (AcceptMissionPlan \<epsilon> ws mid (sp_Plan params) (sp_ExpectedRevision params))) (\<lambda>mission.
      tx_bind (if planningAssignmentID \<noteq> None
               then tx_bind (tx_wrap ''submit plan: fulfill planning assignment''
                      (EndOrchestrationAssignment \<epsilon> ws mid planningAssignmentID AssignmentStatusFulfilled))
                      (\<lambda>_. tx_return ())
               else tx_return ()) (\<lambda>_.
      tx_bind (tx_map (create_plan_node \<epsilon> params (i_ProjectID rootIssue)) nodes) (\<lambda>taskNodes.
      tx_bind (tx_map (create_plan_dependency (plan_node_ids nodes taskNodes))
        (plan_dependency_keys nodes)) (\<lambda>dependencies.
      tx_bind (tx_wrap ''submit plan: update root issue compatibility status''
        (UpdateIssueStatus ws mid ''todo'')) (\<lambda>_.
      tx_bind (log_command_activity \<epsilon> ''submit plan'' ''submit plan: create activity''
        \<lparr>as_WorkspaceID = ws, as_MissionID = mid, as_TaskNodeID = None, as_RunID = None,
         as_Type = ''mission.plan_accepted'', as_ActorType = sp_ActorType params,
         as_ActorID = sp_ActorID params, as_SubjectType = ''mission'', as_SubjectID = mid,
         as_CausationID = sp_CommandID params,
         as_CorrelationID = correlationOrCommand (sp_CorrelationID params) (sp_CommandID params),
         as_Payload = plan_payload params planSource, as_DedupeKey = dedupeKey\<rparr>) (\<lambda>activity.
      tx_return \<lparr>spr_Mission = mission, spr_TaskNodes = taskNodes, spr_Dependencies = dependencies,
                 spr_Activity = activity, spr_Idempotent = False\<rparr>)))))))"

definition SubmitPlan_body :: "env \<Rightarrow> SubmitPlanParams \<Rightarrow> string \<Rightarrow> SubmitPlanResult tx" where
  "SubmitPlan_body \<epsilon> params dedupeKey =
     (let ws = sp_WorkspaceID params; mid = sp_MissionID params in
      tx_bind (tx_wrap ''submit plan''
        (tx_lift (normalizePlanSource (sp_PlanSource params) (sp_SourceArtifactID params)))) (\<lambda>planSource.
      tx_bind (tx_wrap ''submit plan: lock mission'' (LockMissionInWorkspace ws mid)) (\<lambda>mission.
      if m_Status mission \<noteq> MissionStatusDraft \<or> m_Revision mission \<noteq> sp_ExpectedRevision params then
        replay_or (GetOrchestrationActivityByDedupeKey ws dedupeKey) (loadSubmitPlanResult ws mid)
          (tx_fail (if m_Status mission \<noteq> MissionStatusDraft then ErrMissionNotDraft
                    else ErrRevisionConflict))
      else
        tx_bind (tx_wrap ''submit plan: load root issue'' (GetIssueInWorkspace ws mid)) (\<lambda>rootIssue.
        tx_bind (if sp_SourceArtifactID params \<noteq> None then validatePlanProposalSource params mission
                 else tx_return None) (\<lambda>planningAssignmentID.
        SubmitPlan_write \<epsilon> params dedupeKey planSource rootIssue planningAssignmentID)))))"

definition SubmitPlan_repo :: "env \<Rightarrow> SubmitPlanParams \<Rightarrow> SubmitPlanResult tx" where
  "SubmitPlan_repo \<epsilon> params =
     tx_bind (tx_wrap ''submit plan'' (tx_lift (commandDedupeKey (sp_CommandID params)))) (\<lambda>dedupeKey.
     recorded_command (GetOrchestrationActivityByDedupeKey (sp_WorkspaceID params) dedupeKey)
       ''load submit plan command result''
       (loadSubmitPlanResult (sp_WorkspaceID params) (sp_MissionID params))
       (SubmitPlan_body \<epsilon> params dedupeKey))"

text \<open>The service method takes the command as the repository's parameters, without actor type and
  source artifact.\<close>

definition SubmitPlan :: "env \<Rightarrow> PlanLimits \<Rightarrow> SubmitPlanParams \<Rightarrow> SubmitPlanResult tx" where
  "SubmitPlan \<epsilon> hardLimits command =
     (let source = (if PlanSource_String (sp_PlanSource command) = [] then PlanSourceManual
                    else sp_PlanSource command);
          errs = validateCommandIdentity (sp_WorkspaceID command) (sp_MissionID command)
                   (sp_CommandID command) (sp_CorrelationID command) (sp_ActorID command) True @
                 check_revision ''expected_revision'' (sp_ExpectedRevision command) @
                 err_when (source \<noteq> PlanSourceManual \<and> source \<noteq> PlanSourceFixedTemplate) ''source''
                   ''invalid_plan_source'' ''source must be manual or fixed_template'';
          planErrs = ValidatePlan (sp_Plan command) (uuidText (sp_MissionID command)) hardLimits in
      tx_bind (tx_guard (errs = []) (CommandValidationError errs)) (\<lambda>_.
      tx_bind (requireOwner (sp_WorkspaceID command) (sp_ActorID command)) (\<lambda>_.
      tx_bind (tx_guard (planErrs = []) (CommandValidationError planErrs)) (\<lambda>_.
      SubmitPlan_repo \<epsilon> (command\<lparr>sp_ActorType := ''user'', sp_SourceArtifactID := None,
                                   sp_PlanSource := source\<rparr>)))))"

record SubmitPlanProposalCommand =
  spc_WorkspaceID :: uuid
  spc_MissionID :: uuid
  spc_ProposalArtifactID :: uuid
  spc_CommandID :: uuid
  spc_CorrelationID :: uuid
  spc_ActorID :: uuid
  spc_ExpectedRevision :: int

definition SubmitPlanProposal ::
    "env \<Rightarrow> PlanLimits \<Rightarrow> SubmitPlanProposalCommand \<Rightarrow> SubmitPlanResult tx" where
  "SubmitPlanProposal \<epsilon> hardLimits command =
     (let errs = validateCommandIdentity (spc_WorkspaceID command) (spc_MissionID command)
                   (spc_CommandID command) (spc_CorrelationID command) (spc_ActorID command) True @
                 err_when (\<not> validUUID (spc_ProposalArtifactID command)) ''proposal_artifact_id''
                   ''invalid_uuid'' ''proposal_artifact_id is required'' @
                 check_revision ''expected_revision'' (spc_ExpectedRevision command) in
      tx_bind (tx_guard (errs = []) (CommandValidationError errs)) (\<lambda>_.
      tx_bind (requireOwner (spc_WorkspaceID command) (spc_ActorID command)) (\<lambda>_.
      tx_bind (tx_wrap ''submit plan proposal: load artifact''
        (GetArtifactInWorkspace (spc_WorkspaceID command) (spc_ProposalArtifactID command))) (\<lambda>artifact.
      tx_bind (tx_guard (ar_MissionID artifact = spc_MissionID command \<and> ar_TaskNodeID artifact = None \<and>
          ar_Kind artifact = ArtifactKindPlanProposal)
        (CommandValidationError [verr ''proposal_artifact_id'' ''invalid_plan_proposal_artifact''
           ''artifact must be a Mission-scoped PlanProposal for the target mission''])) (\<lambda>_.
      case DecodeAndValidate_jsonb (ar_Metadata artifact) (uuidText (spc_MissionID command))
             hardLimits of
        (None, proposalErrs) \<Rightarrow> tx_fail (CommandValidationError proposalErrs)
      | (Some proposal, proposalErrs) \<Rightarrow>
          tx_bind (tx_guard (proposalErrs = []) (CommandValidationError proposalErrs)) (\<lambda>_.
          SubmitPlan_repo \<epsilon>
            \<lparr>sp_WorkspaceID = spc_WorkspaceID command, sp_MissionID = spc_MissionID command,
             sp_CommandID = spc_CommandID command, sp_CorrelationID = spc_CorrelationID command,
             sp_ActorType = ''user'', sp_ActorID = spc_ActorID command,
             sp_ExpectedRevision = spc_ExpectedRevision command, sp_Plan = PlanFromProposal proposal,
             sp_SourceArtifactID = spc_ProposalArtifactID command,
             sp_PlanSource = PlanSourceProposal\<rparr>))))))"

section \<open>Start\<close>

record StartMissionParams =
  st_WorkspaceID :: uuid
  st_MissionID :: uuid
  st_CommandID :: uuid
  st_CorrelationID :: uuid
  st_ActorID :: uuid
  st_ExpectedRevision :: int
  st_RolePolicyBindings :: "RolePolicyBinding list"

record StartMissionResult =
  smr_Mission :: MissionRow
  smr_TaskNodes :: "TaskNodeRow list"
  smr_Activities :: "ActivityRow list"
  smr_RolePolicySnapshots :: "RolePolicySnapshot list"
  smr_Idempotent :: bool

definition decodePlanLimits :: "PlanLimits \<Rightarrow> error + PlanLimits" where
  "decodePlanLimits limits =
     (if MaxParallelRuns limits < 1 then Inl (Errorf ''mission max_parallel_runs must be at least 1'')
      else Inr limits)"

text \<open>\<open>keysByID\<close> and \<open>dependencyKeys\<close>: maps from node ids, a later entry replacing an earlier one.\<close>

definition keys_by_id :: "TaskNodeRow list \<Rightarrow> uuid \<Rightarrow> string option" where
  "keys_by_id nodes = map_of (rev (map (\<lambda>n. (t_IssueID n, t_NodeKey n)) nodes))"

fun dependency_keys ::
    "(uuid \<Rightarrow> string option) \<Rightarrow> DependencyRow list \<Rightarrow> error + (uuid \<times> string) list" where
  "dependency_keys keysByID [] = Inr []"
| "dependency_keys keysByID (d # ds) =
     (case keysByID (d_DependsOnIssueID d) of
        None \<Rightarrow> Inl (Errorf (''dependency predecessor '' @ uuidText (d_DependsOnIssueID d) @
                  '' is outside the mission''))
      | Some key \<Rightarrow>
          bind_res (dependency_keys keysByID ds) (\<lambda>pairs. Inr ((d_IssueID d, key) # pairs)))"

definition keys_of :: "(uuid \<times> string) list \<Rightarrow> uuid \<Rightarrow> string list" where
  "keys_of pairs u = map snd (filter (\<lambda>(v, _). v = u) pairs)"

definition initial_snapshot :: "(uuid \<times> string) list \<Rightarrow> nat \<times> TaskNodeRow \<Rightarrow> NodeSnapshot" where
  "initial_snapshot dependencyKeys p =
     (case p of (index, n) \<Rightarrow>
        \<lparr>ns_Key = t_NodeKey n, ns_Status = t_Status n, ns_Priority = t_Priority n,
         ns_CreatedOrder = int index, ns_DependencyKeys = keys_of dependencyKeys (t_IssueID n),
         ns_HasActiveAssignment = False\<rparr>)"

definition initialReadyNodeKeys ::
    "TaskNodeRow list \<Rightarrow> DependencyRow list \<Rightarrow> int \<Rightarrow> error + string list" where
  "initialReadyNodeKeys taskNodes dependencies maxParallelRuns =
     bind_res (dependency_keys (keys_by_id taskNodes) dependencies) (\<lambda>dependencyKeys.
     ReadyNodeKeys MissionStatusRunning (map (initial_snapshot dependencyKeys) (enumerate 0 taskNodes))
       0 maxParallelRuns)"

definition loadStartMissionResult :: "env \<Rightarrow> uuid \<Rightarrow> uuid \<Rightarrow> ActivityRow \<Rightarrow> StartMissionResult tx" where
  "loadStartMissionResult \<epsilon> ws mid activity =
     tx_bind (tx_guard (ac_Type activity = ''mission.started'' \<and> ac_SubjectType activity = ''mission'' \<and>
         ac_MissionID activity = mid) ErrCommandConflict) (\<lambda>_.
     tx_bind (tx_wrap ''load started mission command result'' (GetMissionInWorkspace ws mid)) (\<lambda>mission.
     tx_bind (ListTaskNodesByMission ws mid) (\<lambda>taskNodes.
     tx_bind (ListOrchestrationActivitiesByCausation ws mid (ac_CausationID activity)) (\<lambda>activities.
     tx_bind (ListMissionRolePolicySnapshots ws mid) (\<lambda>rows.
     tx_bind (tx_lift (mapRolePolicySnapshots \<epsilon> rows)) (\<lambda>snapshots.
     tx_return \<lparr>smr_Mission = mission, smr_TaskNodes = taskNodes, smr_Activities = activities,
                smr_RolePolicySnapshots = snapshots, smr_Idempotent = True\<rparr>))))))"

text \<open>A replayed start must name the bindings that were frozen.\<close>

definition replayStartMission :: "env \<Rightarrow> StartMissionParams \<Rightarrow> ActivityRow \<Rightarrow> StartMissionResult tx" where
  "replayStartMission \<epsilon> params activity =
     tx_bind (ensureFrozenRolePolicyBindingsMatch \<epsilon> (st_WorkspaceID params) (st_MissionID params)
       (st_RolePolicyBindings params)) (\<lambda>_.
     loadStartMissionResult \<epsilon> (st_WorkspaceID params) (st_MissionID params) activity)"

definition node_activity ::
    "uuid \<Rightarrow> uuid \<Rightarrow> uuid \<Rightarrow> string \<Rightarrow> uuid \<Rightarrow> uuid \<Rightarrow> string \<Rightarrow> string \<Rightarrow> activity_spec" where
  "node_activity ws mid nid typ causation correlation key dedupeKey =
     \<lparr>as_WorkspaceID = ws, as_MissionID = mid, as_TaskNodeID = nid, as_RunID = None, as_Type = typ,
      as_ActorType = ''orchestrator'', as_ActorID = None, as_SubjectType = ''task_node'',
      as_SubjectID = nid, as_CausationID = causation, as_CorrelationID = correlation,
      as_Payload = JObj [(''node_key'', JStr key)], as_DedupeKey = dedupeKey\<rparr>"

text \<open>One pass of the loop over the ready keys; an unknown key reads as a zero row, as in Go, which
  the update does not find.\<close>

definition start_ready_node ::
    "env \<Rightarrow> StartMissionParams \<Rightarrow> string \<Rightarrow> TaskNodeRow list \<Rightarrow> string \<Rightarrow> (TaskNodeRow \<times> ActivityRow) tx" where
  "start_ready_node \<epsilon> params dedupeKey taskNodes key =
     (let ws = st_WorkspaceID params; mid = st_MissionID params in
      case find_last (\<lambda>n. t_NodeKey n = key) taskNodes of
        None \<Rightarrow> tx_fail (Wrapped (''start mission: mark task '' @ go_quote key @ '' ready'') ErrNoRows)
      | Some node \<Rightarrow>
          tx_bind (tx_wrap (''start mission: mark task '' @ go_quote key @ '' ready'')
            (MarkTaskNodeReady \<epsilon> ws mid (t_IssueID node) (t_Revision node))) (\<lambda>readyNode.
          tx_bind (log_activity \<epsilon> ''start mission: allocate task activity sequence''
            (''start mission: create task '' @ go_quote key @ '' activity'')
            (node_activity ws mid (t_IssueID readyNode) ''task.ready'' (st_CommandID params)
               (correlationOrCommand (st_CorrelationID params) (st_CommandID params)) key
               (dedupeKey @ '':task:'' @ key @ '':ready''))) (\<lambda>activity.
          tx_return (readyNode, activity))))"

definition start_payload :: "RolePolicySnapshot list \<Rightarrow> json" where
  "start_payload snapshots =
     JObj [(''role_policy_snapshot_hashes'',
       JObj (map (\<lambda>r. (Duty_String (rps_Duty r), JStr (rps_ContentHash r))) snapshots))]"

definition StartMission_write ::
    "env \<Rightarrow> StartMissionParams \<Rightarrow> string \<Rightarrow> TaskNodeRow list \<Rightarrow> string list \<Rightarrow> RolePolicySnapshot list \<Rightarrow>
     StartMissionResult tx" where
  "StartMission_write \<epsilon> params dedupeKey taskNodes readyKeys snapshots =
     (let ws = st_WorkspaceID params; mid = st_MissionID params in
      tx_bind (tx_wrap ''start mission: update mission''
        (StartMissionRecord \<epsilon> ws mid (st_ExpectedRevision params))) (\<lambda>mission.
      tx_bind (tx_wrap ''start mission: update root issue compatibility status''
        (UpdateIssueStatus ws mid ''in_progress'')) (\<lambda>_.
      tx_bind (log_command_activity \<epsilon> ''start mission'' ''start mission: create activity''
        \<lparr>as_WorkspaceID = ws, as_MissionID = mid, as_TaskNodeID = None, as_RunID = None,
         as_Type = ''mission.started'', as_ActorType = ''user'', as_ActorID = st_ActorID params,
         as_SubjectType = ''mission'', as_SubjectID = mid, as_CausationID = st_CommandID params,
         as_CorrelationID = correlationOrCommand (st_CorrelationID params) (st_CommandID params),
         as_Payload = start_payload snapshots, as_DedupeKey = dedupeKey\<rparr>) (\<lambda>activity.
      tx_bind (tx_map (start_ready_node \<epsilon> params dedupeKey taskNodes) readyKeys) (\<lambda>started.
      tx_return
        \<lparr>smr_Mission = mission,
         smr_TaskNodes = map (\<lambda>n. case find (\<lambda>(m, _). t_NodeKey m = t_NodeKey n) started of
                                    None \<Rightarrow> n | Some (m, _) \<Rightarrow> m) taskNodes,
         smr_Activities = activity # map snd started,
         smr_RolePolicySnapshots = snapshots, smr_Idempotent = False\<rparr>)))))"

definition StartMission_body :: "env \<Rightarrow> StartMissionParams \<Rightarrow> string \<Rightarrow> StartMissionResult tx" where
  "StartMission_body \<epsilon> params dedupeKey =
     (let ws = st_WorkspaceID params; mid = st_MissionID params in
      tx_bind (tx_wrap ''start mission: lock mission'' (LockMissionInWorkspace ws mid)) (\<lambda>mission.
      if m_Status mission \<noteq> MissionStatusReady \<or> m_Revision mission \<noteq> st_ExpectedRevision params then
        replay_or (GetOrchestrationActivityByDedupeKey ws dedupeKey) (replayStartMission \<epsilon> params)
          (tx_fail (if m_Status mission \<noteq> MissionStatusReady then ErrMissionNotStartable
                    else ErrRevisionConflict))
      else
        tx_bind (ListTaskNodesByMission ws mid) (\<lambda>taskNodes.
        tx_bind (tx_guard (taskNodes \<noteq> []) ErrMissionHasNoTasks) (\<lambda>_.
        tx_bind (ListOrchestrationIssueDependencies ws mid) (\<lambda>dependencies.
        tx_bind (tx_wrap ''start mission'' (tx_lift (decodePlanLimits (m_Limits mission)))) (\<lambda>limits.
        tx_bind (tx_wrap ''start mission: compute ready nodes''
          (tx_lift (initialReadyNodeKeys taskNodes dependencies (MaxParallelRuns limits)))) (\<lambda>readyKeys.
        tx_bind (tx_guard (readyKeys \<noteq> []) ErrMissionHasNoReadyTasks) (\<lambda>_.
        tx_bind (freezeRolePolicyBindings \<epsilon> ws mid (st_ActorID params) (st_RolePolicyBindings params))
          (\<lambda>snapshots.
        StartMission_write \<epsilon> params dedupeKey taskNodes readyKeys snapshots)))))))))"

definition StartMission_repo :: "env \<Rightarrow> StartMissionParams \<Rightarrow> StartMissionResult tx" where
  "StartMission_repo \<epsilon> params =
     tx_bind (tx_wrap ''start mission'' (tx_lift (commandDedupeKey (st_CommandID params)))) (\<lambda>dedupeKey.
     \<lambda>s. case GetOrchestrationActivityByDedupeKey (st_WorkspaceID params) dedupeKey s of
            Some activity \<Rightarrow> replayStartMission \<epsilon> params activity s
          | None \<Rightarrow>
              recorded_command (GetOrchestrationActivityByDedupeKey (st_WorkspaceID params) dedupeKey)
                ''load start mission command result''
                (loadStartMissionResult \<epsilon> (st_WorkspaceID params) (st_MissionID params))
                (StartMission_body \<epsilon> params dedupeKey) s)"

definition StartMission :: "env \<Rightarrow> StartMissionParams \<Rightarrow> StartMissionResult tx" where
  "StartMission \<epsilon> command =
     (case normalizeStartRolePolicyBindings (st_RolePolicyBindings command) of (bindings, bindingErrs) \<Rightarrow>
      let errs = validateCommandIdentity (st_WorkspaceID command) (st_MissionID command)
                   (st_CommandID command) (st_CorrelationID command) (st_ActorID command) True @
                 check_revision ''expected_revision'' (st_ExpectedRevision command) @ bindingErrs in
      tx_bind (tx_guard (errs = []) (CommandValidationError errs)) (\<lambda>_.
      tx_bind (requireOwner (st_WorkspaceID command) (st_ActorID command)) (\<lambda>_.
      StartMission_repo \<epsilon> (command\<lparr>st_RolePolicyBindings := bindings\<rparr>))))"

section \<open>Cancel\<close>

record CancelMissionParams =
  ca_WorkspaceID :: uuid
  ca_MissionID :: uuid
  ca_CommandID :: uuid
  ca_CorrelationID :: uuid
  ca_ActorID :: uuid
  ca_ExpectedRevision :: int
  ca_Reason :: string

record CancelMissionResult =
  car_Mission :: MissionRow
  car_TaskNodes :: "TaskNodeRow list"
  car_ActiveRuns :: "RunRow list"
  car_Activities :: "ActivityRow list"
  car_Idempotent :: bool

definition missionCanCancel :: "MissionStatus \<Rightarrow> bool" where
  "missionCanCancel status \<longleftrightarrow>
     status \<in> {MissionStatusDraft, MissionStatusReady, MissionStatusRunning, MissionStatusBlocked}"

definition loadCancelMissionResult :: "uuid \<Rightarrow> uuid \<Rightarrow> ActivityRow \<Rightarrow> CancelMissionResult tx" where
  "loadCancelMissionResult ws mid activity =
     tx_bind (tx_guard (ac_Type activity = ''mission.cancelled'' \<and> ac_SubjectType activity = ''mission'' \<and>
         ac_MissionID activity = mid) ErrCommandConflict) (\<lambda>_.
     tx_bind (tx_wrap ''load cancelled mission command result'' (GetMissionInWorkspace ws mid)) (\<lambda>mission.
     tx_bind (ListTaskNodesByMission ws mid) (\<lambda>taskNodes.
     tx_bind (ListActiveMissionRuns ws mid) (\<lambda>activeRuns.
     tx_bind (ListOrchestrationActivitiesByCausation ws mid (ac_CausationID activity)) (\<lambda>activities.
     tx_return \<lparr>car_Mission = mission, car_TaskNodes = taskNodes, car_ActiveRuns = activeRuns,
                car_Activities = activities, car_Idempotent = True\<rparr>)))))"

definition cancel_node_activity :: "env \<Rightarrow> CancelMissionParams \<Rightarrow> string \<Rightarrow> TaskNodeRow \<Rightarrow> ActivityRow tx" where
  "cancel_node_activity \<epsilon> params dedupeKey node =
     log_activity \<epsilon> ''cancel mission: allocate task activity sequence''
       (''cancel mission: create task '' @ go_quote (t_NodeKey node) @ '' activity'')
       (node_activity (ca_WorkspaceID params) (ca_MissionID params) (t_IssueID node) ''task.cancelled''
          (ca_CommandID params) (correlationOrCommand (ca_CorrelationID params) (ca_CommandID params))
          (t_NodeKey node) (dedupeKey @ '':task:'' @ t_NodeKey node @ '':cancelled''))"

definition CancelMission_write :: "env \<Rightarrow> CancelMissionParams \<Rightarrow> string \<Rightarrow> CancelMissionResult tx" where
  "CancelMission_write \<epsilon> params dedupeKey =
     (let ws = ca_WorkspaceID params; mid = ca_MissionID params in
      tx_bind (tx_wrap ''cancel mission: update mission''
        (CancelMissionRecord \<epsilon> ws mid (ca_ExpectedRevision params))) (\<lambda>mission.
      tx_bind (tx_wrap ''cancel mission: update root issue compatibility status''
        (UpdateIssueStatus ws mid ''cancelled'')) (\<lambda>_.
      tx_bind (CancelMissionTaskNodes \<epsilon> ws mid) (\<lambda>cancelledNodes.
      tx_bind (RevokeMissionAssignments \<epsilon> ws mid) (\<lambda>_.
      tx_bind (ListActiveMissionRuns ws mid) (\<lambda>activeRuns.
      tx_bind (log_command_activity \<epsilon> ''cancel mission'' ''cancel mission: create activity''
        \<lparr>as_WorkspaceID = ws, as_MissionID = mid, as_TaskNodeID = None, as_RunID = None,
         as_Type = ''mission.cancelled'', as_ActorType = ''user'', as_ActorID = ca_ActorID params,
         as_SubjectType = ''mission'', as_SubjectID = mid, as_CausationID = ca_CommandID params,
         as_CorrelationID = correlationOrCommand (ca_CorrelationID params) (ca_CommandID params),
         as_Payload = JObj (json_omit ''reason'' (ca_Reason params)), as_DedupeKey = dedupeKey\<rparr>) (\<lambda>activity.
      tx_bind (tx_map (cancel_node_activity \<epsilon> params dedupeKey) (sort_key t_NodeKey cancelledNodes))
        (\<lambda>activities.
      tx_bind (ListTaskNodesByMission ws mid) (\<lambda>taskNodes.
      tx_return \<lparr>car_Mission = mission, car_TaskNodes = taskNodes, car_ActiveRuns = activeRuns,
                 car_Activities = activity # activities, car_Idempotent = False\<rparr>)))))))))"

definition CancelMission_body :: "env \<Rightarrow> CancelMissionParams \<Rightarrow> string \<Rightarrow> CancelMissionResult tx" where
  "CancelMission_body \<epsilon> params dedupeKey =
     (let ws = ca_WorkspaceID params; mid = ca_MissionID params in
      tx_bind (tx_wrap ''cancel mission: lock mission'' (LockMissionInWorkspace ws mid)) (\<lambda>mission.
      if \<not> missionCanCancel (m_Status mission) \<or> m_Revision mission \<noteq> ca_ExpectedRevision params then
        replay_or (GetOrchestrationActivityByDedupeKey ws dedupeKey) (loadCancelMissionResult ws mid)
          (tx_fail (if \<not> missionCanCancel (m_Status mission) then ErrMissionNotCancellable
                    else ErrRevisionConflict))
      else CancelMission_write \<epsilon> params dedupeKey))"

definition CancelMission_repo :: "env \<Rightarrow> CancelMissionParams \<Rightarrow> CancelMissionResult tx" where
  "CancelMission_repo \<epsilon> params =
     tx_bind (tx_wrap ''cancel mission'' (tx_lift (commandDedupeKey (ca_CommandID params)))) (\<lambda>dedupeKey.
     recorded_command (GetOrchestrationActivityByDedupeKey (ca_WorkspaceID params) dedupeKey)
       ''load cancel mission command result''
       (loadCancelMissionResult (ca_WorkspaceID params) (ca_MissionID params))
       (CancelMission_body \<epsilon> params dedupeKey))"

text \<open>The service method up to the commit; it then asks the gateway to cancel the executions of
  \<open>car_ActiveRuns\<close>.\<close>

definition CancelMission :: "env \<Rightarrow> CancelMissionParams \<Rightarrow> CancelMissionResult tx" where
  "CancelMission \<epsilon> command =
     (let errs = validateCommandIdentity (ca_WorkspaceID command) (ca_MissionID command)
                   (ca_CommandID command) (ca_CorrelationID command) (ca_ActorID command) True @
                 check_revision ''expected_revision'' (ca_ExpectedRevision command) in
      tx_bind (tx_guard (errs = []) (CommandValidationError errs)) (\<lambda>_.
      tx_bind (requireOwner (ca_WorkspaceID command) (ca_ActorID command)) (\<lambda>_.
      CancelMission_repo \<epsilon> (command\<lparr>ca_Reason := TrimSpace (ca_Reason command)\<rparr>))))"

end
