(* ===== verification/FailurePolicy.thy ===== *)
theory FailurePolicy
  imports OrchTypes
begin

text \<open>
  \<open>failure_policy.go\<close>: the decision taken for a failed run.  Failure kinds are strings, as in
  the code; \<open>normalizePolicyFailureKind\<close> maps every text to one of nine kinds, and
  \<open>EvaluateFailurePolicy\<close> decides whether the same assignment gets another attempt and which
  status the task takes when it does not.
\<close>

definition FailureKindRuntimeOffline :: string where
  "FailureKindRuntimeOffline = ''runtime_offline''"
definition FailureKindDispatchTimeout :: string where
  "FailureKindDispatchTimeout = ''dispatch_timeout''"
definition FailureKindTimeout :: string where
  "FailureKindTimeout = ''timeout''"
definition FailureKindProviderNetwork :: string where
  "FailureKindProviderNetwork = ''provider_network''"
definition FailureKindSkillBundleUnavailable :: string where
  "FailureKindSkillBundleUnavailable = ''skill_bundle_unavailable''"
definition FailureKindProtocolError :: string where
  "FailureKindProtocolError = ''protocol_error''"
definition FailureKindWorktreeError :: string where
  "FailureKindWorktreeError = ''worktree_error''"
definition FailureKindAgentError :: string where
  "FailureKindAgentError = ''agent_error''"
definition FailureKindUnknown :: string where
  "FailureKindUnknown = ''unknown''"

lemmas failure_kind_defs =
  FailureKindRuntimeOffline_def FailureKindDispatchTimeout_def FailureKindTimeout_def
  FailureKindProviderNetwork_def FailureKindSkillBundleUnavailable_def
  FailureKindProtocolError_def FailureKindWorktreeError_def FailureKindAgentError_def
  FailureKindUnknown_def

record FailurePolicy =
  fp_FailureKind :: string
  RetrySameAssignment :: bool
  ExhaustedTaskStatus :: TaskStatus

definition normalizePolicyFailureKind :: "string \<Rightarrow> string" where
  "normalizePolicyFailureKind raw =
     (let k = ToLower (TrimSpace raw) in
      if k = FailureKindRuntimeOffline then FailureKindRuntimeOffline
      else if k = FailureKindDispatchTimeout then FailureKindDispatchTimeout
      else if k = FailureKindTimeout then FailureKindTimeout
      else if k = FailureKindProviderNetwork then FailureKindProviderNetwork
      else if k = FailureKindSkillBundleUnavailable then FailureKindSkillBundleUnavailable
      else if k = FailureKindProtocolError then FailureKindProtocolError
      else if k = FailureKindWorktreeError then FailureKindWorktreeError
      else if k = FailureKindAgentError then FailureKindAgentError
      else FailureKindUnknown)"

definition retryWithinBudget :: "int \<Rightarrow> int \<Rightarrow> bool" where
  "retryWithinBudget attempts maxAttempts \<longleftrightarrow>
     attempts > 0 \<and> maxAttempts > 0 \<and> attempts < maxAttempts"

definition EvaluateFailurePolicy :: "string \<Rightarrow> int \<Rightarrow> int \<Rightarrow> FailurePolicy" where
  "EvaluateFailurePolicy failureKind attempts maxAttempts =
     (let kind = normalizePolicyFailureKind failureKind;
          policy = \<lparr>fp_FailureKind = kind, RetrySameAssignment = False,
                    ExhaustedTaskStatus = TaskStatusFailed\<rparr> in
      if kind = FailureKindRuntimeOffline \<or> kind = FailureKindDispatchTimeout then
        policy\<lparr>ExhaustedTaskStatus := TaskStatusBlocked,
               RetrySameAssignment := retryWithinBudget attempts maxAttempts\<rparr>
      else if kind = FailureKindTimeout \<or> kind = FailureKindProviderNetwork \<or>
              kind = FailureKindSkillBundleUnavailable then
        policy\<lparr>RetrySameAssignment := retryWithinBudget attempts maxAttempts\<rparr>
      else policy)"

section \<open>Properties\<close>

definition known_failure_kinds :: "string list" where
  "known_failure_kinds =
     [FailureKindRuntimeOffline, FailureKindDispatchTimeout, FailureKindTimeout,
      FailureKindProviderNetwork, FailureKindSkillBundleUnavailable, FailureKindProtocolError,
      FailureKindWorktreeError, FailureKindAgentError, FailureKindUnknown]"

definition retryable_kind :: "string \<Rightarrow> bool" where
  "retryable_kind k \<longleftrightarrow>
     k \<in> {FailureKindRuntimeOffline, FailureKindDispatchTimeout, FailureKindTimeout,
          FailureKindProviderNetwork, FailureKindSkillBundleUnavailable}"

lemma normalize_known: "normalizePolicyFailureKind raw \<in> set known_failure_kinds"
  by (simp add: normalizePolicyFailureKind_def known_failure_kinds_def Let_def)

lemma normalize_fixes_known:
  "k \<in> set known_failure_kinds \<Longrightarrow> normalizePolicyFailureKind k = k"
proof -
  have "list_all (\<lambda>k. normalizePolicyFailureKind k = k) known_failure_kinds"
    by code_simp
  then show "k \<in> set known_failure_kinds \<Longrightarrow> normalizePolicyFailureKind k = k"
    by (simp add: list_all_iff)
qed

lemma normalize_idem [simp]:
  "normalizePolicyFailureKind (normalizePolicyFailureKind raw) = normalizePolicyFailureKind raw"
  by (rule normalize_fixes_known) (rule normalize_known)

lemma retry_iff:
  "RetrySameAssignment (EvaluateFailurePolicy k a m) \<longleftrightarrow>
     retryable_kind (normalizePolicyFailureKind k) \<and> 0 < a \<and> a < m"
  by (auto simp: EvaluateFailurePolicy_def retryable_kind_def retryWithinBudget_def Let_def)

lemma exhausted_status:
  "ExhaustedTaskStatus (EvaluateFailurePolicy k a m) =
     (if normalizePolicyFailureKind k \<in> {FailureKindRuntimeOffline, FailureKindDispatchTimeout}
      then TaskStatusBlocked else TaskStatusFailed)"
  by (auto simp: EvaluateFailurePolicy_def Let_def failure_kind_defs)

lemma exhausted_status_cases:
  "ExhaustedTaskStatus (EvaluateFailurePolicy k a m) \<in> {TaskStatusBlocked, TaskStatusFailed}"
  by (simp add: exhausted_status)

text \<open>The number of attempts an assignment can get: a run that fails with attempt \<open>a\<close> is retried
  as attempt \<open>a + 1\<close>.\<close>

function attempts_from :: "string \<Rightarrow> int \<Rightarrow> int \<Rightarrow> int" where
  "attempts_from k a m =
     (if RetrySameAssignment (EvaluateFailurePolicy k a m) then attempts_from k (a + 1) m else a)"
  by pat_completeness auto
termination
  by (relation "measure (\<lambda>(k, a, m). nat (m - a))") (auto simp: retry_iff)

declare attempts_from.simps [simp del]

lemma attempts_from_retryable:
  "retryable_kind (normalizePolicyFailureKind k) \<Longrightarrow> 0 < a \<Longrightarrow> a \<le> m \<Longrightarrow> attempts_from k a m = m"
proof (induction k a m rule: attempts_from.induct)
  case (1 k a m)
  then show ?case
    by (cases "a = m") (simp_all add: attempts_from.simps [of k a m] retry_iff
        attempts_from.simps [of k m m])
qed

lemma attempts_from_fatal:
  "\<not> retryable_kind (normalizePolicyFailureKind k) \<Longrightarrow> attempts_from k a m = a"
  by (simp add: attempts_from.simps retry_iff)

end
