(* ===== verification/Execution.thy ===== *)
theory Execution
  imports RoutingRepo
begin

text \<open>
  \<open>execution.go\<close> and \<open>service/task_orchestration.go\<close>: the execution plane as the orchestrator sees it.  A
  queued run is bound to one agent task, and the task of a run can be cancelled.  \<open>execution_gateway\<close> is
  the interface the orchestrator relies on: a run has at most one task, and enqueueing it again returns
  that task and changes nothing; the interpretation \<open>gateway\<close> discharges it for \<open>TaskExecutionGateway\<close>.
  The audit columns of an agent task, notifications, events and analytics are not modelled.
\<close>

section \<open>Queries\<close>

definition isActiveAgentTaskStatus :: "string \<Rightarrow> bool" where
  "isActiveAgentTaskStatus status \<longleftrightarrow>
     status \<in> {''queued'', ''deferred'', ''dispatched'', ''waiting_local_directory'', ''running''}"

definition task_of_run :: "uuid \<Rightarrow> uuid \<Rightarrow> db \<Rightarrow> AgentTaskRow option" where
  "task_of_run ws rid s =
     find (\<lambda>q. sql_eq (q_OrchestrationRunID q) rid \<and>
       list_ex (\<lambda>a. sql_eq (ag_ID a) (q_AgentID q) \<and> sql_eq (ag_WorkspaceID a) ws) (db_agents s)) (db_tasks s)"

definition GetAgentTaskByOrchestrationRunInWorkspace :: "uuid \<Rightarrow> uuid \<Rightarrow> AgentTaskRow tx" where
  "GetAgentTaskByOrchestrationRunInWorkspace ws rid = tx_one (task_of_run ws rid)"

definition GetAgentTask :: "uuid \<Rightarrow> AgentTaskRow tx" where
  "GetAgentTask tid = tx_one (\<lambda>s. find (\<lambda>q. sql_eq (q_ID q) tid) (db_tasks s))"

text \<open>The row of \<open>LockOrchestrationRunForEnqueue\<close>, as far as the task depends on it.\<close>

record dispatch_row =
  dr_IssueID :: uuid
  dr_AgentID :: uuid
  dr_RuntimeID :: uuid
  dr_TaskPriority :: int
  dr_RunInput :: json

definition run_node :: "db \<Rightarrow> RunRow \<Rightarrow> TaskNodeRow option" where
  "run_node s run =
     find (\<lambda>n. sql_eq (t_IssueID n) (r_TaskNodeID run) \<and>
       sql_eq (t_WorkspaceID n) (r_WorkspaceID run) \<and> sql_eq (t_MissionID n) (r_MissionID run)) (db_nodes s)"

definition run_dispatchable :: "db \<Rightarrow> RunRow \<Rightarrow> bool" where
  "run_dispatchable s run \<longleftrightarrow>
     (let status = map_option t_Status (run_node s run) in
      r_Status run = RunStatusQueued \<and>
      (r_Purpose run = ''plan'' \<and> r_TaskNodeID run = None \<and>
         list_ex (\<lambda>m. mission_is (r_WorkspaceID run) (r_MissionID run) m \<and>
           m_Status m = MissionStatusDraft) (db_missions s) \<or>
       r_Purpose run = ''review'' \<and> status = Some TaskStatusReview \<or>
       r_Purpose run \<in> {''execute'', ''integrate''} \<and> status = Some TaskStatusAssigned) \<and>
      list_ex (mission_is (r_WorkspaceID run) (r_MissionID run)) (db_missions s))"

definition dispatch_assignment :: "db \<Rightarrow> RunRow \<Rightarrow> AssignmentRow option" where
  "dispatch_assignment s run =
     find (\<lambda>a. sql_eq (a_ID a) (r_AssignmentID run) \<and> sql_eq (a_WorkspaceID a) (r_WorkspaceID run) \<and>
       sql_eq (a_MissionID a) (r_MissionID run) \<and> a_TaskNodeID a = r_TaskNodeID run \<and>
       a_Status a = AssignmentStatusActive) (db_assignments s)"

definition LockOrchestrationRunForEnqueue :: "uuid \<Rightarrow> uuid \<Rightarrow> dispatch_row tx" where
  "LockOrchestrationRunForEnqueue ws rid = tx_one (\<lambda>s.
     case find (\<lambda>r. sql_eq (r_ID r) rid \<and> sql_eq (r_WorkspaceID r) ws) (db_runs s) of
       None \<Rightarrow> None
     | Some run \<Rightarrow>
         if \<not> run_dispatchable s run then None
         else (case dispatch_assignment s run of
             None \<Rightarrow> None
           | Some a \<Rightarrow> Some
               \<lparr>dr_IssueID = (if r_TaskNodeID run \<noteq> None then r_TaskNodeID run else r_MissionID run),
                dr_AgentID = a_AgentID a, dr_RuntimeID = a_RuntimeID a,
                dr_TaskPriority = (case run_node s run of None \<Rightarrow> 0 | Some n \<Rightarrow> t_Priority n),
                dr_RunInput = r_Input run\<rparr>))"

definition LockAgentForOrchestrationEnqueue :: "uuid \<Rightarrow> uuid \<Rightarrow> AgentRow tx" where
  "LockAgentForOrchestrationEnqueue ws agentID = tx_one (GetAgentInWorkspace agentID ws)"

text \<open>\<open>lock_task_owner_rows\<close> of migration 284: the agent, the issue and the runtime must exist.\<close>

definition owners_exist :: "db \<Rightarrow> uuid \<Rightarrow> uuid \<Rightarrow> uuid \<Rightarrow> bool" where
  "owners_exist s agentID issueID runtimeID \<longleftrightarrow>
     (agentID = None \<or> list_ex (\<lambda>a. ag_ID a = agentID) (db_agents s)) \<and>
     (issueID = None \<or> list_ex (\<lambda>i. i_ID i = issueID) (db_issues s)) \<and>
     (runtimeID = None \<or> list_ex (\<lambda>r. rt_ID r = runtimeID) (db_runtimes s))"

text \<open>\<open>context->>'key'\<close>, and \<open>||\<close> of two jsonb documents.\<close>

definition json_member_text :: "json option \<Rightarrow> string \<Rightarrow> pgtext" where
  "json_member_text doc key =
     (case doc of Some (JObj members) \<Rightarrow>
        (case map_of (rev members) key of
           None \<Rightarrow> None | Some JNull \<Rightarrow> None | Some (JStr v) \<Rightarrow> Some v | Some v \<Rightarrow> Some (json_marshal v))
      | _ \<Rightarrow> None)"

fun json_elements :: "json \<Rightarrow> json list" where
  "json_elements (JArr vs) = vs"
| "json_elements v = [v]"

fun json_concat :: "json \<Rightarrow> json \<Rightarrow> json" where
  "json_concat (JObj xs) (JObj ys) = JObj (filter (\<lambda>(k, v). k \<notin> fst ` set ys) xs @ ys)"
| "json_concat v w = JArr (json_elements v @ json_elements w)"

text \<open>The parameters of the insert that the queue depends on; the columns of the audit trail are left out.\<close>

record CreateAgentTaskParams =
  ct_AgentID :: uuid
  ct_RuntimeID :: uuid
  ct_IssueID :: uuid
  ct_Priority :: int
  ct_TriggerCommentID :: uuid
  ct_CoalescedCommentIds :: "uuid list"
  ct_ForceFreshSession :: bool
  ct_TaskContext :: "json option"
  ct_HeadSha :: pgtext
  ct_RerunOfTaskID :: uuid
  ct_OrchestrationRunID :: uuid

definition task_context :: "CreateAgentTaskParams \<Rightarrow> json option" where
  "task_context p =
     (let sha = (case ct_HeadSha p of None \<Rightarrow> [] | Some v \<Rightarrow> v) in
      case ct_TaskContext p of
        Some c \<Rightarrow> if sha \<noteq> [] then Some (json_concat c (JObj [(''head_sha'', JStr sha)])) else Some c
      | None \<Rightarrow> if sha \<noteq> [] then Some (JObj [(''head_sha'', JStr sha)]) else None)"

text \<open>The rows of \<open>idx_one_pending_task_per_issue_agent_v2\<close> (migration 257).\<close>

definition in_pending_index :: "AgentTaskRow \<Rightarrow> bool" where
  "in_pending_index q \<longleftrightarrow>
     q_Status q \<in> {''queued'', ''dispatched''} \<or>
     q_Status q = ''deferred'' \<and> json_member_text (q_Context q) ''channel_issue_media_pending'' = Some ''true''"

definition same_pending :: "AgentTaskRow \<Rightarrow> AgentTaskRow \<Rightarrow> bool" where
  "same_pending q r \<longleftrightarrow>
     in_pending_index q \<and> in_pending_index r \<and> sql_eq (q_IssueID q) (q_IssueID r) \<and>
     sql_eq (q_AgentID q) (q_AgentID r)"

definition new_task :: "uuid \<Rightarrow> time \<Rightarrow> CreateAgentTaskParams \<Rightarrow> AgentTaskRow" where
  "new_task tid now p =
     \<lparr>q_ID = tid, q_AgentID = ct_AgentID p, q_RuntimeID = ct_RuntimeID p, q_IssueID = ct_IssueID p,
      q_Status = ''queued'', q_Priority = ct_Priority p, q_Context = task_context p, q_CreatedAt = now,
      q_OrchestrationRunID = ct_OrchestrationRunID p, q_DispatchedAt = None, q_StartedAt = None,
      q_CompletedAt = None, q_FailureReason = None, q_Error = None, q_Result = None, q_Attempt = 1,
      q_MaxAttempts = 2, q_ParentTaskID = None, q_RetryOfTaskID = None, q_RerunOfTaskID = ct_RerunOfTaskID p,
      q_EscalationForTaskID = None, q_FireAt = None, q_PrepareLeaseExpiresAt = None,
      q_ForceFreshSession = ct_ForceFreshSession p, q_SessionID = None, q_WorkDir = None, q_BranchName = None,
      q_SessionRolloutMissing = False, q_RetiredSessionID = None, q_WaitReason = None,
      q_TriggerCommentID = ct_TriggerCommentID p, q_CoalescedCommentIds = ct_CoalescedCommentIds p,
      q_DeliveredCommentIds = []\<rparr>"

text \<open>The insert of a task row, under the unique indexes of migrations 257 and 324.\<close>

definition insert_task :: "AgentTaskRow \<Rightarrow> AgentTaskRow tx" where
  "insert_task row =
     tx_insert db_tasks (\<lambda>rows s. s\<lparr>db_tasks := rows\<rparr>)
       [(''agent_task_queue_pkey'', \<lambda>q. sql_eq (q_ID q) (q_ID row)),
        (''idx_agent_task_orchestration_run_unique'',
           \<lambda>q. sql_eq (q_OrchestrationRunID q) (q_OrchestrationRunID row)),
        (''idx_one_pending_task_per_issue_agent_v2'', \<lambda>q. same_pending q row)] row"

definition CreateAgentTask :: "env \<Rightarrow> CreateAgentTaskParams \<Rightarrow> AgentTaskRow tx" where
  "CreateAgentTask \<epsilon> p =
     tx_bind (tx_query (\<lambda>s. owners_exist s (ct_AgentID p) (ct_IssueID p) (ct_RuntimeID p))) (\<lambda>fenced.
     tx_bind (tx_guard fenced ErrNoRows) (\<lambda>_.
     tx_bind (draw_uuid \<epsilon>) (\<lambda>tid. insert_task (new_task tid (env_now \<epsilon>) p))))"

definition textValue :: "string \<Rightarrow> pgtext" where
  "textValue value = (if value = [] then None else Some value)"

definition CancelAgentTaskWithReason :: "env \<Rightarrow> uuid \<Rightarrow> pgtext \<Rightarrow> pgtext \<Rightarrow> AgentTaskRow tx" where
  "CancelAgentTaskWithReason \<epsilon> tid err failureReason =
     tx_update db_tasks (\<lambda>rows s. s\<lparr>db_tasks := rows\<rparr>)
       (\<lambda>q. sql_eq (q_ID q) tid \<and> isActiveAgentTaskStatus (q_Status q))
       (\<lambda>q. q\<lparr>q_Status := ''cancelled'', q_CompletedAt := Some (env_now \<epsilon>), q_Error := err,
              q_FailureReason := failureReason, q_PrepareLeaseExpiresAt := None\<rparr>)"

section \<open>The gateway\<close>

record EnqueueExecutionResult =
  eer_AgentTaskID :: uuid
  eer_Status :: string
  eer_Idempotent :: bool

definition bound_to :: "AgentTaskRow \<Rightarrow> bool \<Rightarrow> EnqueueExecutionResult" where
  "bound_to task idempotent =
     \<lparr>eer_AgentTaskID = q_ID task, eer_Status = q_Status task, eer_Idempotent = idempotent\<rparr>"

definition orchestration_task :: "dispatch_row \<Rightarrow> uuid \<Rightarrow> CreateAgentTaskParams" where
  "orchestration_task dispatch rid =
     \<lparr>ct_AgentID = dr_AgentID dispatch, ct_RuntimeID = dr_RuntimeID dispatch,
      ct_IssueID = dr_IssueID dispatch, ct_Priority = dr_TaskPriority dispatch, ct_TriggerCommentID = None,
      ct_CoalescedCommentIds = [], ct_ForceFreshSession = True,
      ct_TaskContext = Some (dr_RunInput dispatch), ct_HeadSha = None, ct_RerunOfTaskID = None,
      ct_OrchestrationRunID = rid\<rparr>"

text \<open>The second look for the task follows the lock of the run; without a concurrent copy of the
  transaction it finds what the first one did.\<close>

definition enqueue_new :: "env \<Rightarrow> uuid \<Rightarrow> uuid \<Rightarrow> EnqueueExecutionResult tx" where
  "enqueue_new \<epsilon> ws rid =
     tx_bind (tx_absent (LockOrchestrationRunForEnqueue ws rid)) (\<lambda>found.
     case found of None \<Rightarrow> tx_fail ErrOrchestrationRunNotDispatchable | Some dispatch \<Rightarrow>
     tx_bind (tx_absent (GetAgentTaskByOrchestrationRunInWorkspace ws rid)) (\<lambda>existing.
     case existing of Some task \<Rightarrow> tx_return (bound_to task True) | None \<Rightarrow>
     tx_bind (tx_absent (LockAgentForOrchestrationEnqueue ws (dr_AgentID dispatch))) (\<lambda>found.
     case found of None \<Rightarrow> tx_fail ErrOrchestrationRunNotDispatchable | Some agent \<Rightarrow>
     tx_bind (tx_guard (ag_ArchivedAt agent = None \<and> ag_RuntimeID agent \<noteq> None \<and>
         ag_RuntimeID agent = dr_RuntimeID dispatch) ErrOrchestrationRunNotDispatchable) (\<lambda>_.
     tx_bind (tx_absent (GetIssueInWorkspace ws (dr_IssueID dispatch))) (\<lambda>found.
     tx_bind (tx_guard (found \<noteq> None) ErrOrchestrationRunNotDispatchable) (\<lambda>_.
     tx_bind (tx_wrap ''enqueue orchestration run: create agent task'' (CreateAgentTask \<epsilon>
       (orchestration_task dispatch rid))) (\<lambda>task.
     tx_return (bound_to task False))))))))"

definition EnqueueOrchestrationRun :: "env \<Rightarrow> uuid \<Rightarrow> uuid \<Rightarrow> uuid \<Rightarrow> EnqueueExecutionResult tx" where
  "EnqueueOrchestrationRun \<epsilon> ws rid actor =
     tx_bind (tx_guard (validUUID ws \<and> validUUID rid \<and> validUUID actor) ErrOrchestrationRunNotDispatchable) (\<lambda>_.
     tx_bind (tx_absent (GetAgentTaskByOrchestrationRunInWorkspace ws rid)) (\<lambda>existing.
     case existing of
       Some task \<Rightarrow> tx_return (bound_to task True)
     | None \<Rightarrow> enqueue_new \<epsilon> ws rid))"

text \<open>\<open>TaskExecutionGateway.Cancel\<close> with \<open>CancelTaskWithReason\<close>, whose failure reason is never empty here.\<close>

definition CancelExecution :: "env \<Rightarrow> uuid \<Rightarrow> string \<Rightarrow> AgentTaskRow tx" where
  "CancelExecution \<epsilon> tid reason =
     tx_bind (tx_absent (GetAgentTask tid)) (\<lambda>found.
     case found of None \<Rightarrow> tx_fail ErrNotOrchestrationTask | Some existing \<Rightarrow>
     tx_bind (tx_guard (q_OrchestrationRunID existing \<noteq> None) ErrNotOrchestrationTask) (\<lambda>_.
     tx_bind (tx_absent (CancelAgentTaskWithReason \<epsilon> tid (textValue reason)
       (textValue ''orchestration_cancelled''))) (\<lambda>cancelled.
     case cancelled of
       Some task \<Rightarrow> tx_return task
     | None \<Rightarrow> tx_wrap ''cancel task'' (GetAgentTask tid))))"

section \<open>The contract of the gateway\<close>

locale execution_gateway =
  fixes Enqueue :: "uuid \<Rightarrow> uuid \<Rightarrow> uuid \<Rightarrow> EnqueueExecutionResult tx"
    and task_of :: "uuid \<Rightarrow> uuid \<Rightarrow> db \<Rightarrow> AgentTaskRow option"
    and keeps :: "db \<Rightarrow> db \<Rightarrow> bool" and single :: "db \<Rightarrow> bool"
  assumes enqueue_binds: "Enqueue ws rid actor s = Inr (r, t) \<Longrightarrow>
      \<exists>task. task_of ws rid t = Some task \<and> q_ID task = eer_AgentTaskID r"
    and enqueue_again: "task_of ws rid s = Some task \<Longrightarrow> Enqueue ws rid actor s = Inr (r, t) \<Longrightarrow>
      t = s \<and> r = bound_to task True"
    and keeps_task: "keeps s t \<Longrightarrow> single t \<Longrightarrow> task_of ws rid s = Some task \<Longrightarrow>
      \<exists>task'. task_of ws rid t = Some task' \<and> q_ID task' = q_ID task"
begin

text \<open>However often and in whatever later state a run is enqueued, it is the same task.\<close>

lemma same_task:
  assumes "Enqueue ws rid actor s = Inr (r, t)" and "keeps t u" and "single u"
    and "Enqueue ws rid actor' u = Inr (r', v)"
  shows "eer_AgentTaskID r' = eer_AgentTaskID r \<and> v = u \<and> eer_Idempotent r'"
proof -
  obtain task where "task_of ws rid t = Some task" "q_ID task = eer_AgentTaskID r"
    using enqueue_binds [OF assms(1)] by blast
  then obtain task' where t': "task_of ws rid u = Some task'" "q_ID task' = eer_AgentTaskID r"
    using keeps_task [OF assms(2,3)] by metis
  show ?thesis using enqueue_again [OF t'(1) assms(4)] t'(2) by (simp add: bound_to_def)
qed

end

text \<open>Agents stay in their workspaces, and tasks stay with their ids, agents and runs; no two tasks share
  a run.\<close>

definition same_task_row :: "AgentTaskRow \<Rightarrow> AgentTaskRow \<Rightarrow> bool" where
  "same_task_row q q' \<longleftrightarrow>
     q_ID q' = q_ID q \<and> q_AgentID q' = q_AgentID q \<and> q_OrchestrationRunID q' = q_OrchestrationRunID q"

definition agent_places :: "db \<Rightarrow> (uuid \<times> uuid) list" where
  "agent_places s = map (\<lambda>a. (ag_ID a, ag_WorkspaceID a)) (db_agents s)"

definition tasks_kept :: "db \<Rightarrow> db \<Rightarrow> bool" where
  "tasks_kept s t \<longleftrightarrow>
     set (agent_places s) \<subseteq> set (agent_places t) \<and> rows_evolve same_task_row (db_tasks s) (db_tasks t)"

definition run_tasks :: "db \<Rightarrow> uuid list" where
  "run_tasks s = filter (\<lambda>u. u \<noteq> None) (map q_OrchestrationRunID (db_tasks s))"

definition single_tasks :: "db \<Rightarrow> bool" where
  "single_tasks s \<longleftrightarrow> distinct (run_tasks s)"

lemma same_task_row_refl [simp]: "same_task_row q q"
  by (simp add: same_task_row_def)

interpretation kept_tasks: tx_preorder tasks_kept
  by unfold_locales
    (auto simp: tasks_kept_def intro: rows_evolve_refl rows_evolve_trans [rotated 2] simp: same_task_row_def)

lemma single_task:
  assumes "single_tasks s" and "q \<in> set (db_tasks s)" and "q' \<in> set (db_tasks s)"
    and "sql_eq (q_OrchestrationRunID q) rid" and "sql_eq (q_OrchestrationRunID q') rid"
  shows "q' = q"
proof -
  have "distinct (map q_OrchestrationRunID (filter (\<lambda>q. q_OrchestrationRunID q \<noteq> None) (db_tasks s)))"
    using assms(1) by (simp add: single_tasks_def run_tasks_def filter_map comp_def)
  moreover have "q_OrchestrationRunID q = rid" "q_OrchestrationRunID q' = rid" "rid \<noteq> None"
    using assms(4,5) by (auto simp: sql_eq_def)
  ultimately show ?thesis using assms(2,3) by (auto simp: distinct_map inj_on_def)
qed

lemma list_ex_places:
  "list_ex (\<lambda>a. sql_eq (ag_ID a) agent \<and> sql_eq (ag_WorkspaceID a) ws) (db_agents s) \<longleftrightarrow>
     agent \<noteq> None \<and> ws \<noteq> None \<and> (agent, ws) \<in> set (agent_places s)"
  unfolding list_ex_iff agent_places_def sql_eq_def set_map image_iff prod.inject by metis

lemma task_of_run_Some:
  "task_of_run ws rid s = Some q \<Longrightarrow> q \<in> set (db_tasks s) \<and> sql_eq (q_OrchestrationRunID q) rid \<and>
     ws \<noteq> None \<and> q_AgentID q \<noteq> None \<and> (q_AgentID q, ws) \<in> set (agent_places s)"
  unfolding task_of_run_def find_Some_iff list_ex_places by auto

lemma task_of_run_kept:
  assumes "tasks_kept s t" and "single_tasks t" and "task_of_run ws rid s = Some task"
  shows "\<exists>task'. task_of_run ws rid t = Some task' \<and> q_ID task' = q_ID task"
proof -
  note task = task_of_run_Some [OF assms(3)]
  obtain task' where t': "task' \<in> set (db_tasks t)" "same_task_row task task'"
    using assms(1) task by (auto simp: tasks_kept_def elim: rows_evolve_member)
  have "q_AgentID task' \<noteq> None \<and> ws \<noteq> None \<and> (q_AgentID task', ws) \<in> set (agent_places t)"
    using assms(1) task t'(2) by (auto simp: tasks_kept_def same_task_row_def)
  then have "task_of_run ws rid t \<noteq> None"
    using t' task unfolding task_of_run_def find_None_iff list_ex_places
    by (auto simp: same_task_row_def intro!: exI [of _ task'])
  then obtain q where "task_of_run ws rid t = Some q" by auto
  moreover have "q = task'"
    using single_task [OF assms(2) t'(1), of q rid] task_of_run_Some [OF calculation] task t'(2)
    by (simp add: same_task_row_def)
  ultimately show ?thesis using t'(2) by (simp add: same_task_row_def)
qed

lemma enqueue_found:
  "task_of_run ws rid s = Some task \<Longrightarrow> EnqueueOrchestrationRun \<epsilon> ws rid actor s = Inr (r, t) \<Longrightarrow>
     t = s \<and> r = bound_to task True"
  by (auto simp: EnqueueOrchestrationRun_def GetAgentTaskByOrchestrationRunInWorkspace_def tx_one_def)

lemma CreateAgentTask_Inr:
  assumes "CreateAgentTask \<epsilon> p s = Inr (task, t)"
  shows "db_tasks t = db_tasks s @ [task]" "db_agents t = db_agents s"
    "q_OrchestrationRunID task = ct_OrchestrationRunID p" "q_AgentID task = ct_AgentID p"
    "q_Status task = ''queued''"
    "list_all (\<lambda>q. \<not> sql_eq (q_OrchestrationRunID q) (ct_OrchestrationRunID p)) (db_tasks s)"
  using assms by (auto simp: CreateAgentTask_def insert_task_def new_task_def draw_uuid_def tx_insert_Inr list_all_iff)

lemma enqueue_binds:
  assumes "EnqueueOrchestrationRun \<epsilon> ws rid actor s = Inr (r, t)"
  shows "\<exists>task. task_of_run ws rid t = Some task \<and> q_ID task = eer_AgentTaskID r"
proof (cases "task_of_run ws rid s")
  case (Some task)
  then show ?thesis using enqueue_found [OF Some assms] by (simp add: bound_to_def)
next
  case None
  have rid: "rid \<noteq> None" using assms by (auto simp: EnqueueOrchestrationRun_def validUUID_def split: option.splits)
  have "enqueue_new \<epsilon> ws rid s = Inr (r, t)"
    using assms None by (auto simp: EnqueueOrchestrationRun_def GetAgentTaskByOrchestrationRunInWorkspace_def)
  then obtain dispatch agent task where agent: "GetAgentInWorkspace (dr_AgentID dispatch) ws s = Some agent"
      and c: "CreateAgentTask \<epsilon> (orchestration_task dispatch rid) s = Inr (task, t)"
      and r: "r = bound_to task False"
    using None by (auto simp: enqueue_new_def GetAgentTaskByOrchestrationRunInWorkspace_def
        LockOrchestrationRunForEnqueue_def LockAgentForOrchestrationEnqueue_def GetIssueInWorkspace_def
        split: option.splits)
  have "list_ex (\<lambda>a. sql_eq (ag_ID a) (dr_AgentID dispatch) \<and> sql_eq (ag_WorkspaceID a) ws) (db_agents s)"
    using agent by (auto simp: GetAgentInWorkspace_def find_Some_iff list_ex_iff)
  then have "task_of_run ws rid t = Some task"
    using CreateAgentTask_Inr [OF c] rid None unfolding task_of_run_def
    by (auto simp: orchestration_task_def find_append_None find_None_iff list_all_iff sql_eq_def
        intro!: find_append_new)
  then show ?thesis using r by (auto simp: bound_to_def)
qed

interpretation gateway: execution_gateway "EnqueueOrchestrationRun \<epsilon>" task_of_run tasks_kept single_tasks for \<epsilon>
  by unfold_locales (fact enqueue_binds enqueue_found task_of_run_kept)+

end
