(* ===== verification/Advance.thy ===== *)
theory Advance
  imports Mailbox Lifecycle FailurePolicy Budget Execution
begin

text \<open>
  \<open>advance.go\<close> and \<open>repository_advance.go\<close>: the orchestrator's step on a mission.  One transaction
  retries failed runs, propagates readiness, dispatches ready nodes, requests reviews and settles the
  mission's status.  The local variables of the Go function are the record \<open>advance_state\<close>; each phase
  is a loop over a list whose step may stop the whole command because a run does not fit the budget
  (\<open>OverBudget\<close>).  After the commit the queued runs are enqueued through the execution gateway.
\<close>

section \<open>Parameters, result and local state\<close>

definition defaultDispatchTimeout :: int where "defaultDispatchTimeout = 60 * second"
definition defaultRunTimeout :: int where "defaultRunTimeout = 30 * 60 * second"

record AdvanceMissionParams =
  ap_WorkspaceID :: uuid
  ap_MissionID :: uuid
  ap_CorrelationID :: uuid
  ap_ObservedAt :: time
  ap_DispatchWindow :: int
  ap_RunTimeout :: int

record AdvanceMissionResult =
  amr_Mission :: MissionRow
  amr_TaskNodes :: "TaskNodeRow list"
  amr_CreatedRuns :: "RunRow list"
  amr_RunsToEnqueue :: "RunRow list"
  amr_Activities :: "ActivityRow list"
  amr_ActorID :: uuid
  amr_Changed :: bool

text \<open>What the phases read: the locked mission, its limits and grants, and the rows loaded before them.\<close>

record advance_input =
  ax_params :: AdvanceMissionParams
  ax_mission :: MissionRow
  ax_limits :: PlanLimits
  ax_allowance :: BudgetAllowance
  ax_dependencies :: "DependencyRow list"
  ax_artifacts :: "ArtifactRow list"
  ax_verdicts :: "VerdictRow list"

record advance_state =
  av_nodes :: "TaskNodeRow list"
  av_assignments :: "AssignmentRow list"
  av_runs :: "RunRow list"
  av_usage :: BudgetUsage
  av_created :: "RunRow list"
  av_activities :: "ActivityRow list"
  av_changed :: bool
  av_activeRuns :: int

datatype advance_outcome = Advancing advance_state | OverBudget advance_state BudgetDecision

fun advance_each ::
    "('x \<Rightarrow> advance_state \<Rightarrow> advance_outcome tx) \<Rightarrow> 'x list \<Rightarrow> advance_state \<Rightarrow> advance_outcome tx" where
  "advance_each step [] st = tx_return (Advancing st)"
| "advance_each step (x # xs) st =
     tx_bind (step x st) (\<lambda>out.
       case out of Advancing st' \<Rightarrow> advance_each step xs st' | OverBudget st' d \<Rightarrow> tx_return out)"

definition advance_then ::
    "advance_outcome tx \<Rightarrow> (advance_state \<Rightarrow> advance_outcome tx) \<Rightarrow> advance_outcome tx" where
  "advance_then act next =
     tx_bind act (\<lambda>out. case out of Advancing st \<Rightarrow> next st | OverBudget st d \<Rightarrow> tx_return out)"

section \<open>Helpers\<close>

text \<open>Go's \<open>int32\<close> after an arithmetic result wrapped around.\<close>

definition i32 :: "int \<Rightarrow> int" where
  "i32 x = (x + 2147483648) mod 4294967296 - 2147483648"

definition budgetEstimateForNode :: "TaskNodeRow \<Rightarrow> BudgetEstimate" where
  "budgetEstimateForNode n =
     \<lparr>est_Tokens = t_BudgetEstimateTokens n, est_CostUSDTicks = t_BudgetEstimateCostUsdTicks n\<rparr>"

fun latest_attempt :: "RunRow option \<Rightarrow> uuid \<Rightarrow> RunRow list \<Rightarrow> RunRow option" where
  "latest_attempt best aid [] = best"
| "latest_attempt best aid (r # rs) =
     latest_attempt
       (if r_AssignmentID r = aid \<and> (case best of None \<Rightarrow> True | Some b \<Rightarrow> r_Attempt r > r_Attempt b)
        then Some r else best) aid rs"

definition latestRunForAssignment :: "RunRow list \<Rightarrow> uuid \<Rightarrow> RunRow option" where
  "latestRunForAssignment runs aid = latest_attempt None aid runs"

definition latestWorkRun :: "RunRow list \<Rightarrow> uuid \<Rightarrow> RunRow option" where
  "latestWorkRun runs nodeID =
     find_last (\<lambda>r. r_TaskNodeID r = nodeID \<and> r_Purpose r \<noteq> ''review'') runs"

definition latestArtifactForRun :: "ArtifactRow list \<Rightarrow> uuid \<Rightarrow> ArtifactRow option" where
  "latestArtifactForRun artifacts runID = find_last (\<lambda>a. ar_RunID a = runID) artifacts"

definition findNode :: "TaskNodeRow list \<Rightarrow> uuid \<Rightarrow> TaskNodeRow option" where
  "findNode nodes nid = find (\<lambda>n. t_IssueID n = nid) nodes"

definition findAssignment :: "AssignmentRow list \<Rightarrow> uuid \<Rightarrow> AssignmentRow option" where
  "findAssignment items aid = find (\<lambda>a. a_ID a = aid) items"

definition hasActiveAssignment :: "AssignmentRow list \<Rightarrow> uuid \<Rightarrow> Duty \<Rightarrow> bool" where
  "hasActiveAssignment items nodeID role =
     list_ex (\<lambda>a. a_TaskNodeID a = nodeID \<and> a_Role a = role \<and> a_Status a = AssignmentStatusActive) items"

fun next_sequence :: "int \<Rightarrow> uuid \<Rightarrow> uuid \<Rightarrow> Duty \<Rightarrow> AssignmentRow list \<Rightarrow> int \<times> uuid" where
  "next_sequence highest previous nodeID role [] = (i32 (highest + 1), previous)"
| "next_sequence highest previous nodeID role (a # as) =
     (if a_TaskNodeID a = nodeID \<and> a_Role a = role \<and> a_Sequence a \<ge> highest
      then next_sequence (a_Sequence a) (a_ID a) nodeID role as
      else next_sequence highest previous nodeID role as)"

definition nextAssignmentSequence :: "AssignmentRow list \<Rightarrow> uuid \<Rightarrow> Duty \<Rightarrow> int \<times> uuid" where
  "nextAssignmentSequence items nodeID role = next_sequence 0 None nodeID role items"

definition countActiveRuns :: "RunRow list \<Rightarrow> int" where
  "countActiveRuns runs = int (length (filter (\<lambda>r. isActiveRunStatus (r_Status r)) runs))"

definition allNodesHaveStatus :: "TaskNodeRow list \<Rightarrow> TaskStatus \<Rightarrow> bool" where
  "allNodesHaveStatus nodes status \<longleftrightarrow> nodes \<noteq> [] \<and> list_all (\<lambda>n. t_Status n = status) nodes"

definition anyNodeHasStatus :: "TaskNodeRow list \<Rightarrow> TaskStatus list \<Rightarrow> bool" where
  "anyNodeHasStatus nodes statuses = list_ex (\<lambda>n. t_Status n \<in> set statuses) nodes"

definition workRunInput ::
    "TaskNodeRow \<Rightarrow> uuid list \<Rightarrow> ArtifactRow list \<Rightarrow> VerdictRow list \<Rightarrow> json" where
  "workRunInput node dependencyIDs artifacts verdicts =
     (let approved = (\<lambda>a. list_ex (\<lambda>v. v_Decision v = ''approved'' \<and> v_ArtifactID v = ar_ID a) verdicts);
          inputs = sort_key (\<lambda>a. uuidText (ar_ID a))
            (filter (\<lambda>a. ar_TaskNodeID a \<in> set dependencyIDs \<and> approved a) artifacts) in
      JObj [(''acceptance_criteria'', json_strings (t_AcceptanceCriteria node)),
            (''dependency_artifacts'', JArr (map (\<lambda>a. JObj
               [(''artifact_id'', JStr (uuidText (ar_ID a))),
                (''kind'', JStr (ArtifactKind_String (ar_Kind a))), (''uri'', JStr (ar_Uri a))]) inputs)),
            (''node_key'', JStr (t_NodeKey node))])"

definition dependency_ids :: "advance_input \<Rightarrow> uuid \<Rightarrow> uuid list" where
  "dependency_ids x nid = map d_DependsOnIssueID (filter (\<lambda>d. d_IssueID d = nid) (ax_dependencies x))"

definition RoutingSelectionResult_json :: "RoutingSelectionResult \<Rightarrow> json" where
  "RoutingSelectionResult_json r =
     JObj ([(''selection_version'', JStr (rr_SelectionVersion r)),
            (''snapshot_hash'', JStr (rr_SnapshotHash r))] @ selected_json (rr_Selected r) @
           [(''evaluations'', if rr_Evaluations r = [] then JNull
                            else JArr (map evaluation_json (rr_Evaluations r))),
            (''evidence_hash'', JStr (rr_EvidenceHash r))])"

definition BudgetDecision_json :: "BudgetDecision \<Rightarrow> json" where
  "BudgetDecision_json d =
     JObj [(''Allowed'', JBool (Allowed d)), (''Status'', JStr (bd_Status d)),
           (''Dimension'', JStr (Dimension d)), (''Limit'', JNum (Limit d)),
           (''Consumed'', JNum (Consumed d)), (''Reserved'', JNum (Reserved d)),
           (''Candidate'', JNum (Candidate d)), (''Effective'', JNum (Effective d))]"

text \<open>The state transitions the phases share: a node's status, an issue's status, an activity.\<close>

definition x_ws :: "advance_input \<Rightarrow> uuid" where "x_ws x = ap_WorkspaceID (ax_params x)"
definition x_mid :: "advance_input \<Rightarrow> uuid" where "x_mid x = ap_MissionID (ax_params x)"

definition move_node ::
    "env \<Rightarrow> advance_input \<Rightarrow> string \<Rightarrow> TaskNodeRow \<Rightarrow> TaskStatus \<Rightarrow> pgtext \<Rightarrow> TaskNodeRow tx" where
  "move_node \<epsilon> x msg node target reason =
     tx_wrap msg (TransitionTaskNodeState \<epsilon> (x_ws x) (x_mid x) (t_IssueID node) target reason
       (t_Status node))"

definition task_activity ::
    "env \<Rightarrow> advance_input \<Rightarrow> uuid \<Rightarrow> string \<Rightarrow> uuid \<Rightarrow> string \<Rightarrow> json \<Rightarrow> ActivityRow tx" where
  "task_activity \<epsilon> x nid typ causation key payload =
     createAutomaticActivity \<epsilon> (ax_mission x) nid None typ ''task_node'' nid causation
       (ap_CorrelationID (ax_params x)) key payload"

definition run_queued_activity ::
    "env \<Rightarrow> advance_input \<Rightarrow> RunRow \<Rightarrow> json \<Rightarrow> ActivityRow tx" where
  "run_queued_activity \<epsilon> x run payload =
     createAutomaticActivity \<epsilon> (ax_mission x) (r_TaskNodeID run) (r_ID run) ''run.queued'' ''run'' (r_ID run)
       (r_ID run) (ap_CorrelationID (ax_params x)) (''run:'' @ uuidText (r_ID run) @ '':queued'') payload"

text \<open>\<open>updateNode\<close>: the row of the same id is replaced.\<close>

definition update_av_node :: "TaskNodeRow \<Rightarrow> advance_state \<Rightarrow> advance_state" where
  "update_av_node updated st =
     st\<lparr>av_nodes := replace_first (\<lambda>n. t_IssueID n = t_IssueID updated) updated (av_nodes st)\<rparr>"

definition logged :: "ActivityRow list \<Rightarrow> advance_state \<Rightarrow> advance_state" where
  "logged acts st = st\<lparr>av_activities := av_activities st @ acts, av_changed := True\<rparr>"

text \<open>A run was created: it is appended, and its estimate reserved.\<close>

definition with_run :: "RunRow \<Rightarrow> BudgetEstimate \<Rightarrow> advance_state \<Rightarrow> advance_state" where
  "with_run run estimate st =
     st\<lparr>av_runs := av_runs st @ [run], av_created := av_created st @ [run],
        av_usage := AddBudgetReservation (av_usage st) estimate\<rparr>"

definition admission :: "advance_input \<Rightarrow> advance_state \<Rightarrow> BudgetEstimate \<Rightarrow> BudgetDecision" where
  "admission x st estimate =
     EvaluateBudgetAdmission (Budget (ax_limits x)) (av_usage st) (ax_allowance x) estimate"

section \<open>Retry\<close>

text \<open>A failed run is a technical fact: it is retried on the same assignment until the attempts of the
  mission's limits are used up.\<close>

definition retry_run ::
    "env \<Rightarrow> advance_input \<Rightarrow> AssignmentRow \<Rightarrow> RunRow \<Rightarrow> advance_state \<Rightarrow> advance_outcome tx" where
  "retry_run \<epsilon> x assignment latest st =
     (case findNode (av_nodes st) (a_TaskNodeID assignment) of
        None \<Rightarrow> tx_fail (Errorf ''advance mission: retry task node is missing'')
      | Some node \<Rightarrow>
          let estimate = budgetEstimateForNode node; decision = admission x st estimate in
          if \<not> Allowed decision then tx_return (OverBudget st decision)
          else
            tx_bind (tx_wrap ''advance mission: create retry run'' (CreateOrchestrationRun \<epsilon> (x_ws x) (x_mid x)
              (a_TaskNodeID assignment) (a_ID assignment) (r_Purpose latest) (i32 (r_Attempt latest + 1))
              (r_Input latest) (r_ID latest)
              (Some (ap_ObservedAt (ax_params x) + ap_DispatchWindow (ax_params x)))
              (i32 (ap_RunTimeout (ax_params x) div second)))) (\<lambda>retry.
            tx_bind (run_queued_activity \<epsilon> x retry
              (JObj [(''attempt'', JNum (r_Attempt retry)),
                     (''retry_of_id'', JStr (uuidText (r_ID latest)))])) (\<lambda>activity.
            tx_return (Advancing (logged [activity] (with_run retry estimate st))))))"

definition exhaust_assignment ::
    "env \<Rightarrow> advance_input \<Rightarrow> AssignmentRow \<Rightarrow> RunRow \<Rightarrow> TaskStatus \<Rightarrow> advance_state \<Rightarrow> advance_outcome tx" where
  "exhaust_assignment \<epsilon> x assignment latest target st =
     (case findNode (av_nodes st) (a_TaskNodeID assignment) of
        None \<Rightarrow> tx_return (Advancing st)
      | Some node \<Rightarrow>
          if isTerminalTaskStatus (t_Status node) then tx_return (Advancing st)
          else
            let blockReason = (if target = TaskStatusBlocked
                               then textValue (text_String (r_FailureMessage latest)) else None) in
            tx_bind (move_node \<epsilon> x ''advance mission: exhaust task attempts'' node target blockReason)
              (\<lambda>updated.
            tx_bind (tx_wrap ''advance mission: update exhausted task issue''
              (UpdateIssueStatus (x_ws x) (t_IssueID updated) ''blocked'')) (\<lambda>_.
            tx_bind (tx_wrap ''advance mission: revoke exhausted assignment''
              (EndOrchestrationAssignment \<epsilon> (x_ws x) (x_mid x) (a_ID assignment) AssignmentStatusRevoked))
              (\<lambda>_.
            tx_bind (task_activity \<epsilon> x (t_IssueID updated)
              (if target = TaskStatusBlocked then ''task.blocked'' else ''task.failed'') (r_ID latest)
              (''task:'' @ uuidText (t_IssueID updated) @ '':'' @ TaskStatus_String target @ '':attempts'')
              (JObj [(''failure_kind'', JStr (text_String (r_FailureKind latest)))])) (\<lambda>activity.
            tx_return (Advancing (logged [activity] (update_av_node updated st))))))))"

definition retry_step ::
    "env \<Rightarrow> advance_input \<Rightarrow> AssignmentRow \<Rightarrow> advance_state \<Rightarrow> advance_outcome tx" where
  "retry_step \<epsilon> x assignment st =
     (if a_Status assignment \<noteq> AssignmentStatusActive then tx_return (Advancing st)
      else case latestRunForAssignment (av_runs st) (a_ID assignment) of
        None \<Rightarrow> tx_return (Advancing st)
      | Some latest \<Rightarrow>
          if r_Status latest \<noteq> RunStatusFailed then tx_return (Advancing st)
          else
            let policy = EvaluateFailurePolicy (text_String (r_FailureKind latest)) (r_Attempt latest)
                           (MaxTaskAttempts (ax_limits x)) in
            if RetrySameAssignment policy then retry_run \<epsilon> x assignment latest st
            else exhaust_assignment \<epsilon> x assignment latest (ExhaustedTaskStatus policy) st)"

section \<open>Readiness\<close>

text \<open>The loop over a node's dependencies: whether all are completed, and the first that cannot be
  (the loop stops there).\<close>

fun scan_dependencies :: "TaskNodeRow list \<Rightarrow> bool \<Rightarrow> uuid list \<Rightarrow> bool \<times> uuid" where
  "scan_dependencies nodes allCompleted [] = (allCompleted, None)"
| "scan_dependencies nodes allCompleted (d # ds) =
     (case findNode nodes d of
        None \<Rightarrow> scan_dependencies nodes False ds
      | Some n \<Rightarrow>
          (if t_Status n \<in> {TaskStatusFailed, TaskStatusBlocked, TaskStatusCancelled} then (False, d)
           else scan_dependencies nodes (allCompleted \<and> t_Status n = TaskStatusCompleted) ds))"

definition ready_step :: "env \<Rightarrow> advance_input \<Rightarrow> nat \<Rightarrow> advance_state \<Rightarrow> advance_outcome tx" where
  "ready_step \<epsilon> x index st =
     (let node = av_nodes st ! index in
      if t_Status node \<noteq> TaskStatusPending \<and> t_Status node \<noteq> TaskStatusRework
      then tx_return (Advancing st)
      else case scan_dependencies (av_nodes st) True (dependency_ids x (t_IssueID node)) of
        (allCompleted, failedDependency) \<Rightarrow>
          if failedDependency = None \<and> \<not> allCompleted then tx_return (Advancing st)
          else
            let blocked = (failedDependency \<noteq> None);
                target = (if blocked then TaskStatusBlocked else TaskStatusReady);
                blockReason = (if blocked
                  then textValue (''dependency '' @ uuidText failedDependency @ '' is not completable'')
                  else None) in
            tx_bind (move_node \<epsilon> x ''advance mission: propagate task readiness'' node target blockReason)
              (\<lambda>updated.
            tx_bind (tx_wrap ''advance mission: update ready issue'' (UpdateIssueStatus (x_ws x)
              (t_IssueID updated) (if blocked then ''blocked'' else ''todo''))) (\<lambda>_.
            tx_bind (task_activity \<epsilon> x (t_IssueID updated)
              (if blocked then ''task.blocked'' else ''task.ready'') (t_IssueID updated)
              (''task:'' @ uuidText (t_IssueID updated) @ '':'' @ TaskStatus_String target @ '':'' @
               string_of_int (t_ReworkCount updated))
              (JObj [(''node_key'', JStr (t_NodeKey updated))])) (\<lambda>activity.
            tx_return (Advancing (logged [activity] (st\<lparr>av_nodes := (av_nodes st)[index := updated]\<rparr>)))))))"

section \<open>Runs for a selected agent\<close>

text \<open>What dispatch and review have in common once an agent is selected: the assignment, the run with the
  mailbox context in its input, and the consumption of the messages.\<close>

definition launch_run ::
    "env \<Rightarrow> advance_input \<Rightarrow> string \<Rightarrow> string \<Rightarrow> TaskNodeRow \<Rightarrow> Duty \<Rightarrow> string \<Rightarrow> json \<Rightarrow> int \<Rightarrow>
     RoutingSelectedCandidate \<Rightarrow> advance_state \<Rightarrow> (AssignmentRow \<times> RunRow \<times> ActivityRow list) tx" where
  "launch_run \<epsilon> x assignMsg runMsg node duty purpose input timeoutSeconds selected st =
     tx_bind (tx_wrap (''advance mission: decode selected '' @ Duty_String duty @ '' agent id'')
       (tx_lift (uuidFromText \<epsilon> (sel_AgentID selected)))) (\<lambda>agentID.
     tx_bind (tx_wrap (''advance mission: decode selected '' @ Duty_String duty @ '' runtime id'')
       (tx_lift (uuidFromText \<epsilon> (sel_RuntimeID selected)))) (\<lambda>runtimeID.
     case nextAssignmentSequence (av_assignments st) (t_IssueID node) duty of
       (seq, supersedes) \<Rightarrow>
     tx_bind (tx_wrap assignMsg (CreateOrchestrationAssignment \<epsilon> (x_ws x) (x_mid x) (t_IssueID node) duty
       agentID runtimeID seq supersedes (m_CreatedBy (ax_mission x)))) (\<lambda>assignment.
     tx_bind (selectMailboxRunContext \<epsilon> (x_ws x) (x_mid x) (t_IssueID node) agentID
       (ap_ObservedAt (ax_params x))) (\<lambda>(mailboxContext, mailboxRows).
     tx_bind (tx_lift (attachMailboxRunContext input mailboxContext)) (\<lambda>input.
     tx_bind (tx_wrap runMsg (CreateOrchestrationRun \<epsilon> (x_ws x) (x_mid x) (t_IssueID node)
       (a_ID assignment) purpose 1 input None
       (Some (ap_ObservedAt (ax_params x) + ap_DispatchWindow (ax_params x))) (i32 timeoutSeconds)))
       (\<lambda>run.
     tx_bind (consumeMailboxRunContext \<epsilon> (ax_mission x) run agentID mailboxContext mailboxRows
       (ap_ObservedAt (ax_params x)) (ap_CorrelationID (ax_params x))) (\<lambda>mailboxActivities.
     tx_return (assignment, run, mailboxActivities))))))))"

text \<open>\<open>assignments = append(assignments, assignment)\<close>, \<open>runs = append(runs, run)\<close> and \<open>activeRuns++\<close>.\<close>

definition launched ::
    "AssignmentRow \<Rightarrow> RunRow \<Rightarrow> ActivityRow list \<Rightarrow> BudgetEstimate \<Rightarrow> advance_state \<Rightarrow> advance_state" where
  "launched assignment run acts estimate st =
     logged acts ((with_run run estimate st)
       \<lparr>av_assignments := av_assignments st @ [assignment], av_activeRuns := av_activeRuns st + 1\<rparr>)"

definition policy_for :: "RolePolicySnapshot list \<Rightarrow> Duty \<Rightarrow> RolePolicySnapshot option" where
  "policy_for policies duty = find_last (\<lambda>p. rps_Duty p = duty) policies"

section \<open>Dispatch\<close>

definition dispatch_blocked ::
    "env \<Rightarrow> advance_input \<Rightarrow> nat \<Rightarrow> TaskNodeRow \<Rightarrow> RoutingSelectionResult \<Rightarrow> advance_state \<Rightarrow>
     advance_outcome tx" where
  "dispatch_blocked \<epsilon> x index node routing st =
     (let duty = t_Role node; reason = ''no eligible routing candidate for '' @ Duty_String duty in
      tx_bind (move_node \<epsilon> x (''advance mission: block task without '' @ Duty_String duty @ '' candidate'')
        node TaskStatusBlocked (textValue reason)) (\<lambda>updated.
      tx_bind (tx_wrap ''advance mission: update routing-blocked issue''
        (UpdateIssueStatus (x_ws x) (t_IssueID updated) ''blocked'')) (\<lambda>_.
      tx_bind (task_activity \<epsilon> x (t_IssueID updated) ''task.blocked'' (t_IssueID updated)
        (''task:'' @ uuidText (t_IssueID updated) @ '':blocked:routing:'' @ Duty_String duty @ '':'' @
         string_of_int (t_ReworkCount updated))
        (JObj [(''duty'', JStr (Duty_String duty)), (''reason'', JStr reason),
               (''routing'', RoutingSelectionResult_json routing)])) (\<lambda>activity.
      tx_return (Advancing (logged [activity] (st\<lparr>av_nodes := (av_nodes st)[index := updated]\<rparr>)))))))"

definition dispatch_selected ::
    "env \<Rightarrow> advance_input \<Rightarrow> nat \<Rightarrow> TaskNodeRow \<Rightarrow> RolePolicySnapshot \<Rightarrow> RoutingSelectionResult \<Rightarrow>
     RoutingSelectedCandidate \<Rightarrow> advance_state \<Rightarrow> advance_outcome tx" where
  "dispatch_selected \<epsilon> x index node policy routing selected st =
     (let duty = t_Role node in
      tx_bind (launch_run \<epsilon> x ''advance mission: create work assignment'' ''advance mission: create work run''
        node duty (if duty = DutyIntegrator then ''integrate'' else ''execute'')
        (workRunInput node (dependency_ids x (t_IssueID node)) (ax_artifacts x) (ax_verdicts x))
        (cfg_TimeoutSeconds (rps_Config policy)) selected st) (\<lambda>(assignment, run, mailboxActivities).
      tx_bind (move_node \<epsilon> x ''advance mission: assign task node'' node TaskStatusAssigned None) (\<lambda>updated.
      tx_bind (createAutomaticActivity \<epsilon> (ax_mission x) (t_IssueID node) (r_ID run) ''task.assigned''
        ''task_node'' (t_IssueID node) (r_ID run) (ap_CorrelationID (ax_params x))
        (''task:'' @ uuidText (t_IssueID node) @ '':assigned:'' @ string_of_int (a_Sequence assignment))
        (JObj [(''agent_id'', JStr (sel_AgentID selected)), (''duty'', JStr (Duty_String duty)),
               (''routing'', RoutingSelectionResult_json routing)])) (\<lambda>assigned.
      tx_bind (createAutomaticActivity \<epsilon> (ax_mission x) (t_IssueID node) (r_ID run) ''run.queued'' ''run''
        (r_ID run) (r_ID run) (ap_CorrelationID (ax_params x))
        (''run:'' @ uuidText (r_ID run) @ '':queued'')
        (JObj [(''agent_id'', JStr (sel_AgentID selected)), (''duty'', JStr (Duty_String duty))])) (\<lambda>queued.
      tx_return (Advancing (launched assignment run (mailboxActivities @ [assigned, queued])
        (budgetEstimateForNode node) (st\<lparr>av_nodes := (av_nodes st)[index := updated]\<rparr>))))))))"

text \<open>The \<open>break\<close> at the limit of parallel runs is a pass that does nothing: the number of active runs
  never falls, so every later pass does nothing either.\<close>

definition dispatch_step ::
    "env \<Rightarrow> advance_input \<Rightarrow> RolePolicySnapshot list \<Rightarrow> nat \<Rightarrow> advance_state \<Rightarrow> advance_outcome tx" where
  "dispatch_step \<epsilon> x policies index st =
     (let node = av_nodes st ! index; duty = t_Role node in
      if av_activeRuns st \<ge> MaxParallelRuns (ax_limits x) \<or> t_Status node \<noteq> TaskStatusReady
      then tx_return (Advancing st)
      else case policy_for policies duty of
        None \<Rightarrow> tx_fail (Errorf (''advance mission: frozen '' @ Duty_String duty @
                  '' role policy snapshot is missing''))
      | Some policy \<Rightarrow>
          let decision = admission x st (budgetEstimateForNode node) in
          if \<not> Allowed decision then tx_return (OverBudget st decision)
          else
            tx_bind (tx_wrap (''advance mission: select '' @ Duty_String duty @ '' routing candidate'')
              (selectAndLockRoutingCandidate \<epsilon> (x_ws x) (m_CreatedBy (ax_mission x)) policy [] []))
              (\<lambda>routing.
            case rr_Selected routing of
              None \<Rightarrow> dispatch_blocked \<epsilon> x index node routing st
            | Some selected \<Rightarrow> dispatch_selected \<epsilon> x index node policy routing selected st))"

section \<open>Review\<close>

definition CreatePendingHumanGate ::
    "env \<Rightarrow> uuid \<Rightarrow> uuid \<Rightarrow> uuid \<Rightarrow> uuid \<Rightarrow> uuid \<Rightarrow> string \<Rightarrow> string \<Rightarrow> json \<Rightarrow> HumanGateRow tx" where
  "CreatePendingHumanGate \<epsilon> ws mid nid artifactID sourceRunID kind reason context =
     tx_bind (draw_uuid \<epsilon>) (\<lambda>gid.
       tx_insert db_gates (\<lambda>rows s. s\<lparr>db_gates := rows\<rparr>)
         [(''idx_orchestration_human_gate_task_pending'',
             \<lambda>g. sql_eq (g_WorkspaceID g) ws \<and> sql_eq (g_MissionID g) mid \<and> sql_eq (g_TaskNodeID g) nid \<and>
                 g_Status g = ''pending'')]
         \<lparr>g_ID = gid, g_WorkspaceID = ws, g_MissionID = mid, g_TaskNodeID = nid,
          g_ArtifactID = artifactID, g_SourceRunID = sourceRunID, g_Kind = kind, g_Status = ''pending'',
          g_Reason = reason, g_Context = context, g_Revision = 1, g_ResolvedBy = None,
          g_Resolution = None, g_ResolutionReason = None, g_ResolvedAt = None,
          g_CreatedAt = env_now \<epsilon>\<rparr>)"

definition createPendingHumanGate ::
    "env \<Rightarrow> MissionRow \<Rightarrow> TaskNodeRow \<Rightarrow> ArtifactRow \<Rightarrow> uuid \<Rightarrow> string \<Rightarrow> string \<Rightarrow> json \<Rightarrow> uuid \<Rightarrow> uuid \<Rightarrow>
     (HumanGateRow \<times> ActivityRow) tx" where
  "createPendingHumanGate \<epsilon> mission node artifact sourceRunID kind reason context causationID
     correlationID =
     tx_bind (tx_wrap ''create human gate: persist'' (CreatePendingHumanGate \<epsilon> (m_WorkspaceID mission)
       (m_IssueID mission) (t_IssueID node) (ar_ID artifact) sourceRunID kind reason context)) (\<lambda>gate.
     tx_bind (createAutomaticActivity \<epsilon> mission (t_IssueID node) sourceRunID ''human_gate.required''
       ''task_node'' (t_IssueID node) causationID correlationID
       (''human-gate:'' @ uuidText (g_ID gate) @ '':required'')
       (JObj [(''artifact_id'', JStr (uuidText (ar_ID artifact))),
              (''gate_id'', JStr (uuidText (g_ID gate))), (''kind'', JStr (g_Kind gate)),
              (''reason'', JStr (g_Reason gate))])) (\<lambda>activity.
     tx_return (gate, activity)))"

definition review_blocked ::
    "env \<Rightarrow> advance_input \<Rightarrow> TaskNodeRow \<Rightarrow> RunRow \<Rightarrow> ArtifactRow \<Rightarrow> RoutingSelectionResult \<Rightarrow>
     advance_state \<Rightarrow> advance_outcome tx" where
  "review_blocked \<epsilon> x node workRun artifact routing st =
     (let reason = ''independent reviewer is unavailable'' in
      tx_bind (move_node \<epsilon> x ''advance mission: block task without reviewer candidate'' node
        TaskStatusBlocked (textValue reason)) (\<lambda>updated.
      tx_bind (tx_wrap ''advance mission: update reviewer-routing-blocked issue''
        (UpdateIssueStatus (x_ws x) (t_IssueID updated) ''blocked'')) (\<lambda>_.
      tx_bind (tx_wrap ''advance mission: create reviewer human gate'' (createPendingHumanGate \<epsilon>
        (ax_mission x) updated artifact (r_ID workRun) ''reviewer_unavailable'' reason
        (JObj [(''duty'', JStr ''reviewer''), (''routing'', RoutingSelectionResult_json routing)])
        (r_ID workRun) (ap_CorrelationID (ax_params x)))) (\<lambda>(gate, gateActivity).
      tx_bind (task_activity \<epsilon> x (t_IssueID updated) ''task.blocked'' (r_ID workRun)
        (''task:'' @ uuidText (t_IssueID updated) @ '':blocked:routing:reviewer:gate:'' @
         uuidText (g_ID gate))
        (JObj [(''duty'', JStr ''reviewer''), (''human_gate_id'', JStr (uuidText (g_ID gate))),
               (''reason'', JStr reason), (''routing'', RoutingSelectionResult_json routing)]))
        (\<lambda>activity.
      tx_return (Advancing (logged [gateActivity, activity] (update_av_node updated st))))))))"

definition review_selected ::
    "env \<Rightarrow> advance_input \<Rightarrow> TaskNodeRow \<Rightarrow> ArtifactRow \<Rightarrow> RolePolicySnapshot \<Rightarrow>
     RoutingSelectionResult \<Rightarrow> RoutingSelectedCandidate \<Rightarrow> advance_state \<Rightarrow> advance_outcome tx" where
  "review_selected \<epsilon> x node artifact policy routing selected st =
     tx_bind (launch_run \<epsilon> x ''advance mission: create reviewer assignment''
       ''advance mission: create review run'' node DutyReviewer ''review''
       (JObj [(''acceptance_criteria'', json_strings (t_AcceptanceCriteria node)),
              (''artifact_id'', JStr (uuidText (ar_ID artifact))),
              (''artifact_kind'', JStr (ArtifactKind_String (ar_Kind artifact))),
              (''artifact_uri'', JStr (ar_Uri artifact))])
       (cfg_TimeoutSeconds (rps_Config policy)) selected st) (\<lambda>(assignment, run, mailboxActivities).
     tx_bind (createAutomaticActivity \<epsilon> (ax_mission x) (t_IssueID node) (r_ID run) ''run.queued'' ''run''
       (r_ID run) (r_ID run) (ap_CorrelationID (ax_params x))
       (''run:'' @ uuidText (r_ID run) @ '':queued'')
       (JObj [(''artifact_id'', JStr (uuidText (ar_ID artifact))), (''purpose'', JStr ''review''),
              (''routing'', RoutingSelectionResult_json routing)])) (\<lambda>activity.
     tx_return (Advancing (launched assignment run (mailboxActivities @ [activity])
       (budgetEstimateForNode node) st))))"

text \<open>What is to be reviewed: the artifact of the node's latest work run, when that run succeeded and no
  reviewer is assigned.\<close>

definition review_subject ::
    "advance_input \<Rightarrow> advance_state \<Rightarrow> TaskNodeRow \<Rightarrow> (RunRow \<times> ArtifactRow) option" where
  "review_subject x st node =
     (case latestWorkRun (av_runs st) (t_IssueID node) of
        None \<Rightarrow> None
      | Some workRun \<Rightarrow>
          if r_Status workRun \<noteq> RunStatusSucceeded then None
          else case latestArtifactForRun (ax_artifacts x) (r_ID workRun) of
            None \<Rightarrow> None
          | Some artifact \<Rightarrow>
              if hasActiveAssignment (av_assignments st) (t_IssueID node) DutyReviewer then None
              else Some (workRun, artifact))"

definition producer_agent :: "advance_state \<Rightarrow> RunRow \<Rightarrow> string" where
  "producer_agent st workRun =
     (case findAssignment (av_assignments st) (r_AssignmentID workRun) of
        None \<Rightarrow> [] | Some a \<Rightarrow> uuidText (a_AgentID a))"

definition review_step ::
    "env \<Rightarrow> advance_input \<Rightarrow> RolePolicySnapshot list \<Rightarrow> nat \<Rightarrow> advance_state \<Rightarrow> advance_outcome tx" where
  "review_step \<epsilon> x policies index st =
     (let node = av_nodes st ! index in
      if av_activeRuns st \<ge> MaxParallelRuns (ax_limits x) \<or> t_Status node \<noteq> TaskStatusReview
      then tx_return (Advancing st)
      else case review_subject x st node of
        None \<Rightarrow> tx_return (Advancing st)
      | Some (workRun, artifact) \<Rightarrow>
          (case policy_for policies DutyReviewer of
             None \<Rightarrow> tx_fail (Errorf ''advance mission: frozen reviewer role policy snapshot is missing'')
           | Some policy \<Rightarrow>
               let decision = admission x st (budgetEstimateForNode node) in
               if \<not> Allowed decision then tx_return (OverBudget st decision)
               else
                 tx_bind (tx_wrap ''advance mission: select reviewer routing candidate''
                   (selectAndLockRoutingCandidate \<epsilon> (x_ws x) (m_CreatedBy (ax_mission x)) policy
                      (producer_agent st workRun) [])) (\<lambda>routing.
                 case rr_Selected routing of
                   None \<Rightarrow> review_blocked \<epsilon> x node workRun artifact routing st
                 | Some selected \<Rightarrow> review_selected \<epsilon> x node artifact policy routing selected st)))"

section \<open>The mission's status\<close>

definition settled_status :: "MissionStatus \<Rightarrow> advance_state \<Rightarrow> MissionStatus" where
  "settled_status current st =
     (if allNodesHaveStatus (av_nodes st) TaskStatusCompleted then MissionStatusCompleted
      else if anyNodeHasStatus (av_nodes st) [TaskStatusFailed] then MissionStatusFailed
      else if av_activeRuns st = 0 \<and> anyNodeHasStatus (av_nodes st) [TaskStatusBlocked] \<and>
              \<not> anyNodeHasStatus (av_nodes st) [TaskStatusReady, TaskStatusRework, TaskStatusReview]
      then MissionStatusBlocked
      else if av_changed st \<and> current = MissionStatusBlocked then MissionStatusRunning
      else current)"

definition settle_mission ::
    "env \<Rightarrow> advance_input \<Rightarrow> advance_state \<Rightarrow> (MissionRow \<times> advance_state) tx" where
  "settle_mission \<epsilon> x st =
     (let mission = ax_mission x; target = settled_status (m_Status mission) st in
      if target = m_Status mission then tx_return (mission, st)
      else
        tx_bind (tx_lift (validateMissionTransition (m_Status mission) target)) (\<lambda>_.
        tx_bind (tx_wrap ''advance mission: transition mission'' (TransitionMissionState \<epsilon>
          (m_WorkspaceID mission) (m_IssueID mission) target (m_Status mission))) (\<lambda>updated.
        tx_bind (UpdateIssueStatus (m_WorkspaceID updated) (m_IssueID updated)
          (if target = MissionStatusCompleted then ''done''
           else if target = MissionStatusFailed \<or> target = MissionStatusBlocked then ''blocked''
           else ''in_progress'')) (\<lambda>_.
        let typ = (if target = MissionStatusCompleted then ''mission.completed''
                   else if target = MissionStatusFailed then ''mission.failed''
                   else if target = MissionStatusBlocked then ''mission.blocked'' else []) in
        if typ = [] then tx_return (updated, st\<lparr>av_changed := True\<rparr>)
        else
          tx_bind (createAutomaticActivity \<epsilon> updated None None typ ''mission'' (m_IssueID updated)
            (m_IssueID updated) (ap_CorrelationID (ax_params x))
            (''mission:'' @ uuidText (m_IssueID updated) @ '':'' @ MissionStatus_String target @
             '':revision:'' @ string_of_int (m_Revision updated)) (JObj [])) (\<lambda>activity.
          tx_return (updated, logged [activity] st))))))"

section \<open>The budget gate\<close>

definition advance_result ::
    "advance_input \<Rightarrow> MissionRow \<Rightarrow> advance_state \<Rightarrow> RunRow list \<Rightarrow> AdvanceMissionResult" where
  "advance_result x mission st queued =
     \<lparr>amr_Mission = mission, amr_TaskNodes = av_nodes st, amr_CreatedRuns = av_created st,
      amr_RunsToEnqueue = queued, amr_Activities = av_activities st,
      amr_ActorID = m_CreatedBy (ax_mission x), amr_Changed = av_changed st\<rparr>"

definition set_budget_gate ::
    "env \<Rightarrow> advance_input \<Rightarrow> advance_state \<Rightarrow> BudgetDecision \<Rightarrow> (MissionRow \<times> advance_state) tx" where
  "set_budget_gate \<epsilon> x st decision =
     (let mission = ax_mission x in
      tx_bind (tx_wrap ''advance mission: set budget gate'' (SetMissionBudgetGate \<epsilon>
        (m_WorkspaceID mission) (m_IssueID mission) (bd_Status decision))) (\<lambda>updated.
      tx_bind (tx_wrap ''advance mission: update budget-blocked issue'' (UpdateIssueStatus
        (m_WorkspaceID updated) (m_IssueID updated) ''blocked'')) (\<lambda>_.
      tx_bind (createAutomaticActivity \<epsilon> updated None None
        (if bd_Status decision = BudgetGateStatusApprovalRequired then ''budget.approval_required''
         else ''budget.exceeded'') ''mission'' (m_IssueID updated) (m_IssueID updated)
        (ap_CorrelationID (ax_params x))
        (''mission:'' @ uuidText (m_IssueID updated) @ '':budget:'' @ bd_Status decision @ '':'' @
         Dimension decision @ '':'' @ string_of_int (Limit decision) @ '':'' @
         string_of_int (Effective decision)) (BudgetDecision_json decision)) (\<lambda>activity.
      tx_return (updated, logged [activity] st)))))"

definition finishBudgetBlockedAdvance ::
    "env \<Rightarrow> advance_input \<Rightarrow> advance_state \<Rightarrow> BudgetDecision \<Rightarrow> AdvanceMissionResult tx" where
  "finishBudgetBlockedAdvance \<epsilon> x st decision =
     tx_bind (if m_Status (ax_mission x) \<noteq> MissionStatusBlocked \<or>
                 m_BudgetGateStatus (ax_mission x) \<noteq> bd_Status decision
              then set_budget_gate \<epsilon> x st decision else tx_return (ax_mission x, st))
       (\<lambda>(mission, st).
     tx_bind (tx_wrap ''advance mission: list queued runs after budget gate''
       (ListQueuedOrchestrationRunsWithoutTask (x_ws x) (x_mid x))) (\<lambda>queued.
     tx_return (advance_result x mission st queued)))"

section \<open>The command\<close>

definition advance_load ::
    "MissionRow \<Rightarrow> PlanLimits \<Rightarrow> AdvanceMissionParams \<Rightarrow> TaskNodeRow list \<Rightarrow>
     (advance_input \<times> advance_state) tx" where
  "advance_load mission limits params nodes =
     (let ws = ap_WorkspaceID params; mid = ap_MissionID params in
      tx_bind (tx_wrap ''advance mission: load budget usage'' (GetMissionBudgetUsage ws mid)) (\<lambda>usage.
      tx_bind (tx_wrap ''advance mission: list dependencies'' (ListOrchestrationIssueDependencies ws mid))
        (\<lambda>dependencies.
      tx_bind (tx_wrap ''advance mission: list assignments'' (ListOrchestrationAssignmentsByMission ws mid))
        (\<lambda>assignments.
      tx_bind (tx_wrap ''advance mission: list runs'' (ListOrchestrationRunsByMission ws mid)) (\<lambda>runs.
      tx_bind (tx_wrap ''advance mission: list artifacts'' (ListArtifactsByMission ws mid)) (\<lambda>artifacts.
      tx_bind (tx_wrap ''advance mission: list review verdicts'' (ListReviewVerdictsByMission ws mid))
        (\<lambda>verdicts.
      tx_return
        (\<lparr>ax_params = params, ax_mission = mission, ax_limits = limits,
          ax_allowance = \<lparr>GrantTokens = m_BudgetGrantTokens mission,
            GrantCostUSDTicks = m_BudgetGrantCostUsdTicks mission\<rparr>,
          ax_dependencies = dependencies, ax_artifacts = artifacts, ax_verdicts = verdicts\<rparr>,
         \<lparr>av_nodes = nodes, av_assignments = assignments, av_runs = runs, av_usage = usage,
          av_created = [], av_activities = [], av_changed = False, av_activeRuns = 0\<rparr>))))))))"

text \<open>The policies are loaded, and the active runs counted, between the readiness loop and dispatch.\<close>

definition advance_phases ::
    "env \<Rightarrow> advance_input \<Rightarrow> advance_state \<Rightarrow> advance_outcome tx" where
  "advance_phases \<epsilon> x st =
     (let indices = [0..<length (av_nodes st)] in
      advance_then (advance_each (retry_step \<epsilon> x) (av_assignments st) st) (\<lambda>st.
      advance_then (advance_each (ready_step \<epsilon> x) indices st) (\<lambda>st.
      tx_bind (tx_wrap ''advance mission: list role policy snapshots''
        (ListMissionRolePolicySnapshots (x_ws x) (x_mid x))) (\<lambda>rows.
      tx_bind (tx_wrap ''advance mission: decode role policy snapshots''
        (tx_lift (mapRolePolicySnapshots \<epsilon> rows))) (\<lambda>policies.
      let st = st\<lparr>av_activeRuns := countActiveRuns (av_runs st)\<rparr> in
      advance_then (advance_each (dispatch_step \<epsilon> x policies) indices st) (\<lambda>st.
      advance_each (review_step \<epsilon> x policies) indices st))))))"

definition advance_finish ::
    "env \<Rightarrow> advance_input \<Rightarrow> advance_outcome \<Rightarrow> AdvanceMissionResult tx" where
  "advance_finish \<epsilon> x out =
     (case out of
        OverBudget st decision \<Rightarrow> finishBudgetBlockedAdvance \<epsilon> x st decision
      | Advancing st \<Rightarrow>
          tx_bind (settle_mission \<epsilon> x st) (\<lambda>(mission, st).
          tx_bind (tx_wrap ''advance mission: list queued runs''
            (ListQueuedOrchestrationRunsWithoutTask (x_ws x) (x_mid x))) (\<lambda>queued.
          tx_return (advance_result x mission st queued))))"

definition unchanged_result :: "MissionRow \<Rightarrow> TaskNodeRow list \<Rightarrow> RunRow list \<Rightarrow> AdvanceMissionResult" where
  "unchanged_result mission nodes queued =
     \<lparr>amr_Mission = mission, amr_TaskNodes = nodes, amr_CreatedRuns = [], amr_RunsToEnqueue = queued,
      amr_Activities = [], amr_ActorID = m_CreatedBy mission, amr_Changed = False\<rparr>"

definition budget_gated :: "MissionRow \<Rightarrow> bool" where
  "budget_gated mission \<longleftrightarrow> m_Status mission = MissionStatusBlocked \<and>
     (m_BudgetGateStatus mission = BudgetGateStatusApprovalRequired \<or>
      m_BudgetGateStatus mission = BudgetGateStatusExceeded)"

definition AdvanceMission_repo :: "env \<Rightarrow> AdvanceMissionParams \<Rightarrow> AdvanceMissionResult tx" where
  "AdvanceMission_repo \<epsilon> params =
     (let ws = ap_WorkspaceID params; mid = ap_MissionID params in
      tx_bind (tx_guard (ap_ObservedAt params \<noteq> zero_time \<and> ap_DispatchWindow params > 0 \<and>
          ap_RunTimeout params > 0) (Errorf ''advance mission: time budgets are required'')) (\<lambda>_.
      tx_bind (tx_wrap ''advance mission: lock mission'' (LockMissionInWorkspace ws mid)) (\<lambda>mission.
      if m_Status mission \<noteq> MissionStatusRunning \<and> m_Status mission \<noteq> MissionStatusBlocked
      then tx_return (unchanged_result mission [] [])
      else
        tx_bind (tx_wrap ''advance mission'' (tx_lift (decodePlanLimits (m_Limits mission)))) (\<lambda>limits.
        tx_bind (tx_wrap ''advance mission: list task nodes'' (ListTaskNodesByMission ws mid)) (\<lambda>nodes.
        if budget_gated mission then
          tx_bind (tx_wrap ''advance mission: list queued runs while budget blocked''
            (ListQueuedOrchestrationRunsWithoutTask ws mid)) (\<lambda>queued.
          tx_return (unchanged_result mission nodes queued))
        else
          tx_bind (advance_load mission limits params nodes) (\<lambda>(x, st).
          tx_bind (advance_phases \<epsilon> x st) (advance_finish \<epsilon> x)))))))"

text \<open>The service method: after the commit every queued run without a task is enqueued, each in a
  transaction of its own; the errors of the gateway are joined and reported with the result.  \<open>observedAt\<close>
  is the clock of the service.\<close>

record AdvanceMissionCommand =
  ac_cmd_WorkspaceID :: uuid
  ac_cmd_MissionID :: uuid
  ac_cmd_CorrelationID :: uuid

definition enqueue_error :: "string \<Rightarrow> error + 'r \<Rightarrow> error list" where
  "enqueue_error msg r = (case r of Inl e \<Rightarrow> [Wrapped msg e] | Inr _ \<Rightarrow> [])"

definition enqueue_run :: "env \<Rightarrow> uuid \<Rightarrow> uuid \<Rightarrow> RunRow \<Rightarrow> error list tx" where
  "enqueue_run \<epsilon> ws actor run =
     tx_bind (tx_try (EnqueueOrchestrationRun \<epsilon> ws (r_ID run) actor)) (\<lambda>r.
     tx_return (enqueue_error (''enqueue run '' @ uuidText (r_ID run)) r))"

definition AdvanceMission ::
    "env \<Rightarrow> time \<Rightarrow> AdvanceMissionCommand \<Rightarrow> (AdvanceMissionResult \<times> error list) tx" where
  "AdvanceMission \<epsilon> observedAt command =
     tx_bind (tx_guard (validUUID (ac_cmd_WorkspaceID command) \<and> validUUID (ac_cmd_MissionID command) \<and>
         validUUID (ac_cmd_CorrelationID command))
       (Errorf ''advance mission: workspace_id, mission_id, and correlation_id are required'')) (\<lambda>_.
     tx_bind (AdvanceMission_repo \<epsilon>
       \<lparr>ap_WorkspaceID = ac_cmd_WorkspaceID command, ap_MissionID = ac_cmd_MissionID command,
        ap_CorrelationID = ac_cmd_CorrelationID command, ap_ObservedAt = observedAt,
        ap_DispatchWindow = defaultDispatchTimeout, ap_RunTimeout = defaultRunTimeout\<rparr>) (\<lambda>result.
     tx_bind (tx_map (enqueue_run \<epsilon> (ac_cmd_WorkspaceID command) (amr_ActorID result))
       (amr_RunsToEnqueue result)) (\<lambda>errs.
     tx_return (result, concat errs))))"

end
