(* ===== verification/Receipts.thy ===== *)
theory Receipts
  imports Mailbox JsonText
begin

text \<open>
  \<open>run_result.go\<close> and the check of planner output (\<open>plan_proposal.go\<close>): what an execution reports.  A task
  result is a JSON object whose \<open>output\<close> is text; for work and review runs the text is a strictly
  decoded receipt, for planning runs a plan proposal.  An error is its text; the wording of the errors
  \<open>encoding/json\<close> returns is the constant \<open>json_error\<close>.  Objects are decoded member by member into the
  Go struct, as \<open>encoding/json\<close> does it: a null leaves a string or number as it is and clears a map or
  slice, repeated members are decoded one after the other, names match up to case.
\<close>

section \<open>Decoding into a struct\<close>

fun decode_members :: "(string \<Rightarrow> json \<Rightarrow> 'r \<Rightarrow> 'r option) \<Rightarrow> (string \<times> json) list \<Rightarrow> 'r \<Rightarrow> 'r option" where
  "decode_members field [] r = Some r"
| "decode_members field ((k, v) # ms) r =
     (case field (ToLower k) v r of None \<Rightarrow> None | Some r' \<Rightarrow> decode_members field ms r')"

definition decode_struct :: "(string \<Rightarrow> json \<Rightarrow> 'r \<Rightarrow> 'r option) \<Rightarrow> json \<Rightarrow> 'r \<Rightarrow> 'r option" where
  "decode_struct field j r =
     (case j of JNull \<Rightarrow> Some r | JObj ms \<Rightarrow> decode_members field ms r | _ \<Rightarrow> None)"

definition set_text :: "(string \<Rightarrow> 'r) \<Rightarrow> json \<Rightarrow> 'r \<Rightarrow> 'r option" where
  "set_text f j r = (case j of JStr s \<Rightarrow> Some (f s) | JNull \<Rightarrow> Some r | _ \<Rightarrow> None)"

definition set_int :: "(int \<Rightarrow> 'r) \<Rightarrow> json \<Rightarrow> 'r \<Rightarrow> 'r option" where
  "set_int f j r =
     (case j of JNum i \<Rightarrow> if is_int64 i then Some (f i) else None | JNull \<Rightarrow> Some r | _ \<Rightarrow> None)"

text \<open>A value decoded into \<open>any\<close> and encoded again: its objects have distinct members in key order.\<close>

fun any_value :: "json \<Rightarrow> json" where
  "any_value (JArr xs) = JArr (map any_value xs)"
| "any_value (JObj ms) = JObj (canonical_members (map (\<lambda>(k, v). (k, any_value v)) ms))"
| "any_value j = j"

text \<open>A \<open>map[string]any\<close>: nil, or its members.\<close>

definition set_map ::
    "(string \<times> json) list option \<Rightarrow> ((string \<times> json) list option \<Rightarrow> 'r) \<Rightarrow> json \<Rightarrow> 'r option" where
  "set_map old f j =
     (case j of
        JNull \<Rightarrow> Some (f None)
      | JObj ms \<Rightarrow>
          Some (f (Some (canonical_members
            ((case old of None \<Rightarrow> [] | Some xs \<Rightarrow> xs) @ map (\<lambda>(k, v). (k, any_value v)) ms))))
      | _ \<Rightarrow> None)"

definition map_members :: "(string \<times> json) list option \<Rightarrow> (string \<times> json) list" where
  "map_members m = (case m of None \<Rightarrow> [] | Some ms \<Rightarrow> ms)"

text \<open>A \<open>[]string\<close>, its null items as empty strings.\<close>

fun text_items :: "json list \<Rightarrow> string list option" where
  "text_items [] = Some []"
| "text_items (x # xs) =
     (case (set_text id x [], text_items xs) of (Some s, Some ss) \<Rightarrow> Some (s # ss) | _ \<Rightarrow> None)"

definition set_texts :: "(string list \<Rightarrow> 'r) \<Rightarrow> json \<Rightarrow> 'r option" where
  "set_texts f j =
     (case j of JNull \<Rightarrow> Some (f []) | JArr xs \<Rightarrow> map_option f (text_items xs) | _ \<Rightarrow> None)"

section \<open>Receipts\<close>

definition maxRunOutputBytes :: nat where "maxRunOutputBytes = 64 * 1024"
definition maxReceiptText :: nat where "maxReceiptText = 4096"
definition maxReceiptItems :: nat where "maxReceiptItems = 128"

record executionArtifactReceipt =
  ear_SchemaVersion :: int
  ear_Kind :: ArtifactKind
  ear_URI :: string
  ear_ContentHash :: string
  ear_Summary :: string
  ear_Metadata :: "(string \<times> json) list option"

datatype ReviewDecision =
    ReviewDecisionApproved | ReviewDecisionChangesRequested | ReviewDecisionRejected
  | ReviewDecision_Other string

fun ReviewDecision_String :: "ReviewDecision \<Rightarrow> string" where
  "ReviewDecision_String ReviewDecisionApproved = ''approved''"
| "ReviewDecision_String ReviewDecisionChangesRequested = ''changes_requested''"
| "ReviewDecision_String ReviewDecisionRejected = ''rejected''"
| "ReviewDecision_String (ReviewDecision_Other s) = s"

definition review_decision_of_string :: "string \<Rightarrow> ReviewDecision" where
  "review_decision_of_string s =
     (if s = ''approved'' then ReviewDecisionApproved
      else if s = ''changes_requested'' then ReviewDecisionChangesRequested
      else if s = ''rejected'' then ReviewDecisionRejected else ReviewDecision_Other s)"

record executionReviewReceipt =
  err_SchemaVersion :: int
  err_Decision :: ReviewDecision
  err_Evidence :: "(string \<times> json) list option"
  err_RequestedChanges :: "string list"

definition artifact_field :: "string \<Rightarrow> json \<Rightarrow> executionArtifactReceipt \<Rightarrow> executionArtifactReceipt option" where
  "artifact_field k v r =
     (if k = ''kind'' then set_text (\<lambda>s. r\<lparr>ear_Kind := artifact_kind_of_string s\<rparr>) v r
      else if k = ''uri'' then set_text (\<lambda>s. r\<lparr>ear_URI := s\<rparr>) v r
      else if k = ''content_hash'' then set_text (\<lambda>s. r\<lparr>ear_ContentHash := s\<rparr>) v r
      else if k = ''summary'' then set_text (\<lambda>s. r\<lparr>ear_Summary := s\<rparr>) v r
      else if k = ''metadata'' then set_map (ear_Metadata r) (\<lambda>m. r\<lparr>ear_Metadata := m\<rparr>) v
      else None)"

definition artifact_receipt_field ::
    "string \<Rightarrow> json \<Rightarrow> executionArtifactReceipt \<Rightarrow> executionArtifactReceipt option" where
  "artifact_receipt_field k v r =
     (if k = ''schema_version'' then set_int (\<lambda>i. r\<lparr>ear_SchemaVersion := i\<rparr>) v r
      else if k = ''artifact'' then decode_struct artifact_field v r
      else None)"

definition review_receipt_field ::
    "string \<Rightarrow> json \<Rightarrow> executionReviewReceipt \<Rightarrow> executionReviewReceipt option" where
  "review_receipt_field k v r =
     (if k = ''schema_version'' then set_int (\<lambda>i. r\<lparr>err_SchemaVersion := i\<rparr>) v r
      else if k = ''decision'' then set_text (\<lambda>s. r\<lparr>err_Decision := review_decision_of_string s\<rparr>) v r
      else if k = ''evidence'' then set_map (err_Evidence r) (\<lambda>m. r\<lparr>err_Evidence := m\<rparr>) v
      else if k = ''requested_changes'' then set_texts (\<lambda>xs. r\<lparr>err_RequestedChanges := xs\<rparr>) v
      else None)"

text \<open>\<open>decodeSingleJSON\<close> with \<open>DisallowUnknownFields\<close>.\<close>

definition decodeSingleJSON :: "(string \<Rightarrow> json \<Rightarrow> 'r \<Rightarrow> 'r option) \<Rightarrow> 'r \<Rightarrow> string \<Rightarrow> string + 'r" where
  "decodeSingleJSON field zero raw =
     (case json_read raw of
        None \<Rightarrow> Inl json_error
      | Some j \<Rightarrow> (case decode_struct field j zero of None \<Rightarrow> Inl json_error | Some r \<Rightarrow> Inr r))"

definition reject_when :: "bool \<Rightarrow> string \<Rightarrow> string + unit" where
  "reject_when b msg = (if b then Inl msg else Inr ())"

definition output_too_large :: "string \<Rightarrow> bool" where
  "output_too_large raw \<longleftrightarrow> raw = [] \<or> maxRunOutputBytes < length raw"

definition decodeExecutionArtifactReceipt :: "string \<Rightarrow> string + executionArtifactReceipt" where
  "decodeExecutionArtifactReceipt raw =
     (if output_too_large raw then Inl ''artifact receipt output exceeds 65536 bytes''
      else case decodeSingleJSON artifact_receipt_field
          \<lparr>ear_SchemaVersion = 0, ear_Kind = ArtifactKind_Other [], ear_URI = [], ear_ContentHash = [],
           ear_Summary = [], ear_Metadata = None\<rparr> raw of
        Inl e \<Rightarrow> Inl (''invalid artifact receipt: '' @ e)
      | Inr r \<Rightarrow>
          bind_res (reject_when (ear_SchemaVersion r \<noteq> 1) ''artifact receipt schema_version must be 1'') (\<lambda>_.
          bind_res (reject_when (\<not> ArtifactKind_Valid (ear_Kind r) \<or> ear_Kind r = ArtifactKindPlanProposal)
            (''artifact receipt kind '' @ go_quote (ArtifactKind_String (ear_Kind r)) @ '' is not allowed'')) (\<lambda>_.
          bind_res (reject_when (TrimSpace (ear_URI r) = [] \<or> maxReceiptText < length (ear_URI r))
            ''artifact receipt uri must contain 1 to 4096 bytes'') (\<lambda>_.
          bind_res (reject_when (maxReceiptText < length (ear_ContentHash r) \<or>
              maxReceiptText < length (ear_Summary r)) ''artifact receipt text is too large'') (\<lambda>_.
          bind_res (reject_when (maxReceiptItems < length (map_members (ear_Metadata r)))
            ''artifact receipt metadata has too many fields'') (\<lambda>_.
          Inr (r\<lparr>ear_Metadata := Some (map_members (ear_Metadata r))\<rparr>)))))))"

definition decodeExecutionReviewReceipt :: "string \<Rightarrow> string + executionReviewReceipt" where
  "decodeExecutionReviewReceipt raw =
     (if output_too_large raw then Inl ''review receipt output exceeds 65536 bytes''
      else case decodeSingleJSON review_receipt_field
          \<lparr>err_SchemaVersion = 0, err_Decision = ReviewDecision_Other [], err_Evidence = None,
           err_RequestedChanges = []\<rparr> raw of
        Inl e \<Rightarrow> Inl (''invalid review receipt: '' @ e)
      | Inr r \<Rightarrow>
          bind_res (reject_when (err_SchemaVersion r \<noteq> 1) ''review receipt schema_version must be 1'') (\<lambda>_.
          bind_res (reject_when (err_Decision r \<notin>
              {ReviewDecisionApproved, ReviewDecisionChangesRequested, ReviewDecisionRejected})
            (''review receipt decision '' @ go_quote (ReviewDecision_String (err_Decision r)) @
             '' is not supported'')) (\<lambda>_.
          bind_res (reject_when (maxReceiptItems < length (map_members (err_Evidence r)))
            ''review receipt evidence has too many fields'') (\<lambda>_.
          bind_res (reject_when (maxReceiptItems < length (err_RequestedChanges r))
            ''review receipt requested_changes has too many items'') (\<lambda>_.
          bind_res (reject_when (list_ex (\<lambda>c. TrimSpace c = [] \<or> maxReceiptText < length c)
              (err_RequestedChanges r))
            ''review receipt requested_changes contains invalid text'') (\<lambda>_.
          bind_res (reject_when (err_Decision r = ReviewDecisionChangesRequested \<and> err_RequestedChanges r = [])
            ''review receipt requested_changes are required'') (\<lambda>_.
          Inr (r\<lparr>err_Evidence := Some (map_members (err_Evidence r))\<rparr>))))))))"

text \<open>\<open>taskOutput\<close>: unknown fields of the envelope are ignored; the last \<open>output\<close> counts.\<close>

definition taskOutput :: "json option \<Rightarrow> string + string" where
  "taskOutput result =
     (case result of
        None \<Rightarrow> Inl json_error
      | Some (JObj ms) \<Rightarrow>
          (case find_last (\<lambda>(k, _). ToLower k = ''output'') ms of
             None \<Rightarrow> Inl ''task result output is missing''
           | Some (_, JNull) \<Rightarrow> Inl ''task result output is missing''
           | Some (_, JStr s) \<Rightarrow> Inr s
           | Some (_, _) \<Rightarrow> Inl ''task result output must be a string'')
      | Some JNull \<Rightarrow> Inl ''task result output is missing''
      | Some _ \<Rightarrow> Inl json_error)"

section \<open>Planner output\<close>

definition PlanningRunSpecSchemaVersion :: int where "PlanningRunSpecSchemaVersion = 1"

record PlanningRunSpec =
  prs_SchemaVersion :: int
  prs_MissionID :: string
  prs_ProposalArtifactKind :: ArtifactKind
  prs_ProposalSchemaVersion :: int
  prs_Input :: PlanProposalInput
  prs_Limits :: PlanLimits

record validatedPlanningProposal =
  vpp_Proposal :: PlanProposal
  vpp_Canonical :: json

definition PlanningRunSpec_json :: "PlanningRunSpec \<Rightarrow> json" where
  "PlanningRunSpec_json p =
     JObj [(''schema_version'', JNum (prs_SchemaVersion p)), (''mission_id'', JStr (prs_MissionID p)),
           (''proposal_artifact_kind'', JStr (ArtifactKind_String (prs_ProposalArtifactKind p))),
           (''proposal_schema_version'', JNum (prs_ProposalSchemaVersion p)),
           (''input'', PlanProposalInput_json (prs_Input p)), (''limits'', PlanLimits_json (prs_Limits p))]"

text \<open>\<open>Unmarshal\<close> ignores unknown members at every level: they are dropped before the strict decoders of
  \<open>PlanProposal\<close> are used.\<close>

definition keep_fields :: "string list \<Rightarrow> json \<Rightarrow> json" where
  "keep_fields names j =
     (case j of JObj ms \<Rightarrow> JObj (filter (\<lambda>(k, _). ToLower k \<in> set names) ms) | _ \<Rightarrow> j)"

definition map_member :: "string \<Rightarrow> (json \<Rightarrow> json) \<Rightarrow> json \<Rightarrow> json" where
  "map_member name f j =
     (case j of JObj ms \<Rightarrow> JObj (map (\<lambda>(k, v). (k, if ToLower k = name then f v else v)) ms) | _ \<Rightarrow> j)"

definition map_items :: "(json \<Rightarrow> json) \<Rightarrow> json \<Rightarrow> json" where
  "map_items f j = (case j of JArr xs \<Rightarrow> JArr (map f xs) | _ \<Rightarrow> j)"

definition dec_known_Input :: "json \<Rightarrow> error + PlanProposalInput" where
  "dec_known_Input j =
     dec_Input (map_member ''context_refs'' (map_items (keep_fields [''kind'', ''uri'', ''content_hash'']))
       (keep_fields [''objective'', ''context_refs'', ''delivery_criteria''] j))"

definition dec_known_Limits :: "json \<Rightarrow> error + PlanLimits" where
  "dec_known_Limits j =
     dec_PlanLimits (map_member ''budget'' (keep_fields [''max_tokens'', ''max_cost_usd_ticks'', ''gate''])
       (keep_fields [''max_parallel_runs'', ''max_task_attempts'', ''max_rework_cycles'', ''budget''] j))"

definition dec_PlanningRunSpec :: "json \<Rightarrow> error + PlanningRunSpec" where
  "dec_PlanningRunSpec j =
     (let names = [''schema_version'', ''mission_id'', ''proposal_artifact_kind'',
                   ''proposal_schema_version'', ''input'', ''limits''] in
      bind_res (dec_object names (keep_fields names j)) (\<lambda>m.
      bind_res (dec_int (m ''schema_version'')) (\<lambda>v.
      bind_res (dec_string (m ''mission_id'')) (\<lambda>mission.
      bind_res (dec_string (m ''proposal_artifact_kind'')) (\<lambda>kind.
      bind_res (dec_int (m ''proposal_schema_version'')) (\<lambda>pv.
      bind_res (dec_known_Input (m ''input'')) (\<lambda>input.
      bind_res (dec_known_Limits (m ''limits'')) (\<lambda>limits.
        Inr \<lparr>prs_SchemaVersion = v, prs_MissionID = mission,
             prs_ProposalArtifactKind = artifact_kind_of_string kind, prs_ProposalSchemaVersion = pv,
             prs_Input = input, prs_Limits = limits\<rparr>))))))))"

definition planner_output_field :: "string \<Rightarrow> json \<Rightarrow> string \<Rightarrow> string option" where
  "planner_output_field k v out = (if k = ''output'' then set_text id v out else Some out)"

definition validatePlanningTaskProposal ::
    "uuid \<Rightarrow> json \<Rightarrow> json option \<Rightarrow> ValidationError list + validatedPlanningProposal" where
  "validatePlanningTaskProposal missionID runInput taskResult =
     (case (case taskResult of None \<Rightarrow> None | Some j \<Rightarrow> decode_struct planner_output_field j []) of
        None \<Rightarrow> Inl [verr ''$'' ''invalid_task_result'' (''decode task result: '' @ json_error)]
      | Some output \<Rightarrow>
          if TrimSpace output = []
          then Inl [verr ''$'' ''missing_plan_proposal'' ''planner output must contain a PlanProposal JSON value'']
          else (case dec_PlanningRunSpec runInput of
            Inl _ \<Rightarrow> Inl [verr ''$'' ''invalid_planning_run_spec'' (''decode planning run spec: '' @ json_error)]
          | Inr spec \<Rightarrow>
              if prs_SchemaVersion spec \<noteq> PlanningRunSpecSchemaVersion \<or>
                 prs_MissionID spec \<noteq> uuidText missionID \<or>
                 prs_ProposalArtifactKind spec \<noteq> ArtifactKindPlanProposal \<or>
                 prs_ProposalSchemaVersion spec \<noteq> PlanProposalSchemaVersion
              then Inl [verr ''$'' ''invalid_planning_run_spec''
                     ''planning run spec does not match the active PlanProposal contract'']
              else (case DecodeAndValidatePlanProposal output (uuidText missionID) (prs_Limits spec) of
                (None, errs) \<Rightarrow> Inl errs
              | (Some proposal, errs) \<Rightarrow>
                  if errs \<noteq> [] then Inl errs
                  else
                    let errs =
                      err_when (pp_Input proposal \<noteq> prs_Input spec) ''input'' ''planning_input_mismatch''
                        ''proposal input must match the frozen planning run input'' @
                      err_when (pp_Limits proposal \<noteq> prs_Limits spec) ''limits''
                        ''planning_limits_mismatch''
                        ''proposal limits must match the frozen planning run limits'' in
                    if errs \<noteq> [] then Inl errs
                    else Inr \<lparr>vpp_Proposal = proposal, vpp_Canonical = PlanProposal_json proposal\<rparr>)))"

section \<open>Failures\<close>

definition maxRunFailureMessageBytes :: nat where "maxRunFailureMessageBytes = 2048"

definition normalizeFailureKind :: "string \<Rightarrow> string" where
  "normalizeFailureKind raw =
     (let value = ToLower (TrimSpace raw) in
      if value = ''runtime_offline'' \<or> value = ''runtime_recovery'' \<or> Contains value ''runtime offline''
      then ''runtime_offline''
      else if value = ''queued_expired'' \<or> (Contains value ''dispatch'' \<and> Contains value ''timeout'')
      then ''dispatch_timeout''
      else if Contains value ''timeout'' \<or> Contains value ''timed_out'' then ''timeout''
      else if value = ''agent_error.provider_network'' \<or> value = ''provider_network'' then ''provider_network''
      else if value = ''skill_bundle_unavailable'' then ''skill_bundle_unavailable''
      else if Contains value ''protocol'' then ''protocol_error''
      else if Contains value ''worktree'' \<or> Contains value ''work_dir'' \<or> Contains value ''working directory''
      then ''worktree_error''
      else ''agent_error'')"

text \<open>The loop that cuts bytes off the end until the rest is UTF-8.\<close>

function cut_to_valid :: "string \<Rightarrow> string" where
  "cut_to_valid s = (if ValidString s then s else cut_to_valid (butlast s))"
  by pat_completeness auto
termination
proof (relation "measure length")
  fix s :: string assume "\<not> ValidString s"
  then have "s \<noteq> []" by auto
  then show "(butlast s, s) \<in> measure length" by simp
qed simp

declare cut_to_valid.simps [simp del]

definition normalizeFailureMessage :: "string \<Rightarrow> string \<Rightarrow> string" where
  "normalizeFailureMessage raw fallback =
     (let trimmed = TrimSpace raw; message = (if trimmed = [] then fallback else trimmed) in
      if length message \<le> maxRunFailureMessageBytes then message
      else cut_to_valid (take maxRunFailureMessageBytes message))"

definition ValidationError_json :: "ValidationError \<Rightarrow> json" where
  "ValidationError_json e =
     JObj [(''path'', JStr (Path e)), (''code'', JStr (Code e)), (''message'', JStr (Message e))]"

definition planningProposalFailure :: "ValidationError list \<Rightarrow> pgtext" where
  "planningProposalFailure errors =
     Some (normalizeFailureMessage (json_marshal (JArr (map ValidationError_json errors))) ''invalid plan proposal'')"

lemma cut_to_valid_prefix: "prefix (cut_to_valid s) s"
proof (induction s rule: cut_to_valid.induct)
  case (1 s)
  then show ?case
    by (subst cut_to_valid.simps) (auto intro: prefix_order.trans [OF _ prefixeq_butlast])
qed

lemma cut_to_valid_valid: "ValidString (cut_to_valid s)"
proof (induction s rule: cut_to_valid.induct)
  case (1 s)
  then show ?case by (subst cut_to_valid.simps) auto
qed

lemma length_normalizeFailureMessage:
  "length fallback \<le> maxRunFailureMessageBytes \<Longrightarrow>
     length (normalizeFailureMessage raw fallback) \<le> maxRunFailureMessageBytes"
  using prefix_length_le [OF cut_to_valid_prefix [of "take maxRunFailureMessageBytes (TrimSpace raw)"]]
  by (auto simp: normalizeFailureMessage_def Let_def)

end
