(* ===== verification/Reconcile.thy ===== *)
theory Reconcile
  imports Advance Receipts
begin

text \<open>
  \<open>reconcile.go\<close>, \<open>repository_reconcile.go\<close> and \<open>repository_reconcile_outputs.go\<close>: a run is brought in line
  with the agent task that carries it out.  \<open>normalizeRunObservation\<close> says what the facts mean for the
  run and its task node, \<open>check_output\<close> turns a completed task without a valid receipt into a failure, and
  one transaction writes the run, the node, the activities and the artifact or verdict reported.  The
  executions to enqueue or to cancel are part of the result; the reconciler calls the gateway with them
  after the commit.
\<close>

section \<open>What the facts mean\<close>

record runObservation =
  ro_status :: RunStatus
  ro_failureKind :: pgtext
  ro_failureMessage :: pgtext
  ro_startedAt :: timestamptz
  ro_finishedAt :: timestamptz
  ro_taskStatus :: "TaskStatus option"
  ro_taskStatusValid :: bool
  ro_cancelExecution :: bool

text \<open>The zero \<open>db.TaskNode\<close>, which stands for the task node of a planning run.\<close>

definition zero_node :: TaskNodeRow where
  "zero_node =
     \<lparr>t_IssueID = None, t_WorkspaceID = None, t_MissionID = None, t_NodeKey = [], t_Role = Duty_Other [],
      t_AcceptanceCriteria = [], t_ArtifactKinds = [], t_Priority = 0, t_Status = TaskStatus_Other [],
      t_BlockReason = None, t_ReworkCount = 0, t_Revision = 0, t_CreatedAt = zero_time,
      t_UpdatedAt = zero_time, t_BudgetEstimateTokens = 0, t_BudgetEstimateCostUsdTicks = 0\<rparr>"

fun firstTimestamp :: "timestamptz list \<Rightarrow> timestamptz" where
  "firstTimestamp [] = None"
| "firstTimestamp (t # ts) = (case t of None \<Rightarrow> firstTimestamp ts | Some _ \<Rightarrow> t)"

definition active_rank :: "RunStatus \<Rightarrow> nat" where
  "active_rank st =
     (case st of RunStatusDispatched \<Rightarrow> 1 | RunStatusRunning \<Rightarrow> 2 | _ \<Rightarrow> 0)"

definition laterActiveRunStatus :: "RunStatus \<Rightarrow> RunStatus \<Rightarrow> RunStatus" where
  "laterActiveRunStatus current observed = (if active_rank current > active_rank observed then current else observed)"

text \<open>\<open>!t.Before(deadline)\<close> of a nullable column, whose invalid value holds the zero time.\<close>

definition not_before :: "time \<Rightarrow> timestamptz \<Rightarrow> bool" where
  "not_before t deadline \<longleftrightarrow> (case deadline of None \<Rightarrow> zero_time | Some d \<Rightarrow> d) \<le> t"

definition timedOut :: "RunRow \<Rightarrow> AgentTaskRow \<Rightarrow> time \<Rightarrow> bool" where
  "timedOut run task observedAt =
     (let known = firstTimestamp [r_StartedAt run, q_StartedAt task];
          startedAt = (if known = None \<and> q_Status task \<in> {''dispatched'', ''waiting_local_directory''}
                       then q_DispatchedAt task else known) in
      case startedAt of
        None \<Rightarrow> False
      | Some t \<Rightarrow>
          0 < r_TimeoutSeconds run \<and>
          t + r_TimeoutSeconds run * second \<le>
            (case q_CompletedAt task of None \<Rightarrow> observedAt | Some c \<Rightarrow> c))"

definition planning_run :: "RunRow \<Rightarrow> bool" where
  "planning_run run \<longleftrightarrow> r_Purpose run = ''plan'' \<and> r_TaskNodeID run = None"

definition unchanged_observation :: "RunRow \<Rightarrow> runObservation" where
  "unchanged_observation run =
     \<lparr>ro_status = r_Status run, ro_failureKind = None, ro_failureMessage = None,
      ro_startedAt = r_StartedAt run, ro_finishedAt = r_FinishedAt run, ro_taskStatus = None,
      ro_taskStatusValid = False, ro_cancelExecution = False\<rparr>"

definition observed_task :: "bool \<Rightarrow> TaskStatus \<Rightarrow> runObservation \<Rightarrow> runObservation" where
  "observed_task b st o1 = (if b then o1\<lparr>ro_taskStatus := Some st, ro_taskStatusValid := True\<rparr> else o1)"

definition failed_observation :: "string \<Rightarrow> string \<Rightarrow> timestamptz \<Rightarrow> runObservation \<Rightarrow> runObservation" where
  "failed_observation kind message finished o1 =
     o1\<lparr>ro_status := RunStatusFailed, ro_failureKind := textValue kind,
        ro_failureMessage := textValue message, ro_finishedAt := finished\<rparr>"

text \<open>The \<open>switch\<close> over the status of the agent task.\<close>

definition observe_task_status ::
    "RunRow \<Rightarrow> TaskNodeRow \<Rightarrow> AgentTaskRow \<Rightarrow> time \<Rightarrow> error + runObservation" where
  "observe_task_status run node task observedAt =
     (let base = unchanged_observation run; st = q_Status task;
          started = firstTimestamp [r_StartedAt run, q_StartedAt task];
          finished = firstTimestamp [q_CompletedAt task, Some observedAt];
          isOpen = (\<not> planning_run run \<and> \<not> isTerminalTaskStatus (t_Status node)) in
      if st = ''queued'' \<or> st = ''deferred'' then
        Inr (if not_before observedAt (r_DispatchDeadlineAt run)
             then (failed_observation ''dispatch_timeout''
                    ''execution was not claimed before the dispatch deadline'' (Some observedAt) base)
                  \<lparr>ro_cancelExecution := True\<rparr>
             else base)
      else if st = ''dispatched'' \<or> st = ''waiting_local_directory'' then
        Inr (base\<lparr>ro_status := laterActiveRunStatus (r_Status run) RunStatusDispatched\<rparr>)
      else if st = ''running'' then
        Inr (observed_task (\<not> planning_run run \<and> t_Status node = TaskStatusAssigned) TaskStatusRunning
          (base\<lparr>ro_status := RunStatusRunning,
                ro_startedAt := (if started = None then Some observedAt else started)\<rparr>))
      else if st = ''completed'' then
        Inr (observed_task isOpen TaskStatusReview
          (base\<lparr>ro_status := RunStatusSucceeded, ro_startedAt := started, ro_finishedAt := finished\<rparr>))
      else if st = ''failed'' then
        (let kind = normalizeFailureKind (text_String (q_FailureReason task)) in
         Inr (observed_task (\<not> planning_run run \<and> t_Status node = TaskStatusRunning) TaskStatusAssigned
           (failed_observation kind (normalizeFailureMessage (text_String (q_Error task)) kind) finished
             (base\<lparr>ro_startedAt := started\<rparr>))))
      else if st = ''cancelled'' then
        Inr (observed_task isOpen TaskStatusCancelled
          (base\<lparr>ro_status := RunStatusCancelled, ro_startedAt := started, ro_finishedAt := finished\<rparr>))
      else Inl (Errorf (''unsupported agent task status '' @ go_quote st)))"

definition normalizeRunObservation ::
    "MissionRow \<Rightarrow> RunRow \<Rightarrow> TaskNodeRow \<Rightarrow> AgentTaskRow option \<Rightarrow> time \<Rightarrow> error + runObservation" where
  "normalizeRunObservation mission run node task observedAt =
     (let base = unchanged_observation run;
          active = (case task of None \<Rightarrow> False | Some q \<Rightarrow> isActiveAgentTaskStatus (q_Status q)) in
      if observedAt = zero_time then Inl (Errorf ''observed_at is required'')
      else if isTerminalRunStatus (r_Status run) then
        Inr (base\<lparr>ro_cancelExecution :=
          active \<and> (r_Status run = RunStatusFailed \<or> r_Status run = RunStatusCancelled)\<rparr>)
      else if m_Status mission = MissionStatusCancelled \<or> m_Status mission = MissionStatusFailed \<or>
              (\<not> planning_run run \<and> t_Status node = TaskStatusCancelled) then
        Inr (observed_task (\<not> planning_run run \<and> \<not> isTerminalTaskStatus (t_Status node)) TaskStatusCancelled
          (base\<lparr>ro_status := RunStatusCancelled, ro_finishedAt := Some observedAt,
                ro_cancelExecution := active\<rparr>))
      else case task of
        None \<Rightarrow>
          Inr (if not_before observedAt (r_DispatchDeadlineAt run)
               then failed_observation ''dispatch_timeout''
                      ''execution was not enqueued before the dispatch deadline'' (Some observedAt) base
               else base)
      | Some q \<Rightarrow>
          if q_Status q \<noteq> ''failed'' \<and> q_Status q \<noteq> ''cancelled'' \<and> timedOut run q observedAt then
            Inr (observed_task (\<not> planning_run run \<and> t_Status node = TaskStatusRunning) TaskStatusAssigned
              ((failed_observation ''timeout'' ''execution exceeded the run timeout''
                 (case q_CompletedAt q of None \<Rightarrow> Some observedAt | Some c \<Rightarrow> Some c)
                 (base\<lparr>ro_startedAt := firstTimestamp [r_StartedAt run, q_StartedAt q]\<rparr>))
               \<lparr>ro_cancelExecution := active\<rparr>))
          else observe_task_status run node q observedAt)"

section \<open>What a completed task reports\<close>

datatype run_report =
    NoReport
  | WorkReport executionArtifactReceipt
  | ReviewReport executionReviewReceipt
  | PlanReport validatedPlanningProposal

definition artifactKindAllowedByNode :: "TaskNodeRow \<Rightarrow> ArtifactKind \<Rightarrow> bool" where
  "artifactKindAllowedByNode node kind = list_ex (\<lambda>k. k = kind) (t_ArtifactKinds node)"

text \<open>A protocol error: the run failed, and the node stays as it is.\<close>

definition protocol_failure ::
    "string \<Rightarrow> string \<Rightarrow> AgentTaskRow \<Rightarrow> time \<Rightarrow> runObservation \<Rightarrow> runObservation \<times> run_report" where
  "protocol_failure reason fallback task observedAt o1 =
     ((failed_observation FailureKindProtocolError (normalizeFailureMessage reason fallback)
        (firstTimestamp [q_CompletedAt task, Some observedAt]) o1)\<lparr>ro_taskStatusValid := False\<rparr>,
      NoReport)"

definition work_output ::
    "RunRow \<Rightarrow> TaskNodeRow \<Rightarrow> AgentTaskRow \<Rightarrow> time \<Rightarrow> runObservation \<Rightarrow> runObservation \<times> run_report" where
  "work_output run node task observedAt o1 =
     (case taskOutput (q_Result task) of
        Inl e \<Rightarrow> protocol_failure e ''completed task output is invalid'' task observedAt o1
      | Inr output \<Rightarrow>
          if r_Purpose run = ''review'' then
            (case decodeExecutionReviewReceipt output of
               Inl e \<Rightarrow> protocol_failure e ''review receipt is invalid'' task observedAt o1
             | Inr receipt \<Rightarrow> (o1, ReviewReport receipt))
          else
            (case decodeExecutionArtifactReceipt output of
               Inl e \<Rightarrow> protocol_failure e ''artifact receipt is invalid'' task observedAt o1
             | Inr receipt \<Rightarrow>
                 if artifactKindAllowedByNode node (ear_Kind receipt) then (o1, WorkReport receipt)
                 else protocol_failure (''artifact receipt kind '' @
                        go_quote (ArtifactKind_String (ear_Kind receipt)) @ '' is not allowed by the task'')
                        ''artifact receipt kind is not allowed'' task observedAt o1))"

definition plan_output ::
    "MissionRow \<Rightarrow> RunRow \<Rightarrow> AgentTaskRow \<Rightarrow> time \<Rightarrow> runObservation \<Rightarrow> runObservation \<times> run_report" where
  "plan_output mission run task observedAt o1 =
     (case validatePlanningTaskProposal (m_IssueID mission) (r_Input run) (q_Result task) of
        Inl errs \<Rightarrow>
          (o1\<lparr>ro_status := RunStatusFailed, ro_failureKind := textValue ''invalid_plan_proposal'',
              ro_failureMessage := planningProposalFailure errs,
              ro_finishedAt := firstTimestamp [q_CompletedAt task, Some observedAt]\<rparr>, NoReport)
      | Inr proposal \<Rightarrow> (o1, PlanReport proposal))"

definition check_output ::
    "MissionRow \<Rightarrow> RunRow \<Rightarrow> TaskNodeRow \<Rightarrow> AgentTaskRow option \<Rightarrow> time \<Rightarrow> runObservation \<Rightarrow>
     runObservation \<times> run_report" where
  "check_output mission run node task observedAt o1 =
     (case task of
        None \<Rightarrow> (o1, NoReport)
      | Some q \<Rightarrow>
          if q_Status q \<noteq> ''completed'' then (o1, NoReport)
          else if ro_status o1 = RunStatusSucceeded \<and> r_Purpose run \<noteq> ''plan''
          then work_output run node q observedAt o1
          else if planning_run run then plan_output mission run q observedAt o1
          else (o1, NoReport))"

section \<open>Queries\<close>

definition LockAgentTaskByOrchestrationRun :: "uuid \<Rightarrow> uuid \<Rightarrow> AgentTaskRow tx" where
  "LockAgentTaskByOrchestrationRun ws rid =
     tx_one (\<lambda>s. find (\<lambda>q. sql_eq (q_OrchestrationRunID q) rid \<and>
       list_ex (\<lambda>i. sql_eq (i_ID i) (q_IssueID q) \<and> sql_eq (i_WorkspaceID i) ws) (db_issues s)) (db_tasks s))"

definition UpdateTaskNodeFromReconcile ::
    "env \<Rightarrow> uuid \<Rightarrow> uuid \<Rightarrow> uuid \<Rightarrow> TaskStatus \<Rightarrow> pgtext \<Rightarrow> TaskStatus \<Rightarrow> TaskNodeRow tx" where
  "UpdateTaskNodeFromReconcile \<epsilon> ws mid nid target blockReason expected =
     update_node (\<lambda>n. node_is ws mid nid n \<and> t_Status n = expected)
       (\<lambda>n. touch_node \<epsilon> (n\<lparr>t_Status := target, t_BlockReason := blockReason\<rparr>))"

definition RevokeAssignmentFromReconcile ::
    "env \<Rightarrow> uuid \<Rightarrow> uuid \<Rightarrow> uuid \<Rightarrow> uuid \<Rightarrow> AssignmentRow tx" where
  "RevokeAssignmentFromReconcile \<epsilon> ws mid nid aid =
     tx_update db_assignments (\<lambda>rows s. s\<lparr>db_assignments := rows\<rparr>)
       (\<lambda>a. sql_eq (a_ID a) aid \<and> assignment_in ws mid a \<and> sql_eq (a_TaskNodeID a) nid \<and>
          a_Status a = AssignmentStatusActive)
       (\<lambda>a. a\<lparr>a_Status := AssignmentStatusRevoked, a_EndedAt := Some (env_now \<epsilon>)\<rparr>)"

definition next_version :: "ArtifactRow list \<Rightarrow> int" where
  "next_version rows = fold max (map ar_Version rows) 0 + 1"

definition NextArtifactVersion :: "uuid \<Rightarrow> uuid \<Rightarrow> ArtifactKind \<Rightarrow> int tx" where
  "NextArtifactVersion ws nid kind =
     tx_query (\<lambda>s. next_version (filter (\<lambda>a. sql_eq (ar_WorkspaceID a) ws \<and> sql_eq (ar_TaskNodeID a) nid \<and>
       ar_Kind a = kind) (db_artifacts s)))"

definition NextPlanProposalVersion :: "uuid \<Rightarrow> uuid \<Rightarrow> int tx" where
  "NextPlanProposalVersion ws mid =
     tx_query (\<lambda>s. next_version (filter (\<lambda>a. sql_eq (ar_WorkspaceID a) ws \<and> sql_eq (ar_MissionID a) mid \<and>
       ar_TaskNodeID a = None \<and> ar_Kind a = ArtifactKindPlanProposal) (db_artifacts s)))"

text \<open>The inserts of an artifact and a verdict, under the unique indexes of migrations 320, 321 and 343.\<close>

definition CreateArtifactRecord ::
    "env \<Rightarrow> uuid \<Rightarrow> uuid \<Rightarrow> uuid \<Rightarrow> uuid \<Rightarrow> ArtifactKind \<Rightarrow> int \<Rightarrow> string \<Rightarrow> pgtext \<Rightarrow> string \<Rightarrow> json \<Rightarrow>
     ArtifactRow tx" where
  "CreateArtifactRecord \<epsilon> ws mid nid rid kind version uri contentHash summary metadata =
     tx_bind (draw_uuid \<epsilon>) (\<lambda>arid.
       tx_insert db_artifacts (\<lambda>rows s. s\<lparr>db_artifacts := rows\<rparr>)
         [(''idx_artifact_task_kind_version_unique'',
             \<lambda>a. sql_eq (ar_TaskNodeID a) nid \<and> ar_Kind a = kind \<and> ar_Version a = version),
          (''idx_plan_proposal_version_unique'',
             \<lambda>a. nid = None \<and> kind = ArtifactKindPlanProposal \<and> ar_TaskNodeID a = None \<and> ar_Kind a = kind \<and>
                 sql_eq (ar_WorkspaceID a) ws \<and> sql_eq (ar_MissionID a) mid \<and> ar_Version a = version)]
         \<lparr>ar_ID = arid, ar_WorkspaceID = ws, ar_MissionID = mid, ar_TaskNodeID = nid, ar_RunID = rid,
          ar_Kind = kind, ar_Version = version, ar_Uri = uri, ar_ContentHash = contentHash,
          ar_Summary = summary, ar_Metadata = metadata, ar_CreatedAt = env_now \<epsilon>\<rparr>)"

definition GetReviewVerdictByRun :: "uuid \<Rightarrow> VerdictRow tx" where
  "GetReviewVerdictByRun rid = tx_one (\<lambda>s. find (\<lambda>v. sql_eq (v_ReviewRunID v) rid) (db_verdicts s))"

definition CreateReviewVerdictRecord ::
    "env \<Rightarrow> uuid \<Rightarrow> uuid \<Rightarrow> uuid \<Rightarrow> uuid \<Rightarrow> uuid \<Rightarrow> string \<Rightarrow> json \<Rightarrow> json \<Rightarrow> VerdictRow tx" where
  "CreateReviewVerdictRecord \<epsilon> ws mid nid rid arid decision evidence requested =
     tx_bind (draw_uuid \<epsilon>) (\<lambda>vid.
       tx_insert db_verdicts (\<lambda>rows s. s\<lparr>db_verdicts := rows\<rparr>)
         [(''idx_review_verdict_run_unique'', \<lambda>v. sql_eq (v_ReviewRunID v) rid)]
         \<lparr>v_ID = vid, v_WorkspaceID = ws, v_MissionID = mid, v_TaskNodeID = nid, v_ReviewRunID = rid,
          v_ArtifactID = arid, v_Decision = decision, v_Evidence = evidence,
          v_RequestedChanges = requested, v_CreatedAt = env_now \<epsilon>\<rparr>)"

definition reconcilable :: "db \<Rightarrow> RunRow \<Rightarrow> bool" where
  "reconcilable s r \<longleftrightarrow>
     isActiveRunStatus (r_Status r) \<or>
     (r_Status r \<in> {RunStatusFailed, RunStatusCancelled} \<and>
      list_ex (\<lambda>q. sql_eq (q_OrchestrationRunID q) (r_ID r) \<and> isActiveAgentTaskStatus (q_Status q)) (db_tasks s))"

definition ListReconcilableOrchestrationRunsAfter :: "time \<Rightarrow> string \<Rightarrow> nat \<Rightarrow> RunRow list tx" where
  "ListReconcilableOrchestrationRunsAfter afterCreatedAt afterRunID batchSize =
     tx_query (\<lambda>s. take batchSize (sort_key run_order
       (filter (\<lambda>r. reconcilable s r \<and>
          (case r_CreatedAt r of None \<Rightarrow> False | Some c \<Rightarrow>
             afterCreatedAt < c \<or> (c = afterCreatedAt \<and> afterRunID < uuidText (r_ID r)))) (db_runs s))))"

section \<open>Activities\<close>

definition runActivityType :: "RunStatus \<Rightarrow> string" where
  "runActivityType status =
     (case status of
        RunStatusRunning \<Rightarrow> ''run.started'' | RunStatusSucceeded \<Rightarrow> ''run.succeeded''
      | RunStatusFailed \<Rightarrow> ''run.failed'' | RunStatusCancelled \<Rightarrow> ''run.cancelled'' | _ \<Rightarrow> [])"

definition taskActivityType :: "TaskStatus \<Rightarrow> string" where
  "taskActivityType status =
     (case status of
        TaskStatusAssigned \<Rightarrow> ''task.assigned'' | TaskStatusRunning \<Rightarrow> ''task.started''
      | TaskStatusReview \<Rightarrow> ''task.review_requested'' | TaskStatusBlocked \<Rightarrow> ''task.blocked''
      | TaskStatusCancelled \<Rightarrow> ''task.cancelled'' | _ \<Rightarrow> [])"

definition compatibilityIssueStatus :: "TaskStatus \<Rightarrow> string" where
  "compatibilityIssueStatus status =
     (case status of
        TaskStatusAssigned \<Rightarrow> ''todo'' | TaskStatusRunning \<Rightarrow> ''in_progress''
      | TaskStatusReview \<Rightarrow> ''in_review'' | TaskStatusBlocked \<Rightarrow> ''todo''
      | TaskStatusCancelled \<Rightarrow> ''cancelled'' | _ \<Rightarrow> [])"

text \<open>The value of \<open>ro_taskStatus\<close>, the empty status when it was never set.\<close>

definition observed_status :: "runObservation \<Rightarrow> TaskStatus" where
  "observed_status o1 = (case ro_taskStatus o1 of None \<Rightarrow> TaskStatus_Other [] | Some st \<Rightarrow> st)"

definition pending_activities ::
    "RunRow \<Rightarrow> TaskNodeRow \<Rightarrow> bool \<Rightarrow> bool \<Rightarrow> runObservation \<Rightarrow> (string \<times> string \<times> uuid \<times> string) list" where
  "pending_activities run node runChanged taskChanged o1 =
     (if runChanged \<and> runActivityType (ro_status o1) \<noteq> []
      then [(runActivityType (ro_status o1), ''run'', r_ID run, ''run:'' @ RunStatus_String (ro_status o1))]
      else []) @
     (if taskChanged \<and> taskActivityType (observed_status o1) \<noteq> []
      then [(taskActivityType (observed_status o1), ''task_node'', t_IssueID node,
             ''task:'' @ TaskStatus_String (observed_status o1))]
      else [])"

definition reconcile_payload :: "AgentTaskRow option \<Rightarrow> runObservation \<Rightarrow> json" where
  "reconcile_payload task o1 =
     JObj ([(''run_status'', JStr (RunStatus_String (ro_status o1)))] @
           json_omit ''task_status'' (TaskStatus_String (observed_status o1)) @
           json_omit ''failure_kind'' (text_String (ro_failureKind o1)) @
           json_omit ''agent_task_id'' (case task of None \<Rightarrow> [] | Some q \<Rightarrow> uuidText (q_ID q)))"

definition reconcile_activity ::
    "env \<Rightarrow> MissionRow \<Rightarrow> RunRow \<Rightarrow> TaskNodeRow \<Rightarrow> AgentTaskRow option \<Rightarrow> json \<Rightarrow>
     string \<times> string \<times> uuid \<times> string \<Rightarrow> ActivityRow tx" where
  "reconcile_activity \<epsilon> mission run node task payload item =
     (case item of (typ, subjectType, subjectID, dedupePart) \<Rightarrow>
        log_activity \<epsilon> ''reconcile run: allocate activity sequence''
          (''reconcile run: create '' @ typ @ '' activity'')
          \<lparr>as_WorkspaceID = m_WorkspaceID mission, as_MissionID = m_IssueID mission,
           as_TaskNodeID = t_IssueID node, as_RunID = r_ID run, as_Type = typ,
           as_ActorType = (if task = None then ''orchestrator'' else ''runtime''),
           as_ActorID = (case task of None \<Rightarrow> None | Some q \<Rightarrow> q_RuntimeID q),
           as_SubjectType = subjectType, as_SubjectID = subjectID,
           as_CausationID = (case task of None \<Rightarrow> r_ID run | Some q \<Rightarrow> q_ID q),
           as_CorrelationID = r_ID run, as_Payload = payload,
           as_DedupeKey = ''reconcile:'' @ uuidText (r_ID run) @ '':'' @ dedupePart\<rparr>)"

definition createReconcileActivities ::
    "env \<Rightarrow> MissionRow \<Rightarrow> RunRow \<Rightarrow> TaskNodeRow \<Rightarrow> AgentTaskRow option \<Rightarrow> bool \<Rightarrow> bool \<Rightarrow> runObservation \<Rightarrow>
     ActivityRow list tx" where
  "createReconcileActivities \<epsilon> mission run node task runChanged taskChanged o1 =
     tx_map (reconcile_activity \<epsilon> mission run node task (reconcile_payload task o1))
       (pending_activities run node runChanged taskChanged o1)"

section \<open>Artifacts\<close>

text \<open>\<open>artifact.created\<close>, written by the agent of the task.\<close>

definition artifact_spec ::
    "MissionRow \<Rightarrow> uuid \<Rightarrow> RunRow \<Rightarrow> AgentTaskRow \<Rightarrow> ArtifactRow \<Rightarrow> uuid \<Rightarrow> uuid \<Rightarrow> string \<Rightarrow> activity_spec" where
  "artifact_spec mission nid run task artifact causation correlation key =
     \<lparr>as_WorkspaceID = m_WorkspaceID mission, as_MissionID = m_IssueID mission, as_TaskNodeID = nid,
      as_RunID = r_ID run, as_Type = ''artifact.created'', as_ActorType = ''agent'',
      as_ActorID = q_AgentID task, as_SubjectType = ''artifact'', as_SubjectID = ar_ID artifact,
      as_CausationID = causation, as_CorrelationID = correlation,
      as_Payload = JObj [(''artifact_id'', JStr (uuidText (ar_ID artifact))),
        (''kind'', JStr (ArtifactKind_String (ar_Kind artifact))),
        (''run_id'', JStr (uuidText (r_ID run))), (''version'', JNum (ar_Version artifact))],
      as_DedupeKey = key\<rparr>"

text \<open>The two calls of an activity, their errors returned as they are.\<close>

definition plain_activity :: "env \<Rightarrow> activity_spec \<Rightarrow> ActivityRow tx" where
  "plain_activity \<epsilon> a =
     tx_bind (allocateActivitySequence \<epsilon> (as_WorkspaceID a) (as_MissionID a)) (\<lambda>seq.
     CreateOrchestrationActivity \<epsilon> (activity_row a seq))"

definition createPlanningProposalArtifact ::
    "env \<Rightarrow> MissionRow \<Rightarrow> RunRow \<Rightarrow> AgentTaskRow \<Rightarrow> validatedPlanningProposal \<Rightarrow>
     (ArtifactRow \<times> ActivityRow) tx" where
  "createPlanningProposalArtifact \<epsilon> mission run task validated =
     tx_bind (tx_wrap ''reconcile run: next plan proposal version''
       (NextPlanProposalVersion (m_WorkspaceID mission) (m_IssueID mission))) (\<lambda>version.
     tx_bind (tx_wrap ''reconcile run: create plan proposal artifact'' (CreateArtifactRecord \<epsilon>
       (m_WorkspaceID mission) (m_IssueID mission) None (r_ID run) ArtifactKindPlanProposal version
       (''agent-task://'' @ uuidText (q_ID task) @ ''/plan-proposal'')
       (textValue (planProposalContentHash (json_marshal (vpp_Canonical validated))))
       (pp_ProposalKey (vpp_Proposal validated)) (vpp_Canonical validated))) (\<lambda>artifact.
     tx_bind (log_activity \<epsilon> ''reconcile run: allocate plan proposal activity sequence''
       ''reconcile run: create plan proposal activity''
       (artifact_spec mission None run task artifact (q_ID task) (r_ID run)
          (''planning-artifact:'' @ uuidText (r_ID run)))) (\<lambda>activity.
     tx_return (artifact, activity))))"

definition recordReconciledArtifactInTx ::
    "env \<Rightarrow> MissionRow \<Rightarrow> RunRow \<Rightarrow> TaskNodeRow \<Rightarrow> AgentTaskRow \<Rightarrow> uuid \<Rightarrow> uuid \<Rightarrow>
     executionArtifactReceipt \<Rightarrow> (ArtifactRow \<times> ActivityRow list) tx" where
  "recordReconciledArtifactInTx \<epsilon> mission run node task commandID correlationID receipt =
     tx_bind (tx_guard (r_Purpose run \<noteq> ''review'' \<and> r_TaskNodeID run = t_IssueID node \<and>
         t_Status node = TaskStatusReview)
       (Errorf ''reconcile run: completed work is not in review state'')) (\<lambda>_.
     tx_bind (GetOrchestrationAssignmentInWorkspace (m_WorkspaceID mission) (r_AssignmentID run)) (\<lambda>assignment.
     tx_bind (tx_guard (a_AgentID assignment = q_AgentID task)
       (Errorf ''reconcile run: completed task does not own work assignment'')) (\<lambda>_.
     tx_bind (ListOrchestrationRunsByMission (m_WorkspaceID mission) (m_IssueID mission)) (\<lambda>runs.
     tx_bind (tx_guard (case latestWorkRun runs (t_IssueID node) of
         None \<Rightarrow> False | Some latest \<Rightarrow> r_ID latest = r_ID run)
       (Errorf ''reconcile run: stale work run'')) (\<lambda>_.
     tx_bind (tx_guard (artifactKindAllowedByNode node (ear_Kind receipt))
       (Errorf (''reconcile run: artifact kind '' @ go_quote (ArtifactKind_String (ear_Kind receipt)) @
          '' is not allowed by the task''))) (\<lambda>_.
     tx_bind (NextArtifactVersion (m_WorkspaceID mission) (t_IssueID node) (ear_Kind receipt)) (\<lambda>version.
     tx_bind (tx_wrap ''reconcile run: create artifact'' (CreateArtifactRecord \<epsilon> (m_WorkspaceID mission)
       (m_IssueID mission) (t_IssueID node) (r_ID run) (ear_Kind receipt) version
       (TrimSpace (ear_URI receipt)) (textValue (TrimSpace (ear_ContentHash receipt)))
       (TrimSpace (ear_Summary receipt))
       (case ear_Metadata receipt of None \<Rightarrow> JNull | Some ms \<Rightarrow> JObj ms))) (\<lambda>artifact.
     tx_bind (plain_activity \<epsilon> (artifact_spec mission (t_IssueID node) run task artifact commandID
       correlationID (''command:'' @ uuidText commandID))) (\<lambda>activity.
     tx_return (artifact, [activity]))))))))))"

section \<open>Verdicts\<close>

record reconciledReviewResult =
  rrr_Verdict :: VerdictRow
  rrr_TaskNode :: TaskNodeRow
  rrr_Activities :: "ActivityRow list"

definition frozen_artifact_id :: "json \<Rightarrow> string option" where
  "frozen_artifact_id input =
     decode_struct (\<lambda>k v x. if k = ''artifact_id'' then set_text id v x else Some x) input []"

text \<open>Where a decision takes the node, and the types of the task's and the review's activity.\<close>

definition review_target :: "ReviewDecision \<Rightarrow> int \<Rightarrow> int \<Rightarrow> TaskStatus \<times> string \<times> string" where
  "review_target decision reworkCount maxReworkCycles =
     (case decision of
        ReviewDecisionChangesRequested \<Rightarrow>
          if reworkCount < maxReworkCycles
          then (TaskStatusRework, ''task.rework_requested'', ''review.changes_requested'')
          else (TaskStatusBlocked, ''task.blocked'', ''review.changes_requested'')
      | ReviewDecisionRejected \<Rightarrow> (TaskStatusFailed, ''task.failed'', ''review.rejected'')
      | _ \<Rightarrow> (TaskStatusCompleted, ''task.completed'', ''review.approved''))"

definition reviewed_issue_status :: "TaskStatus \<Rightarrow> string" where
  "reviewed_issue_status target =
     (if target = TaskStatusFailed \<or> target = TaskStatusBlocked then ''blocked''
      else if target = TaskStatusRework then ''todo'' else ''done'')"

definition move_reviewed ::
    "env \<Rightarrow> MissionRow \<Rightarrow> TaskNodeRow \<Rightarrow> TaskStatus \<Rightarrow> TaskNodeRow tx" where
  "move_reviewed \<epsilon> mission node target =
     (if target = TaskStatusRework
      then TransitionTaskNodeForRework \<epsilon> (m_WorkspaceID mission) (m_IssueID mission) (t_IssueID node) target
             (t_ReworkCount node)
      else TransitionTaskNodeState \<epsilon> (m_WorkspaceID mission) (m_IssueID mission) (t_IssueID node) target None
             (t_Status node))"

definition rework_gate ::
    "env \<Rightarrow> MissionRow \<Rightarrow> TaskNodeRow \<Rightarrow> int \<Rightarrow> int \<Rightarrow> ArtifactRow \<Rightarrow> uuid \<Rightarrow> VerdictRow \<Rightarrow> uuid \<Rightarrow> uuid \<Rightarrow>
     (HumanGateRow \<times> ActivityRow) tx" where
  "rework_gate \<epsilon> mission updated reworkCount maxReworkCycles artifact rid verdict commandID correlationID =
     createPendingHumanGate \<epsilon> mission updated artifact rid ''rework_limit_exceeded''
       ''review rework limit is exhausted''
       (JObj [(''max_rework_cycles'', JNum maxReworkCycles), (''rework_count'', JNum reworkCount),
              (''verdict_id'', JStr (uuidText (v_ID verdict)))]) commandID correlationID"

definition end_reviewed_assignment ::
    "env \<Rightarrow> MissionRow \<Rightarrow> TaskStatus \<Rightarrow> AssignmentRow \<Rightarrow> AssignmentRow tx" where
  "end_reviewed_assignment \<epsilon> mission target a =
     EndOrchestrationAssignment \<epsilon> (m_WorkspaceID mission) (m_IssueID mission) (a_ID a)
       (if a_Role a \<noteq> DutyReviewer \<and> target \<noteq> TaskStatusCompleted
        then AssignmentStatusSuperseded else AssignmentStatusFulfilled)"

definition review_spec ::
    "MissionRow \<Rightarrow> TaskNodeRow \<Rightarrow> RunRow \<Rightarrow> uuid \<Rightarrow> uuid \<Rightarrow> uuid \<Rightarrow> json \<Rightarrow> string \<times> string \<times> uuid \<times> string \<Rightarrow>
     activity_spec" where
  "review_spec mission node run actorID commandID correlationID payload item =
     (case item of (typ, subject, sid, key) \<Rightarrow>
        \<lparr>as_WorkspaceID = m_WorkspaceID mission, as_MissionID = m_IssueID mission,
         as_TaskNodeID = t_IssueID node, as_RunID = r_ID run, as_Type = typ, as_ActorType = ''agent'',
         as_ActorID = actorID, as_SubjectType = subject, as_SubjectID = sid, as_CausationID = commandID,
         as_CorrelationID = correlationID, as_Payload = payload, as_DedupeKey = key\<rparr>)"

text \<open>The verdict is recorded, the node moved, a gate created when the rework limit is used up, the active
  assignments of the node ended, and the activities written.\<close>

definition write_review ::
    "env \<Rightarrow> MissionRow \<Rightarrow> RunRow \<Rightarrow> TaskNodeRow \<Rightarrow> ArtifactRow \<Rightarrow> uuid \<Rightarrow> uuid \<Rightarrow> uuid \<Rightarrow>
     executionReviewReceipt \<Rightarrow> reconciledReviewResult tx" where
  "write_review \<epsilon> mission run node artifact commandID correlationID actorID receipt =
     tx_bind (CreateReviewVerdictRecord \<epsilon> (m_WorkspaceID mission) (m_IssueID mission) (t_IssueID node)
       (r_ID run) (ar_ID artifact) (ReviewDecision_String (err_Decision receipt))
       (case err_Evidence receipt of None \<Rightarrow> JNull | Some ms \<Rightarrow> JObj ms)
       (json_strings (err_RequestedChanges receipt))) (\<lambda>verdict.
     tx_bind (tx_lift (decodePlanLimits (m_Limits mission))) (\<lambda>limits.
     case review_target (err_Decision receipt) (t_ReworkCount node) (MaxReworkCycles limits) of
       (target, taskActivity, reviewActivity) \<Rightarrow>
     tx_bind (move_reviewed \<epsilon> mission node target) (\<lambda>updated.
     tx_bind (UpdateIssueStatus (m_WorkspaceID mission) (t_IssueID node) (reviewed_issue_status target)) (\<lambda>_.
     tx_bind (if err_Decision receipt = ReviewDecisionChangesRequested \<and> target = TaskStatusBlocked
              then tx_bind (rework_gate \<epsilon> mission updated (t_ReworkCount node) (MaxReworkCycles limits)
                     artifact (r_ID run) verdict commandID correlationID) (\<lambda>g. tx_return [g])
              else tx_return []) (\<lambda>gates.
     tx_bind (ListOrchestrationAssignmentsByMission (m_WorkspaceID mission) (m_IssueID mission)) (\<lambda>assignments.
     tx_bind (tx_map (end_reviewed_assignment \<epsilon> mission target)
       (filter (\<lambda>a. a_TaskNodeID a = t_IssueID node \<and> a_Status a = AssignmentStatusActive) assignments)) (\<lambda>_.
     let payload = JObj ([(''artifact_id'', JStr (uuidText (ar_ID artifact))),
                          (''decision'', JStr (v_Decision verdict))] @
                         map (\<lambda>(g, _). (''human_gate_id'', JStr (uuidText (g_ID g)))) gates @
                         [(''verdict_id'', JStr (uuidText (v_ID verdict)))]) in
     tx_bind (tx_map (\<lambda>item. plain_activity \<epsilon> (review_spec mission node run actorID commandID correlationID
         payload item))
       [(reviewActivity, ''review'', v_ID verdict, ''command:'' @ uuidText commandID),
        (taskActivity, ''task_node'', t_IssueID node, ''command:'' @ uuidText commandID @ '':task'')])
       (\<lambda>activities.
     tx_return \<lparr>rrr_Verdict = verdict, rrr_TaskNode = updated,
                rrr_Activities = map snd gates @ activities\<rparr>))))))))"

definition recordReconciledReviewInTx ::
    "env \<Rightarrow> MissionRow \<Rightarrow> RunRow \<Rightarrow> TaskNodeRow \<Rightarrow> uuid \<Rightarrow> uuid \<Rightarrow> uuid \<Rightarrow> uuid \<Rightarrow>
     executionReviewReceipt \<Rightarrow> reconciledReviewResult tx" where
  "recordReconciledReviewInTx \<epsilon> mission run node commandID correlationID actorID requestedArtifactID receipt =
     tx_bind (tx_guard (r_Purpose run = ''review'' \<and> r_Status run = RunStatusSucceeded \<and>
         r_TaskNodeID run = t_IssueID node \<and> t_Status node = TaskStatusReview)
       (Errorf ''reconcile run: review scope is invalid'')) (\<lambda>_.
     tx_bind (GetOrchestrationAssignmentInWorkspace (m_WorkspaceID mission) (r_AssignmentID run)) (\<lambda>assignment.
     tx_bind (tx_guard (a_Role assignment = DutyReviewer \<and> a_AgentID assignment = actorID)
       (Errorf ''reconcile run: completed task does not own review assignment'')) (\<lambda>_.
     let frozen = frozen_artifact_id (r_Input run) in
     tx_bind (tx_guard (frozen \<noteq> None \<and> frozen \<noteq> Some [])
       (Errorf ''reconcile run: review run input is invalid'')) (\<lambda>_.
     tx_bind (tx_lift (case uuidFromText \<epsilon> (case frozen of None \<Rightarrow> [] | Some t \<Rightarrow> t) of
         Inl _ \<Rightarrow> Inl (Errorf ''reconcile run: review artifact id is invalid'') | Inr u \<Rightarrow> Inr u))
       (\<lambda>frozenArtifactID.
     tx_bind (tx_guard (requestedArtifactID = None \<or> requestedArtifactID = frozenArtifactID)
       (Errorf ''reconcile run: artifact does not match the review run'')) (\<lambda>_.
     tx_bind (GetArtifactInWorkspace (m_WorkspaceID mission) frozenArtifactID) (\<lambda>artifact.
     tx_bind (tx_guard (ar_TaskNodeID artifact = t_IssueID node)
       (Errorf ''reconcile run: review artifact does not match task node'')) (\<lambda>_.
     tx_bind (tx_absent (GetReviewVerdictByRun (r_ID run))) (\<lambda>existing.
     tx_bind (tx_guard (existing = None) ErrReviewAlreadyRecorded) (\<lambda>_.
     write_review \<epsilon> mission run node artifact commandID correlationID actorID receipt))))))))))"

section \<open>The transaction\<close>

record ReconcileRunParams =
  rc_WorkspaceID :: uuid
  rc_RunID :: uuid
  rc_ObservedAt :: time

record ReconcileRunResult =
  rcr_Run :: RunRow
  rcr_TaskNode :: TaskNodeRow
  rcr_Activities :: "ActivityRow list"
  rcr_PlanProposalArtifact :: "ArtifactRow option"
  rcr_Artifact :: "ArtifactRow option"
  rcr_ReviewVerdict :: "VerdictRow option"
  rcr_Changed :: bool
  rcr_EnqueueExecution :: bool
  rcr_EnqueueActorID :: uuid
  rcr_CancelExecution :: bool
  rcr_CancelAgentTaskID :: uuid
  rcr_CancelExecutionReason :: string

definition cancellationReason :: "RunRow \<Rightarrow> runObservation \<Rightarrow> string" where
  "cancellationReason run o1 =
     ''orchestration run '' @ RunStatus_String (ro_status o1) @
     (case ro_failureKind o1 of
        Some k \<Rightarrow> '': '' @ k
      | None \<Rightarrow> (case r_FailureKind run of Some k \<Rightarrow> '': '' @ k | None \<Rightarrow> []))"

definition initial_result ::
    "MissionRow \<Rightarrow> RunRow \<Rightarrow> TaskNodeRow \<Rightarrow> AgentTaskRow option \<Rightarrow> runObservation \<Rightarrow> ReconcileRunResult" where
  "initial_result mission run node task o1 =
     (let enqueue = (task = None \<and> planning_run run \<and> r_Status run = RunStatusQueued \<and>
            ro_status o1 = RunStatusQueued);
          cancel = (task \<noteq> None \<and> ro_cancelExecution o1) in
      \<lparr>rcr_Run = run, rcr_TaskNode = node, rcr_Activities = [], rcr_PlanProposalArtifact = None,
       rcr_Artifact = None, rcr_ReviewVerdict = None, rcr_Changed = False,
       rcr_EnqueueExecution = enqueue, rcr_EnqueueActorID = (if enqueue then m_CreatedBy mission else None),
       rcr_CancelExecution = cancel,
       rcr_CancelAgentTaskID = (if cancel then (case task of None \<Rightarrow> None | Some q \<Rightarrow> q_ID q) else None),
       rcr_CancelExecutionReason = (if cancel then cancellationReason run o1 else [])\<rparr>)"

text \<open>A terminal replay: nothing is written, and the recorded output is returned.\<close>

definition loadReconciledArtifact :: "uuid \<Rightarrow> uuid \<Rightarrow> uuid \<Rightarrow> ArtifactRow tx" where
  "loadReconciledArtifact ws mid rid =
     tx_bind (ListArtifactsByMission ws mid) (\<lambda>artifacts.
     tx_one (\<lambda>_. find (\<lambda>a. ar_RunID a = rid) artifacts))"

definition reconcile_unchanged ::
    "RunRow \<Rightarrow> AgentTaskRow option \<Rightarrow> uuid \<Rightarrow> ReconcileRunResult \<Rightarrow> ReconcileRunResult tx" where
  "reconcile_unchanged run task ws result =
     (if r_Status run = RunStatusSucceeded \<and> r_Purpose run \<noteq> ''plan'' \<and>
         (case task of None \<Rightarrow> False | Some q \<Rightarrow> q_Status q = ''completed'')
      then tx_bind (tx_absent (loadReconciledArtifact ws (r_MissionID run) (r_ID run))) (\<lambda>artifact.
        tx_bind (tx_absent (GetReviewVerdictByRun (r_ID run))) (\<lambda>verdict.
        tx_return (result\<lparr>rcr_Artifact := artifact, rcr_ReviewVerdict := verdict\<rparr>)))
      else tx_return result)"

definition reconcile_run_row :: "RunRow \<Rightarrow> runObservation \<Rightarrow> RunRow tx" where
  "reconcile_run_row run o1 =
     (if ro_status o1 = r_Status run then tx_return run
      else tx_bind (tx_wrap ''reconcile run'' (tx_lift (validateRunTransition (r_Status run) (ro_status o1)))) (\<lambda>_.
        tx_wrap ''reconcile run: update run'' (UpdateOrchestrationRunFromReconcile (r_WorkspaceID run) (r_ID run)
          (ro_status o1) (r_Status run) (ro_failureKind o1) (ro_failureMessage o1) (ro_startedAt o1)
          (ro_finishedAt o1))))"

definition reconcile_node_row ::
    "env \<Rightarrow> RunRow \<Rightarrow> TaskNodeRow \<Rightarrow> bool \<Rightarrow> runObservation \<Rightarrow> TaskNodeRow tx" where
  "reconcile_node_row \<epsilon> run node taskChanged o1 =
     (if \<not> taskChanged then tx_return node
      else
        let target = observed_status o1 in
        tx_bind (tx_wrap ''reconcile run'' (tx_lift (validateTaskTransition (t_Status node) target))) (\<lambda>_.
        tx_bind (tx_wrap ''reconcile run: update task node'' (UpdateTaskNodeFromReconcile \<epsilon>
          (t_WorkspaceID node) (t_MissionID node) (t_IssueID node) target None (t_Status node))) (\<lambda>updated.
        tx_bind (if compatibilityIssueStatus target = [] then tx_return ()
                 else tx_bind (tx_wrap ''reconcile run: update task issue compatibility status''
                   (UpdateIssueStatus (t_WorkspaceID updated) (t_IssueID updated)
                      (compatibilityIssueStatus target))) (\<lambda>_. tx_return ())) (\<lambda>_.
        tx_bind (if target \<noteq> TaskStatusCancelled then tx_return None
                 else tx_wrap ''reconcile run: revoke assignment'' (tx_absent (RevokeAssignmentFromReconcile \<epsilon>
                   (r_WorkspaceID run) (r_MissionID run) (r_TaskNodeID run) (r_AssignmentID run)))) (\<lambda>_.
        tx_return updated)))))"

text \<open>The output of a run that has just succeeded.\<close>

definition record_report ::
    "env \<Rightarrow> MissionRow \<Rightarrow> RunRow \<Rightarrow> TaskNodeRow \<Rightarrow> AgentTaskRow option \<Rightarrow> run_report \<Rightarrow> ReconcileRunResult \<Rightarrow>
     ReconcileRunResult tx" where
  "record_report \<epsilon> mission run node task report result =
     (case (task, report) of
        (Some q, PlanReport proposal) \<Rightarrow>
          tx_bind (createPlanningProposalArtifact \<epsilon> mission run q proposal) (\<lambda>(artifact, activity).
          tx_return (result\<lparr>rcr_PlanProposalArtifact := Some artifact,
            rcr_Activities := rcr_Activities result @ [activity]\<rparr>))
      | (Some q, WorkReport receipt) \<Rightarrow>
          tx_bind (recordReconciledArtifactInTx \<epsilon> mission run node q (q_ID q) (r_ID run) receipt)
            (\<lambda>(artifact, activities).
          tx_return (result\<lparr>rcr_Artifact := Some artifact,
            rcr_Activities := rcr_Activities result @ activities\<rparr>))
      | (Some q, ReviewReport receipt) \<Rightarrow>
          tx_bind (recordReconciledReviewInTx \<epsilon> mission run node (q_ID q) (r_ID run) (q_AgentID q) None receipt)
            (\<lambda>verdict.
          tx_return (result\<lparr>rcr_ReviewVerdict := Some (rrr_Verdict verdict),
            rcr_TaskNode := rrr_TaskNode verdict,
            rcr_Activities := rcr_Activities result @ rrr_Activities verdict\<rparr>))
      | _ \<Rightarrow> tx_return result)"

definition reconcile_changed ::
    "env \<Rightarrow> MissionRow \<Rightarrow> RunRow \<Rightarrow> TaskNodeRow \<Rightarrow> AgentTaskRow option \<Rightarrow> runObservation \<Rightarrow> run_report \<Rightarrow>
     bool \<Rightarrow> bool \<Rightarrow> ReconcileRunResult \<Rightarrow> ReconcileRunResult tx" where
  "reconcile_changed \<epsilon> mission run node task o1 report runChanged taskChanged result =
     tx_bind (reconcile_run_row run o1) (\<lambda>run.
     tx_bind (reconcile_node_row \<epsilon> run node taskChanged o1) (\<lambda>node.
     tx_bind (createReconcileActivities \<epsilon> mission run node task runChanged taskChanged o1) (\<lambda>activities.
     tx_bind (if runChanged \<and> r_Status run = RunStatusSucceeded
              then record_report \<epsilon> mission run node task report
                (result\<lparr>rcr_Run := run, rcr_TaskNode := node, rcr_Activities := activities\<rparr>)
              else tx_return (result\<lparr>rcr_Run := run, rcr_TaskNode := node, rcr_Activities := activities\<rparr>))
       (\<lambda>result.
     tx_return (result\<lparr>rcr_Changed := True\<rparr>)))))"

definition reconcile_node :: "RunRow \<Rightarrow> uuid \<Rightarrow> TaskNodeRow tx" where
  "reconcile_node run ws =
     (if r_TaskNodeID run \<noteq> None
      then tx_wrap ''reconcile run: lock task node''
             (LockTaskNodeForReconcile ws (r_MissionID run) (r_TaskNodeID run))
      else if r_Purpose run \<noteq> ''plan''
      then tx_fail (Errorf (''reconcile run: task_node_id is required for purpose '' @ go_quote (r_Purpose run)))
      else tx_return zero_node)"

definition ReconcileRun :: "env \<Rightarrow> ReconcileRunParams \<Rightarrow> ReconcileRunResult tx" where
  "ReconcileRun \<epsilon> params =
     (let ws = rc_WorkspaceID params; rid = rc_RunID params; observedAt = rc_ObservedAt params in
      tx_bind (tx_guard (validUUID ws \<and> validUUID rid \<and> observedAt \<noteq> zero_time)
        (Errorf ''reconcile run: workspace_id, run_id, and observed_at are required'')) (\<lambda>_.
      tx_bind (tx_wrap ''reconcile run: load run'' (GetOrchestrationRunInWorkspace ws rid)) (\<lambda>preflightRun.
      tx_bind (tx_wrap ''reconcile run: lock mission'' (LockMissionInWorkspace ws (r_MissionID preflightRun)))
        (\<lambda>mission.
      tx_bind (tx_wrap ''reconcile run: lock run'' (LockOrchestrationRunForReconcile ws rid)) (\<lambda>run.
      tx_bind (reconcile_node run ws) (\<lambda>node.
      tx_bind (tx_wrap ''reconcile run: lock execution task''
        (tx_absent (LockAgentTaskByOrchestrationRun ws rid))) (\<lambda>task.
      tx_bind (tx_wrap ''reconcile run: normalize observation''
        (tx_lift (normalizeRunObservation mission run node task observedAt))) (\<lambda>fact.
      case check_output mission run node task observedAt fact of (o1, report) \<Rightarrow>
      let result = initial_result mission run node task o1;
          runChanged = (ro_status o1 \<noteq> r_Status run);
          taskChanged = (ro_taskStatusValid o1 \<and> observed_status o1 \<noteq> t_Status node) in
      if \<not> runChanged \<and> \<not> taskChanged then reconcile_unchanged run task ws result
      else reconcile_changed \<epsilon> mission run node task o1 report runChanged taskChanged result))))))))"

end
