(* ===== verification/History.thy ===== *)
theory History
  imports RolePolicy
begin

text \<open>
  What every command keeps of the past.  \<open>history s t\<close>: the tables of \<open>t\<close> hold the rows of \<open>s\<close>, moved
  only forward (missions along the transition table, with an accepted plan never replaced; terminal
  task nodes, finished runs and ended assignments frozen), followed by new rows; activities,
  dependencies, artifacts, verdicts, profiles and frozen policies are only ever appended.  It is a
  preorder, so it follows for a command from the rules of the interpretation \<open>past\<close> and one lemma per
  query, collected in \<open>history_ops\<close>.
\<close>

section \<open>How rows may move\<close>

definition mission_moves :: "MissionRow \<Rightarrow> MissionRow \<Rightarrow> bool" where
  "mission_moves m m' \<longleftrightarrow>
     m_IssueID m' = m_IssueID m \<and> m_WorkspaceID m' = m_WorkspaceID m \<and>
     m_CreatedBy m' = m_CreatedBy m \<and> mission_step\<^sup>*\<^sup>* (m_Status m) (m_Status m') \<and>
     m_Revision m \<le> m_Revision m' \<and> m_NextActivitySequence m \<le> m_NextActivitySequence m' \<and>
     (m_Status m \<noteq> MissionStatusDraft \<longrightarrow> m_Plan m' = m_Plan m \<and> m_Limits m' = m_Limits m)"

definition node_moves :: "TaskNodeRow \<Rightarrow> TaskNodeRow \<Rightarrow> bool" where
  "node_moves n n' \<longleftrightarrow>
     t_IssueID n' = t_IssueID n \<and> t_WorkspaceID n' = t_WorkspaceID n \<and>
     t_MissionID n' = t_MissionID n \<and> t_NodeKey n' = t_NodeKey n \<and> t_Role n' = t_Role n \<and>
     t_BudgetEstimateTokens n' = t_BudgetEstimateTokens n \<and>
     t_BudgetEstimateCostUsdTicks n' = t_BudgetEstimateCostUsdTicks n \<and>
     t_Revision n \<le> t_Revision n' \<and> t_ReworkCount n \<le> t_ReworkCount n' \<and>
     (isTerminalTaskStatus (t_Status n) \<longrightarrow> n' = n)"

definition assignment_moves :: "AssignmentRow \<Rightarrow> AssignmentRow \<Rightarrow> bool" where
  "assignment_moves a a' \<longleftrightarrow>
     a_ID a' = a_ID a \<and> a_WorkspaceID a' = a_WorkspaceID a \<and> a_MissionID a' = a_MissionID a \<and>
     a_TaskNodeID a' = a_TaskNodeID a \<and> a_Role a' = a_Role a \<and> a_AgentID a' = a_AgentID a \<and>
     a_RuntimeID a' = a_RuntimeID a \<and> a_Sequence a' = a_Sequence a \<and>
     (a_Status a \<noteq> AssignmentStatusActive \<longrightarrow> a' = a)"

definition run_moves :: "RunRow \<Rightarrow> RunRow \<Rightarrow> bool" where
  "run_moves r r' \<longleftrightarrow>
     r_ID r' = r_ID r \<and> r_WorkspaceID r' = r_WorkspaceID r \<and> r_MissionID r' = r_MissionID r \<and>
     r_TaskNodeID r' = r_TaskNodeID r \<and> r_AssignmentID r' = r_AssignmentID r \<and>
     r_Purpose r' = r_Purpose r \<and> r_Attempt r' = r_Attempt r \<and> r_Input r' = r_Input r \<and>
     run_step\<^sup>*\<^sup>* (r_Status r) (r_Status r') \<and> (isTerminalRunStatus (r_Status r) \<longrightarrow> r' = r)"

lemma mission_moves_refl [simp]: "mission_moves m m"
  by (simp add: mission_moves_def)

lemma node_moves_refl [simp]: "node_moves n n"
  by (simp add: node_moves_def)

lemma assignment_moves_refl [simp]: "assignment_moves a a"
  by (simp add: assignment_moves_def)

lemma run_moves_refl [simp]: "run_moves r r"
  by (simp add: run_moves_def)

lemma draft_source: "mission_step\<^sup>*\<^sup>* s MissionStatusDraft \<Longrightarrow> s = MissionStatusDraft"
  by (induction rule: converse_rtranclp_induct) (auto simp: mission_step_cases)

lemma mission_moves_trans:
  assumes "mission_moves a b" and "mission_moves b c" shows "mission_moves a c"
proof -
  have "m_Status b \<noteq> MissionStatusDraft" if "m_Status a \<noteq> MissionStatusDraft"
    using assms(1) that draft_source by (auto simp: mission_moves_def)
  moreover have "mission_step\<^sup>*\<^sup>* (m_Status a) (m_Status c)"
    using assms by (auto simp: mission_moves_def intro: rtranclp_trans)
  ultimately show ?thesis
    using assms by (simp add: mission_moves_def)
qed

lemma node_moves_trans: "node_moves a b \<Longrightarrow> node_moves b c \<Longrightarrow> node_moves a c"
  by (auto simp: node_moves_def)

lemma assignment_moves_trans: "assignment_moves a b \<Longrightarrow> assignment_moves b c \<Longrightarrow> assignment_moves a c"
  by (auto simp: assignment_moves_def)

lemma run_moves_trans: "run_moves a b \<Longrightarrow> run_moves b c \<Longrightarrow> run_moves a c"
  unfolding run_moves_def by (auto intro: rtranclp_trans)

section \<open>The past is kept\<close>

definition history :: "db \<Rightarrow> db \<Rightarrow> bool" where
  "history s t \<longleftrightarrow>
     rows_evolve mission_moves (db_missions s) (db_missions t) \<and>
     rows_evolve node_moves (db_nodes s) (db_nodes t) \<and>
     rows_evolve assignment_moves (db_assignments s) (db_assignments t) \<and>
     rows_evolve run_moves (db_runs s) (db_runs t) \<and>
     prefix (db_activities s) (db_activities t) \<and>
     prefix (db_dependencies s) (db_dependencies t) \<and>
     prefix (db_artifacts s) (db_artifacts t) \<and>
     prefix (db_verdicts s) (db_verdicts t) \<and>
     prefix (db_profiles s) (db_profiles t) \<and>
     prefix (db_snapshots s) (db_snapshots t)"

interpretation past: tx_preorder history
proof
  show "history s s" for s
    by (simp add: history_def rows_evolve_refl)
  show "history s u" if "history s t" "history t u" for s t u
    using that unfolding history_def
    by (meson mission_moves_trans node_moves_trans assignment_moves_trans run_moves_trans
        rows_evolve_trans prefix_order.trans)
qed

lemma history_log: "history s t \<Longrightarrow> log_grows s t"
  by (simp add: history_def log_grows_def)

lemma history_simps:
  "db_missions t = db_missions s \<Longrightarrow> db_nodes t = db_nodes s \<Longrightarrow> db_assignments t = db_assignments s \<Longrightarrow>
   db_runs t = db_runs s \<Longrightarrow> db_activities t = db_activities s \<Longrightarrow> db_dependencies t = db_dependencies s \<Longrightarrow>
   db_artifacts t = db_artifacts s \<Longrightarrow> db_verdicts t = db_verdicts s \<Longrightarrow> db_profiles t = db_profiles s \<Longrightarrow>
   db_snapshots t = db_snapshots s \<Longrightarrow> history s t"
  by (simp add: history_def rows_evolve_refl)

named_theorems history_ops "queries that keep the past"

lemmas history_rows =
  history_def rows_evolve_refl rows_evolve_append rows_evolve_update

lemma history_draw [history_ops]: "obeys history (draw_uuid \<epsilon>)"
  by (rule obeysI) (auto simp: draw_uuid_def intro!: history_simps)

subsection \<open>Missions\<close>

lemma history_update_mission:
  assumes "\<And>m. P m \<Longrightarrow> mission_moves m (f m)"
  shows "obeys history (update_mission P f)"
  unfolding update_mission_def
  by (rule obeys_update) (simp add: history_rows assms)

lemma history_mission_ops [history_ops]:
  "obeys history (CreateMissionRecord \<epsilon> iid ws limits creator)"
  "obeys history (GetMissionInWorkspace ws mid)"
  "obeys history (LockMissionInWorkspace ws mid)"
  "obeys history (AcceptMissionPlan \<epsilon> ws mid plan expected)"
  "obeys history (StartMissionRecord \<epsilon> ws mid expected)"
  "obeys history (CancelMissionRecord \<epsilon> ws mid expected)"
  "obeys history (SetMissionBudgetGate \<epsilon> ws mid gate)"
  "obeys history (ResumeMissionForTaskRetry \<epsilon> ws mid expected)"
  "obeys history (AllocateMissionActivitySequence \<epsilon> ws mid)"
proof -
  show "obeys history (CreateMissionRecord \<epsilon> iid ws limits creator)"
    unfolding CreateMissionRecord_def by (rule obeys_insert) (simp add: history_rows)
  show "obeys history (GetMissionInWorkspace ws mid)" "obeys history (LockMissionInWorkspace ws mid)"
    by (simp_all add: LockMissionInWorkspace_def GetMissionInWorkspace_def past.one)
  show "obeys history (AllocateMissionActivitySequence \<epsilon> ws mid)"
    unfolding AllocateMissionActivitySequence_def
    by (intro past.bind past.return history_update_mission) (simp add: mission_moves_def)
qed (auto simp: AcceptMissionPlan_def StartMissionRecord_def CancelMissionRecord_def
    SetMissionBudgetGate_def ResumeMissionForTaskRetry_def mission_moves_def touch_mission_def
    mission_step_cases intro!: history_update_mission r_into_rtranclp)

subsection \<open>Issues and task nodes\<close>

lemma history_issue_ops [history_ops]:
  "obeys history (GetIssueInWorkspace ws iid)"
  "obeys history (UpdateIssueStatus ws iid status)"
  "obeys history (IncrementIssueCounter ws)"
  "obeys history (NextTopPosition ws status)"
  by (auto simp: GetIssueInWorkspace_def NextTopPosition_def past.one past.query UpdateIssueStatus_def
      IncrementIssueCounter_def intro!: obeysI history_simps obeys_update split: option.splits)

lemma history_dependency [history_ops]: "obeys history (CreateOrchestrationIssueDependency iid dep)"
  unfolding CreateOrchestrationIssueDependency_def by (rule obeys_insert) (simp add: history_rows)

lemma history_CreateIssue [history_ops]: "obeys history (CreateIssue \<epsilon> row)"
  unfolding CreateIssue_def
  by (intro past.bind history_draw obeys_insert) (auto intro!: history_simps)

lemma history_update_node:
  assumes "\<And>n. P n \<Longrightarrow> node_moves n (f n)"
  shows "obeys history (update_node P f)"
  unfolding update_node_def by (rule obeys_update) (simp add: history_rows assms)

lemma node_moves_status:
  "\<not> isTerminalTaskStatus (t_Status n) \<Longrightarrow>
     node_moves n (touch_node \<epsilon> (n\<lparr>t_Status := st, t_BlockReason := r\<rparr>))"
  by (simp add: node_moves_def touch_node_def)

lemma history_node_ops [history_ops]:
  "obeys history (CreateTaskNodeRecord \<epsilon> iid ws mid node)"
  "obeys history (ListTaskNodesByMission ws mid)"
  "obeys history (GetTaskNodeInMission ws mid nid)"
  "obeys history (LockTaskNodeForReconcile ws mid nid)"
  "obeys history (ListOrchestrationIssueDependencies ws mid)"
  "obeys history (MarkTaskNodeReady \<epsilon> ws mid nid revision)"
  "obeys history (RetryBlockedTaskNode \<epsilon> ws mid nid revision)"
  "obeys history (TransitionTaskNodeForRework \<epsilon> ws mid nid target count)"
proof -
  show "obeys history (CreateTaskNodeRecord \<epsilon> iid ws mid node)"
    unfolding CreateTaskNodeRecord_def by (rule obeys_insert) (simp add: history_rows)
  show "obeys history (ListTaskNodesByMission ws mid)"
    "obeys history (GetTaskNodeInMission ws mid nid)"
    "obeys history (LockTaskNodeForReconcile ws mid nid)"
    "obeys history (ListOrchestrationIssueDependencies ws mid)"
    by (simp_all add: ListTaskNodesByMission_def GetTaskNodeInMission_def LockTaskNodeForReconcile_def
        ListOrchestrationIssueDependencies_def past.one past.query)
qed (auto simp: MarkTaskNodeReady_def RetryBlockedTaskNode_def TransitionTaskNodeForRework_def
    node_moves_def touch_node_def isTerminalTaskStatus_def intro!: history_update_node)

lemma history_TransitionTaskNodeState:
  "\<not> isTerminalTaskStatus expected \<Longrightarrow>
     obeys history (TransitionTaskNodeState \<epsilon> ws mid nid target reason expected)"
  unfolding TransitionTaskNodeState_def by (auto intro!: history_update_node node_moves_status)

lemma history_CancelMissionTaskNodes [history_ops]: "obeys history (CancelMissionTaskNodes \<epsilon> ws mid)"
  by (rule obeysI)
    (auto simp: CancelMissionTaskNodes_def Let_def history_def node_moves_def touch_node_def
      intro!: rows_evolve_refl rows_evolve_update)

lemma history_TransitionMissionState:
  "mission_step\<^sup>*\<^sup>* expected target \<Longrightarrow> obeys history (TransitionMissionState \<epsilon> ws mid target expected)"
  unfolding TransitionMissionState_def
  by (auto simp: mission_moves_def touch_mission_def intro!: history_update_mission)

subsection \<open>Assignments and runs\<close>

lemma history_assignment_ops [history_ops]:
  "obeys history (RevokeMissionAssignments \<epsilon> ws mid)"
  "obeys history (EndOrchestrationAssignment \<epsilon> ws mid aid target)"
  "obeys history (GetOrchestrationAssignmentInWorkspace ws aid)"
  "obeys history (ListOrchestrationAssignmentsByMission ws mid)"
  by (auto simp: RevokeMissionAssignments_def Let_def EndOrchestrationAssignment_def history_def
      GetOrchestrationAssignmentInWorkspace_def ListOrchestrationAssignmentsByMission_def
      assignment_moves_def past.one past.query
      intro!: obeysI obeys_update rows_evolve_refl rows_evolve_update)

lemma history_CreateOrchestrationAssignment [history_ops]:
  "obeys history (CreateOrchestrationAssignment \<epsilon> ws mid nid role agent rt seq prev creator)"
  unfolding CreateOrchestrationAssignment_def
  by (intro past.bind history_draw obeys_insert) (simp add: history_rows)

lemma history_CreateOrchestrationRun [history_ops]:
  "obeys history (CreateOrchestrationRun \<epsilon> ws mid nid aid purpose attempt input retry deadline timeout)"
  unfolding CreateOrchestrationRun_def
  by (intro past.bind history_draw obeys_insert) (simp add: history_rows)

lemma history_run_reads [history_ops]:
  "obeys history (ListOrchestrationRunsByMission ws mid)"
  "obeys history (ListActiveMissionRuns ws mid)"
  "obeys history (GetOrchestrationRunInWorkspace ws rid)"
  "obeys history (LockOrchestrationRunForReconcile ws rid)"
  "obeys history (ListQueuedOrchestrationRunsWithoutTask ws mid)"
  "obeys history (GetMissionBudgetUsage ws mid)"
  "obeys history (ListArtifactsByMission ws mid)"
  "obeys history (GetArtifactInWorkspace ws arid)"
  "obeys history (ListReviewVerdictsByMission ws mid)"
  "obeys history (ListOrchestrationActivitiesByCausation ws mid c)"
  by (simp_all add: ListOrchestrationRunsByMission_def ListActiveMissionRuns_def
      GetOrchestrationRunInWorkspace_def LockOrchestrationRunForReconcile_def
      ListQueuedOrchestrationRunsWithoutTask_def GetMissionBudgetUsage_def ListArtifactsByMission_def
      GetArtifactInWorkspace_def ListReviewVerdictsByMission_def
      ListOrchestrationActivitiesByCausation_def past.one past.query)

lemma history_UpdateRun:
  "run_step expected target \<Longrightarrow>
     obeys history (UpdateOrchestrationRunFromReconcile ws rid target expected kind msg started finished)"
  unfolding UpdateOrchestrationRunFromReconcile_def
  by (rule obeys_update)
    (auto simp: history_def run_moves_def run_step_from_terminal intro!: rows_evolve_refl rows_evolve_update)

subsection \<open>The log, policies and shared helpers\<close>

lemma history_CreateOrchestrationActivity [history_ops]:
  "obeys history (CreateOrchestrationActivity \<epsilon> row)"
  by (rule obeysI) (auto simp: create_activity_Inr history_def rows_evolve_refl)

lemma history_allocate [history_ops]: "obeys history (allocateActivitySequence \<epsilon> ws mid)"
  unfolding allocateActivitySequence_def by (intro past.wrap history_ops)

lemma past_race: "obeys history act \<Longrightarrow> obeys history (tx_race msg act)"
  by (auto simp: obeys_def)

lemma history_log_activity [history_ops]:
  "obeys history (log_activity \<epsilon> m1 m2 a)" "obeys history (log_command_activity \<epsilon> m1 m2 a)"
  "obeys history (createAutomaticActivity \<epsilon> mission nid rid typ st sid c corr key payload)"
  unfolding log_activity_def log_command_activity_def createAutomaticActivity_def
  by (intro past.bind past.wrap past_race history_ops)+

lemma history_createOrchestrationIssue [history_ops]:
  "obeys history (createOrchestrationIssue \<epsilon> ws title desc status ctype cid parent project)"
  unfolding createOrchestrationIssue_def by (intro past.bind past.wrap history_ops)

lemma history_requireOwner [history_ops]: "obeys history (requireOwner ws actor)"
  by (rule obeysI) (auto simp: requireOwner_Inr intro!: history_simps)

lemma history_policy_ops [history_ops]:
  "obeys history (GetNextRoleProfileVersion ws key)"
  "obeys history (ListMissionRolePolicySnapshots ws mid)"
  by (simp_all add: GetNextRoleProfileVersion_def ListMissionRolePolicySnapshots_def past.query)

lemma history_profile_row [history_ops]: "obeys history (CreateRoleProfileVersion_row \<epsilon> row)"
  unfolding CreateRoleProfileVersion_row_def
  by (intro past.bind history_draw obeys_insert) (simp add: history_rows)

lemma history_snapshot_row [history_ops]: "obeys history (CreateMissionRolePolicySnapshot \<epsilon> row)"
  unfolding CreateMissionRolePolicySnapshot_def
  by (intro past.bind history_draw obeys_insert) (simp add: history_rows)

lemma history_freeze [history_ops]: "obeys history (freezeRolePolicyBindings \<epsilon> ws mid actor bs)"
  unfolding freezeRolePolicyBindings_def freeze_binding_def freeze_new_def
  by (intro past.rules history_ops)

lemma history_ensure_frozen [history_ops]:
  "obeys history (ensureFrozenRolePolicyBindingsMatch \<epsilon> ws mid bs)"
  unfolding ensureFrozenRolePolicyBindingsMatch_def check_frozen_def
  by (intro past.rules history_ops)

lemma history_CreateRoleProfileVersion: "obeys history (CreateRoleProfileVersion \<epsilon> command)"
  unfolding CreateRoleProfileVersion_def CreateRoleProfileVersion_repo_def Let_def
  by (intro past.rules history_ops)

lemma history_recorded:
  "(\<And>a. obeys history (load a)) \<Longrightarrow> obeys history body \<Longrightarrow>
     obeys history (recorded_command recorded msg load body)"
  unfolding obeys_def recorded_command_def by (auto split: option.splits sum.splits if_splits)

lemma history_replay_or:
  "(\<And>a. obeys history (load a)) \<Longrightarrow> obeys history body \<Longrightarrow> obeys history (replay_or recorded load body)"
  unfolding obeys_def replay_or_def by (auto split: option.splits)

lemmas history_rules = past.rules history_recorded history_replay_or past_race

end
