(* ===== verification/LogOrder.thy ===== *)
theory LogOrder
  imports History
begin

text \<open>
  The numbering of the activity log.  \<open>log_ok\<close>: missions have distinct ids, and the activities of a
  mission are numbered 1, 2, 3, ... in the order in which they were written, up to the number before
  the mission's next one.  Every query but the creation of a mission and the logging of an activity is
  \<open>quiet\<close>: it leaves the log and the counters alone.  \<open>log_ops\<close> collects the facts for the commands.
\<close>

definition mission_log :: "uuid \<Rightarrow> db \<Rightarrow> int list" where
  "mission_log mid s = map ac_Sequence (filter (\<lambda>a. ac_MissionID a = mid) (db_activities s))"

definition counters :: "db \<Rightarrow> (uuid \<times> int) list" where
  "counters s = map (\<lambda>m. (m_IssueID m, m_NextActivitySequence m)) (db_missions s)"

definition log_ok :: "db \<Rightarrow> bool" where
  "log_ok s \<longleftrightarrow>
     distinct (map fst (counters s)) \<and>
     (\<forall>(mid, next) \<in> set (counters s). 1 \<le> next \<and> mission_log mid s = map int [1..<nat next]) \<and>
     ac_MissionID ` set (db_activities s) \<subseteq> fst ` set (counters s)"

definition quiet :: "db \<Rightarrow> db \<Rightarrow> bool" where
  "quiet s t \<longleftrightarrow> counters t = counters s \<and> db_activities t = db_activities s"

interpretation silence: tx_preorder quiet
  by unfold_locales (simp_all add: quiet_def)

named_theorems log_ops "queries that keep the numbering of the log"

lemma quiet_log: "obeys quiet act \<Longrightarrow> obeys (preserves log_ok) act"
  by (erule obeys_mono) (simp add: quiet_def preserves_def log_ok_def mission_log_def)

lemma quiet_tables: "db_missions t = db_missions s \<Longrightarrow> db_activities t = db_activities s \<Longrightarrow> quiet s t"
  by (simp add: quiet_def counters_def)

section \<open>Quiet queries\<close>

lemma quiet_update_mission:
  assumes "\<And>m. P m \<Longrightarrow> m_IssueID (f m) = m_IssueID m \<and>
    m_NextActivitySequence (f m) = m_NextActivitySequence m"
  shows "obeys quiet (update_mission P f)"
  unfolding update_mission_def
  by (rule obeys_update) (auto simp: quiet_def counters_def update_rows_def assms)

lemma log_mission_ops [log_ops]:
  "obeys (preserves log_ok) (GetMissionInWorkspace ws mid)"
  "obeys (preserves log_ok) (LockMissionInWorkspace ws mid)"
  "obeys (preserves log_ok) (AcceptMissionPlan \<epsilon> ws mid plan expected)"
  "obeys (preserves log_ok) (StartMissionRecord \<epsilon> ws mid expected)"
  "obeys (preserves log_ok) (CancelMissionRecord \<epsilon> ws mid expected)"
  "obeys (preserves log_ok) (SetMissionBudgetGate \<epsilon> ws mid gate)"
  "obeys (preserves log_ok) (ResumeMissionForTaskRetry \<epsilon> ws mid expected)"
  "obeys (preserves log_ok) (TransitionMissionState \<epsilon> ws mid target from)"
  by (simp_all add: LockMissionInWorkspace_def GetMissionInWorkspace_def preserved.one
      AcceptMissionPlan_def StartMissionRecord_def CancelMissionRecord_def SetMissionBudgetGate_def
      ResumeMissionForTaskRetry_def TransitionMissionState_def quiet_log quiet_update_mission
      touch_mission_def)

lemma quiet_table_ops:
  "obeys quiet (draw_uuid \<epsilon>)"
  "obeys quiet (GetIssueInWorkspace ws iid)"
  "obeys quiet (UpdateIssueStatus ws iid status)"
  "obeys quiet (IncrementIssueCounter ws)"
  "obeys quiet (NextTopPosition ws status)"
  "obeys quiet (CreateOrchestrationIssueDependency iid dep)"
  "obeys quiet (CreateIssue \<epsilon> row)"
  "obeys quiet (CreateTaskNodeRecord \<epsilon> iid ws mid node)"
  "obeys quiet (update_node P f)"
  "obeys quiet (CancelMissionTaskNodes \<epsilon> ws mid)"
  "obeys quiet (RevokeMissionAssignments \<epsilon> ws mid)"
  "obeys quiet (EndOrchestrationAssignment \<epsilon> ws mid aid target)"
  "obeys quiet (CreateOrchestrationAssignment \<epsilon> ws mid nid role agent rt seq prev creator)"
  "obeys quiet (CreateOrchestrationRun \<epsilon> ws mid nid aid purpose attempt input retry deadline timeout)"
  "obeys quiet (UpdateOrchestrationRunFromReconcile ws rid rtarget rexpected kind msg started finished)"
  "obeys quiet (CreateRoleProfileVersion_row \<epsilon> prow)"
  "obeys quiet (CreateMissionRolePolicySnapshot \<epsilon> srow)"
  by (auto simp: draw_uuid_def GetIssueInWorkspace_def UpdateIssueStatus_def IncrementIssueCounter_def
      NextTopPosition_def CreateOrchestrationIssueDependency_def CreateIssue_def
      CreateTaskNodeRecord_def update_node_def CancelMissionTaskNodes_def Let_def
      RevokeMissionAssignments_def EndOrchestrationAssignment_def CreateOrchestrationAssignment_def
      CreateOrchestrationRun_def UpdateOrchestrationRunFromReconcile_def
      CreateRoleProfileVersion_row_def CreateMissionRolePolicySnapshot_def tx_update_Inr tx_insert_Inr
      intro!: obeysI quiet_tables split: option.splits)

lemmas log_table_ops [log_ops] = quiet_table_ops [THEN quiet_log]

lemma log_node_ops [log_ops]:
  "obeys (preserves log_ok) (ListTaskNodesByMission ws mid)"
  "obeys (preserves log_ok) (GetTaskNodeInMission ws mid nid)"
  "obeys (preserves log_ok) (LockTaskNodeForReconcile ws mid nid)"
  "obeys (preserves log_ok) (ListOrchestrationIssueDependencies ws mid)"
  "obeys (preserves log_ok) (MarkTaskNodeReady \<epsilon> ws mid nid revision)"
  "obeys (preserves log_ok) (RetryBlockedTaskNode \<epsilon> ws mid nid revision)"
  "obeys (preserves log_ok) (TransitionTaskNodeForRework \<epsilon> ws mid nid target count)"
  "obeys (preserves log_ok) (TransitionTaskNodeState \<epsilon> ws mid nid target reason expected)"
  by (simp_all add: ListTaskNodesByMission_def GetTaskNodeInMission_def LockTaskNodeForReconcile_def
      ListOrchestrationIssueDependencies_def preserved.one preserved.query MarkTaskNodeReady_def
      RetryBlockedTaskNode_def TransitionTaskNodeForRework_def TransitionTaskNodeState_def log_table_ops)

lemma log_reads [log_ops]:
  "obeys (preserves log_ok) (GetOrchestrationAssignmentInWorkspace ws aid)"
  "obeys (preserves log_ok) (ListOrchestrationAssignmentsByMission ws mid)"
  "obeys (preserves log_ok) (ListOrchestrationRunsByMission ws mid)"
  "obeys (preserves log_ok) (ListActiveMissionRuns ws mid)"
  "obeys (preserves log_ok) (GetOrchestrationRunInWorkspace ws rid)"
  "obeys (preserves log_ok) (LockOrchestrationRunForReconcile ws rid)"
  "obeys (preserves log_ok) (ListQueuedOrchestrationRunsWithoutTask ws mid)"
  "obeys (preserves log_ok) (GetMissionBudgetUsage ws mid)"
  "obeys (preserves log_ok) (ListArtifactsByMission ws mid)"
  "obeys (preserves log_ok) (GetArtifactInWorkspace ws arid)"
  "obeys (preserves log_ok) (ListReviewVerdictsByMission ws mid)"
  "obeys (preserves log_ok) (ListOrchestrationActivitiesByCausation ws mid c)"
  "obeys (preserves log_ok) (GetNextRoleProfileVersion ws key)"
  "obeys (preserves log_ok) (ListMissionRolePolicySnapshots ws mid)"
  by (simp_all add: GetOrchestrationAssignmentInWorkspace_def ListOrchestrationAssignmentsByMission_def
      ListOrchestrationRunsByMission_def ListActiveMissionRuns_def
      GetOrchestrationRunInWorkspace_def LockOrchestrationRunForReconcile_def
      ListQueuedOrchestrationRunsWithoutTask_def GetMissionBudgetUsage_def ListArtifactsByMission_def
      GetArtifactInWorkspace_def ListReviewVerdictsByMission_def
      ListOrchestrationActivitiesByCausation_def GetNextRoleProfileVersion_def
      ListMissionRolePolicySnapshots_def preserved.one preserved.query)

lemma log_requireOwner [log_ops]: "obeys (preserves log_ok) (requireOwner ws actor)"
  by (rule obeysI) (auto simp: requireOwner_Inr preserves_def)

lemma log_createOrchestrationIssue [log_ops]:
  "obeys (preserves log_ok) (createOrchestrationIssue \<epsilon> ws title desc status ctype cid parent project)"
  unfolding createOrchestrationIssue_def by (intro preserved.rules log_ops)

lemma log_freeze [log_ops]: "obeys (preserves log_ok) (freezeRolePolicyBindings \<epsilon> ws mid actor bs)"
  unfolding freezeRolePolicyBindings_def freeze_binding_def freeze_new_def
  by (intro preserved.rules log_ops)

lemma log_ensure_frozen [log_ops]:
  "obeys (preserves log_ok) (ensureFrozenRolePolicyBindingsMatch \<epsilon> ws mid bs)"
  unfolding ensureFrozenRolePolicyBindingsMatch_def check_frozen_def
  by (intro preserved.rules log_ops)

section \<open>Creating a mission and logging\<close>

lemma log_CreateMissionRecord:
  assumes "iid \<noteq> None"
  shows "obeys (preserves log_ok) (CreateMissionRecord \<epsilon> iid ws limits creator)"
proof (rule obeysI)
  fix s m t
  assume "CreateMissionRecord \<epsilon> iid ws limits creator s = Inr (m, t)"
  then have fresh: "iid \<notin> fst ` set (counters s)" and c: "counters t = counters s @ [(iid, 1)]"
      and a: "db_activities t = db_activities s"
    using assms by (auto simp: CreateMissionRecord_def tx_insert_Inr counters_def sql_eq_def)
  show "preserves log_ok s t"
    unfolding preserves_def
  proof
    assume ok: "log_ok s"
    then have "mission_log iid s = []"
      using fresh by (auto simp: log_ok_def mission_log_def filter_empty_conv)
    moreover have "mission_log mid t = mission_log mid s" for mid by (simp add: mission_log_def a)
    ultimately show "log_ok t" using ok fresh c a by (auto simp: log_ok_def)
  qed
qed

lemma allocate_counters:
  assumes "allocateActivitySequence \<epsilon> ws mid s = Inr (n, t)" and "distinct (map fst (counters s))"
  shows "(mid, n) \<in> set (counters s) \<and> db_activities t = db_activities s \<and>
    map fst (counters t) = map fst (counters s) \<and>
    set (counters t) = insert (mid, n + 1) (set (counters s) - {(mid, n)})"
proof -
  let ?f = "\<lambda>m. m\<lparr>m_NextActivitySequence := m_NextActivitySequence m + 1, m_UpdatedAt := env_now \<epsilon>\<rparr>"
  obtain m where t: "t = s\<lparr>db_missions := update_rows (mission_is ws mid) ?f (db_missions s)\<rparr>"
      and m: "m \<in> set (db_missions s)" "mission_is ws mid m" "n = m_NextActivitySequence m"
    using allocate_Inr [OF assms(1)] by (auto dest!: find_SomeD)
  have id: "m_IssueID m = mid" using m(2) by (simp add: mission_is_def sql_eq_def)
  have only: "mission_is ws mid x \<longleftrightarrow> x = m" if "x \<in> set (db_missions s)" for x
  proof
    assume "mission_is ws mid x"
    then have "m_IssueID x = m_IssueID m" using id by (simp add: mission_is_def sql_eq_def)
    moreover have "inj_on m_IssueID (set (db_missions s))"
      using assms(2) by (simp add: counters_def distinct_map o_def)
    ultimately show "x = m" using that m(1) by (meson inj_onD)
  qed (simp add: m(2))
  have other: "m_IssueID x = mid \<longleftrightarrow> x = m" if "x \<in> set (db_missions s)" for x
    using assms(2) that m(1) id by (auto simp: counters_def distinct_map o_def inj_on_def)
  have "set (counters t) = insert (mid, n + 1) (set (counters s) - {(mid, n)})"
    using only other m id by (auto simp: t counters_def set_update_rows image_iff)
  moreover have "map fst (counters t) = map fst (counters s)"
    by (simp add: t counters_def update_rows_def)
  moreover have "(mid, n) \<in> set (counters s)" using m id by (force simp: counters_def)
  ultimately show ?thesis by (simp add: t)
qed

lemma log_one:
  assumes "allocateActivitySequence \<epsilon> ws mid s = Inr (n, u)"
    and "CreateOrchestrationActivity \<epsilon> row u = Inr (r, t)"
    and row: "ac_MissionID row = mid" "ac_Sequence row = n" and ok: "log_ok s"
  shows "log_ok t"
proof -
  have u: "(mid, n) \<in> set (counters s)" "db_activities u = db_activities s"
      "map fst (counters u) = map fst (counters s)"
      "set (counters u) = insert (mid, n + 1) (set (counters s) - {(mid, n)})"
    using allocate_counters [OF assms(1)] ok by (auto simp: log_ok_def)
  have t: "counters t = counters u" "db_activities t = db_activities s @ [r]"
      "ac_MissionID r = mid" "ac_Sequence r = n"
    using assms(2) row u(2) by (auto simp: create_activity_Inr counters_def)
  have n: "1 \<le> n" "mission_log mid s = map int [1..<nat n]" using ok u(1) by (auto simp: log_ok_def)
  have here: "mission_log mid t = map int [1..<nat (n + 1)]"
    using n by (simp add: mission_log_def t nat_add_distrib)
  have "1 \<le> v \<and> mission_log k t = map int [1..<nat v]" if kv: "(k, v) \<in> set (counters t)" for k v
  proof (cases "(k, v) = (mid, n + 1)")
    case True
    then show ?thesis using here n(1) by simp
  next
    case False
    then have s: "(k, v) \<in> set (counters s)" "(k, v) \<noteq> (mid, n)" using kv by (auto simp: t(1) u(4))
    then have "k \<noteq> mid"
      using u(1) ok eq_key_imp_eq_value [of "counters s" mid v n] by (auto simp: log_ok_def)
    then show ?thesis using ok s(1) by (auto simp: log_ok_def mission_log_def t)
  qed
  then have "\<forall>(k, v) \<in> set (counters t). 1 \<le> v \<and> mission_log k t = map int [1..<nat v]" by blast
  moreover have f: "fst ` set (counters t) = fst ` set (counters s)"
    using u(3) t(1) by (metis list.set_map)
  moreover have "distinct (map fst (counters t))" using ok u(3) by (simp add: log_ok_def t(1))
  moreover have "mid \<in> fst ` set (counters s)" using u(1) by force
  then have "ac_MissionID ` set (db_activities t) \<subseteq> fst ` set (counters t)"
    using ok f t(3) by (simp add: log_ok_def t(2))
  ultimately show ?thesis by (simp add: log_ok_def)
qed

lemma log_log_activity [log_ops]:
  "obeys (preserves log_ok) (log_activity \<epsilon> m1 m2 a)"
  "obeys (preserves log_ok) (log_command_activity \<epsilon> m1 m2 a)"
  "obeys (preserves log_ok) (createAutomaticActivity \<epsilon> mission nid rid typ st sid c corr key payload)"
  by (auto intro!: obeysI simp: log_activity_def log_command_activity_def createAutomaticActivity_def
      preserves_def) (erule log_one, assumption, simp_all add: activity_row_def)+

lemma log_recorded:
  "(\<And>a. obeys (preserves I) (load a)) \<Longrightarrow> obeys (preserves I) body \<Longrightarrow>
     obeys (preserves I) (recorded_command recorded msg load body)"
  unfolding obeys_def recorded_command_def by (auto split: option.splits sum.splits if_splits)

lemma log_replay_or:
  "(\<And>a. obeys (preserves I) (load a)) \<Longrightarrow> obeys (preserves I) body \<Longrightarrow>
     obeys (preserves I) (replay_or recorded load body)"
  unfolding obeys_def replay_or_def by (auto split: option.splits)

lemmas log_rules = preserved.rules log_recorded log_replay_or

lemma log_CreateRoleProfileVersion:
  "obeys (preserves log_ok) (CreateRoleProfileVersion \<epsilon> command)"
  unfolding CreateRoleProfileVersion_def CreateRoleProfileVersion_repo_def Let_def
  by (intro log_rules log_ops)

end
