(* ===== verification/LifecycleLaws.thy ===== *)
theory LifecycleLaws
  imports Lifecycle LogOrder
begin

text \<open>
  The lifecycle commands keep the past (\<open>history\<close>) and the numbering of the log (\<open>log_ok\<close>), and a
  command that succeeded is only replayed afterwards, whatever happened in between.
\<close>

section \<open>Reading back\<close>

lemma reads_load:
  "reads (loadCreateMissionResult ws a)"
  "reads (loadSubmitPlanResult ws mid a)"
  "reads (loadStartMissionResult \<epsilon> ws mid a)"
  "reads (replayStartMission \<epsilon> params a)"
  "reads (loadCancelMissionResult ws mid a)"
  unfolding loadCreateMissionResult_def loadSubmitPlanResult_def loadStartMissionResult_def
    replayStartMission_def loadCancelMissionResult_def GetMissionInWorkspace_def GetIssueInWorkspace_def
    ListTaskNodesByMission_def ListOrchestrationIssueDependencies_def ListActiveMissionRuns_def
    ListOrchestrationActivitiesByCausation_def ListMissionRolePolicySnapshots_def
    ensureFrozenRolePolicyBindingsMatch_def check_frozen_def
  by (intro unchanged.rules)+

lemma reads_obeys: "reads act \<Longrightarrow> (\<And>s. R s s) \<Longrightarrow> obeys R act"
  by (auto simp: obeys_def)

lemma loads [history_ops, log_ops]:
  "obeys history (loadCreateMissionResult ws a)"
  "obeys history (loadSubmitPlanResult ws mid a)"
  "obeys history (loadStartMissionResult \<epsilon> ws mid a)"
  "obeys history (replayStartMission \<epsilon> params a)"
  "obeys history (loadCancelMissionResult ws mid a)"
  "obeys (preserves log_ok) (loadCreateMissionResult ws a)"
  "obeys (preserves log_ok) (loadSubmitPlanResult ws mid a)"
  "obeys (preserves log_ok) (loadStartMissionResult \<epsilon> ws mid a)"
  "obeys (preserves log_ok) (replayStartMission \<epsilon> params a)"
  "obeys (preserves log_ok) (loadCancelMissionResult ws mid a)"
  by (auto intro!: reads_obeys reads_load past.R_refl preserved.R_refl)

section \<open>The past\<close>

lemma history_CreateMission_body: "obeys history (CreateMission_body \<epsilon> params key)"
  unfolding CreateMission_body_def by (intro history_rules history_ops)

lemma history_CreateMission: "obeys history (CreateMission \<epsilon> hard command)"
  unfolding CreateMission_def CreateMission_repo_def Let_def
  by (intro history_rules history_ops history_CreateMission_body)

lemma history_proposal_source [history_ops]: "obeys history (validatePlanProposalSource params mission)"
  unfolding validatePlanProposalSource_def by (intro history_rules history_ops)

lemma history_plan_rows [history_ops]:
  "obeys history (create_plan_node \<epsilon> params project node)"
  "obeys history (create_plan_dependency ids edge)"
  unfolding create_plan_node_def create_plan_dependency_def by (intro history_rules history_ops)+

lemma history_SubmitPlan_write [history_ops]:
  "obeys history (SubmitPlan_write \<epsilon> params key source root planning)"
  unfolding SubmitPlan_write_def Let_def by (intro history_rules history_ops)

lemma history_SubmitPlan_body [history_ops]: "obeys history (SubmitPlan_body \<epsilon> params key)"
  unfolding SubmitPlan_body_def Let_def by (intro history_rules history_ops)

lemma history_SubmitPlan_repo [history_ops]: "obeys history (SubmitPlan_repo \<epsilon> params)"
  unfolding SubmitPlan_repo_def by (intro history_rules history_ops)

lemma history_SubmitPlan:
  "obeys history (SubmitPlan \<epsilon> hard command)" "obeys history (SubmitPlanProposal \<epsilon> hard pcommand)"
  unfolding SubmitPlan_def SubmitPlanProposal_def Let_def by (intro history_rules history_ops)+

lemma history_start_node [history_ops]: "obeys history (start_ready_node \<epsilon> params key nodes k)"
  unfolding start_ready_node_def Let_def by (intro history_rules history_ops)

lemma history_StartMission_write [history_ops]:
  "obeys history (StartMission_write \<epsilon> params key nodes ready snaps)"
  unfolding StartMission_write_def Let_def by (intro history_rules history_ops)

lemma history_StartMission_body [history_ops]: "obeys history (StartMission_body \<epsilon> params key)"
  unfolding StartMission_body_def Let_def by (intro history_rules history_ops)

lemma obeys_state_case:
  "(\<And>a. obeys R (f a)) \<Longrightarrow> obeys R g \<Longrightarrow> obeys R (\<lambda>s. case h s of None \<Rightarrow> g s | Some a \<Rightarrow> f a s)"
  by (auto simp: obeys_def split: option.splits)

lemma history_StartMission: "obeys history (StartMission \<epsilon> command)"
  unfolding StartMission_def StartMission_repo_def Let_def
  by (intro history_rules obeys_state_case history_ops)

lemma history_cancel_node [history_ops]: "obeys history (cancel_node_activity \<epsilon> params key node)"
  unfolding cancel_node_activity_def by (intro history_ops)

lemma history_CancelMission: "obeys history (CancelMission \<epsilon> command)"
  unfolding CancelMission_def CancelMission_repo_def CancelMission_body_def CancelMission_write_def Let_def
  by (intro history_rules history_ops)

section \<open>The numbering of the log\<close>

lemma createOrchestrationIssue_id:
  "createOrchestrationIssue \<epsilon> ws title desc status ctype cid parent project s = Inr (issue, t) \<Longrightarrow>
     i_ID issue \<noteq> None"
  by (auto simp: createOrchestrationIssue_def CreateIssue_def draw_uuid_def tx_insert_Inr)

lemma log_CreateMission: "obeys (preserves log_ok) (CreateMission \<epsilon> hard command)"
  unfolding CreateMission_def CreateMission_repo_def CreateMission_body_def Let_def
  by (intro preserved.return preserved.query preserved.guard preserved.lift preserved.wrap log_recorded
      log_ops preserved.bind_result log_CreateMissionRecord) (auto dest: createOrchestrationIssue_id)

lemma log_proposal_source [log_ops]:
  "obeys (preserves log_ok) (validatePlanProposalSource params mission)"
  unfolding validatePlanProposalSource_def by (intro log_rules log_ops)

lemma log_race: "obeys (preserves I) act \<Longrightarrow> obeys (preserves I) (tx_race msg act)"
  by (auto simp: obeys_def)

lemma log_plan_rows [log_ops]:
  "obeys (preserves log_ok) (create_plan_node \<epsilon> params project node)"
  "obeys (preserves log_ok) (create_plan_dependency ids edge)"
  unfolding create_plan_node_def create_plan_dependency_def by (intro log_rules log_ops)+

lemma log_SubmitPlan_repo [log_ops]: "obeys (preserves log_ok) (SubmitPlan_repo \<epsilon> params)"
  unfolding SubmitPlan_repo_def SubmitPlan_body_def SubmitPlan_write_def Let_def
  by (intro log_rules log_ops)

lemma log_SubmitPlan:
  "obeys (preserves log_ok) (SubmitPlan \<epsilon> hard command)"
  "obeys (preserves log_ok) (SubmitPlanProposal \<epsilon> hard pcommand)"
  unfolding SubmitPlan_def SubmitPlanProposal_def Let_def by (intro log_rules log_ops)+

lemma log_start_node [log_ops]: "obeys (preserves log_ok) (start_ready_node \<epsilon> params key nodes k)"
  unfolding start_ready_node_def Let_def by (intro log_rules log_ops)

lemma log_StartMission: "obeys (preserves log_ok) (StartMission \<epsilon> command)"
  unfolding StartMission_def StartMission_repo_def StartMission_body_def StartMission_write_def Let_def
  by (intro log_rules obeys_state_case log_ops)

lemma log_cancel_node [log_ops]: "obeys (preserves log_ok) (cancel_node_activity \<epsilon> params key node)"
  unfolding cancel_node_activity_def by (intro log_ops)

lemma log_CancelMission: "obeys (preserves log_ok) (CancelMission \<epsilon> command)"
  unfolding CancelMission_def CancelMission_repo_def CancelMission_body_def CancelMission_write_def Let_def
  by (intro log_rules log_ops)

section \<open>At most once\<close>

text \<open>What a key is recorded under stays recorded.\<close>

abbreviation recorded_in :: "db \<Rightarrow> uuid \<Rightarrow> uuid \<Rightarrow> bool" where
  "recorded_in t ws command \<equiv>
     \<exists>key a. commandDedupeKey command = Inr key \<and> GetOrchestrationActivityByDedupeKey ws key t = Some a"

lemma recorded_in_later: "recorded_in t ws c \<Longrightarrow> history t u \<Longrightarrow> recorded_in u ws c"
  using command_log.recorded_stays history_log by metis

lemma validUUID_not_None: "validUUID u \<Longrightarrow> u \<noteq> None"
  by (cases u) (simp_all add: validUUID_def)

lemma identity_workspace:
  "validateCommandIdentity ws mid c corr actor m = [] \<Longrightarrow> ws \<noteq> None \<and> c \<noteq> None \<and> (m \<longrightarrow> mid \<noteq> None)"
  by (auto simp: validateCommandIdentity_def check_uuid_def dest: validUUID_not_None split: if_splits)

lemma CreateMission_body_recorded:
  assumes "CreateMission_body \<epsilon> params key s = Inr (r, t)" and "cm_WorkspaceID params \<noteq> None"
  shows "\<exists>a. GetOrchestrationActivityByDedupeKey (cm_WorkspaceID params) key t = Some a"
  using assms(1) unfolding CreateMission_body_def
  by (auto dest!: command_log.record_recorded simp: assms(2))

lemma SubmitPlan_body_recorded:
  assumes "SubmitPlan_body \<epsilon> params key s = Inr (r, t)" and "sp_WorkspaceID params \<noteq> None"
  shows "\<exists>a. GetOrchestrationActivityByDedupeKey (sp_WorkspaceID params) key t = Some a"
  using assms(1) unfolding SubmitPlan_body_def SubmitPlan_write_def Let_def
  by (auto dest!: command_log.record_recorded obeysD [OF reads_load(2)] simp: assms(2) replay_or_def
      split: if_splits option.splits)

lemma recorded_history:
  "GetOrchestrationActivityByDedupeKey ws key s = Some a \<Longrightarrow> history s t \<Longrightarrow>
     GetOrchestrationActivityByDedupeKey ws key t = Some a"
  using command_log.recorded_stays history_log by metis

lemma StartMission_write_recorded:
  assumes "StartMission_write \<epsilon> params key nodes ready snaps s = Inr (r, t)"
    and "st_WorkspaceID params \<noteq> None"
  shows "\<exists>a. GetOrchestrationActivityByDedupeKey (st_WorkspaceID params) key t = Some a"
proof -
  obtain v u row started where "log_command_activity \<epsilon> ''start mission'' ''start mission: create activity''
      \<lparr>as_WorkspaceID = st_WorkspaceID params, as_MissionID = st_MissionID params,
       as_TaskNodeID = None, as_RunID = None, as_Type = ''mission.started'', as_ActorType = ''user'',
       as_ActorID = st_ActorID params, as_SubjectType = ''mission'', as_SubjectID = st_MissionID params,
       as_CausationID = st_CommandID params,
       as_CorrelationID = correlationOrCommand (st_CorrelationID params) (st_CommandID params),
       as_Payload = start_payload snaps, as_DedupeKey = key\<rparr> v = Inr (row, u)"
    and "tx_map (start_ready_node \<epsilon> params key nodes) ready u = Inr (started, t)"
    using assms(1) unfolding StartMission_write_def Let_def by auto
  moreover from this(2) have "history u t" by (rule obeysD [OF past.map [OF history_start_node]])
  ultimately show ?thesis using assms(2) by (auto dest!: command_log.record_recorded dest: recorded_history)
qed

lemma StartMission_body_recorded:
  assumes "StartMission_body \<epsilon> params key s = Inr (r, t)" and "st_WorkspaceID params \<noteq> None"
  shows "\<exists>a. GetOrchestrationActivityByDedupeKey (st_WorkspaceID params) key t = Some a"
  using assms(1) unfolding StartMission_body_def Let_def
  by (auto dest!: StartMission_write_recorded [OF _ assms(2)] obeysD [OF reads_load(4)]
      simp: replay_or_def split: if_splits option.splits)

lemma CancelMission_body_recorded:
  assumes "CancelMission_body \<epsilon> params key s = Inr (r, t)" and "ca_WorkspaceID params \<noteq> None"
  shows "\<exists>a. GetOrchestrationActivityByDedupeKey (ca_WorkspaceID params) key t = Some a"
proof -
  have "\<exists>a. GetOrchestrationActivityByDedupeKey (ca_WorkspaceID params) key t' = Some a"
    if w: "CancelMission_write \<epsilon> params key s' = Inr (r', t')" for s' r' t'
  proof -
    obtain v u row nodes acts where "log_command_activity \<epsilon> ''cancel mission'' ''cancel mission: create activity''
        \<lparr>as_WorkspaceID = ca_WorkspaceID params, as_MissionID = ca_MissionID params,
         as_TaskNodeID = None, as_RunID = None, as_Type = ''mission.cancelled'', as_ActorType = ''user'',
         as_ActorID = ca_ActorID params, as_SubjectType = ''mission'', as_SubjectID = ca_MissionID params,
         as_CausationID = ca_CommandID params,
         as_CorrelationID = correlationOrCommand (ca_CorrelationID params) (ca_CommandID params),
         as_Payload = JObj (json_omit ''reason'' (ca_Reason params)), as_DedupeKey = key\<rparr> v = Inr (row, u)"
      and "tx_map (cancel_node_activity \<epsilon> params key) nodes u = Inr (acts, t')"
      using w unfolding CancelMission_write_def Let_def ListTaskNodesByMission_def by auto
    moreover from this(2) have "history u t'" by (rule obeysD [OF past.map [OF history_cancel_node]])
    ultimately show ?thesis using assms(2) by (auto dest!: command_log.record_recorded dest: recorded_history)
  qed
  with assms(1) show ?thesis
    unfolding CancelMission_body_def Let_def
    by (auto dest!: obeysD [OF reads_load(5)] simp: replay_or_def split: if_splits option.splits)
qed

text \<open>So a repository command that returned has recorded its key.\<close>

lemma repo_recorded:
  "CreateMission_repo \<epsilon> cp s = Inr (r1, t) \<Longrightarrow> cm_WorkspaceID cp \<noteq> None \<Longrightarrow>
     recorded_in t (cm_WorkspaceID cp) (cm_CommandID cp)"
  "SubmitPlan_repo \<epsilon> sp s = Inr (r2, t) \<Longrightarrow> sp_WorkspaceID sp \<noteq> None \<Longrightarrow>
     recorded_in t (sp_WorkspaceID sp) (sp_CommandID sp)"
  "CancelMission_repo \<epsilon> ca s = Inr (r3, t) \<Longrightarrow> ca_WorkspaceID ca \<noteq> None \<Longrightarrow>
     recorded_in t (ca_WorkspaceID ca) (ca_CommandID ca)"
  unfolding CreateMission_repo_def SubmitPlan_repo_def CancelMission_repo_def
  by (auto intro: command_log.command_recorded reads_load CreateMission_body_recorded
      SubmitPlan_body_recorded CancelMission_body_recorded)

lemma StartMission_repo_recorded:
  assumes "StartMission_repo \<epsilon> p s = Inr (r, t)" and "st_WorkspaceID p \<noteq> None"
  shows "recorded_in t (st_WorkspaceID p) (st_CommandID p)"
proof -
  obtain key where key: "commandDedupeKey (st_CommandID p) = Inr key"
    using assms(1) by (auto simp: StartMission_repo_def)
  show ?thesis
  proof (cases "GetOrchestrationActivityByDedupeKey (st_WorkspaceID p) key s")
    case (Some a)
    then have "t = s" using assms(1) key obeysD [OF reads_load(4)] by (auto simp: StartMission_repo_def)
    then show ?thesis using Some key by auto
  next
    case None
    then have "recorded_command (GetOrchestrationActivityByDedupeKey (st_WorkspaceID p) key)
        ''load start mission command result'' (loadStartMissionResult \<epsilon> (st_WorkspaceID p) (st_MissionID p))
        (StartMission_body \<epsilon> p key) s = Inr (r, t)"
      using assms(1) key by (auto simp: StartMission_repo_def)
    from command_log.command_recorded [OF this reads_load(3) StartMission_body_recorded [OF _ assms(2)]]
    show ?thesis using key by auto
  qed
qed

text \<open>And a recorded command only reads.\<close>

lemma load_idempotent:
  "loadCreateMissionResult ws a u = Inr (r1, t) \<Longrightarrow> cmr_Idempotent r1"
  "loadSubmitPlanResult ws mid a u = Inr (r2, t) \<Longrightarrow> spr_Idempotent r2"
  "loadStartMissionResult \<epsilon> ws mid a u = Inr (r3, t) \<Longrightarrow> smr_Idempotent r3"
  "loadCancelMissionResult ws mid a u = Inr (r4, t) \<Longrightarrow> car_Idempotent r4"
  by (auto simp: loadCreateMissionResult_def loadSubmitPlanResult_def loadStartMissionResult_def
      loadCancelMissionResult_def)

lemma repo_replays:
  "recorded_in u (cm_WorkspaceID cp) (cm_CommandID cp) \<Longrightarrow> CreateMission_repo \<epsilon> cp u = Inr (r1, t) \<Longrightarrow>
     t = u \<and> cmr_Idempotent r1"
  "recorded_in u (sp_WorkspaceID sp) (sp_CommandID sp) \<Longrightarrow> SubmitPlan_repo \<epsilon> sp u = Inr (r2, t) \<Longrightarrow>
     t = u \<and> spr_Idempotent r2"
  "recorded_in u (ca_WorkspaceID ca) (ca_CommandID ca) \<Longrightarrow> CancelMission_repo \<epsilon> ca u = Inr (r4, t) \<Longrightarrow>
     t = u \<and> car_Idempotent r4"
  unfolding CreateMission_repo_def SubmitPlan_repo_def CancelMission_repo_def recorded_command_def
  by (auto dest: load_idempotent obeysD [OF reads_load(1)] obeysD [OF reads_load(2)]
      obeysD [OF reads_load(5)])

lemma StartMission_repo_replays:
  assumes "recorded_in u (st_WorkspaceID st) (st_CommandID st)" and "StartMission_repo \<epsilon> st u = Inr (r, t)"
  shows "t = u \<and> smr_Idempotent r"
proof -
  obtain a where a: "replayStartMission \<epsilon> st a u = Inr (r, t)"
    using assms by (auto simp: StartMission_repo_def)
  then have "smr_Idempotent r" by (auto simp: replayStartMission_def dest: load_idempotent)
  then show ?thesis using obeysD [OF reads_load(4) a] by simp
qed

end
