(* ===== verification/PlanGraph.thy ===== *)
theory PlanGraph
  imports LifecycleLaws
begin

text \<open>
  The stored task graph.  Accepting a plan writes one task node per plan node and one dependency row
  per dependency, and nothing else ever writes them, so in every reachable state the graph of a
  mission mirrors its accepted plan (\<open>mirrored\<close>); a draft mission has no nodes.  Because a plan was
  validated before it was stored, starting the mission finds a first task to run.
\<close>

section \<open>What stays of a graph\<close>

type_synonym node_facts = "uuid \<times> uuid \<times> string \<times> Duty \<times> string list \<times> ArtifactKind list \<times> int \<times> int"

definition row_facts :: "TaskNodeRow \<Rightarrow> node_facts" where
  "row_facts n = (t_WorkspaceID n, t_MissionID n, t_NodeKey n, t_Role n, t_AcceptanceCriteria n,
     t_ArtifactKinds n, t_BudgetEstimateTokens n, t_BudgetEstimateCostUsdTicks n)"

definition plan_facts :: "uuid \<Rightarrow> uuid \<Rightarrow> PlanNode \<Rightarrow> node_facts" where
  "plan_facts ws mid n = (ws, mid, pn_Key n, pn_Duty n, pn_AcceptanceCriteria n, pn_ArtifactKinds n,
     est_Tokens (pn_BudgetEstimate n), est_CostUSDTicks (pn_BudgetEstimate n))"

definition same_mission :: "MissionRow \<Rightarrow> MissionRow \<Rightarrow> bool" where
  "same_mission m m' \<longleftrightarrow> m_IssueID m' = m_IssueID m \<and> m_WorkspaceID m' = m_WorkspaceID m \<and>
     m_Plan m' = m_Plan m \<and> (m_Status m' = MissionStatusDraft \<longrightarrow> m_Status m = MissionStatusDraft)"

definition graph_kept :: "db \<Rightarrow> db \<Rightarrow> bool" where
  "graph_kept s t \<longleftrightarrow>
     map (\<lambda>n. (t_IssueID n, row_facts n)) (db_nodes t) = map (\<lambda>n. (t_IssueID n, row_facts n)) (db_nodes s) \<and>
     db_dependencies t = db_dependencies s \<and> list_all2 same_mission (db_missions s) (db_missions t)"

interpretation graph: tx_preorder graph_kept
proof
  have r: "same_mission m m" for m by (simp add: same_mission_def)
  then show "graph_kept s s" for s by (simp add: graph_kept_def list_all2_same)
  have "same_mission a b \<Longrightarrow> same_mission b c \<Longrightarrow> same_mission a c" for a b c
    by (auto simp: same_mission_def)
  then show "graph_kept s u" if "graph_kept s t" "graph_kept t u" for s t u
    using that list_all2_trans [of same_mission same_mission same_mission "db_missions s" "db_missions t" "db_missions u"]
    by (auto simp: graph_kept_def)
qed

named_theorems graph_ops "queries that keep every task graph"

lemma graph_kept_tables:
  "db_nodes t = db_nodes s \<Longrightarrow> db_dependencies t = db_dependencies s \<Longrightarrow> db_missions t = db_missions s \<Longrightarrow>
     graph_kept s t"
  by (simp add: graph_kept_def same_mission_def list_all2_same)

lemma graph_update_mission:
  assumes "\<And>m. P m \<Longrightarrow> same_mission m (f m)"
  shows "obeys graph_kept (update_mission P f)"
  unfolding update_mission_def
  by (rule obeys_update)
    (auto simp: graph_kept_def update_rows_def list_all2_map2 list_all2_same
      assms [unfolded same_mission_def] same_mission_def)

lemma graph_mission_ops [graph_ops]:
  "obeys graph_kept (GetMissionInWorkspace ws mid)"
  "obeys graph_kept (LockMissionInWorkspace ws mid)"
  "obeys graph_kept (StartMissionRecord \<epsilon> ws mid expected)"
  "obeys graph_kept (CancelMissionRecord \<epsilon> ws mid expected)"
  "obeys graph_kept (SetMissionBudgetGate \<epsilon> ws mid gate)"
  "obeys graph_kept (ResumeMissionForTaskRetry \<epsilon> ws mid expected)"
  by (auto simp: LockMissionInWorkspace_def GetMissionInWorkspace_def StartMissionRecord_def
      CancelMissionRecord_def SetMissionBudgetGate_def ResumeMissionForTaskRetry_def same_mission_def
      touch_mission_def intro: graph.one graph_update_mission)

lemma graph_TransitionMissionState:
  "target \<noteq> MissionStatusDraft \<Longrightarrow> obeys graph_kept (TransitionMissionState \<epsilon> ws mid target from)"
  unfolding TransitionMissionState_def
  by (auto simp: same_mission_def touch_mission_def intro!: graph_update_mission)

lemma graph_allocate [graph_ops]:
  "obeys graph_kept (AllocateMissionActivitySequence \<epsilon> ws mid)"
  "obeys graph_kept (allocateActivitySequence \<epsilon> ws mid)"
  unfolding allocateActivitySequence_def AllocateMissionActivitySequence_def
  by (intro graph.wrap graph.bind graph.return graph_update_mission; simp add: same_mission_def)+

lemma graph_update_node:
  "(\<And>n. row_facts (f n) = row_facts n \<and> t_IssueID (f n) = t_IssueID n) \<Longrightarrow>
     obeys graph_kept (update_node P f)"
  unfolding update_node_def
  by (rule obeys_update)
    (auto simp: graph_kept_def update_rows_def same_mission_def list_all2_same)

lemma graph_node_ops [graph_ops]:
  "obeys graph_kept (MarkTaskNodeReady \<epsilon> ws mid nid revision)"
  "obeys graph_kept (RetryBlockedTaskNode \<epsilon> ws mid nid revision)"
  "obeys graph_kept (TransitionTaskNodeForRework \<epsilon> ws mid nid target cnt)"
  "obeys graph_kept (TransitionTaskNodeState \<epsilon> ws mid nid target reason expected)"
  "obeys graph_kept (GetTaskNodeInMission ws mid nid)"
  "obeys graph_kept (LockTaskNodeForReconcile ws mid nid)"
  "obeys graph_kept (ListTaskNodesByMission ws mid)"
  "obeys graph_kept (ListOrchestrationIssueDependencies ws mid)"
  by (auto simp: MarkTaskNodeReady_def RetryBlockedTaskNode_def TransitionTaskNodeForRework_def
      TransitionTaskNodeState_def GetTaskNodeInMission_def LockTaskNodeForReconcile_def
      ListTaskNodesByMission_def ListOrchestrationIssueDependencies_def row_facts_def touch_node_def
      intro: graph_update_node graph.one graph.query)

lemma graph_CancelNodes [graph_ops]: "obeys graph_kept (CancelMissionTaskNodes \<epsilon> ws mid)"
  by (rule obeysI)
    (auto simp: CancelMissionTaskNodes_def Let_def graph_kept_def update_rows_def row_facts_def
      touch_node_def same_mission_def list_all2_same)

lemma graph_other_ops [graph_ops]:
  "obeys graph_kept (draw_uuid \<epsilon>)"
  "obeys graph_kept (GetIssueInWorkspace ws iid)"
  "obeys graph_kept (UpdateIssueStatus ws iid status)"
  "obeys graph_kept (IncrementIssueCounter ws)"
  "obeys graph_kept (NextTopPosition ws status)"
  "obeys graph_kept (CreateIssue \<epsilon> row)"
  "obeys graph_kept (RevokeMissionAssignments \<epsilon> ws mid)"
  "obeys graph_kept (EndOrchestrationAssignment \<epsilon> ws mid aid target')"
  "obeys graph_kept (CreateOrchestrationAssignment \<epsilon> ws mid nid role agent rt seq prev creator)"
  "obeys graph_kept (CreateOrchestrationRun \<epsilon> ws mid nid aid purpose attempt input retry deadline timeout)"
  "obeys graph_kept (UpdateOrchestrationRunFromReconcile ws rid rtarget rexpected kind msg started finished)"
  "obeys graph_kept (CreateRoleProfileVersion_row \<epsilon> prow)"
  "obeys graph_kept (CreateMissionRolePolicySnapshot \<epsilon> srow)"
  "obeys graph_kept (CreateOrchestrationActivity \<epsilon> arow)"
  by (auto simp: draw_uuid_def GetIssueInWorkspace_def UpdateIssueStatus_def IncrementIssueCounter_def
      NextTopPosition_def CreateIssue_def RevokeMissionAssignments_def Let_def
      EndOrchestrationAssignment_def CreateOrchestrationAssignment_def CreateOrchestrationRun_def
      UpdateOrchestrationRunFromReconcile_def CreateRoleProfileVersion_row_def
      CreateMissionRolePolicySnapshot_def CreateOrchestrationActivity_def tx_insert_Inr tx_update_Inr
      intro!: obeysI graph_kept_tables split: option.splits)

lemma graph_race: "obeys graph_kept act \<Longrightarrow> obeys graph_kept (tx_race msg act)"
  by (auto simp: obeys_def)

lemma graph_recorded:
  "(\<And>a. obeys graph_kept (load a)) \<Longrightarrow> obeys graph_kept body \<Longrightarrow>
     obeys graph_kept (recorded_command recorded msg load body)"
  "(\<And>a. obeys graph_kept (load a)) \<Longrightarrow> obeys graph_kept body \<Longrightarrow>
     obeys graph_kept (replay_or recorded load body)"
  unfolding obeys_def recorded_command_def replay_or_def by (auto split: option.splits sum.splits if_splits)

lemmas graph_rules = graph.rules graph_recorded graph_race

lemma graph_logging [graph_ops]:
  "obeys graph_kept (log_activity \<epsilon> m1 m2 a)" "obeys graph_kept (log_command_activity \<epsilon> m1 m2 a)"
  "obeys graph_kept (createAutomaticActivity \<epsilon> mission nid rid typ st sid c corr key payload)"
  unfolding log_activity_def log_command_activity_def createAutomaticActivity_def
  by (intro graph_rules graph_ops)+

lemma graph_run_reads [graph_ops]:
  "obeys graph_kept (ListOrchestrationRunsByMission ws mid)"
  "obeys graph_kept (ListActiveMissionRuns ws mid)"
  "obeys graph_kept (GetOrchestrationRunInWorkspace ws rid)"
  "obeys graph_kept (ListQueuedOrchestrationRunsWithoutTask ws mid)"
  "obeys graph_kept (GetMissionBudgetUsage ws mid)"
  "obeys graph_kept (ListArtifactsByMission ws mid)"
  "obeys graph_kept (GetArtifactInWorkspace ws arid)"
  "obeys graph_kept (ListReviewVerdictsByMission ws mid)"
  "obeys graph_kept (GetOrchestrationAssignmentInWorkspace ws aid)"
  "obeys graph_kept (ListOrchestrationAssignmentsByMission ws mid)"
  by (simp_all add: ListOrchestrationRunsByMission_def ListActiveMissionRuns_def
      GetOrchestrationRunInWorkspace_def ListQueuedOrchestrationRunsWithoutTask_def
      GetMissionBudgetUsage_def ListArtifactsByMission_def GetArtifactInWorkspace_def
      ListReviewVerdictsByMission_def GetOrchestrationAssignmentInWorkspace_def
      ListOrchestrationAssignmentsByMission_def graph.one graph.query)

lemma graph_requireOwner [graph_ops]: "obeys graph_kept (requireOwner ws actor)"
  by (auto simp: requireOwner_Inr graph.R_refl intro!: obeysI)

lemma graph_shared_ops [graph_ops]:
  "obeys graph_kept (createOrchestrationIssue \<epsilon> ws title desc status ctype cid parent project)"
  "obeys graph_kept (GetNextRoleProfileVersion ws key)"
  "obeys graph_kept (freezeRolePolicyBindings \<epsilon> ws mid actor bs)"
  unfolding createOrchestrationIssue_def freezeRolePolicyBindings_def freeze_binding_def freeze_new_def
    GetNextRoleProfileVersion_def
  by (intro graph_rules graph_ops)+

lemma graph_loads [graph_ops]:
  "obeys graph_kept (loadCreateMissionResult ws a)"
  "obeys graph_kept (loadSubmitPlanResult ws mid a)"
  "obeys graph_kept (loadStartMissionResult \<epsilon> ws mid a)"
  "obeys graph_kept (replayStartMission \<epsilon> params a)"
  "obeys graph_kept (loadCancelMissionResult ws mid a)"
  by (auto intro!: reads_obeys reads_load graph.R_refl)

section \<open>Commands that leave the graphs alone\<close>

lemma graph_CreateRoleProfileVersion: "obeys graph_kept (CreateRoleProfileVersion \<epsilon> command)"
  unfolding CreateRoleProfileVersion_def CreateRoleProfileVersion_repo_def Let_def
  by (intro graph_rules graph_ops)

lemma graph_start_node [graph_ops]: "obeys graph_kept (start_ready_node \<epsilon> params key nodes k)"
  unfolding start_ready_node_def Let_def by (intro graph_rules graph_ops)

lemma graph_StartMission: "obeys graph_kept (StartMission \<epsilon> command)"
  unfolding StartMission_def StartMission_repo_def StartMission_body_def StartMission_write_def Let_def
  by (intro graph_rules obeys_state_case graph_ops)

lemma graph_cancel_node [graph_ops]: "obeys graph_kept (cancel_node_activity \<epsilon> params key node)"
  unfolding cancel_node_activity_def by (intro graph_ops)

lemma graph_CancelMission: "obeys graph_kept (CancelMission \<epsilon> command)"
  unfolding CancelMission_def CancelMission_repo_def CancelMission_body_def CancelMission_write_def Let_def
  by (intro graph_rules graph_ops)

section \<open>What accepting a plan writes\<close>

lemma create_plan_node_Inr:
  assumes "create_plan_node \<epsilon> params project node s = Inr (r, t)"
  shows "db_nodes t = db_nodes s @ [r] \<and> db_dependencies t = db_dependencies s \<and>
    db_missions t = db_missions s \<and> t_IssueID r \<noteq> None \<and> t_IssueID r \<notin> t_IssueID ` set (db_nodes s) \<and>
    row_facts r = plan_facts (sp_WorkspaceID params) (sp_MissionID params) node \<and>
    t_Status r = TaskStatusPending \<and> t_CreatedAt r = env_now \<epsilon> \<and> t_Priority r = 0"
proof -
  obtain i u where i: "createOrchestrationIssue \<epsilon> (sp_WorkspaceID params) (pn_Title node)
      (Some (pn_Description node)) ''backlog'' (issueCreatorType (sp_ActorType params)) (sp_ActorID params)
      (sp_MissionID params) project s = Inr (i, u)"
    and c: "CreateTaskNodeRecord \<epsilon> (i_ID i) (sp_WorkspaceID params) (sp_MissionID params) node u = Inr (r, t)"
    using assms by (auto simp: create_plan_node_def)
  have "i_ID i \<noteq> None" using createOrchestrationIssue_id [OF i] .
  moreover have "db_nodes u = db_nodes s \<and> db_dependencies u = db_dependencies s \<and> db_missions u = db_missions s"
    using i by (auto simp: createOrchestrationIssue_def IncrementIssueCounter_def NextTopPosition_def
        CreateIssue_def draw_uuid_def tx_insert_Inr split: option.splits)
  ultimately show ?thesis
    using c by (auto simp: CreateTaskNodeRecord_def tx_insert_Inr row_facts_def plan_facts_def sql_eq_def)
qed

text \<open>The rows written for a plan's nodes, one each in order.\<close>

definition planned_rows :: "uuid \<Rightarrow> uuid \<Rightarrow> PlanNode list \<Rightarrow> TaskNodeRow list \<Rightarrow> bool" where
  "planned_rows ws mid nodes rows \<longleftrightarrow>
     map row_facts rows = map (plan_facts ws mid) nodes \<and> distinct (map t_IssueID rows) \<and>
     None \<notin> t_IssueID ` set rows"

lemma create_plan_nodes_Inr:
  "tx_map (create_plan_node \<epsilon> params project) nodes s = Inr (rows, t) \<Longrightarrow>
     db_nodes t = db_nodes s @ rows \<and> db_dependencies t = db_dependencies s \<and>
     db_missions t = db_missions s \<and> t_IssueID ` set rows \<inter> t_IssueID ` set (db_nodes s) = {} \<and>
     planned_rows (sp_WorkspaceID params) (sp_MissionID params) nodes rows \<and>
     (\<forall>r \<in> set rows. t_Status r = TaskStatusPending \<and> t_CreatedAt r = env_now \<epsilon> \<and> t_Priority r = 0)"
proof (induction nodes arbitrary: s rows)
  case Nil
  then show ?case by (simp add: planned_rows_def)
next
  case (Cons n ns)
  then obtain r u rs where r: "create_plan_node \<epsilon> params project n s = Inr (r, u)"
    and rs: "tx_map (create_plan_node \<epsilon> params project) ns u = Inr (rs, t)" "rows = r # rs" by auto
  from create_plan_node_Inr [OF r] Cons.IH [OF rs(1)] rs(2) show ?case
    by (auto simp: planned_rows_def)
qed

definition edge_ids :: "(string \<Rightarrow> uuid option) \<Rightarrow> string \<times> string \<Rightarrow> uuid \<times> uuid" where
  "edge_ids ids e = (case ids (fst e) of None \<Rightarrow> None | Some u \<Rightarrow> u, the (ids (snd e)))"

lemma create_plan_dependencies_Inr:
  "tx_map (create_plan_dependency ids) edges s = Inr (deps, t) \<Longrightarrow>
     db_dependencies t = db_dependencies s @ deps \<and> db_nodes t = db_nodes s \<and>
     db_missions t = db_missions s \<and>
     map (\<lambda>d. (d_IssueID d, d_DependsOnIssueID d)) deps = map (edge_ids ids) edges"
proof (induction edges arbitrary: s deps)
  case (Cons e es)
  then obtain d u ds where d: "create_plan_dependency ids e s = Inr (d, u)"
    and ds: "tx_map (create_plan_dependency ids) es u = Inr (ds, t)" "deps = d # ds" by auto
  have "db_dependencies u = db_dependencies s @ [d] \<and> db_nodes u = db_nodes s \<and>
      db_missions u = db_missions s \<and> (d_IssueID d, d_DependsOnIssueID d) = edge_ids ids e"
    using d by (auto simp: create_plan_dependency_def CreateOrchestrationIssueDependency_def
        tx_insert_Inr edge_ids_def split: prod.splits option.splits)
  with Cons.IH [OF ds(1)] ds(2) show ?case by auto
qed simp

section \<open>The mirror\<close>

text \<open>The graph a mission's rows form: its nodes, and per dependency row of a node the two keys.\<close>

definition mission_rows :: "uuid \<Rightarrow> db \<Rightarrow> TaskNodeRow list" where
  "mission_rows mid s = filter (\<lambda>n. t_MissionID n = mid) (db_nodes s)"

definition row_keys :: "TaskNodeRow list \<Rightarrow> uuid \<Rightarrow> string option" where
  "row_keys rows = map_of (map (\<lambda>n. (t_IssueID n, t_NodeKey n)) rows)"

definition key_edges :: "(uuid \<Rightarrow> string option) \<Rightarrow> DependencyRow list \<Rightarrow> (string \<times> string) list" where
  "key_edges key deps = concat (map (\<lambda>d. case key (d_IssueID d) of None \<Rightarrow> []
     | Some k \<Rightarrow> (case key (d_DependsOnIssueID d) of None \<Rightarrow> [] | Some k' \<Rightarrow> [(k, k')])) deps)"

definition stored_nodes :: "uuid \<Rightarrow> db \<Rightarrow> node_facts list" where
  "stored_nodes mid s = map row_facts (mission_rows mid s)"

definition stored_edges :: "uuid \<Rightarrow> db \<Rightarrow> (string \<times> string) list" where
  "stored_edges mid s = key_edges (row_keys (mission_rows mid s)) (db_dependencies s)"

definition mission_mirrors :: "PlanLimits \<Rightarrow> db \<Rightarrow> MissionRow \<Rightarrow> bool" where
  "mission_mirrors hard s m \<longleftrightarrow>
     (case m_Plan m of
        None \<Rightarrow> stored_nodes (m_IssueID m) s = []
      | Some p \<Rightarrow> m_Status m \<noteq> MissionStatusDraft \<and>
          ValidatePlan p (uuidText (m_IssueID m)) hard = [] \<and>
          stored_nodes (m_IssueID m) s = map (plan_facts (m_WorkspaceID m) (m_IssueID m)) (plan_Nodes p) \<and>
          stored_edges (m_IssueID m) s = plan_dependency_keys (plan_Nodes p))"

text \<open>A dependency row links two nodes of one mission.\<close>

definition owners :: "db \<Rightarrow> (uuid \<times> uuid) set" where
  "owners s = (\<lambda>n. (t_IssueID n, t_MissionID n)) ` set (db_nodes s)"

definition linked :: "(uuid \<times> uuid) set \<Rightarrow> DependencyRow \<Rightarrow> bool" where
  "linked P d \<longleftrightarrow> (\<exists>mid. (d_IssueID d, mid) \<in> P \<and> (d_DependsOnIssueID d, mid) \<in> P)"

definition mirrored :: "PlanLimits \<Rightarrow> db \<Rightarrow> bool" where
  "mirrored hard s \<longleftrightarrow>
     distinct (map m_IssueID (db_missions s)) \<and>
     distinct (map t_IssueID (db_nodes s)) \<and> None \<notin> t_IssueID ` set (db_nodes s) \<and>
     (\<forall>d \<in> set (db_dependencies s). linked (owners s) d) \<and>
     t_MissionID ` set (db_nodes s) \<subseteq> m_IssueID ` set (db_missions s) \<and>
     list_all (mission_mirrors hard s) (db_missions s)"

lemma rows_by_facts:
  "map (\<lambda>n. (t_IssueID n, row_facts n)) xs = map (\<lambda>n. (t_IssueID n, row_facts n)) ys \<Longrightarrow>
     map (\<lambda>n. (t_IssueID n, row_facts n)) (filter (\<lambda>n. t_MissionID n = mid) xs) =
     map (\<lambda>n. (t_IssueID n, row_facts n)) (filter (\<lambda>n. t_MissionID n = mid) ys)"
proof (induction xs arbitrary: ys)
  case (Cons x xs)
  then show ?case by (cases ys) (auto simp: row_facts_def)
qed simp

lemma rows_by_facts_keys:
  assumes "map (\<lambda>n. (t_IssueID n, row_facts n)) xs = map (\<lambda>n. (t_IssueID n, row_facts n)) ys"
  shows "map row_facts xs = map row_facts ys" and "row_keys xs = row_keys ys"
    and "map t_IssueID xs = map t_IssueID ys" and "map t_MissionID xs = map t_MissionID ys"
proof -
  have h: "map h (map (\<lambda>n. (t_IssueID n, row_facts n)) xs) = map h (map (\<lambda>n. (t_IssueID n, row_facts n)) ys)"
    for h :: "uuid \<times> node_facts \<Rightarrow> 'h" using assms by simp
  show "map row_facts xs = map row_facts ys" using h [of snd] by (simp add: o_def)
  show "map t_IssueID xs = map t_IssueID ys" using h [of fst] by (simp add: o_def)
  show "map t_MissionID xs = map t_MissionID ys"
    using h [of "\<lambda>p. fst (snd (snd p))"] by (simp add: o_def row_facts_def)
  show "row_keys xs = row_keys ys"
    using h [of "\<lambda>p. (fst p, fst (snd (snd (snd p))))"] by (simp add: o_def row_facts_def row_keys_def)
qed

lemma stored_kept:
  assumes "graph_kept s t"
  shows "stored_nodes mid t = stored_nodes mid s" and "stored_edges mid t = stored_edges mid s"
proof -
  have f: "map (\<lambda>n. (t_IssueID n, row_facts n)) (mission_rows mid t) =
      map (\<lambda>n. (t_IssueID n, row_facts n)) (mission_rows mid s)"
    unfolding mission_rows_def using assms by (intro rows_by_facts) (simp add: graph_kept_def)
  then show "stored_nodes mid t = stored_nodes mid s" "stored_edges mid t = stored_edges mid s"
    using assms rows_by_facts_keys [OF f] by (simp_all add: stored_nodes_def stored_edges_def graph_kept_def)
qed

lemma mirrored_kept:
  assumes k: "graph_kept s t" and m: "mirrored hard s" shows "mirrored hard t"
proof -
  have f: "map t_IssueID (db_nodes t) = map t_IssueID (db_nodes s)"
      "map t_MissionID (db_nodes t) = map t_MissionID (db_nodes s)"
    using rows_by_facts_keys(3,4) [of "db_nodes t" "db_nodes s"] k by (simp_all add: graph_kept_def)
  then have sets: "t_IssueID ` set (db_nodes t) = t_IssueID ` set (db_nodes s)"
      "t_MissionID ` set (db_nodes t) = t_MissionID ` set (db_nodes s)" by (metis list.set_map)+
  have l: "list_all2 same_mission (db_missions s) (db_missions t)" using k by (simp add: graph_kept_def)
  have ids: "map m_IssueID (db_missions t) = map m_IssueID (db_missions s)"
    using l by induction (simp_all add: same_mission_def)
  then have mset: "m_IssueID ` set (db_missions t) = m_IssueID ` set (db_missions s)" by (metis list.set_map)
  have "owners t = set (zip (map t_IssueID (db_nodes t)) (map t_MissionID (db_nodes t)))"
    by (simp add: owners_def zip_map_map zip_same_conv_map)
  then have own: "owners t = owners s"
    by (simp add: f owners_def zip_map_map zip_same_conv_map)
  have "list_all (mission_mirrors hard t) (db_missions t)"
    unfolding list_all_length
  proof (intro allI impI)
    fix i assume i: "i < length (db_missions t)"
    then have "same_mission (db_missions s ! i) (db_missions t ! i)" "i < length (db_missions s)"
      using l by (auto simp: list_all2_conv_all_nth)
    moreover from this(2) have "mission_mirrors hard s (db_missions s ! i)"
      using m by (simp add: mirrored_def list_all_length)
    ultimately show "mission_mirrors hard t (db_missions t ! i)"
      by (auto simp: mission_mirrors_def same_mission_def stored_kept [OF k] split: option.splits)
  qed
  then show ?thesis
    using m k unfolding mirrored_def f ids sets mset own by (simp add: graph_kept_def)
qed

section \<open>The writes of \<open>SubmitPlan\<close>\<close>

definition accepting :: "SubmitPlanParams \<Rightarrow> MissionRow \<Rightarrow> bool" where
  "accepting params m \<longleftrightarrow> mission_is (sp_WorkspaceID params) (sp_MissionID params) m \<and>
     m_Status m = MissionStatusDraft \<and> m_Revision m = sp_ExpectedRevision params"

definition accepted_row :: "env \<Rightarrow> Plan \<Rightarrow> MissionRow \<Rightarrow> MissionRow" where
  "accepted_row \<epsilon> plan m = touch_mission \<epsilon> (m\<lparr>m_Status := MissionStatusReady,
     m_PlanKey := Some (plan_PlanKey plan), m_PlanSchemaVersion := Some (plan_SchemaVersion plan),
     m_Plan := Some plan, m_Limits := plan_Limits plan\<rparr>)"

lemma SubmitPlan_write_Inr:
  assumes "SubmitPlan_write \<epsilon> params key source root planning s = Inr (res, t)"
  obtains m rows deps u where "find (accepting params) (db_missions s) = Some m"
    and "db_missions u = update_rows (accepting params) (accepted_row \<epsilon> (sp_Plan params)) (db_missions s)"
    and "db_nodes u = db_nodes s @ rows" and "db_dependencies u = db_dependencies s @ deps"
    and "t_IssueID ` set rows \<inter> t_IssueID ` set (db_nodes s) = {}"
    and "planned_rows (sp_WorkspaceID params) (sp_MissionID params) (plan_Nodes (sp_Plan params)) rows"
    and "\<forall>r \<in> set rows. t_Status r = TaskStatusPending \<and> t_CreatedAt r = env_now \<epsilon> \<and> t_Priority r = 0"
    and "map (\<lambda>d. (d_IssueID d, d_DependsOnIssueID d)) deps =
      map (edge_ids (plan_node_ids (plan_Nodes (sp_Plan params)) rows))
        (plan_dependency_keys (plan_Nodes (sp_Plan params)))"
    and "graph_kept u t" and "db_nodes t = db_nodes u" and "spr_Mission res = accepted_row \<epsilon> (sp_Plan params) m"
    and "spr_TaskNodes res = rows" and "spr_Dependencies res = deps" and "\<not> spr_Idempotent res"
proof -
  let ?ws = "sp_WorkspaceID params" and ?mid = "sp_MissionID params"
  let ?nodes = "plan_Nodes (sp_Plan params)"
  obtain m s1 s2 rows s3 deps s4 row i s5 a where
      a1: "AcceptMissionPlan \<epsilon> ?ws ?mid (sp_Plan params) (sp_ExpectedRevision params) s = Inr (row, s1)"
    and a2: "(if planning \<noteq> None
               then tx_bind (tx_wrap ''submit plan: fulfill planning assignment''
                      (EndOrchestrationAssignment \<epsilon> ?ws ?mid planning AssignmentStatusFulfilled))
                      (\<lambda>_. tx_return ())
               else tx_return ()) s1 = Inr ((), s2)"
    and a3: "tx_map (create_plan_node \<epsilon> params (i_ProjectID root)) ?nodes s2 = Inr (rows, s3)"
    and a4: "tx_map (create_plan_dependency (plan_node_ids ?nodes rows)) (plan_dependency_keys ?nodes) s3 =
      Inr (deps, s4)"
    and a5: "UpdateIssueStatus ?ws ?mid ''todo'' s4 = Inr (i, s5)"
    and a6: "log_command_activity \<epsilon> ''submit plan'' ''submit plan: create activity''
        \<lparr>as_WorkspaceID = ?ws, as_MissionID = ?mid, as_TaskNodeID = None, as_RunID = None,
         as_Type = ''mission.plan_accepted'', as_ActorType = sp_ActorType params,
         as_ActorID = sp_ActorID params, as_SubjectType = ''mission'', as_SubjectID = ?mid,
         as_CausationID = sp_CommandID params,
         as_CorrelationID = correlationOrCommand (sp_CorrelationID params) (sp_CommandID params),
         as_Payload = plan_payload params source, as_DedupeKey = key\<rparr> s5 = Inr (a, t)"
    and res: "res = \<lparr>spr_Mission = row, spr_TaskNodes = rows, spr_Dependencies = deps,
                 spr_Activity = a, spr_Idempotent = False\<rparr>"
    using assms unfolding SubmitPlan_write_def Let_def by (auto simp del: tx_map.simps)
  obtain m where m: "find (accepting params) (db_missions s) = Some m"
      "row = accepted_row \<epsilon> (sp_Plan params) m"
      "s1 = s\<lparr>db_missions := update_rows (accepting params) (accepted_row \<epsilon> (sp_Plan params)) (db_missions s)\<rparr>"
    using a1 by (auto simp: AcceptMissionPlan_def update_mission_def tx_update_Inr accepting_def [abs_def]
        accepted_row_def [abs_def])
  have s2: "db_missions s2 = db_missions s1" "db_nodes s2 = db_nodes s1" "db_dependencies s2 = db_dependencies s1"
    using a2 by (auto simp: EndOrchestrationAssignment_def tx_update_Inr split: if_splits)
  note n = create_plan_nodes_Inr [OF a3] and d = create_plan_dependencies_Inr [OF a4]
  have kept: "graph_kept s4 t"
    using graph.R_trans obeysD [OF graph_other_ops(3) a5] obeysD [OF graph_logging(2) a6] by blast
  have "db_nodes t = db_nodes s4"
    using a5 a6 by (auto simp: UpdateIssueStatus_def tx_update_Inr log_command_activity_def
        create_activity_Inr dest!: allocate_Inr)
  then show thesis
    using that [of m s4 rows deps] m s2 n d kept res by simp
qed

lemma planned_keys: "planned_rows ws mid nodes rows \<Longrightarrow> map t_NodeKey rows = map pn_Key nodes"
proof -
  assume "planned_rows ws mid nodes rows"
  then have "map (\<lambda>f. fst (snd (snd f))) (map row_facts rows) = map (\<lambda>f. fst (snd (snd f))) (map (plan_facts ws mid) nodes)"
    by (simp add: planned_rows_def)
  then show ?thesis by (simp add: o_def row_facts_def plan_facts_def)
qed

lemma planned_mission: "planned_rows ws mid nodes rows \<Longrightarrow> r \<in> set rows \<Longrightarrow> t_MissionID r = mid \<and> t_WorkspaceID r = ws"
proof -
  assume p: "planned_rows ws mid nodes rows" and r: "r \<in> set rows"
  then have "row_facts r \<in> plan_facts ws mid ` set nodes"
    by (metis image_eqI image_set planned_rows_def)
  then show ?thesis by (auto simp: row_facts_def plan_facts_def)
qed

lemma planned_ids:
  assumes p: "planned_rows ws mid nodes rows" and d: "distinct (map pn_Key nodes)" and k: "k \<in> pn_Key ` set nodes"
  shows "\<exists>r \<in> set rows. t_NodeKey r = k \<and> plan_node_ids nodes rows k = Some (t_IssueID r) \<and>
    row_keys rows (t_IssueID r) = Some k"
proof -
  note keys = planned_keys [OF p]
  then have "length nodes = length rows" by (metis length_map)
  then have z: "map (\<lambda>(n, r). (pn_Key n, t_IssueID r)) (zip nodes rows) = map (\<lambda>r. (t_NodeKey r, t_IssueID r)) rows"
    using keys by (induction nodes rows rule: list_induct2) auto
  have "k \<in> t_NodeKey ` set rows" using k keys by (metis list.set_map)
  then obtain r where r: "r \<in> set rows" "t_NodeKey r = k" by blast
  have "plan_node_ids nodes rows k = Some (t_IssueID r)"
    unfolding plan_node_ids_def z using r d keys
    by (subst map_of_eq_Some_iff) (auto simp: rev_map [symmetric] o_def)
  moreover have "row_keys rows (t_IssueID r) = Some k"
    unfolding row_keys_def using r p by (subst map_of_eq_Some_iff) (auto simp: o_def planned_rows_def)
  ultimately show ?thesis using r by blast
qed

lemma key_edges_pairs:
  "key_edges key deps = concat (map (\<lambda>(i, j). case key i of None \<Rightarrow> []
     | Some k \<Rightarrow> (case key j of None \<Rightarrow> [] | Some k' \<Rightarrow> [(k, k')])) (map (\<lambda>d. (d_IssueID d, d_DependsOnIssueID d)) deps))"
  by (simp add: key_edges_def o_def)

lemma key_edges_outside: "d_IssueID ` set deps \<inter> dom key = {} \<Longrightarrow> key_edges key deps = []"
  by (auto simp: key_edges_def disjoint_iff domIff)

lemma key_edges_append: "key_edges key (xs @ ys) = key_edges key xs @ key_edges key ys"
  by (simp add: key_edges_def)

lemma dom_row_keys: "dom (row_keys rows) = t_IssueID ` set rows"
  by (force simp: row_keys_def dom_map_of_conv_image_fst)

lemma plan_dependency_keys_in:
  "plan_ok p mission hard \<Longrightarrow> e \<in> set (plan_dependency_keys (plan_Nodes p)) \<Longrightarrow>
     fst e \<in> plan_keys p \<and> snd e \<in> plan_keys p"
proof -
  assume ok: "plan_ok p mission hard" and "e \<in> set (plan_dependency_keys (plan_Nodes p))"
  then have "(snd e, fst e) \<in> plan_edges p" "fst e \<in> plan_keys p"
    by (auto simp: plan_dependency_keys_def plan_keys_def plan_edges_def)
  moreover have "Domain (plan_edges p) \<subseteq> plan_keys p" using ok by (simp add: plan_ok_def)
  ultimately show ?thesis by blast
qed

text \<open>Reading the new dependency rows back through the ids gives the plan's dependencies.\<close>

lemma planned_edges:
  assumes p: "planned_rows ws mid (plan_Nodes plan) rows" and ok: "plan_ok plan mission hard"
    and d: "map (\<lambda>d. (d_IssueID d, d_DependsOnIssueID d)) deps =
      map (edge_ids (plan_node_ids (plan_Nodes plan) rows)) (plan_dependency_keys (plan_Nodes plan))"
  shows "key_edges (row_keys rows) deps = plan_dependency_keys (plan_Nodes plan)"
    and "d_IssueID ` set deps \<subseteq> t_IssueID ` set rows"
    and "d_DependsOnIssueID ` set deps \<subseteq> t_IssueID ` set rows"
proof -
  let ?E = "plan_dependency_keys (plan_Nodes plan)" and ?ids = "plan_node_ids (plan_Nodes plan) rows"
  have ids: "\<exists>r \<in> set rows. t_NodeKey r = k \<and> ?ids k = Some (t_IssueID r) \<and>
      row_keys rows (t_IssueID r) = Some k" if "k \<in> plan_keys plan" for k
    using planned_ids [OF p] ok that by (simp add: plan_ok_def plan_keys_def)
  have one: "(case edge_ids ?ids e of (i, j) \<Rightarrow> case row_keys rows i of None \<Rightarrow> []
      | Some k \<Rightarrow> (case row_keys rows j of None \<Rightarrow> [] | Some k' \<Rightarrow> [(k, k')])) = [e]" if "e \<in> set ?E" for e
    using plan_dependency_keys_in [OF ok that] ids [of "fst e"] ids [of "snd e"]
    by (auto simp: edge_ids_def)
  let ?g = "\<lambda>(i, j). case row_keys rows i of None \<Rightarrow> []
      | Some k \<Rightarrow> (case row_keys rows j of None \<Rightarrow> [] | Some k' \<Rightarrow> [(k, k')])"
  have "key_edges (row_keys rows) deps = concat (map (\<lambda>e. ?g (edge_ids ?ids e)) ?E)"
    unfolding key_edges_pairs d by (simp only: map_map o_def)
  also have "map (\<lambda>e. ?g (edge_ids ?ids e)) ?E = map (\<lambda>e. [e]) ?E"
    using one by (intro map_cong) auto
  finally show "key_edges (row_keys rows) deps = ?E"
    by (simp only: concat_map_singleton map_ident)
  have both: "fst q \<in> t_IssueID ` set rows \<and> snd q \<in> t_IssueID ` set rows"
    if "q \<in> set (map (\<lambda>d. (d_IssueID d, d_DependsOnIssueID d)) deps)" for q
  proof -
    obtain e where e: "e \<in> set ?E" "q = edge_ids ?ids e" using \<open>q \<in> _\<close> unfolding d by auto
    then show ?thesis
      using plan_dependency_keys_in [OF ok e(1)] ids [of "fst e"] ids [of "snd e"] by (auto simp: edge_ids_def)
  qed
  then show "d_IssueID ` set deps \<subseteq> t_IssueID ` set rows" "d_DependsOnIssueID ` set deps \<subseteq> t_IssueID ` set rows"
    by force+
qed

lemma accepting_unique:
  assumes "distinct (map m_IssueID ms)" and "find (accepting params) ms = Some m" and "m' \<in> set ms"
  shows "accepting params m' \<longleftrightarrow> m' = m"
  using assms find_SomeD [OF assms(2)]
  by (auto simp: accepting_def mission_is_def sql_eq_def distinct_map inj_on_def)

lemma mirrored_accept:
  assumes m: "mirrored hard s" and ok: "plan_ok (sp_Plan params) (uuidText (sp_MissionID params)) hard"
    and f: "find (accepting params) (db_missions s) = Some m0"
    and ms: "db_missions u = update_rows (accepting params) (accepted_row \<epsilon> (sp_Plan params)) (db_missions s)"
    and ns: "db_nodes u = db_nodes s @ rows" and ds: "db_dependencies u = db_dependencies s @ deps"
    and fresh: "t_IssueID ` set rows \<inter> t_IssueID ` set (db_nodes s) = {}"
    and p: "planned_rows (sp_WorkspaceID params) (sp_MissionID params) (plan_Nodes (sp_Plan params)) rows"
    and e: "map (\<lambda>d. (d_IssueID d, d_DependsOnIssueID d)) deps =
      map (edge_ids (plan_node_ids (plan_Nodes (sp_Plan params)) rows))
        (plan_dependency_keys (plan_Nodes (sp_Plan params)))"
  shows "mirrored hard u"
proof -
  let ?mid = "sp_MissionID params"
  note edges = planned_edges [OF p ok e]
  have m0: "m0 \<in> set (db_missions s)" "m_IssueID m0 = ?mid" "m_WorkspaceID m0 = sp_WorkspaceID params"
      "m_Status m0 = MissionStatusDraft"
    using find_SomeD [OF f] by (auto simp: accepting_def mission_is_def sql_eq_def)
  have dist: "distinct (map m_IssueID (db_missions s))" using m by (simp add: mirrored_def)
  have keep: "map m_IssueID (db_missions u) = map m_IssueID (db_missions s)"
    unfolding ms by (rule map_update_rows_same) (simp add: accepted_row_def touch_mission_def)
  then have sets: "m_IssueID ` set (db_missions u) = m_IssueID ` set (db_missions s)" by (metis list.set_map)
  have new: "t_MissionID r = ?mid" if "r \<in> set rows" for r using planned_mission [OF p that] by simp
  have empty: "mission_rows ?mid s = []"
    using m m0 unfolding mirrored_def list_all_iff
    by (auto simp: mission_mirrors_def stored_nodes_def split: option.splits)
  have rows_u: "mission_rows mid u = mission_rows mid s @ (if mid = ?mid then rows else [])" for mid
    using new by (auto simp: mission_rows_def ns filter_id_conv filter_empty_conv)
  have old_deps: "d_IssueID ` set (db_dependencies s) \<inter> t_IssueID ` set rows = {}"
    using m fresh unfolding mirrored_def linked_def owners_def by blast
  have "mission_mirrors hard u m'" if m': "m' \<in> set (db_missions u)" for m'
  proof (cases "m' = accepted_row \<epsilon> (sp_Plan params) m0")
    case True
    have "stored_edges ?mid u = plan_dependency_keys (plan_Nodes (sp_Plan params))"
      using edges(1) old_deps
      by (simp add: stored_edges_def rows_u empty ds key_edges_append key_edges_outside dom_row_keys)
    then show ?thesis
      using True m0 p ok
      by (simp add: mission_mirrors_def accepted_row_def touch_mission_def stored_nodes_def rows_u empty
          planned_rows_def ValidatePlan_Nil_iff)
  next
    case False
    then have s': "m' \<in> set (db_missions s)" "\<not> accepting params m'"
      using m' accepting_unique [OF dist f] by (auto simp: ms set_update_rows split: if_splits)
    then have neq: "m_IssueID m' \<noteq> ?mid"
      using m0 dist accepting_unique [OF dist f] by (auto simp: distinct_map inj_on_def)
    have "key_edges (row_keys (mission_rows (m_IssueID m') s)) deps = []"
      using edges(2) fresh by (intro key_edges_outside) (auto simp: dom_row_keys mission_rows_def)
    then have "stored_edges (m_IssueID m') u = stored_edges (m_IssueID m') s"
      using neq by (simp add: stored_edges_def rows_u ds key_edges_append)
    moreover have "stored_nodes (m_IssueID m') u = stored_nodes (m_IssueID m') s"
      using neq by (simp add: stored_nodes_def rows_u)
    moreover have "mission_mirrors hard s m'" using m s' by (simp add: mirrored_def list_all_iff)
    ultimately show ?thesis unfolding mission_mirrors_def by (simp only:)
  qed
  moreover have "linked (owners u) d" if d: "d \<in> set (db_dependencies u)" for d
  proof (cases "d \<in> set deps")
    case True
    then obtain a b where "a \<in> set rows" "b \<in> set rows" "d_IssueID d = t_IssueID a" "d_DependsOnIssueID d = t_IssueID b"
      using edges(2,3) by blast
    then show ?thesis using new by (auto simp: linked_def owners_def ns intro!: exI [of _ ?mid] image_eqI)
  next
    case False
    then have "linked (owners s) d" using d m by (simp add: mirrored_def ds)
    then show ?thesis by (auto simp: linked_def owners_def ns)
  qed
  moreover have "t_MissionID ` set rows \<subseteq> m_IssueID ` set (db_missions s)" using new m0(1,2) by force
  ultimately show ?thesis
    using m p fresh edges(2) unfolding mirrored_def keep sets ns ds
    by (auto simp: planned_rows_def list_all_iff)
qed

section \<open>Every command keeps the mirror\<close>

lemma mirrored_obeys: "obeys graph_kept act \<Longrightarrow> obeys (preserves (mirrored hard)) act"
  by (erule obeys_mono) (auto simp: preserves_def intro: mirrored_kept)

lemma recorded_command_preserves:
  "(\<And>a. reads (load a)) \<Longrightarrow> obeys (preserves I) body \<Longrightarrow>
     obeys (preserves I) (recorded_command recorded msg load body)"
  by (intro log_recorded) (auto intro: reads_obeys preserved.R_refl)

lemma mirrored_SubmitPlan_write:
  assumes "plan_ok (sp_Plan params) (uuidText (sp_MissionID params)) hard"
  shows "obeys (preserves (mirrored hard)) (SubmitPlan_write \<epsilon> params key source root planning)"
proof (rule obeysI, unfold preserves_def, rule impI)
  fix s res t
  assume w: "SubmitPlan_write \<epsilon> params key source root planning s = Inr (res, t)" and m: "mirrored hard s"
  from w obtain m0 rows deps u where u: "find (accepting params) (db_missions s) = Some m0"
      "db_missions u = update_rows (accepting params) (accepted_row \<epsilon> (sp_Plan params)) (db_missions s)"
      "db_nodes u = db_nodes s @ rows" "db_dependencies u = db_dependencies s @ deps"
      "t_IssueID ` set rows \<inter> t_IssueID ` set (db_nodes s) = {}"
      "planned_rows (sp_WorkspaceID params) (sp_MissionID params) (plan_Nodes (sp_Plan params)) rows"
      "map (\<lambda>d. (d_IssueID d, d_DependsOnIssueID d)) deps =
        map (edge_ids (plan_node_ids (plan_Nodes (sp_Plan params)) rows))
          (plan_dependency_keys (plan_Nodes (sp_Plan params)))" "graph_kept u t"
    by (rule SubmitPlan_write_Inr)
  from mirrored_accept [OF m assms u(1-7)] u(8) show "mirrored hard t" by (metis mirrored_kept)
qed

lemma mirrored_SubmitPlan_repo:
  assumes "plan_ok (sp_Plan params) (uuidText (sp_MissionID params)) hard"
  shows "obeys (preserves (mirrored hard)) (SubmitPlan_repo \<epsilon> params)"
  unfolding SubmitPlan_repo_def SubmitPlan_body_def Let_def
  by (intro log_rules recorded_command_preserves reads_load mirrored_SubmitPlan_write assms mirrored_obeys
      graph_loads graph_ops)
    (auto simp: validatePlanProposalSource_def intro!: mirrored_obeys graph_rules graph_ops)

lemma mirrored_SubmitPlan: "obeys (preserves (mirrored hard)) (SubmitPlan \<epsilon> hard command)"
proof (rule obeysI)
  fix s r t assume "SubmitPlan \<epsilon> hard command s = Inr (r, t)"
  then obtain p where p: "SubmitPlan_repo \<epsilon> p s = Inr (r, t)" "sp_Plan p = sp_Plan command"
      "sp_MissionID p = sp_MissionID command"
    and "ValidatePlan (sp_Plan command) (uuidText (sp_MissionID command)) hard = []"
    by (fastforce simp: SubmitPlan_def Let_def requireOwner_Inr)
  then show "preserves (mirrored hard) s t"
    by (intro obeysD [OF mirrored_SubmitPlan_repo p(1)]) (simp add: ValidatePlan_Nil_iff)
qed

lemma decoded_proposal_ok:
  "DecodeAndValidate_jsonb j mission hard = (Some p, []) \<Longrightarrow> plan_ok (PlanFromProposal p) mission hard"
  by (auto simp: DecodeAndValidate_jsonb_def validate_decoded_def ValidatePlanProposal_accepted ValidatePlan_Nil_iff
      split: sum.splits)

lemma decoded_case_Inr:
  "(case d of (None, e) \<Rightarrow> tx_fail (f e) | (Some p, e) \<Rightarrow> k p e) s = Inr r \<Longrightarrow>
     \<exists>p e. d = (Some p, e) \<and> k p e s = Inr r"
  by (cases d) (auto split: option.splits)

lemma SubmitPlanProposal_Inr:
  assumes "SubmitPlanProposal \<epsilon> hard c s = Inr (r, t)"
  shows "\<exists>p. SubmitPlan_repo \<epsilon> p s = Inr (r, t) \<and> sp_WorkspaceID p = spc_WorkspaceID c \<and>
    sp_CommandID p = spc_CommandID c \<and> sp_MissionID p = spc_MissionID c \<and>
    plan_ok (sp_Plan p) (uuidText (sp_MissionID p)) hard \<and>
    validateCommandIdentity (spc_WorkspaceID c) (spc_MissionID c) (spc_CommandID c) (spc_CorrelationID c)
      (spc_ActorID c) True = []"
  using assms unfolding SubmitPlanProposal_def Let_def GetArtifactInWorkspace_def
  by (auto simp: requireOwner_Inr dest!: decoded_case_Inr decoded_proposal_ok)

lemma mirrored_SubmitPlanProposal: "obeys (preserves (mirrored hard)) (SubmitPlanProposal \<epsilon> hard command)"
proof (rule obeysI)
  fix s r t assume "SubmitPlanProposal \<epsilon> hard command s = Inr (r, t)"
  from SubmitPlanProposal_Inr [OF this] show "preserves (mirrored hard) s t"
    using obeysD [OF mirrored_SubmitPlan_repo] by blast
qed

lemma mirrored_CreateMissionRecord:
  assumes "iid \<noteq> None"
  shows "obeys (preserves (mirrored hard)) (CreateMissionRecord \<epsilon> iid ws limits creator)"
proof (rule obeysI, unfold preserves_def, rule impI)
  fix s row t assume w: "CreateMissionRecord \<epsilon> iid ws limits creator s = Inr (row, t)" and m: "mirrored hard s"
  have t: "t = s\<lparr>db_missions := db_missions s @ [row]\<rparr>" and row: "m_IssueID row = iid" "m_Plan row = None"
    and new: "iid \<notin> m_IssueID ` set (db_missions s)"
    using w assms by (auto simp: CreateMissionRecord_def tx_insert_Inr sql_eq_def)
  then have "iid \<notin> t_MissionID ` set (db_nodes s)" using m by (auto simp: mirrored_def)
  then have "stored_nodes iid s = []" by (auto simp: stored_nodes_def mission_rows_def filter_empty_conv)
  moreover have "stored_nodes mid t = stored_nodes mid s" "stored_edges mid t = stored_edges mid s" for mid
    by (simp_all add: t stored_nodes_def stored_edges_def mission_rows_def)
  moreover from this have "mission_mirrors hard t m = mission_mirrors hard s m" for m
    by (simp only: mission_mirrors_def)
  moreover have "owners t = owners s" by (simp add: owners_def t)
  moreover have "mission_mirrors hard s row" using row calculation(1) by (simp add: mission_mirrors_def)
  ultimately show "mirrored hard t"
    using m new row unfolding mirrored_def by (simp add: t list_all_iff) blast
qed

lemma mirrored_CreateMission: "obeys (preserves (mirrored hard)) (CreateMission \<epsilon> hard command)"
  unfolding CreateMission_def CreateMission_repo_def CreateMission_body_def Let_def
  by (intro preserved.bind_result preserved.return preserved.query preserved.guard preserved.lift
      preserved.wrap recorded_command_preserves reads_load graph_ops [THEN mirrored_obeys]
      mirrored_CreateMissionRecord) (auto dest: createOrchestrationIssue_id)

end
