(* ===== verification/AdvanceLaws.thy ===== *)
theory AdvanceLaws
  imports Advance PlanGraph
begin

text \<open>
  What \<open>AdvanceMission\<close> keeps.  The locale \<open>advance_queries\<close> is the interface between the orchestrator's
  step and the database: the queries it writes with, each of which follows the relation \<open>R\<close>.  Under it
  the whole step follows \<open>R\<close>, proved once by composing the phases; the interpretations give the past
  (\<open>history\<close>), the numbering of the log (\<open>log_ok\<close>) and the stored graphs (\<open>graph_kept\<close>).
\<close>

section \<open>Reading\<close>

named_theorems read_ops "queries that only read"

lemma reads_queries [read_ops]:
  "reads (GetMissionInWorkspace ws mid)"
  "reads (LockMissionInWorkspace ws mid)"
  "reads (GetIssueInWorkspace ws iid)"
  "reads (ListTaskNodesByMission ws mid)"
  "reads (GetTaskNodeInMission ws mid nid)"
  "reads (LockTaskNodeForReconcile ws mid nid)"
  "reads (ListOrchestrationIssueDependencies ws mid)"
  "reads (ListOrchestrationAssignmentsByMission ws mid)"
  "reads (GetOrchestrationAssignmentInWorkspace ws aid)"
  "reads (ListOrchestrationRunsByMission ws mid)"
  "reads (GetOrchestrationRunInWorkspace ws rid)"
  "reads (LockOrchestrationRunForReconcile ws rid)"
  "reads (ListQueuedOrchestrationRunsWithoutTask ws mid)"
  "reads (GetMissionBudgetUsage ws mid)"
  "reads (ListArtifactsByMission ws mid)"
  "reads (GetArtifactInWorkspace ws arid)"
  "reads (ListReviewVerdictsByMission ws mid)"
  "reads (ListOrchestrationActivitiesByCausation ws mid c)"
  "reads (ListMissionRolePolicySnapshots ws mid)"
  by (simp_all add: GetMissionInWorkspace_def LockMissionInWorkspace_def GetIssueInWorkspace_def
      ListTaskNodesByMission_def GetTaskNodeInMission_def LockTaskNodeForReconcile_def
      ListOrchestrationIssueDependencies_def ListOrchestrationAssignmentsByMission_def
      GetOrchestrationAssignmentInWorkspace_def ListOrchestrationRunsByMission_def
      GetOrchestrationRunInWorkspace_def LockOrchestrationRunForReconcile_def
      ListQueuedOrchestrationRunsWithoutTask_def GetMissionBudgetUsage_def ListArtifactsByMission_def
      GetArtifactInWorkspace_def ListReviewVerdictsByMission_def
      ListOrchestrationActivitiesByCausation_def ListMissionRolePolicySnapshots_def
      unchanged.one unchanged.query)

lemmas [read_ops] = reads_selectAndLock

lemma reads_execution [read_ops]:
  "reads (GetAgentTaskByOrchestrationRunInWorkspace ws rid)" "reads (GetAgentTask tid)"
  "reads (LockOrchestrationRunForEnqueue ws rid)" "reads (LockAgentForOrchestrationEnqueue ws agentID)"
  unfolding GetAgentTaskByOrchestrationRunInWorkspace_def GetAgentTask_def
    LockOrchestrationRunForEnqueue_def LockAgentForOrchestrationEnqueue_def by (rule unchanged.one)+

lemma reads_requireOwner [read_ops]: "reads (requireOwner ws actor)"
  by (rule obeysI) (auto simp: requireOwner_Inr)

lemma reads_mailbox_context [read_ops]: "reads (selectMailboxRunContext \<epsilon> ws mid nid agent observed)"
  unfolding selectMailboxRunContext_def ListPendingMailboxMessagesForRun_def by (intro unchanged.rules)

lemma reads_advance_load [read_ops]: "reads (advance_load mission limits params nodes)"
  unfolding advance_load_def Let_def by (intro unchanged.rules read_ops)

section \<open>The interface\<close>

locale advance_queries = tx_preorder R for R +
  assumes op_move: "\<not> isTerminalTaskStatus expected \<Longrightarrow>
      obeys R (TransitionTaskNodeState \<epsilon> ws mid nid target reason expected)"
    and op_mission: "mission_step expected' target' \<Longrightarrow>
      obeys R (TransitionMissionState \<epsilon> ws mid target' expected')"
    and op_gate: "obeys R (SetMissionBudgetGate \<epsilon> ws mid gate)"
    and op_issue: "obeys R (UpdateIssueStatus ws iid status)"
    and op_assign: "obeys R (CreateOrchestrationAssignment \<epsilon> ws mid nid role agent rt seq prev creator)"
    and op_end: "obeys R (EndOrchestrationAssignment \<epsilon> ws mid aid ended)"
    and op_run: "obeys R (CreateOrchestrationRun \<epsilon> ws mid nid aid purpose attempt input prevRun deadline timeout)"
    and op_human: "obeys R (CreatePendingHumanGate \<epsilon> ws mid nid arid rid kind why context)"
    and op_mailbox: "obeys R (TransitionMailboxMessageStatus msgTarget observed msgID ws mid revision)"
    and op_activity:
      "obeys R (createAutomaticActivity \<epsilon> mission nid rid typ st sid c corr key payload)"
    and op_task: "obeys R (CreateAgentTask \<epsilon> p)"
    and op_delivery: "obeys R (createMailboxDeliveryActivity \<epsilon> mission run msg agent corr payload)"
begin

lemma read_only: "reads act \<Longrightarrow> obeys R act"
  by (erule reads_obeys) (rule R_refl)

lemma phases:
  "(\<And>y st. obeys R (step y st)) \<Longrightarrow> obeys R (advance_each step ys st)"
proof (induction ys arbitrary: st)
  case (Cons y ys)
  have "obeys R (case out of Advancing st' \<Rightarrow> advance_each step ys st' | OverBudget st' d \<Rightarrow> tx_return out)" for out
    by (cases out) (simp_all add: Cons return)
  then show ?case by (auto intro: bind Cons.prems)
qed (simp add: return)

lemma phase_then: "obeys R act \<Longrightarrow> (\<And>st. obeys R (next' st)) \<Longrightarrow> obeys R (advance_then act next')"
  unfolding advance_then_def by (intro bind) (auto split: advance_outcome.splits intro: return)

lemma move_node: "\<not> isTerminalTaskStatus (t_Status n) \<Longrightarrow> obeys R (move_node \<epsilon> x msg n target reason)"
  unfolding move_node_def by (intro wrap op_move)

lemma activities:
  "obeys R (task_activity \<epsilon> x nid typ c key payload)" "obeys R (run_queued_activity \<epsilon> x run payload)"
  unfolding task_activity_def run_queued_activity_def by (intro op_activity)+

lemma createPendingHumanGate:
  "obeys R (createPendingHumanGate \<epsilon> mission node artifact rid kind reason context c corr)"
  unfolding createPendingHumanGate_def by (intro rules op_human op_activity)

lemma consume: "obeys R (consumeMailboxRunContext \<epsilon> mission run agent snap rows observed corr)"
  unfolding consumeMailboxRunContext_def consume_message_def
  by (intro rules op_mailbox op_delivery)

lemma retry_step: "obeys R (retry_step \<epsilon> x a st)"
  unfolding retry_step_def retry_run_def exhaust_assignment_def Let_def
  by (intro rules activities op_run op_issue op_end move_node)

lemma ready_step: "obeys R (ready_step \<epsilon> x i st)"
  unfolding ready_step_def Let_def
  by (intro rules activities op_issue move_node) (auto simp: isTerminalTaskStatus_def)

lemma launch_run: "obeys R (launch_run \<epsilon> x m1 m2 node duty purpose input timeout sel st)"
  unfolding launch_run_def
  by (intro rules op_assign op_run consume read_only read_ops)

lemma dispatch_step: "obeys R (dispatch_step \<epsilon> x policies i st)"
  unfolding dispatch_step_def dispatch_blocked_def dispatch_selected_def Let_def
  by (intro rules launch_run activities op_activity op_issue move_node read_only read_ops)
    (auto simp: isTerminalTaskStatus_def)

lemma review_step: "obeys R (review_step \<epsilon> x policies i st)"
  unfolding review_step_def review_blocked_def review_selected_def Let_def
  by (intro rules launch_run activities op_activity op_issue createPendingHumanGate move_node
      read_only read_ops) (auto simp: isTerminalTaskStatus_def)

lemma advance_phases: "obeys R (advance_phases \<epsilon> x st)"
  unfolding advance_phases_def Let_def
  by (intro rules phases phase_then retry_step ready_step dispatch_step review_step read_only read_ops)

lemma checked_mission:
  "from \<noteq> to \<Longrightarrow> (\<And>u. mission_step from to \<Longrightarrow> obeys R (f u)) \<Longrightarrow>
     obeys R (tx_bind (tx_lift (validateMissionTransition from to)) f)"
  by (intro bind_result lift) (auto intro: mission_step.intros)

lemma settle_mission: "obeys R (settle_mission \<epsilon> x st)"
  unfolding settle_mission_def Let_def
  by (rule branch, rule return, rule checked_mission, simp)
    (intro rules op_issue op_activity op_mission; assumption)

lemma advance_finish: "obeys R (advance_finish \<epsilon> x out)"
proof (cases out)
  case (Advancing st)
  show ?thesis unfolding advance_finish_def Advancing advance_outcome.case
    by (intro rules settle_mission read_only read_ops)
next
  case (OverBudget st d)
  show ?thesis
    unfolding advance_finish_def OverBudget advance_outcome.case finishBudgetBlockedAdvance_def
      set_budget_gate_def Let_def
    by (intro rules op_gate op_issue op_activity read_only read_ops)
qed

lemma AdvanceMission_repo: "obeys R (AdvanceMission_repo \<epsilon> params)"
  unfolding AdvanceMission_repo_def Let_def
  by (intro rules advance_phases advance_finish read_only read_ops)

lemma EnqueueOrchestrationRun: "obeys R (EnqueueOrchestrationRun \<epsilon> ws rid actor)"
  unfolding EnqueueOrchestrationRun_def enqueue_new_def
  by (intro rules op_task read_only read_ops)

lemma AdvanceMission: "obeys R (AdvanceMission \<epsilon> observedAt command)"
  unfolding AdvanceMission_def enqueue_run_def
  by (intro rules AdvanceMission_repo attempt EnqueueOrchestrationRun)

end

section \<open>The relations\<close>

lemma history_own_ops [history_ops]:
  "obeys history (CreateAgentTask \<epsilon> p)"
  "obeys history (CreatePendingHumanGate \<epsilon> ws mid nid arid rid kind why context)"
  "obeys history (TransitionMailboxMessageStatus target observed msgID ws mid revision)"
  by (auto simp: CreateAgentTask_def insert_task_def CreatePendingHumanGate_def TransitionMailboxMessageStatus_def
      intro!: past.bind past.query past.guard history_draw obeys_insert obeys_update history_simps)

lemma history_delivery [history_ops]:
  "obeys history (createMailboxDeliveryActivity \<epsilon> mission run msg agent corr payload)"
  unfolding createMailboxDeliveryActivity_def by (intro history_rules history_ops)

interpretation advance_history: advance_queries history
  by unfold_locales (auto intro!: history_ops history_TransitionTaskNodeState history_TransitionMissionState)

lemma quiet_own_ops:
  "obeys quiet (CreateAgentTask \<epsilon> p)"
  "obeys quiet (CreatePendingHumanGate \<epsilon> ws mid nid arid rid kind why context)"
  "obeys quiet (TransitionMailboxMessageStatus target observed msgID ws mid revision)"
  by (auto simp: CreateAgentTask_def insert_task_def CreatePendingHumanGate_def TransitionMailboxMessageStatus_def
      intro!: silence.bind silence.query silence.guard quiet_table_ops obeys_insert obeys_update quiet_tables)

lemmas log_own_ops [log_ops] = quiet_own_ops [THEN quiet_log]

lemma log_delivery [log_ops]:
  "obeys (preserves log_ok) (createMailboxDeliveryActivity \<epsilon> mission run msg agent corr payload)"
  by (auto intro!: obeysI simp: createMailboxDeliveryActivity_def preserves_def)
    (erule log_one, assumption, simp_all add: activity_row_def)

interpretation advance_log: advance_queries "preserves log_ok"
  by unfold_locales (auto intro!: log_ops)

lemma graph_own_ops [graph_ops]:
  "obeys graph_kept (CreateAgentTask \<epsilon> p)"
  "obeys graph_kept (CreatePendingHumanGate \<epsilon> ws mid nid arid rid kind why context)"
  "obeys graph_kept (TransitionMailboxMessageStatus target observed msgID ws mid revision)"
  by (auto simp: CreateAgentTask_def insert_task_def CreatePendingHumanGate_def TransitionMailboxMessageStatus_def
      intro!: graph.bind graph.query graph.guard graph_ops obeys_insert obeys_update graph_kept_tables)

lemma graph_delivery [graph_ops]:
  "obeys graph_kept (createMailboxDeliveryActivity \<epsilon> mission run msg agent corr payload)"
  unfolding createMailboxDeliveryActivity_def by (intro graph_rules graph_ops)

interpretation advance_graph: advance_queries graph_kept
  by unfold_locales
    (auto intro!: graph_ops graph_TransitionMissionState simp: mission_step_cases)

end
