(* ===== verification/Interventions.thy ===== *)
theory Interventions
  imports AdvanceLaws
begin

text \<open>
  The owner commands that put a blocked mission back to work: \<open>RetryTaskNode\<close> (\<open>retry_task_node.go\<close>),
  \<open>ResolveHumanGate\<close> (\<open>human_gate.go\<close>, \<open>repository_human_gate.go\<close>) and \<open>ApproveMissionBudget\<close>
  (\<open>budget_approval.go\<close>, \<open>repository_budget.go\<close>).  Each is one transaction, after whose commit the
  service runs \<open>AdvanceMission\<close> in a second one; when that fails, its error is returned with the first
  result, which stays.
\<close>

section \<open>Retrying a blocked node\<close>

record RetryTaskNodeParams =
  ry_WorkspaceID :: uuid
  ry_MissionID :: uuid
  ry_TaskNodeID :: uuid
  ry_CommandID :: uuid
  ry_CorrelationID :: uuid
  ry_ActorID :: uuid
  ry_ExpectedRevision :: int
  ry_ExpectedTaskRevision :: int
  ry_Reason :: string

record RetryTaskNodeResult =
  rtr_Mission :: MissionRow
  rtr_TaskNode :: TaskNodeRow
  rtr_Activity :: ActivityRow
  rtr_Idempotent :: bool

definition GetPendingHumanGateForTask :: "uuid \<Rightarrow> uuid \<Rightarrow> uuid \<Rightarrow> HumanGateRow tx" where
  "GetPendingHumanGateForTask ws mid nid =
     tx_one (\<lambda>s. find (\<lambda>g. sql_eq (g_WorkspaceID g) ws \<and> sql_eq (g_MissionID g) mid \<and>
       sql_eq (g_TaskNodeID g) nid \<and> g_Status g = ''pending'') (db_gates s))"

definition loadRetryTaskNodeResult ::
    "uuid \<Rightarrow> uuid \<Rightarrow> uuid \<Rightarrow> ActivityRow \<Rightarrow> RetryTaskNodeResult tx" where
  "loadRetryTaskNodeResult ws mid nid activity =
     tx_bind (tx_guard (ac_Type activity = ''task.retry_requested'' \<and>
         ac_SubjectType activity = ''task_node'' \<and> ac_MissionID activity = mid \<and>
         ac_SubjectID activity = nid) ErrCommandConflict) (\<lambda>_.
     tx_bind (tx_wrap ''load retry task node mission'' (GetMissionInWorkspace ws mid)) (\<lambda>mission.
     tx_bind (tx_wrap ''load retry task node'' (GetTaskNodeInMission ws mid nid)) (\<lambda>node.
     tx_return \<lparr>rtr_Mission = mission, rtr_TaskNode = node, rtr_Activity = activity,
                rtr_Idempotent = True\<rparr>)))"

definition is_retryable :: "MissionStatus \<Rightarrow> bool" where
  "is_retryable st \<longleftrightarrow> st = MissionStatusRunning \<or> st = MissionStatusBlocked"

definition RetryTaskNode_write :: "env \<Rightarrow> RetryTaskNodeParams \<Rightarrow> string \<Rightarrow> RetryTaskNodeResult tx" where
  "RetryTaskNode_write \<epsilon> params dedupeKey =
     (let ws = ry_WorkspaceID params; mid = ry_MissionID params; nid = ry_TaskNodeID params in
      tx_bind (tx_wrap ''retry task node: lock task node'' (LockTaskNodeForReconcile ws mid nid)) (\<lambda>node.
      tx_bind (tx_guard (t_Status node = TaskStatusBlocked) ErrTaskNodeNotRetryable) (\<lambda>_.
      tx_bind (tx_guard (t_Revision node = ry_ExpectedTaskRevision params) ErrTaskRevisionConflict) (\<lambda>_.
      tx_bind (tx_wrap ''retry task node: check pending human gate''
        (tx_absent (GetPendingHumanGateForTask ws mid nid))) (\<lambda>gate.
      tx_bind (tx_guard (gate = None) ErrHumanGateResolutionRequired) (\<lambda>_.
      tx_bind (tx_wrap ''retry task node: resume mission''
        (ResumeMissionForTaskRetry \<epsilon> ws mid (ry_ExpectedRevision params))) (\<lambda>mission.
      tx_bind (tx_wrap ''retry task node: clear block''
        (RetryBlockedTaskNode \<epsilon> ws mid nid (ry_ExpectedTaskRevision params))) (\<lambda>node.
      tx_bind (tx_wrap ''retry task node: update mission issue'' (UpdateIssueStatus ws mid ''in_progress''))
        (\<lambda>_.
      tx_bind (log_activity \<epsilon> ''retry task node'' ''retry task node: create activity''
        \<lparr>as_WorkspaceID = ws, as_MissionID = mid, as_TaskNodeID = nid, as_RunID = None,
         as_Type = ''task.retry_requested'', as_ActorType = ''user'', as_ActorID = ry_ActorID params,
         as_SubjectType = ''task_node'', as_SubjectID = nid, as_CausationID = ry_CommandID params,
         as_CorrelationID = correlationOrCommand (ry_CorrelationID params) (ry_CommandID params),
         as_Payload = JObj [(''reason'', JStr (ry_Reason params)),
                            (''task_node_id'', JStr (uuidText nid))],
         as_DedupeKey = dedupeKey\<rparr>) (\<lambda>activity.
      tx_return \<lparr>rtr_Mission = mission, rtr_TaskNode = node, rtr_Activity = activity,
                 rtr_Idempotent = False\<rparr>))))))))))"

definition RetryTaskNode_repo :: "env \<Rightarrow> RetryTaskNodeParams \<Rightarrow> RetryTaskNodeResult tx" where
  "RetryTaskNode_repo \<epsilon> params =
     (let ws = ry_WorkspaceID params; mid = ry_MissionID params;
          load = loadRetryTaskNodeResult ws mid (ry_TaskNodeID params) in
      tx_bind (tx_wrap ''retry task node'' (tx_lift (commandDedupeKey (ry_CommandID params)))) (\<lambda>dedupeKey.
      let recorded = GetOrchestrationActivityByDedupeKey ws dedupeKey in
      replay_or recorded load
        (tx_bind (tx_wrap ''retry task node: lock mission'' (LockMissionInWorkspace ws mid)) (\<lambda>mission.
         if \<not> is_retryable (m_Status mission) \<or> m_Revision mission \<noteq> ry_ExpectedRevision params then
           replay_or recorded load
             (tx_fail (if \<not> is_retryable (m_Status mission) then ErrMissionNotRetryable
                       else ErrRevisionConflict))
         else RetryTaskNode_write \<epsilon> params dedupeKey))))"

text \<open>\<open>advance, err := s.AdvanceMission(...)\<close> after a committed command.\<close>

definition then_advance ::
    "env \<Rightarrow> time \<Rightarrow> uuid \<Rightarrow> uuid \<Rightarrow> uuid \<Rightarrow> 'r tx \<Rightarrow> ('r \<times> (error + AdvanceMissionResult \<times> error list)) tx" where
  "then_advance \<epsilon> observedAt ws mid correlation act =
     tx_bind act (\<lambda>r.
     tx_bind (tx_try (AdvanceMission \<epsilon> observedAt
       \<lparr>ac_cmd_WorkspaceID = ws, ac_cmd_MissionID = mid, ac_cmd_CorrelationID = correlation\<rparr>)) (\<lambda>adv.
     tx_return (r, adv)))"

definition RetryTaskNode ::
    "env \<Rightarrow> time \<Rightarrow> RetryTaskNodeParams \<Rightarrow> (RetryTaskNodeResult \<times> (error + AdvanceMissionResult \<times> error list)) tx" where
  "RetryTaskNode \<epsilon> observedAt command =
     (let ws = ry_WorkspaceID command; mid = ry_MissionID command;
          errs = validateCommandIdentity ws mid (ry_CommandID command) (ry_CorrelationID command)
                   (ry_ActorID command) True @
                 check_uuid ''task_node_id'' (ry_TaskNodeID command) @
                 check_revision ''expected_revision'' (ry_ExpectedRevision command) @
                 check_revision ''expected_task_revision'' (ry_ExpectedTaskRevision command) in
      tx_bind (tx_guard (errs = []) (CommandValidationError errs)) (\<lambda>_.
      tx_bind (requireOwner ws (ry_ActorID command)) (\<lambda>_.
      then_advance \<epsilon> observedAt ws mid
        (correlationOrCommand (ry_CorrelationID command) (ry_CommandID command))
        (RetryTaskNode_repo \<epsilon> (command\<lparr>ry_Reason := TrimSpace (ry_Reason command)\<rparr>)))))"

section \<open>Resolving a human gate\<close>

record ResolveHumanGateParams =
  rg_WorkspaceID :: uuid
  rg_MissionID :: uuid
  rg_GateID :: uuid
  rg_CommandID :: uuid
  rg_CorrelationID :: uuid
  rg_ActorID :: uuid
  rg_ExpectedRevision :: int
  rg_ExpectedTaskRevision :: int
  rg_ExpectedGateRevision :: int
  rg_Resolution :: string
  rg_Reason :: string

record ResolveHumanGateResult =
  rgr_Mission :: MissionRow
  rgr_TaskNode :: TaskNodeRow
  rgr_Gate :: HumanGateRow
  rgr_Activity :: ActivityRow
  rgr_Idempotent :: bool

definition gate_is :: "uuid \<Rightarrow> uuid \<Rightarrow> uuid \<Rightarrow> HumanGateRow \<Rightarrow> bool" where
  "gate_is ws mid gid g \<longleftrightarrow>
     sql_eq (g_ID g) gid \<and> sql_eq (g_WorkspaceID g) ws \<and> sql_eq (g_MissionID g) mid"

definition LockPendingHumanGate :: "uuid \<Rightarrow> uuid \<Rightarrow> uuid \<Rightarrow> HumanGateRow tx" where
  "LockPendingHumanGate ws mid gid =
     tx_one (\<lambda>s. find (\<lambda>g. gate_is ws mid gid g \<and> g_Status g = ''pending'') (db_gates s))"

definition GetHumanGateInWorkspace :: "uuid \<Rightarrow> uuid \<Rightarrow> uuid \<Rightarrow> HumanGateRow tx" where
  "GetHumanGateInWorkspace ws mid gid = tx_one (\<lambda>s. find (gate_is ws mid gid) (db_gates s))"

definition ResolvePendingHumanGate ::
    "env \<Rightarrow> uuid \<Rightarrow> uuid \<Rightarrow> uuid \<Rightarrow> int \<Rightarrow> uuid \<Rightarrow> pgtext \<Rightarrow> pgtext \<Rightarrow> HumanGateRow tx" where
  "ResolvePendingHumanGate \<epsilon> ws mid gid expected resolvedBy resolution reason =
     tx_update db_gates (\<lambda>rows s. s\<lparr>db_gates := rows\<rparr>)
       (\<lambda>g. gate_is ws mid gid g \<and> g_Status g = ''pending'' \<and> g_Revision g = expected)
       (\<lambda>g. g\<lparr>g_Status := ''resolved'', g_ResolvedBy := resolvedBy, g_Resolution := resolution,
              g_ResolutionReason := reason, g_ResolvedAt := Some (env_now \<epsilon>),
              g_Revision := g_Revision g + 1\<rparr>)"

definition RestoreTaskNodeForReviewerGate :: "env \<Rightarrow> uuid \<Rightarrow> uuid \<Rightarrow> uuid \<Rightarrow> int \<Rightarrow> TaskNodeRow tx" where
  "RestoreTaskNodeForReviewerGate \<epsilon> ws mid nid expected =
     update_node
       (\<lambda>n. node_is ws mid nid n \<and> t_Status n = TaskStatusBlocked \<and> t_Revision n = expected)
       (\<lambda>n. touch_node \<epsilon> (n\<lparr>t_Status := TaskStatusReview, t_BlockReason := None\<rparr>))"

definition RestoreTaskNodeForReworkGate :: "env \<Rightarrow> uuid \<Rightarrow> uuid \<Rightarrow> uuid \<Rightarrow> int \<Rightarrow> TaskNodeRow tx" where
  "RestoreTaskNodeForReworkGate \<epsilon> ws mid nid expected =
     update_node
       (\<lambda>n. node_is ws mid nid n \<and> t_Status n = TaskStatusBlocked \<and> t_Revision n = expected)
       (\<lambda>n. touch_node \<epsilon> (n\<lparr>t_Status := TaskStatusRework, t_BlockReason := None,
              t_ReworkCount := t_ReworkCount n + 1\<rparr>))"

text \<open>The member \<open>gate_id\<close> of the recorded payload; a missing member or null reads as empty.\<close>

definition payload_gate_id :: "json \<Rightarrow> string option" where
  "payload_gate_id payload =
     (case payload of
        JNull \<Rightarrow> Some []
      | JObj members \<Rightarrow>
          (case find_last (\<lambda>(k, v). ToLower k = ''gate_id'') members of
             None \<Rightarrow> Some [] | Some (_, JStr s) \<Rightarrow> Some s | Some (_, JNull) \<Rightarrow> Some [] | Some _ \<Rightarrow> None)
      | _ \<Rightarrow> None)"

definition loadResolveHumanGateResult ::
    "uuid \<Rightarrow> uuid \<Rightarrow> uuid \<Rightarrow> ActivityRow \<Rightarrow> ResolveHumanGateResult tx" where
  "loadResolveHumanGateResult ws mid gid activity =
     tx_bind (tx_guard (ac_Type activity = ''human_gate.resolved'' \<and> ac_MissionID activity = mid)
       ErrCommandConflict) (\<lambda>_.
     tx_bind (tx_guard (payload_gate_id (ac_Payload activity) = Some (uuidText gid)) ErrCommandConflict) (\<lambda>_.
     tx_bind (GetHumanGateInWorkspace ws mid gid) (\<lambda>gate.
     tx_bind (GetMissionInWorkspace ws mid) (\<lambda>mission.
     tx_bind (GetTaskNodeInMission ws mid (g_TaskNodeID gate)) (\<lambda>node.
     tx_return \<lparr>rgr_Mission = mission, rgr_TaskNode = node, rgr_Gate = gate, rgr_Activity = activity,
                rgr_Idempotent = True\<rparr>)))))"

text \<open>The switch on the kind of the gate.\<close>

definition restore_gated_node ::
    "env \<Rightarrow> ResolveHumanGateParams \<Rightarrow> HumanGateRow \<Rightarrow> TaskNodeRow \<Rightarrow> (TaskNodeRow \<times> string) tx" where
  "restore_gated_node \<epsilon> params gate node =
     (let ws = rg_WorkspaceID params; mid = rg_MissionID params; nid = t_IssueID node;
          expected = rg_ExpectedTaskRevision params in
      if g_Kind gate = ''reviewer_unavailable'' then
        tx_bind (tx_wrap ''resolve human gate: restore task node''
          (RestoreTaskNodeForReviewerGate \<epsilon> ws mid nid expected)) (\<lambda>node. tx_return (node, ''in_review''))
      else if g_Kind gate = ''rework_limit_exceeded'' then
        tx_bind (tx_wrap ''resolve human gate: restore task node''
          (RestoreTaskNodeForReworkGate \<epsilon> ws mid nid expected)) (\<lambda>node. tx_return (node, ''todo''))
      else tx_fail (Errorf (''resolve human gate: unsupported gate kind '' @ go_quote (g_Kind gate))))"

definition ResolveHumanGate_write ::
    "env \<Rightarrow> ResolveHumanGateParams \<Rightarrow> string \<Rightarrow> TaskNodeRow \<Rightarrow> ResolveHumanGateResult tx" where
  "ResolveHumanGate_write \<epsilon> params dedupeKey node =
     (let ws = rg_WorkspaceID params; mid = rg_MissionID params in
      tx_bind (tx_wrap ''resolve human gate: update gate'' (ResolvePendingHumanGate \<epsilon> ws mid
        (rg_GateID params) (rg_ExpectedGateRevision params) (rg_ActorID params)
        (textValue (rg_Resolution params)) (textValue (rg_Reason params)))) (\<lambda>gate.
      tx_bind (tx_wrap ''resolve human gate: resume mission''
        (ResumeMissionForTaskRetry \<epsilon> ws mid (rg_ExpectedRevision params))) (\<lambda>mission.
      tx_bind (restore_gated_node \<epsilon> params gate node) (\<lambda>(node, issueStatus).
      tx_bind (tx_wrap ''resolve human gate: update mission issue''
        (UpdateIssueStatus ws mid ''in_progress'')) (\<lambda>_.
      tx_bind (tx_wrap ''resolve human gate: update task issue''
        (UpdateIssueStatus ws (t_IssueID node) issueStatus)) (\<lambda>_.
      tx_bind (log_activity \<epsilon> ''resolve human gate: allocate activity sequence''
        ''resolve human gate: create activity''
        \<lparr>as_WorkspaceID = ws, as_MissionID = mid, as_TaskNodeID = t_IssueID node, as_RunID = None,
         as_Type = ''human_gate.resolved'', as_ActorType = ''user'', as_ActorID = rg_ActorID params,
         as_SubjectType = ''task_node'', as_SubjectID = t_IssueID node,
         as_CausationID = rg_CommandID params,
         as_CorrelationID = correlationOrCommand (rg_CorrelationID params) (rg_CommandID params),
         as_Payload = JObj [(''gate_id'', JStr (uuidText (g_ID gate))),
           (''gate_revision'', JNum (g_Revision gate)), (''reason'', JStr (rg_Reason params)),
           (''resolution'', JStr (rg_Resolution params))],
         as_DedupeKey = dedupeKey\<rparr>) (\<lambda>activity.
      tx_return \<lparr>rgr_Mission = mission, rgr_TaskNode = node, rgr_Gate = gate, rgr_Activity = activity,
                 rgr_Idempotent = False\<rparr>)))))))"

definition ResolveHumanGate_repo :: "env \<Rightarrow> ResolveHumanGateParams \<Rightarrow> ResolveHumanGateResult tx" where
  "ResolveHumanGate_repo \<epsilon> params =
     (let ws = rg_WorkspaceID params; mid = rg_MissionID params;
          load = loadResolveHumanGateResult ws mid (rg_GateID params) in
      tx_bind (tx_wrap ''resolve human gate'' (tx_lift (commandDedupeKey (rg_CommandID params))))
        (\<lambda>dedupeKey.
      let recorded = GetOrchestrationActivityByDedupeKey ws dedupeKey in
      replay_or recorded load
        (tx_bind (tx_wrap ''resolve human gate: lock mission'' (LockMissionInWorkspace ws mid)) (\<lambda>mission.
         replay_or recorded load
           (tx_bind (tx_guard (is_retryable (m_Status mission)) ErrMissionNotRetryable) (\<lambda>_.
            tx_bind (tx_guard (m_Revision mission = rg_ExpectedRevision params) ErrRevisionConflict) (\<lambda>_.
            tx_bind (tx_wrap ''resolve human gate: lock gate''
              (tx_absent (LockPendingHumanGate ws mid (rg_GateID params)))) (\<lambda>locked.
            case locked of
              None \<Rightarrow> tx_fail ErrHumanGateNotPending
            | Some gate \<Rightarrow>
                tx_bind (tx_guard (g_Revision gate = rg_ExpectedGateRevision params)
                  ErrHumanGateRevisionConflict) (\<lambda>_.
                tx_bind (tx_wrap ''resolve human gate: lock task node''
                  (LockTaskNodeForReconcile ws mid (g_TaskNodeID gate))) (\<lambda>node.
                tx_bind (tx_guard (t_Status node = TaskStatusBlocked) ErrTaskNodeNotRetryable) (\<lambda>_.
                tx_bind (tx_guard (t_Revision node = rg_ExpectedTaskRevision params)
                  ErrTaskRevisionConflict) (\<lambda>_.
                ResolveHumanGate_write \<epsilon> params dedupeKey node))))))))))))"

definition HumanGateResolutionRetry :: string where "HumanGateResolutionRetry = ''retry''"

definition ResolveHumanGate ::
    "env \<Rightarrow> time \<Rightarrow> ResolveHumanGateParams \<Rightarrow>
     (ResolveHumanGateResult \<times> (error + AdvanceMissionResult \<times> error list)) tx" where
  "ResolveHumanGate \<epsilon> observedAt command =
     (let ws = rg_WorkspaceID command; mid = rg_MissionID command;
          errs = validateCommandIdentity ws mid (rg_CommandID command) (rg_CorrelationID command)
                   (rg_ActorID command) True @
                 check_uuid ''gate_id'' (rg_GateID command) @
                 check_revision ''expected_revision'' (rg_ExpectedRevision command) @
                 check_revision ''expected_task_revision'' (rg_ExpectedTaskRevision command) @
                 check_revision ''expected_gate_revision'' (rg_ExpectedGateRevision command) @
                 err_when (TrimSpace (rg_Resolution command) \<noteq> HumanGateResolutionRetry) ''resolution''
                   ''unsupported_resolution'' ''resolution must be retry'' in
      tx_bind (tx_guard (errs = []) (CommandValidationError errs)) (\<lambda>_.
      tx_bind (requireOwner ws (rg_ActorID command)) (\<lambda>_.
      then_advance \<epsilon> observedAt ws mid
        (correlationOrCommand (rg_CorrelationID command) (rg_CommandID command))
        (ResolveHumanGate_repo \<epsilon> (command\<lparr>rg_Resolution := HumanGateResolutionRetry,
           rg_Reason := TrimSpace (rg_Reason command)\<rparr>)))))"

section \<open>Approving a budget\<close>

record ApproveMissionBudgetParams =
  ab_WorkspaceID :: uuid
  ab_MissionID :: uuid
  ab_CommandID :: uuid
  ab_CorrelationID :: uuid
  ab_ActorID :: uuid
  ab_ExpectedRevision :: int
  ab_GrantTokens :: int
  ab_GrantCostUSDTicks :: int
  ab_Reason :: string

record ApproveMissionBudgetResult =
  abr_Mission :: MissionRow
  abr_Activity :: ActivityRow
  abr_Idempotent :: bool

text \<open>The \<open>UPDATE\<close> fails when a grant leaves the range of \<open>bigint\<close>.\<close>

definition awaits_approval :: "MissionRow \<Rightarrow> bool" where
  "awaits_approval m \<longleftrightarrow> m_Status m = MissionStatusBlocked \<and>
     m_BudgetGateStatus m = BudgetGateStatusApprovalRequired"

definition granted :: "env \<Rightarrow> int \<Rightarrow> int \<Rightarrow> uuid \<Rightarrow> MissionRow \<Rightarrow> MissionRow" where
  "granted \<epsilon> tokens ticks approvedBy m =
     touch_mission \<epsilon> (m\<lparr>m_Status := MissionStatusRunning, m_BudgetGateStatus := BudgetGateStatusApproved,
       m_BudgetGrantTokens := m_BudgetGrantTokens m + tokens,
       m_BudgetGrantCostUsdTicks := m_BudgetGrantCostUsdTicks m + ticks,
       m_BudgetApprovedBy := approvedBy, m_BudgetApprovedAt := Some (env_now \<epsilon>)\<rparr>)"

definition ApproveMissionBudgetRecord ::
    "env \<Rightarrow> uuid \<Rightarrow> uuid \<Rightarrow> int \<Rightarrow> int \<Rightarrow> uuid \<Rightarrow> int \<Rightarrow> MissionRow tx" where
  "ApproveMissionBudgetRecord \<epsilon> ws mid tokens ticks approvedBy expected =
     tx_bind (update_mission
       (\<lambda>m. mission_is ws mid m \<and> awaits_approval m \<and> m_Revision m = expected)
       (granted \<epsilon> tokens ticks approvedBy)) (\<lambda>m.
     tx_bind (tx_guard (is_int64 (m_BudgetGrantTokens m) \<and> is_int64 (m_BudgetGrantCostUsdTicks m))
       (Errorf ''bigint out of range'')) (\<lambda>_.
     tx_return m))"

definition loadApproveMissionBudgetResult ::
    "uuid \<Rightarrow> uuid \<Rightarrow> ActivityRow \<Rightarrow> ApproveMissionBudgetResult tx" where
  "loadApproveMissionBudgetResult ws mid activity =
     tx_bind (tx_guard (ac_Type activity = ''budget.approved'' \<and> ac_SubjectType activity = ''mission'' \<and>
         ac_MissionID activity = mid) ErrCommandConflict) (\<lambda>_.
     tx_bind (tx_wrap ''load approved mission budget result'' (GetMissionInWorkspace ws mid)) (\<lambda>mission.
     tx_return \<lparr>abr_Mission = mission, abr_Activity = activity, abr_Idempotent = True\<rparr>))"

definition ApproveMissionBudget_write ::
    "env \<Rightarrow> ApproveMissionBudgetParams \<Rightarrow> string \<Rightarrow> ApproveMissionBudgetResult tx" where
  "ApproveMissionBudget_write \<epsilon> params dedupeKey =
     (let ws = ab_WorkspaceID params; mid = ab_MissionID params in
      tx_bind (tx_wrap ''approve mission budget: update mission'' (ApproveMissionBudgetRecord \<epsilon> ws mid
        (ab_GrantTokens params) (ab_GrantCostUSDTicks params) (ab_ActorID params)
        (ab_ExpectedRevision params))) (\<lambda>mission.
      tx_bind (tx_wrap ''approve mission budget: update root issue''
        (UpdateIssueStatus ws mid ''in_progress'')) (\<lambda>_.
      tx_bind (log_command_activity \<epsilon> ''approve mission budget: allocate activity sequence''
        ''approve mission budget: create activity''
        \<lparr>as_WorkspaceID = ws, as_MissionID = mid, as_TaskNodeID = None, as_RunID = None,
         as_Type = ''budget.approved'', as_ActorType = ''user'', as_ActorID = ab_ActorID params,
         as_SubjectType = ''mission'', as_SubjectID = mid, as_CausationID = ab_CommandID params,
         as_CorrelationID = correlationOrCommand (ab_CorrelationID params) (ab_CommandID params),
         as_Payload = JObj [(''grant_cost_usd_ticks'', JNum (ab_GrantCostUSDTicks params)),
           (''grant_tokens'', JNum (ab_GrantTokens params)), (''reason'', JStr (ab_Reason params)),
           (''revision'', JNum (m_Revision mission))],
         as_DedupeKey = dedupeKey\<rparr>) (\<lambda>activity.
      tx_return \<lparr>abr_Mission = mission, abr_Activity = activity, abr_Idempotent = False\<rparr>))))"

definition ApproveMissionBudget_repo ::
    "env \<Rightarrow> ApproveMissionBudgetParams \<Rightarrow> ApproveMissionBudgetResult tx" where
  "ApproveMissionBudget_repo \<epsilon> params =
     (let ws = ab_WorkspaceID params; mid = ab_MissionID params;
          load = loadApproveMissionBudgetResult ws mid in
      tx_bind (tx_wrap ''approve mission budget'' (tx_lift (commandDedupeKey (ab_CommandID params))))
        (\<lambda>dedupeKey.
      let recorded = GetOrchestrationActivityByDedupeKey ws dedupeKey in
      recorded_command recorded ''load budget approval command result'' load
        (tx_bind (tx_wrap ''approve mission budget: lock mission'' (LockMissionInWorkspace ws mid))
          (\<lambda>mission.
         if \<not> awaits_approval mission \<or> m_Revision mission \<noteq> ab_ExpectedRevision params then
           replay_or recorded load
             (tx_fail (if \<not> awaits_approval mission then ErrBudgetApprovalNotRequired
                       else ErrRevisionConflict))
         else ApproveMissionBudget_write \<epsilon> params dedupeKey))))"

definition ApproveMissionBudget ::
    "env \<Rightarrow> time \<Rightarrow> ApproveMissionBudgetParams \<Rightarrow>
     (ApproveMissionBudgetResult \<times> (error + AdvanceMissionResult \<times> error list)) tx" where
  "ApproveMissionBudget \<epsilon> observedAt command =
     (let ws = ab_WorkspaceID command; mid = ab_MissionID command;
          errs = validateCommandIdentity ws mid (ab_CommandID command) (ab_CorrelationID command)
                   (ab_ActorID command) True @
                 check_revision ''expected_revision'' (ab_ExpectedRevision command) @
                 err_when (ab_GrantTokens command < 0) ''grant_tokens'' ''invalid_budget_grant''
                   ''grant_tokens cannot be negative'' @
                 err_when (ab_GrantCostUSDTicks command < 0) ''grant_cost_usd_ticks''
                   ''invalid_budget_grant'' ''grant_cost_usd_ticks cannot be negative'' @
                 err_when (ab_GrantTokens command = 0 \<and> ab_GrantCostUSDTicks command = 0)
                   ''budget_grant'' ''missing_budget_grant''
                   ''at least one positive budget grant is required'' in
      tx_bind (tx_guard (errs = []) (CommandValidationError errs)) (\<lambda>_.
      tx_bind (requireOwner ws (ab_ActorID command)) (\<lambda>_.
      then_advance \<epsilon> observedAt ws mid
        (correlationOrCommand (ab_CorrelationID command) (ab_CommandID command))
        (ApproveMissionBudget_repo \<epsilon> (command\<lparr>ab_Reason := TrimSpace (ab_Reason command)\<rparr>)))))"

section \<open>What they keep\<close>

text \<open>The owner commands write with the orchestrator's queries and a few of their own, and log under the
  command's key.\<close>

locale intervention_queries = advance_queries R for R +
  assumes op_resume: "obeys R (ResumeMissionForTaskRetry \<epsilon> ws mid expected)"
    and op_retry: "obeys R (RetryBlockedTaskNode \<epsilon> ws mid nid expected)"
    and op_resolve: "obeys R (ResolvePendingHumanGate \<epsilon> ws mid gid expected resolvedBy resolution reason)"
    and op_restore_review: "obeys R (RestoreTaskNodeForReviewerGate \<epsilon> ws mid nid expected)"
    and op_restore_rework: "obeys R (RestoreTaskNodeForReworkGate \<epsilon> ws mid nid expected)"
    and op_approve: "obeys R (ApproveMissionBudgetRecord \<epsilon> ws mid tokens ticks approvedBy expected)"
    and op_log: "obeys R (log_activity \<epsilon> m1 m2 a)"
    and op_log_command: "obeys R (log_command_activity \<epsilon> m1 m2 a)"
begin

lemma replays:
  "(\<And>a. obeys R (load a)) \<Longrightarrow> obeys R body \<Longrightarrow> obeys R (replay_or recorded load body)"
  "(\<And>a. obeys R (load a)) \<Longrightarrow> obeys R body \<Longrightarrow> obeys R (recorded_command recorded msg load body)"
  unfolding obeys_def replay_or_def recorded_command_def
  by (auto split: option.splits sum.splits if_splits)

lemma reads_loads:
  "reads (loadRetryTaskNodeResult ws mid nid a)"
  "reads (loadResolveHumanGateResult ws mid gid a)"
  "reads (loadApproveMissionBudgetResult ws mid a)"
  unfolding loadRetryTaskNodeResult_def loadResolveHumanGateResult_def
    loadApproveMissionBudgetResult_def GetHumanGateInWorkspace_def
  by (intro unchanged.rules read_ops)+

lemma reads_gates:
  "reads (GetPendingHumanGateForTask ws mid nid)" "reads (LockPendingHumanGate ws mid gid)"
  unfolding GetPendingHumanGateForTask_def LockPendingHumanGate_def by (intro unchanged.rules)+

lemma then_advance: "obeys R act \<Longrightarrow> obeys R (then_advance \<epsilon> observedAt ws mid corr act)"
  unfolding then_advance_def by (intro rules AdvanceMission)

lemma RetryTaskNode: "obeys R (RetryTaskNode \<epsilon> observedAt command)"
  unfolding RetryTaskNode_def RetryTaskNode_repo_def RetryTaskNode_write_def Let_def
  by (intro rules then_advance replays reads_loads op_resume op_retry op_issue op_log read_only read_ops
      reads_gates)

lemma ResolveHumanGate: "obeys R (ResolveHumanGate \<epsilon> observedAt command)"
  unfolding ResolveHumanGate_def ResolveHumanGate_repo_def ResolveHumanGate_write_def
    restore_gated_node_def Let_def
  by (intro rules then_advance replays reads_loads op_resume op_resolve op_restore_review
      op_restore_rework op_issue op_log read_only read_ops reads_gates)

lemma ApproveMissionBudget: "obeys R (ApproveMissionBudget \<epsilon> observedAt command)"
  unfolding ApproveMissionBudget_def ApproveMissionBudget_repo_def ApproveMissionBudget_write_def Let_def
  by (intro rules then_advance replays reads_loads op_approve op_issue op_log_command read_only read_ops)

end

subsection \<open>The past, the log and the graphs\<close>

lemma mission_moves_granted: "awaits_approval m \<Longrightarrow> mission_moves m (granted \<epsilon> tokens ticks u m)"
  by (auto simp: mission_moves_def granted_def awaits_approval_def touch_mission_def mission_step_cases)

lemma history_interventions [history_ops]:
  "obeys history (RestoreTaskNodeForReviewerGate \<epsilon> ws mid nid expected)"
  "obeys history (RestoreTaskNodeForReworkGate \<epsilon> ws mid nid expected)"
  "obeys history (ResolvePendingHumanGate \<epsilon> ws mid gid expected resolvedBy resolution reason)"
  "obeys history (ApproveMissionBudgetRecord \<epsilon> ws mid tokens ticks approvedBy expected)"
  unfolding RestoreTaskNodeForReviewerGate_def RestoreTaskNodeForReworkGate_def
    ResolvePendingHumanGate_def ApproveMissionBudgetRecord_def
  by (auto intro!: past.bind past.guard past.return history_update_node history_update_mission
      obeys_update history_simps mission_moves_granted simp: node_moves_def touch_node_def isTerminalTaskStatus_def)

interpretation intervention_history: intervention_queries history
  by unfold_locales (auto intro!: history_ops)

lemma quiet_interventions:
  "obeys quiet (RestoreTaskNodeForReviewerGate \<epsilon> ws mid nid expected)"
  "obeys quiet (RestoreTaskNodeForReworkGate \<epsilon> ws mid nid expected)"
  "obeys quiet (ResolvePendingHumanGate \<epsilon> ws mid gid expected resolvedBy resolution reason)"
  "obeys quiet (ApproveMissionBudgetRecord \<epsilon> ws mid tokens ticks approvedBy expected)"
  unfolding RestoreTaskNodeForReviewerGate_def RestoreTaskNodeForReworkGate_def
    ResolvePendingHumanGate_def ApproveMissionBudgetRecord_def
  by (auto intro!: silence.bind silence.guard silence.return quiet_table_ops quiet_update_mission
      obeys_update quiet_tables simp: granted_def touch_mission_def)

lemmas log_interventions [log_ops] = quiet_interventions [THEN quiet_log]

interpretation intervention_log: intervention_queries "preserves log_ok"
  by unfold_locales (auto intro!: log_ops)

lemma graph_interventions [graph_ops]:
  "obeys graph_kept (RestoreTaskNodeForReviewerGate \<epsilon> ws mid nid expected)"
  "obeys graph_kept (RestoreTaskNodeForReworkGate \<epsilon> ws mid nid expected)"
  "obeys graph_kept (ResolvePendingHumanGate \<epsilon> ws mid gid expected resolvedBy resolution reason)"
  "obeys graph_kept (ApproveMissionBudgetRecord \<epsilon> ws mid tokens ticks approvedBy expected)"
  unfolding RestoreTaskNodeForReviewerGate_def RestoreTaskNodeForReworkGate_def
    ResolvePendingHumanGate_def ApproveMissionBudgetRecord_def
  by (auto intro!: graph.bind graph.guard graph.return graph_update_node graph_update_mission
      obeys_update graph_kept_tables simp: granted_def touch_mission_def same_mission_def row_facts_def
      touch_node_def awaits_approval_def)

interpretation intervention_graph: intervention_queries graph_kept
  by unfold_locales (auto intro!: graph_ops)

end
