(* ===== verification/ArtifactReview.thy ===== *)
theory ArtifactReview
  imports Reconcile Interventions
begin

text \<open>
  \<open>artifact_review.go\<close> and \<open>repository_artifact_review.go\<close>: artifacts and verdicts recorded by command
  instead of by the reconciler.  Both check that the run, its task node and its assignment belong
  together and to the actor, record under the command's key what the reconciler would record, and
  advance the mission afterwards.
\<close>

section \<open>Artifacts\<close>

record RecordArtifactCommand =
  ra_WorkspaceID :: uuid
  ra_MissionID :: uuid
  ra_TaskNodeID :: uuid
  ra_RunID :: uuid
  ra_CommandID :: uuid
  ra_CorrelationID :: uuid
  ra_ActorID :: uuid
  ra_Kind :: ArtifactKind
  ra_URI :: string
  ra_ContentHash :: string
  ra_Summary :: string
  ra_Metadata :: RawJSON

record RecordArtifactResult =
  rar_Artifact :: ArtifactRow
  rar_Activity :: ActivityRow
  rar_Idempotent :: bool

definition validateJSONObject :: "string \<Rightarrow> RawJSON \<Rightarrow> error + unit" where
  "validateJSONObject name value =
     (if raw_size value = 0 then Inr ()
      else case raw_doc value of
        Some (JObj _) \<Rightarrow> Inr ()
      | _ \<Rightarrow> Inl (Errorf (name @ '' must be a JSON object'')))"

definition require :: "bool \<Rightarrow> string \<Rightarrow> error + unit" where
  "require b msg = (if b then Inr () else Inl (Errorf msg))"

definition validateArtifactCommand :: "RecordArtifactCommand \<Rightarrow> error + unit" where
  "validateArtifactCommand c =
     bind_res (require (list_all validUUID [ra_WorkspaceID c, ra_MissionID c, ra_TaskNodeID c, ra_RunID c,
         ra_CommandID c, ra_ActorID c]) ''record artifact: identity fields are required'') (\<lambda>_.
     bind_res (require (ra_Kind c \<in> set allowedArtifactKinds)
       (''record artifact: unsupported kind '' @ go_quote (ArtifactKind_String (ra_Kind c)))) (\<lambda>_.
     bind_res (require (TrimSpace (ra_URI c) \<noteq> [] \<and> length (ra_URI c) \<le> 4096)
       ''record artifact: uri must contain 1 to 4096 bytes'') (\<lambda>_.
     validateJSONObject ''metadata'' (ra_Metadata c))))"

text \<open>The members of an optional object, decoded into \<open>map[string]any\<close>.\<close>

definition object_members :: "RawJSON \<Rightarrow> (string \<times> json) list" where
  "object_members value =
     (if raw_size value = 0 then []
      else case raw_doc value of
        Some (JObj ms) \<Rightarrow> canonical_members (map (\<lambda>(k, v). (k, any_value v)) ms)
      | _ \<Rightarrow> [])"

definition payload_text :: "string \<Rightarrow> json \<Rightarrow> string option" where
  "payload_text name payload =
     decode_struct (\<lambda>k v x. if k = name then set_text id v x else Some x) payload []"

definition loadArtifactReplay ::
    "env \<Rightarrow> RecordArtifactCommand \<Rightarrow> ActivityRow \<Rightarrow> RecordArtifactResult tx" where
  "loadArtifactReplay \<epsilon> c activity =
     tx_bind (tx_guard (ac_Type activity = ''artifact.created'' \<and> ac_RunID activity = ra_RunID c \<and>
         ac_TaskNodeID activity = ra_TaskNodeID c) ErrCommandConflict) (\<lambda>_.
     tx_bind (tx_lift (case payload_text ''artifact_id'' (ac_Payload activity) of
         None \<Rightarrow> Inl (Errorf json_error) | Some t \<Rightarrow> uuidFromText \<epsilon> t)) (\<lambda>arid.
     tx_bind (GetArtifactInWorkspace (ra_WorkspaceID c) arid) (\<lambda>artifact.
     tx_return \<lparr>rar_Artifact = artifact, rar_Activity = activity, rar_Idempotent = True\<rparr>)))"

definition RecordArtifact_write ::
    "env \<Rightarrow> RecordArtifactCommand \<Rightarrow> MissionRow \<Rightarrow> RecordArtifactResult tx" where
  "RecordArtifact_write \<epsilon> c mission =
     (let ws = ra_WorkspaceID c; mid = ra_MissionID c in
      tx_bind (LockOrchestrationRunForReconcile ws (ra_RunID c)) (\<lambda>run.
      tx_bind (LockTaskNodeForReconcile ws mid (ra_TaskNodeID c)) (\<lambda>node.
      tx_bind (LockAgentTaskByOrchestrationRun ws (ra_RunID c)) (\<lambda>task.
      tx_bind (tx_guard (r_TaskNodeID run = t_IssueID node \<and> r_Status run = RunStatusSucceeded \<and>
          r_Purpose run \<noteq> ''review'' \<and> t_Status node = TaskStatusReview)
        (Errorf ''record artifact: run is not the current successful work run'')) (\<lambda>_.
      tx_bind (GetOrchestrationAssignmentInWorkspace ws (r_AssignmentID run)) (\<lambda>assignment.
      tx_bind (tx_guard (a_AgentID assignment = ra_ActorID c)
        (Errorf ''record artifact: actor does not own the work assignment'')) (\<lambda>_.
      tx_bind (ListOrchestrationRunsByMission ws mid) (\<lambda>runs.
      tx_bind (tx_guard (case latestWorkRun runs (t_IssueID node) of
          None \<Rightarrow> False | Some latest \<Rightarrow> r_ID latest = r_ID run)
        (Errorf ''record artifact: stale work run'')) (\<lambda>_.
      tx_bind (tx_guard (artifactKindAllowedByNode node (ra_Kind c))
        (Errorf (''record artifact: kind '' @ go_quote (ArtifactKind_String (ra_Kind c)) @
           '' is not allowed by the task''))) (\<lambda>_.
      tx_bind (recordReconciledArtifactInTx \<epsilon> mission run node task (ra_CommandID c)
        (correlationOrCommand (ra_CorrelationID c) (ra_CommandID c))
        \<lparr>ear_SchemaVersion = 1, ear_Kind = ra_Kind c, ear_URI = ra_URI c, ear_ContentHash = ra_ContentHash c,
         ear_Summary = ra_Summary c, ear_Metadata = Some (object_members (ra_Metadata c))\<rparr>)
        (\<lambda>(artifact, activities).
      tx_return \<lparr>rar_Artifact = artifact, rar_Activity = hd activities, rar_Idempotent = False\<rparr>)))))))))))"

definition RecordArtifact_repo :: "env \<Rightarrow> RecordArtifactCommand \<Rightarrow> RecordArtifactResult tx" where
  "RecordArtifact_repo \<epsilon> c =
     (let ws = ra_WorkspaceID c; load = loadArtifactReplay \<epsilon> c;
          recorded = GetOrchestrationActivityByDedupeKey ws (''command:'' @ uuidText (ra_CommandID c)) in
      tx_bind (tx_lift (validateArtifactCommand c)) (\<lambda>_.
      replay_or recorded load
        (tx_bind (tx_wrap ''record artifact: load run'' (GetOrchestrationRunInWorkspace ws (ra_RunID c)))
          (\<lambda>preflightRun.
         tx_bind (LockMissionInWorkspace ws (ra_MissionID c)) (\<lambda>mission.
         replay_or recorded load
           (tx_bind (tx_guard (m_IssueID mission = r_MissionID preflightRun \<and>
               m_Status mission = MissionStatusRunning)
             (Errorf ''record artifact: mission is not running'')) (\<lambda>_.
            RecordArtifact_write \<epsilon> c mission)))))))"

definition RecordArtifact ::
    "env \<Rightarrow> time \<Rightarrow> RecordArtifactCommand \<Rightarrow> (RecordArtifactResult \<times> (error + AdvanceMissionResult \<times> error list)) tx" where
  "RecordArtifact \<epsilon> observedAt c =
     then_advance \<epsilon> observedAt (ra_WorkspaceID c) (ra_MissionID c)
       (correlationOrCommand (ra_CorrelationID c) (ra_CommandID c)) (RecordArtifact_repo \<epsilon> c)"

section \<open>Verdicts\<close>

record RecordReviewVerdictCommand =
  rv_WorkspaceID :: uuid
  rv_MissionID :: uuid
  rv_TaskNodeID :: uuid
  rv_ReviewRunID :: uuid
  rv_ArtifactID :: uuid
  rv_CommandID :: uuid
  rv_CorrelationID :: uuid
  rv_ActorID :: uuid
  rv_Decision :: ReviewDecision
  rv_Evidence :: RawJSON
  rv_RequestedChanges :: "string list"

record RecordReviewVerdictResult =
  rvr_Verdict :: VerdictRow
  rvr_TaskNode :: TaskNodeRow
  rvr_Activities :: "ActivityRow list"
  rvr_Idempotent :: bool

definition validateReviewCommand :: "RecordReviewVerdictCommand \<Rightarrow> error + unit" where
  "validateReviewCommand c =
     bind_res (require (list_all validUUID [rv_WorkspaceID c, rv_MissionID c, rv_TaskNodeID c, rv_ReviewRunID c,
         rv_ArtifactID c, rv_CommandID c, rv_ActorID c])
       ''record review verdict: identity fields are required'') (\<lambda>_.
     bind_res (require (rv_Decision c \<in>
         {ReviewDecisionApproved, ReviewDecisionChangesRequested, ReviewDecisionRejected})
       (''record review verdict: unsupported decision '' @
        go_quote (ReviewDecision_String (rv_Decision c)))) (\<lambda>_.
     bind_res (require (rv_Decision c \<noteq> ReviewDecisionChangesRequested \<or> rv_RequestedChanges c \<noteq> [])
       ''record review verdict: requested_changes are required'') (\<lambda>_.
     bind_res (require (list_all (\<lambda>change. TrimSpace change \<noteq> []) (rv_RequestedChanges c))
       ''record review verdict: requested_changes cannot contain empty values'') (\<lambda>_.
     validateJSONObject ''evidence'' (rv_Evidence c)))))"

definition loadReviewReplay ::
    "RecordReviewVerdictCommand \<Rightarrow> ActivityRow \<Rightarrow> RecordReviewVerdictResult tx" where
  "loadReviewReplay c activity =
     tx_bind (tx_guard (ac_Type activity \<in>
           {''review.approved'', ''review.changes_requested'', ''review.rejected''} \<and>
         ac_RunID activity = rv_ReviewRunID c \<and> ac_TaskNodeID activity = rv_TaskNodeID c)
       ErrCommandConflict) (\<lambda>_.
     tx_bind (GetReviewVerdictByRun (rv_ReviewRunID c)) (\<lambda>verdict.
     tx_bind (ListTaskNodesByMission (rv_WorkspaceID c) (rv_MissionID c)) (\<lambda>nodes.
     case findNode nodes (rv_TaskNodeID c) of
       None \<Rightarrow> tx_fail ErrNoRows
     | Some node \<Rightarrow>
         tx_bind (ListOrchestrationActivitiesByCausation (rv_WorkspaceID c) (rv_MissionID c)
           (rv_CommandID c)) (\<lambda>activities.
         tx_return \<lparr>rvr_Verdict = verdict, rvr_TaskNode = node, rvr_Activities = activities,
                    rvr_Idempotent = True\<rparr>))))"

definition RecordReviewVerdict_write ::
    "env \<Rightarrow> RecordReviewVerdictCommand \<Rightarrow> MissionRow \<Rightarrow> RecordReviewVerdictResult tx" where
  "RecordReviewVerdict_write \<epsilon> c mission =
     (let ws = rv_WorkspaceID c in
      tx_bind (LockOrchestrationRunForReconcile ws (rv_ReviewRunID c)) (\<lambda>run.
      tx_bind (LockTaskNodeForReconcile ws (rv_MissionID c) (rv_TaskNodeID c)) (\<lambda>node.
      tx_bind (GetArtifactInWorkspace ws (rv_ArtifactID c)) (\<lambda>artifact.
      tx_bind (GetOrchestrationAssignmentInWorkspace ws (r_AssignmentID run)) (\<lambda>assignment.
      tx_bind (tx_guard (r_Purpose run = ''review'' \<and> r_Status run = RunStatusSucceeded \<and>
          r_TaskNodeID run = t_IssueID node \<and> t_Status node = TaskStatusReview \<and>
          ar_TaskNodeID artifact = t_IssueID node \<and> a_Role assignment = DutyReviewer \<and>
          a_AgentID assignment = rv_ActorID c)
        (Errorf ''record review verdict: review scope or actor is invalid'')) (\<lambda>_.
      tx_bind (tx_guard (frozen_artifact_id (r_Input run) = Some (uuidText (ar_ID artifact)))
        (Errorf ''record review verdict: artifact does not match the review run'')) (\<lambda>_.
      tx_bind (recordReconciledReviewInTx \<epsilon> mission run node (rv_CommandID c)
        (correlationOrCommand (rv_CorrelationID c) (rv_CommandID c)) (rv_ActorID c) (rv_ArtifactID c)
        \<lparr>err_SchemaVersion = 1, err_Decision = rv_Decision c,
         err_Evidence = Some (object_members (rv_Evidence c)),
         err_RequestedChanges = rv_RequestedChanges c\<rparr>) (\<lambda>shared.
      tx_return \<lparr>rvr_Verdict = rrr_Verdict shared, rvr_TaskNode = rrr_TaskNode shared,
                 rvr_Activities = rrr_Activities shared, rvr_Idempotent = False\<rparr>))))))))"

definition RecordReviewVerdict_repo ::
    "env \<Rightarrow> RecordReviewVerdictCommand \<Rightarrow> RecordReviewVerdictResult tx" where
  "RecordReviewVerdict_repo \<epsilon> c =
     (let ws = rv_WorkspaceID c; load = loadReviewReplay c;
          recorded = GetOrchestrationActivityByDedupeKey ws (''command:'' @ uuidText (rv_CommandID c)) in
      tx_bind (tx_lift (validateReviewCommand c)) (\<lambda>_.
      replay_or recorded load
        (tx_bind (GetOrchestrationRunInWorkspace ws (rv_ReviewRunID c)) (\<lambda>preflightRun.
         tx_bind (LockMissionInWorkspace ws (rv_MissionID c)) (\<lambda>mission.
         replay_or recorded load
           (tx_bind (tx_guard (r_MissionID preflightRun = m_IssueID mission \<and>
               (m_Status mission = MissionStatusRunning \<or> m_Status mission = MissionStatusBlocked))
             (Errorf ''record review verdict: mission is not active'')) (\<lambda>_.
            RecordReviewVerdict_write \<epsilon> c mission)))))))"

definition RecordReviewVerdict ::
    "env \<Rightarrow> time \<Rightarrow> RecordReviewVerdictCommand \<Rightarrow>
     (RecordReviewVerdictResult \<times> (error + AdvanceMissionResult \<times> error list)) tx" where
  "RecordReviewVerdict \<epsilon> observedAt c =
     then_advance \<epsilon> observedAt (rv_WorkspaceID c) (rv_MissionID c)
       (correlationOrCommand (rv_CorrelationID c) (rv_CommandID c)) (RecordReviewVerdict_repo \<epsilon> c)"

section \<open>What reconciling and recording keep\<close>

text \<open>The reconciler writes with the orchestrator's and the owner commands' queries and a few of its own;
  its updates of a run and of a node follow the transition tables.\<close>

locale reconcile_queries = intervention_queries R for R +
  assumes op_update_run: "run_step from to \<Longrightarrow>
      obeys R (UpdateOrchestrationRunFromReconcile ws rid to from kind msg started finished)"
    and op_revoke: "obeys R (RevokeAssignmentFromReconcile \<epsilon> ws mid nid aid)"
    and op_rework: "obeys R (TransitionTaskNodeForRework \<epsilon> ws mid nid target rework)"
    and op_artifact:
      "obeys R (CreateArtifactRecord \<epsilon> ws mid nid rid akind version uri contentHash summary metadata)"
    and op_verdict: "obeys R (CreateReviewVerdictRecord \<epsilon> ws mid nid rid arid decision evidence requested)"
    and op_plain: "obeys R (plain_activity \<epsilon> spec)"
begin

lemma reconcile_reads [simp]:
  "reads (LockAgentTaskByOrchestrationRun ws rid)" "reads (GetReviewVerdictByRun rid)"
  "reads (NextArtifactVersion ws nid akind)" "reads (NextPlanProposalVersion ws mid)"
  "reads (loadReconciledArtifact ws mid rid)"
  unfolding LockAgentTaskByOrchestrationRun_def GetReviewVerdictByRun_def NextArtifactVersion_def
    NextPlanProposalVersion_def loadReconciledArtifact_def
  by (intro unchanged.rules read_ops)+

lemmas reconcile_read_only = reconcile_reads [THEN read_only]

lemma update_node_from_reconcile:
  assumes "task_step from to" shows "obeys R (UpdateTaskNodeFromReconcile \<epsilon> ws mid nid to reason from)"
proof -
  have "UpdateTaskNodeFromReconcile \<epsilon> ws mid nid to reason from =
      TransitionTaskNodeState \<epsilon> ws mid nid to reason from"
    by (simp add: UpdateTaskNodeFromReconcile_def TransitionTaskNodeState_def)
  moreover have "\<not> isTerminalTaskStatus from"
    using assms by (auto simp: task_step_from_terminal)
  ultimately show ?thesis by (simp add: op_move)
qed

lemma checked_run:
  "from \<noteq> to \<Longrightarrow> (\<And>u. run_step from to \<Longrightarrow> obeys R (f u)) \<Longrightarrow>
     obeys R (tx_bind (tx_wrap msg (tx_lift (validateRunTransition from to))) f)"
  by (intro bind_result wrap lift) (auto intro: run_step.intros)

lemma checked_task:
  "from \<noteq> to \<Longrightarrow> (\<And>u. task_step from to \<Longrightarrow> obeys R (f u)) \<Longrightarrow>
     obeys R (tx_bind (tx_wrap msg (tx_lift (validateTaskTransition from to))) f)"
  by (intro bind_result wrap lift) (auto intro: task_step.intros)

lemma reconcile_run_row: "obeys R (reconcile_run_row run o1)"
  unfolding reconcile_run_row_def
  by (rule branch, rule return, rule checked_run, simp) (intro wrap op_update_run; assumption)

lemma reconcile_node_row:
  "(c \<Longrightarrow> observed_status o1 \<noteq> t_Status node) \<Longrightarrow> obeys R (reconcile_node_row \<epsilon> run node c o1)"
  unfolding reconcile_node_row_def Let_def
  by (rule branch, rule return, rule checked_task, simp)
    (intro rules update_node_from_reconcile op_issue op_revoke; assumption)

lemma createReconcileActivities:
  "obeys R (createReconcileActivities \<epsilon> mission run node task a b o1)"
  unfolding createReconcileActivities_def reconcile_activity_def by (intro rules op_log)

lemma recordReconciledArtifactInTx:
  "obeys R (recordReconciledArtifactInTx \<epsilon> mission run node task c corr receipt)"
  unfolding recordReconciledArtifactInTx_def
  by (intro rules op_artifact op_plain reconcile_read_only read_only read_ops)

lemma write_review:
  "t_Status node = TaskStatusReview \<Longrightarrow>
     obeys R (write_review \<epsilon> mission run node artifact c corr actor receipt)"
  unfolding write_review_def move_reviewed_def rework_gate_def end_reviewed_assignment_def Let_def
  by (intro rules op_verdict op_rework op_issue op_end op_plain createPendingHumanGate op_move
      read_only read_ops) (simp add: isTerminalTaskStatus_def)

lemma recordReconciledReviewInTx:
  "obeys R (recordReconciledReviewInTx \<epsilon> mission run node c corr actor requested receipt)"
  unfolding recordReconciledReviewInTx_def Let_def
  by (rule bind_result, rule guard)
    (intro rules write_review reconcile_read_only read_only read_ops, simp)

lemma record_report: "obeys R (record_report \<epsilon> mission run node task report result)"
  unfolding record_report_def createPlanningProposalArtifact_def
  by (cases task; cases report) (simp_all only: prod.case option.case run_report.case,
    (intro rules op_artifact op_log recordReconciledArtifactInTx recordReconciledReviewInTx
      reconcile_read_only)+)

lemma reconcile_changed:
  "(b \<Longrightarrow> observed_status o1 \<noteq> t_Status node) \<Longrightarrow>
     obeys R (reconcile_changed \<epsilon> mission run node task o1 report a b result)"
  unfolding reconcile_changed_def
  by (intro rules reconcile_run_row reconcile_node_row createReconcileActivities record_report)

lemma ReconcileRun: "obeys R (ReconcileRun \<epsilon> params)"
  unfolding ReconcileRun_def reconcile_node_def reconcile_unchanged_def Let_def
  by (intro rules reconcile_changed reconcile_read_only read_only read_ops) simp

lemma RecordArtifact: "obeys R (RecordArtifact \<epsilon> observedAt c)"
  unfolding RecordArtifact_def RecordArtifact_repo_def RecordArtifact_write_def loadArtifactReplay_def Let_def
  by (intro then_advance rules replays recordReconciledArtifactInTx reconcile_read_only read_only read_ops)

lemma RecordReviewVerdict: "obeys R (RecordReviewVerdict \<epsilon> observedAt c)"
  unfolding RecordReviewVerdict_def RecordReviewVerdict_repo_def RecordReviewVerdict_write_def
    loadReviewReplay_def Let_def
  by (intro then_advance rules replays recordReconciledReviewInTx reconcile_read_only read_only read_ops)

end

subsection \<open>The past, the log and the graphs\<close>

lemma history_outputs [history_ops]:
  "obeys history (RevokeAssignmentFromReconcile \<epsilon> ws mid nid aid)"
  "obeys history (CreateArtifactRecord \<epsilon> ws mid nid rid kind version uri contentHash summary metadata)"
  "obeys history (CreateReviewVerdictRecord \<epsilon> ws mid nid rid arid decision evidence requested)"
  "obeys history (plain_activity \<epsilon> spec)"
proof -
  show "obeys history (RevokeAssignmentFromReconcile \<epsilon> ws mid nid aid)"
    unfolding RevokeAssignmentFromReconcile_def
    by (rule obeys_update) (auto simp: history_def assignment_moves_def intro!: rows_evolve_refl rows_evolve_update)
  show "obeys history (plain_activity \<epsilon> spec)"
    unfolding plain_activity_def by (intro past.bind history_ops)
qed (auto simp: CreateArtifactRecord_def CreateReviewVerdictRecord_def history_rows
    intro!: past.bind history_draw obeys_insert)

interpretation reconcile_history: reconcile_queries history
  by unfold_locales (auto intro!: history_ops history_UpdateRun)

lemma quiet_outputs:
  "obeys quiet (UpdateOrchestrationRunFromReconcile ws rid to from kind msg started finished)"
  "obeys quiet (RevokeAssignmentFromReconcile \<epsilon> ws mid nid aid)"
  "obeys quiet (CreateArtifactRecord \<epsilon> ws mid nid rid akind version uri contentHash summary metadata)"
  "obeys quiet (CreateReviewVerdictRecord \<epsilon> ws mid nid rid arid decision evidence requested)"
  unfolding UpdateOrchestrationRunFromReconcile_def RevokeAssignmentFromReconcile_def
    CreateArtifactRecord_def CreateReviewVerdictRecord_def
  by (auto intro!: silence.bind quiet_table_ops obeys_insert obeys_update quiet_tables)

lemmas log_outputs [log_ops] = quiet_outputs [THEN quiet_log]

lemma log_plain [log_ops]: "obeys (preserves log_ok) (plain_activity \<epsilon> spec)"
  by (auto intro!: obeysI simp: plain_activity_def preserves_def)
    (erule log_one, assumption, simp_all add: activity_row_def)

interpretation reconcile_log: reconcile_queries "preserves log_ok"
  by unfold_locales (auto intro!: log_ops)

lemma graph_outputs [graph_ops]:
  "obeys graph_kept (UpdateOrchestrationRunFromReconcile ws rid to from kind msg started finished)"
  "obeys graph_kept (RevokeAssignmentFromReconcile \<epsilon> ws mid nid aid)"
  "obeys graph_kept (CreateArtifactRecord \<epsilon> ws mid nid rid akind version uri contentHash summary metadata)"
  "obeys graph_kept (CreateReviewVerdictRecord \<epsilon> ws mid nid rid arid decision evidence requested)"
  "obeys graph_kept (plain_activity \<epsilon> spec)"
  unfolding UpdateOrchestrationRunFromReconcile_def RevokeAssignmentFromReconcile_def
    CreateArtifactRecord_def CreateReviewVerdictRecord_def plain_activity_def
  by (auto intro!: graph.bind graph_ops obeys_insert obeys_update graph_kept_tables)

interpretation reconcile_graph: reconcile_queries graph_kept
  by unfold_locales (auto intro!: graph_ops)

end
