(* ===== verification/MailboxCommands.thy ===== *)
theory MailboxCommands
  imports ArtifactReview
begin

text \<open>
  \<open>mailbox_commands.go\<close> and the writing half of \<open>repository_mailbox.go\<close>: sending a message, consuming or
  cancelling it, and its expiry by the orchestrator.  Sending is deduplicated twice, by the command and
  by the sender's key; a replay must repeat the message.  \<open>uuid.NewString()\<close> and \<open>time.Now()\<close> are arguments.
  A row is mapped back after the commit, so that the value returned is a sum of its own.
\<close>

section \<open>Types\<close>

record SendMailboxMessageCommand =
  sm_WorkspaceID :: uuid
  sm_MissionID :: uuid
  sm_CommandID :: uuid
  sm_CorrelationID :: uuid
  sm_ActorID :: uuid
  sm_TaskNodeID :: uuid
  sm_RunID :: uuid
  sm_ArtifactID :: uuid
  sm_ReplyToMessageID :: uuid
  sm_Type :: string
  sm_Sender :: MailboxActorRef
  sm_Recipient :: MailboxActorRef
  sm_DedupeKey :: string
  sm_TTL :: int
  sm_Hops :: int
  sm_PayloadVersion :: int
  sm_Payload :: RawJSON

record SendMailboxMessageParams =
  smp_CommandID :: uuid
  smp_CorrelationID :: uuid
  smp_ActorID :: uuid
  smp_Message :: MailboxMessageV1

record SendMailboxMessageResult =
  sdr_Message :: StoredMailboxMessage
  sdr_Activity :: ActivityRow
  sdr_Idempotent :: bool

record TransitionMailboxMessageParams =
  tm_WorkspaceID :: uuid
  tm_MissionID :: uuid
  tm_MessageID :: uuid
  tm_CommandID :: uuid
  tm_CorrelationID :: uuid
  tm_ActorID :: uuid
  tm_Principal :: MailboxActorRef
  tm_ActingRunID :: uuid
  tm_ExpectedRevision :: int
  tm_TargetStatus :: string
  tm_ObservedAt :: time

section \<open>Queries\<close>

definition GetMailboxMessageByCommand :: "uuid \<Rightarrow> uuid \<Rightarrow> db \<Rightarrow> MailboxRow option" where
  "GetMailboxMessageByCommand ws c s =
     find (\<lambda>r. sql_eq (mb_WorkspaceID r) ws \<and> sql_eq (mb_CommandID r) c) (db_mailbox s)"

definition same_sender :: "uuid \<Rightarrow> uuid \<Rightarrow> string \<Rightarrow> uuid \<Rightarrow> string \<Rightarrow> MailboxRow \<Rightarrow> bool" where
  "same_sender ws mid senderType senderID key r \<longleftrightarrow>
     sql_eq (mb_WorkspaceID r) ws \<and> sql_eq (mb_MissionID r) mid \<and> mb_SenderType r = senderType \<and>
     mb_SenderID r = senderID \<and> mb_DedupeKey r = key"

definition GetMailboxMessageByDedupe ::
    "uuid \<Rightarrow> uuid \<Rightarrow> string \<Rightarrow> uuid \<Rightarrow> string \<Rightarrow> db \<Rightarrow> MailboxRow option" where
  "GetMailboxMessageByDedupe ws mid senderType senderID key s =
     find (same_sender ws mid senderType senderID key) (db_mailbox s)"

definition message_is :: "uuid \<Rightarrow> uuid \<Rightarrow> uuid \<Rightarrow> MailboxRow \<Rightarrow> bool" where
  "message_is ws mid msgID r \<longleftrightarrow>
     sql_eq (mb_ID r) msgID \<and> sql_eq (mb_WorkspaceID r) ws \<and> sql_eq (mb_MissionID r) mid"

definition GetMailboxMessageInMission :: "uuid \<Rightarrow> uuid \<Rightarrow> uuid \<Rightarrow> MailboxRow tx" where
  "GetMailboxMessageInMission ws mid msgID = tx_one (\<lambda>s. find (message_is ws mid msgID) (db_mailbox s))"

definition LockMailboxMessageInMission :: "uuid \<Rightarrow> uuid \<Rightarrow> uuid \<Rightarrow> MailboxRow tx" where
  "LockMailboxMessageInMission ws mid msgID = GetMailboxMessageInMission ws mid msgID"

text \<open>The insert, under the primary key and the unique indexes of migration 350.\<close>

definition CreateMailboxMessage :: "MailboxRow \<Rightarrow> MailboxRow tx" where
  "CreateMailboxMessage row =
     tx_insert db_mailbox (\<lambda>rows s. s\<lparr>db_mailbox := rows\<rparr>)
       [(''orchestration_mailbox_message_pkey'', \<lambda>r. sql_eq (mb_ID r) (mb_ID row)),
        (''idx_orchestration_mailbox_command_unique'',
           \<lambda>r. sql_eq (mb_WorkspaceID r) (mb_WorkspaceID row) \<and> sql_eq (mb_CommandID r) (mb_CommandID row)),
        (''idx_orchestration_mailbox_semantic_dedupe'',
           \<lambda>r. sql_eq (mb_WorkspaceID r) (mb_WorkspaceID row) \<and> sql_eq (mb_MissionID r) (mb_MissionID row) \<and>
               mb_SenderType r = mb_SenderType row \<and>
               uuidText (mb_SenderID r) = uuidText (mb_SenderID row) \<and> mb_DedupeKey r = mb_DedupeKey row)]
       row"

text \<open>The run of a message with the agent of its assignment.\<close>

record MailboxRunPrincipal =
  mrp_TaskNodeID :: uuid
  mrp_AgentID :: uuid

definition GetMailboxRunPrincipal :: "uuid \<Rightarrow> uuid \<Rightarrow> uuid \<Rightarrow> db \<Rightarrow> MailboxRunPrincipal option" where
  "GetMailboxRunPrincipal ws mid rid s =
     (case List.map_filter (\<lambda>r.
         if sql_eq (r_ID r) rid \<and> run_in ws mid r then
           (case find (\<lambda>a. sql_eq (a_ID a) (r_AssignmentID r) \<and> sql_eq (a_WorkspaceID a) (r_WorkspaceID r) \<and>
                 sql_eq (a_MissionID a) (r_MissionID r) \<and> a_TaskNodeID a = r_TaskNodeID r) (db_assignments s) of
              None \<Rightarrow> None
            | Some a \<Rightarrow> Some \<lparr>mrp_TaskNodeID = r_TaskNodeID r, mrp_AgentID = a_AgentID a\<rparr>)
         else None) (db_runs s) of
        [] \<Rightarrow> None | p # _ \<Rightarrow> Some p)"

definition ListExpiredMailboxMessages_rows :: "time \<Rightarrow> nat \<Rightarrow> MailboxRow list tx" where
  "ListExpiredMailboxMessages_rows observedAt pageSize =
     tx_query (\<lambda>s. take pageSize (sort_key (\<lambda>r. (mb_ExpiresAt r, uuid_key (mb_ID r)))
       (filter (\<lambda>r. mb_Status r = ''pending'' \<and> mb_ExpiresAt r \<le> observedAt) (db_mailbox s))))"

section \<open>Principals\<close>

definition mailboxActorUUID :: "env \<Rightarrow> MailboxActorRef \<Rightarrow> error + uuid" where
  "mailboxActorUUID \<epsilon> actor =
     (if act_Type actor = ''orchestrator'' \<and> act_ID actor = [] then Inr None
      else uuidFromText \<epsilon> (act_ID actor))"

definition optionalUUIDFromText :: "env \<Rightarrow> string \<Rightarrow> error + uuid" where
  "optionalUUIDFromText \<epsilon> value = (if value = [] then Inr None else uuidFromText \<epsilon> value)"

text \<open>\<open>id, _ := ...\<close>: the error is dropped and the value invalid.\<close>

definition or_invalid :: "error + uuid \<Rightarrow> uuid" where
  "or_invalid r = (case r of Inl _ \<Rightarrow> None | Inr u \<Rightarrow> u)"

definition mailboxDBActorEqual :: "env \<Rightarrow> string \<Rightarrow> uuid \<Rightarrow> MailboxActorRef \<Rightarrow> bool" where
  "mailboxDBActorEqual \<epsilon> actorType actorID expected \<longleftrightarrow>
     actorType = act_Type expected \<and>
     (if act_Type expected = ''orchestrator'' then actorID = None \<and> act_ID expected = []
      else uuidFromText \<epsilon> (act_ID expected) = Inr actorID)"

definition permitted :: "bool \<Rightarrow> unit tx" where
  "permitted b = tx_guard b ErrMailboxPermissionDenied"

text \<open>An agent acts through an owner, on behalf of a run that its assignment gives it.\<close>

definition acts_for_run :: "db \<Rightarrow> uuid \<Rightarrow> uuid \<Rightarrow> uuid \<Rightarrow> uuid \<Rightarrow> bool" where
  "acts_for_run s ws mid rid agentID \<longleftrightarrow>
     (case GetMailboxRunPrincipal ws mid rid s of None \<Rightarrow> False | Some p \<Rightarrow> mrp_AgentID p = agentID)"

definition validateMailboxSendPrincipal ::
    "env \<Rightarrow> uuid \<Rightarrow> uuid \<Rightarrow> uuid \<Rightarrow> uuid \<Rightarrow> string \<Rightarrow> MailboxActorRef \<Rightarrow> unit tx" where
  "validateMailboxSendPrincipal \<epsilon> ws mid rid actorID actorRole sender =
     tx_bind (tx_query id) (\<lambda>s.
     permitted (case uuidFromText \<epsilon> (act_ID sender) of
         Inl _ \<Rightarrow> False
       | Inr senderID \<Rightarrow>
           if act_Type sender = ''member'' then senderID = actorID
           else if act_Type sender = ''agent''
           then actorRole = ''owner'' \<and> rid \<noteq> None \<and> acts_for_run s ws mid rid senderID
           else False))"

definition validateMailboxRecipient :: "env \<Rightarrow> uuid \<Rightarrow> MailboxActorRef \<Rightarrow> unit tx" where
  "validateMailboxRecipient \<epsilon> ws recipient =
     tx_bind (tx_query id) (\<lambda>s.
     permitted (case uuidFromText \<epsilon> (act_ID recipient) of
         Inl _ \<Rightarrow> False
       | Inr u \<Rightarrow>
           if act_Type recipient = ''member'' then GetMemberByUserAndWorkspace u ws s \<noteq> None
           else if act_Type recipient = ''agent'' then GetAgentInWorkspace u ws s \<noteq> None
           else False))"

section \<open>References\<close>

definition refers :: "bool \<Rightarrow> unit tx" where
  "refers b = tx_guard b ErrMailboxReferenceInvalid"

definition run_reference_ok :: "db \<Rightarrow> uuid \<Rightarrow> uuid \<Rightarrow> uuid \<Rightarrow> uuid \<Rightarrow> bool" where
  "run_reference_ok s ws mid nid rid \<longleftrightarrow>
     (case GetMailboxRunPrincipal ws mid rid s of
        None \<Rightarrow> False | Some p \<Rightarrow> nid = None \<or> mrp_TaskNodeID p = nid)"

definition artifact_reference_ok ::
    "db \<Rightarrow> uuid \<Rightarrow> uuid \<Rightarrow> uuid \<Rightarrow> uuid \<Rightarrow> uuid \<Rightarrow> string \<Rightarrow> bool" where
  "artifact_reference_ok s ws mid nid rid arid typ \<longleftrightarrow>
     (case GetArtifactInWorkspace ws arid s of
        Inl _ \<Rightarrow> False
      | Inr (a, _) \<Rightarrow>
          ar_MissionID a = mid \<and> (nid = None \<or> ar_TaskNodeID a = nid) \<and>
          \<not> (typ = ''artifact_notice'' \<and> rid \<noteq> None \<and> ar_RunID a \<noteq> rid))"

definition reply_ok :: "env \<Rightarrow> db \<Rightarrow> uuid \<Rightarrow> uuid \<Rightarrow> uuid \<Rightarrow> MailboxMessageV1 \<Rightarrow> bool" where
  "reply_ok \<epsilon> s ws mid replyID message \<longleftrightarrow>
     (case GetMailboxMessageInMission ws mid replyID s of
        Inl _ \<Rightarrow> False
      | Inr (reply, _) \<Rightarrow>
          mb_Type reply = ''context_request'' \<and> mm_Type message = ''context_response'' \<and>
          mailboxDBActorEqual \<epsilon> (mb_RecipientType reply) (mb_RecipientID reply) (mm_Sender message) \<and>
          mailboxDBActorEqual \<epsilon> (mb_SenderType reply) (mb_SenderID reply) (mm_Recipient message) \<and>
          mm_Hops message = mb_Hops reply + 1)"

definition validateMailboxReferences ::
    "env \<Rightarrow> uuid \<Rightarrow> uuid \<Rightarrow> uuid \<Rightarrow> uuid \<Rightarrow> uuid \<Rightarrow> uuid \<Rightarrow> MailboxMessageV1 \<Rightarrow> unit tx" where
  "validateMailboxReferences \<epsilon> ws mid nid rid arid replyID message =
     tx_bind (tx_query id) (\<lambda>s.
     refers ((nid = None \<or> find (node_is ws mid nid) (db_nodes s) \<noteq> None) \<and>
             (rid = None \<or> run_reference_ok s ws mid nid rid) \<and>
             (arid = None \<or> artifact_reference_ok s ws mid nid rid arid (mm_Type message)) \<and>
             (replyID = None \<or> reply_ok \<epsilon> s ws mid replyID message)))"

section \<open>Activities\<close>

definition mailboxActivityPayload :: "MailboxRow \<Rightarrow> string \<Rightarrow> string \<Rightarrow> error + json" where
  "mailboxActivityPayload row fromStatus toStatus =
     bind_res (time_json (mb_ExpiresAt row)) (\<lambda>expires.
       Inr (JObj [(''expires_at'', expires), (''from_status'', JStr fromStatus), (''hops'', JNum (mb_Hops row)),
         (''message_id'', JStr (uuidText (mb_ID row))), (''message_type'', JStr (mb_Type row)),
         (''recipient_id'', JStr (uuidText (mb_RecipientID row))),
         (''recipient_type'', JStr (mb_RecipientType row)), (''to_status'', JStr toStatus)]))"

definition createMailboxActivity ::
    "env \<Rightarrow> uuid \<Rightarrow> uuid \<Rightarrow> MailboxRow \<Rightarrow> uuid \<Rightarrow> uuid \<Rightarrow> MailboxActorRef \<Rightarrow> string \<Rightarrow> error + json \<Rightarrow>
     ActivityRow tx" where
  "createMailboxActivity \<epsilon> ws mid row commandID correlationID actor typ payload =
     tx_bind (tx_lift payload) (\<lambda>payload.
     tx_bind (tx_wrap ''mailbox activity: allocate sequence'' (AllocateMissionActivitySequence \<epsilon> ws mid)) (\<lambda>seq.
     tx_wrap ''mailbox activity: insert'' (CreateOrchestrationActivity \<epsilon> (activity_row
       \<lparr>as_WorkspaceID = ws, as_MissionID = mid, as_TaskNodeID = mb_TaskNodeID row, as_RunID = mb_RunID row,
        as_Type = typ, as_ActorType = (if act_Type actor = ''member'' then ''user'' else act_Type actor),
        as_ActorID = or_invalid (mailboxActorUUID \<epsilon> actor), as_SubjectType = ''mailbox_message'',
        as_SubjectID = mb_ID row, as_CausationID = commandID,
        as_CorrelationID = correlationOrCommand correlationID commandID, as_Payload = payload,
        as_DedupeKey = ''command:'' @ uuidText commandID\<rparr> seq))))"

definition mailboxTransitionActivityType :: "string \<Rightarrow> string" where
  "mailboxTransitionActivityType status =
     (if status = ''consumed'' then ''mailbox.message_consumed''
      else if status = ''cancelled'' then ''mailbox.message_cancelled''
      else if status = ''expired'' then ''mailbox.message_expired'' else [])"

section \<open>Replays\<close>

text \<open>\<open>mailboxMessageMatches\<close>: the fields, the lifetime, and the payloads as \<open>any\<close> values.\<close>

definition same_payload :: "RawJSON \<Rightarrow> RawJSON \<Rightarrow> bool" where
  "same_payload stored requested \<longleftrightarrow>
     raw_doc stored \<noteq> None \<and> map_option any_value (raw_doc stored) = map_option any_value (raw_doc requested)"

definition mailboxMessageMatches :: "StoredMailboxMessage \<Rightarrow> MailboxMessageV1 \<Rightarrow> bool" where
  "mailboxMessageMatches stored requested \<longleftrightarrow>
     (let m = stm_Message stored in
      mm_SchemaVersion m = mm_SchemaVersion requested \<and> mm_WorkspaceID m = mm_WorkspaceID requested \<and>
      mm_MissionID m = mm_MissionID requested \<and> mm_TaskNodeID m = mm_TaskNodeID requested \<and>
      mm_RunID m = mm_RunID requested \<and> mm_ArtifactID m = mm_ArtifactID requested \<and>
      mm_ReplyToMessageID m = mm_ReplyToMessageID requested \<and> mm_Type m = mm_Type requested \<and>
      mm_Sender m = mm_Sender requested \<and> mm_Recipient m = mm_Recipient requested \<and>
      mm_DedupeKey m = mm_DedupeKey requested \<and> mm_Hops m = mm_Hops requested \<and>
      mm_PayloadVersion m = mm_PayloadVersion requested \<and>
      mm_ExpiresAt m - mm_CreatedAt m = mm_ExpiresAt requested - mm_CreatedAt requested \<and>
      same_payload (mm_Payload m) (mm_Payload requested))"

definition loadMailboxReplayResult ::
    "env \<Rightarrow> MailboxRow \<Rightarrow> SendMailboxMessageParams \<Rightarrow> bool \<Rightarrow> SendMailboxMessageResult tx" where
  "loadMailboxReplayResult \<epsilon> row params commandReplay =
     (let ws = mb_WorkspaceID row in
      tx_bind (tx_lift (mapStoredMailboxMessage \<epsilon> row)) (\<lambda>mapped.
      tx_bind (tx_guard (mb_CreatedBy row = smp_ActorID params \<and>
            mailboxMessageMatches mapped (smp_Message params))
          (if commandReplay then ErrCommandConflict else ErrMailboxDedupeConflict)) (\<lambda>_.
      tx_bind (tx_query (GetMemberByUserAndWorkspace (smp_ActorID params) ws)) (\<lambda>member.
      case member of
        None \<Rightarrow> tx_fail ErrMailboxPermissionDenied
      | Some m \<Rightarrow>
          tx_bind (validateMailboxSendPrincipal \<epsilon> ws (mb_MissionID row) (mb_RunID row)
            (smp_ActorID params) (mem_Role m) (mm_Sender (stm_Message mapped))) (\<lambda>_.
          tx_bind (tx_wrap ''load mailbox replay activity'' (tx_one
            (GetOrchestrationActivityByDedupeKey ws (''command:'' @ uuidText (mb_CommandID row))))) (\<lambda>activity.
          tx_return \<lparr>sdr_Message = mapped, sdr_Activity = activity, sdr_Idempotent = True\<rparr>))))))"

section \<open>Sending\<close>

definition new_mailbox_row ::
    "SendMailboxMessageParams \<Rightarrow> uuid \<Rightarrow> uuid \<Rightarrow> uuid \<Rightarrow> uuid \<Rightarrow> uuid \<Rightarrow> uuid \<Rightarrow> uuid \<Rightarrow> uuid \<Rightarrow> uuid \<Rightarrow> json \<Rightarrow>
     MailboxRow" where
  "new_mailbox_row params ws mid msgID nid rid arid replyID senderID recipientID payload =
     (let m = smp_Message params in
      \<lparr>mb_ID = msgID, mb_WorkspaceID = ws, mb_MissionID = mid, mb_TaskNodeID = nid, mb_RunID = rid,
       mb_ArtifactID = arid, mb_ReplyToMessageID = replyID, mb_SchemaVersion = mm_SchemaVersion m,
       mb_Type = mm_Type m, mb_SenderType = act_Type (mm_Sender m), mb_SenderID = senderID,
       mb_RecipientType = act_Type (mm_Recipient m), mb_RecipientID = recipientID, mb_Status = ''pending'',
       mb_DedupeKey = mm_DedupeKey m, mb_Hops = mm_Hops m, mb_PayloadVersion = mm_PayloadVersion m,
       mb_Payload = payload, mb_CommandID = smp_CommandID params, mb_CreatedBy = smp_ActorID params,
       mb_Revision = 1, mb_CreatedAt = mm_CreatedAt m, mb_ExpiresAt = mm_ExpiresAt m,
       mb_StatusChangedAt = mm_CreatedAt m\<rparr>)"

text \<open>The insert and its activity; the row is mapped back after the commit.\<close>

definition SendMailboxMessage_write ::
    "env \<Rightarrow> SendMailboxMessageParams \<Rightarrow> MailboxRow \<Rightarrow> (error + SendMailboxMessageResult) tx" where
  "SendMailboxMessage_write \<epsilon> params new =
     tx_bind (tx_wrap ''send mailbox message: insert'' (CreateMailboxMessage new)) (\<lambda>row.
     tx_bind (createMailboxActivity \<epsilon> (mb_WorkspaceID new) (mb_MissionID new) row (smp_CommandID params)
       (smp_CorrelationID params) (mm_Sender (smp_Message params)) ''mailbox.message_sent''
       (mailboxActivityPayload row [] (mb_Status row))) (\<lambda>activity.
     tx_return (bind_res (mapStoredMailboxMessage \<epsilon> row) (\<lambda>mapped.
       Inr \<lparr>sdr_Message = mapped, sdr_Activity = activity, sdr_Idempotent = False\<rparr>))))"

definition SendMailboxMessage_new ::
    "env \<Rightarrow> SendMailboxMessageParams \<Rightarrow> MailboxRow \<Rightarrow> (error + SendMailboxMessageResult) tx" where
  "SendMailboxMessage_new \<epsilon> params new =
     (let ws = mb_WorkspaceID new; mid = mb_MissionID new; message = smp_Message params;
          done = (\<lambda>r. tx_return (Inr r)) in
      tx_bind (tx_wrap ''send mailbox message: lock mission'' (LockMissionInWorkspace ws mid)) (\<lambda>mission.
      tx_bind (tx_guard (\<not> isTerminalMissionStatus (m_Status mission)) ErrMailboxStatusConflict) (\<lambda>_.
      tx_bind (tx_query (GetMemberByUserAndWorkspace (smp_ActorID params) ws)) (\<lambda>member.
      case member of
        None \<Rightarrow> tx_fail ErrMailboxPermissionDenied
      | Some m \<Rightarrow>
          tx_bind (validateMailboxSendPrincipal \<epsilon> ws mid (mb_RunID new) (smp_ActorID params)
            (mem_Role m) (mm_Sender message)) (\<lambda>_.
          tx_bind (validateMailboxRecipient \<epsilon> ws (mm_Recipient message)) (\<lambda>_.
          tx_bind (validateMailboxReferences \<epsilon> ws mid (mb_TaskNodeID new) (mb_RunID new)
            (mb_ArtifactID new) (mb_ReplyToMessageID new) message) (\<lambda>_.
          tx_bind (tx_query (GetMailboxMessageByDedupe ws mid (mb_SenderType new) (mb_SenderID new)
            (mb_DedupeKey new))) (\<lambda>existing.
          case existing of
            Some row \<Rightarrow> tx_bind (loadMailboxReplayResult \<epsilon> row params False) done
          | None \<Rightarrow> SendMailboxMessage_write \<epsilon> params new))))))))"

definition SendMailboxMessage_repo ::
    "env \<Rightarrow> SendMailboxMessageParams \<Rightarrow> (error + SendMailboxMessageResult) tx" where
  "SendMailboxMessage_repo \<epsilon> params =
     (let message = smp_Message params; errs = ValidateMailboxMessageV1 \<epsilon> message;
          field = (\<lambda>t. or_invalid (uuidFromText \<epsilon> t)); narg = (\<lambda>t. or_invalid (optionalUUIDFromText \<epsilon> t));
          ws = field (mm_WorkspaceID message); mid = field (mm_MissionID message) in
      tx_bind (tx_guard (errs = []) (CommandValidationError errs)) (\<lambda>_.
      tx_bind (tx_lift (mailboxActorUUID \<epsilon> (mm_Sender message))) (\<lambda>senderID.
      tx_bind (tx_lift (mailboxActorUUID \<epsilon> (mm_Recipient message))) (\<lambda>recipientID.
      tx_bind (tx_query (GetMailboxMessageByCommand ws (smp_CommandID params))) (\<lambda>existing.
      case existing of
        Some row \<Rightarrow> tx_bind (loadMailboxReplayResult \<epsilon> row params True) (\<lambda>r. tx_return (Inr r))
      | None \<Rightarrow>
          tx_bind (tx_query (GetOrchestrationActivityByDedupeKey ws
            (''command:'' @ uuidText (smp_CommandID params)))) (\<lambda>recorded.
          tx_bind (tx_guard (recorded = None) ErrCommandConflict) (\<lambda>_.
          SendMailboxMessage_new \<epsilon> params (new_mailbox_row params ws mid (field (mm_ID message))
            (narg (mm_TaskNodeID message)) (narg (mm_RunID message)) (narg (mm_ArtifactID message))
            (narg (mm_ReplyToMessageID message)) senderID recipientID
            (JObj (object_members (mm_Payload message)))))))))))"

text \<open>The service: a whole number of microseconds, and the payload decoded into a map and encoded again.\<close>

definition truncate_us :: "int \<Rightarrow> int" where
  "truncate_us d = sgn d * (\<bar>d\<bar> div 1000 * 1000)"

definition optional_uuid_errors :: "string \<Rightarrow> uuid \<Rightarrow> ValidationError list" where
  "optional_uuid_errors path u =
     err_when (u \<noteq> None \<and> \<not> validUUID u) path ''invalid_uuid'' (path @ '' must be a non-zero UUID'')"

definition requested_message :: "SendMailboxMessageCommand \<Rightarrow> string \<Rightarrow> time \<Rightarrow> MailboxMessageV1" where
  "requested_message c newID observedAt =
     \<lparr>mm_SchemaVersion = MailboxSchemaVersion, mm_ID = newID, mm_WorkspaceID = uuidText (sm_WorkspaceID c),
      mm_MissionID = uuidText (sm_MissionID c), mm_TaskNodeID = optionalUUIDText (sm_TaskNodeID c),
      mm_RunID = optionalUUIDText (sm_RunID c), mm_ArtifactID = optionalUUIDText (sm_ArtifactID c),
      mm_ReplyToMessageID = optionalUUIDText (sm_ReplyToMessageID c), mm_Type = sm_Type c,
      mm_Sender = sm_Sender c, mm_Recipient = sm_Recipient c, mm_Status = ''pending'',
      mm_DedupeKey = sm_DedupeKey c, mm_CreatedAt = observedAt,
      mm_ExpiresAt = observedAt + truncate_us (sm_TTL c), mm_Hops = sm_Hops c,
      mm_PayloadVersion = sm_PayloadVersion c, mm_Payload = sm_Payload c\<rparr>"

definition SendMailboxMessage ::
    "env \<Rightarrow> string \<Rightarrow> time \<Rightarrow> SendMailboxMessageCommand \<Rightarrow> (error + SendMailboxMessageResult) tx" where
  "SendMailboxMessage \<epsilon> newID observedAt c =
     (let ttl = truncate_us (sm_TTL c); message = requested_message c newID observedAt;
          errs = validateCommandIdentity (sm_WorkspaceID c) (sm_MissionID c) (sm_CommandID c)
              (sm_CorrelationID c) (sm_ActorID c) True @
            optional_uuid_errors ''task_node_id'' (sm_TaskNodeID c) @
            optional_uuid_errors ''run_id'' (sm_RunID c) @
            optional_uuid_errors ''artifact_id'' (sm_ArtifactID c) @
            optional_uuid_errors ''reply_to_message_id'' (sm_ReplyToMessageID c) @
            err_when (ttl \<le> 0 \<or> ttl > MailboxMaxTTL) ''ttl'' ''invalid_ttl''
              ''ttl must be positive and at most 168h'' @
            ValidateMailboxMessageV1 \<epsilon> message in
      tx_bind (tx_guard (errs = []) (CommandValidationError errs)) (\<lambda>_.
      tx_bind (tx_lift (canonicalMailboxPayload (mm_Payload message))) (\<lambda>payload.
      SendMailboxMessage_repo \<epsilon>
        \<lparr>smp_CommandID = sm_CommandID c, smp_CorrelationID = sm_CorrelationID c, smp_ActorID = sm_ActorID c,
         smp_Message = message\<lparr>mm_Payload := \<lparr>raw_size = raw_compact (sm_Payload c), raw_doc = Some payload,
           raw_compact = raw_compact (sm_Payload c)\<rparr>\<rparr>\<rparr>)))"

section \<open>Consuming, cancelling and expiring\<close>

record TransitionMailboxMessageResult =
  tmr_Message :: StoredMailboxMessage
  tmr_Activity :: ActivityRow
  tmr_Idempotent :: bool

definition member_permits ::
    "env \<Rightarrow> db \<Rightarrow> MailboxRow \<Rightarrow> TransitionMailboxMessageParams \<Rightarrow> MemberRow \<Rightarrow> uuid \<Rightarrow> bool" where
  "member_permits \<epsilon> s row params member principalID \<longleftrightarrow>
     (let p = tm_Principal params in
      (if act_Type p = ''member'' then principalID = tm_ActorID params
       else if act_Type p = ''agent''
       then mem_Role member = ''owner'' \<and> tm_ActingRunID params \<noteq> None \<and>
            acts_for_run s (tm_WorkspaceID params) (tm_MissionID params) (tm_ActingRunID params) principalID
       else False) \<and>
      (tm_TargetStatus params = ''consumed'' \<longrightarrow>
         mailboxDBActorEqual \<epsilon> (mb_RecipientType row) (mb_RecipientID row) p) \<and>
      (tm_TargetStatus params = ''cancelled'' \<longrightarrow>
         mailboxDBActorEqual \<epsilon> (mb_SenderType row) (mb_SenderID row) p))"

definition authorizeMailboxTransition ::
    "env \<Rightarrow> MailboxRow \<Rightarrow> TransitionMailboxMessageParams \<Rightarrow> bool \<Rightarrow> unit tx" where
  "authorizeMailboxTransition \<epsilon> row params internalOrchestrator =
     tx_bind (tx_query id) (\<lambda>s.
     permitted (if internalOrchestrator
       then tm_TargetStatus params = ''expired'' \<and> mb_ExpiresAt row \<le> tm_ObservedAt params
       else case GetMemberByUserAndWorkspace (tm_ActorID params) (tm_WorkspaceID params) s of
           None \<Rightarrow> False
         | Some member \<Rightarrow>
             (case uuidFromText \<epsilon> (act_ID (tm_Principal params)) of
                Inl _ \<Rightarrow> False
              | Inr principalID \<Rightarrow> member_permits \<epsilon> s row params member principalID)))"

definition mailbox_orchestrator :: MailboxActorRef where
  "mailbox_orchestrator = \<lparr>act_Type = ''orchestrator'', act_ID = []\<rparr>"

definition transition_replay ::
    "env \<Rightarrow> TransitionMailboxMessageParams \<Rightarrow> bool \<Rightarrow> ActivityRow \<Rightarrow> TransitionMailboxMessageResult tx" where
  "transition_replay \<epsilon> params internalOrchestrator replay =
     tx_bind (tx_guard (ac_SubjectType replay = ''mailbox_message'' \<and>
         ac_SubjectID replay = tm_MessageID params \<and>
         ac_Type replay = mailboxTransitionActivityType (tm_TargetStatus params)) ErrCommandConflict) (\<lambda>_.
     tx_bind (tx_wrap ''transition mailbox message: load replay'' (GetMailboxMessageInMission
       (tm_WorkspaceID params) (tm_MissionID params) (tm_MessageID params))) (\<lambda>row.
     tx_bind (authorizeMailboxTransition \<epsilon> row params internalOrchestrator) (\<lambda>_.
     tx_bind (tx_lift (mapStoredMailboxMessage \<epsilon> row)) (\<lambda>mapped.
     tx_return \<lparr>tmr_Message = mapped, tmr_Activity = replay, tmr_Idempotent = True\<rparr>))))"

definition no_rows_as :: "error \<Rightarrow> string \<Rightarrow> 'a tx \<Rightarrow> 'a tx" where
  "no_rows_as e msg act = tx_bind (tx_wrap msg (tx_absent act)) (\<lambda>found.
     case found of None \<Rightarrow> tx_fail e | Some a \<Rightarrow> tx_return a)"

definition transition_write ::
    "env \<Rightarrow> TransitionMailboxMessageParams \<Rightarrow> bool \<Rightarrow> (error + TransitionMailboxMessageResult) tx" where
  "transition_write \<epsilon> params internalOrchestrator =
     (let ws = tm_WorkspaceID params; mid = tm_MissionID params; target = tm_TargetStatus params in
      tx_bind (tx_wrap ''transition mailbox message: lock mission'' (LockMissionInWorkspace ws mid)) (\<lambda>_.
      tx_bind (tx_wrap ''transition mailbox message: lock message''
        (LockMailboxMessageInMission ws mid (tm_MessageID params))) (\<lambda>row.
      tx_bind (tx_guard (mb_Status row = ''pending'' \<and> mb_Revision row = tm_ExpectedRevision params)
        ErrMailboxStatusConflict) (\<lambda>_.
      tx_bind (tx_guard (target = ''expired'' \<or> tm_ObservedAt params < mb_ExpiresAt row) ErrMailboxExpired) (\<lambda>_.
      tx_bind (authorizeMailboxTransition \<epsilon> row params internalOrchestrator) (\<lambda>_.
      tx_bind (no_rows_as ErrMailboxStatusConflict ''transition mailbox message: update''
        (TransitionMailboxMessageStatus target (tm_ObservedAt params) (tm_MessageID params) ws mid
          (tm_ExpectedRevision params))) (\<lambda>updated.
      tx_bind (createMailboxActivity \<epsilon> ws mid updated (tm_CommandID params) (tm_CorrelationID params)
        (if internalOrchestrator then mailbox_orchestrator else tm_Principal params)
        (mailboxTransitionActivityType target)
        (mailboxActivityPayload updated (mb_Status row) (mb_Status updated))) (\<lambda>activity.
      tx_return (bind_res (mapStoredMailboxMessage \<epsilon> updated) (\<lambda>mapped.
        Inr \<lparr>tmr_Message = mapped, tmr_Activity = activity, tmr_Idempotent = False\<rparr>))))))))))"

definition transitionMailboxMessage ::
    "env \<Rightarrow> TransitionMailboxMessageParams \<Rightarrow> bool \<Rightarrow> (error + TransitionMailboxMessageResult) tx" where
  "transitionMailboxMessage \<epsilon> params internalOrchestrator =
     replay_or (GetOrchestrationActivityByDedupeKey (tm_WorkspaceID params)
         (''command:'' @ uuidText (tm_CommandID params)))
       (\<lambda>replay. tx_bind (transition_replay \<epsilon> params internalOrchestrator replay) (\<lambda>r. tx_return (Inr r)))
       (transition_write \<epsilon> params internalOrchestrator)"

record TransitionMailboxMessageCommand =
  tmc_WorkspaceID :: uuid
  tmc_MissionID :: uuid
  tmc_MessageID :: uuid
  tmc_CommandID :: uuid
  tmc_CorrelationID :: uuid
  tmc_ActorID :: uuid
  tmc_Principal :: MailboxActorRef
  tmc_ActingRunID :: uuid
  tmc_ExpectedRevision :: int
  tmc_TargetStatus :: string

definition principal_errors :: "env \<Rightarrow> MailboxActorRef \<Rightarrow> ValidationError list" where
  "principal_errors \<epsilon> p =
     (if act_Type p \<noteq> ''member'' \<and> act_Type p \<noteq> ''agent''
      then [verr ''principal'' ''invalid_actor_type'' ''principal must be a member or agent'']
      else err_when (case env_uuid_parse \<epsilon> (act_ID p) of
            None \<Rightarrow> True | Some parsed \<Rightarrow> parsed = nil_uuid)
          ''principal.id'' ''invalid_actor_id'' ''principal id must be a non-zero UUID'')"

definition TransitionMailboxMessage ::
    "env \<Rightarrow> time \<Rightarrow> TransitionMailboxMessageCommand \<Rightarrow> (error + TransitionMailboxMessageResult) tx" where
  "TransitionMailboxMessage \<epsilon> observedAt c =
     (let errs = validateCommandIdentity (tmc_WorkspaceID c) (tmc_MissionID c) (tmc_CommandID c)
            (tmc_CorrelationID c) (tmc_ActorID c) True @
          check_uuid ''message_id'' (tmc_MessageID c) @
          optional_uuid_errors ''acting_run_id'' (tmc_ActingRunID c) @
          check_revision ''expected_revision'' (tmc_ExpectedRevision c) @
          err_when (tmc_TargetStatus c \<noteq> ''consumed'' \<and> tmc_TargetStatus c \<noteq> ''cancelled'')
            ''target_status'' ''invalid_status_transition''
            ''member/agent command may only consume or cancel a pending message'' @
          principal_errors \<epsilon> (tmc_Principal c) in
      tx_bind (tx_guard (errs = []) (CommandValidationError errs)) (\<lambda>_.
      transitionMailboxMessage \<epsilon>
        \<lparr>tm_WorkspaceID = tmc_WorkspaceID c, tm_MissionID = tmc_MissionID c, tm_MessageID = tmc_MessageID c,
         tm_CommandID = tmc_CommandID c, tm_CorrelationID = tmc_CorrelationID c, tm_ActorID = tmc_ActorID c,
         tm_Principal = tmc_Principal c, tm_ActingRunID = tmc_ActingRunID c,
         tm_ExpectedRevision = tmc_ExpectedRevision c, tm_TargetStatus = tmc_TargetStatus c,
         tm_ObservedAt = observedAt\<rparr> False))"

text \<open>Expiry: the store's operations the reconciler calls.\<close>

record ExpireMailboxMessageParams =
  em_WorkspaceID :: uuid
  em_MissionID :: uuid
  em_MessageID :: uuid
  em_CommandID :: uuid
  em_Revision :: int
  em_ObservedAt :: time

definition ExpireMailboxMessage ::
    "env \<Rightarrow> ExpireMailboxMessageParams \<Rightarrow> (error + TransitionMailboxMessageResult) tx" where
  "ExpireMailboxMessage \<epsilon> params =
     transitionMailboxMessage \<epsilon>
       \<lparr>tm_WorkspaceID = em_WorkspaceID params, tm_MissionID = em_MissionID params,
        tm_MessageID = em_MessageID params, tm_CommandID = em_CommandID params,
        tm_CorrelationID = em_MessageID params, tm_ActorID = None, tm_Principal = mailbox_orchestrator,
        tm_ActingRunID = None, tm_ExpectedRevision = em_Revision params, tm_TargetStatus = ''expired'',
        tm_ObservedAt = em_ObservedAt params\<rparr> True"

record ExpiredMailboxMessage =
  xm_WorkspaceID :: uuid
  xm_MissionID :: uuid
  xm_MessageID :: uuid
  xm_Revision :: int

definition ListExpiredMailboxMessages :: "time \<Rightarrow> int \<Rightarrow> ExpiredMailboxMessage list tx" where
  "ListExpiredMailboxMessages observedAt limit =
     tx_bind (tx_guard (observedAt \<noteq> zero_time \<and> 0 < limit)
       (Errorf ''list expired mailbox messages: observed_at and positive limit are required'')) (\<lambda>_.
     tx_bind (ListExpiredMailboxMessages_rows observedAt (nat limit)) (\<lambda>rows.
     tx_return (map (\<lambda>row. \<lparr>xm_WorkspaceID = mb_WorkspaceID row, xm_MissionID = mb_MissionID row,
       xm_MessageID = mb_ID row, xm_Revision = mb_Revision row\<rparr>) rows)))"

definition derivedMailboxExpiryCommandID :: "env \<Rightarrow> uuid \<Rightarrow> int \<Rightarrow> uuid" where
  "derivedMailboxExpiryCommandID \<epsilon> messageID revision =
     Some (env_uuid_sha1 \<epsilon> (case messageID of None \<Rightarrow> nil_uuid | Some u \<Rightarrow> u)
       (''mailbox-expiry:'' @ string_of_int revision))"

section \<open>What the mailbox commands keep\<close>

locale mailbox_queries = reconcile_queries R for R +
  assumes op_message: "mb_Status row = ''pending'' \<Longrightarrow> obeys R (CreateMailboxMessage row)"
    and op_note: "obeys R (createMailboxActivity \<epsilon> ws mid row c corr actor typ payload)"
begin

lemma reads_mailbox:
  "reads (loadMailboxReplayResult \<epsilon> row params b)"
  "reads (validateMailboxSendPrincipal \<epsilon> ws mid rid actor role sender)"
  "reads (validateMailboxRecipient \<epsilon> ws recipient)"
  "reads (validateMailboxReferences \<epsilon> ws mid nid rid arid replyID message)"
  "reads (authorizeMailboxTransition \<epsilon> row tparams internal)"
  "reads (GetMailboxMessageInMission ws mid msgID)" "reads (LockMailboxMessageInMission ws mid msgID)"
  "reads (ListExpiredMailboxMessages observedAt limit)"
  "reads (transition_replay \<epsilon> tparams internal a)"
  unfolding loadMailboxReplayResult_def validateMailboxSendPrincipal_def validateMailboxRecipient_def
    validateMailboxReferences_def authorizeMailboxTransition_def LockMailboxMessageInMission_def
    GetMailboxMessageInMission_def ListExpiredMailboxMessages_def ListExpiredMailboxMessages_rows_def
    permitted_def refers_def Let_def transition_replay_def
  by (intro unchanged.rules)+

lemma SendMailboxMessage: "obeys R (SendMailboxMessage \<epsilon> newID observedAt c)"
  unfolding SendMailboxMessage_def SendMailboxMessage_repo_def SendMailboxMessage_new_def
    SendMailboxMessage_write_def Let_def
  by (intro rules reads_mailbox [THEN read_only] op_message op_note read_only read_ops)
    (simp add: new_mailbox_row_def)

lemma transitionMailboxMessage: "obeys R (transitionMailboxMessage \<epsilon> params internal)"
  unfolding transitionMailboxMessage_def transition_write_def no_rows_as_def Let_def
  by (intro replays rules reads_mailbox [THEN read_only] op_mailbox op_note read_only read_ops)

lemma mailbox_transitions:
  "obeys R (TransitionMailboxMessage \<epsilon> observedAt c)" "obeys R (ExpireMailboxMessage \<epsilon> params)"
  unfolding TransitionMailboxMessage_def ExpireMailboxMessage_def Let_def
  by (intro rules transitionMailboxMessage)+

end

lemma history_mailbox [history_ops]:
  "obeys history (CreateMailboxMessage row)"
  "obeys history (createMailboxActivity \<epsilon> ws mid row c corr actor typ payload)"
  unfolding CreateMailboxMessage_def createMailboxActivity_def
  by (auto intro!: past.bind past.lift past.wrap history_ops obeys_insert simp: history_rows)

interpretation mailbox_history: mailbox_queries history
  by unfold_locales (auto intro!: history_ops)

lemma quiet_message: "obeys quiet (CreateMailboxMessage row)"
  unfolding CreateMailboxMessage_def by (auto intro!: obeys_insert quiet_tables)

lemma log_message [log_ops]:
  "obeys (preserves log_ok) (CreateMailboxMessage row)"
  "obeys (preserves log_ok) (createMailboxActivity \<epsilon> ws mid row' c corr actor typ payload)"
proof -
  show "obeys (preserves log_ok) (createMailboxActivity \<epsilon> ws mid row' c corr actor typ payload)"
    by (auto intro!: obeysI simp: createMailboxActivity_def preserves_def)
      (rule log_one [unfolded allocateActivitySequence_def], simp, assumption, simp add: activity_row_def,
        simp add: activity_row_def, assumption)+
qed (rule quiet_message [THEN quiet_log])

interpretation mailbox_log: mailbox_queries "preserves log_ok"
  by unfold_locales (auto intro!: log_ops)

lemma graph_message [graph_ops]:
  "obeys graph_kept (CreateMailboxMessage row)"
  "obeys graph_kept (createMailboxActivity \<epsilon> ws mid row' c corr actor typ payload)"
  unfolding CreateMailboxMessage_def createMailboxActivity_def
  by (auto intro!: graph.bind graph.lift graph.wrap graph_ops obeys_insert graph_kept_tables)

interpretation mailbox_graph: mailbox_queries graph_kept
  by unfold_locales (auto intro!: graph_ops)

end
