(* ===== verification/PlanGate.thy ===== *)
theory PlanGate
  imports MailboxCommands
begin

text \<open>
  \<open>request_plan.go\<close> and \<open>plan_gate.go\<close>: planning before a mission has tasks.  An owner asks for a plan, which
  freezes the planner's policy, selects an agent and creates the planning run; the proposal that run
  returns is edited (a new version) or rejected (the planner's assignment is revoked).  Each of the three
  advances the mission's revision, so that of two owners deciding on the same state one is refused.
\<close>

section \<open>Queries\<close>

definition BeginMissionPlanning :: "env \<Rightarrow> uuid \<Rightarrow> uuid \<Rightarrow> int \<Rightarrow> MissionRow tx" where
  "BeginMissionPlanning \<epsilon> ws mid expected =
     update_mission
       (\<lambda>m. mission_is ws mid m \<and> m_Status m = MissionStatusDraft \<and> m_Revision m = expected)
       (touch_mission \<epsilon>)"

definition planner_assignment :: "uuid \<Rightarrow> uuid \<Rightarrow> AssignmentRow \<Rightarrow> bool" where
  "planner_assignment ws mid a \<longleftrightarrow>
     assignment_in ws mid a \<and> a_TaskNodeID a = None \<and> a_Role a = DutyPlanner"

definition GetActivePlanningAssignment :: "uuid \<Rightarrow> uuid \<Rightarrow> db \<Rightarrow> AssignmentRow option" where
  "GetActivePlanningAssignment ws mid s =
     find (\<lambda>a. planner_assignment ws mid a \<and> a_Status a = AssignmentStatusActive) (db_assignments s)"

definition NextPlanningAssignmentSequence :: "uuid \<Rightarrow> uuid \<Rightarrow> db \<Rightarrow> int" where
  "NextPlanningAssignmentSequence ws mid s =
     (case map a_Sequence (filter (planner_assignment ws mid) (db_assignments s)) of
        [] \<Rightarrow> 1 | x # xs \<Rightarrow> fold max xs x + 1)"

section \<open>Requesting a plan\<close>

record RequestPlanParams =
  rpp_WorkspaceID :: uuid
  rpp_MissionID :: uuid
  rpp_CommandID :: uuid
  rpp_CorrelationID :: uuid
  rpp_ActorID :: uuid
  rpp_ExpectedRevision :: int
  rpp_Input :: PlanProposalInput
  rpp_RolePolicyBinding :: RolePolicyBinding
  rpp_ObservedAt :: time

record RequestPlanResult =
  rpr_Mission :: MissionRow
  rpr_Assignment :: AssignmentRow
  rpr_Run :: RunRow
  rpr_Activity :: ActivityRow
  rpr_RolePolicySnapshots :: "RolePolicySnapshot list"
  rpr_Idempotent :: bool

fun isActivityDedupeViolation :: "error \<Rightarrow> bool" where
  "isActivityDedupeViolation (UniqueViolation index) \<longleftrightarrow> index = ''idx_orchestration_activity_dedupe_unique''"
| "isActivityDedupeViolation (Wrapped msg e) \<longleftrightarrow> isActivityDedupeViolation e"
| "isActivityDedupeViolation _ \<longleftrightarrow> False"

definition as_race :: "'a tx \<Rightarrow> 'a tx" where
  "as_race act = (\<lambda>s. case act s of
     Inl e \<Rightarrow> Inl (if isActivityDedupeViolation e then CommandRace else e) | Inr r \<Rightarrow> Inr r)"

definition loadRequestPlanResult :: "env \<Rightarrow> uuid \<Rightarrow> uuid \<Rightarrow> ActivityRow \<Rightarrow> RequestPlanResult tx" where
  "loadRequestPlanResult \<epsilon> ws mid activity =
     tx_bind (tx_guard (ac_Type activity = ''mission.plan_requested'' \<and> ac_SubjectType activity = ''run'' \<and>
         ac_MissionID activity = mid) ErrCommandConflict) (\<lambda>_.
     tx_bind (tx_wrap ''load request plan run'' (GetOrchestrationRunInWorkspace ws (ac_SubjectID activity))) (\<lambda>run.
     tx_bind (tx_wrap ''load request plan assignment''
       (GetOrchestrationAssignmentInWorkspace ws (r_AssignmentID run))) (\<lambda>assignment.
     tx_bind (tx_wrap ''load request plan mission'' (GetMissionInWorkspace ws mid)) (\<lambda>mission.
     tx_bind (tx_wrap ''load request plan role policies'' (ListMissionRolePolicySnapshots ws mid)) (\<lambda>rows.
     tx_bind (tx_lift (mapRolePolicySnapshots \<epsilon> rows)) (\<lambda>snapshots.
     tx_return \<lparr>rpr_Mission = mission, rpr_Assignment = assignment, rpr_Run = run, rpr_Activity = activity,
                rpr_RolePolicySnapshots = snapshots, rpr_Idempotent = True\<rparr>))))))"

definition replayRequestPlan :: "env \<Rightarrow> RequestPlanParams \<Rightarrow> ActivityRow \<Rightarrow> RequestPlanResult tx" where
  "replayRequestPlan \<epsilon> params activity =
     tx_bind (ensureFrozenRolePolicyBindingsMatch \<epsilon> (rpp_WorkspaceID params) (rpp_MissionID params)
       [rpp_RolePolicyBinding params]) (\<lambda>_.
     loadRequestPlanResult \<epsilon> (rpp_WorkspaceID params) (rpp_MissionID params) activity)"

text \<open>The assignment, the run with its frozen input and the mailbox context, and the activity, once an
  agent is selected.\<close>

definition request_payload ::
    "AssignmentRow \<Rightarrow> RunRow \<Rightarrow> RolePolicySnapshot \<Rightarrow> RoutingSelectionResult \<Rightarrow> json" where
  "request_payload assignment run policy routing =
     JObj [(''assignment_id'', JStr (uuidText (a_ID assignment))),
           (''role_policy_snapshot_hash'', JStr (rps_ContentHash policy)),
           (''routing'', RoutingSelectionResult_json routing), (''run_id'', JStr (uuidText (r_ID run)))]"

definition RequestPlan_write ::
    "env \<Rightarrow> RequestPlanParams \<Rightarrow> string \<Rightarrow> MissionRow \<Rightarrow> RolePolicySnapshot list \<Rightarrow> RolePolicySnapshot \<Rightarrow>
     RoutingSelectionResult \<Rightarrow> uuid \<Rightarrow> uuid \<Rightarrow> json \<Rightarrow> RequestPlanResult tx" where
  "RequestPlan_write \<epsilon> params dedupeKey mission snapshots policy routing agentID runtimeID input =
     (let ws = rpp_WorkspaceID params; mid = rpp_MissionID params; observedAt = rpp_ObservedAt params;
          correlationID = correlationOrCommand (rpp_CorrelationID params) (rpp_CommandID params) in
      tx_bind (selectMailboxRunContext \<epsilon> ws mid None agentID observedAt) (\<lambda>(mailboxContext, mailboxRows).
      tx_bind (tx_lift (attachMailboxRunContext input mailboxContext)) (\<lambda>input.
      tx_bind (tx_query (NextPlanningAssignmentSequence ws mid)) (\<lambda>sequence.
      tx_bind (tx_wrap ''request plan: create assignment'' (CreateOrchestrationAssignment \<epsilon> ws mid None
        DutyPlanner agentID runtimeID sequence None (rpp_ActorID params))) (\<lambda>assignment.
      tx_bind (tx_wrap ''request plan: create run'' (CreateOrchestrationRun \<epsilon> ws mid None
        (a_ID assignment) ''plan'' 1 input None (Some (observedAt + defaultDispatchTimeout))
        (i32 (cfg_TimeoutSeconds (rps_Config policy))))) (\<lambda>run.
      tx_bind (consumeMailboxRunContext \<epsilon> mission run agentID mailboxContext mailboxRows observedAt
        correlationID) (\<lambda>_.
      tx_bind (tx_wrap ''request plan: advance revision''
        (BeginMissionPlanning \<epsilon> ws mid (rpp_ExpectedRevision params))) (\<lambda>mission.
      tx_bind (as_race (createAutomaticActivity \<epsilon> mission None (r_ID run) ''mission.plan_requested'' ''run''
        (r_ID run) (rpp_CommandID params) correlationID dedupeKey
        (request_payload assignment run policy routing))) (\<lambda>activity.
      tx_return \<lparr>rpr_Mission = mission, rpr_Assignment = assignment, rpr_Run = run,
        rpr_Activity = activity, rpr_RolePolicySnapshots = snapshots, rpr_Idempotent = False\<rparr>)))))))))"

definition planning_run_spec :: "MissionRow \<Rightarrow> PlanProposalInput \<Rightarrow> PlanLimits \<Rightarrow> PlanningRunSpec" where
  "planning_run_spec mission input limits =
     \<lparr>prs_SchemaVersion = PlanningRunSpecSchemaVersion, prs_MissionID = uuidText (m_IssueID mission),
      prs_ProposalArtifactKind = ArtifactKindPlanProposal,
      prs_ProposalSchemaVersion = PlanProposalSchemaVersion, prs_Input = input, prs_Limits = limits\<rparr>"

definition RequestPlan_locked ::
    "env \<Rightarrow> RequestPlanParams \<Rightarrow> string \<Rightarrow> MissionRow \<Rightarrow> RequestPlanResult tx" where
  "RequestPlan_locked \<epsilon> params dedupeKey mission =
     (let ws = rpp_WorkspaceID params; mid = rpp_MissionID params in
      tx_bind (tx_guard (m_Status mission = MissionStatusDraft) ErrMissionNotDraft) (\<lambda>_.
      tx_bind (tx_guard (m_Revision mission = rpp_ExpectedRevision params) ErrRevisionConflict) (\<lambda>_.
      tx_bind (tx_query (GetActivePlanningAssignment ws mid)) (\<lambda>active.
      tx_bind (tx_guard (active = None) ErrPlanningInProgress) (\<lambda>_.
      tx_bind (freezeRolePolicyBindings \<epsilon> ws mid (rpp_ActorID params) [rpp_RolePolicyBinding params])
        (\<lambda>snapshots.
      let policy = hd snapshots in
      tx_bind (tx_wrap ''request plan: select routing candidate''
        (selectAndLockRoutingCandidate \<epsilon> ws (m_CreatedBy mission) policy [] [])) (\<lambda>routing.
      case rr_Selected routing of
        None \<Rightarrow> tx_fail (RoutingUnavailableError DutyPlanner (RoutingSelectionResult_json routing))
      | Some selected \<Rightarrow>
          tx_bind (tx_wrap ''request plan: decode selected agent id''
            (tx_lift (uuidFromText \<epsilon> (sel_AgentID selected)))) (\<lambda>agentID.
          tx_bind (tx_wrap ''request plan: decode selected runtime id''
            (tx_lift (uuidFromText \<epsilon> (sel_RuntimeID selected)))) (\<lambda>runtimeID.
          tx_bind (tx_wrap ''request plan: decode limits''
            (tx_lift (decodePlanLimits (m_Limits mission)))) (\<lambda>limits.
          RequestPlan_write \<epsilon> params dedupeKey mission snapshots policy routing agentID runtimeID
            (PlanningRunSpec_json (planning_run_spec mission (rpp_Input params) limits))))))))))))"

definition RequestPlan_repo :: "env \<Rightarrow> RequestPlanParams \<Rightarrow> RequestPlanResult tx" where
  "RequestPlan_repo \<epsilon> params =
     (let ws = rpp_WorkspaceID params; replay = replayRequestPlan \<epsilon> params in
      tx_bind (tx_guard (rpp_ObservedAt params \<noteq> zero_time)
        (Errorf ''request plan: observed_at is required'')) (\<lambda>_.
      tx_bind (tx_wrap ''request plan'' (tx_lift (commandDedupeKey (rpp_CommandID params)))) (\<lambda>dedupeKey.
      let recorded = GetOrchestrationActivityByDedupeKey ws dedupeKey in
      recorded_command recorded ''request plan: load command race'' replay
        (tx_bind (tx_wrap ''request plan: lock mission'' (LockMissionInWorkspace ws (rpp_MissionID params)))
          (\<lambda>mission. replay_or recorded replay (RequestPlan_locked \<epsilon> params dedupeKey mission))))))"

text \<open>The service: checks, then the transaction, then the planning run is enqueued; the error of the
  gateway is returned with the result.\<close>

definition RequestPlan ::
    "env \<Rightarrow> time \<Rightarrow> RequestPlanParams \<Rightarrow> (RequestPlanResult \<times> (error + EnqueueExecutionResult)) tx" where
  "RequestPlan \<epsilon> observedAt command =
     (case normalizePlannerRolePolicyBinding (rpp_RolePolicyBinding command) of (binding, bindingErrs) \<Rightarrow>
      let ws = rpp_WorkspaceID command;
          errs = validateCommandIdentity ws (rpp_MissionID command) (rpp_CommandID command)
              (rpp_CorrelationID command) (rpp_ActorID command) True @
            check_revision ''expected_revision'' (rpp_ExpectedRevision command) @
            ValidatePlanProposalInput (rpp_Input command) @ bindingErrs in
      tx_bind (tx_guard (errs = []) (CommandValidationError errs)) (\<lambda>_.
      tx_bind (requireOwner ws (rpp_ActorID command)) (\<lambda>_.
      tx_bind (RequestPlan_repo \<epsilon>
        (command\<lparr>rpp_RolePolicyBinding := binding, rpp_ObservedAt := observedAt\<rparr>)) (\<lambda>result.
      tx_bind (tx_try (tx_wrap ''request plan: enqueue planning run''
        (EnqueueOrchestrationRun \<epsilon> ws (r_ID (rpr_Run result)) (rpp_ActorID command)))) (\<lambda>enqueued.
      tx_return (result, enqueued))))))"

section \<open>The gate on a proposal\<close>

definition validatePlanGateCommand ::
    "uuid \<Rightarrow> uuid \<Rightarrow> uuid \<Rightarrow> uuid \<Rightarrow> uuid \<Rightarrow> uuid \<Rightarrow> int \<Rightarrow> ValidationError list" where
  "validatePlanGateCommand ws mid artifactID commandID correlationID actorID expected =
     validateCommandIdentity ws mid commandID correlationID actorID True @
     err_when (\<not> validUUID artifactID) ''proposal_artifact_id'' ''invalid_uuid''
       ''proposal_artifact_id is required'' @
     check_revision ''expected_revision'' expected"

record planGateLocked =
  pgl_artifact :: ArtifactRow
  pgl_run :: RunRow
  pgl_assignment :: AssignmentRow

definition pending_guard :: "bool \<Rightarrow> unit tx" where
  "pending_guard b = tx_guard b ErrPlanProposalNotPending"

definition mission_proposal :: "ArtifactRow \<Rightarrow> bool" where
  "mission_proposal a \<longleftrightarrow> ar_TaskNodeID a = None \<and> ar_Kind a = ArtifactKindPlanProposal"

definition lockPendingPlanProposal :: "uuid \<Rightarrow> uuid \<Rightarrow> uuid \<Rightarrow> planGateLocked tx" where
  "lockPendingPlanProposal ws mid artifactID =
     tx_bind (GetArtifactInWorkspace ws artifactID) (\<lambda>artifact.
     tx_bind (pending_guard (ar_MissionID artifact = mid \<and> mission_proposal artifact)) (\<lambda>_.
     tx_bind (ListArtifactsByMission ws mid) (\<lambda>artifacts.
     tx_bind (pending_guard (list_all (\<lambda>c. \<not> (mission_proposal c \<and> ar_Version c > ar_Version artifact))
       artifacts)) (\<lambda>_.
     tx_bind (GetOrchestrationRunInWorkspace ws (ar_RunID artifact)) (\<lambda>run.
     tx_bind (pending_guard (r_MissionID run = mid \<and> r_TaskNodeID run = None \<and> r_Purpose run = ''plan'' \<and>
       r_Status run = RunStatusSucceeded)) (\<lambda>_.
     tx_bind (GetOrchestrationAssignmentInWorkspace ws (r_AssignmentID run)) (\<lambda>assignment.
     tx_bind (pending_guard (a_MissionID assignment = mid \<and> a_TaskNodeID assignment = None \<and>
       a_Role assignment = DutyPlanner \<and> a_Status assignment = AssignmentStatusActive)) (\<lambda>_.
     tx_return \<lparr>pgl_artifact = artifact, pgl_run = run, pgl_assignment = assignment\<rparr>))))))))"

text \<open>\<open>lockPlanGateMission\<close>: lock the mission, replay a recorded command, refuse another state.\<close>

definition lockPlanGateMission ::
    "uuid \<Rightarrow> uuid \<Rightarrow> int \<Rightarrow> string \<Rightarrow> (ActivityRow \<Rightarrow> 'r tx) \<Rightarrow> (MissionRow \<Rightarrow> 'r tx) \<Rightarrow> 'r tx" where
  "lockPlanGateMission ws mid expected dedupeKey load otherwise =
     tx_bind (LockMissionInWorkspace ws mid) (\<lambda>mission.
     replay_or (GetOrchestrationActivityByDedupeKey ws dedupeKey) load
       (tx_bind (tx_guard (m_Status mission = MissionStatusDraft) ErrMissionNotDraft) (\<lambda>_.
        tx_bind (tx_guard (m_Revision mission = expected) ErrRevisionConflict) (\<lambda>_. otherwise mission))))"

definition createPlanGateActivity ::
    "env \<Rightarrow> MissionRow \<Rightarrow> uuid \<Rightarrow> uuid \<Rightarrow> uuid \<Rightarrow> uuid \<Rightarrow> uuid \<Rightarrow> string \<Rightarrow> string \<Rightarrow> json \<Rightarrow> ActivityRow tx" where
  "createPlanGateActivity \<epsilon> mission artifactID runID actorID commandID correlationID dedupeKey activityType payload =
     plain_activity \<epsilon>
       \<lparr>as_WorkspaceID = m_WorkspaceID mission, as_MissionID = m_IssueID mission, as_TaskNodeID = None,
        as_RunID = runID, as_Type = activityType, as_ActorType = ''user'', as_ActorID = actorID,
        as_SubjectType = ''artifact'', as_SubjectID = artifactID, as_CausationID = commandID,
        as_CorrelationID = correlationID, as_Payload = payload, as_DedupeKey = dedupeKey\<rparr>"

definition plan_gate_key :: "uuid \<Rightarrow> string" where
  "plan_gate_key commandID = (case commandDedupeKey commandID of Inl _ \<Rightarrow> [] | Inr k \<Rightarrow> k)"

record EditPlanProposalCommand =
  ep_WorkspaceID :: uuid
  ep_MissionID :: uuid
  ep_ProposalArtifactID :: uuid
  ep_CommandID :: uuid
  ep_CorrelationID :: uuid
  ep_ActorID :: uuid
  ep_ExpectedRevision :: int
  ep_Proposal :: PlanProposal

record EditPlanProposalResult =
  epr_Mission :: MissionRow
  epr_Artifact :: ArtifactRow
  epr_Activity :: ActivityRow
  epr_Idempotent :: bool

definition loadEditPlanProposalResult ::
    "EditPlanProposalCommand \<Rightarrow> ActivityRow \<Rightarrow> EditPlanProposalResult tx" where
  "loadEditPlanProposalResult c activity =
     tx_bind (tx_guard (ac_MissionID activity = ep_MissionID c \<and> ac_Type activity = ''plan_proposal.edited'')
       ErrCommandConflict) (\<lambda>_.
     tx_bind (GetArtifactInWorkspace (ep_WorkspaceID c) (ac_SubjectID activity)) (\<lambda>artifact.
     tx_bind (GetMissionInWorkspace (ep_WorkspaceID c) (ep_MissionID c)) (\<lambda>mission.
     tx_return \<lparr>epr_Mission = mission, epr_Artifact = artifact, epr_Activity = activity,
                epr_Idempotent = True\<rparr>)))"

definition frozen_input_error :: error where
  "frozen_input_error = CommandValidationError [verr ''proposal'' ''frozen_planning_input''
     ''mission_id, input, and limits cannot be edited'']"

text \<open>The proposal under edit, from the artifact's metadata, must keep its input and its limits.\<close>

definition check_base_proposal :: "EditPlanProposalCommand \<Rightarrow> ArtifactRow \<Rightarrow> error + unit" where
  "check_base_proposal c artifact =
     (case DecodeAndValidate_jsonb (ar_Metadata artifact) (uuidText (ep_MissionID c))
         (pp_Limits (ep_Proposal c)) of
        (base, errs) \<Rightarrow>
          if errs \<noteq> [] then Inl (CommandValidationError errs)
          else (case base of
              None \<Rightarrow> Inl frozen_input_error
            | Some b \<Rightarrow>
                if pp_Input b \<noteq> pp_Input (ep_Proposal c) \<or> pp_Limits b \<noteq> pp_Limits (ep_Proposal c)
                then Inl frozen_input_error else Inr ()))"

definition EditPlanProposal_write ::
    "env \<Rightarrow> EditPlanProposalCommand \<Rightarrow> string \<Rightarrow> planGateLocked \<Rightarrow> EditPlanProposalResult tx" where
  "EditPlanProposal_write \<epsilon> c dedupeKey locked =
     (let ws = ep_WorkspaceID c; mid = ep_MissionID c; canonical = PlanProposal_json (ep_Proposal c) in
      tx_bind (NextPlanProposalVersion ws mid) (\<lambda>version.
      tx_bind (CreateArtifactRecord \<epsilon> ws mid None (r_ID (pgl_run locked)) ArtifactKindPlanProposal version
        (''owner-edit://'' @ uuidText (ep_CommandID c) @ ''/plan-proposal'')
        (textValue (planProposalContentHash (EncodePlanProposal (ep_Proposal c))))
        (pp_ProposalKey (ep_Proposal c)) canonical) (\<lambda>artifact.
      tx_bind (BeginMissionPlanning \<epsilon> ws mid (ep_ExpectedRevision c)) (\<lambda>mission.
      tx_bind (createPlanGateActivity \<epsilon> mission (ar_ID artifact) (r_ID (pgl_run locked)) (ep_ActorID c)
        (ep_CommandID c) (correlationOrCommand (ep_CorrelationID c) (ep_CommandID c)) dedupeKey
        ''plan_proposal.edited''
        (JObj [(''artifact_id'', JStr (uuidText (ar_ID artifact))),
               (''base_artifact_id'', JStr (uuidText (ar_ID (pgl_artifact locked)))),
               (''version'', JNum (ar_Version artifact))])) (\<lambda>activity.
      tx_return \<lparr>epr_Mission = mission, epr_Artifact = artifact, epr_Activity = activity,
                 epr_Idempotent = False\<rparr>)))))"

definition EditPlanProposal_repo :: "env \<Rightarrow> EditPlanProposalCommand \<Rightarrow> EditPlanProposalResult tx" where
  "EditPlanProposal_repo \<epsilon> c =
     (let ws = ep_WorkspaceID c; mid = ep_MissionID c; dedupeKey = plan_gate_key (ep_CommandID c) in
      lockPlanGateMission ws mid (ep_ExpectedRevision c) dedupeKey (loadEditPlanProposalResult c) (\<lambda>_.
        tx_bind (lockPendingPlanProposal ws mid (ep_ProposalArtifactID c)) (\<lambda>locked.
        tx_bind (tx_lift (check_base_proposal c (pgl_artifact locked))) (\<lambda>_.
        EditPlanProposal_write \<epsilon> c dedupeKey locked))))"

definition EditPlanProposal ::
    "env \<Rightarrow> PlanLimits \<Rightarrow> EditPlanProposalCommand \<Rightarrow> EditPlanProposalResult tx" where
  "EditPlanProposal \<epsilon> hardLimits c =
     (let errs = validatePlanGateCommand (ep_WorkspaceID c) (ep_MissionID c) (ep_ProposalArtifactID c)
            (ep_CommandID c) (ep_CorrelationID c) (ep_ActorID c) (ep_ExpectedRevision c);
          errs = (if errs = [] then ValidatePlanProposal (ep_Proposal c) (uuidText (ep_MissionID c)) hardLimits
                  else errs) in
      tx_bind (tx_guard (errs = []) (CommandValidationError errs)) (\<lambda>_.
      tx_bind (requireOwner (ep_WorkspaceID c) (ep_ActorID c)) (\<lambda>_. EditPlanProposal_repo \<epsilon> c)))"

record RejectPlanProposalCommand =
  rj_WorkspaceID :: uuid
  rj_MissionID :: uuid
  rj_ProposalArtifactID :: uuid
  rj_CommandID :: uuid
  rj_CorrelationID :: uuid
  rj_ActorID :: uuid
  rj_ExpectedRevision :: int
  rj_Reason :: string

record RejectPlanProposalResult =
  rjr_Mission :: MissionRow
  rjr_Artifact :: ArtifactRow
  rjr_Assignment :: AssignmentRow
  rjr_Activity :: ActivityRow
  rjr_Idempotent :: bool

definition loadRejectPlanProposalResult ::
    "RejectPlanProposalCommand \<Rightarrow> ActivityRow \<Rightarrow> RejectPlanProposalResult tx" where
  "loadRejectPlanProposalResult c activity =
     (let ws = rj_WorkspaceID c in
      tx_bind (tx_guard (ac_MissionID activity = rj_MissionID c \<and>
          ac_Type activity = ''plan_proposal.rejected'') ErrCommandConflict) (\<lambda>_.
      tx_bind (GetArtifactInWorkspace ws (ac_SubjectID activity)) (\<lambda>artifact.
      tx_bind (GetMissionInWorkspace ws (rj_MissionID c)) (\<lambda>mission.
      tx_bind (GetOrchestrationRunInWorkspace ws (ar_RunID artifact)) (\<lambda>run.
      tx_bind (GetOrchestrationAssignmentInWorkspace ws (r_AssignmentID run)) (\<lambda>assignment.
      tx_return \<lparr>rjr_Mission = mission, rjr_Artifact = artifact, rjr_Assignment = assignment,
                 rjr_Activity = activity, rjr_Idempotent = True\<rparr>))))))"

definition RejectPlanProposal_repo :: "env \<Rightarrow> RejectPlanProposalCommand \<Rightarrow> RejectPlanProposalResult tx" where
  "RejectPlanProposal_repo \<epsilon> c =
     (let ws = rj_WorkspaceID c; mid = rj_MissionID c; dedupeKey = plan_gate_key (rj_CommandID c) in
      lockPlanGateMission ws mid (rj_ExpectedRevision c) dedupeKey (loadRejectPlanProposalResult c) (\<lambda>_.
        tx_bind (lockPendingPlanProposal ws mid (rj_ProposalArtifactID c)) (\<lambda>locked.
        tx_bind (EndOrchestrationAssignment \<epsilon> ws mid (a_ID (pgl_assignment locked))
          AssignmentStatusRevoked) (\<lambda>assignment.
        tx_bind (BeginMissionPlanning \<epsilon> ws mid (rj_ExpectedRevision c)) (\<lambda>mission.
        tx_bind (createPlanGateActivity \<epsilon> mission (ar_ID (pgl_artifact locked)) (r_ID (pgl_run locked))
          (rj_ActorID c) (rj_CommandID c) (correlationOrCommand (rj_CorrelationID c) (rj_CommandID c))
          dedupeKey ''plan_proposal.rejected''
          (JObj [(''artifact_id'', JStr (uuidText (ar_ID (pgl_artifact locked)))),
                 (''reason'', JStr (rj_Reason c))])) (\<lambda>activity.
        tx_return \<lparr>rjr_Mission = mission, rjr_Artifact = pgl_artifact locked, rjr_Assignment = assignment,
                   rjr_Activity = activity, rjr_Idempotent = False\<rparr>))))))"

definition RejectPlanProposal :: "env \<Rightarrow> RejectPlanProposalCommand \<Rightarrow> RejectPlanProposalResult tx" where
  "RejectPlanProposal \<epsilon> c =
     (let errs = validatePlanGateCommand (rj_WorkspaceID c) (rj_MissionID c) (rj_ProposalArtifactID c)
            (rj_CommandID c) (rj_CorrelationID c) (rj_ActorID c) (rj_ExpectedRevision c) @
          err_when (TrimSpace (rj_Reason c) = []) ''reason'' ''missing_reason''
            ''rejection reason is required'' in
      tx_bind (tx_guard (errs = []) (CommandValidationError errs)) (\<lambda>_.
      tx_bind (requireOwner (rj_WorkspaceID c) (rj_ActorID c)) (\<lambda>_.
      RejectPlanProposal_repo \<epsilon> (c\<lparr>rj_Reason := TrimSpace (rj_Reason c)\<rparr>))))"

section \<open>What planning keeps\<close>

locale planning_queries = mailbox_queries R for R +
  assumes op_planning: "obeys R (BeginMissionPlanning \<epsilon> ws mid expected)"
    and op_freeze: "obeys R (freezeRolePolicyBindings \<epsilon> ws mid actor bindings)"
begin

lemma race: "obeys R act \<Longrightarrow> obeys R (as_race act)"
  unfolding obeys_def as_race_def by (auto split: sum.splits)

lemma reads_planning:
  "reads (ensureFrozenRolePolicyBindingsMatch \<epsilon> ws mid bindings)"
  "reads (loadRequestPlanResult \<epsilon> ws mid a)" "reads (lockPendingPlanProposal ws mid arid)"
  "reads (loadEditPlanProposalResult ec a)" "reads (loadRejectPlanProposalResult rc a)"
  unfolding ensureFrozenRolePolicyBindingsMatch_def check_frozen_def loadRequestPlanResult_def
    lockPendingPlanProposal_def pending_guard_def loadEditPlanProposalResult_def
    loadRejectPlanProposalResult_def Let_def
  by (intro unchanged.rules read_ops)+

lemmas planning_reads = reads_planning [THEN read_only]

lemma RequestPlan: "obeys R (RequestPlan \<epsilon> observedAt command)"
  unfolding RequestPlan_def RequestPlan_repo_def RequestPlan_locked_def RequestPlan_write_def
    replayRequestPlan_def Let_def
  by (intro rules replays race attempt op_freeze op_planning op_assign op_run op_activity consume
      EnqueueOrchestrationRun planning_reads read_only read_ops)

lemma plan_gates:
  "obeys R (EditPlanProposal \<epsilon> hard ec)" "obeys R (RejectPlanProposal \<epsilon> rc)"
  unfolding EditPlanProposal_def EditPlanProposal_repo_def EditPlanProposal_write_def
    RejectPlanProposal_def RejectPlanProposal_repo_def lockPlanGateMission_def
    createPlanGateActivity_def Let_def
  by (intro rules replays op_end op_planning op_artifact op_plain planning_reads
      reconcile_read_only read_only read_ops)+

end

lemma history_planning [history_ops]: "obeys history (BeginMissionPlanning \<epsilon> ws mid expected)"
  unfolding BeginMissionPlanning_def
  by (rule history_update_mission) (simp add: mission_moves_def touch_mission_def)

interpretation planning_history: planning_queries history
  by unfold_locales (auto intro!: history_ops)

lemma log_planning [log_ops]: "obeys (preserves log_ok) (BeginMissionPlanning \<epsilon> ws mid expected)"
  unfolding BeginMissionPlanning_def
  by (rule quiet_update_mission [THEN quiet_log]) (simp add: touch_mission_def)

interpretation planning_log: planning_queries "preserves log_ok"
  by unfold_locales (auto intro!: log_ops)

lemma graph_planning [graph_ops]: "obeys graph_kept (BeginMissionPlanning \<epsilon> ws mid expected)"
  unfolding BeginMissionPlanning_def
  by (rule graph_update_mission) (simp add: same_mission_def touch_mission_def)

interpretation planning_graph: planning_queries graph_kept
  by unfold_locales (auto intro!: graph_ops)

end
