(* ===== verification/Reconciler.thy ===== *)
theory Reconciler
  imports PlanGate "HOL-Library.Product_Lexorder"
begin

text \<open>
  The background loop of \<open>reconcile.go\<close>, \<open>ListReconcilableRuns\<close> of \<open>repository_reconcile.go\<close> and the
  wiring of \<open>cmd/server/main.go\<close>: a batch expires mailbox messages, reconciles a page of runs, calls the
  execution gateway and advances the missions.  Every run and message is a transaction of its own, so
  that one failure stops nothing; the errors are joined.  The page after the last full one starts over.
  \<open>clock i\<close> is the \<open>i\<close>-th reading of the clock within a batch.
\<close>

section \<open>The cursor\<close>

record ReconcileCursor =
  cur_CreatedAt :: timestamptz
  cur_RunID :: uuid

definition zero_cursor :: ReconcileCursor where
  "zero_cursor = \<lparr>cur_CreatedAt = None, cur_RunID = None\<rparr>"

record ReconcilableRun =
  rr_WorkspaceID :: uuid
  rr_RunID :: uuid
  rr_CreatedAt :: timestamptz

text \<open>An unset cursor starts at the epoch and the zero UUID.\<close>

definition cursor_key :: "ReconcileCursor \<Rightarrow> time \<times> string" where
  "cursor_key c = ((case cur_CreatedAt c of None \<Rightarrow> 0 | Some t \<Rightarrow> t), uuidText (cur_RunID c))"

definition page_of :: "RunRow list \<Rightarrow> ReconcilableRun list" where
  "page_of rows = map (\<lambda>r. \<lparr>rr_WorkspaceID = r_WorkspaceID r, rr_RunID = r_ID r, rr_CreatedAt = r_CreatedAt r\<rparr>) rows"

definition ListReconcilableRuns :: "ReconcileCursor \<Rightarrow> int \<Rightarrow> ReconcilableRun list tx" where
  "ListReconcilableRuns cursor limit =
     tx_bind (tx_guard (0 < limit) (Errorf ''list reconcilable runs: limit must be positive'')) (\<lambda>_.
     tx_bind (ListReconcilableOrchestrationRunsAfter (fst (cursor_key cursor)) (snd (cursor_key cursor))
       (nat limit)) (\<lambda>rows.
     tx_return (page_of rows)))"

definition defaultRunReconcileBatchSize :: int where "defaultRunReconcileBatchSize = 64"

definition reconcile_batch_size :: "int \<Rightarrow> int" where
  "reconcile_batch_size option = (if option \<le> 0 then defaultRunReconcileBatchSize else option)"

section \<open>A batch\<close>

definition expire_one :: "env \<Rightarrow> time \<Rightarrow> ExpiredMailboxMessage \<Rightarrow> error list tx" where
  "expire_one \<epsilon> observedAt m =
     tx_bind (tx_try (ExpireMailboxMessage \<epsilon>
       \<lparr>em_WorkspaceID = xm_WorkspaceID m, em_MissionID = xm_MissionID m, em_MessageID = xm_MessageID m,
        em_CommandID = derivedMailboxExpiryCommandID \<epsilon> (xm_MessageID m) (xm_Revision m),
        em_Revision = xm_Revision m, em_ObservedAt = observedAt\<rparr>)) (\<lambda>r.
     let failed = (case r of Inl e \<Rightarrow> [e] | Inr (Inl e) \<Rightarrow> [e] | Inr (Inr _) \<Rightarrow> []) in
     tx_return (map (Wrapped (''expire mailbox message '' @ uuidText (xm_MessageID m)))
       (filter (\<lambda>e. e \<noteq> ErrMailboxStatusConflict) failed)))"

definition expireMailboxBatch :: "env \<Rightarrow> time \<Rightarrow> int \<Rightarrow> (nat \<times> error list) tx" where
  "expireMailboxBatch \<epsilon> now batchSize =
     (let observedAt = now div 1000 * 1000 in
      tx_bind (tx_try (ListExpiredMailboxMessages observedAt batchSize)) (\<lambda>listed.
      case listed of
        Inl e \<Rightarrow> tx_return (0, [Wrapped ''list expired mailbox messages'' e])
      | Inr messages \<Rightarrow>
          tx_bind (tx_map (expire_one \<epsilon> observedAt) messages) (\<lambda>errs.
          tx_return (length messages, concat errs))))"

text \<open>\<open>AfterReconcile\<close> as the server wires it.\<close>

definition advance_after :: "env \<Rightarrow> time \<Rightarrow> RunRow \<Rightarrow> string \<Rightarrow> error list tx" where
  "advance_after \<epsilon> now run msg =
     tx_bind (tx_try (AdvanceMission \<epsilon> now
       \<lparr>ac_cmd_WorkspaceID = r_WorkspaceID run, ac_cmd_MissionID = r_MissionID run,
        ac_cmd_CorrelationID = r_ID run\<rparr>)) (\<lambda>r.
     tx_return (map (Wrapped msg) (case r of Inl e \<Rightarrow> [e] | Inr (_, errs) \<Rightarrow> errs)))"

definition after_reconcile ::
    "env \<Rightarrow> time \<Rightarrow> ReconcilableRun \<Rightarrow> ReconcileRunResult \<Rightarrow> error list tx" where
  "after_reconcile \<epsilon> now candidate result =
     (let rid = uuidText (rr_RunID candidate);
          advance = advance_after \<epsilon> now (rcr_Run result) (''advance after run '' @ rid) in
      if rcr_EnqueueExecution result then
        tx_bind (tx_try (EnqueueOrchestrationRun \<epsilon> (rr_WorkspaceID candidate) (rr_RunID candidate)
          (rcr_EnqueueActorID result))) (\<lambda>r.
        tx_return (enqueue_error (''enqueue run '' @ rid @ '' execution'') r))
      else if \<not> rcr_CancelExecution result then
        (if rcr_Changed result then advance else tx_return [])
      else
        tx_bind (tx_try (CancelExecution \<epsilon> (rcr_CancelAgentTaskID result)
          (rcr_CancelExecutionReason result))) (\<lambda>r.
        case r of
          Inl e \<Rightarrow> tx_return [Wrapped (''cancel run '' @ rid @ '' execution'') e]
        | Inr _ \<Rightarrow> advance))"

definition reconcile_one :: "env \<Rightarrow> time \<Rightarrow> ReconcilableRun \<Rightarrow> error list tx" where
  "reconcile_one \<epsilon> now candidate =
     tx_bind (tx_try (ReconcileRun \<epsilon>
       \<lparr>rc_WorkspaceID = rr_WorkspaceID candidate, rc_RunID = rr_RunID candidate, rc_ObservedAt = now\<rparr>)) (\<lambda>r.
     case r of
       Inl e \<Rightarrow> tx_return [Wrapped (''reconcile run '' @ uuidText (rr_RunID candidate)) e]
     | Inr result \<Rightarrow> after_reconcile \<epsilon> now candidate result)"

text \<open>The cursor moves with every candidate, whatever becomes of it; a short page resets it.\<close>

definition cursor_at :: "ReconcilableRun \<Rightarrow> ReconcileCursor" where
  "cursor_at candidate = \<lparr>cur_CreatedAt = rr_CreatedAt candidate, cur_RunID = rr_RunID candidate\<rparr>"

definition cursor_after :: "int \<Rightarrow> ReconcilableRun list \<Rightarrow> ReconcileCursor" where
  "cursor_after batchSize runs =
     (if int (length runs) < batchSize then zero_cursor else cursor_at (last runs))"

definition ReconcileBatch ::
    "env \<Rightarrow> (nat \<Rightarrow> time) \<Rightarrow> int \<Rightarrow> ReconcileCursor \<Rightarrow> (nat \<times> error list \<times> ReconcileCursor) tx" where
  "ReconcileBatch \<epsilon> clock batchSize cursor =
     tx_bind (expireMailboxBatch \<epsilon> (clock 0) batchSize) (\<lambda>(processed, expiryErrs).
     tx_bind (tx_try (ListReconcilableRuns cursor batchSize)) (\<lambda>listed.
     case listed of
       Inl e \<Rightarrow> tx_return (processed, expiryErrs @ [Wrapped ''list reconcilable runs'' e], cursor)
     | Inr runs \<Rightarrow>
         tx_bind (tx_map (\<lambda>(i, candidate). reconcile_one \<epsilon> (clock i) candidate) (enumerate 1 runs)) (\<lambda>errs.
         tx_return (processed + length runs, concat errs @ expiryErrs, cursor_after batchSize runs))))"

section \<open>What a batch keeps\<close>

locale reconciler_queries = planning_queries R for R +
  assumes op_cancel: "obeys R (CancelAgentTaskWithReason \<epsilon> tid err kind)"
begin

lemma reads_list: "reads (ListReconcilableRuns cursor limit)"
  unfolding ListReconcilableRuns_def ListReconcilableOrchestrationRunsAfter_def by (intro unchanged.rules)

lemma either: "(\<And>e. obeys R (f e)) \<Longrightarrow> (\<And>x. obeys R (g x)) \<Longrightarrow> obeys R (case_sum f g y)"
  by (cases y) simp_all

lemma ReconcileBatch: "obeys R (ReconcileBatch \<epsilon> clock batchSize cursor)"
  unfolding ReconcileBatch_def expireMailboxBatch_def expire_one_def reconcile_one_def after_reconcile_def
    advance_after_def CancelExecution_def Let_def
  by (intro rules either attempt mailbox_transitions ReconcileRun AdvanceMission EnqueueOrchestrationRun op_cancel
      reads_list [THEN read_only] reads_mailbox [THEN read_only] read_only read_ops)

end

lemma history_cancel_task [history_ops]: "obeys history (CancelAgentTaskWithReason \<epsilon> tid err kind)"
  unfolding CancelAgentTaskWithReason_def by (auto intro!: obeys_update history_simps)

interpretation reconciler_history: reconciler_queries history
  by unfold_locales (auto intro!: history_ops)

lemma log_cancel_task [log_ops]: "obeys (preserves log_ok) (CancelAgentTaskWithReason \<epsilon> tid err kind)"
  by (rule quiet_log) (auto simp: CancelAgentTaskWithReason_def intro!: obeys_update quiet_tables)

interpretation reconciler_log: reconciler_queries "preserves log_ok"
  by unfold_locales (auto intro!: log_ops)

lemma graph_cancel_task [graph_ops]: "obeys graph_kept (CancelAgentTaskWithReason \<epsilon> tid err kind)"
  unfolding CancelAgentTaskWithReason_def by (auto intro!: obeys_update graph_kept_tables)

interpretation reconciler_graph: reconciler_queries graph_kept
  by unfold_locales (auto intro!: graph_ops)

section \<open>No run is starved\<close>

definition run_key :: "RunRow \<Rightarrow> time \<times> string" where
  "run_key r = ((case r_CreatedAt r of None \<Rightarrow> 0 | Some t \<Rightarrow> t), uuidText (r_ID r))"

definition runs_keyed :: "db \<Rightarrow> bool" where
  "runs_keyed s \<longleftrightarrow> distinct (map r_ID (db_runs s)) \<and>
     list_all (\<lambda>r. r_ID r \<noteq> None \<and> r_CreatedAt r \<noteq> None) (db_runs s)"

definition next_page :: "nat \<Rightarrow> ReconcileCursor \<Rightarrow> db \<Rightarrow> RunRow list" where
  "next_page n cursor s = take n (sort_key run_order
     (filter (\<lambda>r. reconcilable s r \<and> r_CreatedAt r \<noteq> None \<and> cursor_key cursor < run_key r) (db_runs s)))"

lemma ListReconcilableRuns_page:
  "0 < n \<Longrightarrow> ListReconcilableRuns cursor (int n) s = Inr (page_of (next_page n cursor s), s)"
proof -
  have "(case r_CreatedAt r of None \<Rightarrow> False | Some c \<Rightarrow> fst (cursor_key cursor) < c \<or>
       (c = fst (cursor_key cursor) \<and> snd (cursor_key cursor) < uuidText (r_ID r))) \<longleftrightarrow>
     r_CreatedAt r \<noteq> None \<and> cursor_key cursor < run_key r" for r
    by (auto simp: run_key_def less_prod_def' split: option.splits)
  then show "0 < n \<Longrightarrow> ?thesis"
    by (simp add: ListReconcilableRuns_def ListReconcilableOrchestrationRunsAfter_def next_page_def
        tx_bind_def tx_guard_def tx_query_def tx_return_def)
qed

lemma run_order_key:
  "r_ID a \<noteq> None \<Longrightarrow> r_ID b \<noteq> None \<Longrightarrow> run_order a \<le> run_order b \<longleftrightarrow> run_key a \<le> run_key b"
  by (auto simp: run_order_def run_key_def uuid_key_def less_eq_prod_def split: option.splits)

lemma run_key_inj:
  "runs_keyed s \<Longrightarrow> a \<in> set (db_runs s) \<Longrightarrow> b \<in> set (db_runs s) \<Longrightarrow> run_key a = run_key b \<Longrightarrow> a = b"
  by (auto simp: runs_keyed_def run_key_def list_all_iff distinct_map inj_on_def) (metis option.collapse uuidText_simps(1))

text \<open>A run between the cursor and the end of the list is on the page, or the page is full of runs before it.\<close>

lemma take_before:
  assumes "x \<in> set xs" and "x \<notin> set (take n (sort_key f xs))"
  shows "length (take n (sort_key f xs)) = n \<and> (\<forall>y \<in> set (take n (sort_key f xs)). f y \<le> f x)"
proof -
  let ?ys = "sort_key f xs"
  have "x \<in> set ?ys" using assms(1) by simp
  then have x: "x \<in> set (drop n ?ys)"
    using assms(2) by (metis Un_iff append_take_drop_id set_append)
  then have "n \<le> length ?ys" by (metis drop_all empty_iff linorder_not_less list.set(1) order_less_imp_le)
  moreover have "\<forall>y \<in> set (take n ?ys). f y \<le> f x"
  proof -
    have "sorted (map f (take n ?ys @ drop n ?ys))" by simp
    then show ?thesis using x unfolding map_append sorted_append by auto
  qed
  ultimately show ?thesis by simp
qed

lemma sorted_last: "sorted xs \<Longrightarrow> x \<in> set xs \<Longrightarrow> x \<le> last xs"
  by (induction xs) auto

lemma next_page_member:
  "x \<in> set (next_page n cursor s) \<Longrightarrow> x \<in> set (db_runs s) \<and> cursor_key cursor < run_key x"
  using set_take_subset [of n] by (fastforce simp: next_page_def)

definition keys_upto :: "time \<times> string \<Rightarrow> db \<Rightarrow> (time \<times> string) set" where
  "keys_upto k s = {j \<in> run_key ` set (db_runs s). j \<le> k}"

lemma next_page_progress:
  assumes "runs_keyed s" and "r \<in> set (db_runs s)" and "reconcilable s r" and "cursor_key cursor < run_key r"
    and "0 < n" and "r \<notin> set (next_page n cursor s)"
  shows "cursor_key (cursor_after (int n) (page_of (next_page n cursor s))) < run_key r"
    and "card {j \<in> keys_upto (run_key r) s. cursor_key (cursor_after (int n) (page_of (next_page n cursor s))) < j} + n
      \<le> card {j \<in> keys_upto (run_key r) s. cursor_key cursor < j}"
proof -
  let ?p = "next_page n cursor s" and ?K = "keys_upto (run_key r) s"
  let ?c = "cursor_key (cursor_after (int n) (page_of ?p))"
  have ids: "r_ID x \<noteq> None" "r_CreatedAt x \<noteq> None" if "x \<in> set (db_runs s)" for x
    using assms(1) that by (auto simp: runs_keyed_def list_all_iff)
  let ?F = "filter (\<lambda>r. reconcilable s r \<and> r_CreatedAt r \<noteq> None \<and> cursor_key cursor < run_key r) (db_runs s)"
  have "r \<in> set ?F" using assms(2-4) ids(2) [OF assms(2)] by simp
  note page = take_before [OF this assms(6) [unfolded next_page_def], folded next_page_def]
  have full: "length ?p = n" and before: "\<forall>y \<in> set ?p. run_order y \<le> run_order r"
    by (rule page [THEN conjunct1], rule page [THEN conjunct2])
  have ne: "?p \<noteq> []" using full assms(5) by auto
  have c: "?c = run_key (last ?p)"
    using full ne by (simp add: cursor_after_def page_of_def cursor_at_def cursor_key_def run_key_def last_map)
  have mem: "y \<in> set (db_runs s)" "cursor_key cursor < run_key y" "run_key y \<le> run_key r" "run_key y \<noteq> run_key r"
    if "y \<in> set ?p" for y
    using next_page_member [OF that] bspec [OF before that] that assms(2,6) run_key_inj [OF assms(1)] ids run_order_key
    by metis+
  show less: "?c < run_key r" using mem(3,4) [of "last ?p"] ne c by (auto simp: order_less_le)
  have dist: "distinct (map run_key ?p)"
  proof -
    have "distinct (db_runs s)" using assms(1) by (auto simp: runs_keyed_def distinct_map)
    then have "distinct ?p" by (simp add: next_page_def)
    then show ?thesis using run_key_inj [OF assms(1)] mem(1) by (auto simp: distinct_map inj_on_def)
  qed
  have sorted: "run_key y \<le> ?c" if "y \<in> set ?p" for y
  proof -
    have "sorted (map run_order ?p)" by (simp add: next_page_def take_map [symmetric] sorted_wrt_take)
    then have "run_order y \<le> run_order (last ?p)"
      using sorted_last [of "map run_order ?p"] that ne by (simp add: last_map)
    then show ?thesis unfolding c using ids mem(1) that ne run_order_key by simp
  qed
  have up: "cursor_key cursor < ?c" using mem(2) [of "last ?p"] ne c by simp
  have fin: "finite {j \<in> ?K. P j}" for P by (simp add: keys_upto_def)
  have sub: "{j \<in> ?K. ?c < j} \<union> run_key ` set ?p \<subseteq> {j \<in> ?K. cursor_key cursor < j}"
  proof
    fix i assume "i \<in> {j \<in> ?K. ?c < j} \<union> run_key ` set ?p"
    then show "i \<in> {j \<in> ?K. cursor_key cursor < j}"
    proof
      assume i: "i \<in> {j \<in> ?K. ?c < j}"
      then have "cursor_key cursor < i" using order.strict_trans [OF up] by blast
      with i show ?thesis by simp
    qed (use mem in \<open>auto simp: keys_upto_def\<close>)
  qed
  have "{j \<in> ?K. ?c < j} \<inter> run_key ` set ?p = {}" using sorted by fastforce
  then have "card {j \<in> ?K. ?c < j} + card (run_key ` set ?p) = card ({j \<in> ?K. ?c < j} \<union> run_key ` set ?p)"
    by (intro card_Un_disjoint [symmetric] fin) simp_all
  moreover have "card (run_key ` set ?p) = n"
    using distinct_card [OF dist] full by simp
  ultimately show "card {j \<in> ?K. ?c < j} + n \<le> card {j \<in> ?K. cursor_key cursor < j}"
    using card_mono [OF fin sub] by simp
qed

text \<open>The pages of successive batches, each listed in a state of its own: between two batches the runs may
  change and new ones may be queued, as long as the target stays reconcilable and no new run sorts
  before it.  The target is on one of the pages, after at most one page per \<open>n\<close> runs before it.\<close>

lemma scanned:
  assumes n: "0 < n" and keyed: "\<And>k. runs_keyed (\<sigma> k)"
    and target: "\<And>k. \<exists>r \<in> set (db_runs (\<sigma> k)). reconcilable (\<sigma> k) r \<and> run_key r = j"
    and earlier: "\<And>k. keys_upto j (\<sigma> k) = keys_upto j (\<sigma> 0)"
    and start: "cursor_key (c 0) < j"
    and cursor: "\<And>k. c (Suc k) = cursor_after (int n) (page_of (next_page n (c k) (\<sigma> k)))"
  shows "\<exists>k \<le> card (keys_upto j (\<sigma> 0)) div n. j \<in> run_key ` set (next_page n (c k) (\<sigma> k))"
proof (rule ccontr)
  let ?m = "card (keys_upto j (\<sigma> 0)) div n"
  let ?left = "\<lambda>k. card {i \<in> keys_upto j (\<sigma> 0). cursor_key (c k) < i}"
  assume missed: "\<not> ?thesis"
  have "k \<le> ?m + 1 \<Longrightarrow> cursor_key (c k) < j \<and> ?left k + k * n \<le> card (keys_upto j (\<sigma> 0))" for k
  proof (induction k)
    case 0
    have "?left 0 \<le> card (keys_upto j (\<sigma> 0))" by (rule card_mono) (auto simp: keys_upto_def)
    then show ?case using start by simp
  next
    case (Suc k)
    obtain r where r: "r \<in> set (db_runs (\<sigma> k))" "reconcilable (\<sigma> k) r" "run_key r = j"
      using target by blast
    have "r \<notin> set (next_page n (c k) (\<sigma> k))" using missed Suc.prems r(3) by auto
    from next_page_progress [OF keyed r(1,2) _ n this, unfolded r(3), folded cursor] Suc earlier [of k]
    show ?case by auto
  qed
  from this [of "?m + 1"] have "(?m + 1) * n \<le> card (keys_upto j (\<sigma> 0))" by simp
  then show False using n
    by (metis Suc_eq_plus1 div_le_mono div_mult_self_is_m not_less_eq_eq order_refl)
qed

lemma ReconcileBatch_cursor:
  assumes "ReconcileBatch \<epsilon> clock (int n) cursor s = Inr ((processed, errs, cursor'), t)" and "0 < n"
  shows "\<exists>u. expireMailboxBatch \<epsilon> (clock 0) (int n) s = Inr u \<and>
    cursor' = cursor_after (int n) (page_of (next_page n cursor (snd u)))"
  using assms(1) ListReconcilableRuns_page [OF assms(2)]
  by (auto simp: ReconcileBatch_def split: prod.splits)

end
