(* ===== verification/Stopping.thy ===== *)
theory Stopping
  imports Reconciler
begin

text \<open>
  The service method \<open>CancelMission\<close> (\<open>service.go\<close>) as a whole: after the repository cancelled the mission
  and committed, the executions of its active runs are cancelled one by one through the gateway, each in
  a transaction of its own, until one fails.
\<close>

section \<open>The method\<close>

text \<open>\<open>GetRunExecutionMapping\<close>: the id and status of the run's agent task.\<close>

definition GetRunExecutionMapping :: "uuid \<Rightarrow> uuid \<Rightarrow> (uuid \<times> string) tx" where
  "GetRunExecutionMapping ws rid =
     tx_bind (GetAgentTaskByOrchestrationRunInWorkspace ws rid) (\<lambda>task. tx_return (q_ID task, q_Status task))"

text \<open>The loop; the error of a run whose execution could not be cancelled ends it.\<close>

fun stop_runs :: "env \<Rightarrow> uuid \<Rightarrow> string \<Rightarrow> RunRow list \<Rightarrow> (error + unit) tx" where
  "stop_runs \<epsilon> ws reason [] = tx_return (Inr ())"
| "stop_runs \<epsilon> ws reason (run # runs) =
     tx_bind (tx_absent (GetRunExecutionMapping ws (r_ID run))) (\<lambda>mapping.
     case mapping of
       None \<Rightarrow> stop_runs \<epsilon> ws reason runs
     | Some (tid, _) \<Rightarrow>
         tx_bind (tx_try (CancelExecution \<epsilon> tid reason)) (\<lambda>out.
         case out of
           Inl e \<Rightarrow> tx_return (Inl (Wrapped ''cancel mission: cancel run execution'' e))
         | Inr _ \<Rightarrow> stop_runs \<epsilon> ws reason runs))"

definition CancelMission_stopping ::
    "env \<Rightarrow> CancelMissionParams \<Rightarrow> (CancelMissionResult \<times> (error + unit)) tx" where
  "CancelMission_stopping \<epsilon> c =
     tx_bind (CancelMission \<epsilon> c) (\<lambda>result.
     tx_bind (stop_runs \<epsilon> (ca_WorkspaceID c) (TrimSpace (ca_Reason c)) (car_ActiveRuns result)) (\<lambda>out.
     tx_return (result, out)))"

section \<open>A cancelled execution stays cancelled\<close>

text \<open>Tasks stay with their ids, agents and runs, and none becomes active.\<close>

definition winds_down :: "AgentTaskRow \<Rightarrow> AgentTaskRow \<Rightarrow> bool" where
  "winds_down q q' \<longleftrightarrow> same_task_row q q' \<and>
     (isActiveAgentTaskStatus (q_Status q') \<longrightarrow> isActiveAgentTaskStatus (q_Status q))"

definition tasks_wind_down :: "db \<Rightarrow> db \<Rightarrow> bool" where
  "tasks_wind_down s t \<longleftrightarrow> db_agents t = db_agents s \<and> list_all2 winds_down (db_tasks s) (db_tasks t)"

lemma winds_down_refl [simp]: "winds_down q q"
  by (simp add: winds_down_def)

interpretation winding: tx_preorder tasks_wind_down
proof
  show "tasks_wind_down s s" for s by (simp add: tasks_wind_down_def list_all2_same)
  have "winds_down a b \<Longrightarrow> winds_down b c \<Longrightarrow> winds_down a c" for a b c
    by (auto simp: winds_down_def same_task_row_def)
  then show "tasks_wind_down s u" if "tasks_wind_down s t" "tasks_wind_down t u" for s t u
    using that list_all2_trans [of winds_down winds_down winds_down "db_tasks s" "db_tasks t" "db_tasks u"]
    by (auto simp: tasks_wind_down_def)
qed

lemma cancel_task_winds_down: "obeys tasks_wind_down (CancelAgentTaskWithReason \<epsilon> tid err kind)"
  unfolding CancelAgentTaskWithReason_def
  by (intro obeys_update)
    (auto simp: tasks_wind_down_def update_rows_def list_all2_map2 winds_down_def same_task_row_def
      isActiveAgentTaskStatus_def intro!: list.rel_refl_strong)

lemma CancelExecution_winds_down: "obeys tasks_wind_down (CancelExecution \<epsilon> tid reason)"
  unfolding CancelExecution_def
  by (intro winding.rules cancel_task_winds_down) (auto simp: GetAgentTask_def intro!: winding.rules)

lemma stop_runs_winds_down: "obeys tasks_wind_down (stop_runs \<epsilon> ws reason runs)"
proof (induction runs)
  case Nil
  show ?case by (auto intro!: obeysI winding.R_refl)
next
  case (Cons run runs)
  have "obeys tasks_wind_down (GetRunExecutionMapping ws (r_ID run))"
    unfolding GetRunExecutionMapping_def GetAgentTaskByOrchestrationRunInWorkspace_def
    by (intro winding.rules)
  then show ?case
    by (auto intro!: winding.bind winding.absent winding.attempt winding.return CancelExecution_winds_down Cons
        split: option.split sum.split)
qed

text \<open>The run has no active task in the workspace.\<close>

definition stopped :: "uuid \<Rightarrow> db \<Rightarrow> RunRow \<Rightarrow> bool" where
  "stopped ws s run \<longleftrightarrow>
     (case task_of_run ws (r_ID run) s of None \<Rightarrow> True | Some q \<Rightarrow> \<not> isActiveAgentTaskStatus (q_Status q))"

lemma find_related:
  "list_all2 Q xs ys \<Longrightarrow> (\<And>x y. Q x y \<Longrightarrow> P y = P x) \<Longrightarrow> rel_option Q (find P xs) (find P ys)"
  by (induction rule: list_all2_induct) auto

lemma task_of_run_winds_down:
  "tasks_wind_down s t \<Longrightarrow> rel_option winds_down (task_of_run ws rid s) (task_of_run ws rid t)"
  unfolding task_of_run_def tasks_wind_down_def
  by (auto intro!: find_related simp: winds_down_def same_task_row_def)

lemma stopped_kept:
  assumes "tasks_wind_down s t" and "stopped ws s run" shows "stopped ws t run"
  using task_of_run_winds_down [OF assms(1), of ws "r_ID run"] assms(2)
  by (cases rule: option.rel_cases) (auto simp: stopped_def winds_down_def)

lemma cancel_task_stops:
  assumes "tx_absent (CancelAgentTaskWithReason \<epsilon> tid err kind) s = Inr (x, t)"
    and "q \<in> set (db_tasks t)" and "sql_eq (q_ID q) tid"
  shows "\<not> isActiveAgentTaskStatus (q_Status q)"
  using assms
  by (auto simp: CancelAgentTaskWithReason_def tx_update_Inr tx_update_def set_update_rows find_None_iff
      isActiveAgentTaskStatus_def split: option.splits if_splits)

lemma CancelExecution_stops:
  assumes "CancelExecution \<epsilon> tid reason s = Inr (task, t)"
  shows "tid \<noteq> None" "q \<in> set (db_tasks t) \<Longrightarrow> q_ID q = tid \<Longrightarrow> \<not> isActiveAgentTaskStatus (q_Status q)"
proof -
  obtain existing x where e: "find (\<lambda>q. sql_eq (q_ID q) tid) (db_tasks s) = Some existing"
      and x: "tx_absent (CancelAgentTaskWithReason \<epsilon> tid (textValue reason)
        (textValue ''orchestration_cancelled'')) s = Inr (x, t)"
    using assms
    by (auto simp: CancelExecution_def GetAgentTask_def tx_bind_Inr simp del: tx_absent_Inr
        split: option.splits) (auto split: option.splits)
  show n: "tid \<noteq> None" using e by (auto simp: find_Some_iff sql_eq_def)
  show "\<not> isActiveAgentTaskStatus (q_Status q)" if "q \<in> set (db_tasks t)" "q_ID q = tid"
    using cancel_task_stops [OF x that(1)] that(2) n by (simp add: sql_eq_def)
qed

lemma stop_runs_step:
  "stop_runs \<epsilon> ws reason (run # runs) s =
     (case task_of_run ws (r_ID run) s of
        None \<Rightarrow> stop_runs \<epsilon> ws reason runs s
      | Some q \<Rightarrow>
          (case CancelExecution \<epsilon> (q_ID q) reason s of
             Inl e \<Rightarrow> Inr (Inl (Wrapped ''cancel mission: cancel run execution'' e), s)
           | Inr (task, u) \<Rightarrow> stop_runs \<epsilon> ws reason runs u))"
  by (simp add: GetRunExecutionMapping_def GetAgentTaskByOrchestrationRunInWorkspace_def tx_bind_def
      tx_absent_def tx_try_def tx_one_def split: option.splits sum.splits)

lemma stop_runs_stops:
  "stop_runs \<epsilon> ws reason runs s = Inr (Inr (), t) \<Longrightarrow> list_all (stopped ws t) runs"
proof (induction runs arbitrary: s)
  case (Cons run runs)
  have rest: "list_all (stopped ws t) (run # runs)"
    if "stop_runs \<epsilon> ws reason runs u = Inr (Inr (), t)" "stopped ws u run" for u
    using Cons.IH [OF that(1)] stopped_kept [OF obeysD [OF stop_runs_winds_down that(1)] that(2)] by simp
  show ?case
  proof (cases "task_of_run ws (r_ID run) s")
    case None
    then have "stopped ws s run" by (simp add: stopped_def)
    moreover have "stop_runs \<epsilon> ws reason runs s = Inr (Inr (), t)"
      using Cons.prems None unfolding stop_runs_step by simp
    ultimately show ?thesis by (intro rest)
  next
    case (Some q)
    obtain task u where u: "CancelExecution \<epsilon> (q_ID q) reason s = Inr (task, u)"
        "stop_runs \<epsilon> ws reason runs u = Inr (Inr (), t)"
      using Cons.prems Some unfolding stop_runs_step by (auto split: sum.splits)
    obtain q' where q': "task_of_run ws (r_ID run) u = Some q'" "winds_down q q'"
      using task_of_run_winds_down [OF obeysD [OF CancelExecution_winds_down u(1)], of ws "r_ID run"] Some
      by (auto simp: option_rel_Some1)
    then have "\<not> isActiveAgentTaskStatus (q_Status q')"
      using CancelExecution_stops(2) [OF u(1)] task_of_run_Some [OF q'(1)]
      by (simp add: winds_down_def same_task_row_def)
    then have "stopped ws u run" using q'(1) by (simp add: stopped_def)
    then show ?thesis by (rule rest [OF u(2)])
  qed
qed simp

text \<open>After the method returned without an error, no run of the mission that was active has an active task
  in the workspace.\<close>

lemma CancelMission_stopping_stops:
  assumes "CancelMission_stopping \<epsilon> c s = Inr ((r, Inr ()), t)"
  shows "list_all (stopped (ca_WorkspaceID c) t) (car_ActiveRuns r)"
  using assms by (auto simp: CancelMission_stopping_def intro: stop_runs_stops)

context reconciler_queries begin

lemma stop_runs: "obeys R (stop_runs \<epsilon> ws reason runs)"
proof (induction runs)
  case Nil
  show ?case unfolding stop_runs.simps by (rule return)
next
  case (Cons run runs)
  have "reads (GetRunExecutionMapping ws rid)" for rid
    unfolding GetRunExecutionMapping_def GetAgentTaskByOrchestrationRunInWorkspace_def
    by (intro unchanged.rules)
  then show ?case
    unfolding stop_runs.simps CancelExecution_def
    by (intro rules either attempt op_cancel Cons read_only read_ops)
      (auto simp: GetAgentTask_def intro!: rules)
qed

end

end
