(* ===== verification/PlanProgress.thy ===== *)
theory PlanProgress
  imports PlanGraph ReadyNodes
begin

text \<open>
  An accepted plan can be worked off.  As long as some node is unfinished and every unfinished node is
  pending or in rework, \<open>ReadyNodeKeys\<close> offers a node: the dependencies are acyclic.  At the start of
  the mission it offers the roots of the plan, in the order of their keys, up to the run limit.
\<close>

section \<open>Node keys\<close>

lemma trim_same:
  "lead_space go_spaces s = 0 \<Longrightarrow> lead_space (map rev go_spaces) (rev s) = 0 \<Longrightarrow> TrimSpace s = s"
  by (simp add: TrimSpace_def trim_lead_fix)

lemma key_char_no_space:
  "key_char c \<Longrightarrow> c \<notin> {CHR 0x20, CHR 0x09, CHR 0x0A, CHR 0x0B, CHR 0x0C, CHR 0x0D, CHR 0xC2, CHR 0xE1,
     CHR 0xE2, CHR 0xE3} \<and> c \<notin> (\<lambda>e. last e) ` set go_spaces"
  by (auto simp: key_char_def key_alnum_def go_spaces_def)

lemma lead_space_hd:
  assumes "\<And>e. e \<in> set encs \<Longrightarrow> e \<noteq> [] \<and> hd e \<noteq> c" shows "lead_space encs (c # s) = 0"
proof -
  have "[] \<notin> set encs" using assms by auto
  moreover have "take (length e) (c # s) \<noteq> e" if "e \<in> set encs" for e
    using assms [OF that] by (cases e) auto
  ultimately show ?thesis by (simp add: lead_space_0_iff)
qed

lemma key_not_blank: assumes "nodeKeyPattern k" shows "\<not> blank k"
proof -
  obtain c cs where k: "k = c # cs" and c: "key_char c" and cs: "list_all key_char cs"
    using assms by (cases k) (auto simp: key_char_def)
  have l: "key_char (last k)" using c cs by (auto simp: k list_all_iff)
  have "lead_space go_spaces k = 0"
    unfolding k using key_char_no_space [OF c] by (intro lead_space_hd) (auto simp: go_spaces_def)
  moreover have "rev k = last k # rev (butlast k)" using k by (metis append_butlast_last_id list.distinct(1) rev.simps(2) rev_append rev_rev_ident append.simps(1) append_Cons)
  then have "lead_space (map rev go_spaces) (rev k) = 0"
    using key_char_no_space [OF l] by (simp only:) (intro lead_space_hd, auto simp: go_spaces_def)
  ultimately show ?thesis by (simp add: blank_def trim_same k)
qed

section \<open>No plan gets stuck\<close>

text \<open>Snapshots of the nodes of a plan, in any status.\<close>

definition snapshots_of :: "Plan \<Rightarrow> NodeSnapshot list \<Rightarrow> bool" where
  "snapshots_of p ns \<longleftrightarrow> list_all2 (\<lambda>n x. ns_Key x = pn_Key n \<and> set (ns_DependencyKeys x) = set (pn_DependsOn n))
     (plan_Nodes p) ns"

lemma snapshots_of_keys: "snapshots_of p ns \<Longrightarrow> map ns_Key ns = map pn_Key (plan_Nodes p)"
  unfolding snapshots_of_def by (induction rule: list_all2_induct) simp_all

lemma snapshots_of_deps:
  "snapshots_of p ns \<Longrightarrow> x \<in> set ns \<Longrightarrow> d \<in> set (ns_DependencyKeys x) \<Longrightarrow> (d, ns_Key x) \<in> plan_edges p"
proof -
  assume ns: "snapshots_of p ns" and x: "x \<in> set ns" and d: "d \<in> set (ns_DependencyKeys x)"
  then obtain i where "i < length (plan_Nodes p)" "ns_Key x = pn_Key (plan_Nodes p ! i)"
      "d \<in> set (pn_DependsOn (plan_Nodes p ! i))"
    unfolding snapshots_of_def list_all2_conv_all_nth by (metis in_set_conv_nth)
  then show ?thesis using nth_mem unfolding plan_edges_def by blast
qed

lemma plan_edges_in: "plan_ok p mission hard \<Longrightarrow> (a, b) \<in> plan_edges p \<Longrightarrow> a \<in> plan_keys p \<and> b \<in> plan_keys p"
  by (auto simp: plan_ok_def plan_keys_def) (auto simp: plan_edges_def)

lemma snapshots_of_ok:
  assumes "plan_ok p mission hard" and "snapshots_of p ns" shows "snapshots_ok ns"
proof -
  note keys = snapshots_of_keys [OF assms(2)]
  then have set: "ns_Key ` set ns = plan_keys p" by (metis list.set_map plan_keys_def)
  have "\<not> blank (ns_Key x)" if "x \<in> set ns" for x
  proof -
    have "ns_Key x \<in> plan_keys p" using that set by blast
    then show ?thesis using assms(1) key_not_blank by (auto simp: plan_keys_def plan_ok_def node_ok_def)
  qed
  moreover have "distinct (map ns_Key ns)" using assms(1) keys by (simp add: plan_ok_def)
  moreover have "set (ns_DependencyKeys x) \<subseteq> ns_Key ` set ns" if "x \<in> set ns" for x
    using snapshots_of_deps [OF assms(2) that] plan_edges_in [OF assms(1)] set by blast
  ultimately show ?thesis by (simp add: snapshots_ok_def)
qed

lemma some_node_ready:
  assumes ok: "plan_ok p mission hard" and ns: "snapshots_of p ns"
    and open': "x \<in> set ns" "ns_Status x \<noteq> TaskStatusCompleted"
    and waiting: "\<And>x. x \<in> set ns \<Longrightarrow> ns_Status x \<noteq> TaskStatusCompleted \<Longrightarrow>
      ns_Status x \<in> {TaskStatusPending, TaskStatusRework} \<and> \<not> ns_HasActiveAssignment x"
  shows "ready_set ns \<noteq> {}"
proof -
  have "finite (plan_edges p)"
  proof (rule finite_subset)
    show "plan_edges p \<subseteq> plan_keys p \<times> plan_keys p" using plan_edges_in [OF ok] by auto
  qed (simp add: plan_keys_def)
  then have "wf (plan_edges p)" using ok by (intro finite_acyclic_wf) (simp_all add: plan_ok_def)
  moreover have "ns_Key x \<in> {ns_Key y | y. y \<in> set ns \<and> ns_Status y \<noteq> TaskStatusCompleted}" using open' by blast
  ultimately obtain k where k: "k \<in> {ns_Key y | y. y \<in> set ns \<and> ns_Status y \<noteq> TaskStatusCompleted}"
    and low: "\<And>d. (d, k) \<in> plan_edges p \<Longrightarrow> d \<notin> {ns_Key y | y. y \<in> set ns \<and> ns_Status y \<noteq> TaskStatusCompleted}"
    by (rule wfE_min) blast
  then obtain y where y: "y \<in> set ns" "ns_Key y = k" "ns_Status y \<noteq> TaskStatusCompleted" by blast
  have "\<exists>q \<in> set ns. ns_Key q = d \<and> ns_Status q = TaskStatusCompleted" if "d \<in> set (ns_DependencyKeys y)" for d
  proof -
    have e: "(d, k) \<in> plan_edges p" using snapshots_of_deps [OF ns y(1) that] y(2) by simp
    then have "d \<in> ns_Key ` set ns"
      using plan_edges_in [OF ok] snapshots_of_keys [OF ns] by (metis list.set_map plan_keys_def)
    then show ?thesis using low [OF e] by blast
  qed
  then have "y \<in> ready_set ns" using y waiting [OF y(1,3)] by (simp add: ready_set_def)
  then show ?thesis by blast
qed

lemma ready_keys_progress:
  assumes "plan_ok p mission hard" and "snapshots_of p ns"
    and "x \<in> set ns" "ns_Status x \<noteq> TaskStatusCompleted"
    and "\<And>x. x \<in> set ns \<Longrightarrow> ns_Status x \<noteq> TaskStatusCompleted \<Longrightarrow>
      ns_Status x \<in> {TaskStatusPending, TaskStatusRework} \<and> \<not> ns_HasActiveAssignment x"
    and "0 \<le> active" and "active < maxRuns"
  shows "\<exists>k ks. ReadyNodeKeys MissionStatusRunning ns active maxRuns = Inr (k # ks)"
proof -
  have s: "snapshots_ok ns" using assms(1,2) by (rule snapshots_of_ok)
  then have d: "distinct (map ns_Key ns)" by (simp add: snapshots_ok_def)
  have "finite (ready_set ns)" by (simp add: ready_set_def)
  then have "0 < card (ready_set ns)" using some_node_ready [OF assms(1-5)] by (simp add: card_gt_0_iff)
  then have "0 < length (chosen ns (nat (maxRuns - active)))"
    using assms(7) by (simp add: chosen_all_or_full [OF d])
  then have "map ns_Key (chosen ns (nat (maxRuns - active))) \<noteq> []" by simp
  then obtain k ks where "map ns_Key (chosen ns (nat (maxRuns - active))) = k # ks" by (meson neq_Nil_conv)
  then have "ReadyNodeKeys MissionStatusRunning ns active maxRuns = Inr (k # ks)"
    using assms(6,7) s unfolding ReadyNodeKeys_Inr chosen_def by simp
  then show ?thesis by blast
qed

section \<open>The first tasks\<close>

lemma dependency_keys_Inr:
  "dependency_keys key ds = Inr pairs \<longleftrightarrow>
     (\<forall>d \<in> set ds. key (d_DependsOnIssueID d) \<noteq> None) \<and>
     pairs = map (\<lambda>d. (d_IssueID d, the (key (d_DependsOnIssueID d)))) ds"
  by (induction ds arbitrary: pairs) (auto split: option.splits)

lemma keys_of_Nil: "keys_of pairs u = [] \<longleftrightarrow> u \<notin> fst ` set pairs"
  by (force simp: keys_of_def filter_empty_conv)

text \<open>Fresh task rows in the order of their keys.\<close>

definition fresh_rows :: "TaskNodeRow list \<Rightarrow> bool" where
  "fresh_rows nodes \<longleftrightarrow> sorted (map t_NodeKey nodes) \<and> distinct (map t_NodeKey nodes) \<and>
     (\<forall>n \<in> set nodes. t_Status n = TaskStatusPending \<and> t_Priority n = 0 \<and> \<not> blank (t_NodeKey n))"

lemma initial_ready:
  assumes f: "fresh_rows nodes" and d: "dependency_keys (keys_by_id nodes) deps = Inr pairs" and l: "1 \<le> limit"
  shows "initialReadyNodeKeys nodes deps limit =
    Inr (take (nat limit) (map t_NodeKey (filter (\<lambda>n. t_IssueID n \<notin> d_IssueID ` set deps) nodes)))"
proof -
  define ns where "ns = map (initial_snapshot pairs) (enumerate 0 nodes)"
  have len: "length ns = length nodes" by (simp add: ns_def)
  have nth: "ns ! i = initial_snapshot pairs (i, nodes ! i)" if "i < length nodes" for i
    using that by (simp add: ns_def nth_enumerate_eq)
  have keys: "map ns_Key ns = map t_NodeKey nodes"
    by (rule nth_equalityI) (simp_all add: len nth initial_snapshot_def)
  have dist: "distinct (map ns_Key ns)" using f keys by (simp add: fresh_rows_def)
  have mem: "\<exists>n \<in> set nodes. ns_Key x = t_NodeKey n \<and> ns_Status x = TaskStatusPending \<and>
      ns_Priority x = 0 \<and> \<not> ns_HasActiveAssignment x \<and> ns_DependencyKeys x = keys_of pairs (t_IssueID n)"
    if "x \<in> set ns" for x
  proof -
    from that obtain i where "i < length ns" "x = ns ! i" by (auto simp: in_set_conv_nth)
    then have i: "i < length nodes" "x = initial_snapshot pairs (i, nodes ! i)" by (simp_all add: len nth)
    then have "nodes ! i \<in> set nodes" by simp
    with i(2) f show ?thesis by (intro bexI [of _ "nodes ! i"]) (simp_all add: initial_snapshot_def fresh_rows_def)
  qed
  have p: "pairs = map (\<lambda>d. (d_IssueID d, the (keys_by_id nodes (d_DependsOnIssueID d)))) deps"
    and known: "\<forall>d \<in> set deps. keys_by_id nodes (d_DependsOnIssueID d) \<noteq> None"
    using d by (simp_all add: dependency_keys_Inr)
  have "set (keys_of pairs u) \<subseteq> t_NodeKey ` set nodes" for u
  proof
    fix k assume "k \<in> set (keys_of pairs u)"
    then obtain d where "d \<in> set deps" "k = the (keys_by_id nodes (d_DependsOnIssueID d))"
      by (auto simp: keys_of_def p)
    then have "keys_by_id nodes (d_DependsOnIssueID d) = Some k" using known by force
    then show "k \<in> t_NodeKey ` set nodes" by (auto simp: keys_by_id_def dest!: map_of_SomeD)
  qed
  moreover have "ns_Key ` set ns = t_NodeKey ` set nodes" using keys by (metis list.set_map)
  ultimately have "set (ns_DependencyKeys x) \<subseteq> ns_Key ` set ns" if "x \<in> set ns" for x
    using mem [OF that] by metis
  moreover have "\<not> blank (ns_Key x)" if "x \<in> set ns" for x
    using mem [OF that] f by (auto simp: fresh_rows_def)
  ultimately have ok: "snapshots_ok ns" using dist by (simp add: snapshots_ok_def)
  have cand: "ready_candidate (snap_keyed ns) x \<longleftrightarrow> ns_DependencyKeys x = []" if x: "x \<in> set ns" for x
  proof -
    have "\<not> (\<exists>q \<in> set ns. ns_Key q = d \<and> ns_Status q = TaskStatusCompleted)" for d using mem by fastforce
    then have "dependencies_completed (snap_keyed ns) x \<longleftrightarrow> ns_DependencyKeys x = []"
      by (cases "ns_DependencyKeys x") (auto simp: dependencies_completed_iff [OF dist])
    then show ?thesis using mem [OF x] by (auto simp: ready_candidate_def)
  qed
  have "sorted (map ready_rank ns)"
  proof (rule sorted_iff_nth_mono [THEN iffD2], intro allI impI)
    fix i j assume "i \<le> j" "j < length (map ready_rank ns)"
    then have ij: "i \<le> j" "i < length nodes" "j < length nodes" using len by simp_all
    then have "t_NodeKey (nodes ! i) \<le> t_NodeKey (nodes ! j)"
      using f by (auto simp: fresh_rows_def sorted_iff_nth_mono)
    then show "map ready_rank ns ! i \<le> map ready_rank ns ! j"
      using ij f len by (simp add: nth initial_snapshot_def ready_rank_def fresh_rows_def)
  qed
  then have sort: "sort_key ready_rank (filter (ready_candidate (snap_keyed ns)) ns) =
      filter (ready_candidate (snap_keyed ns)) ns"
    by (intro sort_key_id_if_sorted sorted_filter)
  have "map ns_Key (filter (ready_candidate (snap_keyed ns)) ns) = map ns_Key (filter (\<lambda>x. ns_DependencyKeys x = []) ns)"
    using cand by (metis (mono_tags, lifting) filter_cong)
  also have "\<dots> = map t_NodeKey (filter (\<lambda>n. keys_of pairs (t_IssueID n) = []) nodes)"
  proof -
    have "map ns_Key (filter (\<lambda>x. ns_DependencyKeys x = []) (map (initial_snapshot pairs) (enumerate m xs))) =
        map t_NodeKey (filter (\<lambda>n. keys_of pairs (t_IssueID n) = []) xs)" for m xs
      by (induction xs arbitrary: m) (simp_all add: initial_snapshot_def)
    then show ?thesis by (simp add: ns_def)
  qed
  also have "(\<lambda>n. keys_of pairs (t_IssueID n) = []) = (\<lambda>n. t_IssueID n \<notin> d_IssueID ` set deps)"
    by (simp add: keys_of_Nil p image_image)
  finally have "ReadyNodeKeys MissionStatusRunning ns 0 limit =
      Inr (take (nat limit) (map t_NodeKey (filter (\<lambda>n. t_IssueID n \<notin> d_IssueID ` set deps) nodes)))"
    unfolding ReadyNodeKeys_Inr using l ok by (simp add: sort take_map [symmetric])
  then show ?thesis using d by (simp add: initialReadyNodeKeys_def ns_def)
qed

section \<open>A plan that was accepted can be started\<close>

lemma row_keys_Some:
  "distinct (map t_IssueID rows) \<Longrightarrow>
     row_keys rows u = Some k \<longleftrightarrow> (\<exists>r \<in> set rows. t_IssueID r = u \<and> t_NodeKey r = k)"
  unfolding row_keys_def by (subst map_of_eq_Some_iff) (auto simp: o_def)

lemma set_key_edges:
  "set (key_edges key deps) =
     {(a, b). \<exists>d \<in> set deps. key (d_IssueID d) = Some a \<and> key (d_DependsOnIssueID d) = Some b}"
  by (auto simp: key_edges_def split: option.splits)

lemma set_plan_dependency_keys:
  "(k, d) \<in> set (plan_dependency_keys ns) \<longleftrightarrow> (\<exists>n \<in> set ns. pn_Key n = k \<and> d \<in> set (pn_DependsOn n))"
  by (auto simp: plan_dependency_keys_def)

lemma not_Nil_iff_member: "xs \<noteq> [] \<longleftrightarrow> (\<exists>x. x \<in> set xs)"
  by (cases xs) auto

lemma planned_roots:
  fixes deps :: "DependencyRow list"
  assumes p: "planned_rows ws mid (plan_Nodes plan) rows" and ok: "plan_ok plan mission hard"
    and d: "map (\<lambda>d. (d_IssueID d, d_DependsOnIssueID d)) deps =
      map (edge_ids (plan_node_ids (plan_Nodes plan) rows)) (plan_dependency_keys (plan_Nodes plan))"
    and r: "r \<in> set rows"
  shows "t_IssueID r \<in> d_IssueID ` set deps \<longleftrightarrow>
    t_NodeKey r \<notin> pn_Key ` set (filter (\<lambda>n. pn_DependsOn n = []) (plan_Nodes plan))"
proof -
  note edges = planned_edges [OF p ok d]
  have dist: "distinct (map t_IssueID rows)" using p by (simp add: planned_rows_def)
  have keys: "map t_NodeKey rows = map pn_Key (plan_Nodes plan)" and dk: "distinct (map pn_Key (plan_Nodes plan))"
    using planned_keys [OF p] ok by (simp_all add: plan_ok_def)
  have "t_IssueID r \<in> d_IssueID ` set deps \<longleftrightarrow> (\<exists>k. (t_NodeKey r, k) \<in> set (key_edges (row_keys rows) deps))"
  proof
    assume "t_IssueID r \<in> d_IssueID ` set deps"
    then obtain e where e: "e \<in> set deps" "d_IssueID e = t_IssueID r" by auto
    moreover obtain r' where "r' \<in> set rows" "d_DependsOnIssueID e = t_IssueID r'" using e(1) edges(3) by auto
    ultimately have "(t_NodeKey r, t_NodeKey r') \<in> set (key_edges (row_keys rows) deps)"
      unfolding set_key_edges row_keys_Some [OF dist] using r by auto metis
    then show "\<exists>k. (t_NodeKey r, k) \<in> set (key_edges (row_keys rows) deps)" ..
  next
    assume "\<exists>k. (t_NodeKey r, k) \<in> set (key_edges (row_keys rows) deps)"
    then obtain e r' where "e \<in> set deps" "r' \<in> set rows" "t_IssueID r' = d_IssueID e" "t_NodeKey r' = t_NodeKey r"
      unfolding set_key_edges row_keys_Some [OF dist] by auto
    moreover have "r' = r" using calculation(2,4) r dk keys by (metis distinct_map inj_onD)
    ultimately show "t_IssueID r \<in> d_IssueID ` set deps" by force
  qed
  also have "\<dots> \<longleftrightarrow> (\<exists>n \<in> set (plan_Nodes plan). pn_Key n = t_NodeKey r \<and> pn_DependsOn n \<noteq> [])"
    unfolding edges(1) set_plan_dependency_keys by (auto simp: not_Nil_iff_member)
  also have "\<dots> \<longleftrightarrow> t_NodeKey r \<notin> pn_Key ` set (filter (\<lambda>n. pn_DependsOn n = []) (plan_Nodes plan))"
  proof -
    have "t_NodeKey r \<in> pn_Key ` set (plan_Nodes plan)" using r keys by (metis image_eqI list.set_map)
    moreover have "n = n'" if "n \<in> set (plan_Nodes plan)" "n' \<in> set (plan_Nodes plan)" "pn_Key n = pn_Key n'" for n n'
      using that dk by (auto simp: distinct_map dest: inj_onD)
    ultimately show ?thesis by auto metis
  qed
  finally show ?thesis .
qed

definition root_keys :: "Plan \<Rightarrow> string list" where
  "root_keys plan = sort (map pn_Key (filter (\<lambda>n. pn_DependsOn n = []) (plan_Nodes plan)))"

lemma write_then_ready:
  assumes m: "mirrored hard s" and ok: "plan_ok (sp_Plan params) (uuidText (sp_MissionID params)) hard"
    and w: "SubmitPlan_write \<epsilon> params key source root planning s = Inr (r, t)"
    and v: "sp_WorkspaceID params \<noteq> None" "sp_MissionID params \<noteq> None"
  shows "\<exists>nodes deps. ListTaskNodesByMission (sp_WorkspaceID params) (sp_MissionID params) t = Inr (nodes, t) \<and>
    ListOrchestrationIssueDependencies (sp_WorkspaceID params) (sp_MissionID params) t = Inr (deps, t) \<and>
    m_Limits (spr_Mission r) = plan_Limits (sp_Plan params) \<and>
    initialReadyNodeKeys nodes deps (MaxParallelRuns (plan_Limits (sp_Plan params))) =
      Inr (take (nat (MaxParallelRuns (plan_Limits (sp_Plan params)))) (root_keys (sp_Plan params)))"
proof -
  let ?ws = "sp_WorkspaceID params" and ?mid = "sp_MissionID params" and ?plan = "sp_Plan params"
  from w obtain m0 rows deps u where u: "find (accepting params) (db_missions s) = Some m0"
      "db_nodes u = db_nodes s @ rows" "db_dependencies u = db_dependencies s @ deps"
      "t_IssueID ` set rows \<inter> t_IssueID ` set (db_nodes s) = {}"
      "planned_rows ?ws ?mid (plan_Nodes ?plan) rows"
      "\<forall>r \<in> set rows. t_Status r = TaskStatusPending \<and> t_CreatedAt r = env_now \<epsilon> \<and> t_Priority r = 0"
      "map (\<lambda>d. (d_IssueID d, d_DependsOnIssueID d)) deps =
        map (edge_ids (plan_node_ids (plan_Nodes ?plan) rows)) (plan_dependency_keys (plan_Nodes ?plan))"
      "graph_kept u t" "db_nodes t = db_nodes u" "spr_Mission r = accepted_row \<epsilon> ?plan m0"
    by (rule SubmitPlan_write_Inr)
  note edges = planned_edges [OF u(5) ok u(7)]
  have "m0 \<in> set (db_missions s)" "m_IssueID m0 = ?mid" "m_Status m0 = MissionStatusDraft"
    using find_SomeD [OF u(1)] by (auto simp: accepting_def mission_is_def sql_eq_def)
  then have "mission_rows ?mid s = []"
    using m unfolding mirrored_def list_all_iff
    by (auto simp: mission_mirrors_def stored_nodes_def split: option.splits)
  then have old: "filter (node_in ?ws ?mid) (db_nodes s) = []"
    by (auto simp: mission_rows_def filter_empty_conv node_in_def sql_eq_def)
  have new: "filter (node_in ?ws ?mid) rows = rows"
    using planned_mission [OF u(5)] v by (auto simp: filter_id_conv node_in_def sql_eq_def)
  define nodes where "nodes = sort_key node_order rows"
  have nodes: "ListTaskNodesByMission ?ws ?mid t = Inr (nodes, t)"
    by (simp add: ListTaskNodesByMission_def u(2,9) old new nodes_def)
  have in_rows: "list_ex (\<lambda>n. sql_eq (t_IssueID n) (d_IssueID d) \<and> node_in ?ws ?mid n) (db_nodes t) \<longleftrightarrow>
      d_IssueID d \<in> t_IssueID ` set rows" for d
  proof -
    have "filter (node_in ?ws ?mid) (db_nodes t) = rows" by (simp add: u(2,9) old new)
    from arg_cong [OF this, of set]
    have "n \<in> set (db_nodes t) \<and> node_in ?ws ?mid n \<longleftrightarrow> n \<in> set rows" for n by auto
    then have "list_ex (\<lambda>n. sql_eq (t_IssueID n) (d_IssueID d) \<and> node_in ?ws ?mid n) (db_nodes t) \<longleftrightarrow>
        (\<exists>n \<in> set rows. sql_eq (t_IssueID n) (d_IssueID d))" unfolding list_ex_iff by blast
    also have "\<dots> \<longleftrightarrow> d_IssueID d \<in> t_IssueID ` set rows"
    proof -
      have "None \<notin> t_IssueID ` set rows" using u(5) by (simp add: planned_rows_def)
      then show ?thesis unfolding sql_eq_def image_iff by metis
    qed
    finally show ?thesis .
  qed
  define listed where "listed = sort_key dependency_order
      (filter (\<lambda>d. d_IssueID d \<in> t_IssueID ` set rows) (db_dependencies t))"
  have listed: "ListOrchestrationIssueDependencies ?ws ?mid t = Inr (listed, t)"
    by (simp only: ListOrchestrationIssueDependencies_def in_rows listed_def tx_query_apply)
  have old_deps: "d_IssueID d \<notin> t_IssueID ` set rows" if "d \<in> set (db_dependencies s)" for d
  proof -
    have "linked (owners s) d" using m that by (simp add: mirrored_def)
    then show ?thesis using u(4) by (auto simp: linked_def owners_def)
  qed
  have "db_dependencies t = db_dependencies s @ deps" using u(3,8) by (simp add: graph_kept_def)
  then have set_listed: "set listed = set deps" using old_deps edges(2) by (auto simp: listed_def)
  have keys: "map t_NodeKey rows = map pn_Key (plan_Nodes ?plan)" "distinct (map pn_Key (plan_Nodes ?plan))"
    using planned_keys [OF u(5)] ok by (simp_all add: plan_ok_def)
  have set_nodes: "set nodes = set rows" by (simp add: nodes_def)
  have fresh: "fresh_rows nodes"
    unfolding fresh_rows_def
  proof (intro conjI ballI)
    have "sorted (map node_order nodes)" by (simp add: nodes_def)
    moreover have "map node_order nodes = map (\<lambda>k. (0, env_now \<epsilon>, k)) (map t_NodeKey nodes)"
      using u(6) set_nodes by (auto simp: node_order_def)
    ultimately have "sorted (map (\<lambda>k. (0::int, env_now \<epsilon>, k)) (map t_NodeKey nodes))" by simp
    then show "sorted (map t_NodeKey nodes)" by (simp add: sorted_iff_nth_mono)
    have "mset (map t_NodeKey nodes) = mset (map t_NodeKey rows)" by (simp add: nodes_def)
    then show "distinct (map t_NodeKey nodes)" using keys by (metis mset_eq_imp_distinct_iff)
    fix n assume n: "n \<in> set nodes"
    then show "t_Status n = TaskStatusPending" "t_Priority n = 0" using u(6) set_nodes by auto
    have "t_NodeKey n \<in> pn_Key ` set (plan_Nodes ?plan)" using n set_nodes keys(1) by (metis image_eqI list.set_map)
    then show "\<not> blank (t_NodeKey n)" using ok key_not_blank by (auto simp: plan_ok_def node_ok_def)
  qed
  have "\<forall>d \<in> set listed. keys_by_id nodes (d_DependsOnIssueID d) \<noteq> None"
  proof
    fix d assume "d \<in> set listed"
    then have "d_DependsOnIssueID d \<in> t_IssueID ` set nodes" using edges(3) set_listed set_nodes by auto
    then show "keys_by_id nodes (d_DependsOnIssueID d) \<noteq> None"
      unfolding keys_by_id_def map_of_eq_None_iff by (auto simp: image_image)
  qed
  then obtain pairs where pairs: "dependency_keys (keys_by_id nodes) listed = Inr pairs"
    by (simp add: dependency_keys_Inr)
  have limit: "1 \<le> MaxParallelRuns (plan_Limits ?plan)"
    using ok by (simp add: plan_ok_def limits_ok_def limit_ok_def)
  have "map t_NodeKey (filter (\<lambda>n. t_IssueID n \<notin> d_IssueID ` set listed) nodes) = root_keys ?plan"
    unfolding root_keys_def
  proof (rule sorted_distinct_set_unique)
    show "sorted (map t_NodeKey (filter (\<lambda>n. t_IssueID n \<notin> d_IssueID ` set listed) nodes))"
      using fresh by (simp add: fresh_rows_def sorted_filter)
    show "distinct (map t_NodeKey (filter (\<lambda>n. t_IssueID n \<notin> d_IssueID ` set listed) nodes))"
      using fresh by (simp add: fresh_rows_def distinct_map_filter)
    show "distinct (sort (map pn_Key (filter (\<lambda>n. pn_DependsOn n = []) (plan_Nodes ?plan))))"
      using keys(2) by (simp add: distinct_map_filter)
    have "t_NodeKey ` set rows = pn_Key ` set (plan_Nodes ?plan)" using keys(1) by (metis list.set_map)
    then show "set (map t_NodeKey (filter (\<lambda>n. t_IssueID n \<notin> d_IssueID ` set listed) nodes)) =
        set (sort (map pn_Key (filter (\<lambda>n. pn_DependsOn n = []) (plan_Nodes ?plan))))"
    proof -
      let ?R = "pn_Key ` set (filter (\<lambda>n. pn_DependsOn n = []) (plan_Nodes ?plan))"
      have "t_NodeKey ` {r \<in> set rows. t_IssueID r \<notin> d_IssueID ` set deps} = t_NodeKey ` set rows \<inter> ?R"
        using planned_roots [OF u(5) ok u(7)] by blast
      moreover have "?R \<subseteq> t_NodeKey ` set rows"
        using \<open>t_NodeKey ` set rows = pn_Key ` set (plan_Nodes ?plan)\<close> by auto
      ultimately show ?thesis by (auto simp: set_nodes set_listed)
    qed
  qed simp
  then show ?thesis
    using nodes listed initial_ready [OF fresh pairs limit] u(10)
    by (auto simp: accepted_row_def touch_mission_def)
qed

lemma reads_validatePlanProposalSource: "reads (validatePlanProposalSource params mission)"
  unfolding validatePlanProposalSource_def GetArtifactInWorkspace_def GetOrchestrationRunInWorkspace_def
    GetOrchestrationAssignmentInWorkspace_def
  by (intro unchanged.rules)

lemma SubmitPlan_repo_wrote:
  assumes "SubmitPlan_repo \<epsilon> params s = Inr (r, t)" and "\<not> spr_Idempotent r"
  obtains key source root planning where "SubmitPlan_write \<epsilon> params key source root planning s = Inr (r, t)"
proof -
  obtain key where "SubmitPlan_body \<epsilon> params key s = Inr (r, t)"
    using assms by (auto simp: SubmitPlan_repo_def recorded_command_def dest: load_idempotent
        split: option.splits sum.splits if_splits)
  then obtain source root planning s' where
      w: "SubmitPlan_write \<epsilon> params key source root planning s' = Inr (r, t)" and "s' = s"
    using assms(2)
    by (fastforce simp: SubmitPlan_body_def Let_def replay_or_def LockMissionInWorkspace_def
        GetMissionInWorkspace_def GetIssueInWorkspace_def dest: load_idempotent
        obeysD [OF reads_validatePlanProposalSource] split: if_splits option.splits)
  then show thesis using that by simp
qed

lemma submit_then_ready:
  assumes m: "mirrored hard s" and w: "SubmitPlan \<epsilon> hard c s = Inr (r, t)" and n: "\<not> spr_Idempotent r"
  shows "\<exists>nodes deps. ListTaskNodesByMission (sp_WorkspaceID c) (sp_MissionID c) t = Inr (nodes, t) \<and>
    ListOrchestrationIssueDependencies (sp_WorkspaceID c) (sp_MissionID c) t = Inr (deps, t) \<and>
    m_Limits (spr_Mission r) = plan_Limits (sp_Plan c) \<and>
    initialReadyNodeKeys nodes deps (MaxParallelRuns (plan_Limits (sp_Plan c))) =
      Inr (take (nat (MaxParallelRuns (plan_Limits (sp_Plan c)))) (root_keys (sp_Plan c)))"
proof -
  obtain p where p: "SubmitPlan_repo \<epsilon> p s = Inr (r, t)" "sp_Plan p = sp_Plan c"
      "sp_MissionID p = sp_MissionID c" "sp_WorkspaceID p = sp_WorkspaceID c"
    and ok: "ValidatePlan (sp_Plan c) (uuidText (sp_MissionID c)) hard = []"
    and v: "sp_WorkspaceID c \<noteq> None" "sp_MissionID c \<noteq> None"
    using w by (fastforce simp: SubmitPlan_def Let_def requireOwner_Inr dest: identity_workspace)
  obtain key source root planning where "SubmitPlan_write \<epsilon> p key source root planning s = Inr (r, t)"
    using SubmitPlan_repo_wrote [OF p(1) n] .
  from write_then_ready [OF m _ this] show ?thesis
    using ok v by (simp add: p ValidatePlan_Nil_iff)
qed

lemma roots_exist: "plan_ok plan mission hard \<Longrightarrow> root_keys plan \<noteq> []"
proof -
  assume "plan_ok plan mission hard"
  then have "set (root_keys plan) \<noteq> {}" by (auto simp: root_keys_def plan_ok_def)
  then show ?thesis by (metis set_empty)
qed

end
