(* ===== verification/CancelEffect.thy ===== *)
theory CancelEffect
  imports LifecycleLaws
begin

text \<open>
  What cancelling leaves behind: the mission cancelled at the next revision, none of its task nodes
  open and none of its assignments active, whatever state they were in.  Runs are left to the
  execution gateway, which is asked to stop the ones the command returns.
\<close>

definition mission_facts :: "MissionRow \<Rightarrow> uuid \<times> uuid \<times> MissionStatus \<times> int" where
  "mission_facts m = (m_IssueID m, m_WorkspaceID m, m_Status m, m_Revision m)"

text \<open>Logging and reading leave the statuses alone.\<close>

definition still :: "db \<Rightarrow> db \<Rightarrow> bool" where
  "still s t \<longleftrightarrow> map mission_facts (db_missions t) = map mission_facts (db_missions s) \<and>
     db_nodes t = db_nodes s \<and> db_assignments t = db_assignments s \<and> db_runs t = db_runs s"

interpretation standstill: tx_preorder still
  by unfold_locales (simp_all add: still_def)

lemma still_allocate: "obeys still (allocateActivitySequence \<epsilon> ws mid)"
  by (rule obeysI) (auto dest!: allocate_Inr simp: still_def update_rows_def mission_facts_def)

lemma still_log_activity:
  "obeys still (log_activity \<epsilon> m1 m2 a)" "obeys still (log_command_activity \<epsilon> m1 m2 a)"
proof -
  have c: "obeys still (CreateOrchestrationActivity \<epsilon> row)" for row
    by (rule obeysI) (auto simp: create_activity_Inr still_def)
  then show "obeys still (log_activity \<epsilon> m1 m2 a)"
    unfolding log_activity_def by (intro standstill.rules still_allocate)
  have "obeys still (tx_race msg (CreateOrchestrationActivity \<epsilon> row))" for msg row
    using c by (auto simp: obeys_def)
  then show "obeys still (log_command_activity \<epsilon> m1 m2 a)"
    unfolding log_command_activity_def by (intro standstill.rules still_allocate)
qed

lemma still_UpdateIssueStatus: "obeys still (UpdateIssueStatus ws iid st)"
  by (rule obeysI) (auto simp: UpdateIssueStatus_def tx_update_Inr still_def)

lemma find_mission_facts:
  assumes "map mission_facts ys = map mission_facts xs"
  shows "map_option mission_facts (find (mission_is ws mid) ys) = map_option mission_facts (find (mission_is ws mid) xs)"
  using assms
proof (induction xs arbitrary: ys)
  case (Cons x xs)
  then obtain y zs where y: "ys = y # zs" "mission_facts y = mission_facts x" "map mission_facts zs = map mission_facts xs"
    by (cases ys) auto
  moreover have "mission_is ws mid y = mission_is ws mid x"
    using y(2) by (simp add: mission_facts_def mission_is_def)
  ultimately show ?case using Cons.IH [OF y(3)] by simp
qed simp

section \<open>The cancelled mission\<close>

definition wound_up :: "uuid \<Rightarrow> uuid \<Rightarrow> int \<Rightarrow> db \<Rightarrow> bool" where
  "wound_up ws mid revision s \<longleftrightarrow>
     map_option mission_facts (find (mission_is ws mid) (db_missions s)) =
       Some (mid, ws, MissionStatusCancelled, revision) \<and>
     list_all (\<lambda>n. isTerminalTaskStatus (t_Status n)) (filter (node_in ws mid) (db_nodes s)) \<and>
     list_all (\<lambda>a. a_Status a \<noteq> AssignmentStatusActive) (filter (assignment_in ws mid) (db_assignments s))"

lemma wound_up_still: "still s t \<Longrightarrow> wound_up ws mid r s \<Longrightarrow> wound_up ws mid r t"
  using find_mission_facts [of "db_missions t" "db_missions s" ws mid] by (simp add: wound_up_def still_def)

lemma find_update_unique:
  assumes "distinct (map m_IssueID ms)" and "find (\<lambda>m. mission_is ws mid m \<and> Q m) ms = Some m"
    and "\<And>m. m_IssueID (f m) = m_IssueID m \<and> m_WorkspaceID (f m) = m_WorkspaceID m"
  shows "find (mission_is ws mid) (update_rows (\<lambda>m. mission_is ws mid m \<and> Q m) f ms) = Some (f m)"
  using assms(1,2)
proof (induction ms)
  case (Cons x xs)
  show ?case
  proof (cases "mission_is ws mid x \<and> Q x")
    case True
    then show ?thesis using Cons.prems assms(3) [of x] by (simp add: update_rows_def mission_is_def)
  next
    case False
    then have m: "find (\<lambda>m. mission_is ws mid m \<and> Q m) xs = Some m" using Cons.prems by (auto split: if_splits)
    then have "m \<in> set xs" "mission_is ws mid m" using find_SomeD by fastforce+
    then have "\<not> mission_is ws mid x" using Cons.prems(1) by (auto simp: mission_is_def sql_eq_def)
    then show ?thesis using Cons.IH m Cons.prems(1) by (simp add: update_rows_def)
  qed
qed simp

lemma CancelMission_write_winds_up:
  assumes w: "CancelMission_write \<epsilon> params key s = Inr (r, t)" and d: "distinct (map m_IssueID (db_missions s))"
  shows "wound_up (ca_WorkspaceID params) (ca_MissionID params) (ca_ExpectedRevision params + 1) t \<and>
    \<not> car_Idempotent r"
proof -
  let ?ws = "ca_WorkspaceID params" and ?mid = "ca_MissionID params"
  obtain m s1 i s2 ns s3 as s4 runs row s5 acts where
      a1: "CancelMissionRecord \<epsilon> ?ws ?mid (ca_ExpectedRevision params) s = Inr (m, s1)"
    and a2: "UpdateIssueStatus ?ws ?mid ''cancelled'' s1 = Inr (i, s2)"
    and a3: "CancelMissionTaskNodes \<epsilon> ?ws ?mid s2 = Inr (ns, s3)"
    and a4: "RevokeMissionAssignments \<epsilon> ?ws ?mid s3 = Inr (as, s4)"
    and a5: "log_command_activity \<epsilon> ''cancel mission'' ''cancel mission: create activity''
        \<lparr>as_WorkspaceID = ?ws, as_MissionID = ?mid, as_TaskNodeID = None, as_RunID = None,
         as_Type = ''mission.cancelled'', as_ActorType = ''user'',
         as_ActorID = ca_ActorID params, as_SubjectType = ''mission'', as_SubjectID = ?mid,
         as_CausationID = ca_CommandID params,
         as_CorrelationID = correlationOrCommand (ca_CorrelationID params) (ca_CommandID params),
         as_Payload = JObj (json_omit ''reason'' (ca_Reason params)), as_DedupeKey = key\<rparr> s4 = Inr (row, s5)"
    and a6: "tx_map (cancel_node_activity \<epsilon> params key) (sort_key t_NodeKey ns) s5 = Inr (acts, t)"
    and r: "\<not> car_Idempotent r"
    using w unfolding CancelMission_write_def Let_def ListTaskNodesByMission_def ListActiveMissionRuns_def
    by (auto simp del: tx_map.simps)
  let ?Q = "\<lambda>m. m_Status m \<in> {MissionStatusDraft, MissionStatusReady, MissionStatusRunning, MissionStatusBlocked} \<and>
      m_Revision m = ca_ExpectedRevision params"
  let ?f = "\<lambda>m. touch_mission \<epsilon> (m\<lparr>m_Status := MissionStatusCancelled\<rparr>)"
  obtain m0 where m0: "find (\<lambda>m. mission_is ?ws ?mid m \<and> ?Q m) (db_missions s) = Some m0"
      "s1 = s\<lparr>db_missions := update_rows (\<lambda>m. mission_is ?ws ?mid m \<and> ?Q m) ?f (db_missions s)\<rparr>"
    using a1 by (auto simp: CancelMissionRecord_def update_mission_def tx_update_Inr)
  have "find (mission_is ?ws ?mid) (db_missions s1) = Some (?f m0)"
    using find_update_unique [OF d m0(1), of ?f] by (simp add: m0(2) touch_mission_def)
  moreover have "mission_facts (?f m0) = (?mid, ?ws, MissionStatusCancelled, ca_ExpectedRevision params + 1)"
    using find_SomeD [OF m0(1)] by (auto simp: mission_facts_def touch_mission_def mission_is_def sql_eq_def)
  moreover have "db_missions s2 = db_missions s1" using a2 by (auto simp: UpdateIssueStatus_def tx_update_Inr)
  ultimately have "wound_up ?ws ?mid (ca_ExpectedRevision params + 1) s4"
    using a3 a4
    by (auto simp: wound_up_def CancelMissionTaskNodes_def RevokeMissionAssignments_def Let_def list_all_iff
        update_rows_def touch_node_def isTerminalTaskStatus_def node_in_def assignment_in_def)
  moreover have "still s4 s5" using still_log_activity(2) a5 by (rule obeysD)
  moreover have "still s5 t"
    using a6 by (rule obeysD [rotated])
      (auto simp: cancel_node_activity_def intro!: standstill.map still_log_activity)
  ultimately show ?thesis using r wound_up_still standstill.R_trans by blast
qed

lemma CancelMission_winds_up:
  assumes "CancelMission \<epsilon> command s = Inr (r, t)" and "\<not> car_Idempotent r"
    and "distinct (map m_IssueID (db_missions s))"
  shows "wound_up (ca_WorkspaceID command) (ca_MissionID command) (ca_ExpectedRevision command + 1) t"
proof -
  let ?p = "command\<lparr>ca_Reason := TrimSpace (ca_Reason command)\<rparr>"
  have "CancelMission_repo \<epsilon> ?p s = Inr (r, t)"
    using assms(1) by (auto simp: CancelMission_def Let_def requireOwner_Inr)
  then obtain key where "CancelMission_body \<epsilon> ?p key s = Inr (r, t)"
    using assms(2) by (auto simp: CancelMission_repo_def recorded_command_def dest: load_idempotent
        split: option.splits sum.splits if_splits)
  then have "CancelMission_write \<epsilon> ?p key s = Inr (r, t)"
    using assms(2) by (auto simp: CancelMission_body_def Let_def replay_or_def LockMissionInWorkspace_def
        GetMissionInWorkspace_def dest: load_idempotent split: if_splits option.splits)
  from CancelMission_write_winds_up [OF this assms(3)] show ?thesis by simp
qed

end
