(* ===== verification/Commands.thy ===== *)
theory Commands
  imports PlanProgress CancelEffect
begin

text \<open>
  The service as a whole: its six commands of one transaction as one type, \<open>execute\<close> that carries one out,
  and the states it can reach, each command at its own time.  The invariants of the single commands become invariants
  of every reachable state by rule induction.
\<close>

datatype command =
    Create CreateMissionParams
  | Submit SubmitPlanParams
  | SubmitProposal SubmitPlanProposalCommand
  | Start StartMissionParams
  | Cancel CancelMissionParams
  | Profile CreateRoleProfileVersionParams

text \<open>The result is the \<open>Idempotent\<close> flag of the command's result.  These are the commands that are one
  transaction: a cancellation ends here at its commit, the loop that then stops the executions being part of
  \<open>CancelMission_stopping\<close>, and the commands that advance the mission afterwards are events of
  \<open>System\<close>.\<close>

fun execute :: "env \<Rightarrow> PlanLimits \<Rightarrow> command \<Rightarrow> bool tx" where
  "execute \<epsilon> hard (Create c) = tx_bind (CreateMission \<epsilon> hard c) (\<lambda>r. tx_return (cmr_Idempotent r))"
| "execute \<epsilon> hard (Submit c) = tx_bind (SubmitPlan \<epsilon> hard c) (\<lambda>r. tx_return (spr_Idempotent r))"
| "execute \<epsilon> hard (SubmitProposal c) =
     tx_bind (SubmitPlanProposal \<epsilon> hard c) (\<lambda>r. tx_return (spr_Idempotent r))"
| "execute \<epsilon> hard (Start c) = tx_bind (StartMission \<epsilon> c) (\<lambda>r. tx_return (smr_Idempotent r))"
| "execute \<epsilon> hard (Cancel c) = tx_bind (CancelMission \<epsilon> c) (\<lambda>r. tx_return (car_Idempotent r))"
| "execute \<epsilon> hard (Profile c) =
     tx_bind (CreateRoleProfileVersion \<epsilon> c) (\<lambda>r. tx_return (crr_Idempotent r))"

text \<open>The database after a command, which is the one before it when the command failed.\<close>

definition after :: "'a tx \<Rightarrow> db \<Rightarrow> db" where
  "after act s = (case act s of Inl e \<Rightarrow> s | Inr (a, t) \<Rightarrow> t)"

inductive reaches :: "env \<Rightarrow> PlanLimits \<Rightarrow> db \<Rightarrow> db \<Rightarrow> bool" for \<epsilon> hard s where
  start: "reaches \<epsilon> hard s s"
| step: "reaches \<epsilon> hard s t \<Longrightarrow> reaches \<epsilon> hard s (after (execute (\<epsilon>\<lparr>env_now := now\<rparr>) hard c) t)"

text \<open>A run of commands, each with its time.\<close>

definition execute_all :: "env \<Rightarrow> PlanLimits \<Rightarrow> (time \<times> command) list \<Rightarrow> db \<Rightarrow> db" where
  "execute_all \<epsilon> hard cs s = fold (\<lambda>(now, c). after (execute (\<epsilon>\<lparr>env_now := now\<rparr>) hard c)) cs s"

lemma reaches_execute_all: "reaches \<epsilon> hard s (execute_all \<epsilon> hard cs s)"
proof -
  have "reaches \<epsilon> hard s t \<Longrightarrow> reaches \<epsilon> hard s (execute_all \<epsilon> hard cs t)" for t
    by (induction cs arbitrary: t) (auto simp: execute_all_def intro: reaches.step)
  then show ?thesis by (simp add: reaches.start)
qed

section \<open>Invariants of reachable states\<close>

lemma after_obeys:
  assumes "obeys R act" and "R s s" shows "R s (after act s)"
  using assms by (auto simp: after_def dest: obeysD split: sum.splits)

lemma reaches_preorder:
  assumes "reaches \<epsilon> hard s t" and "\<And>now c. obeys R (execute (\<epsilon>\<lparr>env_now := now\<rparr>) hard c)"
    and "\<And>s. R s s" and "\<And>s t u. R s t \<Longrightarrow> R t u \<Longrightarrow> R s u"
  shows "R s t"
  using assms(1)
proof induction
  case start
  show ?case by (rule assms(3))
next
  case (step t now c)
  have "R t (after (execute (\<epsilon>\<lparr>env_now := now\<rparr>) hard c) t)" by (rule after_obeys [OF assms(2,3)])
  with step.IH show ?case by (rule assms(4))
qed

lemma execute_history: "obeys history (execute \<epsilon> hard c)"
  by (cases c) (auto intro!: past.bind past.return history_CreateMission history_SubmitPlan
      history_StartMission history_CancelMission history_CreateRoleProfileVersion)

lemma execute_log: "obeys (preserves log_ok) (execute \<epsilon> hard c)"
  by (cases c) (auto intro!: preserved.bind preserved.return log_CreateMission log_SubmitPlan
      log_StartMission log_CancelMission log_CreateRoleProfileVersion)

lemma reaches_history: "reaches \<epsilon> hard s t \<Longrightarrow> history s t"
  by (rule reaches_preorder [where R = history]) (auto intro: execute_history past.R_refl past.R_trans)

lemma reaches_log: "reaches \<epsilon> hard s t \<Longrightarrow> log_ok s \<Longrightarrow> log_ok t"
  using reaches_preorder [where R = "preserves log_ok"] execute_log preserved.R_refl preserved.R_trans
  by (metis preserves_def)

lemma execute_mirror: "obeys (preserves (mirrored hard)) (execute \<epsilon> hard c)"
  by (cases c) (auto intro!: preserved.bind preserved.return mirrored_CreateMission mirrored_SubmitPlan
      mirrored_SubmitPlanProposal graph_StartMission [THEN mirrored_obeys]
      graph_CancelMission [THEN mirrored_obeys] graph_CreateRoleProfileVersion [THEN mirrored_obeys])

lemma reaches_mirrored: "reaches \<epsilon> hard s t \<Longrightarrow> mirrored hard s \<Longrightarrow> mirrored hard t"
  using reaches_preorder [where R = "preserves (mirrored hard)"] execute_mirror preserved.R_refl preserved.R_trans
  by (metis preserves_def)

section \<open>Repeating a command\<close>

text \<open>Where a command that succeeded is recorded: in the log, or, for a profile, in its row.\<close>

fun completed :: "command \<Rightarrow> db \<Rightarrow> bool" where
  "completed (Create c) t \<longleftrightarrow> recorded_in t (cm_WorkspaceID c) (cm_CommandID c)"
| "completed (Submit c) t \<longleftrightarrow> recorded_in t (sp_WorkspaceID c) (sp_CommandID c)"
| "completed (SubmitProposal c) t \<longleftrightarrow> recorded_in t (spc_WorkspaceID c) (spc_CommandID c)"
| "completed (Start c) t \<longleftrightarrow> recorded_in t (st_WorkspaceID c) (st_CommandID c)"
| "completed (Cancel c) t \<longleftrightarrow> recorded_in t (ca_WorkspaceID c) (ca_CommandID c)"
| "completed (Profile c) t \<longleftrightarrow>
     GetRoleProfileVersionByCommand (crp_WorkspaceID c) (crp_CommandID c) t \<noteq> None"

lemma profile_by_command_stays:
  assumes "GetRoleProfileVersionByCommand ws c s = Some row" and "history s t"
  shows "GetRoleProfileVersionByCommand ws c t = Some row"
  using assms by (auto simp: GetRoleProfileVersionByCommand_def history_def intro: find_prefix)

lemma completed_stays: "completed c s \<Longrightarrow> history s t \<Longrightarrow> completed c t"
  by (cases c) (auto dest: recorded_history profile_by_command_stays)

lemma completed_Profile:
  assumes "CreateRoleProfileVersion \<epsilon> c s = Inr (r, t)"
  shows "completed (Profile c) t"
proof -
  obtain p where p: "CreateRoleProfileVersion_repo \<epsilon> p s = Inr (r, t)"
      "crp_WorkspaceID p = crp_WorkspaceID c" "crp_CommandID p = crp_CommandID c"
    and v: "validUUID (crp_WorkspaceID c)" "validUUID (crp_CommandID c)"
    using CreateRoleProfileVersion_Inr [OF assms] by metis
  show ?thesis
  proof (cases "GetRoleProfileVersionByCommand (crp_WorkspaceID c) (crp_CommandID c) s")
    case (Some row)
    with p(1) show ?thesis by (auto simp: CreateRoleProfileVersion_repo_def p(2,3))
  next
    case None
    then obtain row where "db_profiles t = db_profiles s @ [row]" "rp_WorkspaceID row = crp_WorkspaceID c"
        "rp_CommandID row = crp_CommandID c"
      using p by (auto simp: CreateRoleProfileVersion_repo_def CreateRoleProfileVersion_row_def
          tx_insert_Inr GetNextRoleProfileVersion_def draw_uuid_def)
    then show ?thesis using None v
      by (auto simp: GetRoleProfileVersionByCommand_def find_append_None sql_eq_def dest!: validUUID_not_None)
  qed
qed

lemma completed_log:
  "CreateMission \<epsilon> hard c1 s = Inr (r1, t) \<Longrightarrow> completed (Create c1) t"
  "SubmitPlan \<epsilon> hard c2 s = Inr (r2, t) \<Longrightarrow> completed (Submit c2) t"
  "SubmitPlanProposal \<epsilon> hard c3 s = Inr (r2, t) \<Longrightarrow> completed (SubmitProposal c3) t"
  "StartMission \<epsilon> c4 s = Inr (r4, t) \<Longrightarrow> completed (Start c4) t"
  "CancelMission \<epsilon> c5 s = Inr (r5, t) \<Longrightarrow> completed (Cancel c5) t"
proof -
  show "CreateMission \<epsilon> hard c1 s = Inr (r1, t) \<Longrightarrow> completed (Create c1) t"
    by (auto simp: CreateMission_def Let_def requireOwner_Inr dest!: repo_recorded(1) identity_workspace)
  show "SubmitPlan \<epsilon> hard c2 s = Inr (r2, t) \<Longrightarrow> completed (Submit c2) t"
    by (auto simp: SubmitPlan_def Let_def requireOwner_Inr dest!: repo_recorded(2) identity_workspace)
  show "SubmitPlanProposal \<epsilon> hard c3 s = Inr (r2, t) \<Longrightarrow> completed (SubmitProposal c3) t"
    using SubmitPlanProposal_Inr [of \<epsilon> hard c3 s r2 t]
    by (auto dest!: repo_recorded(2) identity_workspace)
  show "StartMission \<epsilon> c4 s = Inr (r4, t) \<Longrightarrow> completed (Start c4) t"
    by (auto simp: StartMission_def Let_def requireOwner_Inr dest!: StartMission_repo_recorded identity_workspace
        split: prod.splits)
  show "CancelMission \<epsilon> c5 s = Inr (r5, t) \<Longrightarrow> completed (Cancel c5) t"
    by (auto simp: CancelMission_def Let_def requireOwner_Inr dest!: repo_recorded(3) identity_workspace)
qed

lemma execute_completed: "execute \<epsilon> hard c s = Inr (b, t) \<Longrightarrow> completed c t"
  by (cases c) (auto simp del: completed.simps intro: completed_log completed_Profile)

lemma completed_replays:
  assumes "completed c u" and "execute \<epsilon> hard c u = Inr (b, v)"
  shows "v = u \<and> b"
  using assms
proof (cases c)
  case (Create c)
  then show ?thesis using assms
    by (auto simp: CreateMission_def Let_def requireOwner_Inr dest!: repo_replays(1) [rotated])
next
  case (Submit c)
  then show ?thesis using assms
    by (auto simp: SubmitPlan_def Let_def requireOwner_Inr dest!: repo_replays(2) [rotated])
next
  case (SubmitProposal c)
  then show ?thesis using assms
    by (auto dest!: SubmitPlanProposal_Inr repo_replays(2) [rotated])
next
  case (Start c)
  then show ?thesis using assms
    by (auto simp: StartMission_def Let_def requireOwner_Inr dest!: StartMission_repo_replays [rotated]
        split: prod.splits)
next
  case (Cancel c)
  then show ?thesis using assms
    by (auto simp: CancelMission_def Let_def requireOwner_Inr dest!: repo_replays(3) [rotated])
next
  case (Profile c)
  then obtain r where "CreateRoleProfileVersion \<epsilon> c u = Inr (r, v)" "b = crr_Idempotent r"
    using assms(2) by auto
  moreover from CreateRoleProfileVersion_Inr [OF this(1)] obtain p where
      "CreateRoleProfileVersion_repo \<epsilon> p u = Inr (r, v)" "crp_WorkspaceID p = crp_WorkspaceID c"
      "crp_CommandID p = crp_CommandID c" by metis
  ultimately show ?thesis
    using assms(1) Profile by (auto simp: CreateRoleProfileVersion_repo_def)
qed

lemma repeat_unchanged:
  assumes "execute \<epsilon> hard c s = Inr (b, t)" and "history t u"
  shows "after (execute \<epsilon>' hard' c) u = u"
proof -
  have "completed c u" using execute_completed [OF assms(1)] assms(2) by (rule completed_stays)
  then have "\<forall>d v. execute \<epsilon>' hard' c u = Inr (d, v) \<longrightarrow> v = u"
    using completed_replays by blast
  then show ?thesis by (simp add: after_def split: sum.splits prod.splits)
qed

end
