(* ===== verification/System.thy ===== *)
theory System
  imports Stopping Commands
begin

text \<open>
  The whole subsystem as a state machine: the commands of the service, the orchestrator's step, the
  batches of the reconciler, and what other parts of the server do to the tables the orchestrator only
  reads.  \<open>system_queries\<close> is the interface between the queries and the state machine: a relation that
  every query respects is respected by every event.
\<close>

section \<open>Events\<close>

text \<open>\<open>Command (Cancel c)\<close> is a cancellation whose process ended between the commit and the cancellation of
  the executions.\<close>

datatype event =
    Command command
  | CancelAndStop CancelMissionParams
  | AskPlan RequestPlanParams
  | EditProposal EditPlanProposalCommand
  | RejectProposal RejectPlanProposalCommand
  | RetryNode RetryTaskNodeParams
  | ResolveGate ResolveHumanGateParams
  | ApproveBudget ApproveMissionBudgetParams
  | ReportArtifact RecordArtifactCommand
  | ReportVerdict RecordReviewVerdictCommand
  | SendMessage string SendMailboxMessageCommand
  | MoveMessage TransitionMailboxMessageCommand
  | Advance AdvanceMissionCommand
  | Sweep "nat \<Rightarrow> time" int ReconcileCursor

definition finish :: "'a tx \<Rightarrow> unit tx" where
  "finish act = tx_bind act (\<lambda>_. tx_return ())"

fun handle :: "env \<Rightarrow> PlanLimits \<Rightarrow> time \<Rightarrow> event \<Rightarrow> unit tx" where
  "handle \<epsilon> hard now (Command c) = finish (execute \<epsilon> hard c)"
| "handle \<epsilon> hard now (CancelAndStop c) = finish (CancelMission_stopping \<epsilon> c)"
| "handle \<epsilon> hard now (AskPlan c) = finish (RequestPlan \<epsilon> now c)"
| "handle \<epsilon> hard now (EditProposal c) = finish (EditPlanProposal \<epsilon> hard c)"
| "handle \<epsilon> hard now (RejectProposal c) = finish (RejectPlanProposal \<epsilon> c)"
| "handle \<epsilon> hard now (RetryNode c) = finish (RetryTaskNode \<epsilon> now c)"
| "handle \<epsilon> hard now (ResolveGate c) = finish (ResolveHumanGate \<epsilon> now c)"
| "handle \<epsilon> hard now (ApproveBudget c) = finish (ApproveMissionBudget \<epsilon> now c)"
| "handle \<epsilon> hard now (ReportArtifact c) = finish (RecordArtifact \<epsilon> now c)"
| "handle \<epsilon> hard now (ReportVerdict c) = finish (RecordReviewVerdict \<epsilon> now c)"
| "handle \<epsilon> hard now (SendMessage newID c) = finish (SendMailboxMessage \<epsilon> newID now c)"
| "handle \<epsilon> hard now (MoveMessage c) = finish (TransitionMailboxMessage \<epsilon> now c)"
| "handle \<epsilon> hard now (Advance c) = finish (AdvanceMission \<epsilon> now c)"
| "handle \<epsilon> hard now (Sweep clock batch cursor) = finish (ReconcileBatch \<epsilon> clock batch cursor)"

text \<open>What the rest of the server may change: the issues, the agents and their runtimes, the members, the
  usage, and the progress of agent tasks; it adds tasks without a run and removes no agent.  It deletes no
  issue and no workspace: with an issue (\<open>DeleteIssue\<close>) the database deletes its dependencies and tasks,
  while the rows of its mission stay, so what holds along \<open>evolves\<close> holds up to such a deletion.\<close>

definition outside :: "db \<Rightarrow> db \<Rightarrow> bool" where
  "outside s t \<longleftrightarrow>
     db_missions t = db_missions s \<and> db_nodes t = db_nodes s \<and> db_dependencies t = db_dependencies s \<and>
     db_assignments t = db_assignments s \<and> db_runs t = db_runs s \<and> db_artifacts t = db_artifacts s \<and>
     db_verdicts t = db_verdicts s \<and> db_activities t = db_activities s \<and> db_gates t = db_gates s \<and>
     db_mailbox t = db_mailbox s \<and> db_profiles t = db_profiles s \<and> db_snapshots t = db_snapshots s \<and>
     set (agent_places s) \<subseteq> set (agent_places t) \<and>
     rows_evolve same_task_row (db_tasks s) (db_tasks t) \<and>
     list_all (\<lambda>q. q_OrchestrationRunID q = None) (drop (length (db_tasks s)) (db_tasks t))"

inductive evolves :: "env \<Rightarrow> PlanLimits \<Rightarrow> db \<Rightarrow> db \<Rightarrow> bool" for \<epsilon> hard s where
  begins: "evolves \<epsilon> hard s s"
| event: "evolves \<epsilon> hard s t \<Longrightarrow> evolves \<epsilon> hard s (after (handle (\<epsilon>\<lparr>env_now := dbnow\<rparr>) hard now e) t)"
| other: "evolves \<epsilon> hard s t \<Longrightarrow> outside t u \<Longrightarrow> evolves \<epsilon> hard s u"

lemma finish_after: "after (finish act) s = after act s"
  by (simp add: after_def finish_def tx_bind_def split: sum.splits prod.splits)

lemma reaches_evolves: "reaches \<epsilon> hard s t \<Longrightarrow> evolves \<epsilon> hard s t"
proof (induction rule: reaches.induct)
  case (step t now c)
  from evolves.event [OF step.IH, of now now "Command c"] show ?case by (simp add: finish_after)
qed (rule evolves.begins)

section \<open>One interface for all events\<close>

context reconciler_queries begin

lemma handle_other:
  assumes "\<And>c. e \<noteq> Command c" "\<And>c. e \<noteq> CancelAndStop c" shows "obeys R (handle \<epsilon> hard now e)"
proof (cases e)
  case (Command c)
  with assms show ?thesis by blast
next
  case (CancelAndStop c)
  with assms show ?thesis by blast
qed (simp_all add: finish_def, (intro bind return RequestPlan plan_gates RetryTaskNode ResolveHumanGate
      ApproveMissionBudget RecordArtifact RecordReviewVerdict SendMailboxMessage mailbox_transitions
      AdvanceMission ReconcileBatch)+)

end

locale system_queries = reconciler_queries R for R +
  assumes op_counter: "obeys R (IncrementIssueCounter ws)"
    and op_new_issue: "obeys R (CreateIssue \<epsilon> issue)"
    and op_new_mission: "iid \<noteq> None \<Longrightarrow> obeys R (CreateMissionRecord \<epsilon> iid ws limits creator)"
    and op_accept: "obeys R (AcceptMissionPlan \<epsilon> ws mid plan expected)"
    and op_new_node: "obeys R (CreateTaskNodeRecord \<epsilon> iid ws mid node)"
    and op_dependency: "obeys R (CreateOrchestrationIssueDependency nid dep)"
    and op_start: "obeys R (StartMissionRecord \<epsilon> ws mid expected)"
    and op_ready: "obeys R (MarkTaskNodeReady \<epsilon> ws mid nid expected)"
    and op_cancel_mission: "obeys R (CancelMissionRecord \<epsilon> ws mid expected)"
    and op_cancel_nodes: "obeys R (CancelMissionTaskNodes \<epsilon> ws mid)"
    and op_revoke_all: "obeys R (RevokeMissionAssignments \<epsilon> ws mid)"
    and op_profile: "obeys R (CreateRoleProfileVersion_row \<epsilon> prow)"
begin

lemma reads_lifecycle:
  "reads (NextTopPosition ws status)" "reads (GetNextRoleProfileVersion ws key)"
  "reads (ListActiveMissionRuns ws mid)" "reads (validatePlanProposalSource params mission)"
  unfolding NextTopPosition_def GetNextRoleProfileVersion_def ListActiveMissionRuns_def
    validatePlanProposalSource_def by (intro unchanged.rules read_ops)+

lemmas lifecycle_reads = reads_lifecycle [THEN read_only] reads_load [THEN read_only]

lemma new_issue: "obeys R (createOrchestrationIssue \<epsilon> ws title desc status ctype cid parent project)"
  unfolding createOrchestrationIssue_def by (intro rules op_counter op_new_issue lifecycle_reads)

lemma create: "obeys R (CreateMission \<epsilon> hard c)"
  unfolding CreateMission_def CreateMission_repo_def CreateMission_body_def Let_def
  by (intro return fail query guard lift wrap attempt branch optional pair replays bind_result new_issue
      op_new_mission op_log_command lifecycle_reads read_only read_ops)
    (auto dest: createOrchestrationIssue_id)

lemma submit_repo: "obeys R (SubmitPlan_repo \<epsilon> params)"
  unfolding SubmitPlan_repo_def SubmitPlan_body_def SubmitPlan_write_def create_plan_node_def
    create_plan_dependency_def Let_def
  by (intro rules replays op_accept op_end new_issue op_new_node op_dependency op_issue op_log_command
      lifecycle_reads read_only read_ops)

lemma submit: "obeys R (SubmitPlan \<epsilon> hard c)" "obeys R (SubmitPlanProposal \<epsilon> hard pc)"
  unfolding SubmitPlan_def SubmitPlanProposal_def Let_def
  by (intro rules submit_repo read_only read_ops)+

lemma start: "obeys R (StartMission \<epsilon> c)"
  unfolding StartMission_def StartMission_repo_def StartMission_body_def StartMission_write_def
    start_ready_node_def Let_def
  by (intro rules replays obeys_state_case op_start op_issue op_log_command op_log op_ready op_freeze
      lifecycle_reads read_only read_ops)

lemma cancel: "obeys R (CancelMission \<epsilon> c)"
  unfolding CancelMission_def CancelMission_repo_def CancelMission_body_def CancelMission_write_def
    cancel_node_activity_def Let_def
  by (intro rules replays op_cancel_mission op_cancel_nodes op_revoke_all op_issue op_log_command op_log
      lifecycle_reads read_only read_ops)

lemma CancelMission_stopping: "obeys R (CancelMission_stopping \<epsilon> c)"
  unfolding CancelMission_stopping_def by (intro bind return cancel stop_runs)

lemma profile: "obeys R (CreateRoleProfileVersion \<epsilon> c)"
  unfolding CreateRoleProfileVersion_def CreateRoleProfileVersion_repo_def Let_def
  by (intro rules op_profile lifecycle_reads read_only read_ops)

lemma execute: "obeys R (execute \<epsilon> hard c)"
  by (cases c) (simp_all, (intro bind return create submit start cancel profile)+)

lemma handle: "obeys R (handle \<epsilon> hard now e)"
proof (cases "(\<exists>c. e = Command c) \<or> (\<exists>c. e = CancelAndStop c)")
  case True
  then show ?thesis by (auto simp: finish_def intro!: bind return execute CancelMission_stopping)
qed (auto intro: handle_other)

lemma evolves_R:
  assumes "evolves \<epsilon> hard s t" and "\<And>s t. outside s t \<Longrightarrow> R s t" shows "R s t"
  using assms(1)
proof induction
  case begins
  show ?case by (rule R_refl)
next
  case (event t dbnow now e)
  have "R t (after (handle (\<epsilon>\<lparr>env_now := dbnow\<rparr>) hard now e) t)"
    by (rule after_obeys [OF handle R_refl])
  with event.IH show ?case by (rule R_trans)
next
  case (other t u)
  with assms(2) [OF other.hyps(2)] show ?case by (blast intro: R_trans)
qed

end

interpretation system_history: system_queries history
  by unfold_locales (auto intro!: history_ops)

lemma evolves_history: "evolves \<epsilon> hard s t \<Longrightarrow> history s t"
  by (erule system_history.evolves_R) (simp add: outside_def history_simps)

interpretation system_log: system_queries "preserves log_ok"
  by unfold_locales (auto intro!: log_ops log_CreateMissionRecord)

lemma evolves_log: "evolves \<epsilon> hard s t \<Longrightarrow> log_ok s \<Longrightarrow> log_ok t"
  by (drule system_log.evolves_R) (simp_all add: preserves_def outside_def log_ok_def counters_def mission_log_def)

text \<open>Every event other than a command leaves the stored graphs alone; a plan is only ever accepted by a
  command.\<close>

lemma handle_mirror: "obeys (preserves (mirrored hard)) (handle \<epsilon> hard now e)"
proof (cases "(\<exists>c. e = Command c) \<or> (\<exists>c. e = CancelAndStop c)")
  case True
  have "obeys (preserves (mirrored hard)) (CancelMission_stopping \<epsilon> c)" for c
    unfolding CancelMission_stopping_def
    by (intro preserved.bind preserved.return graph_CancelMission [THEN mirrored_obeys]
        reconciler_graph.stop_runs [THEN mirrored_obeys])
  with True show ?thesis
    by (auto simp: finish_def intro!: preserved.bind preserved.return execute_mirror)
next
  case False
  then show ?thesis by (intro reconciler_graph.handle_other [THEN mirrored_obeys]) auto
qed

lemma evolves_mirrored: "evolves \<epsilon> hard s t \<Longrightarrow> mirrored hard s \<Longrightarrow> mirrored hard t"
proof (induction rule: evolves.induct)
  case (event t dbnow now e)
  have "preserves (mirrored hard) t (after (handle (\<epsilon>\<lparr>env_now := dbnow\<rparr>) hard now e) t)"
    by (rule after_obeys [OF handle_mirror preserved.R_refl])
  with event show ?case by (simp add: preserves_def)
next
  case (other t u)
  have "graph_kept t u" using other.hyps(2) by (intro graph_kept_tables) (simp_all add: outside_def)
  with other show ?case by (simp add: mirrored_kept)
qed

end
