(* ===== verification/Scenario.thy ===== *)
theory Scenario
  imports System JsonLaws
begin

text \<open>
  A concrete run: an empty workspace with one owner, in which a mission is created, a plan of two tasks
  is submitted and the mission is cancelled.  It is evaluated by the simplifier's code equations and
  serves the witnesses.
\<close>

definition demo_env :: env where
  "demo_env = \<lparr>env_uuid_parse = Some, env_uuid_scan = Some, env_uuid_sha1 = (@),
      env_jsonb_size = (\<lambda>j. length (json_marshal j)), env_gen_uuid = (\<lambda>n. replicate (n + 1) (CHR ''a'')), env_now = 1\<rparr>"

definition demo_db :: db where
  "demo_db =
     \<lparr>db_issues = [], db_counters = [(Some ''w'', 0)], db_missions = [], db_nodes = [], db_dependencies = [],
      db_assignments = [], db_runs = [], db_artifacts = [], db_verdicts = [], db_activities = [],
      db_gates = [], db_mailbox = [], db_tasks = [], db_usage = [], db_profiles = [], db_snapshots = [],
      db_agents = [], db_runtimes = [], db_targets = [],
      db_members = [\<lparr>mem_UserID = Some ''u'', mem_WorkspaceID = Some ''w'', mem_Role = ''owner''\<rparr>],
      db_projects = [], db_drawn = 0\<rparr>"

definition demo_limits :: PlanLimits where
  "demo_limits = \<lparr>MaxParallelRuns = 2, MaxTaskAttempts = 2, MaxReworkCycles = 1, Budget = None\<rparr>"

definition demo_create :: CreateMissionParams where
  "demo_create =
     \<lparr>cm_WorkspaceID = Some ''w'', cm_CommandID = Some ''c1'', cm_CorrelationID = None,
      cm_ActorID = Some ''u'', cm_Title = ''T'', cm_Description = None, cm_ProjectID = None,
      cm_Limits = demo_limits\<rparr>"

definition demo_node :: "string \<Rightarrow> Duty \<Rightarrow> string list \<Rightarrow> PlanNode" where
  "demo_node key duty deps =
     \<lparr>pn_Key = key, pn_Title = ''t'', pn_Description = ''d'', pn_Duty = duty,
      pn_AcceptanceCriteria = [''works''], pn_ArtifactKinds = [ArtifactKindFinalDelivery],
      pn_DependsOn = deps, pn_BudgetEstimate = \<lparr>est_Tokens = 0, est_CostUSDTicks = 0\<rparr>\<rparr>"

definition demo_plan :: Plan where
  "demo_plan =
     \<lparr>plan_SchemaVersion = 1, plan_MissionID = ''a'', plan_PlanKey = ''p'', plan_Limits = demo_limits,
      plan_Nodes = [demo_node ''i'' DutyIntegrator [''e''], demo_node ''e'' DutyExecutor []]\<rparr>"

definition demo_submit :: SubmitPlanParams where
  "demo_submit =
     \<lparr>sp_WorkspaceID = Some ''w'', sp_MissionID = Some ''a'', sp_CommandID = Some ''c2'',
      sp_CorrelationID = None, sp_ActorType = [], sp_ActorID = Some ''u'', sp_ExpectedRevision = 1,
      sp_Plan = demo_plan, sp_SourceArtifactID = None, sp_PlanSource = PlanSource_Other []\<rparr>"

definition demo_cancel :: CancelMissionParams where
  "demo_cancel =
     \<lparr>ca_WorkspaceID = Some ''w'', ca_MissionID = Some ''a'', ca_CommandID = Some ''c3'',
      ca_CorrelationID = None, ca_ActorID = Some ''u'', ca_ExpectedRevision = 2, ca_Reason = []\<rparr>"

definition demo_hard :: PlanLimits where
  "demo_hard = DefaultPlanHardLimits"

definition created :: db where
  "created = after (execute demo_env demo_hard (Create demo_create)) demo_db"

definition submitted :: db where
  "submitted = after (execute demo_env demo_hard (Submit demo_submit)) created"

text \<open>Whether a transaction commits, and with which \<open>Idempotent\<close> flag.\<close>

definition outcome :: "bool tx \<Rightarrow> db \<Rightarrow> bool option" where
  "outcome act s = (case act s of Inl e \<Rightarrow> None | Inr (b, t) \<Rightarrow> Some b)"

lemma outcome_SomeD: "outcome act s = Some b \<Longrightarrow> act s = Inr (b, after act s)"
  by (auto simp: outcome_def after_def split: sum.splits prod.splits)

lemma demo_created: "outcome (execute demo_env demo_hard (Create demo_create)) demo_db = Some False"
  by code_simp

lemma demo_submitted: "outcome (execute demo_env demo_hard (Submit demo_submit)) created = Some False"
  by code_simp

lemma demo_cancelled: "outcome (execute demo_env demo_hard (Cancel demo_cancel)) submitted = Some False"
  by code_simp

lemma demo_start: "log_ok demo_db" "mirrored demo_hard demo_db"
  by (simp_all add: log_ok_def counters_def mirrored_def demo_db_def)

lemma demo_reaches:
  "reaches demo_env demo_hard demo_db created" "reaches demo_env demo_hard demo_db submitted"
proof -
  have e: "demo_env\<lparr>env_now := 1\<rparr> = demo_env" by (simp add: demo_env_def)
  show "reaches demo_env demo_hard demo_db created"
    using reaches.step [OF reaches.start, of demo_env demo_hard demo_db 1 "Create demo_create"]
    by (simp add: created_def e)
  from reaches.step [OF this, of 1 "Submit demo_submit"]
  show "reaches demo_env demo_hard demo_db submitted" by (simp add: submitted_def e)
qed

section \<open>A profile and a binding\<close>

definition demo_config :: RoleProfileConfig where
  "demo_config =
     \<lparr>Instructions = ''do it'', RequiredCapabilities = [],
      cfg_Runtime = \<lparr>AllowedRuntimeIDs = [], PreferredRuntimeIDs = [], Providers = [], Models = []\<rparr>,
      cfg_Tools = \<lparr>AllowedTools = [], AllowedPaths = []\<rparr>,
      cfg_Budget = \<lparr>rb_MaxTokens = None, rb_MaxCostUSDTicks = None, rb_MaxReworkCycles = 1,
        rb_MaxTechnicalRetries = 1\<rparr>,
      cfg_TimeoutSeconds = 60, cfg_MaxConcurrency = 2\<rparr>"

definition demo_profile :: RoleProfileRow where
  "demo_profile =
     \<lparr>rp_ID = Some ''r'', rp_WorkspaceID = Some ''w'', rp_ProfileKey = ''k'', rp_Version = 1,
      rp_Duty = DutyReviewer, rp_Name = ''n'', rp_Description = [], rp_Config = demo_config,
      rp_CommandID = Some ''c0'', rp_CreatedBy = Some ''u'', rp_CreatedAt = 1\<rparr>"

definition demo_binding :: RolePolicyBinding where
  "demo_binding =
     \<lparr>rpb_Duty = DutyReviewer, rpb_ProfileKey = ''k'', rpb_Version = 1, rpb_AgentID = None\<rparr>"

definition profiled :: db where
  "profiled = demo_db\<lparr>db_profiles := [demo_profile]\<rparr>"

lemma demo_config_normal: "config_normal demo_env demo_config"
  unfolding config_normal_def by code_simp

lemma demo_freeze:
  "\<exists>snap t. freezeRolePolicyBindings demo_env (Some ''w'') (Some ''a'') (Some ''u'') [demo_binding] profiled =
     Inr ([snap], t)"
proof -
  obtain p where p: "mapRoleProfileVersion demo_env demo_profile = Inr p"
    using mapRoleProfileVersion_normalized [of demo_env demo_profile] demo_config_normal
    by (auto simp: demo_profile_def)
  have "\<exists>snap t. freeze_binding demo_env (Some ''w'') (Some ''a'') (Some ''u'') demo_binding profiled = Inr (snap, t)"
  proof (rule freeze_succeeds [OF _ _ p])
    show "GetMissionRolePolicySnapshot (Some ''w'') (Some ''a'') (rpb_Duty demo_binding) profiled = None"
      by (simp add: GetMissionRolePolicySnapshot_def profiled_def demo_db_def)
    show "GetRoleProfileVersionByKey (Some ''w'') (rpb_ProfileKey demo_binding) (rpb_Version demo_binding) profiled =
        Some demo_profile"
      by (simp add: GetRoleProfileVersionByKey_def profiled_def demo_binding_def demo_profile_def
          profile_series_def sql_eq_def)
    show "rpv_Duty p = rpb_Duty demo_binding"
      using mapRoleProfileVersion_Inr [OF p] by (simp add: demo_profile_def demo_binding_def)
  qed (simp_all add: demo_binding_def)
  then show ?thesis by (auto simp: freezeRolePolicyBindings_def tx_bind_def tx_return_def)
qed

end
