(* ===== verification/Guarantees.thy ===== *)
theory Guarantees
  imports Scenario
begin

text \<open>
  What holds of the service in every state it can reach, and of its commands wherever they are carried
  out, each property with a witness in the run of \<open>Scenario\<close>.
\<close>

section \<open>Every reachable state\<close>

text \<open>Whatever events the subsystem handles, and whatever the rest of the server does meanwhile, the past is kept: rows never disappear, missions move along
  the transition table with an accepted plan never replaced, revisions only grow, terminal nodes,
  finished runs and ended assignments are frozen, and the log, the dependencies, the artifacts, the
  profiles and the frozen policies are append-only.\<close>
theorem commands_keep_history:
  assumes "evolves \<epsilon> hard s t" shows "history s t"
  using assms by (rule evolves_history)

theorem commands_keep_history_witness: "history demo_db submitted \<and> prefix (db_activities demo_db) (db_activities submitted)"
  using commands_keep_history [OF demo_reaches(2) [THEN reaches_evolves]] by (simp add: history_def)

text \<open>C17: In every reachable state the activities of each mission are numbered 1, 2, 3, ... in the order
  in which they were written, without gaps or repetitions, up to the mission's next number.\<close>
theorem log_numbered_without_gaps:
  assumes "evolves \<epsilon> hard s t" and "log_ok s" and "m \<in> set (db_missions t)"
  shows "mission_log (m_IssueID m) t = map int [1..<nat (m_NextActivitySequence m)]"
proof -
  have "log_ok t" using assms(1,2) by (rule evolves_log)
  moreover have "(m_IssueID m, m_NextActivitySequence m) \<in> set (counters t)"
    using assms(3) by (auto simp: counters_def)
  ultimately show ?thesis by (auto simp: log_ok_def)
qed

theorem log_numbered_without_gaps_witness:
  "list_all (\<lambda>m. mission_log (m_IssueID m) submitted = map int [1..<nat (m_NextActivitySequence m)])
     (db_missions submitted) \<and> length (db_missions submitted) = 1"
proof -
  have "length (db_missions submitted) = 1" by code_simp
  then show ?thesis
    using log_numbered_without_gaps [OF demo_reaches(2) [THEN reaches_evolves] demo_start(1)] by (simp add: list_all_iff)
qed

text \<open>C16: In every state reached without deleting an issue or a workspace, the task graph of a
  mission mirrors its accepted plan: one task node per plan node, in order, with its key, duty, criteria, artifact kinds and estimate, one dependency
  row per dependency between exactly those nodes, the plan being one that \<open>ValidatePlan\<close> accepts; a
  mission without a plan has no task nodes.\<close>
theorem stored_graph_mirrors_plan:
  assumes "evolves \<epsilon> hard s t" and "mirrored hard s" and "m \<in> set (db_missions t)"
  shows "case m_Plan m of
     None \<Rightarrow> stored_nodes (m_IssueID m) t = []
   | Some p \<Rightarrow> ValidatePlan p (uuidText (m_IssueID m)) hard = [] \<and>
       stored_nodes (m_IssueID m) t = map (plan_facts (m_WorkspaceID m) (m_IssueID m)) (plan_Nodes p) \<and>
       stored_edges (m_IssueID m) t = plan_dependency_keys (plan_Nodes p)"
proof -
  have "mirrored hard t" using assms(1,2) by (rule evolves_mirrored)
  then have "mission_mirrors hard t m" using assms(3) by (simp add: mirrored_def list_all_iff)
  then show ?thesis by (simp add: mission_mirrors_def split: option.splits)
qed

theorem stored_graph_mirrors_plan_witness:
  "map m_Plan (db_missions submitted) = [Some demo_plan] \<and>
   stored_edges (Some ''a'') submitted = [(''i'', ''e'')]"
proof -
  have p: "map (\<lambda>m. (m_IssueID m, m_Plan m)) (db_missions submitted) = [(Some ''a'', Some demo_plan)]"
    by code_simp
  then obtain m where m: "db_missions submitted = [m]" "m_IssueID m = Some ''a''" "m_Plan m = Some demo_plan"
    by (auto simp: map_eq_Cons_conv)
  then show ?thesis
    using stored_graph_mirrors_plan [OF demo_reaches(2) [THEN reaches_evolves] demo_start(2), of m]
    by (simp add: plan_dependency_keys_def demo_plan_def demo_node_def)
qed

section \<open>Repeating a command\<close>

text \<open>C6: Each of the six commands \<open>CreateMission\<close>, \<open>SubmitPlan\<close>, \<open>SubmitPlanProposal\<close>, \<open>StartMission\<close>,
  \<open>CancelMission\<close> (up to its commit, without the loop that then stops the executions) and
  \<open>CreateRoleProfileVersion\<close> takes effect at most once when it succeeded: carried out again in any later
  state, whatever events happened in between, with whatever clock and limits, it either fails or only
  reports the recorded result, and the database stays as it is.\<close>
theorem command_takes_effect_once:
  assumes "execute \<epsilon> hard c s = Inr (b, t)" and "evolves \<epsilon>' hard' t u"
  shows "after (execute \<epsilon>'' hard'' c) u = u"
  using repeat_unchanged [OF assms(1) evolves_history [OF assms(2)]] .

theorem command_takes_effect_once_witness:
  "after (execute demo_env demo_hard (Create demo_create)) created = created \<and>
   outcome (execute demo_env demo_hard (Create demo_create)) created = Some True"
proof
  show "outcome (execute demo_env demo_hard (Create demo_create)) created = Some True" by code_simp
  have "execute demo_env demo_hard (Create demo_create) demo_db = Inr (False, created)"
    unfolding created_def by (rule outcome_SomeD [OF demo_created])
  from command_takes_effect_once [OF this evolves.begins]
  show "after (execute demo_env demo_hard (Create demo_create)) created = created" .
qed

section \<open>Single commands\<close>

text \<open>A plan that was accepted can be started: right after \<open>SubmitPlan\<close> wrote it, the nodes and
  dependencies that \<open>StartMission\<close> lists give, as the first tasks, the roots of the plan in the order
  of their keys, up to the plan's run limit, and there is at least one.\<close>
theorem accepted_plan_can_start:
  assumes "mirrored hard s" and "SubmitPlan \<epsilon> hard c s = Inr (r, t)" and "\<not> spr_Idempotent r"
  shows "\<exists>nodes deps. ListTaskNodesByMission (sp_WorkspaceID c) (sp_MissionID c) t = Inr (nodes, t) \<and>
    ListOrchestrationIssueDependencies (sp_WorkspaceID c) (sp_MissionID c) t = Inr (deps, t) \<and>
    initialReadyNodeKeys nodes deps (MaxParallelRuns (m_Limits (spr_Mission r))) =
      Inr (take (nat (MaxParallelRuns (plan_Limits (sp_Plan c)))) (root_keys (sp_Plan c))) \<and>
    take (nat (MaxParallelRuns (plan_Limits (sp_Plan c)))) (root_keys (sp_Plan c)) \<noteq> []"
proof -
  have ok: "plan_ok (sp_Plan c) (uuidText (sp_MissionID c)) hard"
    using assms(2) by (auto simp: SubmitPlan_def Let_def ValidatePlan_Nil_iff)
  then have "1 \<le> MaxParallelRuns (plan_Limits (sp_Plan c))" by (simp add: plan_ok_def limits_ok_def limit_ok_def)
  then show ?thesis using submit_then_ready [OF assms] roots_exist [OF ok] by auto
qed

theorem accepted_plan_can_start_witness:
  "\<exists>nodes deps. ListTaskNodesByMission (Some ''w'') (Some ''a'') submitted = Inr (nodes, submitted) \<and>
    initialReadyNodeKeys nodes deps 2 = Inr [''e'']"
proof -
  have m: "mirrored demo_hard created" using demo_reaches(1) demo_start(2) by (rule reaches_mirrored)
  obtain r where r: "SubmitPlan demo_env demo_hard demo_submit created = Inr (r, submitted)" "\<not> spr_Idempotent r"
    using outcome_SomeD [OF demo_submitted] by (auto simp: submitted_def)
  have "take 2 (root_keys demo_plan) = [''e'']" by code_simp
  moreover have "m_Limits (spr_Mission r) = demo_limits"
    using submit_then_ready [OF m r] by (auto simp: demo_submit_def demo_plan_def)
  ultimately show ?thesis
    using accepted_plan_can_start [OF m r]
    by (auto simp: demo_submit_def demo_plan_def demo_limits_def)
qed

text \<open>C39: \<open>ReadyNodeKeys\<close> never gets stuck on an accepted plan: in a running mission with a free run
  slot, as long as some node is not completed and every such node is pending or in rework without an
  active assignment, it offers at least one node.\<close>
theorem accepted_plan_progresses:
  assumes "ValidatePlan p mission hard = []" and "snapshots_of p ns"
    and "list_ex (\<lambda>x. ns_Status x \<noteq> TaskStatusCompleted) ns"
    and "list_all (\<lambda>x. ns_Status x = TaskStatusCompleted \<or>
      ns_Status x \<in> {TaskStatusPending, TaskStatusRework} \<and> \<not> ns_HasActiveAssignment x) ns"
    and "0 \<le> active" and "active < maxRuns"
  shows "\<exists>k ks. ReadyNodeKeys MissionStatusRunning ns active maxRuns = Inr (k # ks)"
proof -
  obtain x where x: "x \<in> set ns" "ns_Status x \<noteq> TaskStatusCompleted" using assms(3) by (auto simp: list_ex_iff)
  show ?thesis
    using assms(1) by (intro ready_keys_progress [OF _ assms(2) x _ assms(5,6)])
      (use assms(4) in \<open>auto simp: ValidatePlan_Nil_iff list_all_iff\<close>)
qed

definition demo_snapshot :: "string \<Rightarrow> TaskStatus \<Rightarrow> string list \<Rightarrow> NodeSnapshot" where
  "demo_snapshot key status deps =
     \<lparr>ns_Key = key, ns_Status = status, ns_Priority = 0, ns_CreatedOrder = 0, ns_DependencyKeys = deps,
      ns_HasActiveAssignment = False\<rparr>"

theorem accepted_plan_progresses_witness:
  "\<exists>k ks. ReadyNodeKeys MissionStatusRunning
     [demo_snapshot ''i'' TaskStatusRework [''e''], demo_snapshot ''e'' TaskStatusCompleted []] 1 2 = Inr (k # ks)"
  by (rule accepted_plan_progresses [of demo_plan "''a''" demo_hard])
    (code_simp, simp_all add: snapshots_of_def demo_plan_def demo_node_def demo_snapshot_def)

text \<open>Cancelling leaves the mission cancelled at the next revision, none of its task nodes open and
  none of its assignments active, from whatever state it was carried out in.\<close>
theorem cancel_winds_up:
  assumes "CancelMission \<epsilon> command s = Inr (r, t)" and "\<not> car_Idempotent r"
    and "distinct (map m_IssueID (db_missions s))"
  shows "map_option mission_facts (find (mission_is (ca_WorkspaceID command) (ca_MissionID command)) (db_missions t)) =
      Some (ca_MissionID command, ca_WorkspaceID command, MissionStatusCancelled, ca_ExpectedRevision command + 1) \<and>
    list_all (\<lambda>n. isTerminalTaskStatus (t_Status n))
      (filter (node_in (ca_WorkspaceID command) (ca_MissionID command)) (db_nodes t)) \<and>
    list_all (\<lambda>a. a_Status a \<noteq> AssignmentStatusActive)
      (filter (assignment_in (ca_WorkspaceID command) (ca_MissionID command)) (db_assignments t))"
  using CancelMission_winds_up [OF assms] by (simp add: wound_up_def)

theorem cancel_winds_up_witness:
  "list_all (\<lambda>n. isTerminalTaskStatus (t_Status n)) (filter (node_in (Some ''w'') (Some ''a''))
     (db_nodes (after (execute demo_env demo_hard (Cancel demo_cancel)) submitted)))"
proof -
  obtain r where r: "CancelMission demo_env demo_cancel submitted =
      Inr (r, after (execute demo_env demo_hard (Cancel demo_cancel)) submitted)" "\<not> car_Idempotent r"
    using outcome_SomeD [OF demo_cancelled] by auto
  have "distinct (map m_IssueID (db_missions submitted))" by code_simp
  from cancel_winds_up [OF r this] show ?thesis by (simp add: demo_cancel_def)
qed

text \<open>Freezing role policies is idempotent whoever repeats it: once the bindings of a mission were
  frozen, freezing them again returns the same snapshots and changes nothing.\<close>
theorem freezing_is_idempotent:
  assumes "freezeRolePolicyBindings \<epsilon> ws mid actor bs s = Inr (snaps, t)" and "ws \<noteq> None" and "mid \<noteq> None"
  shows "freezeRolePolicyBindings \<epsilon> ws mid actor' bs t = Inr (snaps, t)"
  using assms by (rule freeze_again)

theorem freezing_is_idempotent_witness:
  "\<exists>snap t. freezeRolePolicyBindings demo_env (Some ''w'') (Some ''a'') (Some ''u'') [demo_binding] profiled =
      Inr ([snap], t) \<and>
    freezeRolePolicyBindings demo_env (Some ''w'') (Some ''a'') (Some ''v'') [demo_binding] t = Inr ([snap], t)"
proof -
  obtain snap t where f: "freezeRolePolicyBindings demo_env (Some ''w'') (Some ''a'') (Some ''u'')
      [demo_binding] profiled = Inr ([snap], t)"
    using demo_freeze by blast
  from freezing_is_idempotent [OF f] f show ?thesis by blast
qed

end
