(* ===== verification/Conduct.thy ===== *)
theory Conduct
  imports System
begin

text \<open>
  The order the database keeps while the subsystem runs.  The unique indexes of the migrations hold in
  every reachable state: an insert checks them, and no update of the code moves a row onto another
  one's place, although the model's updates check nothing.  A message keeps its contents and leaves
  \<open>pending\<close> once, and an agent task stays with its run.
\<close>

section \<open>Rows that must not share a place\<close>

definition apart :: "('r \<Rightarrow> 'r \<Rightarrow> bool) \<Rightarrow> 'r list \<Rightarrow> bool" where
  "apart clash rows = sorted_wrt (\<lambda>x y. \<not> clash x y) rows"

lemma apart_append [simp]:
  "apart clash (rows @ [r]) \<longleftrightarrow> apart clash rows \<and> list_all (\<lambda>x. \<not> clash x r) rows"
  by (auto simp: apart_def sorted_wrt_append list_all_iff)

lemma apart_update:
  assumes "apart clash rows" and "\<And>x y. clash (if P x then f x else x) (if P y then f y else y) \<Longrightarrow> clash x y"
  shows "apart clash (update_rows P f rows)"
  unfolding apart_def update_rows_def sorted_wrt_map
  using assms(1) [unfolded apart_def] by (rule sorted_wrt_mono_rel [rotated]) (use assms(2) in blast)

lemma apart_update_along:
  assumes "apart clash rows"
    and "\<And>x. P x \<Longrightarrow> Q x (f x)" and "\<And>x. Q x x" and "\<And>x x' y y'. Q x x' \<Longrightarrow> Q y y' \<Longrightarrow> clash x' y' \<Longrightarrow> clash x y"
  shows "apart clash (update_rows P f rows)"
  using assms(1)
proof (rule apart_update)
  have "Q x (if P x then f x else x)" for x using assms(2,3) by simp
  then show "clash x y" if "clash (if P x then f x else x) (if P y then f y else y)" for x y
    using assms(4) that by blast
qed

lemma apart_index:
  "apart clash rows \<Longrightarrow> i < j \<Longrightarrow> j < length rows \<Longrightarrow> \<not> clash (rows ! i) (rows ! j)"
  by (simp add: apart_def sorted_wrt_iff_nth_less)

lemma obeys_insert_apart:
  assumes "\<And>s. list_all (\<lambda>(name, clash). list_all (\<lambda>x. \<not> clash x) (get s)) indexes \<Longrightarrow> R s (put (get s @ [row]) s)"
  shows "obeys R (tx_insert get put indexes row)"
  using assms by (fastforce intro!: obeysI simp: tx_insert_Inr list_all_iff)

section \<open>The unique indexes\<close>

definition same_mission_id :: "MissionRow \<Rightarrow> MissionRow \<Rightarrow> bool" where
  "same_mission_id m m' = sql_eq (m_IssueID m) (m_IssueID m')"

definition same_node_place :: "TaskNodeRow \<Rightarrow> TaskNodeRow \<Rightarrow> bool" where
  "same_node_place n n' \<longleftrightarrow> sql_eq (t_IssueID n) (t_IssueID n') \<or>
     sql_eq (t_MissionID n) (t_MissionID n') \<and> t_NodeKey n = t_NodeKey n'"

text \<open>Two assignments for one duty of one task node, or for the planning of one mission.\<close>

definition same_seat :: "AssignmentRow \<Rightarrow> AssignmentRow \<Rightarrow> bool" where
  "same_seat a b \<longleftrightarrow> a_Role a = a_Role b \<and>
     (sql_eq (a_TaskNodeID a) (a_TaskNodeID b) \<or>
      a_TaskNodeID a = None \<and> a_TaskNodeID b = None \<and> a_Role a = DutyPlanner \<and>
      sql_eq (a_WorkspaceID a) (a_WorkspaceID b) \<and> sql_eq (a_MissionID a) (a_MissionID b))"

definition seat_taken :: "AssignmentRow \<Rightarrow> AssignmentRow \<Rightarrow> bool" where
  "seat_taken a b \<longleftrightarrow> same_seat a b \<and>
     (a_Status a = AssignmentStatusActive \<and> a_Status b = AssignmentStatusActive \<or> a_Sequence a = a_Sequence b)"

definition same_attempt :: "RunRow \<Rightarrow> RunRow \<Rightarrow> bool" where
  "same_attempt r r' \<longleftrightarrow> sql_eq (r_AssignmentID r) (r_AssignmentID r') \<and> r_Attempt r = r_Attempt r'"

definition same_version :: "ArtifactRow \<Rightarrow> ArtifactRow \<Rightarrow> bool" where
  "same_version a b \<longleftrightarrow> ar_Kind a = ar_Kind b \<and> ar_Version a = ar_Version b \<and>
     (sql_eq (ar_TaskNodeID a) (ar_TaskNodeID b) \<or>
      ar_TaskNodeID a = None \<and> ar_TaskNodeID b = None \<and> ar_Kind a = ArtifactKindPlanProposal \<and>
      sql_eq (ar_WorkspaceID a) (ar_WorkspaceID b) \<and> sql_eq (ar_MissionID a) (ar_MissionID b))"

definition same_review :: "VerdictRow \<Rightarrow> VerdictRow \<Rightarrow> bool" where
  "same_review v v' = sql_eq (v_ReviewRunID v) (v_ReviewRunID v')"

definition both_pending :: "HumanGateRow \<Rightarrow> HumanGateRow \<Rightarrow> bool" where
  "both_pending g h \<longleftrightarrow> sql_eq (g_WorkspaceID g) (g_WorkspaceID h) \<and> sql_eq (g_MissionID g) (g_MissionID h) \<and>
     sql_eq (g_TaskNodeID g) (g_TaskNodeID h) \<and> g_Status g = ''pending'' \<and> g_Status h = ''pending''"

definition same_message :: "MailboxRow \<Rightarrow> MailboxRow \<Rightarrow> bool" where
  "same_message r r' \<longleftrightarrow> sql_eq (mb_ID r) (mb_ID r') \<or>
     sql_eq (mb_WorkspaceID r) (mb_WorkspaceID r') \<and>
     (sql_eq (mb_CommandID r) (mb_CommandID r') \<or>
      sql_eq (mb_MissionID r) (mb_MissionID r') \<and> mb_SenderType r = mb_SenderType r' \<and>
      uuidText (mb_SenderID r) = uuidText (mb_SenderID r') \<and> mb_DedupeKey r = mb_DedupeKey r')"

definition same_event :: "ActivityRow \<Rightarrow> ActivityRow \<Rightarrow> bool" where
  "same_event a b \<longleftrightarrow>
     sql_eq (ac_WorkspaceID a) (ac_WorkspaceID b) \<and> ac_DedupeKey a = ac_DedupeKey b \<or>
     sql_eq (ac_MissionID a) (ac_MissionID b) \<and> ac_Sequence a = ac_Sequence b"

definition same_policy :: "SnapshotRow \<Rightarrow> SnapshotRow \<Rightarrow> bool" where
  "same_policy p q = snapshot_of (sn_WorkspaceID q) (sn_MissionID q) (sn_Duty q) p"

definition same_profile :: "RoleProfileRow \<Rightarrow> RoleProfileRow \<Rightarrow> bool" where
  "same_profile p q \<longleftrightarrow>
     profile_series (rp_WorkspaceID q) (rp_ProfileKey q) p \<and> rp_Version p = rp_Version q \<or>
     sql_eq (rp_WorkspaceID p) (rp_WorkspaceID q) \<and> sql_eq (rp_CommandID p) (rp_CommandID q)"

definition indexes_hold :: "db \<Rightarrow> bool" where
  "indexes_hold s \<longleftrightarrow>
     apart same_mission_id (db_missions s) \<and> apart same_node_place (db_nodes s) \<and>
     apart seat_taken (db_assignments s) \<and> apart same_attempt (db_runs s) \<and>
     apart same_version (db_artifacts s) \<and> apart same_review (db_verdicts s) \<and>
     apart both_pending (db_gates s) \<and> apart same_message (db_mailbox s) \<and>
     apart same_event (db_activities s) \<and> apart same_policy (db_snapshots s) \<and>
     apart same_profile (db_profiles s) \<and> single_tasks s"

section \<open>Messages\<close>

text \<open>A message without the columns that its transition writes.\<close>

definition envelope :: "MailboxRow \<Rightarrow> MailboxRow" where
  "envelope r = r\<lparr>mb_Status := [], mb_Revision := 0, mb_StatusChangedAt := 0\<rparr>"

definition message_moves :: "MailboxRow \<Rightarrow> MailboxRow \<Rightarrow> bool" where
  "message_moves r r' \<longleftrightarrow> r' = r \<or>
     mb_Status r = ''pending'' \<and> envelope r' = envelope r \<and> mb_Revision r < mb_Revision r'"

lemma message_moves_refl [simp]: "message_moves r r"
  by (simp add: message_moves_def)

lemma message_moves_trans: "message_moves a b \<Longrightarrow> message_moves b c \<Longrightarrow> message_moves a c"
  by (auto simp: message_moves_def)

section \<open>The order as a relation\<close>

definition conduct :: "db \<Rightarrow> db \<Rightarrow> bool" where
  "conduct s t \<longleftrightarrow> (indexes_hold s \<longrightarrow> indexes_hold t) \<and> rows_evolve message_moves (db_mailbox s) (db_mailbox t) \<and>
     tasks_kept s t"

interpretation conduct: tx_preorder conduct
proof
  show "conduct s s" for s by (simp add: conduct_def rows_evolve_refl kept_tasks.R_refl)
  show "conduct s u" if "conduct s t" "conduct t u" for s t u
    using that unfolding conduct_def by (meson kept_tasks.R_trans message_moves_trans rows_evolve_trans)
qed

named_theorems conduct_ops "queries that keep the order"

lemmas conduct_rows =
  conduct_def indexes_hold_def tasks_kept_def single_tasks_def run_tasks_def agent_places_def rows_evolve_refl
  rows_evolve_append rows_evolve_update

lemma conduct_tables:
  "db_missions t = db_missions s \<Longrightarrow> db_nodes t = db_nodes s \<Longrightarrow> db_assignments t = db_assignments s \<Longrightarrow>
   db_runs t = db_runs s \<Longrightarrow> db_artifacts t = db_artifacts s \<Longrightarrow> db_verdicts t = db_verdicts s \<Longrightarrow>
   db_gates t = db_gates s \<Longrightarrow> db_mailbox t = db_mailbox s \<Longrightarrow> db_activities t = db_activities s \<Longrightarrow>
   db_snapshots t = db_snapshots s \<Longrightarrow> db_profiles t = db_profiles s \<Longrightarrow> db_tasks t = db_tasks s \<Longrightarrow>
   db_agents t = db_agents s \<Longrightarrow> conduct s t"
  by (simp add: conduct_rows)

lemma conduct_draw [conduct_ops]: "obeys conduct (draw_uuid \<epsilon>)"
  by (rule obeysI) (auto simp: draw_uuid_def intro!: conduct_tables)

subsection \<open>Missions, issues and task nodes\<close>

lemma missions_update:
  assumes "\<And>m. P m \<Longrightarrow> m_IssueID (f m) = m_IssueID m"
  shows "apart same_mission_id rows \<Longrightarrow> apart same_mission_id (update_rows P f rows)"
  by (erule apart_update_along [where Q = "\<lambda>m m'. m_IssueID m' = m_IssueID m"])
    (simp_all add: assms same_mission_id_def)

lemma conduct_update_mission:
  assumes "\<And>m. P m \<Longrightarrow> m_IssueID (f m) = m_IssueID m"
  shows "obeys conduct (update_mission P f)"
  unfolding update_mission_def
  by (rule obeys_update) (simp add: conduct_rows missions_update assms)

lemma nodes_update:
  assumes "\<And>n. t_IssueID (f n) = t_IssueID n \<and> t_MissionID (f n) = t_MissionID n \<and> t_NodeKey (f n) = t_NodeKey n"
  shows "apart same_node_place rows \<Longrightarrow> apart same_node_place (update_rows P f rows)"
  by (erule apart_update_along [where Q = "\<lambda>n n'. t_IssueID n' = t_IssueID n \<and> t_MissionID n' = t_MissionID n \<and>
      t_NodeKey n' = t_NodeKey n"]) (simp_all add: assms same_node_place_def)

lemma conduct_update_node:
  assumes "\<And>n. t_IssueID (f n) = t_IssueID n \<and> t_MissionID (f n) = t_MissionID n \<and> t_NodeKey (f n) = t_NodeKey n"
  shows "obeys conduct (update_node P f)"
  unfolding update_node_def
  by (rule obeys_update) (simp add: conduct_rows nodes_update assms)

lemma conduct_mission_ops [conduct_ops]:
  "obeys conduct (CreateMissionRecord \<epsilon> iid ws limits creator)"
  "obeys conduct (AcceptMissionPlan \<epsilon> ws mid plan expected)"
  "obeys conduct (StartMissionRecord \<epsilon> ws mid expected)"
  "obeys conduct (CancelMissionRecord \<epsilon> ws mid expected)"
  "obeys conduct (SetMissionBudgetGate \<epsilon> ws mid gate)"
  "obeys conduct (ResumeMissionForTaskRetry \<epsilon> ws mid expected)"
  "obeys conduct (TransitionMissionState \<epsilon> ws mid target from)"
  "obeys conduct (BeginMissionPlanning \<epsilon> ws mid expected)"
proof -
  show "obeys conduct (CreateMissionRecord \<epsilon> iid ws limits creator)"
    unfolding CreateMissionRecord_def
    by (rule obeys_insert_apart) (simp add: conduct_rows same_mission_id_def)
qed (auto simp: AcceptMissionPlan_def StartMissionRecord_def CancelMissionRecord_def SetMissionBudgetGate_def
    ResumeMissionForTaskRetry_def TransitionMissionState_def BeginMissionPlanning_def touch_mission_def
    intro!: conduct_update_mission)

lemma conduct_allocate [conduct_ops]:
  "obeys conduct (AllocateMissionActivitySequence \<epsilon> ws mid)"
  "obeys conduct (allocateActivitySequence \<epsilon> ws mid)"
  unfolding allocateActivitySequence_def AllocateMissionActivitySequence_def
  by (intro conduct.wrap conduct.bind conduct.return conduct_update_mission; simp)+

lemma conduct_issue_ops [conduct_ops]:
  "obeys conduct (UpdateIssueStatus ws iid status)"
  "obeys conduct (IncrementIssueCounter ws)"
  "obeys conduct (CreateIssue \<epsilon> issue)"
  "obeys conduct (CreateOrchestrationIssueDependency nid dep)"
  by (auto simp: UpdateIssueStatus_def IncrementIssueCounter_def CreateIssue_def
      CreateOrchestrationIssueDependency_def draw_uuid_def tx_update_Inr tx_insert_Inr
      intro!: obeysI conduct_tables split: option.splits)

lemma conduct_node_ops [conduct_ops]:
  "obeys conduct (CreateTaskNodeRecord \<epsilon> iid ws mid node)"
  "obeys conduct (MarkTaskNodeReady \<epsilon> ws mid nid revision)"
  "obeys conduct (RetryBlockedTaskNode \<epsilon> ws mid nid revision)"
  "obeys conduct (TransitionTaskNodeForRework \<epsilon> ws mid nid target cnt)"
  "obeys conduct (TransitionTaskNodeState \<epsilon> ws mid nid target reason expected)"
proof -
  show "obeys conduct (CreateTaskNodeRecord \<epsilon> iid ws mid node)"
    unfolding CreateTaskNodeRecord_def
    by (rule obeys_insert_apart) (simp add: conduct_rows same_node_place_def list_all_iff)
qed (auto simp: MarkTaskNodeReady_def RetryBlockedTaskNode_def TransitionTaskNodeForRework_def
      TransitionTaskNodeState_def touch_node_def intro!: conduct_update_node)

lemma conduct_CancelNodes [conduct_ops]: "obeys conduct (CancelMissionTaskNodes \<epsilon> ws mid)"
  by (rule obeysI)
    (auto simp: CancelMissionTaskNodes_def Let_def conduct_rows nodes_update touch_node_def)

subsection \<open>Assignments and runs\<close>

text \<open>Assignments only ever end.\<close>

definition stays_seated :: "AssignmentRow \<Rightarrow> AssignmentRow \<Rightarrow> bool" where
  "stays_seated a a' \<longleftrightarrow> a_WorkspaceID a' = a_WorkspaceID a \<and> a_MissionID a' = a_MissionID a \<and>
     a_TaskNodeID a' = a_TaskNodeID a \<and> a_Role a' = a_Role a \<and> a_Sequence a' = a_Sequence a \<and>
     (a_Status a' = AssignmentStatusActive \<longrightarrow> a_Status a = AssignmentStatusActive)"

lemma seats_update:
  assumes "\<And>a. P a \<Longrightarrow> stays_seated a (f a)"
  shows "apart seat_taken rows \<Longrightarrow> apart seat_taken (update_rows P f rows)"
proof (erule apart_update_along [where Q = stays_seated])
  show "seat_taken a b" if "stays_seated a a'" "stays_seated b b'" "seat_taken a' b'" for a a' b b'
    using that unfolding stays_seated_def seat_taken_def same_seat_def by metis
qed (simp_all add: assms, simp add: stays_seated_def)

lemma conduct_assignment_ops [conduct_ops]:
  "obeys conduct (CreateOrchestrationAssignment \<epsilon> ws mid nid role agent rt seq prev creator)"
  "obeys conduct (RevokeMissionAssignments \<epsilon> ws mid)"
  "obeys conduct (EndOrchestrationAssignment \<epsilon> ws mid aid ended)"
  "obeys conduct (RevokeAssignmentFromReconcile \<epsilon> ws mid nid aid)"
proof -
  have "list_all (\<lambda>x. \<not> seat_taken x row) rows"
    if "list_all (\<lambda>(name, clash). list_all (\<lambda>x. \<not> clash x) rows) (assignment_indexes (a_WorkspaceID row)
      (a_MissionID row) (a_TaskNodeID row) (a_Role row) (a_Sequence row))" "a_Status row = AssignmentStatusActive"
    for row rows
    using that by (auto simp: list_all_iff assignment_indexes_def seat_taken_def same_seat_def assignment_in_def)
  then show "obeys conduct (CreateOrchestrationAssignment \<epsilon> ws mid nid role agent rt seq prev creator)"
    unfolding CreateOrchestrationAssignment_def
    by (intro conduct.bind conduct_draw obeys_insert_apart) (simp add: conduct_rows)
qed (auto simp: RevokeMissionAssignments_def EndOrchestrationAssignment_def RevokeAssignmentFromReconcile_def
    Let_def conduct_rows stays_seated_def intro!: obeysI obeys_update seats_update)

lemma runs_update:
  assumes "\<And>r. r_AssignmentID (f r) = r_AssignmentID r \<and> r_Attempt (f r) = r_Attempt r"
  shows "apart same_attempt rows \<Longrightarrow> apart same_attempt (update_rows P f rows)"
  by (erule apart_update_along [where Q = "\<lambda>r r'. r_AssignmentID r' = r_AssignmentID r \<and> r_Attempt r' = r_Attempt r"])
    (simp_all add: assms same_attempt_def)

lemma conduct_run_ops [conduct_ops]:
  "obeys conduct (CreateOrchestrationRun \<epsilon> ws mid nid aid purpose attempt input prevRun deadline timeout)"
  "obeys conduct (UpdateOrchestrationRunFromReconcile ws rid to from kind msg started finished)"
proof -
  show "obeys conduct (CreateOrchestrationRun \<epsilon> ws mid nid aid purpose attempt input prevRun deadline timeout)"
    unfolding CreateOrchestrationRun_def
    by (intro conduct.bind conduct_draw obeys_insert_apart) (simp add: conduct_rows same_attempt_def)
  show "obeys conduct (UpdateOrchestrationRunFromReconcile ws rid to from kind msg started finished)"
    unfolding UpdateOrchestrationRunFromReconcile_def
    by (rule obeys_update) (simp add: conduct_rows runs_update)
qed

subsection \<open>What tasks produce\<close>

lemma gates_update:
  assumes "\<And>g. P g \<Longrightarrow> g_Status (f g) \<noteq> ''pending''"
  shows "apart both_pending rows \<Longrightarrow> apart both_pending (update_rows P f rows)"
  by (erule apart_update_along [where Q = "\<lambda>g g'. g' = g \<or> g_Status g' \<noteq> ''pending''"])
    (auto simp: assms both_pending_def)

lemma messages_update:
  assumes "\<And>r. P r \<Longrightarrow> message_moves r (f r)"
  shows "apart same_message rows \<Longrightarrow> apart same_message (update_rows P f rows)"
proof (erule apart_update_along [where Q = "\<lambda>r r'. envelope r' = envelope r"])
  show "envelope (f r) = envelope r" if "P r" for r using assms [OF that] by (auto simp: message_moves_def)
  have "mb_ID r' = mb_ID r \<and> mb_WorkspaceID r' = mb_WorkspaceID r \<and> mb_CommandID r' = mb_CommandID r \<and>
      mb_MissionID r' = mb_MissionID r \<and> mb_SenderType r' = mb_SenderType r \<and> mb_SenderID r' = mb_SenderID r \<and>
      mb_DedupeKey r' = mb_DedupeKey r" if "envelope r' = envelope r" for r r'
    using that by (cases r; cases r') (simp add: envelope_def)
  note same = this
  show "same_message x y" if "envelope x' = envelope x" "envelope y' = envelope y" "same_message x' y'" for x x' y y'
    using same [OF that(1)] same [OF that(2)] that(3) by (simp add: same_message_def)
qed simp

lemma conduct_output_ops [conduct_ops]:
  "obeys conduct (CreateArtifactRecord \<epsilon> ws mid nid rid akind version uri contentHash summary metadata)"
  "obeys conduct (CreateReviewVerdictRecord \<epsilon> ws mid nid rid arid decision evidence requested)"
  "obeys conduct (CreatePendingHumanGate \<epsilon> ws mid nid arid rid kind why context)"
  "obeys conduct (ResolvePendingHumanGate \<epsilon> ws mid gid expected resolvedBy resolution reason)"
  "obeys conduct (CreateMailboxMessage row)"
  "obeys conduct (TransitionMailboxMessageStatus msgTarget observed msgID ws mid revision)"
proof -
  show "obeys conduct (CreateArtifactRecord \<epsilon> ws mid nid rid akind version uri contentHash summary metadata)"
    unfolding CreateArtifactRecord_def
    by (intro conduct.bind conduct_draw obeys_insert_apart)
      (fastforce simp: conduct_rows same_version_def list_all_iff)
  show "obeys conduct (CreateReviewVerdictRecord \<epsilon> ws mid nid rid arid decision evidence requested)"
    unfolding CreateReviewVerdictRecord_def
    by (intro conduct.bind conduct_draw obeys_insert_apart) (simp add: conduct_rows same_review_def)
  show "obeys conduct (CreatePendingHumanGate \<epsilon> ws mid nid arid rid kind why context)"
    unfolding CreatePendingHumanGate_def
    by (intro conduct.bind conduct_draw obeys_insert_apart) (simp add: conduct_rows both_pending_def)
  show "obeys conduct (ResolvePendingHumanGate \<epsilon> ws mid gid expected resolvedBy resolution reason)"
    unfolding ResolvePendingHumanGate_def
    by (rule obeys_update) (simp add: conduct_rows gates_update)
  show "obeys conduct (CreateMailboxMessage row)"
    unfolding CreateMailboxMessage_def
    by (rule obeys_insert_apart) (auto simp: conduct_rows same_message_def list_all_iff)
  show "obeys conduct (TransitionMailboxMessageStatus msgTarget observed msgID ws mid revision)"
    unfolding TransitionMailboxMessageStatus_def
    by (rule obeys_update)
      (auto simp: conduct_rows message_moves_def envelope_def intro!: messages_update rows_evolve_update)
qed

lemma conduct_task_ops [conduct_ops]:
  "obeys conduct (CreateAgentTask \<epsilon> p)"
  "obeys conduct (CancelAgentTaskWithReason \<epsilon> tid err kind)"
proof -
  have "run_tasks (s\<lparr>db_tasks := update_rows P f (db_tasks s)\<rparr>) = run_tasks s"
    if "\<And>q. q_OrchestrationRunID (f q) = q_OrchestrationRunID q" for s P f
    using that by (simp add: run_tasks_def map_update_rows_same)
  then show "obeys conduct (CancelAgentTaskWithReason \<epsilon> tid err kind)"
    unfolding CancelAgentTaskWithReason_def
    by (intro obeys_update)
      (simp add: conduct_def indexes_hold_def single_tasks_def tasks_kept_def agent_places_def rows_evolve_refl
        rows_evolve_update same_task_row_def)
  have "conduct s t" if t: "CreateAgentTask \<epsilon> p s = Inr (task, t)" for s t task
    using CreateAgentTask_Inr [OF t] t
    by (auto simp: CreateAgentTask_def insert_task_def new_task_def draw_uuid_def tx_insert_Inr conduct_rows sql_eq_def list_all_iff)
  then show "obeys conduct (CreateAgentTask \<epsilon> p)" by (auto intro: obeysI)
qed

subsection \<open>The log and the policies\<close>

lemma conduct_activity [conduct_ops]: "obeys conduct (CreateOrchestrationActivity \<epsilon> row)"
  unfolding CreateOrchestrationActivity_def
  by (intro conduct.bind conduct_draw obeys_insert_apart) (auto simp: conduct_rows same_event_def list_all_iff)

lemma conduct_race: "obeys conduct act \<Longrightarrow> obeys conduct (tx_race msg act)"
  by (auto simp: obeys_def)

lemma conduct_logging [conduct_ops]:
  "obeys conduct (log_activity \<epsilon> m1 m2 a)" "obeys conduct (log_command_activity \<epsilon> m1 m2 a)"
  "obeys conduct (createAutomaticActivity \<epsilon> mission nid rid typ st sid c corr key payload)"
  "obeys conduct (createMailboxActivity \<epsilon> ws mid row c corr actor typ mpayload)"
  "obeys conduct (createMailboxDeliveryActivity \<epsilon> mission run msg agent corr payload)"
  "obeys conduct (plain_activity \<epsilon> spec)"
  unfolding log_activity_def log_command_activity_def createAutomaticActivity_def createMailboxActivity_def
    createMailboxDeliveryActivity_def plain_activity_def
  by (intro conduct.rules conduct_race conduct_ops)+

lemma conduct_policies [conduct_ops]:
  "obeys conduct (CreateRoleProfileVersion_row \<epsilon> prow)"
  "obeys conduct (freezeRolePolicyBindings \<epsilon> ws mid actor bindings)"
proof -
  show "obeys conduct (CreateRoleProfileVersion_row \<epsilon> prow)"
    unfolding CreateRoleProfileVersion_row_def
    by (intro conduct.bind conduct_draw obeys_insert_apart)
      (auto simp: conduct_rows same_profile_def profile_series_def list_all_iff)
  have "obeys conduct (CreateMissionRolePolicySnapshot \<epsilon> srow)" for srow
    unfolding CreateMissionRolePolicySnapshot_def
    by (intro conduct.bind conduct_draw obeys_insert_apart)
      (auto simp: conduct_rows same_policy_def snapshot_of_def list_all_iff)
  then show "obeys conduct (freezeRolePolicyBindings \<epsilon> ws mid actor bindings)"
    unfolding freezeRolePolicyBindings_def freeze_binding_def freeze_new_def by (intro conduct.rules)
qed

lemma conduct_interventions [conduct_ops]:
  "obeys conduct (RestoreTaskNodeForReviewerGate \<epsilon> ws mid nid expected)"
  "obeys conduct (RestoreTaskNodeForReworkGate \<epsilon> ws mid nid expected)"
  "obeys conduct (ApproveMissionBudgetRecord \<epsilon> ws mid tokens ticks approvedBy expected)"
  unfolding RestoreTaskNodeForReviewerGate_def RestoreTaskNodeForReworkGate_def ApproveMissionBudgetRecord_def
  by (intro conduct.bind conduct.guard conduct.return conduct_update_node conduct_update_mission;
      simp add: touch_node_def granted_def touch_mission_def)+

interpretation system_conduct: system_queries conduct
  by unfold_locales (auto intro!: conduct_ops)

section \<open>In every reachable state\<close>

lemma run_tasks_outside:
  "rows_evolve same_task_row (db_tasks s) (db_tasks t) \<Longrightarrow>
   list_all (\<lambda>q. q_OrchestrationRunID q = None) (drop (length (db_tasks s)) (db_tasks t)) \<Longrightarrow>
     run_tasks t = run_tasks s"
proof -
  let ?n = "length (db_tasks s)"
  assume e: "rows_evolve same_task_row (db_tasks s) (db_tasks t)"
    and new: "list_all (\<lambda>q. q_OrchestrationRunID q = None) (drop ?n (db_tasks t))"
  have "map q_OrchestrationRunID (take ?n (db_tasks t)) = map q_OrchestrationRunID (db_tasks s)"
    using e by (intro nth_equalityI) (auto simp: rows_evolve_def same_task_row_def)
  moreover have "filter (\<lambda>u. u \<noteq> None) (map q_OrchestrationRunID (drop ?n (db_tasks t))) = []"
    using new by (auto simp: filter_empty_conv list_all_iff)
  moreover have "map q_OrchestrationRunID (db_tasks t) =
      map q_OrchestrationRunID (take ?n (db_tasks t)) @ map q_OrchestrationRunID (drop ?n (db_tasks t))"
    by (metis append_take_drop_id map_append)
  ultimately show ?thesis by (simp add: run_tasks_def)
qed

lemma evolves_conduct: "evolves \<epsilon> hard s t \<Longrightarrow> conduct s t"
proof (erule system_conduct.evolves_R)
  show "conduct s t" if "outside s t" for s t
    using that run_tasks_outside [of s t]
    by (simp add: outside_def conduct_def indexes_hold_def tasks_kept_def single_tasks_def rows_evolve_refl)
qed

end
