(* ===== verification/Planner.thy ===== *)
theory Planner
  imports PlanGate
begin

text \<open>
  The contract between the orchestrator and the planner: what \<open>RequestPlan\<close> writes into the planning run
  is read back by \<open>validatePlanningTaskProposal\<close>, and of the planner's answers exactly those are
  accepted that decode to a valid proposal for the frozen input and limits.
\<close>

section \<open>The planning run\<close>

lemma dec_known_Input_json: "dec_known_Input (PlanProposalInput_json i) = Inr i"
proof -
  have "keep_fields [''kind'', ''uri'', ''content_hash''] (ContextRef_json r) = ContextRef_json r" for r
    by (simp add: keep_fields_def ContextRef_json_def json_omit_def lower_char_def)
  then have "map_items (keep_fields [''kind'', ''uri'', ''content_hash'']) (json_slice ContextRef_json xs) =
      json_slice ContextRef_json xs" for xs
    by (cases xs) (simp_all add: map_items_def json_slice_def)
  then have "map_member ''context_refs'' (map_items (keep_fields [''kind'', ''uri'', ''content_hash'']))
      (keep_fields [''objective'', ''context_refs'', ''delivery_criteria''] (PlanProposalInput_json i)) =
      PlanProposalInput_json i"
    by (simp add: PlanProposalInput_json_def keep_fields_def map_member_def lower_char_def)
  then show ?thesis by (simp add: dec_known_Input_def dec_Input_json)
qed

lemma dec_known_Limits_json:
  assumes "limits64 l" shows "dec_known_Limits (PlanLimits_json l) = Inr l"
proof -
  have "keep_fields [''max_tokens'', ''max_cost_usd_ticks'', ''gate''] (BudgetPolicy_json b) = BudgetPolicy_json b" for b
    by (cases "MaxTokens b"; cases "MaxCostUSDTicks b")
      (simp_all add: keep_fields_def BudgetPolicy_json_def json_opt_def lower_char_def)
  then have "map_member ''budget'' (keep_fields [''max_tokens'', ''max_cost_usd_ticks'', ''gate''])
      (keep_fields [''max_parallel_runs'', ''max_task_attempts'', ''max_rework_cycles'', ''budget''] (PlanLimits_json l)) =
      PlanLimits_json l"
    by (simp add: PlanLimits_json_def keep_fields_def map_member_def lower_char_def split: option.splits)
  then show ?thesis using assms by (simp add: dec_known_Limits_def dec_PlanLimits_json)
qed

lemma planning_run_spec_read_back:
  assumes "limits64 limits"
  shows "dec_PlanningRunSpec (PlanningRunSpec_json (planning_run_spec mission input limits)) =
    Inr (planning_run_spec mission input limits)"
  using assms
  by (simp add: dec_PlanningRunSpec_def PlanningRunSpec_json_def planning_run_spec_def keep_fields_def dec_object_def
      lower_char_def dec_known_Input_json dec_known_Limits_json PlanningRunSpecSchemaVersion_def
      PlanProposalSchemaVersion_def dec_int_def is_int64_def min_int64_def max_int64_def dec_string_def)

section \<open>The planner's answer\<close>

definition planner_answer :: "string \<Rightarrow> json" where
  "planner_answer text = JObj [(''output'', JStr text)]"

lemma planner_answer_read: "decode_struct planner_output_field (planner_answer text) [] = Some text"
  by (simp add: planner_answer_def planner_output_field_def decode_struct_def set_text_def lower_char_def)

lemma answer_accepted_iff:
  assumes "limits64 limits" and "TrimSpace text \<noteq> []"
  shows "validatePlanningTaskProposal (m_IssueID mission)
      (PlanningRunSpec_json (planning_run_spec mission input limits)) (Some (planner_answer text)) = Inr v \<longleftrightarrow>
    (\<exists>p. DecodePlanProposal text = Inr p \<and>
      ValidatePlanProposal p (uuidText (m_IssueID mission)) limits = [] \<and>
      pp_Input p = input \<and> pp_Limits p = limits \<and> v = \<lparr>vpp_Proposal = p, vpp_Canonical = PlanProposal_json p\<rparr>)"
proof -
  let ?spec = "planning_run_spec mission input limits"
  note spec = planning_run_spec_read_back [OF assms(1), of mission input]
  have f: "prs_SchemaVersion ?spec = PlanningRunSpecSchemaVersion" "prs_MissionID ?spec = uuidText (m_IssueID mission)"
    "prs_ProposalArtifactKind ?spec = ArtifactKindPlanProposal"
    "prs_ProposalSchemaVersion ?spec = PlanProposalSchemaVersion" "prs_Input ?spec = input" "prs_Limits ?spec = limits"
    by (simp_all add: planning_run_spec_def)
  show ?thesis
    by (auto simp: validatePlanningTaskProposal_def planner_answer_read spec f assms(2)
        DecodeAndValidatePlanProposal_def validate_decoded_def Let_def split: option.splits sum.splits)
qed

text \<open>A planner that answers with the canonical text of an acceptable proposal is understood.\<close>

lemma object_not_blank: "TrimSpace (json_marshal (JObj ms)) \<noteq> []"
proof -
  have "lead_space go_spaces (CHR ''{'' # t) = 0" "lead_space (map rev go_spaces) (CHR ''}'' # t) = 0" for t
    by (simp_all add: lead_space_def go_spaces_def)
  then have "trim_lead go_spaces (CHR ''{'' # t) = CHR ''{'' # t"
    "trim_lead (map rev go_spaces) (CHR ''}'' # t) = CHR ''}'' # t" for t
    by (subst trim_lead.simps, simp)+
  then show ?thesis by (simp add: TrimSpace_def)
qed

lemma canonical_answer_accepted:
  assumes "limits64 (pp_Limits p)" and "proposal64 p" and "json_plain maxNestingDepth (PlanProposal_json p)"
    and "ValidatePlanProposal p (uuidText (m_IssueID mission)) (pp_Limits p) = []"
  shows "validatePlanningTaskProposal (m_IssueID mission)
      (PlanningRunSpec_json (planning_run_spec mission (pp_Input p) (pp_Limits p)))
      (Some (planner_answer (EncodePlanProposal p))) = Inr \<lparr>vpp_Proposal = p, vpp_Canonical = PlanProposal_json p\<rparr>"
proof -
  have "TrimSpace (EncodePlanProposal p) \<noteq> []"
    unfolding EncodePlanProposal_def PlanProposal_json_def by (rule object_not_blank)
  then show ?thesis
    using answer_accepted_iff [OF assms(1)] DecodePlanProposal_Encode [OF assms(2,3)] assms(4) by auto
qed

end
