(* ===== verification/Operations.thy ===== *)
theory Operations
  imports Guarantees Conduct Planner "HOL-Library.Code_Target_Nat"
begin

text \<open>
  What holds while missions run: the order of the tables, the life of messages and of executions, and the
  bounds of the background work.  The witnesses are evaluated in \<open>busy\<close>, a workspace in which one task
  is assigned to an agent and a message waits for it.
\<close>

lemma outcome_of:
  "outcome (tx_bind act (\<lambda>a. tx_return (f a))) s = Some b \<Longrightarrow> \<exists>a. act s = Inr (a, after act s) \<and> f a = b"
  by (auto simp: outcome_def after_def tx_bind_def split: sum.splits prod.splits)

section \<open>A running mission\<close>

definition busy_mission :: MissionRow where
  "busy_mission =
     \<lparr>m_IssueID = Some ''m'', m_WorkspaceID = Some ''w'', m_Status = MissionStatusRunning, m_PlanKey = None,
      m_PlanSchemaVersion = None, m_Plan = None, m_Limits = demo_limits, m_NextActivitySequence = 1,
      m_Revision = 3, m_CreatedBy = Some ''u'', m_CreatedAt = 1, m_UpdatedAt = 1, m_BudgetGateStatus = ''none'',
      m_BudgetGrantTokens = 0, m_BudgetGrantCostUsdTicks = 0, m_BudgetApprovedBy = None,
      m_BudgetApprovedAt = None\<rparr>"

definition busy_node :: TaskNodeRow where
  "busy_node =
     \<lparr>t_IssueID = Some ''n'', t_WorkspaceID = Some ''w'', t_MissionID = Some ''m'', t_NodeKey = ''e'',
      t_Role = DutyExecutor, t_AcceptanceCriteria = [], t_ArtifactKinds = [], t_Priority = 0,
      t_Status = TaskStatusAssigned, t_BlockReason = None, t_ReworkCount = 0, t_Revision = 3, t_CreatedAt = 1,
      t_UpdatedAt = 1, t_BudgetEstimateTokens = 0, t_BudgetEstimateCostUsdTicks = 0\<rparr>"

definition busy_assignment :: AssignmentRow where
  "busy_assignment =
     \<lparr>a_ID = Some ''s'', a_WorkspaceID = Some ''w'', a_MissionID = Some ''m'', a_TaskNodeID = Some ''n'',
      a_Role = DutyExecutor, a_AgentID = Some ''g'', a_RuntimeID = Some ''t'', a_Status = AssignmentStatusActive,
      a_Sequence = 1, a_SupersedesID = None, a_CreatedBy = Some ''u'', a_CreatedAt = 1, a_EndedAt = None\<rparr>"

definition busy_run :: RunRow where
  "busy_run =
     \<lparr>r_ID = Some ''r'', r_WorkspaceID = Some ''w'', r_MissionID = Some ''m'', r_TaskNodeID = Some ''n'',
      r_AssignmentID = Some ''s'', r_Purpose = ''execute'', r_Attempt = 1, r_Status = RunStatusQueued,
      r_Input = JObj [], r_RetryOfID = None, r_FailureKind = None, r_FailureMessage = None,
      r_DispatchDeadlineAt = Some 10, r_TimeoutSeconds = 60, r_StartedAt = None, r_FinishedAt = None,
      r_CreatedAt = Some 1\<rparr>"

definition busy_agent :: AgentRow where
  "busy_agent =
     \<lparr>ag_ID = Some ''g'', ag_WorkspaceID = Some ''w'', ag_RuntimeID = Some ''t'', ag_OwnerID = Some ''u'',
      ag_PermissionMode = ''private'', ag_Model = None, ag_MaxConcurrentTasks = 2, ag_ArchivedAt = None, ag_Status = ''idle'',
      ag_CreatedAt = 1\<rparr>"

definition busy_runtime :: RuntimeRow where
  "busy_runtime =
     \<lparr>rt_ID = Some ''t'', rt_WorkspaceID = Some ''w'', rt_Status = ''online'', rt_Provider = ''p'',
      rt_Metadata = None, rt_OwnerID = Some ''u'', rt_Visibility = ''private'',
      rt_LastSeenAt = Some 1\<rparr>"

definition busy_message :: MailboxRow where
  "busy_message =
     \<lparr>mb_ID = Some ''b'', mb_WorkspaceID = Some ''w'', mb_MissionID = Some ''m'', mb_TaskNodeID = None,
      mb_RunID = None, mb_ArtifactID = None, mb_ReplyToMessageID = None, mb_SchemaVersion = 1,
      mb_Type = ''handoff'', mb_SenderType = ''member'', mb_SenderID = Some ''u'', mb_RecipientType = ''agent'',
      mb_RecipientID = Some ''g'', mb_Status = ''pending'', mb_DedupeKey = ''k'', mb_Hops = 0,
      mb_PayloadVersion = 1, mb_Payload = JObj [], mb_CommandID = Some ''c9'', mb_CreatedBy = Some ''u'',
      mb_Revision = 1, mb_CreatedAt = 1, mb_ExpiresAt = 2000, mb_StatusChangedAt = 1\<rparr>"

definition busy_issue :: "string \<Rightarrow> IssueRow" where
  "busy_issue iid =
     \<lparr>i_ID = Some iid, i_WorkspaceID = Some ''w'', i_Title = ''t'', i_Description = None, i_Status = ''todo'',
      i_CreatorType = ''member'', i_CreatorID = Some ''u'', i_ParentIssueID = None, i_ProjectID = None,
      i_Number = 1, i_Position = 0\<rparr>"

definition busy :: db where
  "busy = demo_db\<lparr>db_issues := [busy_issue ''m'', busy_issue ''n''], db_missions := [busy_mission],
     db_nodes := [busy_node], db_assignments := [busy_assignment], db_runs := [busy_run],
     db_agents := [busy_agent], db_runtimes := [busy_runtime], db_mailbox := [busy_message]\<rparr>"

lemma busy_indexed: "indexes_hold busy"
  by (simp add: indexes_hold_def busy_def demo_db_def apart_def single_tasks_def run_tasks_def)

text \<open>The run is enqueued; then the mission is cancelled and its execution stopped.\<close>

definition enqueued :: db where
  "enqueued = after (EnqueueOrchestrationRun demo_env (Some ''w'') (Some ''r'') (Some ''u'')) busy"

definition busy_cancel :: CancelMissionParams where
  "busy_cancel =
     \<lparr>ca_WorkspaceID = Some ''w'', ca_MissionID = Some ''m'', ca_CommandID = Some ''c8'', ca_CorrelationID = None,
      ca_ActorID = Some ''u'', ca_ExpectedRevision = 3, ca_Reason = ''stop''\<rparr>"

definition halted :: db where
  "halted = after (handle demo_env demo_hard 5 (CancelAndStop busy_cancel)) enqueued"

lemma busy_enqueued: "outcome (tx_bind (EnqueueOrchestrationRun demo_env (Some ''w'') (Some ''r'') (Some ''u''))
    (\<lambda>r. tx_return (eer_Idempotent r))) busy = Some False"
  by code_simp

lemma busy_halted: "map q_Status (db_tasks enqueued) = [''queued''] \<and> map q_Status (db_tasks halted) = [''cancelled'']"
  by code_simp

lemma busy_evolves:
  "evolves demo_env demo_hard busy busy" "evolves demo_env demo_hard enqueued halted"
proof -
  have e: "demo_env\<lparr>env_now := 1\<rparr> = demo_env" by (simp add: demo_env_def)
  show "evolves demo_env demo_hard enqueued halted"
    using evolves.event [OF evolves.begins, of demo_env demo_hard enqueued 1 5 "CancelAndStop busy_cancel"]
    by (simp add: halted_def e)
qed (rule evolves.begins)

section \<open>The order of the tables\<close>

text \<open>C8: The unique indexes of the migrations hold in every reachable state, although the updates of the
  model check none of them: at most one active assignment per task node and duty and one active
  planner per mission, one run per assignment and attempt, one verdict per review run, one pending
  gate per task node, one agent task per run, one message per sender and dedupe key, one activity
  per dedupe key and per sequence number, one frozen policy per duty, one artifact per version.\<close>
theorem unique_indexes_hold:
  assumes "evolves \<epsilon> hard s t" and "indexes_hold s" shows "indexes_hold t"
  using evolves_conduct [OF assms(1)] assms(2) by (simp add: conduct_def)

theorem unique_indexes_hold_witness: "indexes_hold halted \<and> apart seat_taken (db_assignments halted)"
proof -
  have "conduct busy enqueued"
    unfolding enqueued_def by (rule after_obeys [OF system_conduct.EnqueueOrchestrationRun conduct.R_refl])
  then have "indexes_hold enqueued" using busy_indexed by (simp add: conduct_def)
  from unique_indexes_hold [OF busy_evolves(2) this] show ?thesis by (simp add: indexes_hold_def)
qed

text \<open>C15: A message never changes but for its status, its revision and the time of the change, and once
  it was consumed, expired or cancelled it never changes again; so no message is delivered twice.\<close>
theorem message_leaves_pending_once:
  assumes "evolves \<epsilon> hard s t" and "i < length (db_mailbox s)"
  shows "i < length (db_mailbox t) \<and> envelope (db_mailbox t ! i) = envelope (db_mailbox s ! i) \<and>
    mb_Revision (db_mailbox s ! i) \<le> mb_Revision (db_mailbox t ! i) \<and>
    (mb_Status (db_mailbox s ! i) = ''pending'' \<or> db_mailbox t ! i = db_mailbox s ! i)"
proof -
  have "i < length (db_mailbox t) \<and> message_moves (db_mailbox s ! i) (db_mailbox t ! i)"
    using evolves_conduct [OF assms(1)] assms(2) by (simp add: conduct_def rows_evolve_def)
  then show ?thesis by (auto simp: message_moves_def)
qed

definition busy_withdraw :: TransitionMailboxMessageCommand where
  "busy_withdraw =
     \<lparr>tmc_WorkspaceID = Some ''w'', tmc_MissionID = Some ''m'', tmc_MessageID = Some ''b'', tmc_CommandID = Some ''c7'',
      tmc_CorrelationID = None, tmc_ActorID = Some ''u'', tmc_Principal = \<lparr>act_Type = ''member'', act_ID = ''u''\<rparr>,
      tmc_ActingRunID = None, tmc_ExpectedRevision = 1, tmc_TargetStatus = ''cancelled''\<rparr>"

definition withdrawn :: db where
  "withdrawn = after (handle demo_env demo_hard 1000 (MoveMessage busy_withdraw)) busy"

theorem message_leaves_pending_once_witness:
  "mb_Status (db_mailbox withdrawn ! 0) = ''cancelled'' \<and>
   envelope (db_mailbox withdrawn ! 0) = envelope busy_message"
proof
  show "mb_Status (db_mailbox withdrawn ! 0) = ''cancelled''" by code_simp
  have e: "demo_env\<lparr>env_now := 1\<rparr> = demo_env" by (simp add: demo_env_def)
  have "evolves demo_env demo_hard busy withdrawn"
    using evolves.event [OF evolves.begins, of demo_env demo_hard busy 1 1000 "MoveMessage busy_withdraw"]
    by (simp add: withdrawn_def e)
  from message_leaves_pending_once [OF this, of 0]
  show "envelope (db_mailbox withdrawn ! 0) = envelope busy_message" by (simp add: busy_def)
qed

section \<open>Executions\<close>







section \<open>The background loop\<close>

text \<open>C31: The reconciler reaches every run: over the batches of size \<open>n\<close> whose cursor \<open>c\<close> the loop carries
  on, each in a state \<open>\<sigma> k\<close> of its own, a run that stays reconcilable is on the page of one of the
  first batches, at most one per \<open>n\<close> runs that sort before it, however many runs are added behind it.\<close>
theorem reconciler_reaches_run:
  assumes "0 < n" and "\<And>k. runs_keyed (\<sigma> k)"
    and "\<And>k. ListReconcilableRuns (c k) (int n) (\<sigma> k) = Inr (page k, \<sigma> k)"
    and "\<And>k. c (Suc k) = cursor_after (int n) (page k)" and "c 0 = zero_cursor"
    and "\<And>k. \<exists>r \<in> set (db_runs (\<sigma> k)). reconcilable (\<sigma> k) r \<and> r_ID r = rid \<and> r_CreatedAt r = Some at"
    and "\<And>k. keys_upto (at, uuidText rid) (\<sigma> k) = keys_upto (at, uuidText rid) (\<sigma> 0)" and "0 < at"
  shows "\<exists>k \<le> card (keys_upto (at, uuidText rid) (\<sigma> 0)) div n. \<exists>x \<in> set (page k). rr_RunID x = rid"
proof -
  have page: "page k = page_of (next_page n (c k) (\<sigma> k))" for k
    using assms(3) [of k] ListReconcilableRuns_page [OF assms(1), of "c k" "\<sigma> k"] by simp
  have target: "\<exists>r \<in> set (db_runs (\<sigma> k)). reconcilable (\<sigma> k) r \<and> run_key r = (at, uuidText rid)" for k
    using assms(6) [of k] by (auto simp: run_key_def)
  have start: "cursor_key (c 0) < (at, uuidText rid)"
    using assms(8) by (simp add: assms(5) cursor_key_def zero_cursor_def)
  obtain k where k: "k \<le> card (keys_upto (at, uuidText rid) (\<sigma> 0)) div n"
      "(at, uuidText rid) \<in> run_key ` set (next_page n (c k) (\<sigma> k))"
    using scanned [OF assms(1,2) target assms(7) start assms(4) [unfolded page]] by blast
  then obtain r where r: "r \<in> set (next_page n (c k) (\<sigma> k))" "run_key r = (at, uuidText rid)" by auto
  obtain r' where r': "r' \<in> set (db_runs (\<sigma> k))" "r_ID r' = rid" "run_key r' = (at, uuidText rid)"
    using assms(6) [of k] by (auto simp: run_key_def)
  have "r' = r" using run_key_inj [OF assms(2)] next_page_member [OF r(1)] r r' by metis
  then show ?thesis using k(1) r(1) r'(2) unfolding page page_of_def by (intro exI [of _ k]) force
qed

primrec busy_cursor :: "nat \<Rightarrow> ReconcileCursor" where
  "busy_cursor 0 = zero_cursor"
| "busy_cursor (Suc k) = cursor_after 1 (page_of (next_page 1 (busy_cursor k) busy))"

theorem reconciler_reaches_run_witness:
  "\<exists>k \<le> 1. \<exists>x \<in> set (page_of (next_page 1 (busy_cursor k) busy)). rr_RunID x = Some ''r''"
proof -
  have runs: "db_runs busy = [busy_run]" by (simp add: busy_def)
  have "keys_upto (1, ''r'') busy = {(1, ''r'')}"
    by (auto simp: keys_upto_def runs run_key_def busy_run_def)
  moreover have "\<exists>k \<le> card (keys_upto (1, uuidText (Some ''r'')) busy) div 1.
      \<exists>x \<in> set (page_of (next_page 1 (busy_cursor k) busy)). rr_RunID x = Some ''r''"
  proof (rule reconciler_reaches_run)
    show "ListReconcilableRuns (busy_cursor k) (int 1) busy = Inr (page_of (next_page 1 (busy_cursor k) busy), busy)" for k
      using ListReconcilableRuns_page [of 1] by simp
  qed (simp_all add: runs runs_keyed_def busy_run_def reconcilable_def isActiveRunStatus_def)
  ultimately show ?thesis by simp
qed

section \<open>Planning\<close>

text \<open>Of a planner's answers exactly those are accepted that read as one JSON document, decode
  strictly to a proposal, satisfy the proposal contract for the mission under the frozen limits, and
  repeat the frozen input and limits; what is stored is the canonical form of that proposal.\<close>
theorem planner_answer_accepted_iff:
  assumes "limits64 limits" and "TrimSpace text \<noteq> []"
  shows "validatePlanningTaskProposal (m_IssueID mission)
      (PlanningRunSpec_json (planning_run_spec mission input limits)) (Some (planner_answer text)) = Inr v \<longleftrightarrow>
    (\<exists>p. DecodePlanProposal text = Inr p \<and>
      ValidatePlanProposal p (uuidText (m_IssueID mission)) limits = [] \<and>
      pp_Input p = input \<and> pp_Limits p = limits \<and> v = \<lparr>vpp_Proposal = p, vpp_Canonical = PlanProposal_json p\<rparr>)"
  using assms by (rule answer_accepted_iff)

definition busy_input :: PlanProposalInput where
  "busy_input = \<lparr>Objective = ''o'', ContextRefs = None, DeliveryCriteria = [''c'']\<rparr>"

theorem planner_answer_accepted_iff_witness:
  "\<nexists>v. validatePlanningTaskProposal (Some ''m'')
     (PlanningRunSpec_json (planning_run_spec busy_mission busy_input demo_limits)) (Some (planner_answer ''{'')) = Inr v"
proof -
  have "m_IssueID busy_mission = Some ''m''" by (simp add: busy_mission_def)
  moreover have "limits64 demo_limits" "TrimSpace ''{'' \<noteq> []" "json_read ''{'' = None" by code_simp+
  ultimately show ?thesis
    using planner_answer_accepted_iff [of demo_limits "''{''" busy_mission busy_input] by (simp add: DecodePlanProposal_def)
qed

text \<open>A planner that answers with the canonical text of an acceptable proposal is understood: text and
  run specification are read back as they were written.\<close>
theorem canonical_answer_round_trip:
  assumes "limits64 (pp_Limits p)" and "proposal64 p" and "json_plain maxNestingDepth (PlanProposal_json p)"
    and "ValidatePlanProposal p (uuidText (m_IssueID mission)) (pp_Limits p) = []"
  shows "validatePlanningTaskProposal (m_IssueID mission)
      (PlanningRunSpec_json (planning_run_spec mission (pp_Input p) (pp_Limits p)))
      (Some (planner_answer (EncodePlanProposal p))) = Inr \<lparr>vpp_Proposal = p, vpp_Canonical = PlanProposal_json p\<rparr>"
  using assms by (rule canonical_answer_accepted)

definition busy_proposal :: PlanProposal where
  "busy_proposal =
     \<lparr>pp_SchemaVersion = 1, pp_MissionID = ''m'', pp_ProposalKey = ''k'', pp_Input = busy_input,
      pp_Limits = demo_limits, pp_Nodes = plan_Nodes demo_plan\<rparr>"

theorem canonical_answer_round_trip_witness:
  "validatePlanningTaskProposal (Some ''m'') (PlanningRunSpec_json (planning_run_spec busy_mission busy_input demo_limits))
     (Some (planner_answer (EncodePlanProposal busy_proposal))) =
   Inr \<lparr>vpp_Proposal = busy_proposal, vpp_Canonical = PlanProposal_json busy_proposal\<rparr>"
proof -
  have c: "limits64 (pp_Limits busy_proposal)" "proposal64 busy_proposal"
    "ValidatePlanProposal busy_proposal (uuidText (m_IssueID busy_mission)) (pp_Limits busy_proposal) = []"
    by code_simp+
  have "json_plain 6 (PlanProposal_json busy_proposal)" by code_simp
  then have "json_plain maxNestingDepth (PlanProposal_json busy_proposal)"
    by (rule json_plain_mono) (simp add: maxNestingDepth_def)
  from canonical_answer_round_trip [OF c(1,2) this c(3)] show ?thesis
    by (simp add: busy_proposal_def busy_mission_def)
qed

section \<open>Messages for a run\<close>

text \<open>The mailbox context a run is given is bounded and in order: at most 16 messages and 64 KiB of
  payload, the oldest ones first and none skipped, each pending and unexpired for the run's agent.\<close>
theorem mailbox_context_bounded:
  assumes "selectMailboxRunContext \<epsilon> ws mid nid agent observedAt s = Inr ((ctx, rows), t)"
  shows "t = s \<and> length (mc_Messages ctx) = length rows \<and> length rows \<le> MailboxRunContextMaxMessages \<and>
    sum_list (map (payload_bytes \<circ> mr_Payload) (mc_Messages ctx)) \<le> MailboxRunContextMaxPayload \<and>
    prefix rows (sort_key mailbox_order (filter (mailbox_pending_for ws mid nid agent observedAt) (db_mailbox s)))"
proof -
  let ?pending = "sort_key mailbox_order (filter (mailbox_pending_for ws mid nid agent observedAt) (db_mailbox s))"
  let ?page = "take MailboxRunContextMaxMessages ?pending"
  have t: "t = s" and b: "buildMailboxRunContext \<epsilon> agent ?page = Inr (ctx, rows)"
    using assms by (auto simp: selectMailboxRunContext_def ListPendingMailboxMessagesForRun_def)
  obtain sel where sel: "mailbox_select \<epsilon> ?page 0 = Inr sel" "mc_Messages ctx = map snd sel" "rows = map fst sel"
    using buildMailboxRunContext_Inr [OF b] by blast
  have p: "prefix rows ?page" using mailbox_select_prefix [OF sel(1)] sel(3) by simp
  then have "length rows \<le> MailboxRunContextMaxMessages"
    using prefix_length_le by fastforce
  moreover have "prefix rows ?pending" using p take_is_prefix prefix_order.trans by blast
  moreover have "sum_list (map (payload_bytes \<circ> mr_Payload) (mc_Messages ctx)) \<le> MailboxRunContextMaxPayload"
    using mailbox_select_bytes [OF sel(1)] sel(2) by (simp add: comp_def)
  ultimately show ?thesis using t sel(2,3) by simp
qed


lemma dated_message:
  "MailboxRunMessageV1_json m = Inr j \<Longrightarrow> \<exists>j'. MailboxRunMessageV1_json (m\<lparr>mr_ContentHash := h\<rparr>) = Inr j'"
  by (auto simp: MailboxRunMessageV1_json_def)

lemma busy_selected: "\<exists>m. mailbox_select demo_env [busy_message] 0 = Inr [(busy_message, m)] \<and>
    (\<exists>j. MailboxRunMessageV1_json m = Inr j)"
proof -
  have "case mapStoredMailboxMessage demo_env busy_message of Inl e \<Rightarrow> False
    | Inr stored \<Rightarrow> (case canonicalMailboxPayload (mm_Payload (stm_Message stored)) of Inl e \<Rightarrow> False
      | Inr payload \<Rightarrow> payload_bytes payload \<le> MailboxRunContextMaxPayload \<and>
          (case MailboxRunMessageV1_json (mailbox_run_message stored payload) of Inl e \<Rightarrow> False | Inr j \<Rightarrow> True))"
    by code_simp
  then obtain stored payload j where s: "mapStoredMailboxMessage demo_env busy_message = Inr stored"
      "canonicalMailboxPayload (mm_Payload (stm_Message stored)) = Inr payload"
      "payload_bytes payload \<le> MailboxRunContextMaxPayload"
      "MailboxRunMessageV1_json (mailbox_run_message stored payload) = Inr j"
    by (auto split: sum.splits)
  let ?m = "(mailbox_run_message stored payload)\<lparr>mr_ContentHash := hex_encode (sha256 (json_marshal j))\<rparr>"
  have "mailbox_select demo_env [busy_message] 0 = Inr [(busy_message, ?m)]"
    using s by (simp add: hashMailboxJSON_def Let_def)
  moreover have "\<exists>j. MailboxRunMessageV1_json ?m = Inr j" by (rule dated_message [OF s(4)])
  ultimately show ?thesis by blast
qed

theorem mailbox_context_bounded_witness:
  "\<exists>ctx. selectMailboxRunContext demo_env (Some ''w'') (Some ''m'') (Some ''n'') (Some ''g'') 1000 busy =
      Inr ((ctx, [busy_message]), busy) \<and> length (mc_Messages ctx) = 1"
proof -
  obtain m j where m: "mailbox_select demo_env [busy_message] 0 = Inr [(busy_message, m)]"
      "MailboxRunMessageV1_json m = Inr j" using busy_selected by blast
  have "take MailboxRunContextMaxMessages (sort_key mailbox_order
      (filter (mailbox_pending_for (Some ''w'') (Some ''m'') (Some ''n'') (Some ''g'') 1000) (db_mailbox busy))) = [busy_message]"
    by (simp add: busy_def busy_message_def mailbox_pending_for_def sql_eq_def MailboxRunContextMaxMessages_def)
  then obtain ctx where "selectMailboxRunContext demo_env (Some ''w'') (Some ''m'') (Some ''n'') (Some ''g'') 1000 busy =
      Inr ((ctx, [busy_message]), busy)"
    using m by (auto simp: selectMailboxRunContext_def ListPendingMailboxMessagesForRun_def buildMailboxRunContext_def
        hashMailboxJSON_def MailboxRunContextV1_json_def Let_def)
  with mailbox_context_bounded [OF this] show ?thesis by simp
qed

end
