(* ===== verification/AdvanceLimits.thy ===== *)
theory AdvanceLimits
  imports AdvanceLaws PlanGraph
begin

text \<open>
  What one step of the orchestrator may start.  Every pass of a phase either leaves the runs alone
  (\<open>quiet_pass\<close>) or queues one run for a node of the mission after its estimate was admitted
  (\<open>spawn_pass\<close>); \<open>within_limits\<close> is what these passes keep: the runs created fit the budget, and no
  first attempt is queued beyond the limit of parallel runs.
\<close>

section \<open>Queries that leave the work alone\<close>

definition work_same :: "db \<Rightarrow> db \<Rightarrow> bool" where
  "work_same s t \<longleftrightarrow> db_runs t = db_runs s \<and> db_assignments t = db_assignments s \<and> db_nodes t = db_nodes s \<and>
     db_artifacts t = db_artifacts s \<and> db_agents t = db_agents s"

interpretation work_same: tx_preorder work_same
  by unfold_locales (simp_all add: work_same_def)

lemma work_same_ops:
  "obeys work_same (TransitionMissionState \<epsilon> ws mid target' expected')"
  "obeys work_same (SetMissionBudgetGate \<epsilon> ws mid gate)"
  "obeys work_same (UpdateIssueStatus ws iid status)"
  "obeys work_same (CreatePendingHumanGate \<epsilon> ws mid nid arid rid kind why context)"
  "obeys work_same (TransitionMailboxMessageStatus msgTarget observed msgID ws mid revision)"
  "obeys work_same (CreateOrchestrationActivity \<epsilon> row)"
  "obeys work_same (allocateActivitySequence \<epsilon> ws mid)"
  unfolding TransitionMissionState_def SetMissionBudgetGate_def UpdateIssueStatus_def CreatePendingHumanGate_def
    TransitionMailboxMessageStatus_def CreateOrchestrationActivity_def allocateActivitySequence_def
    AllocateMissionActivitySequence_def update_mission_def draw_uuid_def
  by (intro work_same.bind work_same.wrap work_same.return obeys_update obeys_insert;
      auto simp: work_same_def intro!: obeysI)+

lemma work_same_activities:
  "obeys work_same (createAutomaticActivity \<epsilon> mission nid rid typ st sid c corr key payload)"
  "obeys work_same (createMailboxDeliveryActivity \<epsilon> mission run msg agent corr payload)"
  "obeys work_same (createPendingHumanGate \<epsilon> mission node artifact rid kind reason context c corr)"
  "obeys work_same (task_activity \<epsilon> x nid typ c key payload)"
  "obeys work_same (run_queued_activity \<epsilon> x run payload)"
  "obeys work_same (consumeMailboxRunContext \<epsilon> mission run agent snap rows observed corr)"
  unfolding createAutomaticActivity_def createMailboxDeliveryActivity_def createPendingHumanGate_def
    task_activity_def run_queued_activity_def consumeMailboxRunContext_def consume_message_def
  by (intro work_same.rules work_same_ops)+

lemmas work_dest = work_same_ops [THEN obeysD, unfolded work_same_def]
  work_same_activities [THEN obeysD, unfolded work_same_def]

text \<open>A node moves, an assignment ends: the runs stay.\<close>

lemma move_node_Inr:
  assumes "move_node \<epsilon> x msg node target reason s = Inr (u, t)"
  shows "db_runs t = db_runs s" "db_assignments t = db_assignments s" "db_artifacts t = db_artifacts s"
    "db_agents t = db_agents s"
  using assms by (auto simp: move_node_def TransitionTaskNodeState_def update_node_def tx_update_Inr)

lemma EndOrchestrationAssignment_runs:
  "EndOrchestrationAssignment \<epsilon> ws mid aid ended s = Inr (a, t) \<Longrightarrow> db_runs t = db_runs s"
  by (auto simp: EndOrchestrationAssignment_def tx_update_Inr)

lemmas runs_others = work_dest EndOrchestrationAssignment_runs

section \<open>Passes\<close>

definition db_shapes :: "db \<Rightarrow> (uuid \<times> BudgetEstimate) set" where
  "db_shapes s = (\<lambda>n. (t_IssueID n, budgetEstimateForNode n)) ` set (db_nodes s)"

definition av_shapes :: "advance_state \<Rightarrow> (uuid \<times> BudgetEstimate) set" where
  "av_shapes st = (\<lambda>n. (t_IssueID n, budgetEstimateForNode n)) ` set (av_nodes st)"

definition quiet_pass :: "advance_state \<Rightarrow> db \<Rightarrow> advance_state \<Rightarrow> db \<Rightarrow> bool" where
  "quiet_pass st s st' t \<longleftrightarrow>
     av_shapes st' \<subseteq> av_shapes st \<union> db_shapes s \<and> length (av_nodes st') = length (av_nodes st) \<and>
     av_runs st' = av_runs st \<and> av_created st' = av_created st \<and> av_usage st' = av_usage st \<and>
     av_activeRuns st' = av_activeRuns st \<and> db_runs t = db_runs s"

definition spawn_pass :: "advance_input \<Rightarrow> bool \<Rightarrow> advance_state \<Rightarrow> db \<Rightarrow> advance_state \<Rightarrow> db \<Rightarrow> bool" where
  "spawn_pass x first st s st' t \<longleftrightarrow> (\<exists>run estimate.
     (r_TaskNodeID run, estimate) \<in> av_shapes st \<and> Allowed (admission x st estimate) \<and>
     r_ID run \<noteq> None \<and> r_Status run = RunStatusQueued \<and> r_WorkspaceID run = x_ws x \<and> r_MissionID run = x_mid x \<and>
     (if first then r_RetryOfID run = None \<and> av_activeRuns st < MaxParallelRuns (ax_limits x)
      else r_RetryOfID run \<in> r_ID ` set (av_runs st)) \<and>
     av_shapes st' \<subseteq> av_shapes st \<union> db_shapes s \<and> length (av_nodes st') = length (av_nodes st) \<and>
     av_runs st' = av_runs st @ [run] \<and> av_created st' = av_created st @ [run] \<and>
     av_usage st' = AddBudgetReservation (av_usage st) estimate \<and>
     av_activeRuns st' = av_activeRuns st + (if first then 1 else 0) \<and> db_runs t = db_runs s @ [run])"

fun outcome_state :: "advance_outcome \<Rightarrow> advance_state" where
  "outcome_state (Advancing st) = st"
| "outcome_state (OverBudget st d) = st"

lemma quiet_refl: "quiet_pass st s st s"
  by (simp add: quiet_pass_def)

lemma move_node_shape:
  "move_node \<epsilon> x msg node target reason s = Inr (u, t) \<Longrightarrow> (t_IssueID u, budgetEstimateForNode u) \<in> db_shapes s"
  by (auto simp: move_node_def TransitionTaskNodeState_def update_node_def tx_update_Inr find_Some_iff db_shapes_def
      touch_node_def budgetEstimateForNode_def image_iff intro!: bexI [OF _ nth_mem])

lemma shapes_update:
  "(t_IssueID u, budgetEstimateForNode u) \<in> S \<Longrightarrow>
     (\<lambda>n. (t_IssueID n, budgetEstimateForNode n)) ` set (ns[i := u]) \<subseteq>
     (\<lambda>n. (t_IssueID n, budgetEstimateForNode n)) ` set ns \<union> S"
  using set_update_subset_insert [of ns i u] by auto

lemma update_av_node_simps [simp]:
  "av_runs (update_av_node u st) = av_runs st" "av_created (update_av_node u st) = av_created st"
  "av_usage (update_av_node u st) = av_usage st" "av_activeRuns (update_av_node u st) = av_activeRuns st"
  "length (av_nodes (update_av_node u st)) = length (av_nodes st)"
  by (simp_all add: update_av_node_def)

lemma logged_simps [simp]:
  "av_runs (logged acts st) = av_runs st" "av_created (logged acts st) = av_created st"
  "av_usage (logged acts st) = av_usage st" "av_activeRuns (logged acts st) = av_activeRuns st"
  "av_nodes (logged acts st) = av_nodes st"
  by (simp_all add: logged_def)

lemma shapes_logged [simp]: "av_shapes (logged acts st) = av_shapes st"
  by (simp add: av_shapes_def)

lemma shapes_update_av_node:
  "(t_IssueID u, budgetEstimateForNode u) \<in> S \<Longrightarrow> av_shapes (update_av_node u st) \<subseteq> av_shapes st \<union> S"
  using set_replace_first [of "\<lambda>n. t_IssueID n = t_IssueID u" u "av_nodes st"]
  by (auto simp: av_shapes_def update_av_node_def)

text \<open>A pass that moves a node and notes it.\<close>

lemma quiet_moved:
  assumes "move_node \<epsilon> x msg node target reason s = Inr (u, s')" and "db_runs t = db_runs s'"
  shows "quiet_pass st s (logged acts (update_av_node u st)) t"
    and "quiet_pass st s (logged acts (st\<lparr>av_nodes := (av_nodes st)[i := u]\<rparr>)) t"
  using shapes_update_av_node [OF move_node_shape [OF assms(1)]] shapes_update [OF move_node_shape [OF assms(1)]]
    move_node_Inr(1) [OF assms(1)] assms(2)
  by (auto simp: quiet_pass_def av_shapes_def)


lemma CreateOrchestrationRun_Inr:
  assumes "CreateOrchestrationRun \<epsilon> ws mid nid aid purpose attempt input retryOf deadline timeout s = Inr (r, t)"
  shows "db_runs t = db_runs s @ [r]" "r_TaskNodeID r = nid" "r_Status r = RunStatusQueued" "r_WorkspaceID r = ws"
    "r_MissionID r = mid" "r_RetryOfID r = retryOf" "r_Purpose r = purpose" "r_AssignmentID r = aid"
    "db_assignments t = db_assignments s" "db_nodes t = db_nodes s" "r_ID r \<noteq> None"
  using assms by (auto simp: CreateOrchestrationRun_def draw_uuid_def tx_insert_Inr)

lemma with_run_simps [simp]:
  "av_runs (with_run run e st) = av_runs st @ [run]" "av_created (with_run run e st) = av_created st @ [run]"
  "av_usage (with_run run e st) = AddBudgetReservation (av_usage st) e" "av_nodes (with_run run e st) = av_nodes st"
  "av_activeRuns (with_run run e st) = av_activeRuns st" "av_assignments (with_run run e st) = av_assignments st"
  by (simp_all add: with_run_def)

lemma findNode_shape: "findNode ns nid = Some n \<Longrightarrow> n \<in> set ns \<and> t_IssueID n = nid"
  by (auto simp: findNode_def dest: find_SomeD)

lemma latest_attempt_member:
  "latest_attempt best aid rs = Some r \<Longrightarrow> (\<And>b. best = Some b \<Longrightarrow> b \<in> S) \<Longrightarrow> set rs \<subseteq> S \<Longrightarrow> r \<in> S"
  by (induction best aid rs rule: latest_attempt.induct) (auto split: if_splits)

lemma latestRun_member: "latestRunForAssignment runs aid = Some r \<Longrightarrow> r \<in> set runs"
  unfolding latestRunForAssignment_def by (erule latest_attempt_member) simp_all

lemma retry_run_pass:
  assumes "retry_run \<epsilon> x a latest st s = Inr (out, t)" and "latest \<in> set (av_runs st)"
  shows "quiet_pass st s (outcome_state out) t \<or> spawn_pass x False st s (outcome_state out) t"
proof (cases "findNode (av_nodes st) (a_TaskNodeID a)")
  case None
  then show ?thesis using assms(1) by (simp add: retry_run_def)
next
  case (Some node)
  let ?e = "budgetEstimateForNode node"
  show ?thesis
  proof (cases "Allowed (admission x st ?e)")
    case False
    then show ?thesis using assms(1) Some by (auto simp: retry_run_def Let_def intro: quiet_refl)
  next
    case True
    obtain run u act where run: "CreateOrchestrationRun \<epsilon> (x_ws x) (x_mid x) (a_TaskNodeID a) (a_ID a)
          (r_Purpose latest) (i32 (r_Attempt latest + 1)) (r_Input latest) (r_ID latest)
          (Some (ap_ObservedAt (ax_params x) + ap_DispatchWindow (ax_params x)))
          (i32 (ap_RunTimeout (ax_params x) div second)) s = Inr (run, u)"
        and act: "run_queued_activity \<epsilon> x run (JObj [(''attempt'', JNum (r_Attempt run)),
          (''retry_of_id'', JStr (uuidText (r_ID latest)))]) u = Inr (act, t)"
        and out: "out = Advancing (logged [act] (with_run run ?e st))"
      using assms(1) Some True by (auto simp: retry_run_def Let_def)
    have "(r_TaskNodeID run, ?e) \<in> av_shapes st"
      using findNode_shape [OF Some] CreateOrchestrationRun_Inr(2) [OF run] by (force simp: av_shapes_def)
    then have "spawn_pass x False st s (outcome_state out) t"
      unfolding spawn_pass_def using True CreateOrchestrationRun_Inr [OF run] work_dest(12) [OF act] assms(2)
      by (intro exI [of _ run] exI [of _ ?e]) (auto simp: out av_shapes_def)
    then show ?thesis ..
  qed
qed

lemma retry_pass:
  assumes "retry_step \<epsilon> x a st s = Inr (out, t)"
  shows "quiet_pass st s (outcome_state out) t \<or> spawn_pass x False st s (outcome_state out) t"
proof -
  have exhausted: "quiet_pass st s (outcome_state out) t"
    if "exhaust_assignment \<epsilon> x a latest target st s = Inr (out, t)" for latest target
  proof (cases "findNode (av_nodes st) (a_TaskNodeID a)")
    case None
    then show ?thesis using that by (auto simp: exhaust_assignment_def intro: quiet_refl)
  next
    case (Some node)
    then show ?thesis using that
      by (auto simp: exhaust_assignment_def Let_def dest!: runs_others intro: quiet_refl quiet_moved split: if_splits)
  qed
  show ?thesis
    using assms latestRun_member [of "av_runs st" "a_ID a"]
    by (auto simp: retry_step_def Let_def split: if_splits option.splits intro: quiet_refl exhausted
        dest!: retry_run_pass)
qed

lemma ready_pass:
  assumes "ready_step \<epsilon> x i st s = Inr (out, t)"
  shows "quiet_pass st s (outcome_state out) t"
  using assms
  by (auto simp: ready_step_def Let_def dest!: runs_others intro: quiet_refl quiet_moved split: if_splits prod.splits)

lemma CreateOrchestrationAssignment_Inr:
  assumes "CreateOrchestrationAssignment \<epsilon> ws mid nid role agent rt seq prev creator s = Inr (a, t)"
  shows "db_assignments t = db_assignments s @ [a]" "a_Role a = role" "a_AgentID a = agent" "a_TaskNodeID a = nid"
    "db_runs t = db_runs s" "db_nodes t = db_nodes s" "db_artifacts t = db_artifacts s" "db_agents t = db_agents s"
    "a_WorkspaceID a = ws" "a_MissionID a = mid"
  using assms by (auto simp: CreateOrchestrationAssignment_def draw_uuid_def tx_insert_Inr)

lemma launch_run_Inr:
  assumes "launch_run \<epsilon> x m1 m2 node duty purpose input timeout sel st s = Inr ((assignment, run, acts), t)"
  shows "db_runs t = db_runs s @ [run]" "r_TaskNodeID run = t_IssueID node" "r_Status run = RunStatusQueued"
    "r_WorkspaceID run = x_ws x" "r_MissionID run = x_mid x" "r_RetryOfID run = None" "db_nodes t = db_nodes s"
    "db_assignments t = db_assignments s @ [assignment]" "a_Role assignment = duty"
    "a_TaskNodeID assignment = t_IssueID node" "uuidFromText \<epsilon> (sel_AgentID sel) = Inr (a_AgentID assignment)"
    "db_artifacts t = db_artifacts s" "db_agents t = db_agents s" "r_Purpose run = purpose"
    "r_AssignmentID run = a_ID assignment" "r_ID run \<noteq> None"
proof -
  obtain seq prev where q: "nextAssignmentSequence (av_assignments st) (t_IssueID node) duty = (seq, prev)"
    by (cases "nextAssignmentSequence (av_assignments st) (t_IssueID node) duty")
  obtain agent rt u1 u2 ctx rows input' u3 where
      agent: "uuidFromText \<epsilon> (sel_AgentID sel) = Inr agent"
      and a: "CreateOrchestrationAssignment \<epsilon> (x_ws x) (x_mid x) (t_IssueID node) duty agent rt seq prev
        (m_CreatedBy (ax_mission x)) s = Inr (assignment, u1)"
      and c: "selectMailboxRunContext \<epsilon> (x_ws x) (x_mid x) (t_IssueID node) agent (ap_ObservedAt (ax_params x)) u1 =
        Inr ((ctx, rows), u2)"
      and r: "CreateOrchestrationRun \<epsilon> (x_ws x) (x_mid x) (t_IssueID node) (a_ID assignment) purpose 1 input' None
        (Some (ap_ObservedAt (ax_params x) + ap_DispatchWindow (ax_params x))) (i32 timeout) u2 = Inr (run, u3)"
      and m: "consumeMailboxRunContext \<epsilon> (ax_mission x) run agent ctx rows (ap_ObservedAt (ax_params x))
        (ap_CorrelationID (ax_params x)) u3 = Inr (acts, t)"
    using assms by (auto simp: launch_run_def q)
  have u: "u2 = u1" using obeysD [OF reads_mailbox_context c] .
  note f = CreateOrchestrationAssignment_Inr [OF a] CreateOrchestrationRun_Inr [OF r [unfolded u]] work_dest(13) [OF m] agent
  have "db_artifacts u3 = db_artifacts u1" "db_agents u3 = db_agents u1"
    using r [unfolded u] by (auto simp: CreateOrchestrationRun_def draw_uuid_def tx_insert_Inr)
  then show "db_runs t = db_runs s @ [run]" "r_TaskNodeID run = t_IssueID node" "r_Status run = RunStatusQueued"
    "r_WorkspaceID run = x_ws x" "r_MissionID run = x_mid x" "r_RetryOfID run = None" "db_nodes t = db_nodes s"
    "db_assignments t = db_assignments s @ [assignment]" "a_Role assignment = duty"
    "a_TaskNodeID assignment = t_IssueID node" "uuidFromText \<epsilon> (sel_AgentID sel) = Inr (a_AgentID assignment)"
    "db_artifacts t = db_artifacts s" "db_agents t = db_agents s" "r_Purpose run = purpose"
    "r_AssignmentID run = a_ID assignment" "r_ID run \<noteq> None"
    using f by simp_all
qed


lemma launched_simps [simp]:
  "av_runs (launched a run acts e st) = av_runs st @ [run]"
  "av_created (launched a run acts e st) = av_created st @ [run]"
  "av_usage (launched a run acts e st) = AddBudgetReservation (av_usage st) e"
  "av_nodes (launched a run acts e st) = av_nodes st"
  "av_activeRuns (launched a run acts e st) = av_activeRuns st + 1"
  "av_assignments (launched a run acts e st) = av_assignments st @ [a]"
  by (simp_all add: launched_def logged_def with_run_def)

lemma spawned:
  assumes "launch_run \<epsilon> x m1 m2 node duty purpose input timeout sel st0 s = Inr ((assignment, run, acts), u)"
    and "node \<in> set (av_nodes st)" and "Allowed (admission x st (budgetEstimateForNode node))"
    and "av_activeRuns st < MaxParallelRuns (ax_limits x)" and "db_runs t = db_runs u"
    and "av_shapes st' \<subseteq> av_shapes st \<union> db_shapes s" and "length (av_nodes st') = length (av_nodes st)"
    and "av_runs st' = av_runs st" "av_created st' = av_created st" "av_usage st' = av_usage st"
      "av_activeRuns st' = av_activeRuns st"
  shows "spawn_pass x True st s (launched assignment run acts' (budgetEstimateForNode node) st') t"
  unfolding spawn_pass_def
  using assms launch_run_Inr [OF assms(1)]
  by (intro exI [of _ run] exI [of _ "budgetEstimateForNode node"]) (auto simp: av_shapes_def)

lemma reads_routing:
  "selectAndLockRoutingCandidate \<epsilon> ws user snapshot producer avoid s = Inr (r, t) \<Longrightarrow> t = s"
  by (rule obeysD [OF reads_selectAndLock])

lemma dispatch_blocked_pass:
  assumes "dispatch_blocked \<epsilon> x i node routing st s = Inr (out, t)"
  shows "quiet_pass st s (outcome_state out) t"
  using assms by (auto simp: dispatch_blocked_def Let_def dest!: runs_others intro: quiet_refl quiet_moved)

lemma dispatch_selected_pass:
  assumes "dispatch_selected \<epsilon> x i node policy routing selected st s = Inr (out, t)"
    and "node \<in> set (av_nodes st)" and "Allowed (admission x st (budgetEstimateForNode node))"
    and "av_activeRuns st < MaxParallelRuns (ax_limits x)"
  shows "spawn_pass x True st s (outcome_state out) t"
proof -
  obtain assignment run acts u1 updated u2 a1 u3 a2 where
      l: "launch_run \<epsilon> x ''advance mission: create work assignment'' ''advance mission: create work run'' node
        (t_Role node) (if t_Role node = DutyIntegrator then ''integrate'' else ''execute'')
        (workRunInput node (dependency_ids x (t_IssueID node)) (ax_artifacts x) (ax_verdicts x))
        (cfg_TimeoutSeconds (rps_Config policy)) selected st s = Inr ((assignment, run, acts), u1)"
      and m: "move_node \<epsilon> x ''advance mission: assign task node'' node TaskStatusAssigned None u1 = Inr (updated, u2)"
      and d: "db_runs t = db_runs u2"
      and out: "out = Advancing (launched assignment run (acts @ [a1, a2]) (budgetEstimateForNode node)
        (st\<lparr>av_nodes := (av_nodes st)[i := updated]\<rparr>))"
    using assms(1) by (auto simp: dispatch_selected_def Let_def dest!: runs_others)
  have shapes: "av_shapes (st\<lparr>av_nodes := (av_nodes st)[i := updated]\<rparr>) \<subseteq> av_shapes st \<union> db_shapes s"
    using shapes_update [OF move_node_shape [OF m], of "av_nodes st" i] launch_run_Inr(7) [OF l]
    by (simp add: av_shapes_def db_shapes_def)
  show ?thesis
    unfolding out outcome_state.simps
    using move_node_Inr(1) [OF m] d by (intro spawned [OF l assms(2-4) _ shapes]) simp_all
qed

lemma dispatch_pass:
  assumes "dispatch_step \<epsilon> x policies i st s = Inr (out, t)" and "i < length (av_nodes st)"
  shows "quiet_pass st s (outcome_state out) t \<or> spawn_pass x True st s (outcome_state out) t"
proof -
  have "av_nodes st ! i \<in> set (av_nodes st)" using assms(2) by simp
  then show ?thesis
    using assms(1)
    by (auto simp: dispatch_step_def Let_def not_le split: if_splits option.splits dest!: reads_routing
        intro: quiet_refl dispatch_blocked_pass dispatch_selected_pass)
qed


lemma review_blocked_pass:
  assumes "review_blocked \<epsilon> x node workRun artifact routing st s = Inr (out, t)"
  shows "quiet_pass st s (outcome_state out) t"
  using assms
  by (auto simp: review_blocked_def Let_def dest!: runs_others intro: quiet_refl quiet_moved split: prod.splits)

lemma review_selected_pass:
  assumes "review_selected \<epsilon> x node artifact policy routing selected st s = Inr (out, t)"
    and "node \<in> set (av_nodes st)" and "Allowed (admission x st (budgetEstimateForNode node))"
    and "av_activeRuns st < MaxParallelRuns (ax_limits x)"
  shows "spawn_pass x True st s (outcome_state out) t"
proof -
  obtain m1 m2 input assignment run acts u1 a1 where
      l: "launch_run \<epsilon> x m1 m2 node DutyReviewer ''review'' input
        (cfg_TimeoutSeconds (rps_Config policy)) selected st s = Inr ((assignment, run, acts), u1)"
      and d: "db_runs t = db_runs u1"
      and out: "out = Advancing (launched assignment run (acts @ [a1]) (budgetEstimateForNode node) st)"
    using assms(1) by (auto simp: review_selected_def Let_def dest!: runs_others)
  show ?thesis
    unfolding out outcome_state.simps using d by (intro spawned [OF l assms(2-4)]) simp_all
qed

lemma review_pass:
  assumes "review_step \<epsilon> x policies i st s = Inr (out, t)" and "i < length (av_nodes st)"
  shows "quiet_pass st s (outcome_state out) t \<or> spawn_pass x True st s (outcome_state out) t"
proof -
  have "av_nodes st ! i \<in> set (av_nodes st)" using assms(2) by simp
  then show ?thesis
    using assms(1)
    by (auto simp: review_step_def Let_def not_le split: if_splits option.splits prod.splits dest!: reads_routing
        intro: quiet_refl review_blocked_pass review_selected_pass)
qed

section \<open>Phases\<close>

definition ensures :: "(advance_state \<Rightarrow> db \<Rightarrow> bool) \<Rightarrow> advance_outcome tx \<Rightarrow> db \<Rightarrow> bool" where
  "ensures Q act s \<longleftrightarrow> (\<forall>out t. act s = Inr (out, t) \<longrightarrow> Q (outcome_state out) t)"

lemma ensuresD: "ensures Q act s \<Longrightarrow> act s = Inr (out, t) \<Longrightarrow> Q (outcome_state out) t"
  by (auto simp: ensures_def)

lemma ensures_each:
  assumes "\<And>y st s. y \<in> set ys \<Longrightarrow> Q st s \<Longrightarrow> ensures Q (step y st) s" and "Q st s"
  shows "ensures Q (advance_each step ys st) s"
  using assms
proof (induction ys arbitrary: st s)
  case (Cons y ys)
  show ?case
    unfolding ensures_def
  proof (intro allI impI)
    fix out t assume "advance_each step (y # ys) st s = Inr (out, t)"
    then obtain out1 u where o: "step y st s = Inr (out1, u)"
        "(case out1 of Advancing st' \<Rightarrow> advance_each step ys st' | OverBudget st' d \<Rightarrow> tx_return out1) u = Inr (out, t)"
      by auto
    have q: "Q (outcome_state out1) u" using ensuresD [OF Cons.prems(1) [of y st s] o(1)] Cons.prems(2) by simp
    show "Q (outcome_state out) t"
    proof (cases out1)
      case (Advancing st')
      have "ensures Q (advance_each step ys st') u"
        using q Advancing by (intro Cons.IH Cons.prems(1)) simp_all
      then show ?thesis using o(2) Advancing by (simp add: ensuresD)
    next
      case (OverBudget st' d)
      then show ?thesis using o(2) q by simp
    qed
  qed
qed (simp add: ensures_def)

lemma ensures_then:
  assumes "ensures P act s" and "\<And>st t. P st t \<Longrightarrow> Q st t" and "\<And>st t. P st t \<Longrightarrow> ensures Q (next' st) t"
  shows "ensures Q (advance_then act next') s"
  unfolding ensures_def
proof (intro allI impI)
  fix out t assume "advance_then act next' s = Inr (out, t)"
  then obtain out1 u where o: "act s = Inr (out1, u)"
      "(case out1 of Advancing st \<Rightarrow> next' st | OverBudget st d \<Rightarrow> tx_return out1) u = Inr (out, t)"
    by (auto simp: advance_then_def)
  have p: "P (outcome_state out1) u" using assms(1) o(1) by (rule ensuresD)
  show "Q (outcome_state out) t"
  proof (cases out1)
    case (Advancing st)
    then show ?thesis using o(2) ensuresD [OF assms(3), of st u] p by simp
  next
    case (OverBudget st d)
    then show ?thesis using o(2) p assms(2) by auto
  qed
qed

section \<open>The limits\<close>

text \<open>The estimates of the created runs are those of their nodes, and their sum was admitted.\<close>

definition reserved :: "advance_input \<Rightarrow> BudgetUsage \<Rightarrow> (uuid \<times> BudgetEstimate) set \<Rightarrow> advance_state \<Rightarrow> bool" where
  "reserved x usage shapes st \<longleftrightarrow> (\<exists>estimates.
     list_all2 (\<lambda>run e. (r_TaskNodeID run, e) \<in> shapes) (av_created st) estimates \<and>
     av_usage st = fold (\<lambda>e u. AddBudgetReservation u e) estimates usage) \<and>
     (\<forall>p. Budget (ax_limits x) = Some p \<longrightarrow> av_created st \<noteq> [] \<longrightarrow>
        budget_ok p (ax_allowance x) (usage_tokens (av_usage st)) (usage_ticks (av_usage st)))"

definition budget_sound :: "advance_input \<Rightarrow> BudgetUsage \<Rightarrow> (uuid \<times> BudgetEstimate) set \<Rightarrow> bool" where
  "budget_sound x usage shapes \<longleftrightarrow> usage_ok usage \<and> allowance_ok (ax_allowance x) \<and>
     (\<forall>p. Budget (ax_limits x) = Some p \<longrightarrow> policy_ok p) \<and> (\<forall>(i, e) \<in> shapes. estimate_ok e)"

lemma usage_ok_fold:
  "list_all estimate_ok es \<Longrightarrow> usage_ok u \<Longrightarrow> usage_ok (fold (\<lambda>e u. AddBudgetReservation u e) es u)"
  by (induction es arbitrary: u) (auto intro: reservation_ok)

lemma reserved_spawn:
  assumes "spawn_pass x first st s st' t" and "reserved x usage shapes st" and "budget_sound x usage shapes"
    and "av_shapes st \<subseteq> shapes"
  shows "reserved x usage shapes st'"
proof -
  obtain run e where r: "(r_TaskNodeID run, e) \<in> av_shapes st" "Allowed (admission x st e)"
      "av_created st' = av_created st @ [run]" "av_usage st' = AddBudgetReservation (av_usage st) e"
    using assms(1) by (auto simp: spawn_pass_def)
  obtain es where es: "list_all2 (\<lambda>run e. (r_TaskNodeID run, e) \<in> shapes) (av_created st) es"
      "av_usage st = fold (\<lambda>e u. AddBudgetReservation u e) es usage"
    using assms(2) by (auto simp: reserved_def)
  have in_shapes: "(r_TaskNodeID run, e) \<in> shapes" using r(1) assms(4) by blast
  have "list_all estimate_ok es"
    using es(1) assms(3) by (auto simp: budget_sound_def list_all2_conv_all_nth list_all_length)
  then have u: "usage_ok (av_usage st)" using es(2) assms(3) by (simp add: usage_ok_fold budget_sound_def)
  have e: "estimate_ok e" using in_shapes assms(3) by (auto simp: budget_sound_def)
  have "budget_ok p (ax_allowance x) (usage_tokens (av_usage st')) (usage_ticks (av_usage st'))"
    if "Budget (ax_limits x) = Some p" for p
    using r(2) u e assms(3) that
    by (simp add: admission_def admission_iff reservation_budget_ok r(4) budget_sound_def)
  moreover have "list_all2 (\<lambda>run e. (r_TaskNodeID run, e) \<in> shapes) (av_created st') (es @ [e])"
    using es(1) in_shapes by (simp add: r(3) list_all2_appendI)
  moreover have "av_usage st' = fold (\<lambda>e u. AddBudgetReservation u e) (es @ [e]) usage" by (simp add: r(4) es(2))
  ultimately show ?thesis unfolding reserved_def by blast
qed


lemma db_shapes_kept: "graph_kept s t \<Longrightarrow> db_shapes t = db_shapes s"
proof -
  let ?h = "\<lambda>(i, ws, mid, key, role, criteria, kinds, tokens, ticks). (i, \<lparr>est_Tokens = tokens, est_CostUSDTicks = ticks\<rparr>)"
  have "db_shapes u = ?h ` set (map (\<lambda>n. (t_IssueID n, row_facts n)) (db_nodes u))" for u
    unfolding db_shapes_def set_map image_image
    by (rule image_cong) (simp_all add: row_facts_def budgetEstimateForNode_def)
  then show "graph_kept s t \<Longrightarrow> ?thesis" unfolding graph_kept_def by (simp only:)
qed

text \<open>What a step keeps: \<open>s0\<close> is the state it started in, \<open>runs\<close> the mission's runs then.\<close>

definition within_limits :: "advance_input \<Rightarrow> db \<Rightarrow> RunRow list \<Rightarrow> BudgetUsage \<Rightarrow> advance_state \<Rightarrow> db \<Rightarrow> bool" where
  "within_limits x s0 runs usage st s \<longleftrightarrow>
     av_runs st = runs @ av_created st \<and> db_runs s = db_runs s0 @ av_created st \<and>
     list_all (\<lambda>r. r_ID r \<noteq> None \<and> r_Status r = RunStatusQueued \<and> r_WorkspaceID r = x_ws x \<and>
       r_MissionID r = x_mid x) (av_created st) \<and>
     av_shapes st \<subseteq> db_shapes s0 \<and> graph_kept s0 s \<and> reserved x usage (db_shapes s0) st \<and>
     (list_ex (\<lambda>r. r_RetryOfID r = None) (av_created st) \<longrightarrow> countActiveRuns (av_runs st) \<le> MaxParallelRuns (ax_limits x))"

lemma quiet_within:
  assumes "quiet_pass st s st' t" and "within_limits x s0 runs usage st s" and "graph_kept s t"
  shows "within_limits x s0 runs usage st' t"
proof -
  have "graph_kept s0 t" using assms(2,3) by (auto simp: within_limits_def intro: graph.R_trans)
  moreover have "db_shapes s = db_shapes s0" using assms(2) by (simp add: within_limits_def db_shapes_kept)
  ultimately show ?thesis
    using assms(1,2) by (auto simp: within_limits_def quiet_pass_def reserved_def)
qed

lemma countActiveRuns_append: "countActiveRuns (xs @ ys) = countActiveRuns xs + countActiveRuns ys"
  by (simp add: countActiveRuns_def)

lemma spawn_within:
  assumes "spawn_pass x first st s st' t" and "within_limits x s0 runs usage st s" and "graph_kept s t"
    and "budget_sound x usage (db_shapes s0)" and "None \<notin> r_ID ` set runs"
    and "if first then av_activeRuns st = countActiveRuns (av_runs st)
         else list_all (\<lambda>r. r_RetryOfID r \<noteq> None) (av_created st)"
  shows "within_limits x s0 runs usage st' t"
    and "if first then av_activeRuns st' = countActiveRuns (av_runs st')
         else list_all (\<lambda>r. r_RetryOfID r \<noteq> None) (av_created st')"
proof -
  obtain run where r: "r_ID run \<noteq> None" "r_Status run = RunStatusQueued" "r_WorkspaceID run = x_ws x"
      "r_MissionID run = x_mid x" "av_runs st' = av_runs st @ [run]" "av_created st' = av_created st @ [run]"
      "db_runs t = db_runs s @ [run]" "av_activeRuns st' = av_activeRuns st + (if first then 1 else 0)"
      "av_shapes st' \<subseteq> av_shapes st \<union> db_shapes s"
      "if first then r_RetryOfID run = None \<and> av_activeRuns st < MaxParallelRuns (ax_limits x)
       else r_RetryOfID run \<in> r_ID ` set (av_runs st)"
    using assms(1) unfolding spawn_pass_def by blast
  have "graph_kept s0 t" using assms(2,3) by (auto simp: within_limits_def intro: graph.R_trans)
  moreover have "db_shapes s = db_shapes s0" using assms(2) by (simp add: within_limits_def db_shapes_kept)
  moreover have "reserved x usage (db_shapes s0) st'"
    using assms(2) by (intro reserved_spawn [OF assms(1) _ assms(4)]) (auto simp: within_limits_def)
  moreover have "None \<notin> r_ID ` set (av_runs st)"
    using assms(2,5) by (auto simp: within_limits_def list_all_iff)
  moreover have "\<not> first \<Longrightarrow> r_RetryOfID run \<noteq> None" using r(10) calculation(4) by (metis)
  moreover have "countActiveRuns (av_runs st') = countActiveRuns (av_runs st) + 1"
    by (simp add: r(2,5) countActiveRuns_def isActiveRunStatus_def)
  moreover have "av_shapes st' \<subseteq> db_shapes s0" using r(9) calculation(2) assms(2) by (auto simp: within_limits_def)
  moreover have "\<not> first \<Longrightarrow> \<not> list_ex (\<lambda>r. r_RetryOfID r = None) (av_created st)"
    using assms(6) by (auto simp: list_ex_iff list_all_iff)
  ultimately show "within_limits x s0 runs usage st' t"
    and "if first then av_activeRuns st' = countActiveRuns (av_runs st')
         else list_all (\<lambda>r. r_RetryOfID r \<noteq> None) (av_created st')"
    using assms(2,6) r by (auto simp: within_limits_def split: if_splits)
qed


definition retrying :: "advance_input \<Rightarrow> db \<Rightarrow> RunRow list \<Rightarrow> BudgetUsage \<Rightarrow> nat \<Rightarrow> advance_state \<Rightarrow> db \<Rightarrow> bool" where
  "retrying x s0 runs usage n st s \<longleftrightarrow> within_limits x s0 runs usage st s \<and>
     list_all (\<lambda>r. r_RetryOfID r \<noteq> None) (av_created st) \<and> length (av_nodes st) = n"

definition launching :: "advance_input \<Rightarrow> db \<Rightarrow> RunRow list \<Rightarrow> BudgetUsage \<Rightarrow> nat \<Rightarrow> advance_state \<Rightarrow> db \<Rightarrow> bool" where
  "launching x s0 runs usage n st s \<longleftrightarrow> within_limits x s0 runs usage st s \<and>
     av_activeRuns st = countActiveRuns (av_runs st) \<and> length (av_nodes st) = n"

lemma quiet_kept:
  assumes "quiet_pass st s st' t" and "graph_kept s t"
  shows "retrying x s0 runs usage n st s \<Longrightarrow> retrying x s0 runs usage n st' t"
    and "launching x s0 runs usage n st s \<Longrightarrow> launching x s0 runs usage n st' t"
  using quiet_within [OF assms(1) _ assms(2)] assms(1) by (auto simp: retrying_def launching_def quiet_pass_def)

lemma spawn_kept:
  assumes "spawn_pass x first st s st' t" and "graph_kept s t" and "budget_sound x usage (db_shapes s0)"
    and "None \<notin> r_ID ` set runs"
  shows "\<not> first \<Longrightarrow> retrying x s0 runs usage n st s \<Longrightarrow> retrying x s0 runs usage n st' t"
    and "first \<Longrightarrow> launching x s0 runs usage n st s \<Longrightarrow> launching x s0 runs usage n st' t"
proof -
  have l: "length (av_nodes st') = length (av_nodes st)" using assms(1) by (auto simp: spawn_pass_def)
  show "retrying x s0 runs usage n st' t" if "\<not> first" "retrying x s0 runs usage n st s"
    using spawn_within [OF assms(1) _ assms(2-4)] that l by (simp add: retrying_def)
  show "launching x s0 runs usage n st' t" if first "launching x s0 runs usage n st s"
    using spawn_within [OF assms(1) _ assms(2-4)] that l by (simp add: launching_def)
qed

lemma phases_within:
  assumes "budget_sound x usage (db_shapes s0)" and "None \<notin> r_ID ` set runs"
    and "retrying x s0 runs usage (length (av_nodes st)) st s"
  shows "ensures (within_limits x s0 runs usage) (advance_phases \<epsilon> x st) s"
proof -
  let ?n = "length (av_nodes st)" and ?I = "retrying x s0 runs usage (length (av_nodes st))"
  let ?J = "launching x s0 runs usage (length (av_nodes st))"
  have retry: "ensures ?I (retry_step \<epsilon> x a st1) s1" if "?I st1 s1" for a st1 s1
    using that retry_pass quiet_kept(1) spawn_kept(1) [OF _ _ assms(1,2)]
      obeysD [OF advance_graph.retry_step]
    unfolding ensures_def by metis
  have ready: "ensures ?I (ready_step \<epsilon> x i st1) s1" if "?I st1 s1" for i st1 s1
    using that ready_pass quiet_kept(1) obeysD [OF advance_graph.ready_step] unfolding ensures_def by metis
  have launch: "ensures ?J (dispatch_step \<epsilon> x policies i st1) s1" "ensures ?J (review_step \<epsilon> x policies i st1) s1"
    if "?J st1 s1" "i \<in> set [0..<?n]" for policies i st1 s1
  proof -
    have i: "i < length (av_nodes st1)" using that by (simp add: launching_def)
    show "ensures ?J (dispatch_step \<epsilon> x policies i st1) s1"
      using that(1) dispatch_pass [OF _ i] quiet_kept(2) spawn_kept(2) [OF _ _ assms(1,2)]
        obeysD [OF advance_graph.dispatch_step]
      unfolding ensures_def by metis
    show "ensures ?J (review_step \<epsilon> x policies i st1) s1"
      using that(1) review_pass [OF _ i] quiet_kept(2) spawn_kept(2) [OF _ _ assms(1,2)]
        obeysD [OF advance_graph.review_step]
      unfolding ensures_def by metis
  qed
  have J: "?J (st1\<lparr>av_activeRuns := countActiveRuns (av_runs st1)\<rparr>) s1" if "?I st1 s1" for st1 s1
    using that by (auto simp: retrying_def launching_def within_limits_def reserved_def av_shapes_def)
  have last: "ensures ?J (advance_then (advance_each (dispatch_step \<epsilon> x policies) [0..<?n]
      (st1\<lparr>av_activeRuns := countActiveRuns (av_runs st1)\<rparr>))
      (\<lambda>st. advance_each (review_step \<epsilon> x policies) [0..<?n] st)) s1" if "?I st1 s1" for policies st1 s1
    by (rule ensures_then [where P = ?J]; (intro ensures_each launch J that)?)
  have middle: "ensures (within_limits x s0 runs usage) (tx_bind (tx_wrap m1 (ListMissionRolePolicySnapshots (x_ws x) (x_mid x)))
      (\<lambda>rows. tx_bind (tx_wrap m2 (tx_lift (mapRolePolicySnapshots \<epsilon> rows))) (\<lambda>policies.
        advance_then (advance_each (dispatch_step \<epsilon> x policies) [0..<?n]
          (st1\<lparr>av_activeRuns := countActiveRuns (av_runs st1)\<rparr>))
          (\<lambda>st. advance_each (review_step \<epsilon> x policies) [0..<?n] st)))) s1" if "?I st1 s1" for m1 m2 st1 s1
    using last [OF that] by (auto simp: ensures_def ListMissionRolePolicySnapshots_def launching_def)
  show ?thesis
    unfolding advance_phases_def Let_def
    by (rule ensures_then [where P = ?I], (intro ensures_each retry assms(3); assumption), simp add: retrying_def,
        rule ensures_then [where P = ?I], (intro ensures_each ready; assumption), simp add: retrying_def, erule middle)
qed


lemma settle_mission_Inr:
  assumes "settle_mission \<epsilon> x st s = Inr ((m, st'), t)"
  shows "av_created st' = av_created st" "db_runs t = db_runs s"
  using assms by (auto simp: settle_mission_def Let_def split: if_splits dest!: runs_others)

lemma advance_finish_Inr:
  assumes "advance_finish \<epsilon> x out s = Inr (res, t)"
  shows "amr_CreatedRuns res = av_created (outcome_state out)" "db_runs t = db_runs s"
proof -
  have q: "ListQueuedOrchestrationRunsWithoutTask ws mid u = Inr (rows, v) \<Longrightarrow> v = u" for ws mid u rows v
    by (auto simp: ListQueuedOrchestrationRunsWithoutTask_def)
  have "amr_CreatedRuns res = av_created (outcome_state out) \<and> db_runs t = db_runs s"
  proof (cases out)
    case (Advancing st)
    then show ?thesis using assms settle_mission_Inr
      by (fastforce simp: advance_finish_def advance_result_def dest!: q)
  next
    case (OverBudget st d)
    then show ?thesis using assms
      by (auto simp: advance_finish_def finishBudgetBlockedAdvance_def set_budget_gate_def advance_result_def Let_def
          split: if_splits dest!: q runs_others)
  qed
  then show "amr_CreatedRuns res = av_created (outcome_state out)" "db_runs t = db_runs s" by simp_all
qed

text \<open>The runs a step creates, in the database it leaves.\<close>

definition step_within_limits ::
    "uuid \<Rightarrow> uuid \<Rightarrow> MissionRow \<Rightarrow> BudgetUsage \<Rightarrow> db \<Rightarrow> RunRow list \<Rightarrow> db \<Rightarrow> bool" where
  "step_within_limits ws mid mission usage s created t \<longleftrightarrow>
     db_runs t = db_runs s @ created \<and>
     list_all (\<lambda>r. r_Status r = RunStatusQueued \<and> r_WorkspaceID r = ws \<and> r_MissionID r = mid) created \<and>
     (list_ex (\<lambda>r. r_RetryOfID r = None) created \<longrightarrow>
        countActiveRuns (filter (run_in ws mid) (db_runs t)) \<le> MaxParallelRuns (m_Limits mission)) \<and>
     (case Budget (m_Limits mission) of None \<Rightarrow> True | Some p \<Rightarrow> created = [] \<or>
        (\<exists>estimates. list_all2 (\<lambda>r e. (r_TaskNodeID r, e) \<in> db_shapes s) created estimates \<and>
           (let u = fold (\<lambda>e u. AddBudgetReservation u e) estimates usage in
            budget_ok p \<lparr>GrantTokens = m_BudgetGrantTokens mission,
              GrantCostUSDTicks = m_BudgetGrantCostUsdTicks mission\<rparr> (usage_tokens u) (usage_ticks u))))"

lemma count_sorted: "countActiveRuns (sort_key f xs) = countActiveRuns xs"
proof -
  have "mset (filter P (sort_key f xs)) = mset (filter P xs)" for P by simp
  then show ?thesis unfolding countActiveRuns_def by (metis size_mset)
qed

lemma AdvanceMission_repo_within_limits:
  assumes "AdvanceMission_repo \<epsilon> params s = Inr (res, t)"
    and "GetMissionInWorkspace (ap_WorkspaceID params) (ap_MissionID params) s = Inr (mission, s)"
    and "GetMissionBudgetUsage (ap_WorkspaceID params) (ap_MissionID params) s = Inr (usage, s)"
    and "list_all (\<lambda>r. r_ID r \<noteq> None) (db_runs s)"
    and "usage_ok usage" and "0 \<le> m_BudgetGrantTokens mission" and "0 \<le> m_BudgetGrantCostUsdTicks mission"
    and "m_BudgetGrantTokens mission \<le> max_int64" and "m_BudgetGrantCostUsdTicks mission \<le> max_int64"
    and "case Budget (m_Limits mission) of None \<Rightarrow> True | Some p \<Rightarrow> policy_ok p"
    and "list_all (\<lambda>n. estimate_ok (budgetEstimateForNode n)) (db_nodes s)"
  shows "step_within_limits (ap_WorkspaceID params) (ap_MissionID params) mission usage s (amr_CreatedRuns res) t"
proof -
  let ?ws = "ap_WorkspaceID params" and ?mid = "ap_MissionID params"
  have ids: "?ws \<noteq> None" "?mid \<noteq> None"
    using assms(2) by (auto simp: GetMissionInWorkspace_def find_Some_iff mission_is_def sql_eq_def)
  have queued: "ListQueuedOrchestrationRunsWithoutTask ?ws ?mid s = Inr (rows, u) \<Longrightarrow> u = s" for rows u
    by (auto simp: ListQueuedOrchestrationRunsWithoutTask_def)
  show ?thesis
  proof (cases "m_Status mission \<noteq> MissionStatusRunning \<and> m_Status mission \<noteq> MissionStatusBlocked \<or> budget_gated mission")
    case True
    then have "amr_CreatedRuns res = [] \<and> t = s"
      using assms(1,2)
      by (auto simp: AdvanceMission_repo_def Let_def LockMissionInWorkspace_def
          ListTaskNodesByMission_def unchanged_result_def split: if_splits dest!: queued)
    then have e: "amr_CreatedRuns res = []" "t = s" by simp_all
    show ?thesis unfolding step_within_limits_def e by (simp split: option.splits)
  next
    case False
    define nodes where "nodes = sort_key node_order (filter (node_in ?ws ?mid) (db_nodes s))"
    obtain x st v out u where l': "advance_load mission (m_Limits mission) params nodes s = Inr ((x, st), v)"
        and p': "advance_phases \<epsilon> x st v = Inr (out, u)" and f: "advance_finish \<epsilon> x out u = Inr (res, t)"
      using assms(1,2) False
      by (auto simp: AdvanceMission_repo_def Let_def LockMissionInWorkspace_def decodePlanLimits_def
          ListTaskNodesByMission_def nodes_def split: if_splits)
    have v: "v = s" using obeysD [OF reads_advance_load l'] by simp
    note l = l' [unfolded v] and p = p' [unfolded v]
    have x: "x_ws x = ?ws" "x_mid x = ?mid" "ax_limits x = m_Limits mission"
        "ax_allowance x = \<lparr>GrantTokens = m_BudgetGrantTokens mission,
           GrantCostUSDTicks = m_BudgetGrantCostUsdTicks mission\<rparr>"
        "av_nodes st = nodes" "av_runs st = sort_key run_order (filter (run_in ?ws ?mid) (db_runs s))"
        "av_usage st = usage" "av_created st = []"
      using l assms(3) by (auto simp: advance_load_def Let_def GetMissionBudgetUsage_def ListOrchestrationRunsByMission_def
          ListOrchestrationIssueDependencies_def ListOrchestrationAssignmentsByMission_def
          ListArtifactsByMission_def ListReviewVerdictsByMission_def x_ws_def x_mid_def)
    have sound: "budget_sound x usage (db_shapes s)"
      using assms(5-11)
      by (auto simp: budget_sound_def x allowance_ok_def nonneg64_def db_shapes_def list_all_iff split: option.splits)
    have start: "retrying x s (av_runs st) usage (length (av_nodes st)) st s"
      by (auto simp: retrying_def within_limits_def x reserved_def av_shapes_def db_shapes_def nodes_def graph.R_refl
          intro!: exI [of _ "[]"])
    have "None \<notin> r_ID ` set (av_runs st)" using assms(4) by (auto simp: x list_all_iff)
    from ensuresD [OF phases_within [OF sound this start] p]
    have w: "within_limits x s (av_runs st) usage (outcome_state out) u" .
    have c: "amr_CreatedRuns res = av_created (outcome_state out)" "db_runs t = db_runs u"
      using advance_finish_Inr [OF f] .
    have runs: "filter (run_in ?ws ?mid) (amr_CreatedRuns res) = amr_CreatedRuns res"
      using w ids by (auto simp: c within_limits_def x list_all_iff run_in_def sql_eq_def filter_id_conv)
    have "countActiveRuns (filter (run_in ?ws ?mid) (db_runs t)) = countActiveRuns (av_runs (outcome_state out))"
      using w runs by (simp add: c within_limits_def x countActiveRuns_append count_sorted)
    then show ?thesis
      using w by (auto simp: step_within_limits_def c within_limits_def x reserved_def Let_def list_all_iff
          split: option.splits)
  qed
qed

end
