(* ===== verification/Hazards.thy ===== *)
theory Hazards
  imports AdvanceLimits System Planner
begin

text \<open>
  Where a step of the orchestrator must not, or cannot, go: a reviewer never judges its own work, a task
  is never launched beside an active assignment, and the deduplication keys of the log admit every
  automatic event once.  The last has a price: the keys carry no revision of the task, so a task
  that was retried by its owner can run into a key its first life has spent, and then every later
  step of the mission fails.
\<close>

section \<open>Independent review\<close>

text \<open>The id of a selected candidate is the canonical text of an agent's id.\<close>

lemma selected_agent:
  assumes "agents_ok \<epsilon> s" and "env_ok \<epsilon>"
    and "selectAndLockRoutingCandidate \<epsilon> ws user snapshot producer avoid s = Inr (routing, t)"
    and "rr_Selected routing = Some c"
  shows "uuidFromText \<epsilon> (sel_AgentID c) = Inr (Some (sel_AgentID c))"
    and "rps_Duty snapshot = DutyReviewer \<Longrightarrow> \<not> blank producer \<Longrightarrow> sel_AgentID c \<noteq> TrimSpace producer"
proof -
  let ?input = "routing_input ws user snapshot producer avoid s"
  have "rr_Selected (SelectRoutingCandidate ?input) = Some c"
    using selectAndLock_settles [OF assms(1), of ws user snapshot producer avoid] assms(3,4) by simp
  then obtain f where f: "f \<in> set (considered ?input)" "routing_eligible ?input f" "sel_AgentID c = rf_AgentID f"
    by (rule Selected_Some)
  from f(1) obtain a where a: "a \<in> set (db_agents s)" "rf_AgentID f = uuidText (ag_ID a)"
    by (auto simp: considered_def routing_input_def Let_def routingCandidateFactsFromListRow_def routing_facts_def
        listing_of_def agent_facts.defs ListOrchestrationAgentRoutingFactsRow.defs agent_facts_of_def split: if_splits)
  then obtain i where "ag_ID a = Some i" "env_uuid_parse \<epsilon> i = Some i"
    using assms(1) by (auto simp: agents_ok_def list_all_iff uuidText_def split: option.splits)
  then show "uuidFromText \<epsilon> (sel_AgentID c) = Inr (Some (sel_AgentID c))"
    using assms(2) a(2) f(3) by (simp add: env_ok_def uuidFromText_def uuidText_def)
  show "rps_Duty snapshot = DutyReviewer \<Longrightarrow> \<not> blank producer \<Longrightarrow> sel_AgentID c \<noteq> TrimSpace producer"
    using f(2,3) by (simp add: routing_eligible_def routing_input_def)
qed

lemma policy_for_duty: "policy_for policies duty = Some p \<Longrightarrow> rps_Duty p = duty"
  by (auto simp: policy_for_def dest: find_last_SomeD)

lemma review_step_launches:
  assumes "review_step \<epsilon> x policies i st s = Inr (out, t)" and "db_runs t \<noteq> db_runs s"
    and "review_subject x st (av_nodes st ! i) = Some (workRun, artifact)"
  obtains policy routing selected where "rps_Duty policy = DutyReviewer"
    and "selectAndLockRoutingCandidate \<epsilon> (x_ws x) (m_CreatedBy (ax_mission x)) policy
      (producer_agent st workRun) [] s = Inr (routing, s)"
    and "rr_Selected routing = Some selected"
    and "review_selected \<epsilon> x (av_nodes st ! i) artifact policy routing selected st s = Inr (out, t)"
  using assms policy_for_duty
  by (fastforce simp: review_step_def Let_def split: if_splits option.splits
      dest: reads_routing review_blocked_pass [unfolded quiet_pass_def])

lemma reviewer_differs:
  assumes "review_step \<epsilon> x policies i st s = Inr (out, t)" and "db_runs t \<noteq> db_runs s"
    and "review_subject x st (av_nodes st ! i) = Some (workRun, artifact)"
    and "findAssignment (av_assignments st) (r_AssignmentID workRun) = Some producer"
    and "a_AgentID producer = Some agent" and "TrimSpace agent = agent" and "agent \<noteq> []"
    and "agents_ok \<epsilon> s" and "env_ok \<epsilon>"
  shows "\<exists>reviewer run. db_assignments t = db_assignments s @ [reviewer] \<and> db_runs t = db_runs s @ [run] \<and>
    r_AssignmentID run = a_ID reviewer \<and> r_Purpose run = ''review'' \<and> a_Role reviewer = DutyReviewer \<and>
    a_AgentID reviewer \<noteq> a_AgentID producer"
proof -
  obtain policy routing selected where p: "rps_Duty policy = DutyReviewer"
      and r: "selectAndLockRoutingCandidate \<epsilon> (x_ws x) (m_CreatedBy (ax_mission x)) policy
        (producer_agent st workRun) [] s = Inr (routing, s)" "rr_Selected routing = Some selected"
      and l: "review_selected \<epsilon> x (av_nodes st ! i) artifact policy routing selected st s = Inr (out, t)"
    using review_step_launches [OF assms(1-3)] by blast
  have a: "producer_agent st workRun = agent" using assms(4,5) by (simp add: producer_agent_def uuidText_def)
  obtain m1 m2 input reviewer run acts u where
      u: "launch_run \<epsilon> x m1 m2 (av_nodes st ! i) DutyReviewer ''review'' input
        (cfg_TimeoutSeconds (rps_Config policy)) selected st s = Inr ((reviewer, run, acts), u)"
      and d: "db_runs t = db_runs u" "db_assignments t = db_assignments u"
    using l by (auto simp: review_selected_def Let_def dest!: work_dest)
  have "a_AgentID reviewer = Some (sel_AgentID selected)"
    using selected_agent(1) [OF assms(8,9) r] launch_run_Inr(11) [OF u] by simp
  moreover have "sel_AgentID selected \<noteq> agent"
    using selected_agent(2) [OF assms(8,9) r p] assms(6,7) by (simp add: a blank_def)
  ultimately show ?thesis
    using launch_run_Inr [OF u] d assms(5) by auto
qed

section \<open>One active assignment\<close>

lemma CreateOrchestrationAssignment_free:
  assumes "CreateOrchestrationAssignment \<epsilon> ws mid nid role agent rt seq prev creator s = Inr (a, t)" and "nid \<noteq> None"
    and "b \<in> set (db_assignments s)" and "a_TaskNodeID b = nid" and "a_Role b = role"
  shows "a_Status b \<noteq> AssignmentStatusActive"
  using assms
  by (auto simp: CreateOrchestrationAssignment_def draw_uuid_def tx_insert_Inr assignment_indexes_def sql_eq_def)

lemma launch_run_free:
  assumes "launch_run \<epsilon> x m1 m2 node duty purpose input timeout sel st s = Inr (r, t)"
    and "t_IssueID node \<noteq> None"
  shows "list_all (\<lambda>b. \<not> (a_TaskNodeID b = t_IssueID node \<and> a_Role b = duty \<and> a_Status b = AssignmentStatusActive))
    (db_assignments s)"
proof -
  obtain seq prev where q: "nextAssignmentSequence (av_assignments st) (t_IssueID node) duty = (seq, prev)"
    by (cases "nextAssignmentSequence (av_assignments st) (t_IssueID node) duty")
  obtain agent rt assignment u where
      "CreateOrchestrationAssignment \<epsilon> (x_ws x) (x_mid x) (t_IssueID node) duty agent rt seq prev
        (m_CreatedBy (ax_mission x)) s = Inr (assignment, u)"
    using assms(1) by (auto simp: launch_run_def q)
  from CreateOrchestrationAssignment_free [OF this assms(2)] show ?thesis by (auto simp: list_all_iff)
qed

lemma dispatch_free:
  assumes "dispatch_step \<epsilon> x policies i st s = Inr (out, t)" and "db_runs t \<noteq> db_runs s"
    and "t_IssueID (av_nodes st ! i) \<noteq> None"
  shows "list_all (\<lambda>b. \<not> (a_TaskNodeID b = t_IssueID (av_nodes st ! i) \<and> a_Role b = t_Role (av_nodes st ! i) \<and>
    a_Status b = AssignmentStatusActive)) (db_assignments s)"
proof -
  obtain policy routing selected where
      l: "dispatch_selected \<epsilon> x i (av_nodes st ! i) policy routing selected st s = Inr (out, t)"
    using assms(1,2)
    by (fastforce simp: dispatch_step_def Let_def split: if_splits option.splits
        dest: reads_routing dispatch_blocked_pass [unfolded quiet_pass_def])
  show ?thesis
    using l launch_run_free [OF _ assms(3)] by (fastforce simp: dispatch_selected_def Let_def)
qed

section \<open>Spent keys\<close>

definition key_spent :: "uuid \<Rightarrow> string \<Rightarrow> db \<Rightarrow> bool" where
  "key_spent ws key s \<longleftrightarrow> list_ex (\<lambda>a. ac_WorkspaceID a = ws \<and> ac_DedupeKey a = key) (db_activities s)"

lemma key_spent_later: "key_spent ws key s \<Longrightarrow> history s t \<Longrightarrow> key_spent ws key t"
  by (auto simp: key_spent_def list_ex_iff history_def prefix_def)

lemma allocate_log: "allocateActivitySequence \<epsilon> ws mid s = Inr (n, t) \<Longrightarrow> db_activities t = db_activities s"
  by (auto simp: allocateActivitySequence_def AllocateMissionActivitySequence_def update_mission_def tx_update_Inr
      split: sum.splits)

lemma createAutomaticActivity_spends:
  assumes "createAutomaticActivity \<epsilon> mission nid rid typ st sid c corr key payload s = Inr (a, t)"
  shows "key_spent (m_WorkspaceID mission) key t"
    and "m_WorkspaceID mission \<noteq> None \<Longrightarrow> \<not> key_spent (m_WorkspaceID mission) key s"
  using assms
  by (auto simp: createAutomaticActivity_def CreateOrchestrationActivity_def draw_uuid_def tx_insert_Inr
      activity_row_def key_spent_def list_ex_iff sql_eq_def dest!: allocate_log)

definition attempts_key :: "uuid \<Rightarrow> TaskStatus \<Rightarrow> string" where
  "attempts_key nid target = ''task:'' @ uuidText nid @ '':'' @ TaskStatus_String target @ '':attempts''"

lemma exhaust_assignment_spends:
  assumes "exhaust_assignment \<epsilon> x a latest target st s = Inr (out, t)"
  shows "out = Advancing st \<and> t = s \<and>
      (case findNode (av_nodes st) (a_TaskNodeID a) of None \<Rightarrow> True | Some node \<Rightarrow> isTerminalTaskStatus (t_Status node)) \<or>
    key_spent (m_WorkspaceID (ax_mission x)) (attempts_key (a_TaskNodeID a) target) t \<and>
    (m_WorkspaceID (ax_mission x) \<noteq> None \<longrightarrow>
      \<not> key_spent (m_WorkspaceID (ax_mission x)) (attempts_key (a_TaskNodeID a) target) s)"
proof (cases "findNode (av_nodes st) (a_TaskNodeID a)")
  case None
  then show ?thesis using assms by (simp add: exhaust_assignment_def)
next
  case (Some node)
  show ?thesis
  proof (cases "isTerminalTaskStatus (t_Status node)")
    case True
    then show ?thesis using assms Some by (simp add: exhaust_assignment_def)
  next
    case False
    obtain u s1 v s2 e s3 act where
        m: "move_node \<epsilon> x ''advance mission: exhaust task attempts'' node target
          (if target = TaskStatusBlocked then textValue (text_String (r_FailureMessage latest)) else None) s = Inr (u, s1)"
        and i: "UpdateIssueStatus (x_ws x) (t_IssueID u) ''blocked'' s1 = Inr (v, s2)"
        and e: "EndOrchestrationAssignment \<epsilon> (x_ws x) (x_mid x) (a_ID a) AssignmentStatusRevoked s2 = Inr (e, s3)"
        and c: "task_activity \<epsilon> x (t_IssueID u) (if target = TaskStatusBlocked then ''task.blocked'' else ''task.failed'')
          (r_ID latest) (''task:'' @ uuidText (t_IssueID u) @ '':'' @ TaskStatus_String target @ '':attempts'')
          (JObj [(''failure_kind'', JStr (text_String (r_FailureKind latest)))]) s3 = Inr (act, t)"
      using assms Some False by (auto simp: exhaust_assignment_def Let_def)
    have "t_IssueID u = t_IssueID node"
      using m by (auto simp: move_node_def TransitionTaskNodeState_def update_node_def tx_update_Inr node_is_def
          sql_eq_def touch_node_def dest!: find_SomeD)
    then have n: "t_IssueID u = a_TaskNodeID a" using findNode_shape [OF Some] by simp
    have log: "db_activities s3 = db_activities s"
      using m i e by (auto simp: move_node_def TransitionTaskNodeState_def update_node_def UpdateIssueStatus_def
          EndOrchestrationAssignment_def tx_update_Inr)
    show ?thesis
      using createAutomaticActivity_spends [OF c [unfolded task_activity_def n]] log
      by (auto simp: attempts_key_def key_spent_def)
  qed
qed

lemma exhausted_once:
  assumes "exhaust_assignment \<epsilon> x a latest target st s = Inr (out, t)" and "out \<noteq> Advancing st"
    and "evolves \<epsilon>' hard t u"
    and "exhaust_assignment \<epsilon>'' x' a' latest' target st' u = Inr (out', v)"
    and "a_TaskNodeID a' = a_TaskNodeID a"
    and "m_WorkspaceID (ax_mission x') = m_WorkspaceID (ax_mission x)" and "m_WorkspaceID (ax_mission x) \<noteq> None"
  shows "out' = Advancing st' \<and> v = u"
proof -
  have "key_spent (m_WorkspaceID (ax_mission x)) (attempts_key (a_TaskNodeID a) target) u"
    using exhaust_assignment_spends [OF assms(1)] assms(2) key_spent_later [OF _ evolves_history [OF assms(3)]] by blast
  then show ?thesis using exhaust_assignment_spends [OF assms(4)] assms(5-7) by auto
qed

section \<open>A wedged mission\<close>

text \<open>The active assignment \<open>a\<close> has used up its attempts, and the key of the event that would say so is
  spent; no other assignment is up for a retry.\<close>

definition run_failed :: "RunRow list \<Rightarrow> AssignmentRow \<Rightarrow> RunRow \<Rightarrow> bool" where
  "run_failed runs a latest \<longleftrightarrow> a_Status a = AssignmentStatusActive \<and>
     latestRunForAssignment runs (a_ID a) = Some latest \<and> r_Status latest = RunStatusFailed"

definition wedged :: "uuid \<Rightarrow> uuid \<Rightarrow> MissionRow \<Rightarrow> AssignmentRow \<Rightarrow> db \<Rightarrow> bool" where
  "wedged ws mid mission a s \<longleftrightarrow>
     (m_Status mission = MissionStatusRunning \<or> m_Status mission = MissionStatusBlocked) \<and> \<not> budget_gated mission \<and>
     a \<in> set (db_assignments s) \<and> assignment_in ws mid a \<and>
     (let runs = sort_key run_order (filter (run_in ws mid) (db_runs s));
          nodes = sort_key node_order (filter (node_in ws mid) (db_nodes s)) in
      list_all (\<lambda>b. b = a \<or> list_all (\<lambda>r. \<not> run_failed runs b r) runs) (db_assignments s) \<and>
      (case findNode nodes (a_TaskNodeID a) of None \<Rightarrow> False | Some node \<Rightarrow> \<not> isTerminalTaskStatus (t_Status node)) \<and>
      (case latestRunForAssignment runs (a_ID a) of None \<Rightarrow> False | Some latest \<Rightarrow> run_failed runs a latest \<and>
        (let policy = EvaluateFailurePolicy (text_String (r_FailureKind latest)) (r_Attempt latest)
           (MaxTaskAttempts (m_Limits mission)) in
         \<not> RetrySameAssignment policy \<and>
         key_spent (m_WorkspaceID mission) (attempts_key (a_TaskNodeID a) (ExhaustedTaskStatus policy)) s)))"

lemma retry_step_waits:
  "list_all (\<lambda>r. \<not> run_failed (av_runs st) b r) (av_runs st) \<Longrightarrow> retry_step \<epsilon> x b st s = Inr (Advancing st, s)"
  using latestRun_member [of "av_runs st" "a_ID b"]
  by (auto simp: retry_step_def run_failed_def list_all_iff tx_return_def split: option.splits)

lemma advance_each_stuck:
  assumes "a \<in> set as" and "\<And>b. b \<in> set as \<Longrightarrow> b \<noteq> a \<Longrightarrow> step b st s = Inr (Advancing st, s)"
    and "\<And>r. step a st s \<noteq> Inr r"
  shows "advance_each step as st s \<noteq> Inr r"
  using assms(1,2)
proof (induction as)
  case (Cons b bs)
  show ?case
  proof (cases "b = a")
    case True
    then show ?thesis using assms(3) by (cases "step a st s") (auto simp: tx_bind_def)
  next
    case False
    then show ?thesis using Cons by (simp add: tx_bind_def)
  qed
qed simp

lemma wedged_step_fails:
  assumes "GetMissionInWorkspace (ap_WorkspaceID params) (ap_MissionID params) s = Inr (mission, s)"
    and "wedged (ap_WorkspaceID params) (ap_MissionID params) mission a s"
  shows "AdvanceMission_repo \<epsilon> params s \<noteq> Inr r"
proof
  let ?ws = "ap_WorkspaceID params" and ?mid = "ap_MissionID params"
  assume "AdvanceMission_repo \<epsilon> params s = Inr r"
  then obtain res t where adv: "AdvanceMission_repo \<epsilon> params s = Inr (res, t)" by (cases r) auto
  define nodes where "nodes = sort_key node_order (filter (node_in ?ws ?mid) (db_nodes s))"
  define runs where "runs = sort_key run_order (filter (run_in ?ws ?mid) (db_runs s))"
  have run: "m_Status mission = MissionStatusRunning \<or> m_Status mission = MissionStatusBlocked" "\<not> budget_gated mission"
    and a: "a \<in> set (db_assignments s)" "assignment_in ?ws ?mid a"
    and others: "list_all (\<lambda>b. b = a \<or> list_all (\<lambda>r. \<not> run_failed runs b r) runs) (db_assignments s)"
    using assms(2) by (auto simp: wedged_def Let_def runs_def)
  obtain node latest where node: "findNode nodes (a_TaskNodeID a) = Some node" "\<not> isTerminalTaskStatus (t_Status node)"
    and latest: "latestRunForAssignment runs (a_ID a) = Some latest" "run_failed runs a latest"
    using assms(2) by (auto simp: wedged_def Let_def runs_def nodes_def split: option.splits)
  define policy where "policy = EvaluateFailurePolicy (text_String (r_FailureKind latest)) (r_Attempt latest)
    (MaxTaskAttempts (m_Limits mission))"
  have spent: "\<not> RetrySameAssignment policy"
      "key_spent (m_WorkspaceID mission) (attempts_key (a_TaskNodeID a) (ExhaustedTaskStatus policy)) s"
    using assms(2) latest(1) by (auto simp: wedged_def Let_def runs_def policy_def split: option.splits)
  obtain x st v where l: "advance_load mission (m_Limits mission) params nodes s = Inr ((x, st), v)"
      and p: "\<exists>r. advance_phases \<epsilon> x st v = Inr r"
    using adv run assms(1)
    by (auto simp: AdvanceMission_repo_def Let_def LockMissionInWorkspace_def decodePlanLimits_def
        ListTaskNodesByMission_def nodes_def split: if_splits)
  have v: "v = s" using obeysD [OF reads_advance_load l] by simp
  have x: "ax_limits x = m_Limits mission" "ax_mission x = mission" "av_nodes st = nodes" "av_runs st = runs"
      "set (av_assignments st) = {b \<in> set (db_assignments s). assignment_in ?ws ?mid b}"
    using l by (auto simp: advance_load_def Let_def GetMissionBudgetUsage_def ListOrchestrationRunsByMission_def
        ListOrchestrationIssueDependencies_def ListOrchestrationAssignmentsByMission_def runs_def
        ListArtifactsByMission_def ListReviewVerdictsByMission_def)
  have ws: "m_WorkspaceID mission \<noteq> None"
    using assms(1) by (auto simp: GetMissionInWorkspace_def mission_is_def sql_eq_def find_Some_iff)
  have "exhaust_assignment \<epsilon> x a latest (ExhaustedTaskStatus policy) st s \<noteq> Inr q" for q
  proof
    assume q: "exhaust_assignment \<epsilon> x a latest (ExhaustedTaskStatus policy) st s = Inr q"
    obtain out u where "q = (out, u)" by (cases q)
    with q have e: "exhaust_assignment \<epsilon> x a latest (ExhaustedTaskStatus policy) st s = Inr (out, u)" by simp
    show False using exhaust_assignment_spends [OF e] spent(2) ws node by (simp add: x)
  qed
  then have "retry_step \<epsilon> x a st s \<noteq> Inr q" for q
    using latest spent(1) by (simp add: retry_step_def run_failed_def x policy_def Let_def)
  moreover have "retry_step \<epsilon> x b st s = Inr (Advancing st, s)" if "b \<in> set (av_assignments st)" "b \<noteq> a" for b
    using that others by (intro retry_step_waits) (auto simp: x list_all_iff)
  ultimately have "advance_each (retry_step \<epsilon> x) (av_assignments st) st s \<noteq> Inr q" for q
    using a by (intro advance_each_stuck [where a = a]) (auto simp: x)
  then show False
    using p unfolding v advance_phases_def Let_def advance_then_def
    by (cases "advance_each (retry_step \<epsilon> x) (av_assignments st) st s") (auto simp: tx_bind_def)
qed

section \<open>Smaller divergences\<close>

text \<open>The active planner assignment that a manually submitted plan leaves behind has no task node: when its
  planning run failed and may be retried, the step fails.\<close>

lemma planner_left_active_fails:
  assumes "run_failed (av_runs st) a latest" and "a_TaskNodeID a = None" and "\<not> list_ex (\<lambda>n. t_IssueID n = None) (av_nodes st)"
    and "RetrySameAssignment (EvaluateFailurePolicy (text_String (r_FailureKind latest)) (r_Attempt latest)
      (MaxTaskAttempts (ax_limits x)))"
  shows "retry_step \<epsilon> x a st s = Inl (Errorf ''advance mission: retry task node is missing'')"
proof -
  have "findNode (av_nodes st) (a_TaskNodeID a) = None"
    using assms(2,3) by (auto simp: findNode_def list_ex_iff find_None_iff)
  then show ?thesis
    using assms(1,4) by (simp add: retry_step_def run_failed_def retry_run_def Let_def tx_fail_def)
qed

text \<open>The tables of \<open>transition.go\<close> do not allow a reviewed task to be blocked, or a blocked one to return to
  review or rework, nor a blocked mission to complete; the steps do the first three and try the last.\<close>

lemma moves_outside_tables:
  "\<not> task_step TaskStatusReview TaskStatusBlocked" "\<not> task_step TaskStatusBlocked TaskStatusReview"
  "\<not> task_step TaskStatusBlocked TaskStatusRework" "\<not> mission_step MissionStatusBlocked MissionStatusCompleted"
  by (simp_all add: task_step_cases mission_step_iff transition_defs validateTransition_def)

lemma review_blocked_moves:
  assumes "review_blocked \<epsilon> x node workRun artifact routing st s = Inr (out, t)" and "t_Status node = TaskStatusReview"
  shows "\<exists>n \<in> set (db_nodes s). t_IssueID n = t_IssueID node \<and> t_Status n = TaskStatusReview \<and>
    list_ex (\<lambda>m. t_IssueID m = t_IssueID node \<and> t_Status m = TaskStatusBlocked) (db_nodes t)"
proof -
  obtain msg reason u v where
      m: "move_node \<epsilon> x msg node TaskStatusBlocked reason s = Inr (u, v)" and n: "db_nodes t = db_nodes v"
    using assms(1) by (auto simp: review_blocked_def Let_def dest!: work_dest split: prod.splits)
  obtain n where f: "find (\<lambda>n. node_is (x_ws x) (x_mid x) (t_IssueID node) n \<and> t_Status n = t_Status node) (db_nodes s) = Some n"
      and v: "db_nodes v = update_rows (\<lambda>n. node_is (x_ws x) (x_mid x) (t_IssueID node) n \<and> t_Status n = t_Status node)
        (\<lambda>n. touch_node \<epsilon> (n\<lparr>t_Status := TaskStatusBlocked, t_BlockReason := reason\<rparr>)) (db_nodes s)"
    using m by (auto simp: move_node_def TransitionTaskNodeState_def update_node_def tx_update_Inr)
  then have *: "n \<in> set (db_nodes s)" "node_is (x_ws x) (x_mid x) (t_IssueID node) n" "t_Status n = t_Status node"
    by (auto dest: find_SomeD)
  let ?n = "touch_node \<epsilon> (n\<lparr>t_Status := TaskStatusBlocked, t_BlockReason := reason\<rparr>)"
  have "?n \<in> set (db_nodes t)" using * unfolding n v update_rows_def by force
  moreover have "t_IssueID n = t_IssueID node" using *(2) by (simp add: node_is_def sql_eq_def)
  moreover have "t_IssueID ?n = t_IssueID n" "t_Status ?n = TaskStatusBlocked" by (simp_all add: touch_node_def)
  ultimately show ?thesis using * assms(2) by (intro bexI [of _ n]) (auto simp: list_ex_iff intro!: bexI [of _ ?n])
qed

text \<open>A mission all of whose tasks are completed or cancelled, one of them cancelled, stays running.\<close>

lemma cancelled_task_keeps_running:
  assumes "list_all (\<lambda>n. t_Status n = TaskStatusCompleted \<or> t_Status n = TaskStatusCancelled) (av_nodes st)"
    and "list_ex (\<lambda>n. t_Status n = TaskStatusCancelled) (av_nodes st)"
  shows "settled_status MissionStatusRunning st = MissionStatusRunning"
  using assms
  by (auto simp: settled_status_def allNodesHaveStatus_def anyNodeHasStatus_def list_all_iff list_ex_iff)

text \<open>\<open>saturatingAdd\<close> cuts off at the top only: below the least \<open>int64\<close> it wraps around.\<close>

lemma saturatingAdd_wraps_below: "saturatingAdd (- max_int64) (- 2) = max_int64"
  by (simp add: saturatingAdd_def i64_def max_int64_def)

text \<open>A request that omits the context references freezes a nil slice; a planner that answers with an empty
  list is rejected for it, although both are written the same way.\<close>

lemma empty_references_mismatch:
  assumes "limits64 limits" and "TrimSpace text \<noteq> []" and "DecodePlanProposal text = Inr p"
    and "ContextRefs input = None" and "ContextRefs (pp_Input p) = Some []"
  shows "validatePlanningTaskProposal (m_IssueID mission)
      (PlanningRunSpec_json (planning_run_spec mission input limits)) (Some (planner_answer text)) \<noteq> Inr v"
  using assms answer_accepted_iff [OF assms(1,2), of mission input v] by auto

end
