(* ===== verification/Orchestrator.thy ===== *)
theory Orchestrator
  imports Operations Hazards
begin

text \<open>
  What the orchestrator's step guarantees, and where it gets stuck.  The witnesses continue the scenario of
  \<open>Operations\<close>: a failed run that is retried under a budget, a finished one that is to be reviewed,
  and a task whose attempts are exhausted a second time.
\<close>

section \<open>Limits\<close>

text \<open>C1: One step of the orchestrator starts only what the limits allow: the runs it creates are queued runs of
  the mission, first attempts among them leave no more active runs than the parallel limit, and if
  the mission has a budget then the usage, with the estimates of all created runs reserved, is within
  the budget and its grants.\<close>
theorem step_stays_within_limits:
  assumes "AdvanceMission_repo \<epsilon> params s = Inr (res, t)"
    and "GetMissionInWorkspace (ap_WorkspaceID params) (ap_MissionID params) s = Inr (mission, s)"
    and "GetMissionBudgetUsage (ap_WorkspaceID params) (ap_MissionID params) s = Inr (usage, s)"
    and "list_all (\<lambda>r. r_ID r \<noteq> None) (db_runs s)"
    and "usage_ok usage" and "0 \<le> m_BudgetGrantTokens mission" and "0 \<le> m_BudgetGrantCostUsdTicks mission"
    and "m_BudgetGrantTokens mission \<le> max_int64" and "m_BudgetGrantCostUsdTicks mission \<le> max_int64"
    and "case Budget (m_Limits mission) of None \<Rightarrow> True | Some p \<Rightarrow> policy_ok p"
    and "list_all (\<lambda>n. estimate_ok (budgetEstimateForNode n)) (db_nodes s)"
  shows "step_within_limits (ap_WorkspaceID params) (ap_MissionID params) mission usage s (amr_CreatedRuns res) t"
  using assms by (rule AdvanceMission_repo_within_limits)

definition capped_limits :: PlanLimits where
  "capped_limits = demo_limits\<lparr>Budget := Some \<lparr>MaxTokens = Some 100, MaxCostUSDTicks = None, Gate = ''fail_closed''\<rparr>\<rparr>"

definition failing :: db where
  "failing = busy\<lparr>db_missions := [busy_mission\<lparr>m_Limits := capped_limits\<rparr>],
     db_nodes := [busy_node\<lparr>t_BudgetEstimateTokens := 30\<rparr>],
     db_runs := [busy_run\<lparr>r_Status := RunStatusFailed, r_FailureKind := Some ''timeout''\<rparr>]\<rparr>"

definition step_params :: AdvanceMissionParams where
  "step_params =
     \<lparr>ap_WorkspaceID = Some ''w'', ap_MissionID = Some ''m'', ap_CorrelationID = Some ''c'', ap_ObservedAt = 1000,
      ap_DispatchWindow = defaultDispatchTimeout, ap_RunTimeout = defaultRunTimeout\<rparr>"

definition retried :: db where
  "retried = after (AdvanceMission_repo demo_env step_params) failing"

theorem step_stays_within_limits_witness:
  "\<exists>res :: AdvanceMissionResult. length (amr_CreatedRuns res) = 1 \<and>
     step_within_limits (Some ''w'') (Some ''m'') (busy_mission\<lparr>m_Limits := capped_limits\<rparr>)
       \<lparr>ConsumedTokens = 30, ReservedTokens = 0, ConsumedCostUSDTicks = 0, ReservedCostUSDTicks = 0\<rparr> failing
       (amr_CreatedRuns res) retried"
proof -
  have "outcome (tx_bind (AdvanceMission_repo demo_env step_params)
      (\<lambda>r. tx_return (length (amr_CreatedRuns r) = 1))) failing = Some True"
    by code_simp
  from outcome_of [OF this] obtain res where
      r: "AdvanceMission_repo demo_env step_params failing = Inr (res, retried)" "length (amr_CreatedRuns res) = 1"
    by (auto simp: retried_def)
  have p: "ap_WorkspaceID step_params = Some ''w''" "ap_MissionID step_params = Some ''m''"
    by (simp_all add: step_params_def)
  have "step_within_limits (ap_WorkspaceID step_params) (ap_MissionID step_params) (busy_mission\<lparr>m_Limits := capped_limits\<rparr>)
      \<lparr>ConsumedTokens = 30, ReservedTokens = 0, ConsumedCostUSDTicks = 0, ReservedCostUSDTicks = 0\<rparr> failing
      (amr_CreatedRuns res) retried"
  proof (rule step_stays_within_limits [OF r(1)])
    show "GetMissionInWorkspace (ap_WorkspaceID step_params) (ap_MissionID step_params) failing =
        Inr (busy_mission\<lparr>m_Limits := capped_limits\<rparr>, failing)"
      unfolding p by (simp add: GetMissionInWorkspace_def failing_def busy_def busy_mission_def mission_is_def sql_eq_def tx_one_def)
    show "GetMissionBudgetUsage (ap_WorkspaceID step_params) (ap_MissionID step_params) failing =
        Inr (\<lparr>ConsumedTokens = 30, ReservedTokens = 0, ConsumedCostUSDTicks = 0, ReservedCostUSDTicks = 0\<rparr>, failing)"
      unfolding p by code_simp
  qed (simp_all add: failing_def busy_def demo_db_def busy_run_def busy_node_def busy_mission_def usage_ok_def nonneg64_def max_int64_def
      capped_limits_def policy_ok_def estimate_ok_def budgetEstimateForNode_def)
  then show ?thesis using r(2) p by auto
qed

section \<open>Assignments\<close>

text \<open>C7: A reviewer never judges its own work: when a pass of the review phase starts a run for the artifact
  of a work run whose assignment is known, the run is a review under a new assignment of another agent
  than the producer.\<close>
theorem reviewer_is_independent:
  assumes "review_step \<epsilon> x policies i st s = Inr (out, t)" and "db_runs t \<noteq> db_runs s"
    and "review_subject x st (av_nodes st ! i) = Some (workRun, artifact)"
    and "findAssignment (av_assignments st) (r_AssignmentID workRun) = Some producer"
    and "a_AgentID producer = Some agent" and "TrimSpace agent = agent" and "agent \<noteq> []"
    and "agents_ok \<epsilon> s" and "env_ok \<epsilon>"
  shows "\<exists>reviewer run. db_assignments t = db_assignments s @ [reviewer] \<and> db_runs t = db_runs s @ [run] \<and>
    r_AssignmentID run = a_ID reviewer \<and> r_Purpose run = ''review'' \<and> a_Role reviewer = DutyReviewer \<and>
    a_AgentID reviewer \<noteq> a_AgentID producer"
  using assms by (rule reviewer_differs)

definition done_run :: RunRow where
  "done_run = busy_run\<lparr>r_Status := RunStatusSucceeded\<rparr>"

definition done_artifact :: ArtifactRow where
  "done_artifact =
     \<lparr>ar_ID = Some ''f'', ar_WorkspaceID = Some ''w'', ar_MissionID = Some ''m'', ar_TaskNodeID = Some ''n'',
      ar_RunID = Some ''r'', ar_Kind = ArtifactKindFinalDelivery, ar_Version = 1, ar_Uri = ''u'', ar_ContentHash = None,
      ar_Summary = ''s'', ar_Metadata = JObj [], ar_CreatedAt = 1\<rparr>"

definition review_node :: TaskNodeRow where
  "review_node = busy_node\<lparr>t_Status := TaskStatusReview\<rparr>"

definition reviewing :: db where
  "reviewing = busy\<lparr>db_mailbox := [], db_nodes := [review_node], db_runs := [done_run], db_artifacts := [done_artifact],
     db_agents := [busy_agent, busy_agent\<lparr>ag_ID := Some ''h''\<rparr>]\<rparr>"

definition review_policy :: RolePolicySnapshot where
  "review_policy =
     \<lparr>rps_ID = ''z'', rps_WorkspaceID = ''w'', rps_MissionID = ''m'', rps_SchemaVersion = 1, rps_Duty = DutyReviewer,
      rps_RoleProfileID = ''r'', rps_RoleProfileKey = ''k'', rps_RoleProfileVersion = 1, rps_ProfileName = ''n'',
      rps_ProfileDescription = [], rps_Config = demo_config, rps_AgentID = [], rps_ContentHash = [],
      rps_FrozenBy = ''u'', rps_FrozenAt = 1\<rparr>"

definition review_input :: advance_input where
  "review_input =
     \<lparr>ax_params = step_params, ax_mission = busy_mission, ax_limits = demo_limits,
      ax_allowance = \<lparr>GrantTokens = 0, GrantCostUSDTicks = 0\<rparr>, ax_dependencies = [], ax_artifacts = [done_artifact],
      ax_verdicts = []\<rparr>"

definition review_state :: advance_state where
  "review_state =
     \<lparr>av_nodes = [review_node], av_assignments = [busy_assignment], av_runs = [done_run],
      av_usage = \<lparr>ConsumedTokens = 0, ReservedTokens = 0, ConsumedCostUSDTicks = 0, ReservedCostUSDTicks = 0\<rparr>,
      av_created = [], av_activities = [], av_changed = False, av_activeRuns = 0\<rparr>"

lemma demo_env_ok: "env_ok demo_env"
  by (auto simp: env_ok_def demo_env_def inj_def nil_uuid_def replicate_eq_replicate)

lemma reviewing_agents: "agents_ok demo_env reviewing"
  by (simp add: agents_ok_def reviewing_def busy_agent_def demo_env_def)

lemma review_routed:
  "rr_Selected (SelectRoutingCandidate (routing_input (Some ''w'') (Some ''u'') review_policy ''g'' [] reviewing)) =
     Some \<lparr>sel_AgentID = ''h'', sel_RuntimeID = ''t''\<rparr>"
  unfolding Selected_eq by code_simp

lemma review_launched:
  "case review_selected demo_env review_input review_node done_artifact review_policy routing
     \<lparr>sel_AgentID = ''h'', sel_RuntimeID = ''t''\<rparr> review_state reviewing of
   Inl e \<Rightarrow> False | Inr (out, t) \<Rightarrow> map r_ID (db_runs t) = [Some ''r'', Some ''aa'']"
  by code_simp

lemma review_step_reviewing:
  "\<exists>out (t :: db). review_step demo_env review_input [review_policy] 0 review_state reviewing = Inr (out, t) \<and>
     map r_ID (db_runs t) = [Some ''r'', Some ''aa'']"
proof -
  let ?r = "SelectRoutingCandidate (routing_input (Some ''w'') (Some ''u'') review_policy ''g'' [] reviewing)"
  obtain out t where l: "review_selected demo_env review_input review_node done_artifact review_policy ?r
      \<lparr>sel_AgentID = ''h'', sel_RuntimeID = ''t''\<rparr> review_state reviewing = Inr (out, t)"
      "map r_ID (db_runs t) = [Some ''r'', Some ''aa'']"
    using review_launched [of ?r] by (auto split: sum.splits)
  have s: "review_subject review_input review_state review_node = Some (done_run, done_artifact)"
      "producer_agent review_state done_run = ''g''" "policy_for [review_policy] DutyReviewer = Some review_policy"
      "Allowed (admission review_input review_state (budgetEstimateForNode review_node))"
    by code_simp+
  have x: "x_ws review_input = Some ''w''" "m_CreatedBy (ax_mission review_input) = Some ''u''"
      "av_nodes review_state = [review_node]" "t_Status review_node = TaskStatusReview"
      "av_activeRuns review_state = 0" "MaxParallelRuns (ax_limits review_input) = 2"
    by (simp_all add: x_ws_def review_input_def step_params_def busy_mission_def review_state_def review_node_def demo_limits_def)
  have "review_step demo_env review_input [review_policy] 0 review_state reviewing = Inr (out, t)"
    using s l(1) review_routed selectAndLock_settles [OF reviewing_agents, of "Some ''w''" "Some ''u''" review_policy "''g''" "[]"]
    by (simp add: review_step_def Let_def x tx_bind_def tx_wrap_def)
  then show ?thesis using l(2) by (intro exI conjI)
qed

theorem reviewer_is_independent_witness:
  "\<exists>(t :: db) reviewer run. db_assignments t = [busy_assignment, reviewer] \<and> db_runs t = [done_run, run] \<and>
     a_Role reviewer = DutyReviewer \<and> a_AgentID reviewer \<noteq> Some ''g''"
proof -
  obtain out t where r: "review_step demo_env review_input [review_policy] 0 review_state reviewing = Inr (out, t)"
      "map r_ID (db_runs t) = [Some ''r'', Some ''aa'']"
    using review_step_reviewing by (elim exE conjE)
  have runs: "db_runs reviewing = [done_run]" "db_assignments reviewing = [busy_assignment]"
      "a_AgentID busy_assignment = Some ''g''"
    by (simp_all add: reviewing_def busy_def busy_assignment_def)
  have "\<exists>reviewer run. db_assignments t = db_assignments reviewing @ [reviewer] \<and> db_runs t = db_runs reviewing @ [run] \<and>
      r_AssignmentID run = a_ID reviewer \<and> r_Purpose run = ''review'' \<and> a_Role reviewer = DutyReviewer \<and>
      a_AgentID reviewer \<noteq> a_AgentID busy_assignment"
  proof (rule reviewer_is_independent [OF r(1)])
    show "db_runs t \<noteq> db_runs reviewing" using r(2) runs by auto
    show "review_subject review_input review_state (av_nodes review_state ! 0) = Some (done_run, done_artifact)"
      by code_simp
    show "findAssignment (av_assignments review_state) (r_AssignmentID done_run) = Some busy_assignment" by code_simp
    show "TrimSpace ''g'' = ''g''" by code_simp
  qed (simp_all add: runs reviewing_agents demo_env_ok)
  then show ?thesis using runs by auto
qed

text \<open>C34: A task is never launched beside an active assignment: when a pass of the dispatch phase starts a run
  for a task node, no assignment of the node for its duty was active.\<close>
theorem launched_only_when_free:
  assumes "dispatch_step \<epsilon> x policies i st s = Inr (out, t)" and "db_runs t \<noteq> db_runs s"
    and "t_IssueID (av_nodes st ! i) \<noteq> None"
  shows "list_all (\<lambda>b. \<not> (a_TaskNodeID b = t_IssueID (av_nodes st ! i) \<and> a_Role b = t_Role (av_nodes st ! i) \<and>
    a_Status b = AssignmentStatusActive)) (db_assignments s)"
  using assms by (rule dispatch_free)

definition ready_node :: TaskNodeRow where
  "ready_node = busy_node\<lparr>t_Status := TaskStatusReady\<rparr>"

definition past_assignment :: AssignmentRow where
  "past_assignment = busy_assignment\<lparr>a_Status := AssignmentStatusRevoked\<rparr>"

definition dispatching :: db where
  "dispatching = reviewing\<lparr>db_nodes := [ready_node], db_assignments := [past_assignment], db_runs := [], db_artifacts := []\<rparr>"

definition dispatch_policy :: RolePolicySnapshot where
  "dispatch_policy = review_policy\<lparr>rps_Duty := DutyExecutor\<rparr>"

definition dispatch_state :: advance_state where
  "dispatch_state = review_state\<lparr>av_nodes := [ready_node], av_assignments := [past_assignment], av_runs := []\<rparr>"

lemma dispatch_routed:
  "rr_Selected (SelectRoutingCandidate (routing_input (Some ''w'') (Some ''u'') dispatch_policy [] [] dispatching)) =
     Some \<lparr>sel_AgentID = ''g'', sel_RuntimeID = ''t''\<rparr>"
  unfolding Selected_eq by code_simp

lemma dispatch_launched:
  "case dispatch_selected demo_env review_input 0 ready_node dispatch_policy routing
     \<lparr>sel_AgentID = ''g'', sel_RuntimeID = ''t''\<rparr> dispatch_state dispatching of
   Inl e \<Rightarrow> False | Inr (out, t) \<Rightarrow> map r_ID (db_runs t) = [Some ''aa'']"
  by code_simp

lemma dispatching_agents: "agents_ok demo_env dispatching"
  by (simp add: agents_ok_def dispatching_def reviewing_def busy_agent_def demo_env_def)

theorem launched_only_when_free_witness:
  "\<exists>out (t :: db). dispatch_step demo_env review_input [dispatch_policy] 0 dispatch_state dispatching = Inr (out, t) \<and>
     map r_ID (db_runs t) = [Some ''aa''] \<and>
     list_all (\<lambda>b. \<not> (a_TaskNodeID b = Some ''n'' \<and> a_Role b = DutyExecutor \<and> a_Status b = AssignmentStatusActive))
       (db_assignments dispatching)"
proof -
  let ?r = "SelectRoutingCandidate (routing_input (Some ''w'') (Some ''u'') dispatch_policy [] [] dispatching)"
  obtain out t where l: "dispatch_selected demo_env review_input 0 ready_node dispatch_policy ?r
      \<lparr>sel_AgentID = ''g'', sel_RuntimeID = ''t''\<rparr> dispatch_state dispatching = Inr (out, t)"
      "map r_ID (db_runs t) = [Some ''aa'']"
    using dispatch_launched [of ?r] by (auto split: sum.splits)
  have s: "policy_for [dispatch_policy] DutyExecutor = Some dispatch_policy"
      "Allowed (admission review_input dispatch_state (budgetEstimateForNode ready_node))"
    by code_simp+
  have x: "x_ws review_input = Some ''w''" "m_CreatedBy (ax_mission review_input) = Some ''u''"
      "av_nodes dispatch_state = [ready_node]" "t_Status ready_node = TaskStatusReady" "t_Role ready_node = DutyExecutor"
      "t_IssueID ready_node = Some ''n''" "av_activeRuns dispatch_state = 0" "MaxParallelRuns (ax_limits review_input) = 2"
    by (simp_all add: x_ws_def review_input_def step_params_def busy_mission_def dispatch_state_def review_state_def
        ready_node_def busy_node_def demo_limits_def)
  have d: "dispatch_step demo_env review_input [dispatch_policy] 0 dispatch_state dispatching = Inr (out, t)"
    using s l(1) dispatch_routed selectAndLock_settles [OF dispatching_agents, of "Some ''w''" "Some ''u''" dispatch_policy "[]" "[]"]
    by (simp add: dispatch_step_def Let_def x tx_bind_def tx_wrap_def)
  have "db_runs dispatching = []" by (simp add: dispatching_def)
  then have "db_runs t \<noteq> db_runs dispatching" using l(2) by auto
  from launched_only_when_free [OF d this] show ?thesis
    using d l(2) x by (intro exI [of _ out] exI [of _ t]) simp
qed

section \<open>Exhausted tasks\<close>

text \<open>The attempts of a task are exhausted with a given outcome at most once: after a step recorded it,
  no later step records it again, whatever happens in between; it does nothing, and that only for a
  task that is over.\<close>
theorem attempts_exhausted_once:
  assumes "exhaust_assignment \<epsilon> x a latest target st s = Inr (out, t)" and "out \<noteq> Advancing st"
    and "evolves \<epsilon>' hard t u"
    and "exhaust_assignment \<epsilon>'' x' a' latest' target st' u = Inr (out', v)"
    and "a_TaskNodeID a' = a_TaskNodeID a"
    and "m_WorkspaceID (ax_mission x') = m_WorkspaceID (ax_mission x)" and "m_WorkspaceID (ax_mission x) \<noteq> None"
  shows "out' = Advancing st' \<and> v = u"
  using assms by (rule exhausted_once)

definition lost_run :: RunRow where
  "lost_run = busy_run\<lparr>r_Attempt := 2, r_Status := RunStatusFailed, r_FailureKind := Some ''runtime_offline''\<rparr>"

definition lost :: db where
  "lost = busy\<lparr>db_runs := [lost_run]\<rparr>"

definition lost_state :: advance_state where
  "lost_state = review_state\<lparr>av_nodes := [busy_node], av_runs := [lost_run]\<rparr>"

definition over_state :: advance_state where
  "over_state = lost_state\<lparr>av_nodes := [busy_node\<lparr>t_Status := TaskStatusCancelled\<rparr>]\<rparr>"

definition exhausted :: db where
  "exhausted = after (exhaust_assignment demo_env review_input busy_assignment lost_run TaskStatusBlocked lost_state) lost"

theorem attempts_exhausted_once_witness:
  "map t_Status (db_nodes exhausted) = [TaskStatusBlocked] \<and>
   exhaust_assignment demo_env review_input busy_assignment lost_run TaskStatusBlocked over_state exhausted =
     Inr (Advancing over_state, exhausted)"
proof
  let ?act = "exhaust_assignment demo_env review_input busy_assignment lost_run TaskStatusBlocked"
  let ?f = "\<lambda>out. case out of Advancing st \<Rightarrow> av_changed st | _ \<Rightarrow> False"
  have "outcome (tx_bind (?act lost_state) (\<lambda>out. tx_return (?f out))) lost = Some True" by code_simp
  from outcome_of [OF this] obtain out where out: "?act lost_state lost = Inr (out, exhausted)" "?f out"
    unfolding exhausted_def by blast
  have "\<not> ?f (Advancing lost_state)" by (simp add: lost_state_def review_state_def)
  then have n: "out \<noteq> Advancing lost_state" using out(2) by metis
  show "map t_Status (db_nodes exhausted) = [TaskStatusBlocked]" by code_simp
  have "\<exists>out' v. ?act over_state exhausted = Inr (out', v)"
    by (simp add: exhaust_assignment_def over_state_def findNode_def busy_node_def busy_assignment_def tx_return_def
        isTerminalTaskStatus_def)
  then obtain out' v where r: "?act over_state exhausted = Inr (out', v)" by (elim exE)
  from attempts_exhausted_once [OF out(1) n evolves.begins [of demo_env demo_hard] r] r
  show "?act over_state exhausted = Inr (Advancing over_state, exhausted)"
    by (simp add: review_input_def busy_mission_def)
qed


text \<open>The log is the one the first exhaustion left; the task was retried and assigned again, and the runs of
  the new assignment failed in the same way.\<close>

definition second_assignment :: AssignmentRow where
  "second_assignment = busy_assignment\<lparr>a_ID := Some ''s2'', a_Sequence := 2, a_SupersedesID := Some ''s''\<rparr>"

definition second_run :: RunRow where
  "second_run = lost_run\<lparr>r_ID := Some ''r2'', r_AssignmentID := Some ''s2''\<rparr>"

definition relapsed :: db where
  "relapsed = exhausted\<lparr>db_nodes := [busy_node], db_assignments := [past_assignment, second_assignment],
     db_runs := [lost_run, second_run]\<rparr>"


section \<open>Rows\<close>

text \<open>C18: A run keeps its place, its assignment, its attempt and its frozen input for ever, its status only
  moves forward along the lifecycle of runs, and once it is finished nothing about it changes.\<close>
theorem runs_move_forward:
  assumes "evolves \<epsilon> hard s t" and "i < length (db_runs s)"
  shows "i < length (db_runs t) \<and> r_ID (db_runs t ! i) = r_ID (db_runs s ! i) \<and>
    r_TaskNodeID (db_runs t ! i) = r_TaskNodeID (db_runs s ! i) \<and>
    r_AssignmentID (db_runs t ! i) = r_AssignmentID (db_runs s ! i) \<and>
    r_Attempt (db_runs t ! i) = r_Attempt (db_runs s ! i) \<and> r_Input (db_runs t ! i) = r_Input (db_runs s ! i) \<and>
    run_step\<^sup>*\<^sup>* (r_Status (db_runs s ! i)) (r_Status (db_runs t ! i)) \<and>
    (isTerminalRunStatus (r_Status (db_runs s ! i)) \<longrightarrow> db_runs t ! i = db_runs s ! i)"
  using evolves_history [OF assms(1)] assms(2) by (auto simp: history_def rows_evolve_def run_moves_def)

theorem runs_move_forward_witness: "r_Input (db_runs halted ! 0) = JObj [] \<and> r_Attempt (db_runs halted ! 0) = 1"
proof -
  have "map r_Input (db_runs enqueued) = [JObj []] \<and> map r_Attempt (db_runs enqueued) = [1]" by code_simp
  then have "0 < length (db_runs enqueued)" "r_Input (db_runs enqueued ! 0) = JObj []" "r_Attempt (db_runs enqueued ! 0) = 1"
    by auto
  with runs_move_forward [OF busy_evolves(2) this(1)] show ?thesis by simp
qed

text \<open>C19: A task keeps its key, its duty and its budget estimate, its rework count never falls and a finished
  task never changes; an assignment keeps its task, its duty, its agent and its runtime, and once it
  ended it never changes.\<close>
theorem tasks_and_assignments_settle:
  assumes "evolves \<epsilon> hard s t"
  shows "length (db_nodes s) \<le> length (db_nodes t) \<and> length (db_assignments s) \<le> length (db_assignments t) \<and>
    (\<forall>i < length (db_nodes s). let n = db_nodes s ! i; n' = db_nodes t ! i in
       t_IssueID n' = t_IssueID n \<and> t_NodeKey n' = t_NodeKey n \<and> t_Role n' = t_Role n \<and>
       budgetEstimateForNode n' = budgetEstimateForNode n \<and> t_ReworkCount n \<le> t_ReworkCount n' \<and>
       (isTerminalTaskStatus (t_Status n) \<longrightarrow> n' = n)) \<and>
    (\<forall>i < length (db_assignments s). let a = db_assignments s ! i; a' = db_assignments t ! i in
       a_ID a' = a_ID a \<and> a_TaskNodeID a' = a_TaskNodeID a \<and> a_Role a' = a_Role a \<and> a_AgentID a' = a_AgentID a \<and>
       a_RuntimeID a' = a_RuntimeID a \<and> (a_Status a \<noteq> AssignmentStatusActive \<longrightarrow> a' = a))"
  using evolves_history [OF assms(1)]
  by (auto simp: history_def rows_evolve_def node_moves_def assignment_moves_def Let_def budgetEstimateForNode_def)

theorem tasks_and_assignments_settle_witness:
  "a_AgentID (db_assignments halted ! 0) = Some ''g'' \<and> t_NodeKey (db_nodes halted ! 0) = ''e''"
proof -
  have "map a_AgentID (db_assignments enqueued) = [Some ''g''] \<and> map t_NodeKey (db_nodes enqueued) = [''e'']" by code_simp
  then have "0 < length (db_assignments enqueued)" "0 < length (db_nodes enqueued)"
      "a_AgentID (db_assignments enqueued ! 0) = Some ''g''" "t_NodeKey (db_nodes enqueued ! 0) = ''e''"
    by auto
  with tasks_and_assignments_settle [OF busy_evolves(2)] show ?thesis by (simp add: Let_def)
qed

section \<open>Observations\<close>

lemma observed_kinds:
  "normalizePolicyFailureKind (normalizeFailureKind raw) = normalizeFailureKind raw"
  "length (normalizeFailureKind raw) \<le> maxRunFailureMessageBytes" "normalizeFailureKind raw \<noteq> []"
proof -
  have k: "normalizeFailureKind raw \<in> set known_failure_kinds"
    by (simp add: normalizeFailureKind_def known_failure_kinds_def failure_kind_defs Let_def)
  then show "normalizePolicyFailureKind (normalizeFailureKind raw) = normalizeFailureKind raw"
    by (rule normalize_fixes_known)
  show "length (normalizeFailureKind raw) \<le> maxRunFailureMessageBytes" "normalizeFailureKind raw \<noteq> []"
    using k by (auto simp: known_failure_kinds_def failure_kind_defs maxRunFailureMessageBytes_def)
qed

definition legal_observation :: "RunRow \<Rightarrow> runObservation \<Rightarrow> bool" where
  "legal_observation run o1 \<longleftrightarrow>
     (ro_status o1 = r_Status run \<or> run_step (r_Status run) (ro_status o1)) \<and>
     (isTerminalRunStatus (r_Status run) \<longrightarrow> ro_status o1 = r_Status run) \<and>
     (ro_status o1 = r_Status run \<or> ro_status o1 \<noteq> RunStatusFailed \<or>
       (\<exists>kind. ro_failureKind o1 = Some kind \<and> normalizePolicyFailureKind kind = kind \<and>
         length (text_String (ro_failureMessage o1)) \<le> maxRunFailureMessageBytes))"

lemma legal_simps [simp]:
  "legal_observation run (observed_task b st o1) = legal_observation run o1"
  "legal_observation run (o1\<lparr>ro_cancelExecution := c\<rparr>) = legal_observation run o1"
  "legal_observation run (o1\<lparr>ro_startedAt := u\<rparr>) = legal_observation run o1"
  "legal_observation run (o1\<lparr>ro_finishedAt := u\<rparr>) = legal_observation run o1"
  "legal_observation run (unchanged_observation run)"
  by (simp_all add: legal_observation_def observed_task_def unchanged_observation_def)

lemma legal_failed:
  assumes "run_step (r_Status run) RunStatusFailed" and "normalizePolicyFailureKind kind = kind" and "kind \<noteq> []"
    and "length message \<le> maxRunFailureMessageBytes"
  shows "legal_observation run (failed_observation kind message finished o1)"
  using assms
  by (auto simp: legal_observation_def failed_observation_def textValue_def text_String_def isTerminalRunStatus_def run_step_cases)

lemma legal_status:
  "st = r_Status run \<or> run_step (r_Status run) st \<Longrightarrow> st \<noteq> RunStatusFailed \<Longrightarrow> \<not> isTerminalRunStatus (r_Status run) \<Longrightarrow>
     legal_observation run (o1\<lparr>ro_status := st\<rparr>)"
  by (auto simp: legal_observation_def)

lemma literal_kinds:
  "normalizePolicyFailureKind ''dispatch_timeout'' = ''dispatch_timeout''" "normalizePolicyFailureKind ''timeout'' = ''timeout''"
  by (rule normalize_fixes_known, simp add: known_failure_kinds_def failure_kind_defs)+

lemma observe_legal:
  assumes "observe_task_status run node task observedAt = Inr o1"
    and "r_Status run \<in> {RunStatusQueued, RunStatusDispatched, RunStatusRunning}"
  shows "legal_observation run o1"
proof -
  have f: "run_step (r_Status run) RunStatusFailed" using assms(2) by (auto simp: run_step_cases)
  have m: "length (normalizeFailureMessage raw (normalizeFailureKind k)) \<le> maxRunFailureMessageBytes" for raw k
    by (rule length_normalizeFailureMessage [OF observed_kinds(2)])
  show ?thesis
    using assms
    by (auto simp: observe_task_status_def Let_def laterActiveRunStatus_def active_rank_def run_step_cases legal_status isTerminalRunStatus_def
        maxRunFailureMessageBytes_def split: if_splits
        intro!: legal_failed [OF f] literal_kinds observed_kinds m [unfolded maxRunFailureMessageBytes_def])
qed

text \<open>C32: What the facts of an execution mean for a run is always something the run may do: a finished run
  stays as it is, an active one stays or makes a step of its lifecycle, and one that is observed to
  fail has a known kind of failure and a message of at most 2048 bytes.\<close>
theorem observation_is_legal:
  assumes "normalizeRunObservation mission run node task observedAt = Inr o1"
    and "r_Status run \<in> {RunStatusQueued, RunStatusDispatched, RunStatusRunning} \<or> isTerminalRunStatus (r_Status run)"
  shows "(ro_status o1 = r_Status run \<or> run_step (r_Status run) (ro_status o1)) \<and>
    (isTerminalRunStatus (r_Status run) \<longrightarrow> ro_status o1 = r_Status run) \<and>
    (ro_status o1 = r_Status run \<or> ro_status o1 \<noteq> RunStatusFailed \<or>
      (\<exists>kind. ro_failureKind o1 = Some kind \<and> normalizePolicyFailureKind kind = kind \<and>
        length (text_String (ro_failureMessage o1)) \<le> maxRunFailureMessageBytes))"
proof -
  have "legal_observation run o1"
  proof (cases "isTerminalRunStatus (r_Status run)")
    case True
    then show ?thesis using assms(1) by (auto simp: normalizeRunObservation_def Let_def split: if_splits)
  next
    case False
    then have r: "r_Status run \<in> {RunStatusQueued, RunStatusDispatched, RunStatusRunning}" using assms(2) by simp
    have f: "run_step (r_Status run) RunStatusFailed" "run_step (r_Status run) RunStatusCancelled"
      using r by (auto simp: run_step_cases)
    have c: "legal_observation run (unchanged_observation run\<lparr>ro_status := RunStatusCancelled, ro_finishedAt := t,
        ro_cancelExecution := b\<rparr>)" for t b
      using f False by (simp add: legal_observation_def)
    show ?thesis
      using assms(1) False c observe_legal [OF _ r]
      by (auto simp: normalizeRunObservation_def Let_def maxRunFailureMessageBytes_def split: if_splits option.splits
          intro!: legal_failed [OF f(1)] literal_kinds)
  qed
  then show ?thesis by (simp add: legal_observation_def)
qed

theorem observation_is_legal_witness:
  "\<exists>o1. normalizeRunObservation busy_mission busy_run busy_node None 1000 = Inr o1 \<and> ro_status o1 = RunStatusFailed \<and>
     run_step RunStatusQueued (ro_status o1)"
proof -
  have "case normalizeRunObservation busy_mission busy_run busy_node None 1000 of
      Inl e \<Rightarrow> False | Inr o1 \<Rightarrow> ro_status o1 = RunStatusFailed"
    by code_simp
  then obtain o1 where o1: "normalizeRunObservation busy_mission busy_run busy_node None 1000 = Inr o1"
      "ro_status o1 = RunStatusFailed"
    by (auto split: sum.splits)
  have "r_Status busy_run = RunStatusQueued" by (simp add: busy_run_def)
  with observation_is_legal [OF o1(1)] o1 show ?thesis by (intro exI [of _ o1]) auto
qed

section \<open>Selection under a lock\<close>

text \<open>Within one transaction the loop that selects a candidate, locks it and selects again ends in its first
  round, with the selection among the agents of the workspace as it stands, and changes nothing.\<close>
theorem selection_under_lock:
  assumes "agents_ok \<epsilon> s"
  shows "selectAndLockRoutingCandidate \<epsilon> ws user snapshot producer avoid s =
    Inr (SelectRoutingCandidate (routing_input ws user snapshot producer avoid s), s)"
  using assms by (rule selectAndLock_settles)

theorem selection_under_lock_witness:
  "\<exists>r. selectAndLockRoutingCandidate demo_env (Some ''w'') (Some ''u'') review_policy ''g'' [] reviewing = Inr (r, reviewing) \<and>
     rr_Selected r = Some \<lparr>sel_AgentID = ''h'', sel_RuntimeID = ''t''\<rparr>"
  using selection_under_lock [OF reviewing_agents, of "Some ''w''" "Some ''u''" review_policy "''g''" "[]"] review_routed
  by blast

end
