(* ===== verification/EmptyClaim.thy ===== *)
theory EmptyClaim
  imports JsonLaws
begin

text \<open>
  \<open>service/empty_claim_cache.go\<close>: the cached verdict that a runtime has no queued task.  A daemon polls for
  every runtime it hosts, and most polls find nothing; the verdict lets them skip the database.  It
  carries the version of the runtime it was observed under, and every enqueue bumps the version after
  its commit.  \<open>claim_step\<close> interleaves any number of polls with the arrival, reassignment and departure of
  tasks and with expiring keys, one access to Redis or to the database at a time.
\<close>

section \<open>The cache\<close>

text \<open>The two keys of a runtime: \<open>GET\<close> and \<open>MGET\<close> return an integer as its decimal text.\<close>

record claim_cache =
  cc_Version :: "string \<Rightarrow> int option"
  cc_Empty :: "string \<Rightarrow> string option"

definition CurrentVersion :: "claim_cache \<Rightarrow> string \<Rightarrow> int" where
  "CurrentVersion c runtimeID =
     (if runtimeID = [] then 0 else case cc_Version c runtimeID of None \<Rightarrow> 0 | Some v \<Rightarrow> v)"

definition IsEmpty :: "claim_cache \<Rightarrow> string \<Rightarrow> bool" where
  "IsEmpty c runtimeID \<longleftrightarrow>
     runtimeID \<noteq> [] \<and>
     (case cc_Empty c runtimeID of
        None \<Rightarrow> False
      | Some emptyVer \<Rightarrow>
          emptyVer = (case cc_Version c runtimeID of None \<Rightarrow> ''0'' | Some v \<Rightarrow> string_of_int v))"

definition MarkEmpty :: "claim_cache \<Rightarrow> string \<Rightarrow> int \<Rightarrow> claim_cache" where
  "MarkEmpty c runtimeID observedVersion =
     (if runtimeID = [] then c
      else c\<lparr>cc_Empty := (cc_Empty c)(runtimeID \<mapsto> string_of_int observedVersion)\<rparr>)"

definition Bump :: "claim_cache \<Rightarrow> string \<Rightarrow> claim_cache" where
  "Bump c runtimeID =
     (if runtimeID = [] then c
      else c\<lparr>cc_Version := (cc_Version c)(runtimeID \<mapsto> CurrentVersion c runtimeID + 1)\<rparr>)"

section \<open>Polls and enqueues\<close>

text \<open>A poll that missed the cache has sampled the version; then its \<open>SELECT\<close> may find no candidate; then
  it marks the runtime as empty.\<close>

datatype poll = Sampled string int | FoundNone string int

record claim_world =
  cw_cache :: claim_cache
  cw_queued :: "(string \<times> nat) set"
  cw_unannounced :: "(string \<times> nat) set"
  cw_polls :: "nat \<Rightarrow> poll option"

fun poll_runtime :: "poll \<Rightarrow> string" where
  "poll_runtime (Sampled rid v) = rid"
| "poll_runtime (FoundNone rid v) = rid"

fun poll_version :: "poll \<Rightarrow> int" where
  "poll_version (Sampled rid v) = v"
| "poll_version (FoundNone rid v) = v"

text \<open>\<open>version_expires\<close>: the version outlives every verdict and every poll in flight, because it is kept for
  24 hours from its last \<open>Bump\<close> or \<open>CurrentVersion\<close>, and a verdict for 3 minutes.  \<open>reassigned\<close>: the merge of a
  legacy runtime moves its queued tasks to another runtime without a \<open>Bump\<close>.  An announcement is never
  due: a \<open>Bump\<close> that fails is one that does not come, and so is that of a reassigned task.\<close>

inductive claim_step :: "claim_world \<Rightarrow> claim_world \<Rightarrow> bool" where
  arrives: "rid \<noteq> [] \<Longrightarrow> (rid, n) \<notin> cw_queued w \<Longrightarrow>
    claim_step w (w\<lparr>cw_queued := insert (rid, n) (cw_queued w),
      cw_unannounced := insert (rid, n) (cw_unannounced w)\<rparr>)"
| announced: "rid \<noteq> [] \<Longrightarrow> (rid, n) \<in> cw_unannounced w \<Longrightarrow>
    claim_step w (w\<lparr>cw_cache := Bump (cw_cache w) rid,
      cw_unannounced := cw_unannounced w - {(rid, n)}\<rparr>)"
| reassigned: "rid' \<noteq> [] \<Longrightarrow> (rid, n) \<in> cw_queued w \<Longrightarrow> (rid', n) \<notin> cw_queued w \<Longrightarrow>
    claim_step w (w\<lparr>cw_queued := insert (rid', n) (cw_queued w - {(rid, n)}),
      cw_unannounced := insert (rid', n) (cw_unannounced w)\<rparr>)"
| leaves: "claim_step w (w\<lparr>cw_queued := cw_queued w - {(rid, n)}\<rparr>)"
| polls: "cw_polls w p = None \<Longrightarrow> \<not> IsEmpty (cw_cache w) rid \<Longrightarrow>
    claim_step w (w\<lparr>cw_polls := (cw_polls w)(p \<mapsto> Sampled rid (CurrentVersion (cw_cache w) rid))\<rparr>)"
| selects: "cw_polls w p = Some (Sampled rid v) \<Longrightarrow>
    claim_step w (w\<lparr>cw_polls := (cw_polls w)(p :=
      (if \<exists>n. (rid, n) \<in> cw_queued w then None else Some (FoundNone rid v)))\<rparr>)"
| marks: "cw_polls w p = Some (FoundNone rid v) \<Longrightarrow>
    claim_step w (w\<lparr>cw_cache := MarkEmpty (cw_cache w) rid v, cw_polls := (cw_polls w)(p := None)\<rparr>)"
| dies: "claim_step w (w\<lparr>cw_polls := (cw_polls w)(p := None)\<rparr>)"
| verdict_expires: "claim_step w (w\<lparr>cw_cache := (cw_cache w)\<lparr>cc_Empty := (cc_Empty (cw_cache w))(rid := None)\<rparr>\<rparr>)"
| version_expires: "cc_Empty (cw_cache w) rid = None \<Longrightarrow>
    \<forall>p x. cw_polls w p = Some x \<longrightarrow> poll_runtime x \<noteq> rid \<Longrightarrow>
    claim_step w (w\<lparr>cw_cache := (cw_cache w)\<lparr>cc_Version := (cc_Version (cw_cache w))(rid := None)\<rparr>\<rparr>)"

definition fresh_world :: claim_world where
  "fresh_world = \<lparr>cw_cache = \<lparr>cc_Version = \<lambda>_. None, cc_Empty = \<lambda>_. None\<rparr>, cw_queued = {},
     cw_unannounced = {}, cw_polls = \<lambda>_. None\<rparr>"

section \<open>The invariant\<close>

text \<open>Whoever knows the current version and saw no queued task still knows of every announced one.\<close>

definition settled :: "claim_world \<Rightarrow> string \<Rightarrow> int \<Rightarrow> bool" where
  "settled w rid v \<longleftrightarrow>
     v \<le> CurrentVersion (cw_cache w) rid \<and>
     (v = CurrentVersion (cw_cache w) rid \<longrightarrow> (\<forall>n. (rid, n) \<in> cw_queued w \<longrightarrow> (rid, n) \<in> cw_unannounced w))"

definition verdicts_sound :: "claim_world \<Rightarrow> bool" where
  "verdicts_sound w \<longleftrightarrow>
     (\<forall>rid x. cc_Empty (cw_cache w) rid = Some x \<longrightarrow> (\<exists>v. x = string_of_int v \<and> settled w rid v))"

definition polls_sound :: "claim_world \<Rightarrow> bool" where
  "polls_sound w \<longleftrightarrow>
     (\<forall>p x. cw_polls w p = Some x \<longrightarrow>
        poll_version x \<le> CurrentVersion (cw_cache w) (poll_runtime x) \<and>
        ((\<exists>rid v. x = FoundNone rid v) \<longrightarrow> settled w (poll_runtime x) (poll_version x)))"

lemma CurrentVersion_Bump [simp]:
  "CurrentVersion (Bump c rid) r = (if r = rid \<and> rid \<noteq> [] then CurrentVersion c r + 1 else CurrentVersion c r)"
  by (simp add: Bump_def CurrentVersion_def)

lemma CurrentVersion_MarkEmpty [simp]: "CurrentVersion (MarkEmpty c rid v) = CurrentVersion c"
  by (rule ext) (simp add: MarkEmpty_def CurrentVersion_def)

lemma CurrentVersion_verdicts [simp]: "CurrentVersion (c\<lparr>cc_Empty := e\<rparr>) = CurrentVersion c"
  by (rule ext) (simp add: CurrentVersion_def)

lemma cc_Empty_Bump [simp]: "cc_Empty (Bump c rid) = cc_Empty c"
  by (simp add: Bump_def)

lemma string_of_int_inj: "string_of_int a = string_of_int b \<Longrightarrow> a = b"
  using read_string_of_int [of "[]" a] read_string_of_int [of "[]" b] by (simp add: after_value_def)

text \<open>A runtime with a verdict or a poll in flight does not lose its version, and what is settled stays
  settled: a new task is unannounced, and announcing it leaves the version behind.\<close>

definition in_use :: "claim_world \<Rightarrow> string \<Rightarrow> bool" where
  "in_use w rid \<longleftrightarrow>
     cc_Empty (cw_cache w) rid \<noteq> None \<or> (\<exists>p x. cw_polls w p = Some x \<and> poll_runtime x = rid)"

lemma step_version:
  "claim_step w w' \<Longrightarrow> in_use w rid \<Longrightarrow> CurrentVersion (cw_cache w) rid \<le> CurrentVersion (cw_cache w') rid"
  by (induction rule: claim_step.induct) (auto simp: in_use_def CurrentVersion_def Bump_def MarkEmpty_def)

lemma step_settled: "claim_step w w' \<Longrightarrow> in_use w rid \<Longrightarrow> settled w rid v \<Longrightarrow> settled w' rid v"
proof (induction rule: claim_step.induct)
  case (announced rid' n w)
  then show ?case by (auto simp: settled_def)
next
  case (version_expires w rid')
  then have "rid \<noteq> rid'" by (auto simp: in_use_def)
  with version_expires show ?case by (auto simp: settled_def CurrentVersion_def split: if_splits)
qed (auto simp: settled_def)

lemma step_verdicts:
  assumes "claim_step w w'" and "verdicts_sound w" and "polls_sound w" shows "verdicts_sound w'"
proof -
  have "\<exists>v. x = string_of_int v \<and> settled w' rid v" if x: "cc_Empty (cw_cache w') rid = Some x" for rid x
  proof (cases "cc_Empty (cw_cache w) rid = Some x")
    case True
    then obtain v where "x = string_of_int v" "settled w rid v" using assms(2) by (auto simp: verdicts_sound_def)
    with step_settled [OF assms(1), of rid v] True show ?thesis by (auto simp: in_use_def)
  next
    case False
    with assms(1) x obtain p v where p: "cw_polls w p = Some (FoundNone rid v)" and v: "x = string_of_int v"
      by (cases rule: claim_step.cases) (auto simp: MarkEmpty_def split: if_splits)
    then have "settled w rid v" "in_use w rid" using assms(3) by (fastforce simp: polls_sound_def in_use_def)+
    with step_settled [OF assms(1)] v show ?thesis by blast
  qed
  then show ?thesis by (simp add: verdicts_sound_def)
qed

lemma step_polls:
  assumes "claim_step w w'" and "polls_sound w" shows "polls_sound w'"
proof -
  have "poll_version x \<le> CurrentVersion (cw_cache w') (poll_runtime x) \<and>
      ((\<exists>rid v. x = FoundNone rid v) \<longrightarrow> settled w' (poll_runtime x) (poll_version x))"
    if x: "cw_polls w' p = Some x" for p x
  proof (cases "cw_polls w p = Some x")
    case True
    then have used: "in_use w (poll_runtime x)" by (auto simp: in_use_def)
    then show ?thesis
      using True assms(2) step_version [OF assms(1) used] step_settled [OF assms(1) used]
      by (fastforce simp: polls_sound_def)
  next
    case False
    from assms(1) show ?thesis
    proof (cases rule: claim_step.cases)
      case (polls p' rid)
      with x False show ?thesis by (auto split: if_splits)
    next
      case (selects p' rid v)
      then have "v \<le> CurrentVersion (cw_cache w) rid" using assms(2) by (fastforce simp: polls_sound_def)
      with selects x False show ?thesis by (auto simp: settled_def split: if_splits)
    qed (use x False in \<open>auto split: if_splits\<close>)
  qed
  then show ?thesis by (simp add: polls_sound_def)
qed

lemma reachable_sound:
  assumes "claim_step\<^sup>*\<^sup>* fresh_world w" shows "verdicts_sound w \<and> polls_sound w"
  using assms
proof (induction rule: rtranclp_induct)
  case base
  show ?case by (simp add: fresh_world_def verdicts_sound_def polls_sound_def)
next
  case (step w w')
  then show ?case by (blast intro: step_verdicts step_polls)
qed

lemma IsEmpty_version:
  "IsEmpty c rid \<Longrightarrow> cc_Empty c rid = Some (string_of_int (CurrentVersion c rid))"
  by (auto simp: IsEmpty_def CurrentVersion_def string_of_int_def string_of_nat_0 split: option.splits)

section \<open>The property\<close>

text \<open>C29: A cached verdict hides no announced work: whatever polls, enqueues, reassignments, departures and
  expirations interleave, while \<open>IsEmpty\<close> holds for a runtime each of its queued tasks is one that was not
  announced there by a \<open>Bump\<close> of its own: that \<open>Bump\<close> is still to come, failed, or is one that the code does
  not make.\<close>
theorem empty_verdict_hides_nothing:
  assumes "claim_step\<^sup>*\<^sup>* fresh_world w" and "IsEmpty (cw_cache w) rid" and "(rid, n) \<in> cw_queued w"
  shows "(rid, n) \<in> cw_unannounced w"
proof -
  obtain v where "string_of_int (CurrentVersion (cw_cache w) rid) = string_of_int v" "settled w rid v"
    using reachable_sound [OF assms(1)] IsEmpty_version [OF assms(2)] by (auto simp: verdicts_sound_def)
  then show ?thesis using assms(3) string_of_int_inj by (fastforce simp: settled_def)
qed

text \<open>In the witness a poll marks the runtime between the arrival of a task and its announcement.\<close>

definition marked_world :: claim_world where
  "marked_world = \<lparr>cw_cache = MarkEmpty (cw_cache fresh_world) ''r'' 0, cw_queued = {(''r'', 1)},
     cw_unannounced = {(''r'', 1)}, cw_polls = \<lambda>_. None\<rparr>"

lemma marked_world_reachable: "claim_step\<^sup>*\<^sup>* fresh_world marked_world"
proof -
  let ?a = "fresh_world\<lparr>cw_polls := [0 \<mapsto> Sampled ''r'' 0]\<rparr>"
  let ?b = "fresh_world\<lparr>cw_polls := [0 \<mapsto> FoundNone ''r'' 0]\<rparr>"
  let ?c = "?b\<lparr>cw_queued := {(''r'', 1)}, cw_unannounced := {(''r'', 1)}\<rparr>"
  have "claim_step fresh_world ?a"
    using claim_step.polls [of fresh_world 0 "''r''"]
    by (simp add: fresh_world_def IsEmpty_def CurrentVersion_def)
  moreover have "claim_step ?a ?b"
    using claim_step.selects [of ?a 0 "''r''" 0] by (simp add: fresh_world_def)
  moreover have "claim_step ?b ?c"
    using claim_step.arrives [of "''r''" 1 ?b] by (simp add: fresh_world_def)
  moreover have "claim_step ?c marked_world"
    using claim_step.marks [of ?c 0 "''r''" 0] by (simp add: fresh_world_def marked_world_def fun_upd_idem)
  ultimately show ?thesis by (meson converse_rtranclp_into_rtranclp rtranclp.rtrancl_refl)
qed

theorem empty_verdict_hides_nothing_witness: "(''r'', 1) \<in> cw_unannounced marked_world"
  by (rule empty_verdict_hides_nothing [OF marked_world_reachable])
    (simp_all add: marked_world_def fresh_world_def IsEmpty_def MarkEmpty_def string_of_int_def string_of_nat_0)

end
