(* ===== verification/TaskFailure.thy ===== *)
theory TaskFailure
  imports JsonText
begin

text \<open>
  \<open>pkg/taskfailure\<close>: the taxonomy of failure reasons, the classifier of error texts, the normalisation of
  the reasons older daemons report, and the predicates that tell an exhausted or unresumable session,
  with the retry schedule of \<open>service/task.go\<close> that is keyed by the reasons.  Regular expressions are
  written out: a status code between non-digits is \<open>http_code\<close>, a case-insensitive literal is
  searched in the folded text.
\<close>

section \<open>The taxonomy\<close>

datatype Reason =
    ReasonQueuedExpired | ReasonRuntimeOffline | ReasonRuntimeRecovery | ReasonTimeout
  | ReasonIterationLimit | ReasonAgentBlocked | ReasonAPIInvalidRequest | ReasonSkillBundleUnavailable
  | ReasonAgentProviderAuthOrAccess | ReasonAgentProviderQuotaLimit
  | ReasonAgentProviderCapacityOrRateLimit | ReasonAgentProviderServerError
  | ReasonAgentProviderNetwork | ReasonAgentProcessFailure | ReasonAgentEmptyOrUnparseableOutput
  | ReasonAgentTimeout | ReasonAgentContextOverflow | ReasonAgentMissingConfig
  | ReasonAgentModelNotFoundOrUnavailable | ReasonAgentRuntimeVersionUnsupported
  | ReasonAgentRuntimeMissingExecutable | ReasonAgentUnknown
  | OtherReason string

fun Reason_String :: "Reason \<Rightarrow> string" where
  "Reason_String ReasonQueuedExpired = ''queued_expired''"
| "Reason_String ReasonRuntimeOffline = ''runtime_offline''"
| "Reason_String ReasonRuntimeRecovery = ''runtime_recovery''"
| "Reason_String ReasonTimeout = ''timeout''"
| "Reason_String ReasonIterationLimit = ''iteration_limit''"
| "Reason_String ReasonAgentBlocked = ''agent_blocked''"
| "Reason_String ReasonAPIInvalidRequest = ''api_invalid_request''"
| "Reason_String ReasonSkillBundleUnavailable = ''skill_bundle_unavailable''"
| "Reason_String ReasonAgentProviderAuthOrAccess = ''agent_error.provider_auth_or_access''"
| "Reason_String ReasonAgentProviderQuotaLimit = ''agent_error.provider_quota_limit''"
| "Reason_String ReasonAgentProviderCapacityOrRateLimit = ''agent_error.provider_capacity_or_rate_limit''"
| "Reason_String ReasonAgentProviderServerError = ''agent_error.provider_server_error''"
| "Reason_String ReasonAgentProviderNetwork = ''agent_error.provider_network''"
| "Reason_String ReasonAgentProcessFailure = ''agent_error.process_failure''"
| "Reason_String ReasonAgentEmptyOrUnparseableOutput = ''agent_error.empty_or_unparseable_output''"
| "Reason_String ReasonAgentTimeout = ''agent_error.agent_timeout''"
| "Reason_String ReasonAgentContextOverflow = ''agent_error.context_overflow''"
| "Reason_String ReasonAgentMissingConfig = ''agent_error.missing_config''"
| "Reason_String ReasonAgentModelNotFoundOrUnavailable = ''agent_error.model_not_found_or_unavailable''"
| "Reason_String ReasonAgentRuntimeVersionUnsupported = ''agent_error.runtime_version_unsupported''"
| "Reason_String ReasonAgentRuntimeMissingExecutable = ''agent_error.runtime_missing_executable''"
| "Reason_String ReasonAgentUnknown = ''agent_error.unknown''"
| "Reason_String (OtherReason r) = r"

definition AllReasons :: "Reason list" where
  "AllReasons =
     [ReasonQueuedExpired, ReasonRuntimeOffline, ReasonRuntimeRecovery, ReasonTimeout,
      ReasonIterationLimit, ReasonAgentBlocked, ReasonAPIInvalidRequest, ReasonSkillBundleUnavailable,
      ReasonAgentProviderAuthOrAccess, ReasonAgentProviderQuotaLimit,
      ReasonAgentProviderCapacityOrRateLimit, ReasonAgentProviderServerError, ReasonAgentProviderNetwork,
      ReasonAgentProcessFailure, ReasonAgentEmptyOrUnparseableOutput, ReasonAgentTimeout,
      ReasonAgentContextOverflow, ReasonAgentMissingConfig, ReasonAgentModelNotFoundOrUnavailable,
      ReasonAgentRuntimeVersionUnsupported, ReasonAgentRuntimeMissingExecutable, ReasonAgentUnknown]"

text \<open>The conversion \<open>Reason(s)\<close> of a text.\<close>

definition reason_of :: "string \<Rightarrow> Reason" where
  "reason_of s = (case find (\<lambda>r. Reason_String r = s) AllReasons of Some r \<Rightarrow> r | None \<Rightarrow> OtherReason s)"

definition agentErrorPrefix :: string where
  "agentErrorPrefix = ''agent_error.''"

definition IsAgentError :: "Reason \<Rightarrow> bool" where
  "IsAgentError r \<longleftrightarrow> has_prefix agentErrorPrefix (Reason_String r)"

lemma Reason_String_of [simp]: "Reason_String (reason_of s) = s"
  by (auto simp: reason_of_def find_Some_iff split: option.splits)

section \<open>Searching a text\<close>

definition containsAny :: "string \<Rightarrow> string list \<Rightarrow> bool" where
  "containsAny s subs = list_ex (Contains s) subs"

text \<open>\<open>(^|[^0-9])code([^0-9]|$)\<close>: \<open>edge\<close> tells that no digit comes before.\<close>

fun http_code :: "(string \<Rightarrow> bool) \<Rightarrow> bool \<Rightarrow> string \<Rightarrow> bool" where
  "http_code code edge [] = False"
| "http_code code edge (c # s) =
     (edge \<and> code (take 3 (c # s)) \<and> (case drop 3 (c # s) of [] \<Rightarrow> True | d # _ \<Rightarrow> \<not> is_digit d) \<or>
      http_code code (\<not> is_digit c) s)"

definition providerHTTP5xxRe :: "string \<Rightarrow> bool" where
  "providerHTTP5xxRe =
     http_code (\<lambda>t. case t of [a, b, c] \<Rightarrow> a = CHR ''5'' \<and> is_digit b \<and> is_digit c | _ \<Rightarrow> False) True"

definition httpAuthCodeRe :: "string \<Rightarrow> bool" where
  "httpAuthCodeRe = http_code (\<lambda>t. t \<in> {''401'', ''403''}) True"

definition httpQuotaCodeRe :: "string \<Rightarrow> bool" where
  "httpQuotaCodeRe = http_code (\<lambda>t. t = ''402'') True"

definition httpCapacityCodeRe :: "string \<Rightarrow> bool" where
  "httpCapacityCodeRe = http_code (\<lambda>t. t \<in> {''429'', ''529''}) True"

text \<open>The folding of \<open>(?i)\<close>: besides the ASCII letters it joins U+212A with k and U+017F with s.\<close>

fun FoldCase :: "string \<Rightarrow> string" where
  "FoldCase [] = []"
| "FoldCase (a # b # c # s) =
     (if a = CHR 0xE2 \<and> b = CHR 0x84 \<and> c = CHR 0xAA then CHR ''k'' # FoldCase s
      else if a = CHR 0xC5 \<and> b = CHR 0xBF then CHR ''s'' # FoldCase (c # s)
      else lower_char a # FoldCase (b # c # s))"
| "FoldCase (a # b # []) =
     (if a = CHR 0xC5 \<and> b = CHR 0xBF then [CHR ''s''] else [lower_char a, lower_char b])"
| "FoldCase (a # []) = [lower_char a]"

fun some_suffix :: "(string \<Rightarrow> bool) \<Rightarrow> string \<Rightarrow> bool" where
  "some_suffix P [] = P []"
| "some_suffix P (c # s) = (P (c # s) \<or> some_suffix P s)"

section \<open>The classifier\<close>

definition TerminalReasonPromptTooLong :: string where
  "TerminalReasonPromptTooLong = ''prompt_too_long''"

definition contextWindowExceededWitnesses :: "string list" where
  "contextWindowExceededWitnesses =
     [''context window limit'', ''model_context_window_exceeded'', TerminalReasonPromptTooLong]"

definition providerUnconfiguredPhrase :: string where
  "providerUnconfiguredPhrase = ''no llm provider configured''"

definition opencodeStreamEndedPrefix :: string where
  "opencodeStreamEndedPrefix = ''opencode stream ended''"

definition hit_your_limit_curly :: string where
  "hit_your_limit_curly =
     [CHR ''y'', CHR ''o'', CHR ''u'', CHR 0xE2, CHR 0x80, CHR 0x99] @ ''ve hit your limit''"

definition Classify :: "string \<Rightarrow> Reason" where
  "Classify rawError =
     (let trimmed = TrimSpace rawError; lower = ToLower trimmed in
      if trimmed = [] then ReasonAgentUnknown
      else if containsAny lower [''context length'', ''context_length_exceeded'', ''maximum context'',
            ''prompt is too long'', ''context size has been exceeded''] \<or>
          containsAny lower contextWindowExceededWitnesses \<or>
          Contains lower ''token'' \<and> Contains lower ''limit''
        then ReasonAgentContextOverflow
      else if Contains lower ''missing environment variable'' \<or>
          Contains lower ''missing'' \<and> Contains lower ''api_key'' \<or>
          Contains lower ''api key'' \<and> Contains lower ''required'' \<or>
          Contains lower providerUnconfiguredPhrase \<or> Contains lower ''no provider configured''
        then ReasonAgentMissingConfig
      else if httpAuthCodeRe lower \<or>
          containsAny lower [''unauthorized'', ''login required'', ''not logged in'', ''please login again'',
            ''refresh token'', ''invalid api key'', ''access token'', ''subscription access'',
            ''does not have access'', ''you may not have access'']
        then ReasonAgentProviderAuthOrAccess
      else if httpQuotaCodeRe lower \<or>
          containsAny lower [''insufficient_balance'', ''balance is too low'', ''monthly usage limit'',
            ''usage limit'', ''you'' @ [CHR 39] @ ''ve hit your limit'', hit_your_limit_curly, ''credits'',
            ''quota'']
        then ReasonAgentProviderQuotaLimit
      else if httpCapacityCodeRe lower \<or> containsAny lower [''rate limit'', ''overloaded'', ''no capacity available'']
        then ReasonAgentProviderCapacityOrRateLimit
      else if containsAny lower [''server had an error'', ''provider returned error'', ''internal error'',
            ''service unavailable'', ''bad gateway''] \<or> providerHTTP5xxRe lower
        then ReasonAgentProviderServerError
      else if containsAny lower [''stream disconnected'', opencodeStreamEndedPrefix, ''connection closed'',
            ''mid-response'', ''error sending request'', ''unable to connect'', ''dial tcp'',
            ''connection refused'', ''connectionrefused'', ''dns'', ''i/o timeout'', ''deadline exceeded'',
            ''timeout exceeded while awaiting'']
        then ReasonAgentProviderNetwork
      else if Contains lower ''model'' \<and> Contains lower ''not found'' \<or>
          containsAny lower [''unknown model'', ''selected model'', ''http 404'', ''404 page not found'']
        then ReasonAgentModelNotFoundOrUnavailable
      else if containsAny lower [''returned empty output'', ''returned no parseable output'']
        then ReasonAgentEmptyOrUnparseableOutput
      else if Contains lower ''timed out after'' then ReasonAgentTimeout
      else if containsAny lower [''executable not found'', ''exec format error'']
        then ReasonAgentRuntimeMissingExecutable
      else if containsAny lower [''below the minimum supported version'', ''requires a newer version'']
        then ReasonAgentRuntimeVersionUnsupported
      else if containsAny lower [''exit status'', ''signal'', ''panic'', ''sigsegv'', ''process exited'',
            ''start codex:'', ''pipe has been ended'', ''file already closed'', ''initialize failed'']
        then ReasonAgentProcessFailure
      else ReasonAgentUnknown)"

definition ProviderUnconfigured :: "string \<Rightarrow> bool" where
  "ProviderUnconfigured errText \<longleftrightarrow> errText \<noteq> [] \<and> Contains (ToLower errText) providerUnconfiguredPhrase"

section \<open>The reasons of older daemons\<close>

definition legacySkillBundlePrefix :: string where
  "legacySkillBundlePrefix = ''resolve skill bundles:''"

definition legacySkillBundleReasons :: "string list" where
  "legacySkillBundleReasons =
     [Reason_String ReasonAgentUnknown, Reason_String ReasonAgentProviderNetwork, ''agent_error'']"

definition legacyContextOverflowReasons :: "string list" where
  "legacyContextOverflowReasons = [Reason_String ReasonAgentUnknown, ''agent_error'']"

definition legacyOpencodeStreamEndedReasons :: "string list" where
  "legacyOpencodeStreamEndedReasons =
     [Reason_String ReasonAgentProcessFailure, Reason_String ReasonAgentUnknown, ''agent_error'']"

definition NormalizeDaemonReason :: "string \<Rightarrow> string \<Rightarrow> Reason" where
  "NormalizeDaemonReason reason rawError =
     (if reason \<in> set legacySkillBundleReasons \<and> has_prefix legacySkillBundlePrefix (TrimSpace rawError)
      then ReasonSkillBundleUnavailable
      else if reason \<in> set legacyContextOverflowReasons \<and>
        containsAny (ToLower rawError) contextWindowExceededWitnesses
      then ReasonAgentContextOverflow
      else if reason \<in> set legacyOpencodeStreamEndedReasons \<and>
        has_prefix opencodeStreamEndedPrefix (ToLower (TrimSpace rawError))
      then ReasonAgentProviderNetwork
      else reason_of reason)"

section \<open>Sessions that cannot go on\<close>

definition contextExhaustedOutputMaxLen :: nat where
  "contextExhaustedOutputMaxLen = 320"

definition ContextExhaustedCompletion :: "string \<Rightarrow> bool" where
  "ContextExhaustedCompletion output \<longleftrightarrow>
     (let trimmed = TrimSpace output; lowered = ToLower trimmed in
      trimmed \<noteq> [] \<and> length trimmed \<le> contextExhaustedOutputMaxLen \<and>
      (Contains lowered ''prompt is too long'' \<and> Contains lowered ''cannot be compacted'' \<or>
       Contains lowered ''conversation too long'' \<and> Contains lowered ''press esc twice'' \<or>
       Contains lowered ''compaction failed'' \<and> Contains lowered ''reduced below the context limit''))"

definition emptyContentRe :: "string \<Rightarrow> bool" where
  "emptyContentRe s = containsAny (FoldCase s)
     [''must not be empty'', ''must be nonempty'', ''must be non-empty'', ''must have nonempty'',
      ''must have non-empty'', ''nonempty content'', ''non-empty content'', ''cannot be empty'',
      ''should not be empty'']"

text \<open>\<open>[^a-z0-9]{0,n}assistant\<close> at the start of a folded text.\<close>

definition lower_alnum :: "char \<Rightarrow> bool" where
  "lower_alnum c \<longleftrightarrow> is_digit c \<or> between 97 122 (byte c)"

fun assistant_within :: "nat \<Rightarrow> string \<Rightarrow> bool" where
  "assistant_within 0 s = has_prefix ''assistant'' s"
| "assistant_within (Suc n) s =
     (has_prefix ''assistant'' s \<or>
      s \<noteq> [] \<and> \<not> lower_alnum (hd s) \<and> assistant_within n (drop (rune_step s) s))"

definition historyMessageLocatorRe :: "string \<Rightarrow> bool" where
  "historyMessageLocatorRe s \<longleftrightarrow>
     some_suffix (\<lambda>t.
       has_prefix ''role'' t \<and> assistant_within 2 (drop 4 t) \<or>
       has_prefix ''assistant message'' t \<or> has_prefix ''message at position'' t \<or>
       (has_prefix ''messages.'' t \<or> has_prefix ''messages['' t) \<and>
         (case drop 9 t of d # _ \<Rightarrow> is_digit d | [] \<Rightarrow> False)) (FoldCase s)"

definition UnresumableHistory :: "string \<Rightarrow> bool" where
  "UnresumableHistory errText \<longleftrightarrow> errText \<noteq> [] \<and> emptyContentRe errText \<and> historyMessageLocatorRe errText"

definition authMethodUnresolvedPhrase :: string where
  "authMethodUnresolvedPhrase = ''could not resolve authentication method''"

definition AuthMethodUnresolved :: "string \<Rightarrow> bool" where
  "AuthMethodUnresolved errText \<longleftrightarrow> errText \<noteq> [] \<and> Contains (ToLower errText) authMethodUnresolvedPhrase"

definition resumeUnsafeFailureReason :: "string \<Rightarrow> bool" where
  "resumeUnsafeFailureReason reason \<longleftrightarrow>
     reason \<in> {''iteration_limit'', ''agent_fallback_message'', ''api_invalid_request'',
       ''codex_semantic_inactivity'', ''agent_error.context_overflow'', ''codex_resume_oversized''}"

definition ResumeUnsafeFailure :: "string \<Rightarrow> string \<Rightarrow> bool" where
  "ResumeUnsafeFailure failureReason errorText \<longleftrightarrow>
     resumeUnsafeFailureReason failureReason \<or>
     Contains (ToLower errorText) ''400'' \<and> Contains (ToLower errorText) ''invalid_request_error'' \<or>
     AuthMethodUnresolved errorText \<or> UnresumableHistory errorText"

section \<open>The retry schedule\<close>

definition retryableReasons :: "string list" where
  "retryableReasons =
     [''runtime_offline'', ''runtime_recovery'', ''timeout'', ''codex_semantic_inactivity'',
      Reason_String ReasonAgentProviderNetwork, Reason_String ReasonSkillBundleUnavailable]"

definition providerNetworkMaxAttempts :: int where
  "providerNetworkMaxAttempts = 3"

definition providerNetworkFinalRetryWait :: time where
  "providerNetworkFinalRetryWait = 5 * second"

definition retryAttemptCeiling :: "string \<Rightarrow> int \<Rightarrow> int" where
  "retryAttemptCeiling reason taskMaxAttempts =
     (if taskMaxAttempts \<le> 1 then taskMaxAttempts
      else if reason = Reason_String ReasonAgentProviderNetwork \<and> taskMaxAttempts < providerNetworkMaxAttempts
      then providerNetworkMaxAttempts else taskMaxAttempts)"

definition retryDelayForAttempt :: "string \<Rightarrow> int \<Rightarrow> time" where
  "retryDelayForAttempt reason failedAttempt =
     (if reason = Reason_String ReasonAgentProviderNetwork \<and> failedAttempt \<ge> providerNetworkMaxAttempts - 1
      then providerNetworkFinalRetryWait else 0)"

section \<open>Lemmas\<close>

text \<open>The classifier stays within the agent side of the taxonomy.\<close>

definition agent_reasons :: "Reason list" where
  "agent_reasons = filter IsAgentError AllReasons"

lemma AllReasons_distinct: "distinct (map Reason_String AllReasons)" "length AllReasons = 22"
  "length agent_reasons = 14"
  by code_simp+

lemma agent_reasons_eq:
  "agent_reasons =
     [ReasonAgentProviderAuthOrAccess, ReasonAgentProviderQuotaLimit,
      ReasonAgentProviderCapacityOrRateLimit, ReasonAgentProviderServerError, ReasonAgentProviderNetwork,
      ReasonAgentProcessFailure, ReasonAgentEmptyOrUnparseableOutput, ReasonAgentTimeout,
      ReasonAgentContextOverflow, ReasonAgentMissingConfig, ReasonAgentModelNotFoundOrUnavailable,
      ReasonAgentRuntimeVersionUnsupported, ReasonAgentRuntimeMissingExecutable, ReasonAgentUnknown]"
  by code_simp

lemma Classify_agent: "Classify e \<in> set agent_reasons"
  unfolding Classify_def Let_def agent_reasons_eq by simp

lemma agent_reason_retryable:
  "r \<in> set agent_reasons \<Longrightarrow> Reason_String r \<in> set retryableReasons \<longleftrightarrow> r = ReasonAgentProviderNetwork"
  unfolding agent_reasons_eq retryableReasons_def by auto

lemma agent_reason_unsafe:
  "r \<in> set agent_reasons \<Longrightarrow> resumeUnsafeFailureReason (Reason_String r) \<longleftrightarrow> r = ReasonAgentContextOverflow"
  unfolding agent_reasons_eq resumeUnsafeFailureReason_def by auto

text \<open>Of the reasons that are retried automatically only one poisons the session, the one the
  clone of \<open>CreateRetryTask\<close> starts afresh for.\<close>

lemma retryable_unsafe_iff:
  "reason \<in> set retryableReasons \<and> resumeUnsafeFailureReason reason \<longleftrightarrow> reason = ''codex_semantic_inactivity''"
  unfolding retryableReasons_def resumeUnsafeFailureReason_def by auto

lemma ceiling_widens: "taskMaxAttempts \<le> retryAttemptCeiling reason taskMaxAttempts"
  "taskMaxAttempts \<le> 1 \<Longrightarrow> retryAttemptCeiling reason taskMaxAttempts = taskMaxAttempts"
  "retryAttemptCeiling reason taskMaxAttempts \<le> max 3 taskMaxAttempts"
  by (auto simp: retryAttemptCeiling_def providerNetworkMaxAttempts_def)

lemma ToLower_hd_r: "ToLower (CHR ''r'' # s) = CHR ''r'' # ToLower s"
  by (cases s rule: ToLower.cases) (simp_all add: lower_char_def)

lemma reason_of_fixed:
  "reason_of ''skill_bundle_unavailable'' = ReasonSkillBundleUnavailable"
  "reason_of ''agent_error.context_overflow'' = ReasonAgentContextOverflow"
  "reason_of ''agent_error.provider_network'' = ReasonAgentProviderNetwork"
  by code_simp+

lemma prefixes_apart:
  "has_prefix opencodeStreamEndedPrefix (ToLower t) \<Longrightarrow> \<not> has_prefix legacySkillBundlePrefix t"
  by (cases t) (auto simp: legacySkillBundlePrefix_def opencodeStreamEndedPrefix_def ToLower_hd_r)

lemmas legacy_reasons =
  legacySkillBundleReasons_def legacyContextOverflowReasons_def legacyOpencodeStreamEndedReasons_def

lemma NormalizeDaemonReason_fixed:
  "NormalizeDaemonReason ''skill_bundle_unavailable'' raw = ReasonSkillBundleUnavailable"
  "NormalizeDaemonReason ''agent_error.context_overflow'' raw = ReasonAgentContextOverflow"
  "has_prefix opencodeStreamEndedPrefix (ToLower (TrimSpace raw)) \<Longrightarrow>
     NormalizeDaemonReason ''agent_error.provider_network'' raw = ReasonAgentProviderNetwork"
  by (simp_all add: NormalizeDaemonReason_def legacy_reasons reason_of_fixed prefixes_apart)

lemma NormalizeDaemonReason_idem:
  "NormalizeDaemonReason (Reason_String (NormalizeDaemonReason reason raw)) raw = NormalizeDaemonReason reason raw"
proof -
  consider "NormalizeDaemonReason reason raw = ReasonSkillBundleUnavailable"
    | "NormalizeDaemonReason reason raw = ReasonAgentContextOverflow"
    | "NormalizeDaemonReason reason raw = ReasonAgentProviderNetwork"
      "has_prefix opencodeStreamEndedPrefix (ToLower (TrimSpace raw))"
    | "NormalizeDaemonReason reason raw = reason_of reason"
    unfolding NormalizeDaemonReason_def by presburger
  then show ?thesis
  proof cases
    case 4
    then show ?thesis by (metis Reason_String_of)
  qed (simp_all add: NormalizeDaemonReason_fixed)
qed

end
