(* ===== verification/TaskQueue.thy ===== *)
theory TaskQueue
  imports Execution TaskFailure
begin

text \<open>
  The queries of the task queue (\<open>pkg/db/generated/agent.sql.go\<close>, \<open>runtime.sql.go\<close>): enqueue, claim, start,
  the reports of the daemon, cancellation, retry, and the sweeps over lost tasks.  \<open>FOR UPDATE SKIP LOCKED\<close>
  has no effect in the atomic steps of the model.  An interval is a number of seconds.
\<close>

section \<open>Updating tasks\<close>

definition put_tasks :: "AgentTaskRow list \<Rightarrow> db \<Rightarrow> db" where
  "put_tasks rows s = s\<lparr>db_tasks := rows\<rparr>"

definition update_task :: "(AgentTaskRow \<Rightarrow> bool) \<Rightarrow> (AgentTaskRow \<Rightarrow> AgentTaskRow) \<Rightarrow> AgentTaskRow tx" where
  "update_task P f = tx_update db_tasks put_tasks P f"

text \<open>\<open>UPDATE ... RETURNING *\<close> of any number of rows.\<close>

definition update_tasks ::
    "(AgentTaskRow \<Rightarrow> bool) \<Rightarrow> (AgentTaskRow \<Rightarrow> AgentTaskRow) \<Rightarrow> AgentTaskRow list tx" where
  "update_tasks P f =
     (\<lambda>s. Inr (map f (filter P (db_tasks s)), put_tasks (update_rows P f (db_tasks s)) s))"

text \<open>The same where rows may enter \<open>idx_one_pending_task_per_issue_agent_v2\<close>, which is checked.\<close>

definition pending_unique :: "AgentTaskRow list \<Rightarrow> bool" where
  "pending_unique rows \<longleftrightarrow> sorted_wrt (\<lambda>q r. \<not> same_pending q r) rows"

definition update_tasks_indexed ::
    "(AgentTaskRow \<Rightarrow> bool) \<Rightarrow> (AgentTaskRow \<Rightarrow> AgentTaskRow) \<Rightarrow> AgentTaskRow list tx" where
  "update_tasks_indexed P f =
     (\<lambda>s. if pending_unique (update_rows P f (db_tasks s)) then update_tasks P f s
          else Inl (UniqueViolation ''idx_one_pending_task_per_issue_agent_v2''))"

definition in_flight :: "AgentTaskRow \<Rightarrow> bool" where
  "in_flight q \<longleftrightarrow> q_Status q \<in> {''dispatched'', ''running'', ''waiting_local_directory''}"

definition after_seconds :: "time \<Rightarrow> int \<Rightarrow> time" where
  "after_seconds t secs = t + secs * second"

text \<open>\<open>column < now() - make_interval(secs => d)\<close>, which is not true of a null.\<close>

definition older_than :: "time \<Rightarrow> int \<Rightarrow> timestamptz \<Rightarrow> bool" where
  "older_than now secs t = (case t of None \<Rightarrow> False | Some x \<Rightarrow> x < now - secs * second)"

definition lease_over :: "time \<Rightarrow> AgentTaskRow \<Rightarrow> bool" where
  "lease_over now q = (case q_PrepareLeaseExpiresAt q of None \<Rightarrow> True | Some x \<Rightarrow> x < now)"

definition coalesce :: "'a option \<Rightarrow> 'a option \<Rightarrow> 'a option" where
  "coalesce a b = (if a = None then b else a)"

section \<open>Claims\<close>

definition GetAgentForClaimUpdate :: "uuid \<Rightarrow> AgentRow tx" where
  "GetAgentForClaimUpdate aid = tx_one (\<lambda>s. find (\<lambda>a. sql_eq (ag_ID a) aid) (db_agents s))"

definition running_tasks :: "uuid \<Rightarrow> db \<Rightarrow> AgentTaskRow list" where
  "running_tasks aid s = filter (\<lambda>q. sql_eq (q_AgentID q) aid \<and> in_flight q) (db_tasks s)"

definition CountRunningTasks :: "uuid \<Rightarrow> int tx" where
  "CountRunningTasks aid = tx_query (\<lambda>s. int (length (running_tasks aid s)))"

text \<open>A queued task of the agent is claimable unless the agent has a task in flight for the same issue; the
  tasks without an issue count as one issue.\<close>

definition claimable :: "uuid \<Rightarrow> db \<Rightarrow> AgentTaskRow \<Rightarrow> bool" where
  "claimable aid s q \<longleftrightarrow>
     sql_eq (q_AgentID q) aid \<and> q_Status q = ''queued'' \<and>
     \<not> list_ex (\<lambda>r. sql_eq (q_AgentID r) (q_AgentID q) \<and> in_flight r \<and>
         (q_IssueID q \<noteq> None \<and> sql_eq (q_IssueID r) (q_IssueID q) \<or>
          q_IssueID q = None \<and> q_IssueID r = None)) (db_tasks s)"

definition claim_rank :: "AgentTaskRow \<Rightarrow> int \<times> time \<times> string" where
  "claim_rank q = (- q_Priority q, q_CreatedAt q, uuidText (q_ID q))"

definition next_claim :: "uuid \<Rightarrow> db \<Rightarrow> AgentTaskRow option" where
  "next_claim aid s =
     (case sort_key claim_rank (filter (claimable aid s) (db_tasks s)) of [] \<Rightarrow> None | q # _ \<Rightarrow> Some q)"

definition ClaimAgentTask :: "env \<Rightarrow> uuid \<Rightarrow> int \<Rightarrow> AgentTaskRow tx" where
  "ClaimAgentTask \<epsilon> aid leaseSecs =
     tx_bind (tx_one (next_claim aid)) (\<lambda>choice.
     update_task (\<lambda>q. sql_eq (q_ID q) (q_ID choice))
       (\<lambda>q. q\<lparr>q_Status := ''dispatched'', q_DispatchedAt := Some (env_now \<epsilon>),
              q_PrepareLeaseExpiresAt := Some (after_seconds (env_now \<epsilon>) leaseSecs)\<rparr>))"

text \<open>\<open>NOT (id = ANY(ids))\<close> is not true when \<open>ids\<close> has a null.\<close>

definition SetTaskDeliveredCommentIDs ::
    "uuid \<Rightarrow> uuid \<Rightarrow> timestamptz \<Rightarrow> uuid \<Rightarrow> uuid list \<Rightarrow> AgentTaskRow tx" where
  "SetTaskDeliveredCommentIDs tid rid dispatchedAt expectedTrigger delivered =
     update_task (\<lambda>q. sql_eq (q_ID q) tid \<and> sql_eq (q_RuntimeID q) rid \<and> q_Status q = ''dispatched'' \<and>
         q_StartedAt q = None \<and> dispatchedAt \<noteq> None \<and> q_DispatchedAt q = dispatchedAt \<and>
         q_TriggerCommentID q = expectedTrigger \<and>
         list_all (\<lambda>c. c \<noteq> None \<and> (c = q_TriggerCommentID q \<or> c \<in> set (q_CoalescedCommentIds q) \<or>
           None \<in> set (q_CoalescedCommentIds q))) delivered)
       (\<lambda>q. q\<lparr>q_DeliveredCommentIds := delivered\<rparr>)"

definition RequeueAgentTaskAfterClaimFailure :: "uuid \<Rightarrow> uuid \<Rightarrow> timestamptz \<Rightarrow> AgentTaskRow tx" where
  "RequeueAgentTaskAfterClaimFailure tid rid dispatchedAt =
     update_task (\<lambda>q. sql_eq (q_ID q) tid \<and> sql_eq (q_RuntimeID q) rid \<and> q_Status q = ''dispatched'' \<and>
         q_StartedAt q = None \<and> dispatchedAt \<noteq> None \<and> q_DispatchedAt q = dispatchedAt)
       (\<lambda>q. q\<lparr>q_Status := ''queued'', q_DispatchedAt := None, q_PrepareLeaseExpiresAt := None,
              q_DeliveredCommentIds := []\<rparr>)"

text \<open>A dispatched task that was not started is delivered again when its lease and the recovery window are over.\<close>

definition reclaimable :: "time \<Rightarrow> int \<Rightarrow> uuid list \<Rightarrow> AgentTaskRow \<Rightarrow> bool" where
  "reclaimable now recoverySecs rids q \<longleftrightarrow>
     q_RuntimeID q \<noteq> None \<and> q_RuntimeID q \<in> set rids \<and> q_Status q = ''dispatched'' \<and> q_StartedAt q = None \<and>
     older_than now recoverySecs (q_DispatchedAt q) \<and> lease_over now q"

definition reclaim_rank :: "AgentTaskRow \<Rightarrow> int \<times> time" where
  "reclaim_rank q = (- q_Priority q, the (q_DispatchedAt q))"

definition redeliver :: "env \<Rightarrow> int \<Rightarrow> AgentTaskRow \<Rightarrow> AgentTaskRow" where
  "redeliver \<epsilon> leaseSecs q =
     q\<lparr>q_DispatchedAt := Some (env_now \<epsilon>),
       q_PrepareLeaseExpiresAt := Some (after_seconds (env_now \<epsilon>) leaseSecs)\<rparr>"

definition ReclaimStaleDispatchedTaskForRuntime :: "env \<Rightarrow> uuid \<Rightarrow> int \<Rightarrow> int \<Rightarrow> AgentTaskRow tx" where
  "ReclaimStaleDispatchedTaskForRuntime \<epsilon> rid recoverySecs leaseSecs =
     tx_bind (tx_one (\<lambda>s. case sort_key reclaim_rank
         (filter (reclaimable (env_now \<epsilon>) recoverySecs [rid]) (db_tasks s)) of [] \<Rightarrow> None | q # _ \<Rightarrow> Some q)) (\<lambda>choice.
     update_task (\<lambda>q. sql_eq (q_ID q) (q_ID choice)) (redeliver \<epsilon> leaseSecs))"

definition ReclaimStaleDispatchedTasksForRuntimes ::
    "env \<Rightarrow> uuid list \<Rightarrow> int \<Rightarrow> int \<Rightarrow> int \<Rightarrow> AgentTaskRow list tx" where
  "ReclaimStaleDispatchedTasksForRuntimes \<epsilon> rids recoverySecs leaseSecs maxTasks =
     tx_bind (tx_query (\<lambda>s. map q_ID (take (nat maxTasks) (sort_key reclaim_rank
         (filter (reclaimable (env_now \<epsilon>) recoverySecs rids) (db_tasks s)))))) (\<lambda>ids.
     update_tasks (\<lambda>q. q_ID q \<noteq> None \<and> q_ID q \<in> set ids) (redeliver \<epsilon> leaseSecs))"

definition ListQueuedClaimCandidatesByRuntimes :: "uuid list \<Rightarrow> AgentTaskRow list tx" where
  "ListQueuedClaimCandidatesByRuntimes rids =
     tx_query (\<lambda>s. sort_key (\<lambda>q. (- q_Priority q, q_CreatedAt q))
       (filter (\<lambda>q. q_RuntimeID q \<noteq> None \<and> q_RuntimeID q \<in> set rids \<and> q_Status q = ''queued'') (db_tasks s)))"

definition ListQueuedClaimCandidatesByRuntime :: "uuid \<Rightarrow> AgentTaskRow list tx" where
  "ListQueuedClaimCandidatesByRuntime rid =
     tx_query (\<lambda>s. sort_key (\<lambda>q. (- q_Priority q, q_CreatedAt q))
       (filter (\<lambda>q. sql_eq (q_RuntimeID q) rid \<and> q_Status q = ''queued'') (db_tasks s)))"

definition fire_due :: "time \<Rightarrow> AgentTaskRow \<Rightarrow> bool" where
  "fire_due now q \<longleftrightarrow>
     q_Status q = ''deferred'' \<and> (case q_FireAt q of None \<Rightarrow> False | Some t \<Rightarrow> t \<le> now)"

definition PromoteDueDeferredTasksForRuntimes_query :: "env \<Rightarrow> uuid list \<Rightarrow> AgentTaskRow list tx" where
  "PromoteDueDeferredTasksForRuntimes_query \<epsilon> rids =
     update_tasks_indexed (\<lambda>q. q_RuntimeID q \<noteq> None \<and> q_RuntimeID q \<in> set rids \<and> fire_due (env_now \<epsilon>) q)
       (\<lambda>q. q\<lparr>q_Status := ''queued''\<rparr>)"

definition PromoteDueDeferredTasksForRuntime_query :: "env \<Rightarrow> uuid \<Rightarrow> AgentTaskRow list tx" where
  "PromoteDueDeferredTasksForRuntime_query \<epsilon> rid =
     update_tasks_indexed (\<lambda>q. sql_eq (q_RuntimeID q) rid \<and> fire_due (env_now \<epsilon>) q)
       (\<lambda>q. q\<lparr>q_Status := ''queued''\<rparr>)"

section \<open>Preparation and start\<close>

definition ExtendAgentTaskPrepareLease :: "env \<Rightarrow> uuid \<Rightarrow> uuid \<Rightarrow> int \<Rightarrow> AgentTaskRow tx" where
  "ExtendAgentTaskPrepareLease \<epsilon> tid rid leaseSecs =
     update_task (\<lambda>q. sql_eq (q_ID q) tid \<and> sql_eq (q_RuntimeID q) rid \<and>
         q_Status q \<in> {''dispatched'', ''waiting_local_directory''} \<and> q_StartedAt q = None)
       (\<lambda>q. q\<lparr>q_PrepareLeaseExpiresAt := Some (after_seconds (env_now \<epsilon>) leaseSecs)\<rparr>)"

definition StartAgentTask :: "env \<Rightarrow> uuid \<Rightarrow> AgentTaskRow tx" where
  "StartAgentTask \<epsilon> tid =
     update_task (\<lambda>q. sql_eq (q_ID q) tid \<and> q_Status q \<in> {''dispatched'', ''waiting_local_directory''})
       (\<lambda>q. q\<lparr>q_Status := ''running'', q_StartedAt := Some (env_now \<epsilon>), q_WaitReason := None,
              q_PrepareLeaseExpiresAt := None\<rparr>)"

definition MarkAgentTaskWaitingLocalDirectory :: "env \<Rightarrow> uuid \<Rightarrow> pgtext \<Rightarrow> int \<Rightarrow> AgentTaskRow tx" where
  "MarkAgentTaskWaitingLocalDirectory \<epsilon> tid reason leaseSecs =
     update_task (\<lambda>q. sql_eq (q_ID q) tid \<and> q_Status q = ''dispatched'')
       (\<lambda>q. q\<lparr>q_Status := ''waiting_local_directory'', q_WaitReason := reason,
              q_PrepareLeaseExpiresAt := Some (after_seconds (env_now \<epsilon>) leaseSecs)\<rparr>)"

definition UpdateAgentTaskSession :: "uuid \<Rightarrow> pgtext \<Rightarrow> pgtext \<Rightarrow> AgentTaskRow list tx" where
  "UpdateAgentTaskSession tid session workDir =
     update_tasks (\<lambda>q. sql_eq (q_ID q) tid \<and>
         (q_Status q \<in> {''dispatched'', ''running''} \<or> q_Status q = ''cancelled'' \<and> q_SessionID q = None))
       (\<lambda>q. q\<lparr>q_SessionID := coalesce session (q_SessionID q), q_WorkDir := coalesce workDir (q_WorkDir q)\<rparr>)"

section \<open>The reports of the daemon\<close>

text \<open>What the daemon sends along with a terminal report.\<close>

record session_report =
  sr_SessionID :: string
  sr_WorkDir :: string
  sr_BranchName :: string
  sr_SessionRolloutMissing :: bool
  sr_RetiredSessionID :: string

definition CompleteAgentTask :: "env \<Rightarrow> uuid \<Rightarrow> json \<Rightarrow> session_report \<Rightarrow> AgentTaskRow tx" where
  "CompleteAgentTask \<epsilon> tid result p =
     update_task (\<lambda>q. sql_eq (q_ID q) tid \<and> q_Status q = ''running'')
       (\<lambda>q. q\<lparr>q_Status := ''completed'', q_CompletedAt := Some (env_now \<epsilon>), q_Result := Some result,
              q_SessionID := (if sr_SessionRolloutMissing p then None else textValue (sr_SessionID p)),
              q_WorkDir := textValue (sr_WorkDir p),
              q_BranchName := coalesce (textValue (sr_BranchName p)) (q_BranchName q),
              q_SessionRolloutMissing := sr_SessionRolloutMissing p,
              q_RetiredSessionID := coalesce (textValue (sr_RetiredSessionID p)) (q_RetiredSessionID q),
              q_PrepareLeaseExpiresAt := None\<rparr>)"

definition FailAgentTask :: "env \<Rightarrow> uuid \<Rightarrow> string \<Rightarrow> string \<Rightarrow> session_report \<Rightarrow> AgentTaskRow tx" where
  "FailAgentTask \<epsilon> tid errMsg failureReason p =
     update_task (\<lambda>q. sql_eq (q_ID q) tid \<and> in_flight q)
       (\<lambda>q. q\<lparr>q_Status := ''failed'', q_CompletedAt := Some (env_now \<epsilon>), q_Error := Some errMsg,
              q_FailureReason := coalesce (textValue failureReason) (Some ''agent_error''),
              q_SessionID := (if sr_SessionRolloutMissing p then None
                else coalesce (textValue (sr_SessionID p)) (q_SessionID q)),
              q_WorkDir := coalesce (textValue (sr_WorkDir p)) (q_WorkDir q),
              q_BranchName := coalesce (textValue (sr_BranchName p)) (q_BranchName q),
              q_SessionRolloutMissing := sr_SessionRolloutMissing p,
              q_RetiredSessionID := coalesce (textValue (sr_RetiredSessionID p)) (q_RetiredSessionID q),
              q_PrepareLeaseExpiresAt := None\<rparr>)"

text \<open>The clone of a failed task: a fresh attempt of the same work, without its run, which resumes the session
  unless the failure poisoned it.\<close>

definition retry_task :: "uuid \<Rightarrow> time \<Rightarrow> timestamptz \<Rightarrow> int option \<Rightarrow> AgentTaskRow \<Rightarrow> AgentTaskRow" where
  "retry_task tid now fireAt maxAttempts p =
     (let poisoned = (q_FailureReason p = Some ''codex_semantic_inactivity'') in
      \<lparr>q_ID = tid, q_AgentID = q_AgentID p, q_RuntimeID = q_RuntimeID p, q_IssueID = q_IssueID p,
       q_Status = (if fireAt \<noteq> None then ''deferred'' else ''queued''), q_Priority = q_Priority p,
       q_Context = q_Context p, q_CreatedAt = now, q_OrchestrationRunID = None, q_DispatchedAt = None,
       q_StartedAt = None, q_CompletedAt = None, q_FailureReason = None, q_Error = None, q_Result = None,
       q_Attempt = q_Attempt p + 1,
       q_MaxAttempts = (case maxAttempts of None \<Rightarrow> q_MaxAttempts p | Some m \<Rightarrow> m),
       q_ParentTaskID = q_ID p, q_RetryOfTaskID = q_ID p, q_RerunOfTaskID = None, q_EscalationForTaskID = None,
       q_FireAt = fireAt, q_PrepareLeaseExpiresAt = None, q_ForceFreshSession = poisoned,
       q_SessionID = (if poisoned then None else q_SessionID p),
       q_WorkDir = (if poisoned then None else q_WorkDir p), q_BranchName = None,
       q_SessionRolloutMissing = False, q_RetiredSessionID = None, q_WaitReason = None,
       q_TriggerCommentID = q_TriggerCommentID p, q_CoalescedCommentIds = q_CoalescedCommentIds p,
       q_DeliveredCommentIds = []\<rparr>)"

definition CreateRetryTask :: "env \<Rightarrow> uuid \<Rightarrow> timestamptz \<Rightarrow> int option \<Rightarrow> AgentTaskRow tx" where
  "CreateRetryTask \<epsilon> pid fireAt maxAttempts =
     tx_bind (tx_one (\<lambda>s. find (\<lambda>q. sql_eq (q_ID q) pid \<and>
         owners_exist s (q_AgentID q) (q_IssueID q) (q_RuntimeID q)) (db_tasks s))) (\<lambda>parent.
     tx_bind (draw_uuid \<epsilon>) (\<lambda>tid. insert_task (retry_task tid (env_now \<epsilon>) fireAt maxAttempts parent)))"

section \<open>Cancellation\<close>

definition cancelled_now :: "env \<Rightarrow> AgentTaskRow \<Rightarrow> AgentTaskRow" where
  "cancelled_now \<epsilon> q =
     q\<lparr>q_Status := ''cancelled'', q_CompletedAt := Some (env_now \<epsilon>), q_PrepareLeaseExpiresAt := None\<rparr>"

definition CancelAgentTask :: "env \<Rightarrow> uuid \<Rightarrow> AgentTaskRow tx" where
  "CancelAgentTask \<epsilon> tid =
     update_task (\<lambda>q. sql_eq (q_ID q) tid \<and> isActiveAgentTaskStatus (q_Status q)) (cancelled_now \<epsilon>)"

definition CancelAgentTasksByIssue :: "env \<Rightarrow> uuid \<Rightarrow> AgentTaskRow list tx" where
  "CancelAgentTasksByIssue \<epsilon> iid =
     update_tasks (\<lambda>q. sql_eq (q_IssueID q) iid \<and> isActiveAgentTaskStatus (q_Status q)) (cancelled_now \<epsilon>)"

definition CancelAgentTasksByIssueAndAgent :: "env \<Rightarrow> uuid \<Rightarrow> uuid \<Rightarrow> AgentTaskRow list tx" where
  "CancelAgentTasksByIssueAndAgent \<epsilon> iid aid =
     update_tasks (\<lambda>q. sql_eq (q_IssueID q) iid \<and> sql_eq (q_AgentID q) aid \<and>
       isActiveAgentTaskStatus (q_Status q)) (cancelled_now \<epsilon>)"

definition CancelAgentTasksByAgent :: "env \<Rightarrow> uuid \<Rightarrow> AgentTaskRow list tx" where
  "CancelAgentTasksByAgent \<epsilon> aid =
     update_tasks (\<lambda>q. sql_eq (q_AgentID q) aid \<and> isActiveAgentTaskStatus (q_Status q)) (cancelled_now \<epsilon>)"

definition CancelAgentTasksByTriggerComment :: "env \<Rightarrow> uuid \<Rightarrow> AgentTaskRow list tx" where
  "CancelAgentTasksByTriggerComment \<epsilon> cid =
     update_tasks (\<lambda>q. (sql_eq (q_TriggerCommentID q) cid \<or> cid \<noteq> None \<and> cid \<in> set (q_CoalescedCommentIds q)) \<and>
       isActiveAgentTaskStatus (q_Status q)) (cancelled_now \<epsilon>)"

definition CancelAgentTasksByRuntimeOrAgent :: "env \<Rightarrow> uuid list \<Rightarrow> uuid list \<Rightarrow> AgentTaskRow list tx" where
  "CancelAgentTasksByRuntimeOrAgent \<epsilon> rids aids =
     update_tasks (\<lambda>q. (q_RuntimeID q \<noteq> None \<and> q_RuntimeID q \<in> set rids \<or> q_AgentID q \<noteq> None \<and> q_AgentID q \<in> set aids) \<and>
       isActiveAgentTaskStatus (q_Status q))
       (\<lambda>q. q\<lparr>q_Status := ''cancelled'', q_CompletedAt := Some (env_now \<epsilon>)\<rparr>)"

definition escalation_open :: "AgentTaskRow \<Rightarrow> bool" where
  "escalation_open q \<longleftrightarrow>
     q_Status q \<in> {''deferred'', ''queued'', ''dispatched'', ''waiting_local_directory''}"

definition CancelDeferredEscalationsForTask :: "env \<Rightarrow> uuid \<Rightarrow> AgentTaskRow list tx" where
  "CancelDeferredEscalationsForTask \<epsilon> tid =
     update_tasks (\<lambda>q. sql_eq (q_EscalationForTaskID q) tid \<and> escalation_open q) (cancelled_now \<epsilon>)"

definition CancelDeferredEscalationsForIssueAgent_query :: "env \<Rightarrow> uuid \<Rightarrow> uuid \<Rightarrow> AgentTaskRow list tx" where
  "CancelDeferredEscalationsForIssueAgent_query \<epsilon> iid aid =
     tx_bind (tx_query (\<lambda>s. map q_ID (filter (\<lambda>q. sql_eq (q_IssueID q) iid \<and> sql_eq (q_AgentID q) aid) (db_tasks s)))) (\<lambda>primaries.
     update_tasks (\<lambda>q. list_ex (sql_eq (q_EscalationForTaskID q)) primaries \<and> escalation_open q) (cancelled_now \<epsilon>))"

definition SetAgentTaskBranchName :: "uuid \<Rightarrow> pgtext \<Rightarrow> AgentTaskRow list tx" where
  "SetAgentTaskBranchName tid branch =
     update_tasks (\<lambda>q. sql_eq (q_ID q) tid \<and> q_Status q = ''cancelled'')
       (\<lambda>q. q\<lparr>q_BranchName := coalesce (q_BranchName q) branch\<rparr>)"

definition SetAgentTaskErrorIfEmpty :: "uuid \<Rightarrow> pgtext \<Rightarrow> pgtext \<Rightarrow> AgentTaskRow list tx" where
  "SetAgentTaskErrorIfEmpty tid err reason =
     update_tasks (\<lambda>q. sql_eq (q_ID q) tid \<and> (q_Error q = None \<or> q_Error q = Some []) \<and> q_Status q = ''cancelled'')
       (\<lambda>q. q\<lparr>q_Error := err, q_FailureReason := coalesce (q_FailureReason q) reason\<rparr>)"

section \<open>Sweeps\<close>

definition RecoverOrphanedTasksForRuntime :: "env \<Rightarrow> uuid \<Rightarrow> AgentTaskRow list tx" where
  "RecoverOrphanedTasksForRuntime \<epsilon> rid =
     update_tasks (\<lambda>q. sql_eq (q_RuntimeID q) rid \<and> in_flight q)
       (\<lambda>q. q\<lparr>q_Status := ''failed'', q_CompletedAt := Some (env_now \<epsilon>),
              q_Error := Some ''daemon restarted while task was in flight'',
              q_FailureReason := Some ''runtime_recovery'', q_WaitReason := None,
              q_PrepareLeaseExpiresAt := None\<rparr>)"

definition runtime_alive :: "time \<Rightarrow> int \<Rightarrow> db \<Rightarrow> uuid \<Rightarrow> bool" where
  "runtime_alive now staleSecs s rid \<longleftrightarrow>
     list_ex (\<lambda>r. sql_eq (rt_ID r) rid \<and> rt_Status r = ''online'' \<and>
       (case rt_LastSeenAt r of None \<Rightarrow> False | Some t \<Rightarrow> now - staleSecs * second \<le> t)) (db_runtimes s)"

definition FailStaleTasks :: "env \<Rightarrow> int \<Rightarrow> int \<Rightarrow> int \<Rightarrow> AgentTaskRow list tx" where
  "FailStaleTasks \<epsilon> dispatchSecs runningSecs staleSecs =
     (\<lambda>s. update_tasks
       (\<lambda>q. q_Status q = ''dispatched'' \<and> older_than (env_now \<epsilon>) dispatchSecs (q_DispatchedAt q) \<and>
              lease_over (env_now \<epsilon>) q \<or>
            q_Status q = ''running'' \<and> older_than (env_now \<epsilon>) runningSecs (q_StartedAt q) \<and>
              \<not> runtime_alive (env_now \<epsilon>) staleSecs s (q_RuntimeID q))
       (\<lambda>q. q\<lparr>q_Status := ''failed'', q_CompletedAt := Some (env_now \<epsilon>), q_Error := Some ''task timed out'',
              q_FailureReason := Some ''timeout'', q_PrepareLeaseExpiresAt := None\<rparr>) s)"

definition expired_in_queue :: "time \<Rightarrow> int \<Rightarrow> AgentTaskRow \<Rightarrow> bool" where
  "expired_in_queue now ttlSecs q \<longleftrightarrow> q_Status q = ''queued'' \<and> q_CreatedAt q < now - ttlSecs * second"

definition ExpireStaleQueuedTasks :: "env \<Rightarrow> int \<Rightarrow> int \<Rightarrow> AgentTaskRow list tx" where
  "ExpireStaleQueuedTasks \<epsilon> ttlSecs maxPerTick =
     tx_bind (tx_query (\<lambda>s. map q_ID (take (nat maxPerTick) (sort_key q_CreatedAt
         (filter (expired_in_queue (env_now \<epsilon>) ttlSecs) (db_tasks s)))))) (\<lambda>victims.
     update_tasks (\<lambda>q. list_ex (sql_eq (q_ID q)) victims \<and> expired_in_queue (env_now \<epsilon>) ttlSecs q)
       (\<lambda>q. q\<lparr>q_Status := ''failed'', q_CompletedAt := Some (env_now \<epsilon>),
              q_Error := Some ''task expired in queue'', q_FailureReason := Some ''queued_expired'',
              q_PrepareLeaseExpiresAt := None\<rparr>))"

definition SelectStaleOnlineRuntimes :: "env \<Rightarrow> int \<Rightarrow> uuid list tx" where
  "SelectStaleOnlineRuntimes \<epsilon> staleSecs =
     tx_query (\<lambda>s. map rt_ID (filter (\<lambda>r. rt_Status r = ''online'' \<and>
       older_than (env_now \<epsilon>) staleSecs (rt_LastSeenAt r)) (db_runtimes s)))"

definition MarkRuntimesOfflineByIDs :: "env \<Rightarrow> uuid list \<Rightarrow> int \<Rightarrow> RuntimeRow list tx" where
  "MarkRuntimesOfflineByIDs \<epsilon> ids staleSecs =
     (\<lambda>s. let P = (\<lambda>r. rt_Status r = ''online'' \<and> list_ex (sql_eq (rt_ID r)) ids \<and>
                older_than (env_now \<epsilon>) staleSecs (rt_LastSeenAt r));
              f = (\<lambda>r. r\<lparr>rt_Status := ''offline''\<rparr>) in
          Inr (map f (filter P (db_runtimes s)), s\<lparr>db_runtimes := update_rows P f (db_runtimes s)\<rparr>))"

definition FailTasksForOfflineRuntimes :: "env \<Rightarrow> AgentTaskRow list tx" where
  "FailTasksForOfflineRuntimes \<epsilon> =
     (\<lambda>s. update_tasks
       (\<lambda>q. in_flight q \<and> list_ex (\<lambda>r. rt_Status r = ''offline'' \<and> sql_eq (q_RuntimeID q) (rt_ID r)) (db_runtimes s))
       (\<lambda>q. q\<lparr>q_Status := ''failed'', q_CompletedAt := Some (env_now \<epsilon>), q_Error := Some ''runtime went offline'',
              q_FailureReason := Some ''runtime_offline'', q_WaitReason := None\<rparr>) s)"

section \<open>Agents and issues\<close>

text \<open>The status guard makes a correct status a no-op, which returns no row.\<close>

definition RefreshAgentStatusFromTasks :: "uuid \<Rightarrow> AgentRow tx" where
  "RefreshAgentStatusFromTasks aid =
     (\<lambda>s. let desired = (if list_ex (\<lambda>q. sql_eq (q_AgentID q) aid \<and>
                q_Status q \<in> {''dispatched'', ''running''}) (db_tasks s) then ''working'' else ''idle'') in
          tx_update db_agents (\<lambda>rows s. s\<lparr>db_agents := rows\<rparr>)
            (\<lambda>a. sql_eq (ag_ID a) aid \<and> ag_Status a \<noteq> desired) (\<lambda>a. a\<lparr>ag_Status := desired\<rparr>) s)"

definition HasActiveTaskForIssue :: "uuid \<Rightarrow> bool tx" where
  "HasActiveTaskForIssue iid =
     tx_query (\<lambda>s. list_ex (\<lambda>q. sql_eq (q_IssueID q) iid \<and>
       q_Status q \<in> {''queued'', ''dispatched'', ''running'', ''waiting_local_directory''}) (db_tasks s))"

definition GetIssue :: "uuid \<Rightarrow> IssueRow tx" where
  "GetIssue iid = tx_one (\<lambda>s. find (\<lambda>i. sql_eq (i_ID i) iid) (db_issues s))"

end
