(* ===== verification/TaskService.thy ===== *)
theory TaskService
  imports TaskQueue
begin

text \<open>
  \<open>service/task.go\<close>: the task service over the queue, with the handlers of \<open>handler/task_lifecycle.go\<close> and
  \<open>handler/daemon.go\<close> that call it and the sweeps of \<open>cmd/server/runtime_sweeper.go\<close>.  A method commits one
  or more transactions; an error after the first is a value of the result, so that what was committed
  stays.  \<open>posted\<close> tells whether the comment a method writes at its end was stored, which cancels the
  escalations of the agent on the issue; comments themselves, task tokens, events, analytics and wake-ups are not
  modelled, and the verdicts of the empty-claim cache are arguments (\<open>EmptyClaim\<close>).
\<close>

section \<open>Errors and agents\<close>

text \<open>\<open>errors.Is(err, pgx.ErrNoRows)\<close>.\<close>

fun is_no_rows :: "error \<Rightarrow> bool" where
  "is_no_rows (Wrapped msg e) = is_no_rows e"
| "is_no_rows e = (e = ErrNoRows)"

definition quietly :: "'a tx \<Rightarrow> unit tx" where
  "quietly act = tx_bind (tx_try act) (\<lambda>_. tx_return ())"

definition ReconcileAgentStatus :: "uuid \<Rightarrow> unit tx" where
  "ReconcileAgentStatus aid = quietly (RefreshAgentStatusFromTasks aid)"

fun distinctAgentIDs_loop :: "uuid list \<Rightarrow> AgentTaskRow list \<Rightarrow> uuid list" where
  "distinctAgentIDs_loop seen [] = []"
| "distinctAgentIDs_loop seen (t # ts) =
     (if q_AgentID t \<in> set seen then distinctAgentIDs_loop seen ts
      else q_AgentID t # distinctAgentIDs_loop (q_AgentID t # seen) ts)"

definition distinctAgentIDs :: "AgentTaskRow list \<Rightarrow> uuid list" where
  "distinctAgentIDs cancelled = distinctAgentIDs_loop [] cancelled"

definition reconcile_agents :: "uuid list \<Rightarrow> unit tx" where
  "reconcile_agents aids = quietly (tx_map ReconcileAgentStatus aids)"

definition CancelDeferredEscalationsForIssueAgent :: "env \<Rightarrow> uuid \<Rightarrow> uuid \<Rightarrow> unit tx" where
  "CancelDeferredEscalationsForIssueAgent \<epsilon> iid aid =
     quietly (CancelDeferredEscalationsForIssueAgent_query \<epsilon> iid aid)"

definition createAgentComment :: "env \<Rightarrow> bool \<Rightarrow> uuid \<Rightarrow> uuid \<Rightarrow> unit tx" where
  "createAgentComment \<epsilon> posted iid aid =
     (if posted then CancelDeferredEscalationsForIssueAgent \<epsilon> iid aid else tx_return ())"

section \<open>Cancellation\<close>

text \<open>\<open>cancelTask\<close>; an error or a reason selects the query that records them.\<close>

definition cancelTask :: "env \<Rightarrow> uuid \<Rightarrow> string \<Rightarrow> string \<Rightarrow> AgentTaskRow tx" where
  "cancelTask \<epsilon> tid errorMessage failureReason =
     tx_bind (tx_wrap ''cancel task'' (tx_absent
       (if errorMessage \<noteq> [] \<or> failureReason \<noteq> []
        then CancelAgentTaskWithReason \<epsilon> tid (textValue errorMessage) (textValue failureReason)
        else CancelAgentTask \<epsilon> tid))) (\<lambda>cancelled.
     case cancelled of
       None \<Rightarrow> tx_wrap ''cancel task'' (GetAgentTask tid)
     | Some task \<Rightarrow> tx_bind (ReconcileAgentStatus (q_AgentID task)) (\<lambda>_. tx_return task))"

definition CancelTask :: "env \<Rightarrow> uuid \<Rightarrow> AgentTaskRow tx" where
  "CancelTask \<epsilon> tid = cancelTask \<epsilon> tid [] []"

definition CancelTaskWithReason :: "env \<Rightarrow> uuid \<Rightarrow> string \<Rightarrow> string \<Rightarrow> AgentTaskRow tx" where
  "CancelTaskWithReason \<epsilon> tid errorMessage failureReason = cancelTask \<epsilon> tid errorMessage failureReason"

definition CancelTasksForIssue :: "env \<Rightarrow> uuid \<Rightarrow> unit tx" where
  "CancelTasksForIssue \<epsilon> iid =
     tx_bind (CancelAgentTasksByIssue \<epsilon> iid) (\<lambda>cancelled. reconcile_agents (distinctAgentIDs cancelled))"

definition CancelTasksForAgent :: "env \<Rightarrow> uuid \<Rightarrow> AgentTaskRow list tx" where
  "CancelTasksForAgent \<epsilon> aid =
     tx_bind (CancelAgentTasksByAgent \<epsilon> aid) (\<lambda>cancelled.
     tx_bind (ReconcileAgentStatus aid) (\<lambda>_. tx_return cancelled))"

definition CancelTasksByTriggerComment :: "env \<Rightarrow> uuid \<Rightarrow> AgentTaskRow list tx" where
  "CancelTasksByTriggerComment \<epsilon> cid =
     tx_bind (CancelAgentTasksByTriggerComment \<epsilon> cid) (\<lambda>cancelled.
     tx_bind (reconcile_agents (distinctAgentIDs cancelled)) (\<lambda>_. tx_return cancelled))"

section \<open>Claims\<close>

definition claimResponseRecoveryWindow :: int where
  "claimResponseRecoveryWindow = 90"

definition prepareLeaseDuration :: int where
  "prepareLeaseDuration = 45"

text \<open>The transaction of \<open>ClaimTask\<close>: the agent's row is locked, so the count and the claim are one step.\<close>

definition claim_tx :: "env \<Rightarrow> uuid \<Rightarrow> AgentTaskRow option tx" where
  "claim_tx \<epsilon> aid =
     tx_bind (tx_wrap ''agent not found'' (GetAgentForClaimUpdate aid)) (\<lambda>agent.
     tx_bind (CountRunningTasks aid) (\<lambda>running.
     if running \<ge> ag_MaxConcurrentTasks agent then tx_return None
     else tx_wrap ''claim task'' (tx_absent (ClaimAgentTask \<epsilon> aid prepareLeaseDuration))))"

definition ClaimTask :: "env \<Rightarrow> uuid \<Rightarrow> AgentTaskRow option tx" where
  "ClaimTask \<epsilon> aid =
     tx_bind (claim_tx \<epsilon> aid) (\<lambda>claimed.
     case claimed of
       None \<Rightarrow> tx_return None
     | Some task \<Rightarrow> tx_bind (ReconcileAgentStatus aid) (\<lambda>_. tx_return (Some task)))"

definition PromoteDueDeferredTasksForRuntime :: "env \<Rightarrow> uuid \<Rightarrow> unit tx" where
  "PromoteDueDeferredTasksForRuntime \<epsilon> rid =
     tx_bind (tx_wrap ''promote due deferred tasks'' (PromoteDueDeferredTasksForRuntime_query \<epsilon> rid))
       (\<lambda>_. tx_return ())"

text \<open>The loop over the candidates tries every agent once and takes only a task of its own runtime.\<close>

fun claim_loop :: "env \<Rightarrow> uuid \<Rightarrow> string list \<Rightarrow> AgentTaskRow list \<Rightarrow> (error + AgentTaskRow option) tx" where
  "claim_loop \<epsilon> rid tried [] = tx_return (Inr None)"
| "claim_loop \<epsilon> rid tried (c # cs) =
     (if uuidText (q_AgentID c) \<in> set tried then claim_loop \<epsilon> rid tried cs
      else tx_bind (tx_try (ClaimTask \<epsilon> (q_AgentID c))) (\<lambda>r.
        case r of
          Inl e \<Rightarrow> tx_return (Inl e)
        | Inr (Some task) \<Rightarrow>
            if q_RuntimeID task = rid then tx_return (Inr (Some task))
            else claim_loop \<epsilon> rid (uuidText (q_AgentID c) # tried) cs
        | Inr None \<Rightarrow> claim_loop \<epsilon> rid (uuidText (q_AgentID c) # tried) cs))"

definition ClaimTaskForRuntime :: "env \<Rightarrow> bool \<Rightarrow> uuid \<Rightarrow> (error + AgentTaskRow option) tx" where
  "ClaimTaskForRuntime \<epsilon> isEmpty rid =
     tx_bind (PromoteDueDeferredTasksForRuntime \<epsilon> rid) (\<lambda>_.
     tx_bind (tx_absent (ReclaimStaleDispatchedTaskForRuntime \<epsilon> rid claimResponseRecoveryWindow
       prepareLeaseDuration)) (\<lambda>stale.
     case stale of
       Some task \<Rightarrow> tx_return (Inr (Some task))
     | None \<Rightarrow>
         if isEmpty then tx_return (Inr None)
         else tx_bind (ListQueuedClaimCandidatesByRuntime rid) (\<lambda>tasks. claim_loop \<epsilon> rid [] tasks)))"

fun batch_loop ::
    "env \<Rightarrow> uuid list \<Rightarrow> int \<Rightarrow> string list \<Rightarrow> AgentTaskRow list \<Rightarrow> AgentTaskRow list \<Rightarrow>
     (error + AgentTaskRow list) tx" where
  "batch_loop \<epsilon> rids maxTasks tried claimed [] = tx_return (Inr claimed)"
| "batch_loop \<epsilon> rids maxTasks tried claimed (c # cs) =
     (if int (length claimed) \<ge> maxTasks then tx_return (Inr claimed)
      else if uuidText (q_AgentID c) \<in> set tried then batch_loop \<epsilon> rids maxTasks tried claimed cs
      else tx_bind (tx_try (ClaimTask \<epsilon> (q_AgentID c))) (\<lambda>r.
        case r of
          Inl e \<Rightarrow> tx_return (if claimed \<noteq> [] then Inr claimed else Inl (Wrapped ''claim task'' e))
        | Inr None \<Rightarrow> batch_loop \<epsilon> rids maxTasks (uuidText (q_AgentID c) # tried) claimed cs
        | Inr (Some task) \<Rightarrow> batch_loop \<epsilon> rids maxTasks (uuidText (q_AgentID c) # tried)
            (if uuidText (q_RuntimeID task) \<in> set (map uuidText rids) then claimed @ [task] else claimed) cs))"

fun unique_ids :: "uuid list \<Rightarrow> uuid list \<Rightarrow> uuid list" where
  "unique_ids seen [] = []"
| "unique_ids seen (r # rs) =
     (if uuidText r \<in> uuidText ` set seen then unique_ids seen rs else r # unique_ids (r # seen) rs)"

definition ClaimTasksForRuntimes ::
    "env \<Rightarrow> (uuid \<Rightarrow> bool) \<Rightarrow> uuid list \<Rightarrow> int \<Rightarrow> (error + AgentTaskRow list) tx" where
  "ClaimTasksForRuntimes \<epsilon> isEmpty runtimeIDs maxTasks =
     (if runtimeIDs = [] \<or> maxTasks \<le> 0 then tx_return (Inr [])
      else let uniqueIDs = unique_ids [] runtimeIDs in
        tx_bind (tx_wrap ''promote deferred tasks'' (PromoteDueDeferredTasksForRuntimes_query \<epsilon> uniqueIDs)) (\<lambda>_.
        tx_bind (ReclaimStaleDispatchedTasksForRuntimes \<epsilon> uniqueIDs claimResponseRecoveryWindow
          prepareLeaseDuration maxTasks) (\<lambda>reclaimed.
        if int (length reclaimed) \<ge> maxTasks then tx_return (Inr (take (nat maxTasks) reclaimed))
        else let nonEmpty = filter (\<lambda>r. \<not> isEmpty r) uniqueIDs in
          if nonEmpty = [] then tx_return (Inr reclaimed)
          else tx_bind (ListQueuedClaimCandidatesByRuntimes nonEmpty) (\<lambda>candidates.
            batch_loop \<epsilon> runtimeIDs maxTasks [] reclaimed candidates))))"

definition FinalizeTaskClaim :: "AgentTaskRow \<Rightarrow> uuid list \<Rightarrow> bool \<Rightarrow> uuid list tx" where
  "FinalizeTaskClaim task delivered recordReceipt =
     (if \<not> recordReceipt then tx_return (q_DeliveredCommentIds task)
      else tx_bind (tx_wrap ''set delivered comment ids'' (SetTaskDeliveredCommentIDs (q_ID task)
        (q_RuntimeID task) (q_DispatchedAt task) (q_TriggerCommentID task) delivered)) (\<lambda>persisted.
        tx_return (q_DeliveredCommentIds persisted)))"

definition RequeueTaskAfterClaimFailure :: "AgentTaskRow \<Rightarrow> AgentTaskRow tx" where
  "RequeueTaskAfterClaimFailure task =
     tx_bind (tx_wrap ''requeue task after claim failure'' (RequeueAgentTaskAfterClaimFailure (q_ID task)
       (q_RuntimeID task) (q_DispatchedAt task))) (\<lambda>requeued.
     tx_bind (ReconcileAgentStatus (q_AgentID requeued)) (\<lambda>_. tx_return requeued))"

section \<open>Preparation and start\<close>

definition StartTask :: "env \<Rightarrow> uuid \<Rightarrow> AgentTaskRow tx" where
  "StartTask \<epsilon> tid =
     tx_bind (tx_wrap ''start task'' (StartAgentTask \<epsilon> tid)) (\<lambda>task.
     tx_bind (quietly (CancelDeferredEscalationsForTask \<epsilon> (q_ID task))) (\<lambda>_.
     tx_bind (ReconcileAgentStatus (q_AgentID task)) (\<lambda>_. tx_return task)))"

definition ExtendTaskPrepareLease :: "env \<Rightarrow> uuid \<Rightarrow> uuid \<Rightarrow> AgentTaskRow tx" where
  "ExtendTaskPrepareLease \<epsilon> tid rid =
     tx_wrap ''extend task prepare lease'' (ExtendAgentTaskPrepareLease \<epsilon> tid rid prepareLeaseDuration)"

definition MarkTaskWaitingLocalDirectory :: "env \<Rightarrow> uuid \<Rightarrow> string \<Rightarrow> AgentTaskRow tx" where
  "MarkTaskWaitingLocalDirectory \<epsilon> tid reason =
     tx_bind (tx_wrap ''mark task waiting_local_directory'' (MarkAgentTaskWaitingLocalDirectory \<epsilon> tid
       (textValue (TrimSpace reason)) prepareLeaseDuration)) (\<lambda>task.
     tx_bind (ReconcileAgentStatus (q_AgentID task)) (\<lambda>_. tx_return task))"

section \<open>Retries\<close>

definition retryEligible :: "string \<Rightarrow> AgentTaskRow \<Rightarrow> bool" where
  "retryEligible failureReason t \<longleftrightarrow>
     failureReason \<in> set retryableReasons \<and>
     q_Attempt t < retryAttemptCeiling failureReason (q_MaxAttempts t) \<and>
     q_OrchestrationRunID t = None \<and> q_IssueID t \<noteq> None"

definition retry_fire_at :: "time \<Rightarrow> string \<Rightarrow> int \<Rightarrow> timestamptz" where
  "retry_fire_at now reason attempt =
     (let delay = retryDelayForAttempt reason attempt in if 0 < delay then Some (now + delay) else None)"

definition MaybeRetryFailedTask :: "env \<Rightarrow> time \<Rightarrow> AgentTaskRow \<Rightarrow> AgentTaskRow option tx" where
  "MaybeRetryFailedTask \<epsilon> now parent =
     (let reason = (case q_FailureReason parent of None \<Rightarrow> [] | Some r \<Rightarrow> r) in
      if q_Status parent \<noteq> ''failed'' \<or> reason \<notin> set retryableReasons \<or>
        q_Attempt parent \<ge> retryAttemptCeiling reason (q_MaxAttempts parent) \<or> \<not> retryEligible reason parent
      then tx_return None
      else tx_bind (CreateRetryTask \<epsilon> (q_ID parent) (retry_fire_at now reason (q_Attempt parent))
        (Some (retryAttemptCeiling reason (q_MaxAttempts parent)))) (\<lambda>child. tx_return (Some child)))"

section \<open>Terminal reports\<close>

text \<open>When the transaction fails because the task was already settled, its row is the answer.\<close>

definition settled_or :: "string \<Rightarrow> uuid \<Rightarrow> 'a tx \<Rightarrow> (AgentTaskRow + 'a) tx" where
  "settled_or msg tid act =
     tx_bind (tx_try act) (\<lambda>r.
     case r of
       Inr a \<Rightarrow> tx_return (Inr a)
     | Inl e \<Rightarrow>
         tx_bind (tx_try (GetAgentTask tid)) (\<lambda>existing.
         case existing of
           Inr task \<Rightarrow> if is_no_rows e then tx_return (Inl task) else tx_fail (Wrapped msg e)
         | Inl _ \<Rightarrow> tx_fail (Wrapped msg e)))"

definition CompleteTask :: "env \<Rightarrow> bool \<Rightarrow> uuid \<Rightarrow> json \<Rightarrow> session_report \<Rightarrow> AgentTaskRow tx" where
  "CompleteTask \<epsilon> posted tid result p =
     tx_bind (settled_or ''complete task'' tid (CompleteAgentTask \<epsilon> tid result p)) (\<lambda>r.
     case r of
       Inl existing \<Rightarrow> tx_return existing
     | Inr task \<Rightarrow>
         tx_bind (if q_IssueID task \<noteq> None then createAgentComment \<epsilon> posted (q_IssueID task) (q_AgentID task)
           else tx_return ()) (\<lambda>_.
         tx_bind (ReconcileAgentStatus (q_AgentID task)) (\<lambda>_. tx_return task)))"

definition report_reason :: "string \<Rightarrow> string \<Rightarrow> string" where
  "report_reason failureReason errMsg =
     Reason_String (NormalizeDaemonReason
       (if failureReason = [] then Reason_String (Classify errMsg) else failureReason) errMsg)"

text \<open>The plan of an automatic retry, made from the row before the transaction.\<close>

definition planned_retry :: "time \<Rightarrow> string \<Rightarrow> AgentTaskRow option \<Rightarrow> (timestamptz \<times> int) option" where
  "planned_retry now reason parent =
     (case parent of
        Some t \<Rightarrow>
          if reason \<in> set retryableReasons \<and> retryEligible reason t
          then Some (retry_fire_at now reason (q_Attempt t), retryAttemptCeiling reason (q_MaxAttempts t))
          else None
      | None \<Rightarrow> None)"

definition fail_tx ::
    "env \<Rightarrow> uuid \<Rightarrow> string \<Rightarrow> string \<Rightarrow> session_report \<Rightarrow> (timestamptz \<times> int) option \<Rightarrow>
     (AgentTaskRow \<times> AgentTaskRow option) tx" where
  "fail_tx \<epsilon> tid errMsg reason p retry =
     tx_bind (FailAgentTask \<epsilon> tid errMsg reason p) (\<lambda>task.
     case retry of
       None \<Rightarrow> tx_return (task, None)
     | Some (fireAt, maxAttempts) \<Rightarrow>
         tx_bind (tx_wrap ''create retry task'' (CreateRetryTask \<epsilon> tid fireAt (Some maxAttempts))) (\<lambda>child.
         tx_return (task, Some child)))"

definition FailTask ::
    "env \<Rightarrow> time \<Rightarrow> bool \<Rightarrow> uuid \<Rightarrow> string \<Rightarrow> string \<Rightarrow> session_report \<Rightarrow> AgentTaskRow tx" where
  "FailTask \<epsilon> now posted tid errMsg failureReason p =
     (let reason = report_reason failureReason errMsg in
      tx_bind (tx_query (\<lambda>s. find (\<lambda>q. sql_eq (q_ID q) tid) (db_tasks s))) (\<lambda>parent.
      tx_bind (settled_or ''fail task'' tid (fail_tx \<epsilon> tid errMsg reason p (planned_retry now reason parent))) (\<lambda>r.
      case r of
        Inl existing \<Rightarrow> tx_return existing
      | Inr (task, retried) \<Rightarrow>
          tx_bind (if errMsg \<noteq> [] \<and> q_IssueID task \<noteq> None \<and> retried = None
            then createAgentComment \<epsilon> posted (q_IssueID task) (q_AgentID task) else tx_return ()) (\<lambda>_.
          tx_bind (ReconcileAgentStatus (q_AgentID task)) (\<lambda>_. tx_return task)))))"

text \<open>\<open>Handler.CompleteTask\<close>: an output that only says the context is full is a failure.\<close>

definition report_complete ::
    "env \<Rightarrow> time \<Rightarrow> bool \<Rightarrow> uuid \<Rightarrow> string \<Rightarrow> json \<Rightarrow> session_report \<Rightarrow> AgentTaskRow tx" where
  "report_complete \<epsilon> now posted tid output result p =
     (if ContextExhaustedCompletion output
      then FailTask \<epsilon> now posted tid output (Reason_String ReasonAgentContextOverflow) p
      else CompleteTask \<epsilon> posted tid result p)"

text \<open>\<open>Handler.PinTaskSession\<close> and \<open>Handler.AckTaskCancelled\<close>.\<close>

definition PinTaskSession :: "uuid \<Rightarrow> string \<Rightarrow> string \<Rightarrow> unit tx" where
  "PinTaskSession tid session workDir =
     (if session = [] \<and> workDir = [] then tx_fail (Errorf ''session_id or work_dir required'')
      else tx_bind (UpdateAgentTaskSession tid (textValue session) (textValue workDir)) (\<lambda>_. tx_return ()))"

definition AckTaskCancelled :: "uuid \<Rightarrow> string \<Rightarrow> string \<Rightarrow> string \<Rightarrow> unit tx" where
  "AckTaskCancelled tid branchName errorMessage failureReason =
     tx_bind (if TrimSpace branchName \<noteq> []
       then tx_bind (SetAgentTaskBranchName tid (Some (TrimSpace branchName))) (\<lambda>_. tx_return ())
       else tx_return ()) (\<lambda>_.
     if TrimSpace errorMessage \<noteq> []
     then tx_bind (SetAgentTaskErrorIfEmpty tid (Some (TrimSpace errorMessage))
       (textValue (TrimSpace failureReason))) (\<lambda>_. tx_return ())
     else tx_return ())"

section \<open>Lost tasks\<close>

text \<open>One failed task of \<open>HandleFailedTasks\<close>: a retry, or the reset of an issue left in progress; \<open>processed\<close>
  and \<open>retriedIssues\<close> are the maps of the loop.\<close>

definition reset_stuck_issue :: "AgentTaskRow \<Rightarrow> string list \<Rightarrow> string list \<Rightarrow> bool tx" where
  "reset_stuck_issue t processed retriedIssues =
     (if q_IssueID t = None \<or> q_OrchestrationRunID t \<noteq> None then tx_return False
      else tx_bind (tx_try (GetIssue (q_IssueID t))) (\<lambda>found.
        case found of
          Inl _ \<Rightarrow> tx_return False
        | Inr issue \<Rightarrow>
            if i_Status issue = ''in_progress'' \<and> uuidText (q_IssueID t) \<notin> set processed \<and>
              uuidText (q_IssueID t) \<notin> set retriedIssues
            then tx_bind (HasActiveTaskForIssue (q_IssueID t)) (\<lambda>hasActive.
              tx_bind (if hasActive then tx_return ()
                else quietly (UpdateIssueStatus (i_WorkspaceID issue) (q_IssueID t) ''todo'')) (\<lambda>_.
              tx_return True))
            else tx_return False))"

fun handle_failed_loop ::
    "env \<Rightarrow> time \<Rightarrow> string list \<Rightarrow> string list \<Rightarrow> int \<Rightarrow> AgentTaskRow list \<Rightarrow> int tx" where
  "handle_failed_loop \<epsilon> now processed retriedIssues retried [] = tx_return retried"
| "handle_failed_loop \<epsilon> now processed retriedIssues retried (t # ts) =
     tx_bind (tx_try (MaybeRetryFailedTask \<epsilon> now t)) (\<lambda>r.
     let pending = (case r of Inr (Some _) \<Rightarrow> True | _ \<Rightarrow> False);
         retriedIssues' = (if pending \<and> q_IssueID t \<noteq> None then uuidText (q_IssueID t) # retriedIssues
           else retriedIssues) in
     tx_bind (reset_stuck_issue t processed retriedIssues') (\<lambda>seen.
     handle_failed_loop \<epsilon> now (if seen then uuidText (q_IssueID t) # processed else processed) retriedIssues'
       (if pending then retried + 1 else retried) ts))"

definition HandleFailedTasks :: "env \<Rightarrow> time \<Rightarrow> AgentTaskRow list \<Rightarrow> int tx" where
  "HandleFailedTasks \<epsilon> now tasks =
     (if tasks = [] then tx_return 0
      else tx_bind (handle_failed_loop \<epsilon> now [] [] 0 tasks) (\<lambda>retried.
        tx_bind (reconcile_agents (distinctAgentIDs tasks)) (\<lambda>_. tx_return retried)))"

definition RecoverOrphanedTasks :: "env \<Rightarrow> time \<Rightarrow> uuid \<Rightarrow> (int \<times> int) tx" where
  "RecoverOrphanedTasks \<epsilon> now rid =
     tx_bind (RecoverOrphanedTasksForRuntime \<epsilon> rid) (\<lambda>rows.
     tx_bind (HandleFailedTasks \<epsilon> now rows) (\<lambda>retried. tx_return (int (length rows), retried)))"

definition staleThresholdSeconds :: int where
  "staleThresholdSeconds = 150"

definition dispatchTimeoutSeconds :: int where
  "dispatchTimeoutSeconds = 300"

definition runningTimeoutSeconds :: int where
  "runningTimeoutSeconds = 9000"

definition queuedTTLSeconds :: int where
  "queuedTTLSeconds = 2 * 3600"

definition queuedExpireBatchSize :: int where
  "queuedExpireBatchSize = 500"

text \<open>The liveness store answers for a batch of runtimes, or not at all.\<close>

definition filterStaleRuntimesByLiveness ::
    "uuid list \<Rightarrow> bool \<Rightarrow> (string list \<Rightarrow> (string \<Rightarrow> bool) option) \<Rightarrow> uuid list" where
  "filterStaleRuntimesByLiveness candidates available isAliveBatch =
     (if \<not> available then candidates
      else case isAliveBatch (map uuidText candidates) of
        None \<Rightarrow> candidates
      | Some alive \<Rightarrow> filter (\<lambda>c. \<not> alive (uuidText c)) candidates)"

definition sweepStaleRuntimes ::
    "env \<Rightarrow> time \<Rightarrow> bool \<Rightarrow> (string list \<Rightarrow> (string \<Rightarrow> bool) option) \<Rightarrow> unit tx" where
  "sweepStaleRuntimes \<epsilon> now available isAliveBatch =
     tx_bind (SelectStaleOnlineRuntimes \<epsilon> staleThresholdSeconds) (\<lambda>candidates.
     let toOffline = filterStaleRuntimesByLiveness candidates available isAliveBatch in
     if candidates = [] \<or> toOffline = [] then tx_return ()
     else tx_bind (MarkRuntimesOfflineByIDs \<epsilon> toOffline staleThresholdSeconds) (\<lambda>staleRows.
       if staleRows = [] then tx_return ()
       else tx_bind (FailTasksForOfflineRuntimes \<epsilon>) (\<lambda>failedTasks. quietly (HandleFailedTasks \<epsilon> now failedTasks))))"

definition sweepStaleTasks :: "env \<Rightarrow> time \<Rightarrow> unit tx" where
  "sweepStaleTasks \<epsilon> now =
     tx_bind (FailStaleTasks \<epsilon> dispatchTimeoutSeconds runningTimeoutSeconds staleThresholdSeconds)
       (\<lambda>failedTasks. quietly (HandleFailedTasks \<epsilon> now failedTasks))"

definition sweepExpiredQueuedTasks :: "env \<Rightarrow> time \<Rightarrow> unit tx" where
  "sweepExpiredQueuedTasks \<epsilon> now =
     tx_bind (ExpireStaleQueuedTasks \<epsilon> queuedTTLSeconds queuedExpireBatchSize)
       (\<lambda>failedTasks. quietly (HandleFailedTasks \<epsilon> now failedTasks))"

section \<open>All entry points\<close>

text \<open>\<open>QRefresh\<close> is the refresh of an agent's status that follows a cancellation by the orchestrator.\<close>

datatype queue_event =
    QClaim bool uuid
  | QClaimBatch "uuid \<Rightarrow> bool" "uuid list" int
  | QFinalize AgentTaskRow "uuid list" bool
  | QRequeue AgentTaskRow
  | QStart uuid
  | QExtend uuid uuid
  | QWait uuid string
  | QPin uuid string string
  | QComplete bool uuid string json session_report
  | QFail bool uuid string string session_report
  | QCancel uuid string string
  | QCancelIssue uuid
  | QCancelAgent uuid
  | QCancelComment uuid
  | QCancelRuntimes "uuid list" "uuid list"
  | QAcknowledge uuid string string string
  | QComment uuid uuid
  | QRefresh uuid
  | QRecover uuid
  | QSweepRuntimes bool "string list \<Rightarrow> (string \<Rightarrow> bool) option"
  | QSweepTasks
  | QSweepQueue

fun queue_handle :: "env \<Rightarrow> time \<Rightarrow> queue_event \<Rightarrow> unit tx" where
  "queue_handle \<epsilon> now (QClaim isEmpty rid) = quietly (ClaimTaskForRuntime \<epsilon> isEmpty rid)"
| "queue_handle \<epsilon> now (QClaimBatch isEmpty rids maxTasks) = quietly (ClaimTasksForRuntimes \<epsilon> isEmpty rids maxTasks)"
| "queue_handle \<epsilon> now (QFinalize task delivered receipt) = quietly (FinalizeTaskClaim task delivered receipt)"
| "queue_handle \<epsilon> now (QRequeue task) = quietly (RequeueTaskAfterClaimFailure task)"
| "queue_handle \<epsilon> now (QStart tid) = quietly (StartTask \<epsilon> tid)"
| "queue_handle \<epsilon> now (QExtend tid rid) = quietly (ExtendTaskPrepareLease \<epsilon> tid rid)"
| "queue_handle \<epsilon> now (QWait tid reason) = quietly (MarkTaskWaitingLocalDirectory \<epsilon> tid reason)"
| "queue_handle \<epsilon> now (QPin tid session workDir) = quietly (PinTaskSession tid session workDir)"
| "queue_handle \<epsilon> now (QComplete posted tid output result p) = quietly (report_complete \<epsilon> now posted tid output result p)"
| "queue_handle \<epsilon> now (QFail posted tid errMsg reason p) = quietly (FailTask \<epsilon> now posted tid errMsg reason p)"
| "queue_handle \<epsilon> now (QCancel tid errMsg reason) = quietly (CancelTaskWithReason \<epsilon> tid errMsg reason)"
| "queue_handle \<epsilon> now (QCancelIssue iid) = quietly (CancelTasksForIssue \<epsilon> iid)"
| "queue_handle \<epsilon> now (QCancelAgent aid) = quietly (CancelTasksForAgent \<epsilon> aid)"
| "queue_handle \<epsilon> now (QCancelComment cid) = quietly (CancelTasksByTriggerComment \<epsilon> cid)"
| "queue_handle \<epsilon> now (QCancelRuntimes rids aids) = quietly (CancelAgentTasksByRuntimeOrAgent \<epsilon> rids aids)"
| "queue_handle \<epsilon> now (QAcknowledge tid branch msg reason) = quietly (AckTaskCancelled tid branch msg reason)"
| "queue_handle \<epsilon> now (QComment iid aid) = quietly (CancelDeferredEscalationsForIssueAgent \<epsilon> iid aid)"
| "queue_handle \<epsilon> now (QRefresh aid) = ReconcileAgentStatus aid"
| "queue_handle \<epsilon> now (QRecover rid) = quietly (RecoverOrphanedTasks \<epsilon> now rid)"
| "queue_handle \<epsilon> now (QSweepRuntimes available alive) = quietly (sweepStaleRuntimes \<epsilon> now available alive)"
| "queue_handle \<epsilon> now QSweepTasks = quietly (sweepStaleTasks \<epsilon> now)"
| "queue_handle \<epsilon> now QSweepQueue = quietly (sweepExpiredQueuedTasks \<epsilon> now)"

end
