(* ===== verification/QueueLaws.thy ===== *)
theory QueueLaws
  imports TaskService
begin

text \<open>
  The laws of the task queue.  \<open>queue_move\<close> is what an update other than a claim or a promotion may do to a
  task; \<open>queue_queries\<close> is the interface between the queries and the service: a relation that the moves,
  the claim, the promotion and the retry respect is respected by every entry point.
\<close>

section \<open>Moves of a task\<close>

definition terminal_task :: "AgentTaskRow \<Rightarrow> bool" where
  "terminal_task q \<longleftrightarrow> q_Status q \<in> {''completed'', ''failed'', ''cancelled''}"

fun next_statuses :: "string \<Rightarrow> string set" where
  "next_statuses status =
     (if status = ''deferred'' then {''cancelled''}
      else if status = ''queued'' then {''failed'', ''cancelled''}
      else if status = ''dispatched'' then {''queued'', ''waiting_local_directory'', ''running'', ''failed'', ''cancelled''}
      else if status = ''waiting_local_directory'' then {''running'', ''failed'', ''cancelled''}
      else if status = ''running'' then {''completed'', ''failed'', ''cancelled''}
      else {})"

text \<open>The columns of a task that no code path rewrites, and those that the queue's own updates keep beside
  them: a task is moved to another runtime when a legacy runtime is merged, and loses it when the runtime
  of a finished task is deleted.\<close>

definition same_job :: "AgentTaskRow \<Rightarrow> AgentTaskRow \<Rightarrow> bool" where
  "same_job q q' \<longleftrightarrow>
     same_task_row q q' \<and> q_IssueID q' = q_IssueID q \<and>
     q_Priority q' = q_Priority q \<and> q_Context q' = q_Context q \<and> q_CreatedAt q' = q_CreatedAt q \<and>
     q_Attempt q' = q_Attempt q \<and> q_MaxAttempts q' = q_MaxAttempts q \<and>
     q_RetryOfTaskID q' = q_RetryOfTaskID q"

definition same_work :: "AgentTaskRow \<Rightarrow> AgentTaskRow \<Rightarrow> bool" where
  "same_work q q' \<longleftrightarrow> same_job q q' \<and> q_RuntimeID q' = q_RuntimeID q"

lemma same_work_job: "same_work q q' \<Longrightarrow> same_job q q'"
  by (simp add: same_work_def)

definition queue_move :: "AgentTaskRow \<Rightarrow> AgentTaskRow \<Rightarrow> bool" where
  "queue_move q q' \<longleftrightarrow>
     same_work q q' \<and> (q_Status q' = q_Status q \<or> q_Status q' \<in> next_statuses (q_Status q)) \<and>
     (terminal_task q \<longrightarrow> q_CompletedAt q' = q_CompletedAt q \<and> q_Result q' = q_Result q)"

lemmas move_defs = queue_move_def same_work_def same_job_def same_task_row_def terminal_task_def

lemma with_reason:
  "CancelAgentTaskWithReason \<epsilon> tid err kind =
     update_task (\<lambda>q. sql_eq (q_ID q) tid \<and> isActiveAgentTaskStatus (q_Status q))
       (\<lambda>q. q\<lparr>q_Status := ''cancelled'', q_CompletedAt := Some (env_now \<epsilon>), q_Error := err,
              q_FailureReason := kind, q_PrepareLeaseExpiresAt := None\<rparr>)"
  by (simp add: CancelAgentTaskWithReason_def update_task_def put_tasks_def [abs_def])

section \<open>The interface\<close>

text \<open>What follows a failure: the retry, the issue, and the status of the agents.\<close>

locale queue_retries = tx_preorder R for R +
  assumes op_retry: "obeys R (CreateRetryTask \<epsilon> pid fireAt maxAttempts)"
    and op_refresh: "obeys R (RefreshAgentStatusFromTasks aid)"
    and op_issue_status: "obeys R (UpdateIssueStatus ws iid status)"
begin

lemma sum: "(\<And>e. x = Inl e \<Longrightarrow> obeys R (f e)) \<Longrightarrow> (\<And>a. x = Inr a \<Longrightarrow> obeys R (g a)) \<Longrightarrow>
    obeys R (case x of Inl e \<Rightarrow> f e | Inr a \<Rightarrow> g a)"
  by (cases x) auto

lemma quiet: "obeys R act \<Longrightarrow> obeys R (quietly act)"
  unfolding quietly_def by (intro bind attempt return)

lemma refresh: "obeys R (ReconcileAgentStatus aid)" "obeys R (reconcile_agents aids)"
  unfolding ReconcileAgentStatus_def reconcile_agents_def by (intro quiet map op_refresh)+

lemma MaybeRetryFailedTask: "obeys R (MaybeRetryFailedTask \<epsilon> now t)"
  unfolding MaybeRetryFailedTask_def Let_def by (intro rules op_retry)

lemma reset_stuck_issue: "obeys R (reset_stuck_issue t processed retriedIssues)"
  unfolding reset_stuck_issue_def GetIssue_def HasActiveTaskForIssue_def
  by (intro rules sum quiet op_issue_status)

lemma handle_failed_loop: "obeys R (handle_failed_loop \<epsilon> now processed retriedIssues n ts)"
  by (induction ts arbitrary: processed retriedIssues n)
    (auto simp: Let_def intro!: bind attempt return MaybeRetryFailedTask reset_stuck_issue)

lemma HandleFailedTasks: "obeys R (HandleFailedTasks \<epsilon> now ts)"
  unfolding HandleFailedTasks_def by (intro rules handle_failed_loop refresh)

end

locale queue_queries = queue_retries R for R +
  assumes op_one: "(\<And>q. P q \<Longrightarrow> queue_move q (f q)) \<Longrightarrow> obeys R (update_task P f)"
    and op_many: "(\<And>q. P q \<Longrightarrow> queue_move q (f q)) \<Longrightarrow> obeys R (update_tasks P f)"
    and op_promote: "obeys R (update_tasks_indexed (\<lambda>q. P q \<and> fire_due now q) (\<lambda>q. q\<lparr>q_Status := ''queued''\<rparr>))"
    and op_claim: "obeys R (claim_tx \<epsilon> aid)"
    and op_offline: "obeys R (MarkRuntimesOfflineByIDs \<epsilon> ids secs)"
begin

lemma state_many: "(\<And>s q. P s q \<Longrightarrow> queue_move q (f q)) \<Longrightarrow> obeys R (\<lambda>s. update_tasks (P s) f s)"
  using op_many unfolding obeys_def by blast

lemma claim_ops:
  "obeys R (SetTaskDeliveredCommentIDs tid rid t trigger delivered)"
  "obeys R (RequeueAgentTaskAfterClaimFailure tid rid t)"
  "obeys R (ReclaimStaleDispatchedTaskForRuntime \<epsilon> rid secs lease)"
  "obeys R (ReclaimStaleDispatchedTasksForRuntimes \<epsilon> rids secs lease maxTasks)"
  "obeys R (ListQueuedClaimCandidatesByRuntimes rids)" "obeys R (ListQueuedClaimCandidatesByRuntime rid)"
  unfolding SetTaskDeliveredCommentIDs_def RequeueAgentTaskAfterClaimFailure_def
    ReclaimStaleDispatchedTaskForRuntime_def ReclaimStaleDispatchedTasksForRuntimes_def redeliver_def
    ListQueuedClaimCandidatesByRuntimes_def ListQueuedClaimCandidatesByRuntime_def
  by (intro bind one query op_one op_many; auto simp: move_defs)+

lemma promote_ops:
  "obeys R (PromoteDueDeferredTasksForRuntimes_query \<epsilon> rids)"
  "obeys R (PromoteDueDeferredTasksForRuntime_query \<epsilon> rid)"
  using op_promote [of "\<lambda>q. q_RuntimeID q \<noteq> None \<and> q_RuntimeID q \<in> set rids" "env_now \<epsilon>"]
    op_promote [of "\<lambda>q. sql_eq (q_RuntimeID q) rid" "env_now \<epsilon>"]
  by (simp_all add: PromoteDueDeferredTasksForRuntimes_query_def PromoteDueDeferredTasksForRuntime_query_def)

lemma report_ops:
  "obeys R (ExtendAgentTaskPrepareLease \<epsilon> tid rid lease)" "obeys R (StartAgentTask \<epsilon> tid)"
  "obeys R (MarkAgentTaskWaitingLocalDirectory \<epsilon> tid reason lease)"
  "obeys R (UpdateAgentTaskSession tid session workDir)"
  "obeys R (CompleteAgentTask \<epsilon> tid result p)" "obeys R (FailAgentTask \<epsilon> tid msg why p)"
  unfolding ExtendAgentTaskPrepareLease_def StartAgentTask_def MarkAgentTaskWaitingLocalDirectory_def
    UpdateAgentTaskSession_def CompleteAgentTask_def FailAgentTask_def
  by (intro op_one op_many; auto simp: move_defs in_flight_def)+

lemma cancel_ops:
  "obeys R (CancelAgentTask \<epsilon> tid)" "obeys R (CancelAgentTaskWithReason \<epsilon> tid err kind)"
  "obeys R (CancelAgentTasksByIssue \<epsilon> iid)" "obeys R (CancelAgentTasksByIssueAndAgent \<epsilon> iid aid)"
  "obeys R (CancelAgentTasksByAgent \<epsilon> aid)" "obeys R (CancelAgentTasksByTriggerComment \<epsilon> cid)"
  "obeys R (CancelAgentTasksByRuntimeOrAgent \<epsilon> rids aids)"
  "obeys R (CancelDeferredEscalationsForTask \<epsilon> tid)"
  "obeys R (CancelDeferredEscalationsForIssueAgent_query \<epsilon> iid aid)"
  "obeys R (SetAgentTaskBranchName tid branch)" "obeys R (SetAgentTaskErrorIfEmpty tid err' reason)"
proof -
  show "obeys R (CancelAgentTaskWithReason \<epsilon> tid err kind)"
    unfolding with_reason by (intro op_one) (auto simp: move_defs isActiveAgentTaskStatus_def)
qed (unfold CancelAgentTask_def CancelAgentTasksByIssue_def CancelAgentTasksByIssueAndAgent_def
    CancelAgentTasksByAgent_def CancelAgentTasksByTriggerComment_def CancelAgentTasksByRuntimeOrAgent_def
    CancelDeferredEscalationsForTask_def CancelDeferredEscalationsForIssueAgent_query_def
    SetAgentTaskBranchName_def SetAgentTaskErrorIfEmpty_def,
  (intro bind query op_one op_many; auto simp: move_defs isActiveAgentTaskStatus_def escalation_open_def
    cancelled_now_def)+)

lemma sweep_ops:
  "obeys R (RecoverOrphanedTasksForRuntime \<epsilon> rid)" "obeys R (FailStaleTasks \<epsilon> d r st)"
  "obeys R (ExpireStaleQueuedTasks \<epsilon> ttl maxPerTick)" "obeys R (FailTasksForOfflineRuntimes \<epsilon>)"
  "obeys R (SelectStaleOnlineRuntimes \<epsilon> secs)"
  unfolding RecoverOrphanedTasksForRuntime_def FailStaleTasks_def ExpireStaleQueuedTasks_def
    FailTasksForOfflineRuntimes_def SelectStaleOnlineRuntimes_def
  by (intro bind query op_many state_many; auto simp: move_defs in_flight_def expired_in_queue_def)+

section \<open>The service\<close>

lemma cancels:
  "obeys R (cancelTask \<epsilon> tid msg why)" "obeys R (CancelTasksForIssue \<epsilon> iid)"
  "obeys R (CancelTasksForAgent \<epsilon> aid)" "obeys R (CancelTasksByTriggerComment \<epsilon> cid)"
  "obeys R (CancelDeferredEscalationsForIssueAgent \<epsilon> iid aid)" "obeys R (createAgentComment \<epsilon> posted iid aid)"
  unfolding cancelTask_def CancelTasksForIssue_def CancelTasksForAgent_def CancelTasksByTriggerComment_def
    CancelDeferredEscalationsForIssueAgent_def createAgentComment_def GetAgentTask_def
  by (intro rules quiet refresh cancel_ops)+

lemma ClaimTask: "obeys R (ClaimTask \<epsilon> aid)"
  unfolding ClaimTask_def by (intro rules op_claim refresh)

lemma claim_loops:
  "obeys R (claim_loop \<epsilon> rid tried cs)" "obeys R (batch_loop \<epsilon> rids maxTasks tried' claimed cs)"
proof -
  show "obeys R (claim_loop \<epsilon> rid tried cs)"
    by (induction cs arbitrary: tried) (auto intro!: rules sum ClaimTask)
  show "obeys R (batch_loop \<epsilon> rids maxTasks tried' claimed cs)"
    by (induction cs arbitrary: tried' claimed) (auto intro!: rules sum ClaimTask)
qed

lemma claims:
  "obeys R (ClaimTaskForRuntime \<epsilon> isEmpty rid)" "obeys R (ClaimTasksForRuntimes \<epsilon> empties rids maxTasks)"
  "obeys R (FinalizeTaskClaim task delivered receipt)" "obeys R (RequeueTaskAfterClaimFailure task)"
  unfolding ClaimTaskForRuntime_def ClaimTasksForRuntimes_def FinalizeTaskClaim_def Let_def
    RequeueTaskAfterClaimFailure_def PromoteDueDeferredTasksForRuntime_def
  by (intro rules claim_ops promote_ops claim_loops refresh)+

lemma preparations:
  "obeys R (StartTask \<epsilon> tid)" "obeys R (ExtendTaskPrepareLease \<epsilon> tid rid)"
  "obeys R (MarkTaskWaitingLocalDirectory \<epsilon> tid reason)" "obeys R (PinTaskSession tid session workDir)"
  "obeys R (AckTaskCancelled tid branch msg why)"
  unfolding StartTask_def ExtendTaskPrepareLease_def MarkTaskWaitingLocalDirectory_def PinTaskSession_def
    AckTaskCancelled_def
  by (intro rules report_ops cancel_ops quiet refresh)+

lemma settled_or: "obeys R act \<Longrightarrow> obeys R (settled_or msg tid act)"
  unfolding settled_or_def GetAgentTask_def by (intro rules sum)

lemma reports:
  "obeys R (CompleteTask \<epsilon> posted tid result p)" "obeys R (FailTask \<epsilon> now posted tid msg why p)"
  unfolding CompleteTask_def FailTask_def fail_tx_def Let_def
  by (intro rules sum settled_or report_ops op_retry cancels refresh)+

lemma report_complete: "obeys R (report_complete \<epsilon> now posted tid out result p)"
  unfolding report_complete_def by (intro branch reports)

lemma sweeps:
  "obeys R (RecoverOrphanedTasks \<epsilon> now rid)" "obeys R (sweepStaleRuntimes \<epsilon> now available alive)"
  "obeys R (sweepStaleTasks \<epsilon> now)" "obeys R (sweepExpiredQueuedTasks \<epsilon> now)"
  unfolding RecoverOrphanedTasks_def sweepStaleRuntimes_def sweepStaleTasks_def sweepExpiredQueuedTasks_def Let_def
  by (intro rules sweep_ops quiet HandleFailedTasks op_offline)+

lemma queue_handle: "obeys R (queue_handle \<epsilon> now e)"
  by (cases e) (simp_all add: CancelTaskWithReason_def,
    (intro quiet claims preparations report_complete reports cancels cancel_ops refresh sweeps)+)

end

end
