(* ===== verification/QueueState.thy ===== *)
theory QueueState
  imports QueueLaws Conduct
begin

text \<open>
  What the task queue keeps: \<open>outside\<close>, the changes the orchestrator expects of it, and \<open>queue_conduct\<close>: the
  keys and the pending index stay unique, no agent works twice on one issue, no agent gets more tasks in
  flight than it may have, and tasks only go forward.
\<close>

section \<open>The queue as the orchestrator's outside\<close>

lemma queue_move_same: "queue_move q q' \<Longrightarrow> same_task_row q q'"
  by (simp add: queue_move_def same_work_def same_job_def)

lemma length_update_rows [simp]: "length (update_rows P f rows) = length rows"
  by (simp add: update_rows_def)

lemma outside_tasks:
  "(\<And>q. P q \<Longrightarrow> same_task_row q (f q)) \<Longrightarrow> outside s (put_tasks (update_rows P f (db_tasks s)) s)"
  by (simp add: outside_def put_tasks_def agent_places_def rows_evolve_update)

interpretation outer: tx_preorder outside
proof
  show "outside s s" for s by (simp add: outside_def rows_evolve_refl)
  show "outside s u" if st: "outside s t" and tu: "outside t u" for s t u
  proof -
    have "q_OrchestrationRunID (db_tasks u ! i) = None"
      if i: "length (db_tasks s) \<le> i" "i < length (db_tasks u)" for i
    proof (cases "i < length (db_tasks t)")
      case True
      then have "q_OrchestrationRunID (db_tasks t ! i) = None"
        using st i by (auto simp: outside_def list_all_length dest!: spec [of _ "i - length (db_tasks s)"])
      with True tu show ?thesis by (simp add: outside_def rows_evolve_def same_task_row_def)
    next
      case False
      with tu i show ?thesis
        by (auto simp: outside_def list_all_length dest!: spec [of _ "i - length (db_tasks t)"])
    qed
    then have "list_all (\<lambda>q. q_OrchestrationRunID q = None) (drop (length (db_tasks s)) (db_tasks u))"
      by (auto simp: list_all_length)
    moreover have "rows_evolve same_task_row (db_tasks s) (db_tasks u)"
      using st tu unfolding outside_def by (auto intro: rows_evolve_trans simp: same_task_row_def)
    ultimately show ?thesis using st tu unfolding outside_def by auto
  qed
qed

lemma claim_tx_Inr:
  assumes "claim_tx \<epsilon> aid s = Inr (x, t)"
  shows "x = None \<and> t = s \<or>
    (\<exists>agent choice. find (\<lambda>a. sql_eq (ag_ID a) aid) (db_agents s) = Some agent \<and>
       int (length (running_tasks aid s)) < ag_MaxConcurrentTasks agent \<and> next_claim aid s = Some choice \<and>
       ClaimAgentTask \<epsilon> aid prepareLeaseDuration s = Inr (the x, t) \<and> x \<noteq> None)"
  using assms
  by (auto simp: claim_tx_def GetAgentForClaimUpdate_def CountRunningTasks_def ClaimAgentTask_def split: if_splits)

definition dispatch_row_now :: "env \<Rightarrow> AgentTaskRow \<Rightarrow> AgentTaskRow" where
  "dispatch_row_now \<epsilon> q =
     q\<lparr>q_Status := ''dispatched'', q_DispatchedAt := Some (env_now \<epsilon>),
       q_PrepareLeaseExpiresAt := Some (after_seconds (env_now \<epsilon>) prepareLeaseDuration)\<rparr>"

lemma ClaimAgentTask_Inr:
  "ClaimAgentTask \<epsilon> aid prepareLeaseDuration s = Inr (q, t) \<Longrightarrow>
     \<exists>choice. next_claim aid s = Some choice \<and>
       t = put_tasks (update_rows (\<lambda>r. sql_eq (q_ID r) (q_ID choice)) (dispatch_row_now \<epsilon>) (db_tasks s)) s \<and>
       (\<exists>r. find (\<lambda>r. sql_eq (q_ID r) (q_ID choice)) (db_tasks s) = Some r \<and> q = dispatch_row_now \<epsilon> r)"
  by (auto simp: ClaimAgentTask_def update_task_def tx_update_Inr dispatch_row_now_def [abs_def])

lemma retry_task_simps [simp]:
  "q_ID (retry_task tid now fireAt m p) = tid" "q_AgentID (retry_task tid now fireAt m p) = q_AgentID p"
  "q_IssueID (retry_task tid now fireAt m p) = q_IssueID p"
  "q_OrchestrationRunID (retry_task tid now fireAt m p) = None"
  "q_RetryOfTaskID (retry_task tid now fireAt m p) = q_ID p"
  "q_Attempt (retry_task tid now fireAt m p) = q_Attempt p + 1"
  "q_Status (retry_task tid now fireAt m p) = (if fireAt \<noteq> None then ''deferred'' else ''queued'')"
  by (simp_all add: retry_task_def Let_def)

lemma insert_task_Inr:
  assumes "insert_task row s = Inr (q, t)"
  shows "q = row \<and> t = put_tasks (db_tasks s @ [row]) s \<and>
    (\<forall>q \<in> set (db_tasks s). \<not> sql_eq (q_ID q) (q_ID row) \<and> \<not> same_pending q row)"
  using assms unfolding insert_task_def tx_insert_Inr by (simp add: put_tasks_def)

lemma CreateRetryTask_Inr:
  assumes "CreateRetryTask \<epsilon> pid fireAt m s = Inr (child, t)"
  shows "\<exists>parent tid. find (\<lambda>q. sql_eq (q_ID q) pid \<and>
         owners_exist s (q_AgentID q) (q_IssueID q) (q_RuntimeID q)) (db_tasks s) = Some parent \<and> tid \<noteq> None \<and>
       child = retry_task tid (env_now \<epsilon>) fireAt m parent \<and>
       (\<forall>q \<in> set (db_tasks s). q_ID q \<noteq> tid \<and> \<not> same_pending q child) \<and>
       t = put_tasks (db_tasks s @ [child]) (s\<lparr>db_drawn := db_drawn s + 1\<rparr>)"
proof -
  define tid where "tid = Some (env_gen_uuid \<epsilon> (db_drawn s))"
  obtain parent where parent: "find (\<lambda>q. sql_eq (q_ID q) pid \<and>
         owners_exist s (q_AgentID q) (q_IssueID q) (q_RuntimeID q)) (db_tasks s) = Some parent"
      and row: "insert_task (retry_task tid (env_now \<epsilon>) fireAt m parent) (s\<lparr>db_drawn := db_drawn s + 1\<rparr>) =
        Inr (child, t)"
    using assms unfolding CreateRetryTask_def draw_uuid_def tid_def by auto
  have "\<not> sql_eq (q_ID q) tid \<longrightarrow> q_ID q \<noteq> tid" for q by (auto simp: sql_eq_def tid_def)
  with insert_task_Inr [OF row] parent show ?thesis
    by (intro exI [of _ parent] exI [of _ tid]) (auto simp: tid_def)
qed

lemma RefreshAgentStatus_Inr:
  "RefreshAgentStatusFromTasks aid s = Inr (a, t) \<Longrightarrow>
     \<exists>P d. t = s\<lparr>db_agents := update_rows P (\<lambda>a. a\<lparr>ag_Status := d\<rparr>) (db_agents s)\<rparr>"
  unfolding RefreshAgentStatusFromTasks_def Let_def tx_update_Inr by blast

definition agent_capacities :: "db \<Rightarrow> (uuid \<times> int) list" where
  "agent_capacities s = map (\<lambda>a. (ag_ID a, ag_MaxConcurrentTasks a)) (db_agents s)"

lemma agent_columns:
  "agent_places (s\<lparr>db_agents := update_rows P (\<lambda>a. a\<lparr>ag_Status := d\<rparr>) (db_agents s)\<rparr>) = agent_places s"
  "agent_capacities (s\<lparr>db_agents := update_rows P (\<lambda>a. a\<lparr>ag_Status := d\<rparr>) (db_agents s)\<rparr>) = agent_capacities s"
  by (simp_all add: agent_places_def agent_capacities_def map_update_rows_same)

interpretation queue_outside: queue_queries outside
proof
  fix P and f :: "AgentTaskRow \<Rightarrow> AgentTaskRow" assume "\<And>q. P q \<Longrightarrow> queue_move q (f q)"
  then have "P q \<Longrightarrow> same_task_row q (f q)" for q by (blast intro: queue_move_same)
  then show "obeys outside (update_task P f)" "obeys outside (update_tasks P f)"
    by (auto simp: update_task_def update_tasks_def tx_update_Inr intro!: obeysI outside_tasks)
next
  show "obeys outside (update_tasks_indexed (\<lambda>q. P q \<and> fire_due now q) (\<lambda>q. q\<lparr>q_Status := ''queued''\<rparr>))" for P now
    by (auto simp: update_tasks_indexed_def update_tasks_def same_task_row_def intro!: obeysI outside_tasks
        split: if_splits)
next
  show "obeys outside (claim_tx \<epsilon> aid)" for \<epsilon> aid
  proof (rule obeysI)
    fix s x t assume "claim_tx \<epsilon> aid s = Inr (x, t)"
    from claim_tx_Inr [OF this] show "outside s t"
      by (auto dest!: ClaimAgentTask_Inr simp: outer.R_refl dispatch_row_now_def same_task_row_def
          intro!: outside_tasks)
  qed
next
  show "obeys outside (CreateRetryTask \<epsilon> pid fireAt m)" for \<epsilon> pid fireAt m
    by (rule obeysI, drule CreateRetryTask_Inr)
      (auto simp: outside_def put_tasks_def agent_places_def intro!: rows_evolve_append)
next
  show "obeys outside (RefreshAgentStatusFromTasks aid)" for aid
    by (rule obeysI, drule RefreshAgentStatus_Inr) (auto simp: outside_def rows_evolve_refl agent_columns)
next
  show "obeys outside (MarkRuntimesOfflineByIDs \<epsilon> ids secs)" for \<epsilon> ids secs
    by (rule obeysI) (auto simp: MarkRuntimesOfflineByIDs_def Let_def outside_def agent_places_def rows_evolve_refl)
next
  show "obeys outside (UpdateIssueStatus ws iid status)" for ws iid status
    unfolding UpdateIssueStatus_def
    by (rule obeys_update) (simp add: outside_def agent_places_def rows_evolve_refl)
qed

section \<open>What the queue keeps\<close>

definition task_keys_ok :: "AgentTaskRow list \<Rightarrow> bool" where
  "task_keys_ok rows \<longleftrightarrow> distinct (map q_ID rows) \<and> None \<notin> q_ID ` set rows"

definition one_pending :: "AgentTaskRow list \<Rightarrow> bool" where
  "one_pending rows \<longleftrightarrow> (\<forall>q \<in> set rows. \<forall>r \<in> set rows. same_pending q r \<longrightarrow> q_ID q = q_ID r)"

text \<open>An agent works on an issue, or on the tasks without an issue, in one task at a time.\<close>

definition one_in_flight :: "AgentTaskRow list \<Rightarrow> bool" where
  "one_in_flight rows \<longleftrightarrow>
     (\<forall>q \<in> set rows. \<forall>r \<in> set rows. in_flight q \<and> in_flight r \<and> sql_eq (q_AgentID q) (q_AgentID r) \<and>
        q_IssueID q = q_IssueID r \<longrightarrow> q_ID q = q_ID r)"

definition queue_sound :: "db \<Rightarrow> bool" where
  "queue_sound s \<longleftrightarrow>
     task_keys_ok (db_tasks s) \<and> one_pending (db_tasks s) \<and> one_in_flight (db_tasks s)"

definition task_load :: "uuid \<Rightarrow> db \<Rightarrow> int" where
  "task_load aid s = int (length (running_tasks aid s))"

definition capacity :: "uuid \<Rightarrow> db \<Rightarrow> int" where
  "capacity aid s =
     (case find (\<lambda>a. sql_eq (fst a) aid) (agent_capacities s) of None \<Rightarrow> 0 | Some a \<Rightarrow> snd a)"

definition within_capacity :: "db \<Rightarrow> db \<Rightarrow> bool" where
  "within_capacity s t \<longleftrightarrow>
     agent_capacities t = agent_capacities s \<and> (\<forall>aid. task_load aid t \<le> max (task_load aid s) (capacity aid s))"

definition status_rank :: "string \<Rightarrow> nat" where
  "status_rank status =
     (if status = ''deferred'' then 0
      else if status \<in> {''queued'', ''dispatched''} then 1
      else if status = ''waiting_local_directory'' then 2
      else if status = ''running'' then 3 else 4)"

definition task_forward :: "AgentTaskRow \<Rightarrow> AgentTaskRow \<Rightarrow> bool" where
  "task_forward q q' \<longleftrightarrow>
     same_job q q' \<and> status_rank (q_Status q) \<le> status_rank (q_Status q') \<and>
     (terminal_task q \<longrightarrow>
        q_Status q' = q_Status q \<and> q_CompletedAt q' = q_CompletedAt q \<and> q_Result q' = q_Result q)"

definition queue_conduct :: "db \<Rightarrow> db \<Rightarrow> bool" where
  "queue_conduct s t \<longleftrightarrow>
     (queue_sound s \<longrightarrow>
        queue_sound t \<and> within_capacity s t \<and> rows_evolve task_forward (db_tasks s) (db_tasks t))"

lemma task_forward_refl [simp]: "task_forward q q"
  by (simp add: task_forward_def same_job_def)

lemma task_forward_trans: "task_forward q r \<Longrightarrow> task_forward r u \<Longrightarrow> task_forward q u"
  by (auto simp: task_forward_def same_job_def same_task_row_def terminal_task_def)

lemma queue_move_forward: "queue_move q q' \<Longrightarrow> task_forward q q'"
  unfolding queue_move_def task_forward_def same_work_def same_job_def terminal_task_def status_rank_def by (auto split: if_splits)

lemma capacity_same: "agent_capacities t = agent_capacities s \<Longrightarrow> capacity aid t = capacity aid s"
  by (simp add: capacity_def)

lemma within_capacity_trans: "within_capacity s t \<Longrightarrow> within_capacity t u \<Longrightarrow> within_capacity s u"
  unfolding within_capacity_def using capacity_same [of t s]
  by (metis max.coboundedI2 max.cobounded1 max.cobounded2 max.bounded_iff order_trans)

interpretation queue_order: tx_preorder queue_conduct
proof
  show "queue_conduct s s" for s by (simp add: queue_conduct_def within_capacity_def rows_evolve_refl)
  show "queue_conduct s u" if "queue_conduct s t" "queue_conduct t u" for s t u
    using that unfolding queue_conduct_def by (meson task_forward_trans within_capacity_trans rows_evolve_trans)
qed

section \<open>Updates\<close>

text \<open>A lighter version of a task is in flight, and in the pending index, only if the task was.\<close>

definition lighter :: "AgentTaskRow \<Rightarrow> AgentTaskRow \<Rightarrow> bool" where
  "lighter q q' \<longleftrightarrow>
     q_ID q' = q_ID q \<and> q_AgentID q' = q_AgentID q \<and> q_IssueID q' = q_IssueID q \<and>
     (in_flight q' \<longrightarrow> in_flight q) \<and> (in_pending_index q' \<longrightarrow> in_pending_index q)"

lemma queue_move_lighter: "queue_move q q' \<Longrightarrow> lighter q q'"
  unfolding queue_move_def lighter_def same_work_def same_job_def same_task_row_def in_flight_def in_pending_index_def
  by (auto split: if_splits)

lemma lighter_refl [simp]: "lighter q q"
  by (simp add: lighter_def)

lemma same_pending_sym: "same_pending q r \<Longrightarrow> same_pending r q"
  unfolding same_pending_def sql_eq_def by metis

lemma same_pending_lighter: "lighter q q' \<Longrightarrow> lighter r r' \<Longrightarrow> same_pending q' r' \<Longrightarrow> same_pending q r"
  by (auto simp: lighter_def same_pending_def)

lemma sound_lighter:
  assumes "queue_sound s" and l: "list_all2 lighter (db_tasks s) (db_tasks t)"
  shows "queue_sound t"
proof -
  let ?rows = "db_tasks t"
  have "map q_ID ys = map q_ID xs" if "list_all2 lighter xs ys" for xs ys
    using that by (induction rule: list_all2_induct) (auto simp: lighter_def)
  then have ids: "map q_ID ?rows = map q_ID (db_tasks s)" using l by blast
  have old: "\<exists>q \<in> set (db_tasks s). lighter q q'" if "q' \<in> set ?rows" for q'
    using that l by (metis in_set_conv_nth list_all2_conv_all_nth)
  have "q_ID q' = q_ID r'" if q': "q' \<in> set ?rows" and r': "r' \<in> set ?rows" and p: "same_pending q' r'" for q' r'
  proof -
    obtain q where q: "q \<in> set (db_tasks s)" "lighter q q'" using old [OF q'] by blast
    obtain r where r: "r \<in> set (db_tasks s)" "lighter r r'" using old [OF r'] by blast
    have "same_pending q r" using q(2) r(2) p by (rule same_pending_lighter)
    then have "q_ID q = q_ID r" using assms(1) q(1) r(1) by (simp add: queue_sound_def one_pending_def)
    then show ?thesis using q(2) r(2) by (simp add: lighter_def)
  qed
  then have "one_pending ?rows" by (simp add: one_pending_def)
  moreover have "q_ID q' = q_ID r'"
    if q': "q' \<in> set ?rows" and r': "r' \<in> set ?rows" and f: "in_flight q'" "in_flight r'"
      "sql_eq (q_AgentID q') (q_AgentID r')" "q_IssueID q' = q_IssueID r'" for q' r'
  proof -
    obtain q where q: "q \<in> set (db_tasks s)" "lighter q q'" using old [OF q'] by blast
    obtain r where r: "r \<in> set (db_tasks s)" "lighter r r'" using old [OF r'] by blast
    have "in_flight q" "in_flight r" "sql_eq (q_AgentID q) (q_AgentID r)" "q_IssueID q = q_IssueID r"
      using q(2) r(2) f by (simp_all add: lighter_def)
    then have "q_ID q = q_ID r" using assms(1) q(1) r(1) by (simp add: queue_sound_def one_in_flight_def)
    then show ?thesis using q(2) r(2) by (simp add: lighter_def)
  qed
  then have "one_in_flight ?rows" by (simp add: one_in_flight_def)
  moreover have "task_keys_ok ?rows"
  proof -
    have "q_ID ` set ?rows = q_ID ` set (db_tasks s)" using ids by (metis list.set_map)
    then show ?thesis using assms(1) ids by (simp add: queue_sound_def task_keys_ok_def)
  qed
  ultimately show ?thesis by (simp add: queue_sound_def)
qed

lemma sound_update:
  assumes "queue_sound s" and "\<And>q. q \<in> set (db_tasks s) \<Longrightarrow> P q \<Longrightarrow> lighter q (f q)"
  shows "queue_sound (put_tasks (update_rows P f (db_tasks s)) s)"
  by (rule sound_lighter [OF assms(1)])
    (use assms(2) in \<open>auto simp: put_tasks_def update_rows_def list_all2_conv_all_nth\<close>)

lemma filter_update_rows:
  "(\<And>x. x \<in> set xs \<Longrightarrow> P x \<Longrightarrow> A (f x) \<Longrightarrow> A x) \<Longrightarrow>
     length (filter A (update_rows P f xs)) \<le> length (filter A xs)"
  by (induction xs) (auto simp: update_rows_def le_SucI)

lemma load_update:
  assumes "\<And>q. q \<in> set (db_tasks s) \<Longrightarrow> P q \<Longrightarrow> lighter q (f q)"
  shows "within_capacity s (put_tasks (update_rows P f (db_tasks s)) s)"
proof -
  have "task_load aid (put_tasks (update_rows P f (db_tasks s)) s) \<le> task_load aid s" for aid
    unfolding task_load_def running_tasks_def put_tasks_def
    using assms by (auto simp: lighter_def intro!: filter_update_rows)
  then show ?thesis by (simp add: within_capacity_def agent_capacities_def put_tasks_def le_max_iff_disj)
qed

lemma conduct_lighter:
  assumes "\<And>q. q \<in> set (db_tasks s) \<Longrightarrow> P q \<Longrightarrow> lighter q (f q) \<and> task_forward q (f q)"
  shows "queue_conduct s (put_tasks (update_rows P f (db_tasks s)) s)"
proof -
  have "rows_evolve task_forward (db_tasks s) (update_rows P f (db_tasks s))"
    unfolding update_rows_def rows_evolve_def using assms by (simp add: nth_mem)
  moreover have "queue_sound s \<Longrightarrow> queue_sound (put_tasks (update_rows P f (db_tasks s)) s)"
    using assms by (auto intro: sound_update)
  moreover have "within_capacity s (put_tasks (update_rows P f (db_tasks s)) s)"
    using assms by (auto intro: load_update)
  ultimately show ?thesis by (simp add: queue_conduct_def put_tasks_def)
qed

text \<open>A new task that waits.\<close>

lemma conduct_append:
  assumes "\<not> in_flight row" and "q_ID row \<noteq> None"
    and "\<And>q. q \<in> set (db_tasks s) \<Longrightarrow> q_ID q \<noteq> q_ID row \<and> \<not> same_pending q row"
    and "agent_capacities s' = agent_capacities s" and "db_tasks s' = db_tasks s"
  shows "queue_conduct s (put_tasks (db_tasks s @ [row]) s')"
proof -
  have "queue_sound (put_tasks (db_tasks s @ [row]) s')" if "queue_sound s"
    using that assms same_pending_sym [of row]
    by (auto simp: queue_sound_def put_tasks_def task_keys_ok_def one_pending_def one_in_flight_def)
  moreover have "within_capacity s (put_tasks (db_tasks s @ [row]) s')"
    using assms(1,4) by (auto simp: within_capacity_def put_tasks_def task_load_def running_tasks_def agent_capacities_def)
  ultimately show ?thesis by (simp add: queue_conduct_def put_tasks_def rows_evolve_append)
qed

section \<open>Promotion and claim\<close>

lemma pending_unique_one: "pending_unique rows \<Longrightarrow> one_pending rows"
  unfolding pending_unique_def one_pending_def sorted_wrt_iff_nth_less
  by (metis in_set_conv_nth linorder_neqE_nat same_pending_sym)

lemma conduct_promote:
  assumes "pending_unique (update_rows P f (db_tasks s))"
    and P: "\<And>q. P q \<Longrightarrow> q_Status q = ''deferred''" and f: "f = (\<lambda>q. q\<lparr>q_Status := ''queued''\<rparr>)"
  shows "queue_conduct s (put_tasks (update_rows P f (db_tasks s)) s)"
proof -
  let ?rows = "update_rows P f (db_tasks s)"
  have old: "\<exists>q \<in> set (db_tasks s). q_ID q' = q_ID q \<and> q_AgentID q' = q_AgentID q \<and>
      q_IssueID q' = q_IssueID q \<and> in_flight q' = in_flight q"
    if "q' \<in> set ?rows" for q'
    using that P by (auto simp: set_update_rows f in_flight_def)
  have ids: "map q_ID ?rows = map q_ID (db_tasks s)" by (simp add: f map_update_rows_same)
  have flying: "filter (\<lambda>q. sql_eq (q_AgentID q) aid \<and> in_flight q) (update_rows P f rows) =
      filter (\<lambda>q. sql_eq (q_AgentID q) aid \<and> in_flight q) rows" for aid rows
    using P by (induction rows) (auto simp: in_flight_def update_rows_def f)
  have "queue_sound (put_tasks ?rows s)" if sound: "queue_sound s"
  proof -
    have "q_ID ` set ?rows = q_ID ` set (db_tasks s)" using ids by (metis list.set_map)
    then have "task_keys_ok ?rows" using sound ids by (simp add: queue_sound_def task_keys_ok_def)
    moreover have "one_in_flight ?rows"
      unfolding one_in_flight_def
    proof (intro ballI impI)
      fix q' r' assume q': "q' \<in> set ?rows" and r': "r' \<in> set ?rows"
        and f: "in_flight q' \<and> in_flight r' \<and> sql_eq (q_AgentID q') (q_AgentID r') \<and> q_IssueID q' = q_IssueID r'"
      from old [OF q'] old [OF r'] obtain q r where "q \<in> set (db_tasks s)" "r \<in> set (db_tasks s)"
          "q_ID q' = q_ID q" "q_ID r' = q_ID r"
          "in_flight q \<and> in_flight r \<and> sql_eq (q_AgentID q) (q_AgentID r) \<and> q_IssueID q = q_IssueID r"
        using f by auto
      with sound show "q_ID q' = q_ID r'" by (simp add: queue_sound_def one_in_flight_def)
    qed
    ultimately show ?thesis
      using pending_unique_one [OF assms(1)] by (simp add: queue_sound_def put_tasks_def)
  qed
  moreover have "within_capacity s (put_tasks ?rows s)"
    by (simp add: within_capacity_def agent_capacities_def put_tasks_def task_load_def running_tasks_def flying)
  moreover have "rows_evolve task_forward (db_tasks s) ?rows"
    using P by (intro rows_evolve_update) (auto simp: f task_forward_def same_job_def same_task_row_def
        terminal_task_def status_rank_def)
  ultimately show ?thesis by (simp add: queue_conduct_def put_tasks_def)
qed

lemma next_claim_Some:
  assumes "next_claim aid s = Some q" shows "q \<in> set (db_tasks s)" and "claimable aid s q"
proof -
  obtain rest where "sort_key claim_rank (filter (claimable aid s) (db_tasks s)) = q # rest"
    using assms by (auto simp: next_claim_def split: list.splits)
  then have "q \<in> set (sort_key claim_rank (filter (claimable aid s) (db_tasks s)))"
    by (metis list.set_intros(1))
  then show "q \<in> set (db_tasks s)" "claimable aid s q" by simp_all
qed

lemma update_one:
  assumes "task_keys_ok rows" and "c \<in> set rows"
  obtains pre post where "rows = pre @ c # post"
    and "update_rows (\<lambda>r. sql_eq (q_ID r) (q_ID c)) f rows = pre @ f c # post"
proof -
  from assms(2) obtain pre post where rows: "rows = pre @ c # post" by (auto dest: split_list)
  have "\<not> sql_eq (q_ID r) (q_ID c)" if "r \<in> set pre \<union> set post" for r
    using that assms(1) unfolding rows task_keys_ok_def sql_eq_def by (auto simp: image_iff)
  moreover have "sql_eq (q_ID c) (q_ID c)" using assms unfolding task_keys_ok_def sql_eq_def by (metis image_eqI)
  ultimately have "update_rows (\<lambda>r. sql_eq (q_ID r) (q_ID c)) f rows = pre @ f c # post"
    by (simp add: rows update_rows_def map_idI)
  with rows show ?thesis by (rule that)
qed

lemma find_capacity:
  "find (\<lambda>a. sql_eq (fst a) aid) (map (\<lambda>a. (ag_ID a, ag_MaxConcurrentTasks a)) agents) =
     map_option (\<lambda>a. (ag_ID a, ag_MaxConcurrentTasks a)) (find (\<lambda>a. sql_eq (ag_ID a) aid) agents)"
  by (induction agents) auto

lemma dispatch_row_now_simps [simp]:
  "q_ID (dispatch_row_now \<epsilon> q) = q_ID q" "q_AgentID (dispatch_row_now \<epsilon> q) = q_AgentID q"
  "q_IssueID (dispatch_row_now \<epsilon> q) = q_IssueID q" "in_flight (dispatch_row_now \<epsilon> q)"
  "in_pending_index (dispatch_row_now \<epsilon> q)" "same_work q (dispatch_row_now \<epsilon> q)"
  "same_job q (dispatch_row_now \<epsilon> q)"
  "q_Status (dispatch_row_now \<epsilon> q) = ''dispatched''"
  by (simp_all add: dispatch_row_now_def in_flight_def in_pending_index_def same_work_def same_job_def same_task_row_def)

lemma sound_claim:
  assumes "queue_sound s" and rows: "db_tasks s = pre @ c # post" and c: "claimable aid s c"
  shows "queue_sound (put_tasks (pre @ dispatch_row_now \<epsilon> c # post) s)"
proof -
  let ?d = "dispatch_row_now \<epsilon> c"
  have pending: "same_pending q ?d \<longleftrightarrow> same_pending q c" "same_pending ?d q \<longleftrightarrow> same_pending c q" for q
    using c by (auto simp: same_pending_def claimable_def in_pending_index_def dispatch_row_now_def)
  have new: "\<not> (in_flight q \<and> q_AgentID q = q_AgentID c \<and> q_IssueID q = q_IssueID c)"
    if "q \<in> set pre \<union> set post" for q
    using c that unfolding claimable_def list_ex_iff sql_eq_def rows by auto
  have "one_pending (pre @ ?d # post)"
    using assms(1) unfolding queue_sound_def one_pending_def rows by (auto simp: pending)
  moreover have "one_in_flight (pre @ ?d # post)"
  proof -
    have "one_in_flight (pre @ c # post)" using assms(1) by (simp add: queue_sound_def rows)
    then have "q_ID q = q_ID r"
      if "q \<in> set pre \<union> set post" "r \<in> set pre \<union> set post" "in_flight q" "in_flight r"
        "sql_eq (q_AgentID q) (q_AgentID r)" "q_IssueID q = q_IssueID r" for q r
      using that unfolding one_in_flight_def by auto
    with new show ?thesis
      unfolding one_in_flight_def sql_eq_def set_append list.set dispatch_row_now_simps(2,3)
      by (metis Un_iff dispatch_row_now_simps(1,2,3) insert_iff)
  qed
  moreover have "task_keys_ok (pre @ ?d # post)"
    using assms(1) by (simp add: queue_sound_def task_keys_ok_def rows)
  ultimately show ?thesis by (simp add: queue_sound_def put_tasks_def)
qed

lemma conduct_claim:
  assumes "claim_tx \<epsilon> aid s = Inr (x, t)"
  shows "queue_conduct s t"
proof (cases "t = s \<or> \<not> queue_sound s")
  case True
  then show ?thesis using queue_order.R_refl by (auto simp: queue_conduct_def)
next
  case False
  from claim_tx_Inr [OF assms] False obtain agent c where
      agent: "find (\<lambda>a. sql_eq (ag_ID a) aid) (db_agents s) = Some agent"
      "int (length (running_tasks aid s)) < ag_MaxConcurrentTasks agent"
    and c: "next_claim aid s = Some c" and claim: "ClaimAgentTask \<epsilon> aid prepareLeaseDuration s = Inr (the x, t)"
    by blast
  have keys: "task_keys_ok (db_tasks s)" using False by (simp add: queue_sound_def)
  from ClaimAgentTask_Inr [OF claim] c have t: "t = put_tasks (update_rows (\<lambda>r. sql_eq (q_ID r) (q_ID c))
      (dispatch_row_now \<epsilon>) (db_tasks s)) s" by auto
  obtain pre post where rows: "db_tasks s = pre @ c # post"
    and rows': "update_rows (\<lambda>r. sql_eq (q_ID r) (q_ID c)) (dispatch_row_now \<epsilon>) (db_tasks s) =
      pre @ dispatch_row_now \<epsilon> c # post"
    using update_one [OF keys next_claim_Some(1) [OF c]] .
  have waits: "q_Status c = ''queued''" "sql_eq (q_AgentID c) aid"
    using next_claim_Some(2) [OF c] by (simp_all add: claimable_def)
  have t': "t = put_tasks (pre @ dispatch_row_now \<epsilon> c # post) s" using t rows' by simp
  have "queue_sound t"
    unfolding t' using False rows next_claim_Some(2) [OF c] by (blast intro: sound_claim)
  moreover have cap: "capacity aid s = ag_MaxConcurrentTasks agent"
    using agent(1) by (simp add: capacity_def agent_capacities_def find_capacity)
  have "task_load a t \<le> max (task_load a s) (capacity a s)" for a
  proof (cases "sql_eq (q_AgentID c) a")
    case True
    then have "a = aid" using waits(2) by (simp add: sql_eq_def)
    moreover have "task_load a t = task_load a s + 1"
      using True waits by (simp add: task_load_def running_tasks_def t' rows put_tasks_def in_flight_def [of c])
    ultimately show ?thesis using agent(2) cap by (simp add: task_load_def)
  next
    case False
    then have "task_load a t = task_load a s"
      by (simp add: task_load_def running_tasks_def t' rows put_tasks_def)
    then show ?thesis by simp
  qed
  then have "within_capacity s t" by (simp add: within_capacity_def agent_capacities_def t' put_tasks_def)
  moreover have "rows_evolve task_forward (db_tasks s) (db_tasks t)"
  proof -
    have "task_forward c (dispatch_row_now \<epsilon> c)"
      using waits(1) by (simp add: task_forward_def terminal_task_def status_rank_def)
    then show ?thesis
      by (auto simp: t' rows put_tasks_def rows_evolve_def nth_append nth_Cons split: nat.splits)
  qed
  ultimately show ?thesis by (simp add: queue_conduct_def)
qed

section \<open>The interface\<close>

lemma conduct_untouched:
  "db_tasks t = db_tasks s \<Longrightarrow> agent_capacities t = agent_capacities s \<Longrightarrow> queue_conduct s t"
  by (simp add: queue_conduct_def queue_sound_def within_capacity_def rows_evolve_refl task_load_def running_tasks_def)

interpretation queue_conduct: queue_queries queue_conduct
proof
  fix P and f :: "AgentTaskRow \<Rightarrow> AgentTaskRow" assume "\<And>q. P q \<Longrightarrow> queue_move q (f q)"
  then have "P q \<Longrightarrow> lighter q (f q) \<and> task_forward q (f q)" for q
    by (blast intro: queue_move_lighter queue_move_forward)
  then show "obeys queue_conduct (update_task P f)" "obeys queue_conduct (update_tasks P f)"
    by (auto simp: update_task_def update_tasks_def tx_update_Inr intro!: obeysI conduct_lighter)
next
  show "obeys queue_conduct (update_tasks_indexed (\<lambda>q. P q \<and> fire_due now q) (\<lambda>q. q\<lparr>q_Status := ''queued''\<rparr>))" for P now
    by (auto simp: update_tasks_indexed_def update_tasks_def fire_due_def intro!: obeysI conduct_promote
        split: if_splits)
next
  show "obeys queue_conduct (claim_tx \<epsilon> aid)" for \<epsilon> aid
    by (rule obeysI) (rule conduct_claim)
next
  show "obeys queue_conduct (CreateRetryTask \<epsilon> pid fireAt m)" for \<epsilon> pid fireAt m
    by (rule obeysI, drule CreateRetryTask_Inr)
      (auto simp: in_flight_def agent_capacities_def intro!: conduct_append split: if_splits)
next
  show "obeys queue_conduct (RefreshAgentStatusFromTasks aid)" for aid
    by (rule obeysI, drule RefreshAgentStatus_Inr) (auto simp: agent_columns intro!: conduct_untouched)
next
  show "obeys queue_conduct (MarkRuntimesOfflineByIDs \<epsilon> ids secs)" for \<epsilon> ids secs
    by (rule obeysI) (auto simp: MarkRuntimesOfflineByIDs_def Let_def agent_capacities_def intro!: conduct_untouched)
next
  show "obeys queue_conduct (UpdateIssueStatus ws iid status)" for ws iid status
    unfolding UpdateIssueStatus_def
    by (rule obeys_update) (simp add: agent_capacities_def conduct_untouched)
qed

end
