(* ===== verification/QueueSystem.thy ===== *)
theory QueueSystem
  imports QueueState Operations
begin

text \<open>
  The orchestrator and the task queue on one database: \<open>serves\<close> interleaves the events of both with the
  rest of the server.  The queue is one of the things the orchestrator calls outside, so what holds along
  \<open>evolves\<close> holds along \<open>serves\<close>; and the orchestrator keeps what the queue promises.
\<close>

section \<open>The orchestrator beside the queue\<close>

definition off_queue :: "db \<Rightarrow> db \<Rightarrow> bool" where
  "off_queue s t \<longleftrightarrow> db_tasks t = db_tasks s \<and> db_agents t = db_agents s"

interpretation off_queue: tx_preorder off_queue
  by unfold_locales (simp_all add: off_queue_def)

named_theorems off_queue_ops "queries that leave tasks and agents alone"

lemma off_queue_missions [off_queue_ops]:
  "obeys off_queue (draw_uuid \<epsilon>)"
  "obeys off_queue (CreateMissionRecord \<epsilon> iid ws limits creator)"
  "obeys off_queue (AcceptMissionPlan \<epsilon> ws mid plan expected)"
  "obeys off_queue (StartMissionRecord \<epsilon> ws mid expected)"
  "obeys off_queue (CancelMissionRecord \<epsilon> ws mid expected)"
  "obeys off_queue (SetMissionBudgetGate \<epsilon> ws mid gate)"
  "obeys off_queue (ResumeMissionForTaskRetry \<epsilon> ws mid expected)"
  "obeys off_queue (TransitionMissionState \<epsilon> ws mid target from)"
  "obeys off_queue (BeginMissionPlanning \<epsilon> ws mid expected)"
  "obeys off_queue (AllocateMissionActivitySequence \<epsilon> ws mid)"
  by (auto simp: draw_uuid_def CreateMissionRecord_def AcceptMissionPlan_def StartMissionRecord_def
      CancelMissionRecord_def SetMissionBudgetGate_def ResumeMissionForTaskRetry_def TransitionMissionState_def
      BeginMissionPlanning_def AllocateMissionActivitySequence_def update_mission_def off_queue_def
      tx_update_Inr tx_insert_Inr intro!: obeysI)

lemma off_queue_nodes [off_queue_ops]:
  "obeys off_queue (UpdateIssueStatus ws iid status)"
  "obeys off_queue (IncrementIssueCounter ws)"
  "obeys off_queue (CreateIssue \<epsilon> issue)"
  "obeys off_queue (CreateOrchestrationIssueDependency nid dep)"
  "obeys off_queue (CreateTaskNodeRecord \<epsilon> iid ws mid node)"
  "obeys off_queue (MarkTaskNodeReady \<epsilon> ws mid nid revision)"
  "obeys off_queue (RetryBlockedTaskNode \<epsilon> ws mid nid revision)"
  "obeys off_queue (TransitionTaskNodeForRework \<epsilon> ws mid nid target cnt)"
  "obeys off_queue (TransitionTaskNodeState \<epsilon> ws mid nid target reason expected)"
  "obeys off_queue (CancelMissionTaskNodes \<epsilon> ws mid)"
  by (auto simp: UpdateIssueStatus_def IncrementIssueCounter_def CreateIssue_def draw_uuid_def
      CreateOrchestrationIssueDependency_def CreateTaskNodeRecord_def MarkTaskNodeReady_def
      RetryBlockedTaskNode_def TransitionTaskNodeForRework_def TransitionTaskNodeState_def
      CancelMissionTaskNodes_def Let_def update_node_def off_queue_def tx_update_Inr tx_insert_Inr
      intro!: obeysI split: option.splits)

lemma off_queue_runs [off_queue_ops]:
  "obeys off_queue (CreateOrchestrationAssignment \<epsilon> ws mid nid role agent rt seq prev creator)"
  "obeys off_queue (RevokeMissionAssignments \<epsilon> ws mid)"
  "obeys off_queue (EndOrchestrationAssignment \<epsilon> ws mid aid ended)"
  "obeys off_queue (RevokeAssignmentFromReconcile \<epsilon> ws mid nid aid)"
  "obeys off_queue (CreateOrchestrationRun \<epsilon> ws mid nid aid purpose attempt input prevRun deadline timeout)"
  "obeys off_queue (UpdateOrchestrationRunFromReconcile ws rid to from fkind msg started finished)"
  "obeys off_queue (CreateArtifactRecord \<epsilon> ws mid nid rid akind version uri contentHash summary metadata)"
  "obeys off_queue (CreateReviewVerdictRecord \<epsilon> ws mid nid rid arid decision evidence requested)"
  "obeys off_queue (CreatePendingHumanGate \<epsilon> ws mid nid arid rid kind why context)"
  "obeys off_queue (ResolvePendingHumanGate \<epsilon> ws mid gid gexpected resolvedBy resolution reason)"
  "obeys off_queue (CreateMailboxMessage row)"
  "obeys off_queue (TransitionMailboxMessageStatus msgTarget observed msgID ws mid revision)"
  "obeys off_queue (CreateOrchestrationActivity \<epsilon> arow)"
  by (auto simp: CreateOrchestrationAssignment_def RevokeMissionAssignments_def EndOrchestrationAssignment_def
      RevokeAssignmentFromReconcile_def CreateOrchestrationRun_def UpdateOrchestrationRunFromReconcile_def
      CreateArtifactRecord_def CreateReviewVerdictRecord_def CreatePendingHumanGate_def
      ResolvePendingHumanGate_def CreateMailboxMessage_def TransitionMailboxMessageStatus_def
      CreateOrchestrationActivity_def draw_uuid_def Let_def off_queue_def tx_update_Inr tx_insert_Inr
      intro!: obeysI)

lemma off_queue_race: "obeys off_queue act \<Longrightarrow> obeys off_queue (tx_race msg act)"
  by (auto simp: obeys_def)

lemma off_queue_logging [off_queue_ops]:
  "obeys off_queue (allocateActivitySequence \<epsilon> ws mid)"
  "obeys off_queue (log_activity \<epsilon> m1 m2 a)" "obeys off_queue (log_command_activity \<epsilon> m1 m2 a)"
  "obeys off_queue (createAutomaticActivity \<epsilon> mission nid rid typ st sid c corr key payload)"
  "obeys off_queue (createMailboxActivity \<epsilon> ws mid row c corr actor typ mpayload)"
  "obeys off_queue (createMailboxDeliveryActivity \<epsilon> mission run msg agent corr payload)"
  "obeys off_queue (plain_activity \<epsilon> spec)"
  unfolding log_activity_def log_command_activity_def createAutomaticActivity_def createMailboxActivity_def
    createMailboxDeliveryActivity_def plain_activity_def allocateActivitySequence_def
  by (intro off_queue.rules off_queue_race off_queue_ops)+

lemma off_queue_policies [off_queue_ops]:
  "obeys off_queue (CreateRoleProfileVersion_row \<epsilon> prow)"
  "obeys off_queue (freezeRolePolicyBindings \<epsilon> ws mid actor bindings)"
  "obeys off_queue (RestoreTaskNodeForReviewerGate \<epsilon> ws mid nid expected)"
  "obeys off_queue (RestoreTaskNodeForReworkGate \<epsilon> ws mid nid expected)"
  "obeys off_queue (ApproveMissionBudgetRecord \<epsilon> ws mid tokens ticks approvedBy expected)"
proof -
  have "obeys off_queue (CreateMissionRolePolicySnapshot \<epsilon> srow)" for srow
    unfolding CreateMissionRolePolicySnapshot_def
    by (auto simp: draw_uuid_def off_queue_def tx_insert_Inr intro!: obeysI)
  then show "obeys off_queue (freezeRolePolicyBindings \<epsilon> ws mid actor bindings)"
    unfolding freezeRolePolicyBindings_def freeze_binding_def freeze_new_def by (intro off_queue.rules)
qed (auto simp: CreateRoleProfileVersion_row_def RestoreTaskNodeForReviewerGate_def
    RestoreTaskNodeForReworkGate_def ApproveMissionBudgetRecord_def update_node_def update_mission_def
    draw_uuid_def off_queue_def tx_update_Inr tx_insert_Inr intro!: obeysI)

lemma off_queue_conduct: "obeys off_queue act \<Longrightarrow> obeys queue_conduct act"
  by (auto simp: obeys_def off_queue_def agent_capacities_def intro!: conduct_untouched)

lemma conduct_CreateAgentTask: "obeys queue_conduct (CreateAgentTask \<epsilon> p)"
proof (rule obeysI)
  fix s task t assume "CreateAgentTask \<epsilon> p s = Inr (task, t)"
  then obtain row where row: "row = new_task (Some (env_gen_uuid \<epsilon> (db_drawn s))) (env_now \<epsilon>) p"
      "insert_task row (s\<lparr>db_drawn := db_drawn s + 1\<rparr>) = Inr (task, t)"
    by (auto simp: CreateAgentTask_def draw_uuid_def)
  have cols: "q_ID row = Some (env_gen_uuid \<epsilon> (db_drawn s))" "q_Status row = ''queued''"
    by (simp_all add: row(1) new_task_def)
  from insert_task_Inr [OF row(2)] cols show "queue_conduct s t"
    by (auto simp: in_flight_def agent_capacities_def sql_eq_def intro!: conduct_append)
qed

interpretation system_queue: system_queries queue_conduct
  by unfold_locales
    (auto intro!: off_queue_conduct [OF off_queue_ops(1)] conduct_CreateAgentTask queue_conduct.cancel_ops
      off_queue_ops [THEN off_queue_conduct])

section \<open>Both as one state machine\<close>

text \<open>What the rest of the server does to a stored task: the merge of a legacy runtime moves it to another
  one (\<open>ReassignTasksToRuntime\<close>), the deletion of a runtime detaches its finished tasks
  (\<open>UnbindTasksFromRuntime\<close>), and the references to comments change with the comments.\<close>

definition tended :: "AgentTaskRow \<Rightarrow> AgentTaskRow \<Rightarrow> bool" where
  "tended q q' \<longleftrightarrow>
     q' = q\<lparr>q_RuntimeID := q_RuntimeID q', q_TriggerCommentID := q_TriggerCommentID q',
            q_CoalescedCommentIds := q_CoalescedCommentIds q'\<rparr>"

text \<open>One event: of the orchestrator, of the queue, an enqueue of another part of the server, which stores a
  task without a run, or anything else the server does, which tends the stored tasks and may change the
  number of tasks an agent may run (\<open>UpdateAgent\<close>).  The deletion of issues and workspaces is left out:
  it deletes their tasks.\<close>

inductive serve_step :: "env \<Rightarrow> PlanLimits \<Rightarrow> db \<Rightarrow> db \<Rightarrow> bool" for \<epsilon> hard t where
  orchestrates: "serve_step \<epsilon> hard t (after (handle (\<epsilon>\<lparr>env_now := dbnow\<rparr>) hard now e) t)"
| queues: "serve_step \<epsilon> hard t (after (queue_handle (\<epsilon>\<lparr>env_now := dbnow\<rparr>) now q) t)"
| enqueues: "ct_OrchestrationRunID p = None \<Longrightarrow>
    serve_step \<epsilon> hard t (after (CreateAgentTask (\<epsilon>\<lparr>env_now := dbnow\<rparr>) p) t)"
| elsewhere: "outside t u \<Longrightarrow> list_all2 tended (db_tasks t) (db_tasks u) \<Longrightarrow> serve_step \<epsilon> hard t u"

definition serves :: "env \<Rightarrow> PlanLimits \<Rightarrow> db \<Rightarrow> db \<Rightarrow> bool" where
  "serves \<epsilon> hard = rtranclp (serve_step \<epsilon> hard)"

lemma serves_refl: "serves \<epsilon> hard s s"
  by (simp add: serves_def)

lemma serves_step: "serves \<epsilon> hard s t \<Longrightarrow> serve_step \<epsilon> hard t u \<Longrightarrow> serves \<epsilon> hard s u"
  unfolding serves_def by (rule rtranclp.rtrancl_into_rtrancl)

lemma serves_preserves:
  "serves \<epsilon> hard s t \<Longrightarrow> I s \<Longrightarrow> (\<And>t u. serve_step \<epsilon> hard t u \<Longrightarrow> I t \<Longrightarrow> I u) \<Longrightarrow> I t"
  unfolding serves_def by (induction rule: rtranclp_induct) blast+

lemma outside_CreateAgentTask:
  assumes "ct_OrchestrationRunID p = None" shows "obeys outside (CreateAgentTask \<epsilon> p)"
proof (rule obeysI)
  fix s task t assume "CreateAgentTask \<epsilon> p s = Inr (task, t)"
  then obtain row where row: "row = new_task (Some (env_gen_uuid \<epsilon> (db_drawn s))) (env_now \<epsilon>) p"
      "insert_task row (s\<lparr>db_drawn := db_drawn s + 1\<rparr>) = Inr (task, t)"
    by (auto simp: CreateAgentTask_def draw_uuid_def)
  have "q_OrchestrationRunID row = None" by (simp add: row(1) new_task_def assms)
  with insert_task_Inr [OF row(2)] show "outside s t"
    by (auto simp: outside_def put_tasks_def agent_places_def intro!: rows_evolve_append)
qed

lemma serves_evolves: "serves \<epsilon> hard s t \<Longrightarrow> evolves \<epsilon> hard s t"
proof (erule serves_preserves, rule evolves.begins)
  fix t u assume "serve_step \<epsilon> hard t u" and t: "evolves \<epsilon> hard s t"
  then show "evolves \<epsilon> hard s u"
  proof cases
    case (orchestrates dbnow now e)
    show ?thesis unfolding orchestrates by (rule evolves.event [OF t])
  next
    case (queues dbnow now q)
    have "outside t u"
      unfolding queues by (rule after_obeys [OF queue_outside.queue_handle outer.R_refl])
    with t show ?thesis by (rule evolves.other)
  next
    case (enqueues p dbnow)
    have "outside t u"
      unfolding enqueues(1) by (rule after_obeys [OF outside_CreateAgentTask [OF enqueues(2)] outer.R_refl])
    with t show ?thesis by (rule evolves.other)
  next
    case elsewhere
    from t elsewhere(1) show ?thesis by (rule evolves.other)
  qed
qed

section \<open>What every event keeps of the queue\<close>

text \<open>The conduct of the queue but for the limits of the agents, which may be edited at any time.\<close>

definition queue_kept :: "db \<Rightarrow> db \<Rightarrow> bool" where
  "queue_kept s t \<longleftrightarrow>
     (queue_sound s \<longrightarrow>
        queue_sound t \<and> rows_evolve task_forward (db_tasks s) (db_tasks t) \<and>
        (\<forall>aid. task_load aid t \<le> max (task_load aid s) (capacity aid s)))"

lemma conduct_kept: "queue_conduct s t \<Longrightarrow> queue_kept s t"
  by (simp add: queue_conduct_def queue_kept_def within_capacity_def)

lemma tended_columns: "tended q q' \<Longrightarrow> lighter q q' \<and> task_forward q q'"
proof -
  assume "tended q q'"
  then obtain rt c cs where
      q': "q' = q\<lparr>q_RuntimeID := rt, q_TriggerCommentID := c, q_CoalescedCommentIds := cs\<rparr>"
    unfolding tended_def by blast
  show ?thesis
    by (simp add: q' lighter_def in_flight_def in_pending_index_def task_forward_def same_job_def same_task_row_def)
qed

lemma load_lighter: "list_all2 lighter (db_tasks s) (db_tasks t) \<Longrightarrow> task_load aid t \<le> task_load aid s"
proof -
  have "length (filter (\<lambda>q. sql_eq (q_AgentID q) aid \<and> in_flight q) ys) \<le>
      length (filter (\<lambda>q. sql_eq (q_AgentID q) aid \<and> in_flight q) xs)"
    if "list_all2 lighter xs ys" for xs ys
    using that by (induction rule: list_all2_induct) (auto simp: lighter_def)
  then show "list_all2 lighter (db_tasks s) (db_tasks t) \<Longrightarrow> ?thesis"
    by (simp add: task_load_def running_tasks_def)
qed

lemma tended_kept:
  assumes "list_all2 tended (db_tasks s) (db_tasks t)" shows "queue_kept s t"
proof -
  have l: "list_all2 lighter (db_tasks s) (db_tasks t)" "list_all2 task_forward (db_tasks s) (db_tasks t)"
    using assms by (auto elim: list_all2_mono dest: tended_columns)
  then have "rows_evolve task_forward (db_tasks s) (db_tasks t)"
    by (simp add: rows_evolve_def list_all2_conv_all_nth)
  then show ?thesis using sound_lighter [OF _ l(1)] load_lighter [OF l(1)] by (simp add: queue_kept_def le_max_iff_disj)
qed

lemma step_kept: "serve_step \<epsilon> hard t u \<Longrightarrow> queue_kept t u"
proof (induction rule: serve_step.cases)
  case (orchestrates dbnow now e)
  then show ?case
    using after_obeys [OF system_queue.handle queue_order.R_refl] by (blast intro: conduct_kept)
next
  case (queues dbnow now q)
  then show ?case
    using after_obeys [OF queue_conduct.queue_handle queue_order.R_refl] by (blast intro: conduct_kept)
next
  case (enqueues p dbnow)
  then show ?case
    using after_obeys [OF conduct_CreateAgentTask queue_order.R_refl] by (blast intro: conduct_kept)
next
  case elsewhere
  then show ?case by (blast intro: tended_kept)
qed

lemma serves_sound: "serves \<epsilon> hard s t \<Longrightarrow> queue_sound s \<Longrightarrow> queue_sound t"
  by (erule serves_preserves [where I = queue_sound]) (auto dest: step_kept simp: queue_kept_def)

lemma serves_forward:
  "serves \<epsilon> hard s t \<Longrightarrow> queue_sound s \<Longrightarrow> rows_evolve task_forward (db_tasks s) (db_tasks t)"
proof -
  assume "serves \<epsilon> hard s t" "queue_sound s"
  then have "queue_sound t \<and> rows_evolve task_forward (db_tasks s) (db_tasks t)"
    by (elim serves_preserves)
      (auto dest!: step_kept simp: queue_kept_def rows_evolve_refl elim: rows_evolve_trans intro: task_forward_trans)
  then show ?thesis ..
qed

text \<open>An event during which an agent may run at most \<open>n\<close> tasks.\<close>

definition serve_step_upto :: "env \<Rightarrow> PlanLimits \<Rightarrow> uuid \<Rightarrow> int \<Rightarrow> db \<Rightarrow> db \<Rightarrow> bool" where
  "serve_step_upto \<epsilon> hard aid n t u \<longleftrightarrow> serve_step \<epsilon> hard t u \<and> capacity aid t \<le> n"

lemma load_upto:
  "rtranclp (serve_step_upto \<epsilon> hard aid n) s t \<Longrightarrow> queue_sound s \<Longrightarrow>
     queue_sound t \<and> task_load aid t \<le> max (task_load aid s) n"
proof (induction rule: rtranclp_induct)
  case (step t u)
  then have "queue_kept t u" "capacity aid t \<le> n" by (auto simp: serve_step_upto_def dest: step_kept)
  moreover have "queue_sound t" "task_load aid t \<le> max (task_load aid s) n" using step by blast+
  ultimately show ?case unfolding queue_kept_def by (metis max.bounded_iff max.coboundedI2 max_def)
qed simp

section \<open>A working agent\<close>

text \<open>Two tasks of one issue: the first is claimed and started, the second waits.\<close>

definition work_params :: CreateAgentTaskParams where
  "work_params =
     \<lparr>ct_AgentID = Some ''g'', ct_RuntimeID = Some ''t'', ct_IssueID = Some ''m'', ct_Priority = 1,
      ct_TriggerCommentID = None, ct_CoalescedCommentIds = [], ct_ForceFreshSession = False,
      ct_TaskContext = None, ct_HeadSha = None, ct_RerunOfTaskID = None, ct_OrchestrationRunID = None\<rparr>"

definition waiting :: db where
  "waiting = after (CreateAgentTask demo_env work_params) busy"

definition claimed :: db where
  "claimed = after (queue_handle demo_env 5 (QClaim False (Some ''t''))) waiting"

definition working :: db where
  "working = after (queue_handle demo_env 5 (QStart (Some ''a''))) claimed"

definition crowded :: db where
  "crowded = after (CreateAgentTask demo_env work_params) working"

lemma work_states:
  "map (\<lambda>q. (q_ID q, q_Status q)) (db_tasks waiting) = [(Some ''a'', ''queued'')]"
  "map (\<lambda>q. (q_ID q, q_Status q)) (db_tasks claimed) = [(Some ''a'', ''dispatched'')]"
  "map (\<lambda>q. (q_ID q, q_Status q)) (db_tasks working) = [(Some ''a'', ''running'')]"
  "map (\<lambda>q. (q_ID q, q_Status q)) (db_tasks crowded) = [(Some ''a'', ''running''), (Some ''aa'', ''queued'')]"
  by code_simp+

lemma demo_env_now: "demo_env\<lparr>env_now := 1\<rparr> = demo_env"
  by (simp add: demo_env_def)

lemma work_steps:
  "serve_step demo_env demo_hard busy waiting" "serve_step demo_env demo_hard waiting claimed"
  "serve_step demo_env demo_hard claimed working" "serve_step demo_env demo_hard working crowded"
proof -
  have p: "ct_OrchestrationRunID work_params = None" by (simp add: work_params_def)
  show "serve_step demo_env demo_hard busy waiting" "serve_step demo_env demo_hard working crowded"
    using serve_step.enqueues [OF p, of demo_env demo_hard _ 1] by (simp_all add: waiting_def crowded_def demo_env_now)
  show "serve_step demo_env demo_hard waiting claimed" "serve_step demo_env demo_hard claimed working"
    using serve_step.queues [of demo_env demo_hard _ 1 5]
    unfolding claimed_def working_def demo_env_now by blast+
qed

lemma busy_serves:
  "serves demo_env demo_hard busy waiting" "serves demo_env demo_hard waiting claimed"
  "serves demo_env demo_hard busy crowded"
  using serves_step [OF serves_step [OF serves_step [OF serves_step [OF serves_refl
      work_steps(1)] work_steps(2)] work_steps(3)] work_steps(4)]
    serves_step [OF serves_refl work_steps(1)] serves_step [OF serves_refl work_steps(2)] by blast+

lemma busy_queue_sound: "queue_sound busy"
  by (simp add: queue_sound_def busy_def demo_db_def task_keys_ok_def one_pending_def one_in_flight_def)

end
