(* ===== verification/QueueGuarantees.thy ===== *)
theory QueueGuarantees
  imports QueueSystem
begin

text \<open>
  What the task queue guarantees beside the orchestrator, and where it gets stuck.  The witnesses continue
  the scenario of \<open>QueueSystem\<close>: an agent runs one task of an issue while a second one waits.
\<close>

section \<open>Along every run\<close>

text \<open>C5: The task queue is one of the things the orchestrator expects around it: whatever it does, together
  with the orchestrator's own events and the rest of the server, is a run of \<open>evolves\<close>, so every
  guarantee of the orchestrator holds while agents claim, run, retry and lose their tasks.\<close>
theorem queue_refines_outside:
  assumes "serves \<epsilon> hard s t" shows "evolves \<epsilon> hard s t"
  using assms by (rule serves_evolves)

theorem queue_refines_outside_witness:
  "evolves demo_env demo_hard busy crowded \<and> map q_Status (db_tasks crowded) = [''running'', ''queued'']"
proof
  show "evolves demo_env demo_hard busy crowded" by (rule queue_refines_outside [OF busy_serves(3)])
  show "map q_Status (db_tasks crowded) = [''running'', ''queued'']" by code_simp
qed

text \<open>C3: No agent gets more tasks in flight than its \<open>max_concurrent_tasks\<close> allows, although the limit
  may be edited at any time: over any sequence of events of the queue, the orchestrator and the rest of
  the server (issues and workspaces not being deleted) during which the limit in force is at most \<open>n\<close>, the
  load of the agent is at most the larger of \<open>n\<close> and the load it started with.  For a single event
  \<open>n\<close> is the limit in force, so a limit lowered below the load lets no further task start.\<close>
theorem agent_within_capacity:
  assumes "rtranclp (serve_step_upto \<epsilon> hard aid n) s t" and "queue_sound s"
  shows "task_load aid t \<le> max (task_load aid s) n"
  using load_upto [OF assms] by simp

definition narrowed :: db where
  "narrowed = crowded\<lparr>db_agents := map (\<lambda>a. a\<lparr>ag_MaxConcurrentTasks := 1\<rparr>) (db_agents crowded)\<rparr>"

text \<open>The limit of the working agent is lowered from two to one.\<close>
theorem agent_within_capacity_witness:
  "task_load (Some ''g'') narrowed \<le> 2 \<and> capacity (Some ''g'') crowded = 2 \<and> capacity (Some ''g'') narrowed = 1"
proof -
  have "outside crowded narrowed"
    by (simp add: outside_def narrowed_def agent_places_def rows_evolve_refl comp_def)
  moreover have "list_all2 tended (db_tasks crowded) (db_tasks narrowed)"
    by (simp add: narrowed_def tended_def list_all2_same)
  ultimately have "serve_step demo_env demo_hard crowded narrowed" by (rule serve_step.elsewhere)
  moreover have "capacity (Some ''g'') busy = 2" "capacity (Some ''g'') waiting = 2" "capacity (Some ''g'') claimed = 2"
      "capacity (Some ''g'') working = 2" and c: "capacity (Some ''g'') crowded = 2"
    by code_simp+
  ultimately have "serve_step_upto demo_env demo_hard (Some ''g'') 2 busy waiting"
      "serve_step_upto demo_env demo_hard (Some ''g'') 2 waiting claimed"
      "serve_step_upto demo_env demo_hard (Some ''g'') 2 claimed working"
      "serve_step_upto demo_env demo_hard (Some ''g'') 2 working crowded"
      "serve_step_upto demo_env demo_hard (Some ''g'') 2 crowded narrowed"
    using work_steps by (simp_all add: serve_step_upto_def)
  then have "rtranclp (serve_step_upto demo_env demo_hard (Some ''g'') 2) busy narrowed"
    by (meson rtranclp.rtrancl_into_rtrancl rtranclp.rtrancl_refl)
  from agent_within_capacity [OF this busy_queue_sound]
  have "task_load (Some ''g'') narrowed \<le> max (task_load (Some ''g'') busy) 2" .
  moreover have "task_load (Some ''g'') busy = 0" "capacity (Some ''g'') narrowed = 1" by code_simp+
  ultimately show ?thesis using c by simp
qed

text \<open>C4: The work on one issue is serialized: two tasks of one agent on one issue, or on none, that are both
  in flight are one task, and so are two that wait in the pending index; the claim's \<open>NOT EXISTS\<close>
  and the checks of the inserts keep this although updates check only the index they may violate.\<close>
theorem one_task_at_a_time:
  assumes "serves \<epsilon> hard s t" and "queue_sound s" and "q \<in> set (db_tasks t)" and "r \<in> set (db_tasks t)"
    and "q_AgentID q = Some agent" and "q_AgentID r = Some agent" and "q_IssueID q = q_IssueID r"
    and "in_flight q \<and> in_flight r \<or> in_pending_index q \<and> in_pending_index r \<and> q_IssueID q \<noteq> None"
  shows "q = r"
proof -
  have t: "queue_sound t" using serves_sound [OF assms(1,2)] .
  have same: "sql_eq (q_AgentID q) (q_AgentID r)" "q_IssueID q \<noteq> None \<Longrightarrow> sql_eq (q_IssueID q) (q_IssueID r)"
    using assms(5-7) by (simp_all add: sql_eq_def)
  have flying: "q_ID q = q_ID r" if "in_flight q" "in_flight r"
    using t that assms(3,4,7) same(1) unfolding queue_sound_def one_in_flight_def by blast
  have waiting: "q_ID q = q_ID r" if "in_pending_index q" "in_pending_index r" "q_IssueID q \<noteq> None"
  proof -
    have "same_pending q r" using that same by (simp add: same_pending_def)
    then show ?thesis using t assms(3,4) unfolding queue_sound_def one_pending_def by blast
  qed
  have "q_ID q = q_ID r" using assms(8) flying waiting by blast
  moreover have "inj_on q_ID (set (db_tasks t))"
    using t by (simp add: queue_sound_def task_keys_ok_def distinct_map)
  ultimately show ?thesis using assms(3,4) by (simp add: inj_on_def)
qed

theorem one_task_at_a_time_witness:
  "set (filter (\<lambda>q. q_AgentID q = Some ''g'' \<and> q_IssueID q = Some ''m'' \<and> in_flight q) (db_tasks crowded)) =
     {hd (db_tasks crowded)}"
proof -
  have c: "db_tasks crowded \<noteq> []" "q_AgentID (hd (db_tasks crowded)) = Some ''g''"
      "q_IssueID (hd (db_tasks crowded)) = Some ''m''" "in_flight (hd (db_tasks crowded))"
    by code_simp+
  note hd = hd_in_set [OF c(1)]
  have "q = hd (db_tasks crowded)"
    if "q \<in> set (db_tasks crowded)" "q_AgentID q = Some ''g''" "q_IssueID q = Some ''m''" "in_flight q" for q
    using one_task_at_a_time [OF busy_serves(3) busy_queue_sound that(1) hd that(2) c(2)] that(3,4) c(3,4) by simp
  with hd c show ?thesis by auto
qed

text \<open>C9: A task only goes forward: through all events of the queue, the orchestrator and the rest of the
  server, but for the deletion of issues and workspaces, it stays the same work of the same agent, on
  whichever runtime, its status never falls behind (a claim that was not delivered goes back to the queue, a deferred task is
  promoted), and once it is completed, failed or cancelled its status, its end and its result never change.\<close>
theorem task_only_goes_forward:
  assumes "serves \<epsilon> hard s t" and "queue_sound s" and "i < length (db_tasks s)"
  shows "i < length (db_tasks t) \<and> same_job (db_tasks s ! i) (db_tasks t ! i) \<and>
    status_rank (q_Status (db_tasks s ! i)) \<le> status_rank (q_Status (db_tasks t ! i)) \<and>
    (terminal_task (db_tasks s ! i) \<longrightarrow>
       q_Status (db_tasks t ! i) = q_Status (db_tasks s ! i) \<and>
       q_CompletedAt (db_tasks t ! i) = q_CompletedAt (db_tasks s ! i) \<and>
       q_Result (db_tasks t ! i) = q_Result (db_tasks s ! i))"
proof -
  have "rows_evolve task_forward (db_tasks s) (db_tasks t)" using assms(1,2) by (rule serves_forward)
  then have "i < length (db_tasks t) \<and> task_forward (db_tasks s ! i) (db_tasks t ! i)"
    using assms(3) by (simp add: rows_evolve_def)
  then show ?thesis unfolding task_forward_def by simp
qed

theorem task_only_goes_forward_witness:
  "same_job (db_tasks waiting ! 0) (db_tasks claimed ! 0) \<and> status_rank (q_Status (db_tasks claimed ! 0)) = 1"
proof -
  have "queue_sound waiting" using busy_serves(1) busy_queue_sound by (rule serves_sound)
  moreover have "0 < length (db_tasks waiting)" "q_Status (db_tasks claimed ! 0) = ''dispatched''" by code_simp+
  ultimately show ?thesis
    using task_only_goes_forward [OF busy_serves(2), of 0] by (simp add: status_rank_def)
qed

end
