(* ===== verification/QueueReports.thy ===== *)
theory QueueReports
  imports QueueGuarantees
begin

text \<open>
  What single calls of the task service do: a claim takes the best task there is, a report on a settled task
  changes nothing, a retry is bounded, a recovered runtime is idle; and two ways in which the pending index
  turns an automatic retry into a dead end.
\<close>

section \<open>Shared steps\<close>

lemma quietly_Inr [simp]:
  "quietly act s = Inr (u, t) \<longleftrightarrow> (\<exists>a. act s = Inr (a, t)) \<or> (\<exists>e. act s = Inl e) \<and> t = s"
  by (auto simp: quietly_def)

lemma update_rows_none: "(\<And>x. x \<in> set xs \<Longrightarrow> \<not> P x) \<Longrightarrow> update_rows P f xs = xs"
  by (simp add: update_rows_def map_idI)

lemma update_task_none: "(\<And>q. q \<in> set (db_tasks s) \<Longrightarrow> \<not> P q) \<Longrightarrow> update_task P f s = Inl ErrNoRows"
  by (auto simp: update_task_def tx_update_def find_Some_iff split: option.splits)

lemma find_task:
  assumes "task_keys_ok rows" and "q \<in> set rows"
  shows "find (\<lambda>r. sql_eq (q_ID r) (q_ID q) \<and> P r) rows = (if P q then Some q else None)"
proof -
  have key: "sql_eq (q_ID r) (q_ID q) \<longleftrightarrow> r = q" if "r \<in> set rows" for r
    using assms that unfolding task_keys_ok_def sql_eq_def by (metis distinct_map image_eqI inj_onD)
  have "find (\<lambda>r. sql_eq (q_ID r) (q_ID q) \<and> P r) rows = find (\<lambda>r. r = q \<and> P q) rows"
    using key by (intro find_cong) auto
  also have "\<dots> = (if P q then Some q else None)"
    using assms(2) by (induction rows) (auto simp: find_None_iff)
  finally show ?thesis .
qed

lemma GetAgentTask_row:
  "task_keys_ok (db_tasks s) \<Longrightarrow> q \<in> set (db_tasks s) \<Longrightarrow> GetAgentTask (q_ID q) s = Inr (q, s)"
  using find_task [of "db_tasks s" q "\<lambda>_. True"] by (simp add: GetAgentTask_def)

lemma ReconcileAgentStatus_tasks: "ReconcileAgentStatus aid s = Inr (u, t) \<Longrightarrow> db_tasks t = db_tasks s"
  unfolding ReconcileAgentStatus_def by (auto dest!: RefreshAgentStatus_Inr)

lemma capacity_agent:
  "find (\<lambda>a. sql_eq (ag_ID a) aid) (db_agents s) = Some agent \<Longrightarrow> capacity aid s = ag_MaxConcurrentTasks agent"
  by (simp add: capacity_def agent_capacities_def find_capacity)

section \<open>Claims\<close>

lemma claim_tx_outcome:
  assumes "task_keys_ok (db_tasks s)" and "claim_tx \<epsilon> aid s = Inr (x, t)"
  shows "x = None \<and> t = s \<and> (capacity aid s \<le> task_load aid s \<or> next_claim aid s = None) \<or>
    (\<exists>c. next_claim aid s = Some c \<and> task_load aid s < capacity aid s \<and> x = Some (dispatch_row_now \<epsilon> c))"
proof -
  obtain agent where agent: "find (\<lambda>a. sql_eq (ag_ID a) aid) (db_agents s) = Some agent"
    using assms(2) by (auto simp: claim_tx_def GetAgentForClaimUpdate_def)
  note cap = capacity_agent [OF agent]
  show ?thesis
  proof (cases "capacity aid s \<le> task_load aid s")
    case True
    then show ?thesis using assms(2) agent cap
      by (auto simp: claim_tx_def GetAgentForClaimUpdate_def CountRunningTasks_def task_load_def)
  next
    case False
    then have "tx_absent (ClaimAgentTask \<epsilon> aid prepareLeaseDuration) s = Inr (x, t)"
      using assms(2) agent cap
      by (auto simp: claim_tx_def GetAgentForClaimUpdate_def CountRunningTasks_def task_load_def split: if_splits)
    then show ?thesis
    proof (cases "next_claim aid s")
      case None
      with \<open>tx_absent _ s = _\<close> show ?thesis
        by (auto simp: ClaimAgentTask_def)
    next
      case (Some c)
      have "find (\<lambda>r. sql_eq (q_ID r) (q_ID c)) (db_tasks s) = Some c"
        using find_task [OF assms(1) next_claim_Some(1) [OF Some], of "\<lambda>_. True"] by simp
      then have "ClaimAgentTask \<epsilon> aid prepareLeaseDuration s \<noteq> Inl ErrNoRows"
        using Some by (simp add: ClaimAgentTask_def tx_bind_def tx_one_def update_task_def tx_update_def)
      with \<open>tx_absent _ s = _\<close> obtain q where q: "x = Some q"
          "ClaimAgentTask \<epsilon> aid prepareLeaseDuration s = Inr (q, t)" by auto
      from ClaimAgentTask_Inr [OF q(2)] Some \<open>find _ (db_tasks s) = Some c\<close> have "q = dispatch_row_now \<epsilon> c" by auto
      with q(1) Some False show ?thesis by auto
    qed
  qed
qed

lemma next_claim_best:
  assumes "next_claim aid s = Some c" and "r \<in> set (db_tasks s)" and "claimable aid s r"
  shows "claim_rank c \<le> claim_rank r"
proof -
  obtain rest where "sort_key claim_rank (filter (claimable aid s) (db_tasks s)) = c # rest"
    using assms(1) by (auto simp: next_claim_def split: list.splits)
  from sort_key_hd_le [OF this] assms(2,3) show ?thesis by simp
qed

text \<open>C26: A claim takes the best task there is: the result is a task of the agent that waited and whose issue
  it was not working on, of the highest priority and then the oldest, now dispatched under a lease of 45
  seconds; and there is no result only when the agent is at its limit or has no such task, and then
  nothing changes.\<close>
theorem claim_takes_best:
  assumes "task_keys_ok (db_tasks s)" and "ClaimTask \<epsilon> aid s = Inr (claimed_task, t)"
  shows "case claimed_task of
      None \<Rightarrow> t = s \<and> (task_load aid s < capacity aid s \<longrightarrow> filter (claimable aid s) (db_tasks s) = [])
    | Some q \<Rightarrow> task_load aid s < capacity aid s \<and> q \<in> set (db_tasks t) \<and>
        (\<exists>c \<in> set (db_tasks s). claimable aid s c \<and> q = dispatch_row_now \<epsilon> c \<and>
           (\<forall>r \<in> set (db_tasks s). claimable aid s r \<longrightarrow> claim_rank c \<le> claim_rank r))"
proof (cases claimed_task)
  case None
  then have "claim_tx \<epsilon> aid s = Inr (None, t)"
    using assms(2) by (auto simp: ClaimTask_def split: option.splits)
  from claim_tx_outcome [OF assms(1) this] have "t = s" "capacity aid s \<le> task_load aid s \<or> next_claim aid s = None"
    by auto
  moreover have "filter (claimable aid s) (db_tasks s) = []" if "next_claim aid s = None"
  proof -
    have "sort_key claim_rank (filter (claimable aid s) (db_tasks s)) = []"
      using that by (simp add: next_claim_def split: list.splits)
    then show ?thesis by (metis length_0_conv length_sort)
  qed
  ultimately show ?thesis using None by auto
next
  case (Some q)
  obtain u where u: "claim_tx \<epsilon> aid s = Inr (Some q, u)" "db_tasks t = db_tasks u"
    using assms(2) Some by (auto simp: ClaimTask_def dest!: ReconcileAgentStatus_tasks split: option.splits)
  from claim_tx_outcome [OF assms(1) u(1)] obtain c where
      c: "next_claim aid s = Some c" "task_load aid s < capacity aid s" "q = dispatch_row_now \<epsilon> c" by auto
  have "ClaimAgentTask \<epsilon> aid prepareLeaseDuration s = Inr (q, u)" using claim_tx_Inr [OF u(1)] by auto
  from ClaimAgentTask_Inr [OF this] c(1) have "db_tasks u =
      update_rows (\<lambda>r. sql_eq (q_ID r) (q_ID c)) (dispatch_row_now \<epsilon>) (db_tasks s)"
    by (auto simp: put_tasks_def)
  moreover obtain pre post where "update_rows (\<lambda>r. sql_eq (q_ID r) (q_ID c)) (dispatch_row_now \<epsilon>) (db_tasks s) =
      pre @ dispatch_row_now \<epsilon> c # post"
    using update_one [OF assms(1) next_claim_Some(1) [OF c(1)]] by metis
  ultimately have "q \<in> set (db_tasks t)" using c(3) u(2) by simp
  then show ?thesis
    using Some c next_claim_Some [OF c(1)] next_claim_best [OF c(1)] by auto
qed

theorem claim_takes_best_witness:
  "\<exists>c \<in> set (db_tasks waiting). claimable (Some ''g'') waiting c \<and> hd (db_tasks claimed) = dispatch_row_now demo_env c"
proof -
  have keys: "task_keys_ok (db_tasks waiting)"
    using serves_sound [OF busy_serves(1) busy_queue_sound] by (simp add: queue_sound_def)
  let ?t = "after (ClaimTask demo_env (Some ''g'')) waiting"
  have "outcome (tx_bind (ClaimTask demo_env (Some ''g'')) (\<lambda>x. tx_return (x \<noteq> None))) waiting = Some True"
    by code_simp
  from outcome_of [OF this] obtain q where q: "ClaimTask demo_env (Some ''g'') waiting = Inr (Some q, ?t)" by auto
  have "db_tasks ?t = db_tasks claimed" "length (db_tasks claimed) = 1" by code_simp+
  then have "set (db_tasks ?t) = {hd (db_tasks claimed)}" by (cases "db_tasks claimed") auto
  with claim_takes_best [OF keys q] show ?thesis by auto
qed

section \<open>Reports\<close>

lemma key_row:
  "task_keys_ok rows \<Longrightarrow> q \<in> set rows \<Longrightarrow> r \<in> set rows \<Longrightarrow> sql_eq (q_ID r) (q_ID q) \<Longrightarrow> r = q"
  unfolding task_keys_ok_def sql_eq_def distinct_map inj_on_def by blast

lemma settled_or_lost:
  "act s = Inl e \<Longrightarrow> GetAgentTask tid s = Inr (q, s) \<Longrightarrow>
     settled_or msg tid act s = (if is_no_rows e then Inr (Inl q, s) else Inl (Wrapped msg e))"
  by (simp add: settled_or_def tx_bind_def tx_try_def)

text \<open>C37: A report on a task that is settled changes nothing: completing, failing or cancelling a completed, failed
  or cancelled task returns the stored row, so a daemon may repeat a report whose answer it lost.\<close>
theorem settled_report_changes_nothing:
  assumes "task_keys_ok (db_tasks s)" and "q \<in> set (db_tasks s)" and "terminal_task q"
  shows "CompleteTask \<epsilon> posted (q_ID q) result p s = Inr (q, s) \<and>
    FailTask \<epsilon> now posted (q_ID q) errMsg why p s = Inr (q, s) \<and> CancelTask \<epsilon> (q_ID q) s = Inr (q, s)"
proof -
  note row = GetAgentTask_row [OF assms(1,2)]
  have only: "\<not> (sql_eq (q_ID r) (q_ID q) \<and> P r)" if "r \<in> set (db_tasks s)" "\<not> P q" for r and P
    using key_row [OF assms(1,2) that(1)] that(2) by auto
  have c: "CompleteAgentTask \<epsilon> (q_ID q) result p s = Inl ErrNoRows"
    and f: "FailAgentTask \<epsilon> (q_ID q) errMsg reason p s = Inl ErrNoRows"
    and x: "CancelAgentTask \<epsilon> (q_ID q) s = Inl ErrNoRows" for reason
    unfolding CompleteAgentTask_def FailAgentTask_def CancelAgentTask_def
    by (rule update_task_none, erule only, use assms(3) in
        \<open>auto simp: terminal_task_def in_flight_def isActiveAgentTaskStatus_def\<close>)+
  have "CompleteTask \<epsilon> posted (q_ID q) result p s = Inr (q, s)"
    using settled_or_lost [of "CompleteAgentTask \<epsilon> (q_ID q) result p", OF c row]
    by (simp add: CompleteTask_def tx_bind_def)
  moreover have lost: "fail_tx \<epsilon> (q_ID q) errMsg reason p retry s = Inl ErrNoRows" for reason retry
    using f by (simp add: fail_tx_def tx_bind_def)
  then have "settled_or ''fail task'' (q_ID q) (fail_tx \<epsilon> (q_ID q) errMsg reason p retry) s = Inr (Inl q, s)"
    for reason retry
    using settled_or_lost [of "fail_tx \<epsilon> (q_ID q) errMsg reason p retry", OF lost row] by simp
  then have "FailTask \<epsilon> now posted (q_ID q) errMsg why p s = Inr (q, s)"
    by (simp add: FailTask_def Let_def tx_bind_def tx_query_def)
  moreover have "CancelTask \<epsilon> (q_ID q) s = Inr (q, s)"
    using x row by (simp add: CancelTask_def cancelTask_def tx_bind_def tx_wrap_def tx_absent_def)
  ultimately show ?thesis by blast
qed

definition no_session :: session_report where
  "no_session =
     \<lparr>sr_SessionID = [], sr_WorkDir = [], sr_BranchName = [], sr_SessionRolloutMissing = False,
      sr_RetiredSessionID = []\<rparr>"

definition finished :: db where
  "finished = after (queue_handle demo_env 5 (QComplete False (Some ''a'') [] (JObj []) no_session)) working"

theorem settled_report_changes_nothing_witness:
  "FailTask demo_env 9 True (Some ''a'') ''lost'' ''timeout'' no_session finished = Inr (hd (db_tasks finished), finished)"
proof -
  have f: "db_tasks finished \<noteq> []" "q_ID (hd (db_tasks finished)) = Some ''a''" "terminal_task (hd (db_tasks finished))"
      "map q_ID (db_tasks finished) = [Some ''a'']"
    by code_simp+
  have "task_keys_ok (db_tasks finished)"
    using f(4) unfolding task_keys_ok_def by (metis distinct_singleton list.set_map list.simps(15) empty_set
        insert_iff empty_iff option.distinct(1))
  from settled_report_changes_nothing [OF this hd_in_set [OF f(1)] f(3)] f(2) show ?thesis by simp
qed

section \<open>Retries\<close>

section \<open>Retries\<close>

lemma FailAgentTask_row:
  assumes "task_keys_ok (db_tasks s)" and "q \<in> set (db_tasks s)" and "in_flight q"
  shows "\<exists>f. FailAgentTask \<epsilon> (q_ID q) errMsg reason p s = Inr (f q,
      put_tasks (update_rows (\<lambda>r. sql_eq (q_ID r) (q_ID q) \<and> in_flight r) f (db_tasks s)) s) \<and>
    (\<forall>r. same_work r (f r) \<and> q_Status (f r) = ''failed'' \<and>
       q_FailureReason (f r) = Some (if reason = [] then ''agent_error'' else reason) \<and>
       q_SessionID (f r) = (if sr_SessionRolloutMissing p then None
         else coalesce (textValue (sr_SessionID p)) (q_SessionID r)))"
proof -
  define f :: "AgentTaskRow \<Rightarrow> AgentTaskRow" where "f = (\<lambda>q. q\<lparr>q_Status := ''failed'', q_CompletedAt := Some (env_now \<epsilon>), q_Error := Some errMsg,
              q_FailureReason := coalesce (textValue reason) (Some ''agent_error''),
              q_SessionID := (if sr_SessionRolloutMissing p then None
                else coalesce (textValue (sr_SessionID p)) (q_SessionID q)),
              q_WorkDir := coalesce (textValue (sr_WorkDir p)) (q_WorkDir q),
              q_BranchName := coalesce (textValue (sr_BranchName p)) (q_BranchName q),
              q_SessionRolloutMissing := sr_SessionRolloutMissing p,
              q_RetiredSessionID := coalesce (textValue (sr_RetiredSessionID p)) (q_RetiredSessionID q),
              q_PrepareLeaseExpiresAt := None\<rparr>)"
  have "FailAgentTask \<epsilon> (q_ID q) errMsg reason p s = Inr (f q,
      put_tasks (update_rows (\<lambda>r. sql_eq (q_ID r) (q_ID q) \<and> in_flight r) f (db_tasks s)) s)"
    using find_task [OF assms(1,2), of in_flight] assms(3)
    by (simp add: FailAgentTask_def update_task_def tx_update_def f_def)
  moreover have "same_work r (f r) \<and> q_Status (f r) = ''failed'' \<and>
       q_FailureReason (f r) = Some (if reason = [] then ''agent_error'' else reason) \<and>
       q_SessionID (f r) = (if sr_SessionRolloutMissing p then None
         else coalesce (textValue (sr_SessionID p)) (q_SessionID r))" for r
    by (simp add: f_def same_work_def same_job_def same_task_row_def coalesce_def textValue_def)
  ultimately show ?thesis by blast
qed

lemma update_keyed:
  assumes "task_keys_ok rows" and "c \<in> set rows" and "P c"
  obtains pre post where "rows = pre @ c # post"
    and "update_rows (\<lambda>r. sql_eq (q_ID r) (q_ID c) \<and> P r) f rows = pre @ f c # post"
proof -
  have "update_rows (\<lambda>r. sql_eq (q_ID r) (q_ID c) \<and> P r) f rows = update_rows (\<lambda>r. sql_eq (q_ID r) (q_ID c)) f rows"
    using key_row [OF assms(1,2)] assms(3) by (auto simp: update_rows_def)
  with update_one [OF assms(1,2), of f] show ?thesis using that by metis
qed

lemma insert_task_clash:
  assumes "r \<in> set (db_tasks s)" and "same_pending r row"
  shows "\<exists>name. insert_task row s = Inl (UniqueViolation name)"
proof -
  have "list_ex (\<lambda>q. same_pending q row) (db_tasks s)" using assms by (auto simp: list_ex_iff)
  then show ?thesis by (auto simp: insert_task_def tx_insert_def)
qed

text \<open>C11: A report can be lost to the pending index: when a task in flight fails for a reason that is retried
  at once while another task of the agent on the issue waits, the clone breaks the index, the whole
  transaction is rolled back, and the task stays in flight however often the daemon reports; and while it
  does, the task that waits cannot be claimed either.\<close>
theorem retried_failure_is_lost:
  assumes "task_keys_ok (db_tasks s)" and "q \<in> set (db_tasks s)" and "in_flight q"
    and "retryEligible (report_reason why errMsg) q" and "retryDelayForAttempt (report_reason why errMsg) (q_Attempt q) = 0"
    and "owners_exist s (q_AgentID q) (q_IssueID q) (q_RuntimeID q)"
    and "r \<in> set (db_tasks s)" and "r \<noteq> q" and "q_Status r = ''queued''" and "q_IssueID r = q_IssueID q"
    and "q_AgentID r = Some agent" and "q_AgentID q = Some agent"
  shows "\<exists>name. FailTask \<epsilon> now posted (q_ID q) errMsg why p s =
      Inl (Wrapped ''fail task'' (Wrapped ''create retry task'' (UniqueViolation name))) \<and>
    \<not> claimable (Some agent) s r"
proof -
  let ?reason = "report_reason why errMsg"
  have "q_IssueID q \<noteq> None" using assms(4) by (simp add: retryEligible_def)
  obtain f where f: "FailAgentTask \<epsilon> (q_ID q) errMsg ?reason p s = Inr (f q,
        put_tasks (update_rows (\<lambda>r. sql_eq (q_ID r) (q_ID q) \<and> in_flight r) f (db_tasks s)) s)"
      "\<And>r. same_work r (f r)"
    using FailAgentTask_row [OF assms(1-3), of \<epsilon> errMsg ?reason p] by blast
  obtain pre post where rows: "db_tasks s = pre @ q # post"
      "update_rows (\<lambda>r. sql_eq (q_ID r) (q_ID q) \<and> in_flight r) f (db_tasks s) = pre @ f q # post"
    using update_keyed [OF assms(1,2), where P = in_flight and f = f] assms(3) by blast
  have find: "find (\<lambda>r. sql_eq (q_ID r) (q_ID q)) (db_tasks s) = Some q"
    using find_task [OF assms(1,2), of "\<lambda>_. True"] by simp
  have plan: "planned_retry now ?reason (Some q) = Some (None, retryAttemptCeiling ?reason (q_MaxAttempts q))"
    using assms(4,5) by (simp add: planned_retry_def retryEligible_def retry_fire_at_def)
  define s1 where "s1 = put_tasks (pre @ f q # post) s"
  have fq: "q_ID (f q) = q_ID q" "q_AgentID (f q) = q_AgentID q" "q_IssueID (f q) = q_IssueID q"
      "q_RuntimeID (f q) = q_RuntimeID q"
    using f(2) [of q] by (simp_all add: same_work_def same_job_def same_task_row_def)
  have keys: "task_keys_ok (db_tasks s1)"
    using assms(1) by (simp add: s1_def put_tasks_def rows(1) task_keys_ok_def fq)
  have owners: "owners_exist s1 a i t = owners_exist s a i t" for a i t
    by (simp add: owners_exist_def s1_def put_tasks_def)
  have parent: "find (\<lambda>r. sql_eq (q_ID r) (q_ID q) \<and> owners_exist s1 (q_AgentID r) (q_IssueID r) (q_RuntimeID r))
      (db_tasks s1) = Some (f q)"
  proof -
    have "f q \<in> set (db_tasks s1)" by (simp add: s1_def put_tasks_def)
    from find_task [OF keys this, of "\<lambda>r. owners_exist s1 (q_AgentID r) (q_IssueID r) (q_RuntimeID r)"] assms(6)
    show ?thesis by (simp add: fq owners)
  qed
  have r: "r \<in> set (db_tasks (s1\<lparr>db_drawn := n\<rparr>))" for n
    using assms(7,8) by (auto simp: s1_def put_tasks_def rows(1))
  have clash: "same_pending r (retry_task tid now' None m (f q))" for tid now' m
    using assms(9-12) \<open>q_IssueID q \<noteq> None\<close> by (simp add: same_pending_def in_pending_index_def sql_eq_def fq)
  have "\<exists>name. CreateRetryTask \<epsilon> (q_ID q) None m s1 = Inl (UniqueViolation name)" for m
    using insert_task_clash [OF r clash] parent
    by (simp add: CreateRetryTask_def tx_bind_def tx_one_def draw_uuid_def)
  then obtain name where "CreateRetryTask \<epsilon> (q_ID q) None (Some (retryAttemptCeiling ?reason (q_MaxAttempts q))) s1 =
      Inl (UniqueViolation name)" by blast
  then have "fail_tx \<epsilon> (q_ID q) errMsg ?reason p (planned_retry now ?reason (Some q)) s =
      Inl (Wrapped ''create retry task'' (UniqueViolation name))"
    using f(1) unfolding plan rows(2) s1_def [symmetric] by (simp add: fail_tx_def tx_bind_def tx_wrap_def)
  note lost = settled_or_lost [of "fail_tx \<epsilon> (q_ID q) errMsg ?reason p (planned_retry now ?reason (Some q))", OF this
      GetAgentTask_row [OF assms(1,2)]]
  have "FailTask \<epsilon> now posted (q_ID q) errMsg why p s =
      Inl (Wrapped ''fail task'' (Wrapped ''create retry task'' (UniqueViolation name)))"
    unfolding FailTask_def Let_def by (simp add: tx_bind_def tx_query_def find lost)
  moreover have "\<not> claimable (Some agent) s r"
    using assms(2,3,10-12) \<open>q_IssueID q \<noteq> None\<close> by (auto simp: claimable_def list_ex_iff sql_eq_def)
  ultimately show ?thesis by blast
qed

theorem retried_failure_is_lost_witness:
  "FailTask demo_env 9 False (Some ''a'') ''x'' ''timeout'' no_session crowded =
     Inl (Wrapped ''fail task'' (Wrapped ''create retry task'' (UniqueViolation ''idx_one_pending_task_per_issue_agent_v2'')))"
proof -
  have sound: "queue_sound crowded"
    using serves_sound [OF busy_serves(3) busy_queue_sound] .
  obtain q r where rows: "db_tasks crowded = [q, r]" "q_ID q = Some ''a''" "q_Status q = ''running''"
      "q_ID r = Some ''aa''" "q_Status r = ''queued''"
    using work_states(4) by auto
  have cols: "map q_AgentID [q, r] = [Some ''g'', Some ''g'']" "map q_IssueID [q, r] = [Some ''m'', Some ''m'']"
      "map q_RuntimeID [q, r] = [Some ''t'', Some ''t'']" "map q_Attempt [q, r] = [1, 1]"
      "map q_MaxAttempts [q, r] = [2, 2]" "map q_OrchestrationRunID [q, r] = [None, None]"
    unfolding rows(1) [symmetric] by code_simp+
  have reason: "report_reason ''timeout'' ''x'' = ''timeout''" by code_simp
  have "\<exists>name. FailTask demo_env 9 False (q_ID q) ''x'' ''timeout'' no_session crowded =
      Inl (Wrapped ''fail task'' (Wrapped ''create retry task'' (UniqueViolation name))) \<and>
      \<not> claimable (Some ''g'') crowded r"
  proof (rule retried_failure_is_lost)
    show "task_keys_ok (db_tasks crowded)" using sound by (simp add: queue_sound_def)
    show "owners_exist crowded (q_AgentID q) (q_IssueID q) (q_RuntimeID q)"
      using cols by simp code_simp
  qed (use rows cols reason in \<open>auto simp: in_flight_def retryEligible_def retryableReasons_def retryAttemptCeiling_def
      retryDelayForAttempt_def\<close>)
  moreover have "(case FailTask demo_env 9 False (Some ''a'') ''x'' ''timeout'' no_session crowded of
      Inl (Wrapped _ (Wrapped _ (UniqueViolation name))) \<Rightarrow> name | _ \<Rightarrow> []) = ''idx_one_pending_task_per_issue_agent_v2''"
    by code_simp
  ultimately show ?thesis using rows(2) by auto
qed

lemma unique_ids_member:
  "r \<in> set rs \<Longrightarrow> uuidText r \<notin> uuidText ` set seen \<Longrightarrow> \<exists>r' \<in> set (unique_ids seen rs). uuidText r' = uuidText r"
  by (induction rs arbitrary: seen) auto

lemma promotion_fails:
  assumes "d \<in> set (db_tasks s)" and "P d" and "q_Status d = ''deferred''"
    and "r \<in> set (db_tasks s)" and "q_Status r \<in> {''queued'', ''dispatched''}" and "q_ID r \<noteq> q_ID d"
    and "\<And>q. P q \<Longrightarrow> q_Status q = ''deferred''"
    and "q_IssueID d = Some issue" and "q_IssueID r = Some issue" and "q_AgentID d = Some agent" and "q_AgentID r = Some agent"
  shows "update_tasks_indexed P (\<lambda>q. q\<lparr>q_Status := ''queued''\<rparr>) s =
    Inl (UniqueViolation ''idx_one_pending_task_per_issue_agent_v2'')"
proof -
  let ?rows = "update_rows P (\<lambda>q. q\<lparr>q_Status := ''queued''\<rparr>) (db_tasks s)"
  have "d\<lparr>q_Status := ''queued''\<rparr> \<in> set ?rows" using assms(1,2) by (auto simp: set_update_rows)
  moreover have "r \<in> set ?rows" using assms(4,5,7) by (force simp: set_update_rows)
  moreover have "same_pending (d\<lparr>q_Status := ''queued''\<rparr>) r"
    using assms(5,8-11) by (auto simp: same_pending_def in_pending_index_def sql_eq_def)
  ultimately have "\<not> one_pending ?rows"
    unfolding one_pending_def using assms(6) by fastforce
  then show ?thesis using pending_unique_one by (auto simp: update_tasks_indexed_def)
qed

text \<open>C12: A deferred retry can block a machine: once it is due while another task of the agent on its issue waits or
  is dispatched, the promotion that starts every poll breaks the pending index and fails, so polling its
  runtime, alone or among others, delivers no task of any agent.\<close>
theorem due_retry_blocks_runtime:
  assumes "d \<in> set (db_tasks s)" and "fire_due (env_now \<epsilon>) d" and "q_RuntimeID d = Some runtime"
    and "r \<in> set (db_tasks s)" and "q_Status r \<in> {''queued'', ''dispatched''}" and "q_ID r \<noteq> q_ID d"
    and "q_IssueID d = Some issue" and "q_IssueID r = Some issue" and "q_AgentID d = Some agent" and "q_AgentID r = Some agent"
    and "Some runtime \<in> set rids" and "runtime \<noteq> nil_uuid" and "0 < maxTasks"
  shows "ClaimTaskForRuntime \<epsilon> isEmpty (Some runtime) s =
      Inl (Wrapped ''promote due deferred tasks'' (UniqueViolation ''idx_one_pending_task_per_issue_agent_v2'')) \<and>
    ClaimTasksForRuntimes \<epsilon> empties rids maxTasks s =
      Inl (Wrapped ''promote deferred tasks'' (UniqueViolation ''idx_one_pending_task_per_issue_agent_v2''))"
proof
  have d: "q_Status d = ''deferred''" using assms(2) by (simp add: fire_due_def)
  have one: "PromoteDueDeferredTasksForRuntime_query \<epsilon> (Some runtime) s =
      Inl (UniqueViolation ''idx_one_pending_task_per_issue_agent_v2'')"
    unfolding PromoteDueDeferredTasksForRuntime_query_def
    by (rule promotion_fails [OF assms(1) _ d assms(4-6) _ assms(7-10)])
      (use assms(2,3) in \<open>auto simp: sql_eq_def fire_due_def\<close>)
  then show "ClaimTaskForRuntime \<epsilon> isEmpty (Some runtime) s =
      Inl (Wrapped ''promote due deferred tasks'' (UniqueViolation ''idx_one_pending_task_per_issue_agent_v2''))"
    by (simp add: ClaimTaskForRuntime_def PromoteDueDeferredTasksForRuntime_def tx_bind_def tx_wrap_def)
  obtain x where "x \<in> set (unique_ids [] rids)" "uuidText x = runtime"
    using unique_ids_member [OF assms(11), of "[]"] by auto
  moreover have "x = Some runtime" using \<open>uuidText x = runtime\<close> assms(12) by (cases x) auto
  ultimately have "Some runtime \<in> set (unique_ids [] rids)" by simp
  then have many: "PromoteDueDeferredTasksForRuntimes_query \<epsilon> (unique_ids [] rids) s =
      Inl (UniqueViolation ''idx_one_pending_task_per_issue_agent_v2'')"
    unfolding PromoteDueDeferredTasksForRuntimes_query_def
    by (intro promotion_fails [OF assms(1) _ d assms(4-6) _ assms(7-10)])
      (use assms(2,3) in \<open>auto simp: fire_due_def\<close>)
  moreover have "rids \<noteq> []" using assms(11) by auto
  ultimately show "ClaimTasksForRuntimes \<epsilon> empties rids maxTasks s =
      Inl (Wrapped ''promote deferred tasks'' (UniqueViolation ''idx_one_pending_task_per_issue_agent_v2''))"
    using assms(13) by (simp add: ClaimTasksForRuntimes_def Let_def tx_bind_def tx_wrap_def)
qed

text \<open>A provider that is away twice: the second retry is deferred, and meanwhile a task is enqueued.\<close>

definition network_failure :: "uuid \<Rightarrow> queue_event" where
  "network_failure tid = QFail False tid ''x'' ''agent_error.provider_network'' no_session"

definition backing_off :: db where
  "backing_off =
     after (queue_handle demo_env 5 (network_failure (Some ''aa'')))
     (after (queue_handle demo_env 5 (QStart (Some ''aa'')))
     (after (queue_handle demo_env 5 (QClaim False (Some ''t'')))
     (after (queue_handle demo_env 5 (network_failure (Some ''a''))) working)))"

definition blocked :: db where
  "blocked = after (CreateAgentTask demo_env work_params) backing_off"

lemma blocked_rows:
  "map (\<lambda>q. (q_ID q, q_Status q)) (db_tasks blocked) =
     [(Some ''a'', ''failed''), (Some ''aa'', ''failed''), (Some ''aaa'', ''deferred''), (Some ''aaaa'', ''queued'')]"
  "map (\<lambda>q. (q_RuntimeID q, q_IssueID q, q_AgentID q)) (db_tasks blocked) =
     replicate 4 (Some ''t'', Some ''m'', Some ''g'')"
  "map q_FireAt (drop 2 (db_tasks blocked)) = [Some 5000000005, None]"
  by code_simp+

theorem due_retry_blocks_runtime_witness:
  "ClaimTaskForRuntime (demo_env\<lparr>env_now := 6000000000\<rparr>) False (Some ''t'') blocked =
     Inl (Wrapped ''promote due deferred tasks'' (UniqueViolation ''idx_one_pending_task_per_issue_agent_v2''))"
proof -
  obtain x y d r where rows: "db_tasks blocked = [x, y, d, r]" "q_ID d = Some ''aaa''" "q_Status d = ''deferred''"
      "q_ID r = Some ''aaaa''" "q_Status r = ''queued''"
    using blocked_rows(1) by (auto simp: map_eq_Cons_conv)
  have cols: "q_RuntimeID d = Some ''t''" "q_IssueID d = Some ''m''" "q_IssueID r = Some ''m''" "q_AgentID d = Some ''g''"
      "q_AgentID r = Some ''g''" "q_FireAt d = Some 5000000005"
    using blocked_rows(2,3) by (simp_all add: rows(1) eval_nat_numeral)
  show ?thesis
    using due_retry_blocks_runtime [of d blocked "demo_env\<lparr>env_now := 6000000000\<rparr>" "''t''" r "''m''" "''g''" "[Some ''t'']" 1]
      rows cols by (simp add: fire_due_def nil_uuid_def)
qed

end
