(* ===== verification/QueueRecovery.thy ===== *)
theory QueueRecovery
  imports QueueReports
begin

text \<open>
  What follows a failure: the automatic retry and its bounds, the recovery of a runtime whose daemon
  restarted, and the reasons of failures.
\<close>

section \<open>Bounded retries\<close>

lemma settled_or_Inr:
  assumes "settled_or msg tid act s = Inr (r, t)"
  shows "(\<exists>a. act s = Inr (a, t) \<and> r = Inr a) \<or> (\<exists>q. r = Inl q \<and> t = s)"
proof (cases "act s")
  case (Inl e)
  with assms show ?thesis
    by (auto simp: settled_or_def tx_bind_def tx_try_def GetAgentTask_def tx_one_def tx_fail_def tx_return_def
        split: sum.splits option.splits if_splits)
next
  case (Inr p)
  with assms show ?thesis by (cases p) (auto simp: settled_or_def tx_bind_def tx_try_def)
qed

lemma createAgentComment_tasks:
  "createAgentComment \<epsilon> posted iid aid s = Inr (u, t) \<Longrightarrow> length (db_tasks t) = length (db_tasks s)"
  by (auto simp: createAgentComment_def CancelDeferredEscalationsForIssueAgent_def put_tasks_def
      CancelDeferredEscalationsForIssueAgent_query_def update_tasks_def split: if_splits)

lemma FailTask_retried:
  assumes "FailTask \<epsilon> now posted tid errMsg why p s = Inr (task, t)"
    and "length (db_tasks t) \<noteq> length (db_tasks s)"
  shows "\<exists>parent fireAt maxAttempts child s' t'. find (\<lambda>q. sql_eq (q_ID q) tid) (db_tasks s) = Some parent \<and>
      planned_retry now (report_reason why errMsg) (Some parent) = Some (fireAt, maxAttempts) \<and>
      FailAgentTask \<epsilon> tid errMsg (report_reason why errMsg) p s = Inr (task, s') \<and>
      CreateRetryTask \<epsilon> tid fireAt (Some maxAttempts) s' = Inr (child, t') \<and> db_tasks t = db_tasks t'"
proof -
  let ?reason = "report_reason why errMsg" and ?parent = "find (\<lambda>q. sql_eq (q_ID q) tid) (db_tasks s)"
  obtain r s1 where r: "settled_or ''fail task'' tid (fail_tx \<epsilon> tid errMsg ?reason p (planned_retry now ?reason ?parent)) s =
      Inr (r, s1)"
    and rest: "(case r of
        Inl existing \<Rightarrow> tx_return existing
      | Inr (task, retried) \<Rightarrow>
          tx_bind (if errMsg \<noteq> [] \<and> q_IssueID task \<noteq> None \<and> retried = None
            then createAgentComment \<epsilon> posted (q_IssueID task) (q_AgentID task) else tx_return ()) (\<lambda>_.
          tx_bind (ReconcileAgentStatus (q_AgentID task)) (\<lambda>_. tx_return task))) s1 = Inr (task, t)"
    using assms(1) unfolding FailTask_def Let_def by (auto simp del: not_None_eq)
  show ?thesis
  proof (cases r)
    case (Inl q)
    with rest settled_or_Inr [OF r] assms(2) show ?thesis by auto
  next
    case (Inr a)
    obtain task' retried where a: "a = (task', retried)" by (cases a)
    have tx: "fail_tx \<epsilon> tid errMsg ?reason p (planned_retry now ?reason ?parent) s = Inr ((task', retried), s1)"
      using settled_or_Inr [OF r] Inr a by auto
    obtain s2 u where s2: "(if errMsg \<noteq> [] \<and> q_IssueID task' \<noteq> None \<and> retried = None
            then createAgentComment \<epsilon> posted (q_IssueID task') (q_AgentID task') else tx_return ()) s1 = Inr (u, s2)"
        "db_tasks t = db_tasks s2" "task' = task"
      using rest Inr a by (auto dest!: ReconcileAgentStatus_tasks)
    obtain s' where s': "FailAgentTask \<epsilon> tid errMsg ?reason p s = Inr (task', s')"
      using tx by (auto simp: fail_tx_def split: option.splits prod.splits)
    have same: "length (db_tasks s') = length (db_tasks s)"
      using s' by (auto simp: FailAgentTask_def update_task_def tx_update_Inr put_tasks_def)
    show ?thesis
    proof (cases retried)
      case None
      then have "s1 = s'" using tx s' by (auto simp: fail_tx_def split: option.splits prod.splits)
      moreover have "length (db_tasks s2) = length (db_tasks s1)"
        using s2(1) by (auto dest: createAgentComment_tasks split: if_splits)
      ultimately show ?thesis using same s2(2) assms(2) by simp
    next
      case (Some child)
      then obtain fireAt maxAttempts where plan: "planned_retry now ?reason ?parent = Some (fireAt, maxAttempts)"
          "CreateRetryTask \<epsilon> tid fireAt (Some maxAttempts) s' = Inr (child, s1)"
        using tx s' by (auto simp: fail_tx_def split: option.splits prod.splits)
      moreover obtain parent where "?parent = Some parent"
        using plan(1) by (auto simp: planned_retry_def split: option.splits)
      ultimately show ?thesis using s' s2 Some by auto
    qed
  qed
qed

text \<open>C27: Automatic retries are bounded: a failure report adds at most one task, a retry of the task it reports,
  with the next attempt number, at most three or what the failed task was allowed; only work of an issue
  is retried, and never the task of an orchestration run; the retry must start a fresh session exactly
  if the reason is \<open>codex_semantic_inactivity\<close>, and it resumes no session then or when the report
  says that the session's rollout is missing, but otherwise the session the report names, or else that
  of the failed task; the third attempt after a network failure waits for five seconds.\<close>
theorem retry_is_bounded:
  assumes "task_keys_ok (db_tasks s)" and "FailTask \<epsilon> now posted tid errMsg why p s = Inr (task, t)"
    and "length (db_tasks t) \<noteq> length (db_tasks s)"
  shows "\<exists>parent \<in> set (db_tasks s). \<exists>child \<in> set (db_tasks t).
    length (db_tasks t) = length (db_tasks s) + 1 \<and> q_ID parent = tid \<and> in_flight parent \<and>
    q_RetryOfTaskID child = tid \<and> q_Attempt child = q_Attempt parent + 1 \<and> q_Attempt child \<le> q_MaxAttempts child \<and>
    q_MaxAttempts child \<le> max 3 (q_MaxAttempts parent) \<and> q_OrchestrationRunID parent = None \<and>
    q_OrchestrationRunID child = None \<and> q_IssueID child = q_IssueID parent \<and> q_IssueID parent \<noteq> None \<and>
    q_ForceFreshSession child = (report_reason why errMsg = ''codex_semantic_inactivity'') \<and>
    q_SessionID child = (if report_reason why errMsg = ''codex_semantic_inactivity'' \<or> sr_SessionRolloutMissing p
      then None else coalesce (textValue (sr_SessionID p)) (q_SessionID parent)) \<and>
    q_FireAt child = (if report_reason why errMsg = ''agent_error.provider_network'' \<and> 2 \<le> q_Attempt parent
      then Some (now + 5 * second) else None)"
proof -
  let ?reason = "report_reason why errMsg"
  obtain parent fireAt maxAttempts child s' t' where
      parent: "find (\<lambda>q. sql_eq (q_ID q) tid) (db_tasks s) = Some parent"
    and plan: "planned_retry now ?reason (Some parent) = Some (fireAt, maxAttempts)"
    and fail: "FailAgentTask \<epsilon> tid errMsg ?reason p s = Inr (task, s')"
    and retry: "CreateRetryTask \<epsilon> tid fireAt (Some maxAttempts) s' = Inr (child, t')" and t: "db_tasks t = db_tasks t'"
    using FailTask_retried [OF assms(2,3)] by blast
  have q: "parent \<in> set (db_tasks s)" "sql_eq (q_ID parent) tid" using parent by (auto simp: find_Some_iff)
  then have tid: "tid = q_ID parent" by (simp add: sql_eq_def)
  have flying: "in_flight parent"
  proof -
    obtain r where "find (\<lambda>q. sql_eq (q_ID q) tid \<and> in_flight q) (db_tasks s) = Some r"
      using fail unfolding FailAgentTask_def update_task_def tx_update_Inr by blast
    then have "r \<in> set (db_tasks s)" "sql_eq (q_ID r) tid" "in_flight r" by (auto simp: find_Some_iff)
    then show ?thesis using key_row [OF assms(1) q(1)] tid by auto
  qed
  obtain f where f: "s' = put_tasks (update_rows (\<lambda>r. sql_eq (q_ID r) (q_ID parent) \<and> in_flight r) f (db_tasks s)) s"
      "same_work parent (f parent)" "q_FailureReason (f parent) = Some (if ?reason = [] then ''agent_error'' else ?reason)"
      "q_SessionID (f parent) = (if sr_SessionRolloutMissing p then None
        else coalesce (textValue (sr_SessionID p)) (q_SessionID parent))"
    using FailAgentTask_row [OF assms(1) q(1) flying, of \<epsilon> errMsg ?reason p] fail tid by auto
  obtain pre post where rows: "db_tasks s = pre @ parent # post" "db_tasks s' = pre @ f parent # post"
    using update_keyed [OF assms(1) q(1), where P = in_flight and f = f] flying f(1) by (auto simp: put_tasks_def)
  have fp: "q_ID (f parent) = q_ID parent" "q_Attempt (f parent) = q_Attempt parent" "q_IssueID (f parent) = q_IssueID parent"
    using f(2) by (simp_all add: same_work_def same_job_def same_task_row_def)
  have keys: "task_keys_ok (db_tasks s')"
    using assms(1) by (simp add: rows task_keys_ok_def fp)
  obtain p' uid where p': "find (\<lambda>q. sql_eq (q_ID q) tid \<and>
         owners_exist s' (q_AgentID q) (q_IssueID q) (q_RuntimeID q)) (db_tasks s') = Some p'"
      "child = retry_task uid (env_now \<epsilon>) fireAt (Some maxAttempts) p'" "db_tasks t' = db_tasks s' @ [child]"
    using CreateRetryTask_Inr [OF retry] by (auto simp: put_tasks_def)
  have "p' = f parent"
  proof (rule key_row [OF keys])
    show "f parent \<in> set (db_tasks s')" by (simp add: rows)
    show "p' \<in> set (db_tasks s')" using p'(1) by (auto simp: find_Some_iff)
    show "sql_eq (q_ID p') (q_ID (f parent))" using p'(1) tid by (auto simp: find_Some_iff fp)
  qed
  note child = p'(2) [unfolded this]
  have e: "retryEligible ?reason parent" "fireAt = retry_fire_at now ?reason (q_Attempt parent)"
      "maxAttempts = retryAttemptCeiling ?reason (q_MaxAttempts parent)"
    using plan by (auto simp: planned_retry_def split: if_splits)
  have "?reason \<noteq> []" using e(1) by (auto simp: retryEligible_def retryableReasons_def)
  then have fresh: "q_ForceFreshSession child = (?reason = ''codex_semantic_inactivity'')"
    using f(3) by (simp add: child retry_task_def Let_def)
  have session: "q_SessionID child = (if ?reason = ''codex_semantic_inactivity'' \<or> sr_SessionRolloutMissing p
      then None else coalesce (textValue (sr_SessionID p)) (q_SessionID parent))"
    using f(3,4) \<open>?reason \<noteq> []\<close> by (simp add: child retry_task_def Let_def)
  have fire: "q_FireAt child = (if ?reason = ''agent_error.provider_network'' \<and> 2 \<le> q_Attempt parent
      then Some (now + 5 * second) else None)"
    by (simp add: child retry_task_def Let_def e(2) retry_fire_at_def retryDelayForAttempt_def
        providerNetworkMaxAttempts_def providerNetworkFinalRetryWait_def second_def)
  have attempts: "q_MaxAttempts child = maxAttempts" by (simp add: child retry_task_def Let_def)
  have cols: "q_RetryOfTaskID child = tid" "q_Attempt child = q_Attempt parent + 1" "q_OrchestrationRunID child = None"
      "q_IssueID child = q_IssueID parent"
    by (simp_all add: child fp tid)
  have bounds: "q_Attempt child \<le> q_MaxAttempts child" "q_MaxAttempts child \<le> max 3 (q_MaxAttempts parent)"
      "q_OrchestrationRunID parent = None" "q_IssueID parent \<noteq> None"
    using e(1) ceiling_widens(3) [of ?reason "q_MaxAttempts parent"]
    by (simp_all add: attempts cols e(3) retryEligible_def)
  have member: "child \<in> set (db_tasks t)" "length (db_tasks t) = length (db_tasks s) + 1"
    using t p'(3) rows by simp_all
  from q(1) show ?thesis
  proof (rule bexI [rotated])
    from member(1) show "\<exists>child \<in> set (db_tasks t).
      length (db_tasks t) = length (db_tasks s) + 1 \<and> q_ID parent = tid \<and> in_flight parent \<and>
      q_RetryOfTaskID child = tid \<and> q_Attempt child = q_Attempt parent + 1 \<and> q_Attempt child \<le> q_MaxAttempts child \<and>
      q_MaxAttempts child \<le> max 3 (q_MaxAttempts parent) \<and> q_OrchestrationRunID parent = None \<and>
      q_OrchestrationRunID child = None \<and> q_IssueID child = q_IssueID parent \<and> q_IssueID parent \<noteq> None \<and>
      q_ForceFreshSession child = (?reason = ''codex_semantic_inactivity'') \<and>
      q_SessionID child = (if ?reason = ''codex_semantic_inactivity'' \<or> sr_SessionRolloutMissing p
        then None else coalesce (textValue (sr_SessionID p)) (q_SessionID parent)) \<and>
      q_FireAt child = (if ?reason = ''agent_error.provider_network'' \<and> 2 \<le> q_Attempt parent
        then Some (now + 5 * second) else None)"
      by (intro bexI [of _ child] conjI member(2) flying fresh session fire cols bounds tid [symmetric])
  qed
qed

theorem retry_is_bounded_witness:
  "\<exists>child \<in> set (db_tasks (after (FailTask demo_env 5 False (Some ''a'') ''x'' ''timeout'' no_session) working)).
     q_RetryOfTaskID child = Some ''a'' \<and> q_Attempt child \<le> q_MaxAttempts child \<and> q_FireAt child = None"
proof -
  let ?t = "after (FailTask demo_env 5 False (Some ''a'') ''x'' ''timeout'' no_session) working"
  have w: "map q_ID (db_tasks working) = [Some ''a'']" "length (db_tasks ?t) = 2" "report_reason ''timeout'' ''x'' = ''timeout''"
    by code_simp+
  have keys: "task_keys_ok (db_tasks working)"
    using w(1) by (auto simp: task_keys_ok_def map_eq_Cons_conv)
  have "outcome (tx_bind (FailTask demo_env 5 False (Some ''a'') ''x'' ''timeout'' no_session)
      (\<lambda>q. tx_return (q_Status q = ''failed''))) working = Some True"
    by code_simp
  from outcome_of [OF this] obtain task where
      "FailTask demo_env 5 False (Some ''a'') ''x'' ''timeout'' no_session working = Inr (task, ?t)" by blast
  moreover have "length (db_tasks ?t) \<noteq> length (db_tasks working)"
    using w(1,2) by (metis length_map length_Cons list.size(3) numeral_2_eq_2 n_not_Suc_n One_nat_def)
  ultimately show ?thesis using retry_is_bounded [OF keys] w(3) by fastforce
qed

section \<open>Recovery\<close>

definition no_takeoff :: "db \<Rightarrow> db \<Rightarrow> bool" where
  "no_takeoff s t \<longleftrightarrow> (\<forall>q \<in> set (db_tasks t). in_flight q \<longrightarrow> q \<in> set (db_tasks s))"

interpretation landing: queue_retries no_takeoff
proof
  show "no_takeoff s s" for s by (simp add: no_takeoff_def)
  show "no_takeoff s u" if "no_takeoff s t" "no_takeoff t u" for s t u
    using that by (auto simp: no_takeoff_def)
  show "obeys no_takeoff (CreateRetryTask \<epsilon> pid fireAt m)" for \<epsilon> pid fireAt m
    by (rule obeysI, drule CreateRetryTask_Inr)
      (auto simp: no_takeoff_def put_tasks_def in_flight_def split: if_splits)
  show "obeys no_takeoff (RefreshAgentStatusFromTasks aid)" for aid
    by (rule obeysI, drule RefreshAgentStatus_Inr) (auto simp: no_takeoff_def)
  show "obeys no_takeoff (UpdateIssueStatus ws iid status)" for ws iid status
    unfolding UpdateIssueStatus_def by (rule obeys_update) (simp add: no_takeoff_def)
qed

text \<open>What follows a failure cannot fail: every step of it is tried.\<close>

definition succeeds :: "'a tx \<Rightarrow> bool" where
  "succeeds act \<longleftrightarrow> (\<forall>s. \<exists>a t. act s = Inr (a, t))"

lemma succeeds_rules:
  "succeeds (tx_return a)" "succeeds (tx_query f)" "succeeds (tx_try act)" "succeeds (quietly act)"
  by (auto simp: succeeds_def quietly_def tx_bind_def tx_try_def split: sum.splits)

lemma succeeds_bind: "succeeds act \<Longrightarrow> (\<And>a. succeeds (f a)) \<Longrightarrow> succeeds (tx_bind act f)"
  unfolding succeeds_def tx_bind_Inr by blast

lemma succeeds_sum:
  "(\<And>e. succeeds (f e)) \<Longrightarrow> (\<And>a. succeeds (g a)) \<Longrightarrow> succeeds (case r of Inl e \<Rightarrow> f e | Inr a \<Rightarrow> g a)"
  by (cases r) simp_all

lemma succeeds_if: "succeeds f \<Longrightarrow> succeeds g \<Longrightarrow> succeeds (if b then f else g)"
  by simp

lemma succeeds_HandleFailedTasks: "succeeds (HandleFailedTasks \<epsilon> now qs)"
proof -
  have reset: "succeeds (reset_stuck_issue q processed retriedIssues)" for q processed retriedIssues
    unfolding reset_stuck_issue_def HasActiveTaskForIssue_def
    by (intro succeeds_if succeeds_bind succeeds_sum succeeds_rules)
  have "succeeds (handle_failed_loop \<epsilon> now processed retriedIssues n qs)" for processed retriedIssues n
    by (induction qs arbitrary: processed retriedIssues n)
      (auto simp: Let_def intro!: succeeds_bind succeeds_rules reset)
  then show ?thesis
    unfolding HandleFailedTasks_def reconcile_agents_def by (intro succeeds_if succeeds_bind succeeds_rules)
qed

text \<open>C28: Recovery never fails and leaves a runtime idle: after a daemon restarts, none of the tasks of its runtime
  is in flight any more, and the caller learns how many were; a retry that cannot be made is skipped.\<close>
theorem recovered_runtime_is_idle:
  "\<exists>retried t. RecoverOrphanedTasks \<epsilon> now rid s =
      Inr ((int (length (filter (\<lambda>q. sql_eq (q_RuntimeID q) rid \<and> in_flight q) (db_tasks s))), retried), t) \<and>
    filter (\<lambda>q. sql_eq (q_RuntimeID q) rid \<and> in_flight q) (db_tasks t) = []"
proof -
  obtain rows s1 where u: "RecoverOrphanedTasksForRuntime \<epsilon> rid s = Inr (rows, s1)"
      "length rows = length (filter (\<lambda>q. sql_eq (q_RuntimeID q) rid \<and> in_flight q) (db_tasks s))"
    by (simp add: RecoverOrphanedTasksForRuntime_def update_tasks_def)
  have "\<not> (sql_eq (q_RuntimeID q) rid \<and> in_flight q)" if "q \<in> set (db_tasks s1)" for q
    using u(1) that by (auto simp: RecoverOrphanedTasksForRuntime_def update_tasks_def put_tasks_def set_update_rows
        in_flight_def)
  moreover obtain retried t where h: "HandleFailedTasks \<epsilon> now rows s1 = Inr (retried, t)"
    using succeeds_HandleFailedTasks [of \<epsilon> now rows] unfolding succeeds_def by blast
  moreover have "no_takeoff s1 t" using landing.HandleFailedTasks h by (rule obeysD)
  ultimately have "filter (\<lambda>q. sql_eq (q_RuntimeID q) rid \<and> in_flight q) (db_tasks t) = []"
    by (auto simp: no_takeoff_def filter_empty_conv)
  moreover have "RecoverOrphanedTasks \<epsilon> now rid s = Inr ((int (length rows), retried), t)"
    using u(1) h by (simp add: RecoverOrphanedTasks_def tx_bind_def)
  ultimately show ?thesis using u(2) by simp
qed

section \<open>Reasons\<close>

text \<open>The taxonomy of failures is closed: whatever the error text, the classifier answers with one of the 14
  reasons of the agent's side, of which only a network failure is retried and only an overflowed context
  forbids to resume the session; and normalizing a daemon's reason twice changes nothing more.\<close>
theorem failure_taxonomy_closed:
  "IsAgentError (Classify rawError) \<and>
   (Reason_String (Classify rawError) \<in> set retryableReasons) = (Classify rawError = ReasonAgentProviderNetwork) \<and>
   resumeUnsafeFailureReason (Reason_String (Classify rawError)) = (Classify rawError = ReasonAgentContextOverflow) \<and>
   NormalizeDaemonReason (Reason_String (NormalizeDaemonReason reason rawError)) rawError = NormalizeDaemonReason reason rawError"
  using Classify_agent [of rawError] agent_reason_retryable agent_reason_unsafe NormalizeDaemonReason_idem
  by (auto simp: agent_reasons_def)

end
