(* ===== verification/Scheduler.thy ===== *)
theory Scheduler
  imports GoText
begin

text \<open>
  \<open>internal/scheduler\<close>: the scheduler of periodic jobs that all instances of the server share.  A row of
  \<open>sys_cron_executions\<close> is the lease and the audit entry of one plan, a bucket of a job's cadence.
  \<open>cron_db\<close> is that table with the number of generated UUIDs; every function is one statement, and a
  time is one of the database's clock.  \<open>created_at\<close> and \<open>updated_at\<close>, which nothing reads, are left out; so
  are the ticker of \<open>Run\<close>, the logs and the handler of the one registered job, which calls a function of
  the database.
\<close>

section \<open>Jobs (spec.go)\<close>

datatype CatchUpMode = CatchUpLatestOnly | CatchUpEveryPlan | CatchUpMode_Other int

fun CatchUpMode_String :: "CatchUpMode \<Rightarrow> string" where
  "CatchUpMode_String CatchUpLatestOnly = ''latest_only''"
| "CatchUpMode_String CatchUpEveryPlan = ''every_plan''"
| "CatchUpMode_String (CatchUpMode_Other m) = ''unknown('' @ string_of_int m @ '')''"

record Scope =
  sc_Kind :: string
  sc_ID :: string

definition ScopeGlobal :: Scope where
  "ScopeGlobal = \<lparr>sc_Kind = ''global'', sc_ID = ''global''\<rparr>"

definition Scope_String :: "Scope \<Rightarrow> string" where
  "Scope_String s = sc_Kind s @ ''/'' @ sc_ID s"

record HandlerResult =
  hr_RowsAffected :: int
  hr_Result :: "(string \<times> json) list"

text \<open>A scope provider may fail; \<open>js_Handler\<close> tells whether there is a handler.\<close>

record JobSpec =
  js_Name :: string
  js_Cadence :: time
  js_ScheduleDelay :: time
  js_CatchUpMode :: CatchUpMode
  js_CatchUpWindow :: time
  js_MaxPlansPerTick :: int
  js_RunTimeout :: time
  js_StaleTimeout :: time
  js_HeartbeatInterval :: time
  js_AllowStaleReentry :: bool
  js_MaxAttempts :: int
  js_RetryBackoff :: "time list"
  js_Scopes :: "(time \<Rightarrow> string + Scope list) option"
  js_Handler :: bool

definition StaticScopes :: "Scope list \<Rightarrow> time \<Rightarrow> string + Scope list" where
  "StaticScopes scopes = (\<lambda>now. Inr scopes)"

datatype job_error =
    JobNameRequired | CadenceNotPositive | RunTimeoutNotPositive | StaleTimeoutTooShort | HeartbeatIntervalInvalid
  | MaxAttemptsTooSmall | ScopesRequired | HandlerRequired | MaxPlansPerTickNotPositive

definition job_validate :: "JobSpec \<Rightarrow> job_error option" where
  "job_validate j =
     (if TrimSpace (js_Name j) = [] then Some JobNameRequired
      else if js_Cadence j \<le> 0 then Some CadenceNotPositive
      else if js_RunTimeout j \<le> 0 then Some RunTimeoutNotPositive
      else if js_StaleTimeout j \<le> js_RunTimeout j then Some StaleTimeoutTooShort
      else if js_HeartbeatInterval j \<le> 0 \<or> js_HeartbeatInterval j \<ge> js_StaleTimeout j then Some HeartbeatIntervalInvalid
      else if js_MaxAttempts j < 1 then Some MaxAttemptsTooSmall
      else if Option.is_none (js_Scopes j) then Some ScopesRequired
      else if \<not> js_Handler j then Some HandlerRequired
      else if js_CatchUpMode j = CatchUpEveryPlan \<and> js_MaxPlansPerTick j \<le> 0 then Some MaxPlansPerTickNotPositive
      else None)"

definition retryDelay :: "JobSpec \<Rightarrow> int \<Rightarrow> time" where
  "retryDelay j attempt =
     (let n = int (length (js_RetryBackoff j)) in
      if n = 0 then 0
      else let idx = (if attempt - 1 < 0 then 0 else attempt - 1) in
           js_RetryBackoff j ! nat (if idx \<ge> n then n - 1 else idx))"

text \<open>\<open>time.Truncate\<close> rounds down to a multiple of the duration since the zero time.\<close>

definition FloorPlan :: "time \<Rightarrow> time \<Rightarrow> time" where
  "FloorPlan eligible c = (if c \<le> 0 then eligible else eligible - (eligible - zero_time) mod c)"

section \<open>The table (db\_ops.go)\<close>

record cron_row =
  sx_ID :: string
  sx_JobName :: string
  sx_ScopeKind :: string
  sx_ScopeID :: string
  sx_PlanTime :: time
  sx_Status :: string
  sx_Attempt :: int
  sx_MaxAttempts :: int
  sx_NextRetryAt :: timestamptz
  sx_RunnerID :: string
  sx_LeaseToken :: string
  sx_HeartbeatAt :: time
  sx_StaleAfter :: time
  sx_StartedAt :: time
  sx_FinishedAt :: timestamptz
  sx_DurationMs :: "int option"
  sx_RowsAffected :: "int option"
  sx_Result :: string
  sx_ErrorCode :: pgtext
  sx_ErrorMsg :: pgtext

record cron_db =
  cron_rows :: "cron_row list"
  cron_drawn :: nat

datatype sched_error = ErrLeaseLost | ErrResultTooLarge nat

type_synonym plan_ref = "string \<times> string \<times> string \<times> time"

definition plan_key :: "cron_row \<Rightarrow> plan_ref" where
  "plan_key r = (sx_JobName r, sx_ScopeKind r, sx_ScopeID r, sx_PlanTime r)"

definition key_of :: "JobSpec \<Rightarrow> Scope \<Rightarrow> time \<Rightarrow> plan_ref" where
  "key_of job scope planTime = (js_Name job, sc_Kind scope, sc_ID scope, planTime)"

record claim =
  cl_ID :: string
  cl_LeaseToken :: string
  cl_Attempt :: int
  cl_Won :: bool
  cl_Stole :: bool
  cl_Conflicted :: bool

definition stale_span :: "time \<Rightarrow> time" where
  "stale_span staleTimeout = (let secs = staleTimeout div second in if secs \<le> 0 then second else secs * second)"

definition fresh_row :: "env \<Rightarrow> nat \<Rightarrow> JobSpec \<Rightarrow> Scope \<Rightarrow> time \<Rightarrow> time \<Rightarrow> string \<Rightarrow> cron_row" where
  "fresh_row \<epsilon> n job scope planTime dbTime runnerID =
     \<lparr>sx_ID = env_gen_uuid \<epsilon> n, sx_JobName = js_Name job, sx_ScopeKind = sc_Kind scope, sx_ScopeID = sc_ID scope,
      sx_PlanTime = planTime, sx_Status = ''RUNNING'', sx_Attempt = 1, sx_MaxAttempts = js_MaxAttempts job,
      sx_NextRetryAt = None, sx_RunnerID = runnerID, sx_LeaseToken = env_gen_uuid \<epsilon> (n + 1), sx_HeartbeatAt = dbTime,
      sx_StaleAfter = dbTime + stale_span (js_StaleTimeout job), sx_StartedAt = dbTime, sx_FinishedAt = None,
      sx_DurationMs = None, sx_RowsAffected = None, sx_Result = ''{}'', sx_ErrorCode = None, sx_ErrorMsg = None\<rparr>"

text \<open>The \<open>WHERE\<close> of the second statement, without the key.\<close>

definition stealable :: "JobSpec \<Rightarrow> time \<Rightarrow> cron_row \<Rightarrow> bool" where
  "stealable job dbTime r \<longleftrightarrow>
     sx_Attempt r < sx_MaxAttempts r \<and>
     (sx_Status r = ''FAILED'' \<and> (case sx_NextRetryAt r of None \<Rightarrow> True | Some t \<Rightarrow> t \<le> dbTime) \<or>
      sx_Status r = ''RUNNING'' \<and> sx_StaleAfter r < dbTime \<and> js_AllowStaleReentry job)"

definition stolen_row :: "string \<Rightarrow> JobSpec \<Rightarrow> time \<Rightarrow> string \<Rightarrow> cron_row \<Rightarrow> cron_row" where
  "stolen_row token job dbTime runnerID r =
     r\<lparr>sx_Status := ''RUNNING'', sx_Attempt := sx_Attempt r + 1, sx_RunnerID := runnerID, sx_LeaseToken := token,
       sx_HeartbeatAt := dbTime, sx_StaleAfter := dbTime + stale_span (js_StaleTimeout job), sx_StartedAt := dbTime,
       sx_FinishedAt := None, sx_DurationMs := None, sx_NextRetryAt := None, sx_ErrorCode := None, sx_ErrorMsg := None\<rparr>"

definition update_cron :: "(cron_row \<Rightarrow> bool) \<Rightarrow> (cron_row \<Rightarrow> cron_row) \<Rightarrow> cron_db \<Rightarrow> cron_db" where
  "update_cron P f d = d\<lparr>cron_rows := map (\<lambda>r. if P r then f r else r) (cron_rows d)\<rparr>"

text \<open>The insert draws two UUIDs even when it conflicts.  A row is never deleted, so nothing can happen between
  the two statements that the second one does not see.\<close>

definition tryClaim :: "env \<Rightarrow> JobSpec \<Rightarrow> Scope \<Rightarrow> time \<Rightarrow> time \<Rightarrow> string \<Rightarrow> cron_db \<Rightarrow> claim \<times> cron_db" where
  "tryClaim \<epsilon> job scope planTime dbTime runnerID d =
     (let n = cron_drawn d; d' = d\<lparr>cron_drawn := n + 2\<rparr> in
      if \<not> list_ex (\<lambda>r. plan_key r = key_of job scope planTime) (cron_rows d)
      then let row = fresh_row \<epsilon> n job scope planTime dbTime runnerID in
           (\<lparr>cl_ID = sx_ID row, cl_LeaseToken = sx_LeaseToken row, cl_Attempt = sx_Attempt row, cl_Won = True,
             cl_Stole = False, cl_Conflicted = False\<rparr>, d'\<lparr>cron_rows := cron_rows d @ [row]\<rparr>)
      else case find (\<lambda>r. plan_key r = key_of job scope planTime \<and> stealable job dbTime r) (cron_rows d) of
             Some r \<Rightarrow>
               let token = env_gen_uuid \<epsilon> (n + 2) in
               (\<lparr>cl_ID = sx_ID r, cl_LeaseToken = token, cl_Attempt = sx_Attempt r + 1, cl_Won = False,
                 cl_Stole = True, cl_Conflicted = False\<rparr>,
                update_cron (\<lambda>r. plan_key r = key_of job scope planTime \<and> stealable job dbTime r)
                  (stolen_row token job dbTime runnerID) (d'\<lparr>cron_drawn := n + 3\<rparr>))
           | None \<Rightarrow>
               (\<lparr>cl_ID = nil_uuid, cl_LeaseToken = nil_uuid, cl_Attempt = 0, cl_Won = False, cl_Stole = False,
                 cl_Conflicted = True\<rparr>, d'))"

definition markStaleAsFailed :: "string \<Rightarrow> time \<Rightarrow> cron_db \<Rightarrow> int \<times> cron_db" where
  "markStaleAsFailed jobName dbTime d =
     (let P = (\<lambda>r. sx_JobName r = jobName \<and> sx_Status r = ''RUNNING'' \<and> sx_StaleAfter r < dbTime) in
      (int (length (filter P (cron_rows d))),
       update_cron P (\<lambda>r. r\<lparr>sx_Status := ''FAILED'', sx_FinishedAt := Some dbTime, sx_ErrorCode := Some ''stale_timeout'',
         sx_ErrorMsg := Some ''lease expired without heartbeat''\<rparr>) d))"

text \<open>The guard of every write to a lease.\<close>

definition holds_lease :: "string \<Rightarrow> string \<Rightarrow> cron_row \<Rightarrow> bool" where
  "holds_lease i token r \<longleftrightarrow> sx_ID r = i \<and> sx_LeaseToken r = token \<and> sx_Status r = ''RUNNING''"

definition lease_update ::
    "string \<Rightarrow> string \<Rightarrow> (cron_row \<Rightarrow> cron_row) \<Rightarrow> cron_db \<Rightarrow> sched_error option \<times> cron_db" where
  "lease_update i token f d =
     (if list_ex (holds_lease i token) (cron_rows d) then None else Some ErrLeaseLost,
      update_cron (holds_lease i token) f d)"

definition heartbeat :: "string \<Rightarrow> string \<Rightarrow> time \<Rightarrow> time \<Rightarrow> cron_db \<Rightarrow> sched_error option \<times> cron_db" where
  "heartbeat i token staleTimeout now =
     lease_update i token (\<lambda>r. r\<lparr>sx_HeartbeatAt := now, sx_StaleAfter := now + stale_span staleTimeout\<rparr>)"

definition encodeResult :: "(string \<times> json) list \<Rightarrow> sched_error + string" where
  "encodeResult members =
     (if members = [] then Inr ''{}''
      else let b = json_marshal (JObj (sort_key fst members)) in
           if length b > 16 * 1024 then Inl (ErrResultTooLarge (length b)) else Inr b)"

definition finishSuccess ::
    "string \<Rightarrow> string \<Rightarrow> time \<Rightarrow> int \<Rightarrow> HandlerResult \<Rightarrow> cron_db \<Rightarrow> sched_error option \<times> cron_db" where
  "finishSuccess i token dbTime durationMs res d =
     (case encodeResult (hr_Result res) of
        Inl e \<Rightarrow> (Some e, d)
      | Inr resultJSON \<Rightarrow>
          lease_update i token (\<lambda>r. r\<lparr>sx_Status := ''SUCCESS'', sx_FinishedAt := Some dbTime,
            sx_DurationMs := Some durationMs, sx_RowsAffected := Some (hr_RowsAffected res), sx_Result := resultJSON,
            sx_ErrorCode := None, sx_ErrorMsg := None\<rparr>) d)"

definition finishFailure ::
    "string \<Rightarrow> string \<Rightarrow> time \<Rightarrow> int \<Rightarrow> string \<Rightarrow> string \<Rightarrow> time \<Rightarrow> cron_db \<Rightarrow> sched_error option \<times> cron_db" where
  "finishFailure i token dbTime durationMs errorCode errorMsg nextRetryAt =
     lease_update i token (\<lambda>r. r\<lparr>sx_Status := ''FAILED'', sx_FinishedAt := Some dbTime,
       sx_DurationMs := Some durationMs,
       sx_NextRetryAt := (if nextRetryAt = zero_time then None else Some nextRetryAt),
       sx_ErrorCode := Some (if errorCode = [] then ''handler_error'' else errorCode),
       sx_ErrorMsg := Some (if length errorMsg > 4000 then take 4000 errorMsg else errorMsg)\<rparr>)"

record LatestPlanInfo =
  lp_Found :: bool
  lp_PlanTime :: time
  lp_Status :: string
  lp_Attempt :: int
  lp_MaxAttempts :: int
  lp_NextRetryAt :: time

definition RetryEligible :: "LatestPlanInfo \<Rightarrow> time \<Rightarrow> bool" where
  "RetryEligible i now \<longleftrightarrow>
     lp_Found i \<and> lp_Status i = ''FAILED'' \<and> lp_Attempt i < lp_MaxAttempts i \<and>
     (lp_NextRetryAt i = zero_time \<or> lp_NextRetryAt i \<le> now)"

definition latestPlan :: "string \<Rightarrow> Scope \<Rightarrow> cron_db \<Rightarrow> LatestPlanInfo" where
  "latestPlan jobName scope d =
     (case sort_key (\<lambda>r. - sx_PlanTime r) (filter (\<lambda>r. sx_JobName r = jobName \<and> sx_ScopeKind r = sc_Kind scope \<and>
         sx_ScopeID r = sc_ID scope) (cron_rows d)) of
        [] \<Rightarrow> \<lparr>lp_Found = False, lp_PlanTime = zero_time, lp_Status = [], lp_Attempt = 0, lp_MaxAttempts = 0,
                lp_NextRetryAt = zero_time\<rparr>
      | r # _ \<Rightarrow> \<lparr>lp_Found = True, lp_PlanTime = sx_PlanTime r, lp_Status = sx_Status r, lp_Attempt = sx_Attempt r,
                lp_MaxAttempts = sx_MaxAttempts r,
                lp_NextRetryAt = (case sx_NextRetryAt r of None \<Rightarrow> zero_time | Some t \<Rightarrow> t)\<rparr>)"

section \<open>A tick (manager.go)\<close>

text \<open>The loop over the plans; the counter is what is left of \<open>MaxPlansPerTick\<close>.\<close>

fun plan_steps :: "time \<Rightarrow> time \<Rightarrow> nat \<Rightarrow> time \<Rightarrow> time list" where
  "plan_steps cadence latest 0 t = []"
| "plan_steps cadence latest (Suc n) t =
     (if latest < t then [] else t # plan_steps cadence latest n (t + cadence))"

definition plan_start :: "JobSpec \<Rightarrow> LatestPlanInfo \<Rightarrow> time \<Rightarrow> time \<Rightarrow> time" where
  "plan_start job info latest now =
     (let oldestAllowed = (if js_CatchUpWindow job \<le> 0 then latest else now - js_CatchUpWindow job);
          start = (if RetryEligible info now then lp_PlanTime info
            else if lp_Found info then lp_PlanTime info + js_Cadence job
            else latest) in
      if start < oldestAllowed
      then let floor = FloorPlan oldestAllowed (js_Cadence job) in
           if floor < oldestAllowed then floor + js_Cadence job else floor
      else start)"

definition plansForTick :: "JobSpec \<Rightarrow> Scope \<Rightarrow> time \<Rightarrow> cron_db \<Rightarrow> string + time list" where
  "plansForTick job scope now d =
     (let eligible = now - js_ScheduleDelay job; latest = FloorPlan eligible (js_Cadence job) in
      if eligible < latest then Inr []
      else case js_CatchUpMode job of
             CatchUpLatestOnly \<Rightarrow> Inr [latest]
           | CatchUpEveryPlan \<Rightarrow>
               Inr (plan_steps (js_Cadence job) latest (nat (js_MaxPlansPerTick job))
                 (plan_start job (latestPlan (js_Name job) scope d) latest now))
           | CatchUpMode_Other m \<Rightarrow> Inl (''unknown catch_up_mode '' @ CatchUpMode_String (CatchUpMode_Other m)))"

datatype handler_error = RunTimeout string | RunCanceled string | RunLeaseLost string | HandlerPanic string | HandlerError string

fun classifyError :: "handler_error \<Rightarrow> string" where
  "classifyError (RunTimeout msg) = ''run_timeout''"
| "classifyError (RunCanceled msg) = ''canceled''"
| "classifyError (RunLeaseLost msg) = ''lease_lost''"
| "classifyError (HandlerPanic msg) = ''handler_panic''"
| "classifyError (HandlerError msg) = ''handler_error''"

fun handler_message :: "handler_error \<Rightarrow> string" where
  "handler_message (RunTimeout msg) = msg"
| "handler_message (RunCanceled msg) = msg"
| "handler_message (RunLeaseLost msg) = msg"
| "handler_message (HandlerPanic msg) = msg"
| "handler_message (HandlerError msg) = msg"

text \<open>The end of \<open>runClaimed\<close>: the terminal write of what the handler returned.\<close>

definition finish_run ::
    "JobSpec \<Rightarrow> claim \<Rightarrow> time \<Rightarrow> int \<Rightarrow> handler_error + HandlerResult \<Rightarrow> cron_db \<Rightarrow> sched_error option \<times> cron_db" where
  "finish_run job c dbTime dur out d =
     (case out of
        Inl err \<Rightarrow>
          let nextRetry = (if cl_Attempt c < js_MaxAttempts job then dbTime + retryDelay job (cl_Attempt c) else zero_time) in
          finishFailure (cl_ID c) (cl_LeaseToken c) dbTime dur (classifyError err) (handler_message err) nextRetry d
      | Inr res \<Rightarrow> finishSuccess (cl_ID c) (cl_LeaseToken c) dbTime dur res d)"

text \<open>\<open>run\<close> is what happens to the table while the handler of a claim runs, its terminal write included.\<close>

type_synonym handler_run = "JobSpec \<Rightarrow> Scope \<Rightarrow> time \<Rightarrow> claim \<Rightarrow> cron_db \<Rightarrow> cron_db"

definition processPlan ::
    "env \<Rightarrow> handler_run \<Rightarrow> string \<Rightarrow> JobSpec \<Rightarrow> Scope \<Rightarrow> time \<Rightarrow> time \<Rightarrow> cron_db \<Rightarrow> cron_db" where
  "processPlan \<epsilon> run runnerID job scope now planTime d =
     (let (c, d') = tryClaim \<epsilon> job scope planTime now runnerID d in
      if \<not> cl_Won c \<and> \<not> cl_Stole c then d' else run job scope planTime c d')"

definition runJob :: "env \<Rightarrow> handler_run \<Rightarrow> string \<Rightarrow> time \<Rightarrow> JobSpec \<Rightarrow> cron_db \<Rightarrow> cron_db" where
  "runJob \<epsilon> run runnerID now job d =
     (case js_Scopes job of
        None \<Rightarrow> d
      | Some provider \<Rightarrow>
          (case provider now of
             Inl e \<Rightarrow> d
           | Inr scopes \<Rightarrow>
               fold (\<lambda>scope d. case plansForTick job scope now d of
                   Inl e \<Rightarrow> d
                 | Inr plans \<Rightarrow> fold (\<lambda>planTime. processPlan \<epsilon> run runnerID job scope now planTime) plans d)
                 scopes (snd (markStaleAsFailed (js_Name job) now d))))"

text \<open>\<open>RunOnce\<close> reads the clock once for all jobs; the order of the registered jobs is the map's.\<close>

definition RunOnce :: "env \<Rightarrow> handler_run \<Rightarrow> string \<Rightarrow> time \<Rightarrow> JobSpec list \<Rightarrow> cron_db \<Rightarrow> cron_db" where
  "RunOnce \<epsilon> run runnerID now jobs d = fold (runJob \<epsilon> run runnerID now) jobs d"

text \<open>\<open>Register\<close>.\<close>

datatype register_error = Invalid job_error | DuplicateJob string

definition Register :: "JobSpec \<Rightarrow> JobSpec list \<Rightarrow> register_error + JobSpec list" where
  "Register job jobs =
     (case job_validate job of
        Some e \<Rightarrow> Inl (Invalid e)
      | None \<Rightarrow> if js_Name job \<in> js_Name ` set jobs then Inl (DuplicateJob (js_Name job)) else Inr (jobs @ [job]))"

section \<open>The registered job (jobs\_task\_usage.go)\<close>

definition JobNameRollupTaskUsageHourly :: string where
  "JobNameRollupTaskUsageHourly = ''rollup_task_usage_hourly''"

definition TaskUsageHourlyJob :: JobSpec where
  "TaskUsageHourlyJob =
     (let minute = 60 * second in
      \<lparr>js_Name = JobNameRollupTaskUsageHourly, js_Cadence = 5 * minute, js_ScheduleDelay = 5 * minute,
       js_CatchUpMode = CatchUpLatestOnly, js_CatchUpWindow = 24 * 60 * minute, js_MaxPlansPerTick = 0,
       js_RunTimeout = 25 * minute, js_StaleTimeout = 30 * minute, js_HeartbeatInterval = 30 * second,
       js_AllowStaleReentry = True, js_MaxAttempts = 3, js_RetryBackoff = [1 * minute, 5 * minute, 15 * minute],
       js_Scopes = Some (StaticScopes [ScopeGlobal]), js_Handler = True\<rparr>)"

lemma task_usage_job_valid: "job_validate TaskUsageHourlyJob = None"
  by code_simp

section \<open>Plans\<close>

lemma FloorPlan_le: "0 < c \<Longrightarrow> FloorPlan t c \<le> t \<and> t < FloorPlan t c + c"
  using pos_mod_bound [of c "t - zero_time"] pos_mod_sign [of c "t - zero_time"] by (simp add: FloorPlan_def)

lemma FloorPlan_multiple: "0 < c \<Longrightarrow> (FloorPlan t c - zero_time) mod c = 0"
proof -
  assume c: "0 < c"
  have "FloorPlan t c - zero_time = (t - zero_time) div c * c"
    using c by (simp add: FloorPlan_def minus_mod_eq_div_mult [symmetric])
  then show ?thesis by simp
qed

lemma plan_steps_eq:
  "plan_steps c latest n t = map (\<lambda>k. t + int k * c) (filter (\<lambda>k. t + int k * c \<le> latest) [0..<n])" if "0 \<le> c"
proof (induction n arbitrary: t)
  case (Suc n)
  have split: "[0..<Suc n] = 0 # map Suc [0..<n]" by (simp add: upt_conv_Cons map_Suc_upt del: upt_Suc)
  show ?case
  proof (cases "latest < t")
    case True
    have "\<not> t + int k * c \<le> latest" for k
      using that True mult_nonneg_nonneg [of "int k" c] by linarith
    then have "filter (\<lambda>k. t + int k * c \<le> latest) [0..<Suc n] = []" by (intro filter_False ballI)
    with True show ?thesis by (simp only: plan_steps.simps if_True list.map)
  next
    case False
    then show ?thesis by (simp add: split Suc.IH filter_map comp_def algebra_simps del: upt_Suc)
  qed
qed simp

lemma plan_start_after:
  assumes "0 < js_Cadence job" and "lp_Found info"
  shows "lp_PlanTime info \<le> plan_start job info latest now"
  using assms FloorPlan_le [OF assms(1)] by (auto simp: plan_start_def Let_def) (smt (verit))+

end
