(* ===== verification/SchedulerRuns.thy ===== *)
theory SchedulerRuns
  imports Scheduler Scenario
begin

text \<open>
  The instances of the server at work on one table: \<open>cron_step\<close> is one statement of one of them, its claim
  followed by the start of the handler, and they interleave freely.  An instance that dies leaves its
  row behind.  \<open>cw_starts\<close> records every start of a handler, with the plan and the claim it runs under.
\<close>

record cron_world =
  cw_db :: cron_db
  cw_now :: time
  cw_running :: "(JobSpec \<times> plan_ref \<times> claim) list"
  cw_starts :: "(plan_ref \<times> claim) list"

definition cron_start :: "time \<Rightarrow> cron_world" where
  "cron_start t = \<lparr>cw_db = \<lparr>cron_rows = [], cron_drawn = 0\<rparr>, cw_now = t, cw_running = [], cw_starts = []\<rparr>"

inductive cron_step :: "env \<Rightarrow> JobSpec set \<Rightarrow> cron_world \<Rightarrow> cron_world \<Rightarrow> bool" for \<epsilon> jobs where
  clock: "cw_now w \<le> t \<Longrightarrow> cron_step \<epsilon> jobs w (w\<lparr>cw_now := t\<rparr>)"
| sweep: "job \<in> jobs \<Longrightarrow> t \<le> cw_now w \<Longrightarrow> markStaleAsFailed (js_Name job) t (cw_db w) = (n, d) \<Longrightarrow>
    cron_step \<epsilon> jobs w (w\<lparr>cw_db := d\<rparr>)"
| conflict: "job \<in> jobs \<Longrightarrow> t \<le> cw_now w \<Longrightarrow> tryClaim \<epsilon> job scope p t runner (cw_db w) = (c, d) \<Longrightarrow>
    \<not> cl_Won c \<Longrightarrow> \<not> cl_Stole c \<Longrightarrow> cron_step \<epsilon> jobs w (w\<lparr>cw_db := d\<rparr>)"
| claimed: "job \<in> jobs \<Longrightarrow> t \<le> cw_now w \<Longrightarrow> tryClaim \<epsilon> job scope p t runner (cw_db w) = (c, d) \<Longrightarrow>
    cl_Won c \<or> cl_Stole c \<Longrightarrow>
    cron_step \<epsilon> jobs w (w\<lparr>cw_db := d, cw_running := (job, key_of job scope p, c) # cw_running w,
      cw_starts := cw_starts w @ [(key_of job scope p, c)]\<rparr>)"
| beat: "(job, k, c) \<in> set (cw_running w) \<Longrightarrow>
    heartbeat (cl_ID c) (cl_LeaseToken c) (js_StaleTimeout job) (cw_now w) (cw_db w) = (e, d) \<Longrightarrow>
    cron_step \<epsilon> jobs w (w\<lparr>cw_db := d\<rparr>)"
| finish: "cw_running w = xs @ (job, k, c) # ys \<Longrightarrow> finish_run job c t dur out (cw_db w) = (e, d) \<Longrightarrow>
    cron_step \<epsilon> jobs w (w\<lparr>cw_db := d, cw_running := xs @ ys\<rparr>)"
| death: "cw_running w = xs @ x # ys \<Longrightarrow> cron_step \<epsilon> jobs w (w\<lparr>cw_running := xs @ ys\<rparr>)"

abbreviation cron_steps :: "env \<Rightarrow> JobSpec set \<Rightarrow> cron_world \<Rightarrow> cron_world \<Rightarrow> bool" where
  "cron_steps \<epsilon> jobs \<equiv> (cron_step \<epsilon> jobs)\<^sup>*\<^sup>*"

text \<open>The attempts of a plan whose handler has started, in order.\<close>

definition attempts_of :: "plan_ref \<Rightarrow> (plan_ref \<times> claim) list \<Rightarrow> int list" where
  "attempts_of k starts = map (cl_Attempt \<circ> snd) (filter (\<lambda>s. fst s = k) starts)"

section \<open>What a statement does to the table\<close>

text \<open>All writes but a claim keep the columns that identify a row and touch running rows only.\<close>

definition same_lease :: "cron_row \<Rightarrow> cron_row \<Rightarrow> bool" where
  "same_lease r r' \<longleftrightarrow> plan_key r' = plan_key r \<and> sx_ID r' = sx_ID r \<and> sx_Attempt r' = sx_Attempt r \<and>
     sx_MaxAttempts r' = sx_MaxAttempts r \<and> sx_LeaseToken r' = sx_LeaseToken r \<and>
     (sx_Status r \<noteq> ''RUNNING'' \<longrightarrow> r' = r)"

definition quiet_write :: "cron_db \<Rightarrow> cron_db \<Rightarrow> bool" where
  "quiet_write d d' \<longleftrightarrow> cron_drawn d \<le> cron_drawn d' \<and> list_all2 same_lease (cron_rows d) (cron_rows d')"

lemma same_lease_refl [simp]: "same_lease r r"
  by (simp add: same_lease_def)

lemma quiet_update:
  assumes "\<And>r. P r \<Longrightarrow> sx_Status r = ''RUNNING'' \<and> same_lease r (f r)"
  shows "quiet_write d (update_cron P f d)"
  using assms by (auto simp: quiet_write_def update_cron_def list_all2_map2 list.rel_refl intro!: list.rel_refl)

lemma quiet_lease_update:
  assumes "\<And>r. sx_Status r = ''RUNNING'' \<Longrightarrow> same_lease r (f r)" and "lease_update i token f d = (e, d')"
  shows "quiet_write d d'"
  using assms quiet_update [of "holds_lease i token" f d] by (auto simp: lease_update_def holds_lease_def)

lemma quiet_sweep: "markStaleAsFailed n t d = (m, d') \<Longrightarrow> quiet_write d d'"
  by (auto simp: markStaleAsFailed_def Let_def same_lease_def plan_key_def intro!: quiet_update)

lemma quiet_heartbeat: "heartbeat i token span now d = (e, d') \<Longrightarrow> quiet_write d d'"
  by (auto simp: heartbeat_def same_lease_def plan_key_def elim!: quiet_lease_update [rotated])

lemma quiet_write_refl: "quiet_write d d"
  by (simp add: quiet_write_def list.rel_refl)

lemma quiet_finish: "finish_run job c t dur out d = (e, d') \<Longrightarrow> quiet_write d d'"
  by (auto simp: finish_run_def finishSuccess_def finishFailure_def Let_def same_lease_def plan_key_def quiet_write_refl
      split: sum.splits elim!: quiet_lease_update [rotated])

lemma tryClaim_cases:
  assumes "tryClaim \<epsilon> job scope p t runner d = (c, d')"
  obtains
    (won) "cl_Won c" "\<forall>r\<in>set (cron_rows d). plan_key r \<noteq> key_of job scope p"
      "d' = \<lparr>cron_rows = cron_rows d @ [fresh_row \<epsilon> (cron_drawn d) job scope p t runner], cron_drawn = cron_drawn d + 2\<rparr>"
      "cl_ID c = env_gen_uuid \<epsilon> (cron_drawn d)" "cl_LeaseToken c = env_gen_uuid \<epsilon> (cron_drawn d + 1)" "cl_Attempt c = 1"
  | (stole) r where "cl_Stole c" "r \<in> set (cron_rows d)" "plan_key r = key_of job scope p" "stealable job t r"
      "d' = update_cron (\<lambda>r. plan_key r = key_of job scope p \<and> stealable job t r)
              (stolen_row (env_gen_uuid \<epsilon> (cron_drawn d + 2)) job t runner) (d\<lparr>cron_drawn := cron_drawn d + 3\<rparr>)"
      "cl_ID c = sx_ID r" "cl_LeaseToken c = env_gen_uuid \<epsilon> (cron_drawn d + 2)" "cl_Attempt c = sx_Attempt r + 1" "\<not> cl_Won c"
  | (lost) "\<not> cl_Won c" "\<not> cl_Stole c" "d' = d\<lparr>cron_drawn := cron_drawn d + 2\<rparr>"
      "\<forall>r\<in>set (cron_rows d). plan_key r = key_of job scope p \<longrightarrow> \<not> stealable job t r"
proof (cases "list_ex (\<lambda>r. plan_key r = key_of job scope p) (cron_rows d)")
  case False
  then show ?thesis
    using assms by (intro won) (auto simp: tryClaim_def Let_def fresh_row_def list_ex_iff)
next
  case known: True
  show ?thesis
  proof (cases "find (\<lambda>r. plan_key r = key_of job scope p \<and> stealable job t r) (cron_rows d)")
    case None
    with known assms show ?thesis
      by (intro lost) (auto simp: tryClaim_def Let_def find_None_iff)
  next
    case (Some r)
    then have "r \<in> set (cron_rows d)" "plan_key r = key_of job scope p" "stealable job t r"
      by (auto simp: find_Some_iff)
    with Some known assms show ?thesis
      by (intro stole [of r]) (auto simp: tryClaim_def Let_def)
  qed
qed

lemma quiet_back: "quiet_write d d' \<Longrightarrow> r' \<in> set (cron_rows d') \<Longrightarrow> \<exists>r\<in>set (cron_rows d). same_lease r r'"
  unfolding quiet_write_def list_all2_conv_all_nth by (metis in_set_conv_nth)

lemma quiet_forth: "quiet_write d d' \<Longrightarrow> r \<in> set (cron_rows d) \<Longrightarrow> \<exists>r'\<in>set (cron_rows d'). same_lease r r'"
  unfolding quiet_write_def list_all2_conv_all_nth by (metis in_set_conv_nth)

lemma quiet_map:
  assumes "quiet_write d d'" and "\<And>r r'. same_lease r r' \<Longrightarrow> f r' = f r"
  shows "map f (cron_rows d') = map f (cron_rows d)"
  using assms by (auto simp: quiet_write_def list_all2_conv_all_nth intro!: nth_equalityI)

section \<open>The invariant\<close>

definition drawn_ids :: "env \<Rightarrow> cron_db \<Rightarrow> string set" where
  "drawn_ids \<epsilon> d = env_gen_uuid \<epsilon> ` {..<cron_drawn d}"

text \<open>What the table's constraints say and where its identifiers come from.\<close>

definition tidy :: "env \<Rightarrow> cron_db \<Rightarrow> bool" where
  "tidy \<epsilon> d \<longleftrightarrow> distinct (map plan_key (cron_rows d)) \<and> distinct (map sx_ID (cron_rows d)) \<and>
     (\<forall>r\<in>set (cron_rows d). 1 \<le> sx_Attempt r \<and> sx_Attempt r \<le> sx_MaxAttempts r \<and>
        sx_ID r \<in> drawn_ids \<epsilon> d \<and> sx_LeaseToken r \<in> drawn_ids \<epsilon> d)"

text \<open>A started claim knows the id of its row; its token is the row's only while its attempt is.\<close>

definition backed :: "env \<Rightarrow> cron_db \<Rightarrow> plan_ref \<times> claim \<Rightarrow> bool" where
  "backed \<epsilon> d s \<longleftrightarrow> cl_LeaseToken (snd s) \<in> drawn_ids \<epsilon> d \<and>
     (\<exists>r\<in>set (cron_rows d). plan_key r = fst s \<and> sx_ID r = cl_ID (snd s) \<and>
        (sx_LeaseToken r = cl_LeaseToken (snd s) \<longrightarrow> sx_Attempt r = cl_Attempt (snd s)))"

definition start_logged :: "env \<Rightarrow> cron_db \<Rightarrow> (plan_ref \<times> claim) list \<Rightarrow> bool" where
  "start_logged \<epsilon> d starts \<longleftrightarrow>
     (\<forall>r\<in>set (cron_rows d). attempts_of (plan_key r) starts = [1..sx_Attempt r]) \<and> (\<forall>s\<in>set starts. backed \<epsilon> d s)"

lemma quiet_drawn: "quiet_write d d' \<Longrightarrow> i \<in> drawn_ids \<epsilon> d \<Longrightarrow> i \<in> drawn_ids \<epsilon> d'"
  by (auto simp: quiet_write_def drawn_ids_def)

lemma tidy_quiet:
  assumes q: "quiet_write d d'" and t: "tidy \<epsilon> d"
  shows "tidy \<epsilon> d'"
proof -
  have "map plan_key (cron_rows d') = map plan_key (cron_rows d)" "map sx_ID (cron_rows d') = map sx_ID (cron_rows d)"
    by (rule quiet_map [OF q], simp add: same_lease_def)+
  moreover have "1 \<le> sx_Attempt r' \<and> sx_Attempt r' \<le> sx_MaxAttempts r' \<and> sx_ID r' \<in> drawn_ids \<epsilon> d' \<and>
      sx_LeaseToken r' \<in> drawn_ids \<epsilon> d'" if r': "r' \<in> set (cron_rows d')" for r'
  proof -
    obtain r where "r \<in> set (cron_rows d)" "same_lease r r'" using quiet_back [OF q r'] by blast
    then show ?thesis using t by (simp add: tidy_def same_lease_def quiet_drawn [OF q])
  qed
  ultimately show ?thesis using t by (simp add: tidy_def)
qed

lemma backed_quiet:
  assumes q: "quiet_write d d'" and b: "backed \<epsilon> d s"
  shows "backed \<epsilon> d' s"
proof -
  obtain r where r: "r \<in> set (cron_rows d)" "plan_key r = fst s" "sx_ID r = cl_ID (snd s)"
      "sx_LeaseToken r = cl_LeaseToken (snd s) \<longrightarrow> sx_Attempt r = cl_Attempt (snd s)"
    using b by (auto simp: backed_def)
  obtain r' where "r' \<in> set (cron_rows d')" "same_lease r r'" using quiet_forth [OF q r(1)] by blast
  with r b show ?thesis by (auto simp: backed_def same_lease_def quiet_drawn [OF q])
qed

lemma logged_quiet:
  assumes q: "quiet_write d d'" and l: "start_logged \<epsilon> d L"
  shows "start_logged \<epsilon> d' L"
proof -
  have "attempts_of (plan_key r') L = [1..sx_Attempt r']" if r': "r' \<in> set (cron_rows d')" for r'
  proof -
    obtain r where "r \<in> set (cron_rows d)" "same_lease r r'" using quiet_back [OF q r'] by blast
    then show ?thesis using l by (simp add: start_logged_def same_lease_def)
  qed
  then show ?thesis using l backed_quiet [OF q] by (auto simp: start_logged_def)
qed

lemma same_plan:
  "tidy \<epsilon> d \<Longrightarrow> r \<in> set (cron_rows d) \<Longrightarrow> x \<in> set (cron_rows d) \<Longrightarrow> plan_key x = plan_key r \<Longrightarrow> x = r"
  unfolding tidy_def distinct_map by (metis inj_onD)

lemma same_id:
  "tidy \<epsilon> d \<Longrightarrow> r \<in> set (cron_rows d) \<Longrightarrow> x \<in> set (cron_rows d) \<Longrightarrow> sx_ID x = sx_ID r \<Longrightarrow> x = r"
  unfolding tidy_def distinct_map by (metis inj_onD)

lemma attempts_of_append: "attempts_of k (L @ [(k', c)]) = attempts_of k L @ (if k' = k then [cl_Attempt c] else [])"
  by (simp add: attempts_of_def)

lemma attempts_of_none: "(\<And>s. s \<in> set L \<Longrightarrow> fst s \<noteq> k) \<Longrightarrow> attempts_of k L = []"
  by (auto simp: attempts_of_def filter_empty_conv)

text \<open>The two ways to win a claim.\<close>

lemma fresh_id: "inj (env_gen_uuid \<epsilon>) \<Longrightarrow> cron_drawn d \<le> n \<Longrightarrow> env_gen_uuid \<epsilon> n \<notin> drawn_ids \<epsilon> d"
  by (auto simp: drawn_ids_def dest: injD)

lemma invariant_won:
  assumes inj: "inj (env_gen_uuid \<epsilon>)" and inv: "tidy \<epsilon> d" "start_logged \<epsilon> d L"
    and new: "\<forall>r\<in>set (cron_rows d). plan_key r \<noteq> key_of job scope p" and max: "1 \<le> js_MaxAttempts job"
    and d': "d' = \<lparr>cron_rows = cron_rows d @ [fresh_row \<epsilon> (cron_drawn d) job scope p t runner], cron_drawn = cron_drawn d + 2\<rparr>"
    and c: "cl_ID c = env_gen_uuid \<epsilon> (cron_drawn d)" "cl_LeaseToken c = env_gen_uuid \<epsilon> (cron_drawn d + 1)" "cl_Attempt c = 1"
  shows "tidy \<epsilon> d'" and "start_logged \<epsilon> d' (L @ [(key_of job scope p, c)])"
proof -
  let ?row = "fresh_row \<epsilon> (cron_drawn d) job scope p t runner"
  have row: "plan_key ?row = key_of job scope p" "sx_ID ?row = cl_ID c" "sx_LeaseToken ?row = cl_LeaseToken c"
      "sx_Attempt ?row = 1" "sx_MaxAttempts ?row = js_MaxAttempts job"
    by (simp_all add: fresh_row_def plan_key_def key_of_def c)
  have rows: "cron_rows d' = cron_rows d @ [?row]"
    by (simp add: d')
  have mono: "i \<in> drawn_ids \<epsilon> d \<Longrightarrow> i \<in> drawn_ids \<epsilon> d'" for i
    by (auto simp: drawn_ids_def d')
  have ids: "cl_ID c \<in> drawn_ids \<epsilon> d'" "cl_LeaseToken c \<in> drawn_ids \<epsilon> d'"
    by (auto simp: drawn_ids_def d' c)
  have "sx_ID r \<noteq> cl_ID c" if "r \<in> set (cron_rows d)" for r
    using that inv(1) fresh_id [OF inj, of d "cron_drawn d"] c(1) by (force simp: tidy_def)
  then have "cl_ID c \<notin> sx_ID ` set (cron_rows d)" by (metis imageE)
  then show "tidy \<epsilon> d'"
    using inv(1) new max ids by (auto simp: tidy_def rows row intro: mono)
  have other: "fst s \<noteq> key_of job scope p" if "s \<in> set L" for s
    using that inv(2) new by (auto simp: start_logged_def backed_def)
  have old: "backed \<epsilon> d' s" if "s \<in> set L" for s
    using that inv(2) by (auto simp: start_logged_def backed_def rows intro: mono)
  have "backed \<epsilon> d' (key_of job scope p, c)"
    using ids by (simp add: backed_def rows row c(3))
  with old show "start_logged \<epsilon> d' (L @ [(key_of job scope p, c)])"
    using inv(2) new attempts_of_none [of L "key_of job scope p", OF other]
    by (auto simp: start_logged_def attempts_of_append rows row c(3))
qed

lemma invariant_stole:
  assumes inj: "inj (env_gen_uuid \<epsilon>)" and inv: "tidy \<epsilon> d" "start_logged \<epsilon> d L"
    and r: "r \<in> set (cron_rows d)" "plan_key r = key_of job scope p" "stealable job t r"
    and d': "d' = update_cron (\<lambda>r. plan_key r = key_of job scope p \<and> stealable job t r)
              (stolen_row (env_gen_uuid \<epsilon> (cron_drawn d + 2)) job t runner) (d\<lparr>cron_drawn := cron_drawn d + 3\<rparr>)"
    and c: "cl_ID c = sx_ID r" "cl_LeaseToken c = env_gen_uuid \<epsilon> (cron_drawn d + 2)" "cl_Attempt c = sx_Attempt r + 1"
  shows "tidy \<epsilon> d'" and "start_logged \<epsilon> d' (L @ [(key_of job scope p, c)])"
proof -
  define f where "f x = (if x = r then stolen_row (cl_LeaseToken c) job t runner r else x)" for x
  have only: "plan_key x = key_of job scope p \<and> stealable job t x \<longleftrightarrow> x = r" if "x \<in> set (cron_rows d)" for x
    using that r same_plan [OF inv(1) r(1), of x] by metis
  have rows: "cron_rows d' = map f (cron_rows d)"
    using only by (auto simp: d' update_cron_def f_def c(2))
  have keep: "plan_key (f x) = plan_key x" "sx_ID (f x) = sx_ID x" "sx_MaxAttempts (f x) = sx_MaxAttempts x"
      "sx_Attempt (f x) = (if x = r then sx_Attempt r + 1 else sx_Attempt x)"
      "sx_LeaseToken (f x) = (if x = r then cl_LeaseToken c else sx_LeaseToken x)" for x
    by (simp_all add: f_def stolen_row_def plan_key_def)
  have mono: "i \<in> drawn_ids \<epsilon> d \<Longrightarrow> i \<in> drawn_ids \<epsilon> d'" for i
    by (auto simp: drawn_ids_def d' update_cron_def)
  have token: "cl_LeaseToken c \<in> drawn_ids \<epsilon> d'" "cl_LeaseToken c \<notin> drawn_ids \<epsilon> d"
    using fresh_id [OF inj, of d "cron_drawn d + 2"] by (auto simp: drawn_ids_def d' update_cron_def c(2))
  have room: "sx_Attempt r < sx_MaxAttempts r"
    using r(3) by (simp add: stealable_def)
  show "tidy \<epsilon> d'"
    using inv(1) r(1) room token(1) by (auto simp: tidy_def rows keep comp_def intro: mono)
  have old: "backed \<epsilon> d' s" if "s \<in> set L" for s
  proof -
    obtain x where x: "x \<in> set (cron_rows d)" "plan_key x = fst s" "sx_ID x = cl_ID (snd s)"
        "sx_LeaseToken x = cl_LeaseToken (snd s) \<longrightarrow> sx_Attempt x = cl_Attempt (snd s)" "cl_LeaseToken (snd s) \<in> drawn_ids \<epsilon> d"
      using bspec [OF inv(2) [unfolded start_logged_def, THEN conjunct2], OF \<open>s \<in> set L\<close>] unfolding backed_def by blast
    then have "f x \<in> set (cron_rows d')" "cl_LeaseToken c \<noteq> cl_LeaseToken (snd s)"
      using token(2) by (auto simp: rows)
    with x show ?thesis
      by (auto simp: backed_def keep mono intro!: bexI [of _ "f x"])
  qed
  have "backed \<epsilon> d' (key_of job scope p, c)"
    using r token(1) by (auto simp: backed_def rows keep c intro!: bexI [of _ r])
  moreover have "attempts_of (plan_key (f x)) (L @ [(key_of job scope p, c)]) = [1..sx_Attempt (f x)]"
    if x: "x \<in> set (cron_rows d)" for x
  proof (cases "x = r")
    case True
    have "[1..sx_Attempt r + 1] = [1..sx_Attempt r] @ [sx_Attempt r + 1]"
      using inv(1) r(1) by (intro upto_rec2 [THEN trans]) (auto simp: tidy_def)
    moreover have "attempts_of (plan_key r) L = [1..sx_Attempt r]"
      using inv(2) r(1) by (simp add: start_logged_def)
    ultimately show ?thesis using True r(2) by (simp add: keep attempts_of_append c(3))
  next
    case False
    then have "plan_key x \<noteq> key_of job scope p" using same_plan [OF inv(1) r(1) x] r(2) by metis
    then show ?thesis using False x inv(2) by (simp add: keep attempts_of_append start_logged_def)
  qed
  ultimately show "start_logged \<epsilon> d' (L @ [(key_of job scope p, c)])"
    using old unfolding start_logged_def rows by simp
qed

section \<open>Reachable worlds\<close>

definition registered :: "JobSpec set \<Rightarrow> bool" where
  "registered jobs \<longleftrightarrow> (\<forall>job\<in>jobs. job_validate job = None)"

definition cron_ok :: "env \<Rightarrow> cron_world \<Rightarrow> bool" where
  "cron_ok \<epsilon> w \<longleftrightarrow> tidy \<epsilon> (cw_db w) \<and> start_logged \<epsilon> (cw_db w) (cw_starts w) \<and>
     (\<forall>x\<in>set (cw_running w). snd x \<in> set (cw_starts w))"

lemma registered_attempts: "registered jobs \<Longrightarrow> job \<in> jobs \<Longrightarrow> 1 \<le> js_MaxAttempts job"
  unfolding registered_def job_validate_def by (metis not_le option.distinct(1))

lemma start_ok: "cron_ok \<epsilon> (cron_start t)"
  by (simp add: cron_ok_def tidy_def start_logged_def cron_start_def)

lemma cron_ok_quiet:
  assumes "cron_ok \<epsilon> w" and "quiet_write (cw_db w) d" and "set xs \<subseteq> set (cw_running w)"
  shows "cron_ok \<epsilon> (w\<lparr>cw_db := d, cw_running := xs\<rparr>)"
  using assms tidy_quiet logged_quiet by (auto simp: cron_ok_def)

lemma lost_quiet: "quiet_write d (d\<lparr>cron_drawn := Suc (Suc (cron_drawn d))\<rparr>)"
  by (simp add: quiet_write_def list.rel_refl)

text \<open>A step writes quietly or it wins a claim.\<close>

lemma cron_step_cases:
  assumes "cron_step \<epsilon> jobs w w'"
  obtains (quietly) "quiet_write (cw_db w) (cw_db w')" "set (cw_running w') \<subseteq> set (cw_running w)" "cw_starts w' = cw_starts w"
  | (claim) job t scope p runner c where "job \<in> jobs" "tryClaim \<epsilon> job scope p t runner (cw_db w) = (c, cw_db w')"
      "cl_Won c \<or> cl_Stole c" "cw_running w' = (job, key_of job scope p, c) # cw_running w"
      "cw_starts w' = cw_starts w @ [(key_of job scope p, c)]"
  using assms
proof cases
  case (conflict job t scope p runner c d)
  then show ?thesis
    by (cases rule: tryClaim_cases [OF conflict(4)]) (auto intro!: quietly lost_quiet)
qed (auto intro: quietly claim quiet_write_refl quiet_sweep quiet_heartbeat quiet_finish)

lemma cron_step_ok:
  assumes inj: "inj (env_gen_uuid \<epsilon>)" and jobs: "registered jobs" and step: "cron_step \<epsilon> jobs w w'" and ok: "cron_ok \<epsilon> w"
  shows "cron_ok \<epsilon> w'"
  using step
proof (cases rule: cron_step_cases)
  case quietly
  then show ?thesis
    using ok tidy_quiet logged_quiet by (auto simp: cron_ok_def)
next
  case (claim job t scope p runner c)
  note old = ok [unfolded cron_ok_def, THEN conjunct1] ok [unfolded cron_ok_def, THEN conjunct2, THEN conjunct1]
  have "tidy \<epsilon> (cw_db w') \<and> start_logged \<epsilon> (cw_db w') (cw_starts w @ [(key_of job scope p, c)])"
    using claim(2)
  proof (cases rule: tryClaim_cases)
    case won
    show ?thesis
      by (intro conjI invariant_won [OF inj old won(2) registered_attempts [OF jobs claim(1)] won(3-6)])
  next
    case (stole r)
    show ?thesis by (intro conjI invariant_stole [OF inj old stole(2-8)])
  next
    case lost
    with claim(3) show ?thesis by blast
  qed
  then show ?thesis using ok claim(4,5) by (auto simp: cron_ok_def)
qed

lemma cron_reachable:
  assumes "inj (env_gen_uuid \<epsilon>)" and "registered jobs" and "cron_steps \<epsilon> jobs w w'" and "cron_ok \<epsilon> w"
  shows "cron_ok \<epsilon> w'"
  using assms(3,4) by (induction rule: rtranclp_induct) (auto intro: cron_step_ok [OF assms(1,2)])

end
