(* ===== verification/SchedulerGuarantees.thy ===== *)
theory SchedulerGuarantees
  imports SchedulerRuns
begin

text \<open>
  What the scheduler promises: the attempts of a plan, the fencing of a lost lease, the plans a tick looks at,
  and the tick as a run of \<open>cron_step\<close>.  The interface is \<open>fenced_lease\<close>: a lease its holder has lost is never
  given back, so whatever is written under it can be refused.
\<close>

section \<open>Fencing\<close>

locale fenced_lease =
  fixes evolve :: "'s \<Rightarrow> 's \<Rightarrow> bool"
    and issued :: "'l \<Rightarrow> 's \<Rightarrow> bool"
    and holds :: "'l \<Rightarrow> 's \<Rightarrow> bool"
  assumes issued_evolve: "issued l s \<Longrightarrow> evolve s s' \<Longrightarrow> issued l s'"
    and lost_evolve: "issued l s \<Longrightarrow> \<not> holds l s \<Longrightarrow> evolve s s' \<Longrightarrow> \<not> holds l s'"
begin

lemma issued_evolves: "evolve\<^sup>*\<^sup>* s s' \<Longrightarrow> issued l s \<Longrightarrow> issued l s'"
  by (induction rule: rtranclp_induct) (auto intro: issued_evolve)

lemma never_regained: "evolve\<^sup>*\<^sup>* s s' \<Longrightarrow> issued l s \<Longrightarrow> \<not> holds l s \<Longrightarrow> \<not> holds l s'"
  by (induction rule: rtranclp_induct) (auto dest: lost_evolve issued_evolves)

end

definition lease_issued :: "env \<Rightarrow> string \<times> string \<Rightarrow> cron_world \<Rightarrow> bool" where
  "lease_issued \<epsilon> l w \<longleftrightarrow> inj (env_gen_uuid \<epsilon>) \<and> snd l \<in> drawn_ids \<epsilon> (cw_db w)"

definition lease_held :: "string \<times> string \<Rightarrow> cron_world \<Rightarrow> bool" where
  "lease_held l w \<longleftrightarrow> list_ex (holds_lease (fst l) (snd l)) (cron_rows (cw_db w))"

lemma tryClaim_drawn: "tryClaim \<epsilon> job scope p t runner d = (c, d') \<Longrightarrow> cron_drawn d \<le> cron_drawn d'"
  by (erule tryClaim_cases) (auto simp: update_cron_def)

lemma step_drawn: "cron_step \<epsilon> jobs w w' \<Longrightarrow> i \<in> drawn_ids \<epsilon> (cw_db w) \<Longrightarrow> i \<in> drawn_ids \<epsilon> (cw_db w')"
  by (erule cron_step_cases) (auto simp: drawn_ids_def quiet_write_def dest!: tryClaim_drawn)

text \<open>Where a row of the new table comes from.\<close>

lemma step_row_back:
  assumes "cron_step \<epsilon> jobs w w'" and "r' \<in> set (cron_rows (cw_db w'))"
  obtains (kept) r where "r \<in> set (cron_rows (cw_db w))" "same_lease r r'"
  | (new) n where "cron_drawn (cw_db w) \<le> n" "sx_LeaseToken r' = env_gen_uuid \<epsilon> n"
  using assms(1)
proof (cases rule: cron_step_cases)
  case quietly
  then show ?thesis using quiet_back [OF _ assms(2)] kept by blast
next
  case (claim job t scope p runner c)
  from claim(2) show ?thesis
  proof (cases rule: tryClaim_cases)
    case won
    then show ?thesis
      using assms(2) kept [of r'] new [of "cron_drawn (cw_db w) + 1"] by (auto simp: fresh_row_def)
  next
    case (stole r)
    then show ?thesis
      using assms(2) kept [of r'] new [of "cron_drawn (cw_db w) + 2"]
      by (auto simp: update_cron_def stolen_row_def split: if_splits)
  next
    case lost
    then show ?thesis using assms(2) kept [of r'] by simp
  qed
qed

interpretation cron_lease: fenced_lease "cron_step \<epsilon> jobs" "lease_issued \<epsilon>" lease_held for \<epsilon> jobs
proof
  fix l w w'
  assume issued: "lease_issued \<epsilon> l w" and step: "cron_step \<epsilon> jobs w w'"
  then show "lease_issued \<epsilon> l w'" by (auto simp: lease_issued_def intro: step_drawn)
  assume lost: "\<not> lease_held l w"
  have "\<not> holds_lease (fst l) (snd l) r'" if r': "r' \<in> set (cron_rows (cw_db w'))" for r'
    using step r'
  proof (cases rule: step_row_back)
    case (kept r)
    then show ?thesis using lost by (auto simp: lease_held_def list_ex_iff holds_lease_def same_lease_def)
  next
    case (new n)
    then show ?thesis using issued fresh_id [of \<epsilon> "cw_db w" n] by (auto simp: lease_issued_def holds_lease_def)
  qed
  then show "\<not> lease_held l w'" by (simp add: lease_held_def list_ex_iff)
qed

text \<open>What is written under a lost lease.\<close>

lemma lease_update_lost:
  "\<not> lease_held (i, token) w \<Longrightarrow> lease_update i token f (cw_db w) = (Some ErrLeaseLost, cw_db w)"
proof -
  assume "\<not> lease_held (i, token) w"
  then have none: "\<not> holds_lease i token r" if "r \<in> set (cron_rows (cw_db w))" for r
    using that by (auto simp: lease_held_def list_ex_iff)
  then have "map (\<lambda>r. if holds_lease i token r then f r else r) (cron_rows (cw_db w)) = cron_rows (cw_db w)"
    by (simp add: map_idI)
  with none show ?thesis by (auto simp: lease_update_def update_cron_def list_ex_iff)
qed

lemma heartbeat_lost_iff:
  "fst (heartbeat i token span now (cw_db w)) = Some ErrLeaseLost \<longleftrightarrow> \<not> lease_held (i, token) w"
  by (simp add: heartbeat_def lease_update_def lease_held_def)

lemma finish_lost:
  "\<not> lease_held (cl_ID c, cl_LeaseToken c) w \<Longrightarrow> \<exists>e. finish_run job c t dur out (cw_db w) = (Some e, cw_db w)"
  by (auto simp: finish_run_def finishSuccess_def finishFailure_def Let_def lease_update_lost split: sum.splits)

text \<open>A claim that is not the newest of its plan has no lease.\<close>

lemma superseded_lost:
  assumes ok: "cron_ok \<epsilon> w" and c: "(k, c) \<in> set (cw_starts w)" "(k, c') \<in> set (cw_starts w)" "cl_Attempt c < cl_Attempt c'"
  shows "\<not> lease_held (cl_ID c, cl_LeaseToken c) w"
proof
  have t: "tidy \<epsilon> (cw_db w)" and l: "start_logged \<epsilon> (cw_db w) (cw_starts w)" using ok by (simp_all add: cron_ok_def)
  assume "lease_held (cl_ID c, cl_LeaseToken c) w"
  then obtain r where r: "r \<in> set (cron_rows (cw_db w))" "sx_ID r = cl_ID c" "sx_LeaseToken r = cl_LeaseToken c"
    by (auto simp: lease_held_def list_ex_iff holds_lease_def)
  have "backed \<epsilon> (cw_db w) (k, c)" using l c(1) by (auto simp: start_logged_def)
  then obtain x where x: "x \<in> set (cron_rows (cw_db w))" "plan_key x = k" "sx_ID x = cl_ID c"
      "sx_LeaseToken x = cl_LeaseToken c \<longrightarrow> sx_Attempt x = cl_Attempt c"
    unfolding backed_def by auto
  have "x = r" using same_id [OF t r(1) x(1)] x(3) r(2) by simp
  then have "plan_key r = k" and attempt: "sx_Attempt r = cl_Attempt c" using x r(3) by auto
  then have "attempts_of k (cw_starts w) = [1..cl_Attempt c]" using l r(1) by (auto simp: start_logged_def)
  moreover have "cl_Attempt c' \<in> set (attempts_of k (cw_starts w))"
    using c(2) by (force simp: attempts_of_def)
  ultimately show False using c(3) by simp
qed

section \<open>A tick\<close>

lemma step_clock: "cron_step \<epsilon> jobs w w' \<Longrightarrow> cw_now w \<le> cw_now w'"
  by (erule cron_step.cases) auto

lemma steps_clock: "cron_steps \<epsilon> jobs w w' \<Longrightarrow> cw_now w \<le> cw_now w'"
  by (induction rule: rtranclp_induct) (auto dest: step_clock)

text \<open>The table \<open>d\<close> can be reached; a handler is lawful when what happens while it runs is a run of the machine.\<close>

definition cron_reaches :: "env \<Rightarrow> JobSpec set \<Rightarrow> cron_world \<Rightarrow> cron_db \<Rightarrow> bool" where
  "cron_reaches \<epsilon> jobs w d \<longleftrightarrow> (\<exists>w'. cron_steps \<epsilon> jobs w w' \<and> cw_db w' = d)"

definition lawful_run :: "env \<Rightarrow> JobSpec set \<Rightarrow> handler_run \<Rightarrow> bool" where
  "lawful_run \<epsilon> jobs run \<longleftrightarrow>
     (\<forall>w job scope p c. job \<in> jobs \<longrightarrow> (job, key_of job scope p, c) \<in> set (cw_running w) \<longrightarrow>
        cron_reaches \<epsilon> jobs w (run job scope p c (cw_db w)))"

lemma reaches_refl: "cron_reaches \<epsilon> jobs w (cw_db w)"
  by (auto simp: cron_reaches_def)

lemma step_reaches: "cron_step \<epsilon> jobs w w1 \<Longrightarrow> cron_reaches \<epsilon> jobs w1 d \<Longrightarrow> cron_reaches \<epsilon> jobs w d"
  unfolding cron_reaches_def by (metis converse_rtranclp_into_rtranclp [of "cron_step \<epsilon> jobs"])

lemma fold_reaches:
  assumes "\<And>x w. x \<in> set xs \<Longrightarrow> now \<le> cw_now w \<Longrightarrow> cron_reaches \<epsilon> jobs w (g x (cw_db w))" and "now \<le> cw_now w"
  shows "cron_reaches \<epsilon> jobs w (fold g xs (cw_db w))"
  using assms
proof (induction xs arbitrary: w)
  case (Cons x xs)
  obtain w1 where w1: "cron_steps \<epsilon> jobs w w1" "cw_db w1 = g x (cw_db w)"
    using Cons.prems(1) [of x w] Cons.prems(2) by (auto simp: cron_reaches_def)
  have "cron_reaches \<epsilon> jobs w1 (fold g xs (cw_db w1))"
    using Cons.IH [of w1] Cons.prems steps_clock [OF w1(1)] by simp
  then show ?case
    using w1 by (auto simp: cron_reaches_def dest: rtranclp_trans)
qed (simp add: reaches_refl)

lemma processPlan_reaches:
  assumes "lawful_run \<epsilon> jobs run" and "job \<in> jobs" and "now \<le> cw_now w"
  shows "cron_reaches \<epsilon> jobs w (processPlan \<epsilon> run runner job scope now p (cw_db w))"
proof -
  obtain c d where claim: "tryClaim \<epsilon> job scope p now runner (cw_db w) = (c, d)" by (cases "tryClaim \<epsilon> job scope p now runner (cw_db w)")
  show ?thesis
  proof (cases "cl_Won c \<or> cl_Stole c")
    case True
    define w1 where "w1 = w\<lparr>cw_db := d, cw_running := (job, key_of job scope p, c) # cw_running w,
        cw_starts := cw_starts w @ [(key_of job scope p, c)]\<rparr>"
    have "cron_step \<epsilon> jobs w w1"
      unfolding w1_def using assms(2,3) claim True by (rule cron_step.claimed)
    moreover have "cron_reaches \<epsilon> jobs w1 (run job scope p c d)"
      using assms(1) [unfolded lawful_run_def, rule_format, OF assms(2), of scope p c w1] by (simp add: w1_def)
    ultimately have "cron_reaches \<epsilon> jobs w (run job scope p c d)" by (rule step_reaches)
    then show ?thesis using True claim by (auto simp: processPlan_def)
  next
    case False
    then have "cron_step \<epsilon> jobs w (w\<lparr>cw_db := d\<rparr>)"
      using cron_step.conflict [OF assms(2,3) claim] by simp
    then show ?thesis
      using False claim by (auto simp: processPlan_def cron_reaches_def intro!: exI [of _ "w\<lparr>cw_db := d\<rparr>"])
  qed
qed

lemma runJob_reaches:
  assumes run: "lawful_run \<epsilon> jobs run" and job: "job \<in> jobs" and now: "now \<le> cw_now w"
  shows "cron_reaches \<epsilon> jobs w (runJob \<epsilon> run runner now job (cw_db w))"
proof -
  obtain n d where swept: "markStaleAsFailed (js_Name job) now (cw_db w) = (n, d)"
    by (cases "markStaleAsFailed (js_Name job) now (cw_db w)")
  define w1 where "w1 = w\<lparr>cw_db := d\<rparr>"
  have step: "cron_step \<epsilon> jobs w w1"
    unfolding w1_def using job now swept by (rule cron_step.sweep)
  have scope: "cron_reaches \<epsilon> jobs v (case plansForTick job scope now (cw_db v) of Inl e \<Rightarrow> cw_db v
      | Inr plans \<Rightarrow> fold (\<lambda>planTime. processPlan \<epsilon> run runner job scope now planTime) plans (cw_db v))"
    if "now \<le> cw_now v" for v scope
    using that by (auto split: sum.split intro: reaches_refl fold_reaches processPlan_reaches [OF run job])
  have "cron_reaches \<epsilon> jobs w1 (fold (\<lambda>scope d. case plansForTick job scope now d of Inl e \<Rightarrow> d
      | Inr plans \<Rightarrow> fold (\<lambda>planTime. processPlan \<epsilon> run runner job scope now planTime) plans d) scopes (cw_db w1))" for scopes
    by (rule fold_reaches [of scopes now]) (use scope now in \<open>auto simp: w1_def\<close>)
  then have "cron_reaches \<epsilon> jobs w (fold (\<lambda>scope d. case plansForTick job scope now d of Inl e \<Rightarrow> d
      | Inr plans \<Rightarrow> fold (\<lambda>planTime. processPlan \<epsilon> run runner job scope now planTime) plans d) scopes d)" for scopes
    using step_reaches [OF step] by (simp add: w1_def)
  then show ?thesis
    by (simp add: runJob_def swept reaches_refl split: option.split sum.split)
qed

text \<open>A handler that returns at once is lawful.\<close>

definition at_once :: "(JobSpec \<Rightarrow> time \<Rightarrow> handler_error + HandlerResult) \<Rightarrow> time \<Rightarrow> handler_run" where
  "at_once out t job scope p c d = snd (finish_run job c t 0 (out job p) d)"

lemma at_once_lawful: "lawful_run \<epsilon> jobs (at_once out t)"
proof (unfold lawful_run_def, intro allI impI)
  fix w :: cron_world and job scope p c
  assume "(job, key_of job scope p, c) \<in> set (cw_running w)"
  then obtain xs ys where split: "cw_running w = xs @ (job, key_of job scope p, c) # ys" by (auto dest: split_list)
  obtain e d where fin: "finish_run job c t 0 (out job p) (cw_db w) = (e, d)"
    by (cases "finish_run job c t 0 (out job p) (cw_db w)")
  then have "cron_step \<epsilon> jobs w (w\<lparr>cw_db := d, cw_running := xs @ ys\<rparr>)"
    using split by (intro cron_step.finish)
  then show "cron_reaches \<epsilon> jobs w (at_once out t job scope p c (cw_db w))"
    using fin by (auto simp: cron_reaches_def at_once_def intro!: exI [of _ "w\<lparr>cw_db := d, cw_running := xs @ ys\<rparr>"])
qed

section \<open>Rows that stay\<close>

lemma step_keeps_success:
  assumes "cron_step \<epsilon> jobs w w'" and "r \<in> set (cron_rows (cw_db w))" and "sx_Status r = ''SUCCESS''"
  shows "r \<in> set (cron_rows (cw_db w'))"
  using assms(1)
proof (cases rule: cron_step_cases)
  case quietly
  then show ?thesis using quiet_forth [OF _ assms(2)] assms(3) by (fastforce simp: same_lease_def)
next
  case (claim job t scope p runner c)
  from claim(2) show ?thesis
    by (cases rule: tryClaim_cases)
      (use assms(2,3) in \<open>auto simp: update_cron_def stealable_def image_iff intro!: bexI [of _ r]\<close>)
qed

lemma step_keeps_key:
  assumes "cron_step \<epsilon> jobs w w'" and "r \<in> set (cron_rows (cw_db w))"
  shows "\<exists>r'\<in>set (cron_rows (cw_db w')). plan_key r' = plan_key r"
  using assms(1)
proof (cases rule: cron_step_cases)
  case quietly
  then show ?thesis using quiet_forth [OF _ assms(2)] by (fastforce simp: same_lease_def)
next
  case (claim job t scope p runner c)
  have key: "plan_key (stolen_row token job t runner r) = plan_key r" for token
    by (simp add: stolen_row_def plan_key_def)
  from claim(2) show ?thesis
    by (cases rule: tryClaim_cases)
      (use assms(2) key in \<open>auto simp: update_cron_def\<close>)
qed

lemma steps_keep_success:
  "cron_steps \<epsilon> jobs w w' \<Longrightarrow> r \<in> set (cron_rows (cw_db w)) \<Longrightarrow> sx_Status r = ''SUCCESS'' \<Longrightarrow> r \<in> set (cron_rows (cw_db w'))"
  by (induction rule: rtranclp_induct) (auto intro: step_keeps_success)

lemma steps_keep_key:
  "cron_steps \<epsilon> jobs w w' \<Longrightarrow> r \<in> set (cron_rows (cw_db w)) \<Longrightarrow> \<exists>r'\<in>set (cron_rows (cw_db w')). plan_key r' = plan_key r"
  by (induction rule: rtranclp_induct) (auto, metis step_keeps_key)

end
