(* ===== verification/SchedulerPromises.thy ===== *)
theory SchedulerPromises
  imports SchedulerGuarantees
begin

text \<open>
  The properties of the scheduler, with a concrete job for the witnesses: attempts and leases in every
  reachable world, the plans of a tick, and three ways in which a job departs from what its specification says.
\<close>

section \<open>The plans of a tick\<close>

definition on_grid :: "time \<Rightarrow> time \<Rightarrow> bool" where
  "on_grid c t \<longleftrightarrow> c dvd t - zero_time"

lemma grid_next: "on_grid c s \<Longrightarrow> on_grid c t \<Longrightarrow> s < t \<Longrightarrow> s + c \<le> t"
proof -
  assume "on_grid c s" "on_grid c t" "s < t"
  then have "c dvd t - s" "0 < t - s"
    using dvd_diff [of c "t - zero_time" "s - zero_time"] by (simp_all add: on_grid_def)
  then have "c \<le> t - s" by (rule zdvd_imp_le)
  then show ?thesis by simp
qed

lemma grid_step: "on_grid c t \<Longrightarrow> on_grid c (t + c)"
  using dvd_add [of c "t - zero_time" c] by (simp add: on_grid_def algebra_simps)

lemma grid_floor: "0 < c \<Longrightarrow> on_grid c (FloorPlan t c)"
  using FloorPlan_multiple [of c t] by (simp add: on_grid_def dvd_eq_mod_eq_0)

lemma grid_multiple:
  assumes "on_grid c s" and "on_grid c t" and "s \<le> t" and "0 < c"
  obtains k where "t = s + int k * c"
proof -
  have "c dvd t - s"
    using assms(1,2) dvd_diff [of c "t - zero_time" "s - zero_time"] by (simp add: on_grid_def)
  then obtain m where m: "t - s = c * m" by (elim dvdE)
  then have "0 \<le> c * m" using assms(3) by simp
  then have "0 \<le> m" using assms(4) by (simp add: zero_le_mult_iff)
  with m have "t = s + int (nat m) * c" by (simp add: algebra_simps)
  then show ?thesis by (rule that)
qed

lemma plan_start_upto:
  assumes c: "0 < js_Cadence job" and w: "0 < js_CatchUpWindow job" and info: "lp_Found info"
    and grid: "on_grid (js_Cadence job) (lp_PlanTime info)" "on_grid (js_Cadence job) t"
    and t: "lp_PlanTime info < t" "now - js_CatchUpWindow job \<le> t"
  shows "plan_start job info latest now \<le> t \<and> on_grid (js_Cadence job) (plan_start job info latest now)"
proof -
  define start where "start = (if RetryEligible info now then lp_PlanTime info else lp_PlanTime info + js_Cadence job)"
  define old where "old = now - js_CatchUpWindow job"
  define fl where "fl = FloorPlan old (js_Cadence job)"
  have eq: "plan_start job info latest now =
      (if start < old then if fl < old then fl + js_Cadence job else fl else start)"
    using w info by (simp add: plan_start_def start_def old_def fl_def Let_def)
  have "start \<le> t" "on_grid (js_Cadence job) start"
    using grid_next [OF grid t(1)] t(1) grid(1) grid_step by (auto simp: start_def)
  moreover have fl: "fl \<le> old" "on_grid (js_Cadence job) fl"
    using FloorPlan_le [OF c, of old] grid_floor [OF c, of old] by (simp_all add: fl_def)
  moreover have "fl + js_Cadence job \<le> t" if "fl < old"
    using grid_next [OF fl(2) grid(2)] that t(2) by (simp add: old_def)
  moreover have "old \<le> t" using t(2) by (simp add: old_def)
  ultimately show ?thesis
    using grid_step [OF fl(2)] by (cases "start < old"; cases "fl < old") (simp_all add: eq)
qed

lemma sort_key_least:
  fixes f :: "'a \<Rightarrow> int"
  assumes "r \<in> set xs"
  shows "\<exists>x ys. sort_key f xs = x # ys \<and> f x \<le> f r"
proof (cases "sort_key f xs")
  case Nil
  then show ?thesis using assms set_sort [of f xs] by (simp del: set_sort)
next
  case (Cons x ys)
  have "sorted (map f (x # ys))" using sorted_sort_key [of f xs] Cons by (simp only:)
  moreover have "r \<in> set (x # ys)" using assms set_sort [of f xs] Cons by (simp only:)
  ultimately show ?thesis using Cons by auto
qed

lemma latestPlan_newest:
  assumes "r \<in> set (cron_rows d)" and "plan_key r = key_of job scope p"
  shows "lp_Found (latestPlan (js_Name job) scope d) \<and> p \<le> lp_PlanTime (latestPlan (js_Name job) scope d)"
proof -
  define rows where "rows = filter (\<lambda>r. sx_JobName r = js_Name job \<and> sx_ScopeKind r = sc_Kind scope \<and>
      sx_ScopeID r = sc_ID scope) (cron_rows d)"
  have r: "r \<in> set rows" "sx_PlanTime r = p"
    using assms by (auto simp: rows_def plan_key_def key_of_def)
  obtain x xs where "sort_key (\<lambda>r. - sx_PlanTime r) rows = x # xs" "- sx_PlanTime x \<le> - sx_PlanTime r"
    using sort_key_least [OF r(1), of "\<lambda>r. - sx_PlanTime r"] by blast
  then show ?thesis using r(2) by (simp add: latestPlan_def rows_def)
qed

lemma plans_after_newest:
  assumes "0 < js_Cadence job" and "js_CatchUpMode job = CatchUpEveryPlan"
    and "plansForTick job scope now d = Inr plans" and "lp_Found (latestPlan (js_Name job) scope d)" and "q \<in> set plans"
  shows "lp_PlanTime (latestPlan (js_Name job) scope d) \<le> q"
proof -
  let ?info = "latestPlan (js_Name job) scope d"
  let ?start = "plan_start job ?info (FloorPlan (now - js_ScheduleDelay job) (js_Cadence job)) now"
  have "?start \<le> q"
    using assms(1,2,3,5) by (auto simp: plansForTick_def Let_def plan_steps_eq split: if_splits)
  then show ?thesis using plan_start_after [OF assms(1,4)] by (rule order_trans [rotated])
qed

lemma valid_cadence: "job_validate job = None \<Longrightarrow> 0 < js_Cadence job"
  by (auto simp: job_validate_def split: if_splits)

lemma valid_plans_per_tick: "job_validate job = None \<Longrightarrow> js_CatchUpMode job = CatchUpEveryPlan \<Longrightarrow> 0 < js_MaxPlansPerTick job"
  by (auto simp: job_validate_def split: if_splits)

lemma every_plan_lists:
  assumes c: "0 < c" and t: "t = start + int k * c" "t \<le> latest"
  shows "t \<in> set (plan_steps c latest n start) \<or>
    length (plan_steps c latest n start) = n \<and> (\<forall>p\<in>set (plan_steps c latest n start). p < t)"
proof (cases "k < n")
  case True
  then show ?thesis using c t by (auto simp: plan_steps_eq)
next
  case False
  have below: "start + int i * c < t" if "i < n" for i
    using False that c by (simp add: t(1))
  then have "filter (\<lambda>i. start + int i * c \<le> latest) [0..<n] = [0..<n]"
    using t(2) by (intro filter_True ballI) (force simp: less_le_trans)
  then show ?thesis using below c by (auto simp: plan_steps_eq)
qed

section \<open>A job for the witnesses\<close>

definition minute_job :: "CatchUpMode \<Rightarrow> bool \<Rightarrow> JobSpec" where
  "minute_job mode reentry =
     \<lparr>js_Name = ''j'', js_Cadence = 60 * second, js_ScheduleDelay = 0, js_CatchUpMode = mode,
      js_CatchUpWindow = 3600 * second, js_MaxPlansPerTick = 3, js_RunTimeout = 5 * second, js_StaleTimeout = 10 * second,
      js_HeartbeatInterval = 2 * second, js_AllowStaleReentry = reentry, js_MaxAttempts = 3,
      js_RetryBackoff = [300 * second], js_Scopes = Some (StaticScopes [ScopeGlobal]), js_Handler = True\<rparr>"

definition minute_jobs :: "JobSpec set" where
  "minute_jobs = {minute_job CatchUpLatestOnly True, minute_job CatchUpLatestOnly False, minute_job CatchUpEveryPlan True}"

definition claim_at :: "time \<Rightarrow> cron_world \<Rightarrow> cron_world" where
  "claim_at t w =
     (let job = minute_job CatchUpLatestOnly True; (c, d) = tryClaim demo_env job ScopeGlobal 0 t ''r'' (cw_db w) in
      w\<lparr>cw_db := d, cw_running := (job, key_of job ScopeGlobal 0, c) # cw_running w,
        cw_starts := cw_starts w @ [(key_of job ScopeGlobal 0, c)]\<rparr>)"

text \<open>A plan is claimed; twenty seconds later its lease is stale and it is claimed again.\<close>

definition first_claim :: cron_world where
  "first_claim = claim_at 0 (cron_start 0)"

definition second_claim :: cron_world where
  "second_claim = claim_at (20 * second) (first_claim\<lparr>cw_now := 20 * second\<rparr>)"

definition good_result :: HandlerResult where
  "good_result = \<lparr>hr_RowsAffected = 1, hr_Result = []\<rparr>"

text \<open>The handler of the second claim returns.\<close>

definition finished_claim :: cron_world where
  "finished_claim =
     (case cw_running second_claim of
        (job, k, c) # rest \<Rightarrow>
          second_claim\<lparr>cw_db := snd (finish_run job c (21 * second) 5 (Inr good_result) (cw_db second_claim)), cw_running := rest\<rparr>)"

text \<open>A tick at the epoch; in another one, two minutes later, the handler fails for the first of two plans.\<close>

definition flaky :: "JobSpec \<Rightarrow> time \<Rightarrow> handler_error + HandlerResult" where
  "flaky job p = (if p = 60 * second then Inl (HandlerError ''x'') else Inr good_result)"

definition tick_db :: cron_db where
  "tick_db = RunOnce demo_env (at_once flaky 0) ''r'' 0 [minute_job CatchUpEveryPlan True] (cw_db (cron_start 0))"

definition flaky_db :: cron_db where
  "flaky_db = RunOnce demo_env (at_once flaky (130 * second)) ''r'' (130 * second) [minute_job CatchUpEveryPlan True] tick_db"

lemma demo_uuids: "inj (env_gen_uuid demo_env)"
  by (auto simp: demo_env_def inj_def replicate_eq_replicate)

lemma minute_job_valid: "job_validate (minute_job m r) = None"
  by (simp add: job_validate_def minute_job_def second_def TrimSpace_def) code_simp

lemma minute_registered: "registered minute_jobs"
  by (simp add: registered_def minute_jobs_def minute_job_valid)

lemma claim_at_step:
  assumes "t \<le> cw_now w"
    and "(case tryClaim demo_env (minute_job CatchUpLatestOnly True) ScopeGlobal 0 t ''r'' (cw_db w) of (c, d) \<Rightarrow> cl_Won c \<or> cl_Stole c)"
  shows "cron_step demo_env minute_jobs w (claim_at t w)"
  unfolding claim_at_def Let_def using assms
  by (cases "tryClaim demo_env (minute_job CatchUpLatestOnly True) ScopeGlobal 0 t ''r'' (cw_db w)")
    (auto simp: minute_jobs_def intro!: cron_step.claimed)

lemma claim_at_running:
  "\<exists>k c. cw_running (claim_at t w) = (minute_job CatchUpLatestOnly True, k, c) # cw_running w"
  by (simp add: claim_at_def Let_def key_of_def split: prod.split)

lemma first_claim_step: "cron_step demo_env minute_jobs (cron_start 0) first_claim"
  unfolding first_claim_def by (rule claim_at_step) (simp add: cron_start_def, code_simp)

lemma second_claim_step: "cron_step demo_env minute_jobs (first_claim\<lparr>cw_now := 20 * second\<rparr>) second_claim"
  unfolding second_claim_def by (rule claim_at_step) (simp, code_simp)

lemma second_claim_reached: "cron_steps demo_env minute_jobs (cron_start 0) second_claim"
proof -
  have "cw_now first_claim \<le> 20 * second" by code_simp
  then have "cron_step demo_env minute_jobs first_claim (first_claim\<lparr>cw_now := 20 * second\<rparr>)" by (rule cron_step.clock)
  then show ?thesis
    using first_claim_step second_claim_step by (meson converse_rtranclp_into_rtranclp rtranclp.rtrancl_refl)
qed

section \<open>What holds in every reachable world\<close>

text \<open>C13: The handler of a plan is started once for each of its attempts, in order and at most \<open>max_attempts\<close> times:
  however the instances interleave and whichever of them die, the attempts that have been started for a plan are
  \<open>1, 2, \<dots>\<close> up to the \<open>attempt\<close> of its row, and none if it has no row.\<close>
theorem plan_attempts_numbered:
  assumes "inj (env_gen_uuid \<epsilon>)" and "registered jobs" and "cron_steps \<epsilon> jobs (cron_start t) w"
  shows "(case find (\<lambda>r. plan_key r = k) (cron_rows (cw_db w)) of
            None \<Rightarrow> attempts_of k (cw_starts w) = []
          | Some r \<Rightarrow> attempts_of k (cw_starts w) = [1..sx_Attempt r] \<and> sx_Attempt r \<le> sx_MaxAttempts r)"
proof -
  have ok: "cron_ok \<epsilon> w" using cron_reachable [OF assms start_ok] .
  then have t: "tidy \<epsilon> (cw_db w)" and l: "start_logged \<epsilon> (cw_db w) (cw_starts w)" by (simp_all add: cron_ok_def)
  show ?thesis
  proof (cases "find (\<lambda>r. plan_key r = k) (cron_rows (cw_db w))")
    case None
    then have "fst s \<noteq> k" if "s \<in> set (cw_starts w)" for s
      using that l by (auto simp: find_None_iff start_logged_def backed_def)
    then show ?thesis using None by (simp add: attempts_of_none)
  next
    case (Some r)
    then have r: "r \<in> set (cron_rows (cw_db w))" "plan_key r = k" by (auto simp: find_Some_iff)
    then have "attempts_of k (cw_starts w) = [1..sx_Attempt r]" using l by (auto simp: start_logged_def)
    moreover have "sx_Attempt r \<le> sx_MaxAttempts r" using t r(1) by (simp add: tidy_def)
    ultimately show ?thesis using Some by simp
  qed
qed

theorem plan_attempts_numbered_witness:
  "attempts_of (key_of (minute_job CatchUpLatestOnly True) ScopeGlobal 0) (cw_starts second_claim) = [1, 2]"
proof -
  have "find (\<lambda>r. plan_key r = key_of (minute_job CatchUpLatestOnly True) ScopeGlobal 0) (cron_rows (cw_db second_claim)) =
      Some (hd (cron_rows (cw_db second_claim)))" "[1..sx_Attempt (hd (cron_rows (cw_db second_claim)))] = [1, 2]"
    by code_simp+
  then show ?thesis
    using plan_attempts_numbered [OF demo_uuids minute_registered second_claim_reached,
        of "key_of (minute_job CatchUpLatestOnly True) ScopeGlobal 0"] by simp
qed

text \<open>C14: A lease that is lost is lost for good: once a claim has been refused a heartbeat, or its plan has been
  claimed again, every later heartbeat is refused and what the handler returns is not written, whatever happens
  meanwhile.\<close>
theorem lost_lease_never_writes:
  assumes "inj (env_gen_uuid \<epsilon>)" and "registered jobs" and "cron_steps \<epsilon> jobs (cron_start t) w"
    and "(k, c) \<in> set (cw_starts w)"
    and "fst (heartbeat (cl_ID c) (cl_LeaseToken c) span now (cw_db w)) = Some ErrLeaseLost \<or>
         (\<exists>c'. (k, c') \<in> set (cw_starts w) \<and> cl_Attempt c < cl_Attempt c')"
    and "cron_steps \<epsilon> jobs w w'"
  shows "heartbeat (cl_ID c) (cl_LeaseToken c) span' now' (cw_db w') = (Some ErrLeaseLost, cw_db w') \<and>
         (\<exists>e. finish_run job c t' dur out (cw_db w') = (Some e, cw_db w'))"
proof -
  have ok: "cron_ok \<epsilon> w" using cron_reachable [OF assms(1,2,3) start_ok] .
  have "\<not> lease_held (cl_ID c, cl_LeaseToken c) w"
    using assms(5) heartbeat_lost_iff superseded_lost [OF ok assms(4)] by blast
  moreover have "lease_issued \<epsilon> (cl_ID c, cl_LeaseToken c) w"
    using ok assms(1,4) by (auto simp: cron_ok_def start_logged_def backed_def lease_issued_def)
  ultimately have "\<not> lease_held (cl_ID c, cl_LeaseToken c) w'"
    using cron_lease.never_regained [OF assms(6)] by blast
  then show ?thesis by (simp add: heartbeat_def lease_update_lost finish_lost)
qed

theorem lost_lease_never_writes_witness:
  "heartbeat (cl_ID (snd (hd (cw_starts second_claim)))) (cl_LeaseToken (snd (hd (cw_starts second_claim))))
     (10 * second) (21 * second) (cw_db second_claim) = (Some ErrLeaseLost, cw_db second_claim)"
proof -
  let ?c = "snd (hd (cw_starts second_claim))" and ?c' = "snd (last (cw_starts second_claim))"
  let ?k = "key_of (minute_job CatchUpLatestOnly True) ScopeGlobal 0"
  have c: "(?k, ?c) \<in> set (cw_starts second_claim)" "(?k, ?c') \<in> set (cw_starts second_claim)" "cl_Attempt ?c < cl_Attempt ?c'"
    by code_simp+
  then show ?thesis
    using lost_lease_never_writes [OF demo_uuids minute_registered second_claim_reached c(1) _ rtranclp.rtrancl_refl] by blast
qed

text \<open>C30: A success is final: the row of a plan that has succeeded stays as it is and its handler is not started
  again, by whatever instance and however late.\<close>
theorem success_is_final:
  assumes "inj (env_gen_uuid \<epsilon>)" and "registered jobs" and "cron_steps \<epsilon> jobs (cron_start t) w"
    and "r \<in> set (cron_rows (cw_db w))" and "sx_Status r = ''SUCCESS''" and "cron_steps \<epsilon> jobs w w'"
  shows "r \<in> set (cron_rows (cw_db w')) \<and> attempts_of (plan_key r) (cw_starts w') = attempts_of (plan_key r) (cw_starts w)"
proof -
  have ok: "cron_ok \<epsilon> w" using cron_reachable [OF assms(1,2,3) start_ok] .
  then have ok': "cron_ok \<epsilon> w'" using cron_reachable [OF assms(1,2,6)] by blast
  have "r \<in> set (cron_rows (cw_db w'))" using steps_keep_success [OF assms(6,4,5)] .
  then show ?thesis using ok ok' assms(4) by (simp add: cron_ok_def start_logged_def)
qed

lemma finished_claim_reached: "cron_steps demo_env minute_jobs (cron_start 0) finished_claim"
proof -
  let ?job = "minute_job CatchUpLatestOnly True"
  obtain k c rest where run: "cw_running second_claim = (?job, k, c) # rest"
    using claim_at_running [of "20 * second"] unfolding second_claim_def by meson
  obtain e d where fin: "finish_run ?job c (21 * second) 5 (Inr good_result) (cw_db second_claim) = (e, d)"
    by (cases "finish_run ?job c (21 * second) 5 (Inr good_result) (cw_db second_claim)")
  have "cron_step demo_env minute_jobs second_claim (second_claim\<lparr>cw_db := d, cw_running := [] @ rest\<rparr>)"
    using run fin by (intro cron_step.finish) auto
  then have "cron_step demo_env minute_jobs second_claim finished_claim"
    by (simp add: finished_claim_def run fin)
  then show ?thesis using second_claim_reached by (rule rtranclp.rtrancl_into_rtrancl [rotated])
qed

theorem success_is_final_witness:
  "hd (cron_rows (cw_db finished_claim)) \<in> set (cron_rows (cw_db (finished_claim\<lparr>cw_now := 3600 * second\<rparr>))) \<and>
   attempts_of (key_of (minute_job CatchUpLatestOnly True) ScopeGlobal 0) (cw_starts finished_claim) = [1, 2]"
proof -
  let ?r = "hd (cron_rows (cw_db finished_claim))"
  have r: "?r \<in> set (cron_rows (cw_db finished_claim))" "sx_Status ?r = ''SUCCESS''" by code_simp+
  have "cw_now finished_claim \<le> 3600 * second" by code_simp
  then have "cron_steps demo_env minute_jobs finished_claim (finished_claim\<lparr>cw_now := 3600 * second\<rparr>)"
    by (intro r_into_rtranclp cron_step.clock)
  moreover have "attempts_of (key_of (minute_job CatchUpLatestOnly True) ScopeGlobal 0) (cw_starts finished_claim) = [1, 2]"
    by code_simp
  ultimately show ?thesis
    using success_is_final [OF demo_uuids minute_registered finished_claim_reached r] by blast
qed

text \<open>C22: A tick is made of the steps of the machine: whatever jobs an instance has registered and whatever time it
  has read, \<open>RunOnce\<close> takes the table where some run of \<open>cron_step\<close> takes it, if what happens while its handlers
  run, the other instances included, is such a run.\<close>
theorem tick_refines_steps:
  assumes "lawful_run \<epsilon> jobs run" and "set js \<subseteq> jobs" and "now \<le> cw_now w"
  shows "\<exists>w'. cron_steps \<epsilon> jobs w w' \<and> cw_db w' = RunOnce \<epsilon> run runner now js (cw_db w)"
proof -
  have "cron_reaches \<epsilon> jobs w (fold (runJob \<epsilon> run runner now) js (cw_db w))"
    using assms(2,3) by (intro fold_reaches [of js now]) (auto intro: runJob_reaches [OF assms(1)])
  then show ?thesis by (simp add: cron_reaches_def RunOnce_def)
qed

theorem tick_refines_steps_witness:
  "\<exists>w'. cron_steps demo_env minute_jobs (cron_start 0) w' \<and> cw_db w' = tick_db \<and> length (cron_rows (cw_db w')) = 1"
proof -
  have "length (cron_rows tick_db) = 1" by code_simp
  moreover have "set [minute_job CatchUpEveryPlan True] \<subseteq> minute_jobs" by (simp add: minute_jobs_def)
  ultimately show ?thesis
    using tick_refines_steps [OF at_once_lawful, of "[minute_job CatchUpEveryPlan True]" minute_jobs 0 "cron_start 0" demo_env flaky 0 "''r''"]
    by (auto simp: tick_db_def cron_start_def)
qed

section \<open>Catching up\<close>

text \<open>C23: A job that replays every plan skips none: of the plans since the newest known one that are due and inside
  the window, a tick lists each, unless it already lists as many earlier ones as a tick may.\<close>
theorem every_plan_catches_up:
  assumes "job_validate job = None" and "js_CatchUpMode job = CatchUpEveryPlan" and "0 < js_CatchUpWindow job"
    and "lp_Found (latestPlan (js_Name job) scope d)"
    and "on_grid (js_Cadence job) (lp_PlanTime (latestPlan (js_Name job) scope d))"
    and "on_grid (js_Cadence job) t" and "lp_PlanTime (latestPlan (js_Name job) scope d) < t"
    and "now - js_CatchUpWindow job \<le> t" and "t \<le> now - js_ScheduleDelay job"
  shows "\<exists>plans. plansForTick job scope now d = Inr plans \<and>
           (t \<in> set plans \<or> int (length plans) = js_MaxPlansPerTick job \<and> (\<forall>p\<in>set plans. p < t))"
proof -
  let ?c = "js_Cadence job" and ?info = "latestPlan (js_Name job) scope d"
  let ?latest = "FloorPlan (now - js_ScheduleDelay job) ?c"
  let ?start = "plan_start job ?info ?latest now"
  have c: "0 < ?c" using valid_cadence [OF assms(1)] .
  have latest: "?latest \<le> now - js_ScheduleDelay job" "t \<le> ?latest"
    using FloorPlan_le [OF c, of "now - js_ScheduleDelay job"] assms(9)
      grid_next [OF grid_floor [OF c, of "now - js_ScheduleDelay job"] assms(6)]
    by linarith+
  have start: "?start \<le> t" "on_grid ?c ?start"
    using plan_start_upto [OF c assms(3,4,5,6,7,8)] by auto
  obtain k where k: "t = ?start + int k * ?c"
    using grid_multiple [OF start(2) assms(6) start(1) c] .
  have "plansForTick job scope now d = Inr (plan_steps ?c ?latest (nat (js_MaxPlansPerTick job)) ?start)"
    using latest(1) assms(2) by (simp add: plansForTick_def Let_def)
  then show ?thesis
    using every_plan_lists [OF c k latest(2), of "nat (js_MaxPlansPerTick job)"] valid_plans_per_tick [OF assms(1,2)] by auto
qed

theorem every_plan_catches_up_witness:
  "plansForTick (minute_job CatchUpEveryPlan True) ScopeGlobal (130 * second) tick_db = Inr [60 * second, 120 * second] \<and>
   120 * second \<in> set [60 * second, 120 * second]"
proof -
  let ?job = "minute_job CatchUpEveryPlan True"
  have plans: "plansForTick ?job ScopeGlobal (130 * second) tick_db = Inr [60 * second, 120 * second]" by code_simp
  have known: "lp_Found (latestPlan (js_Name ?job) ScopeGlobal tick_db)"
      "lp_PlanTime (latestPlan (js_Name ?job) ScopeGlobal tick_db) = 0"
    by code_simp+
  have facts: "js_CatchUpMode ?job = CatchUpEveryPlan" "0 < js_CatchUpWindow ?job" "on_grid (js_Cadence ?job) 0"
      "on_grid (js_Cadence ?job) (120 * second)" "0 < 120 * second" "130 * second - js_CatchUpWindow ?job \<le> 120 * second"
      "120 * second \<le> 130 * second - js_ScheduleDelay ?job" "js_MaxPlansPerTick ?job = 3"
    by (simp_all add: minute_job_def second_def on_grid_def zero_time_def)
  show ?thesis
    using every_plan_catches_up [OF minute_job_valid facts(1,2) known(1) _ facts(4) _ facts(6,7), unfolded known(2), OF facts(3,5)]
      plans facts(8) by auto
qed

text \<open>C24: A plan that is not the newest of its job and scope is never looked at again by a job that replays every
  plan: however the table evolves, no later tick lists it, also when its row is \<open>FAILED\<close>, has attempts left and is
  due to be retried.\<close>
theorem older_plan_is_stranded:
  assumes "cron_steps \<epsilon> jobs w w'"
    and "r \<in> set (cron_rows (cw_db w))" and "plan_key r = key_of job scope newer" and "p < newer"
    and "job_validate job = None" and "js_CatchUpMode job = CatchUpEveryPlan"
    and "plansForTick job scope now (cw_db w') = Inr plans"
  shows "p \<notin> set plans"
proof
  assume p: "p \<in> set plans"
  obtain r' where "r' \<in> set (cron_rows (cw_db w'))" "plan_key r' = key_of job scope newer"
    using steps_keep_key [OF assms(1,2)] assms(3) by auto
  then have "lp_Found (latestPlan (js_Name job) scope (cw_db w'))" "newer \<le> lp_PlanTime (latestPlan (js_Name job) scope (cw_db w'))"
    using latestPlan_newest by blast+
  then show False
    using plans_after_newest [OF valid_cadence [OF assms(5)] assms(6,7) _ p] assms(4) by simp
qed

text \<open>The plan of the first minute failed and is due for its second attempt; no tick lists it.\<close>

theorem older_plan_is_stranded_witness:
  "list_ex (\<lambda>r. sx_PlanTime r = 60 * second \<and> sx_Status r = ''FAILED'' \<and>
      stealable (minute_job CatchUpEveryPlan True) (600 * second) r) (cron_rows flaky_db) \<and>
   60 * second \<notin> set [180 * second, 240 * second, 300 * second]"
proof -
  let ?job = "minute_job CatchUpEveryPlan True" and ?w = "(cron_start 0)\<lparr>cw_db := flaky_db\<rparr>"
  have due: "list_ex (\<lambda>r. sx_PlanTime r = 60 * second \<and> sx_Status r = ''FAILED'' \<and>
      stealable ?job (600 * second) r) (cron_rows flaky_db)" by code_simp
  have newer: "last (cron_rows flaky_db) \<in> set (cron_rows flaky_db)"
      "plan_key (last (cron_rows flaky_db)) = key_of ?job ScopeGlobal (120 * second)" "60 * second < 120 * second"
    by code_simp+
  have plans: "plansForTick ?job ScopeGlobal (600 * second) flaky_db = Inr [180 * second, 240 * second, 300 * second]" by code_simp
  have mode: "js_CatchUpMode ?job = CatchUpEveryPlan" by (simp add: minute_job_def)
  show ?thesis
    using older_plan_is_stranded [of demo_env minute_jobs ?w ?w, OF rtranclp.rtrancl_refl _ newer(2,3) minute_job_valid mode, of "600 * second"]
      newer(1) plans due by simp
qed

section \<open>Runs that should not be\<close>

lemma tryClaim_due:
  assumes "r \<in> set (cron_rows d)" and "plan_key r = key_of job scope p" and "stealable job now r"
    and "\<And>x. x \<in> set (cron_rows d) \<Longrightarrow> plan_key x = key_of job scope p \<Longrightarrow> x = r"
  obtains c d' where "tryClaim \<epsilon> job scope p now runner d = (c, d')" "cl_Stole c" "cl_Attempt c = sx_Attempt r + 1"
proof -
  obtain c d' where claim: "tryClaim \<epsilon> job scope p now runner d = (c, d')" by (cases "tryClaim \<epsilon> job scope p now runner d")
  then show ?thesis
  proof (cases rule: tryClaim_cases)
    case won
    then show ?thesis using assms(1,2) by blast
  next
    case (stole x)
    then show ?thesis using assms(4) that [OF claim] by blast
  next
    case lost
    then show ?thesis using assms(1,2,3) by blast
  qed
qed

text \<open>C25: \<open>AllowStaleReentry = false\<close> does not keep a plan from being run again beside a handler that may still be
  at work: the tick marks its stale row \<open>FAILED\<close> without a time for the retry, so it claims the plan at once and starts
  the next attempt.\<close>
theorem non_reentrant_job_reenters:
  assumes "\<not> js_AllowStaleReentry job" and "job_validate job = None" and "js_CatchUpMode job = CatchUpLatestOnly"
    and "js_Scopes job = Some (StaticScopes [scope])"
    and "distinct (map plan_key (cron_rows d))" and "r \<in> set (cron_rows d)"
    and "plan_key r = key_of job scope (FloorPlan (now - js_ScheduleDelay job) (js_Cadence job))"
    and "sx_Status r = ''RUNNING''" and "sx_StaleAfter r < now" and "sx_Attempt r < sx_MaxAttempts r" and "sx_NextRetryAt r = None"
  shows "\<exists>c d'. cl_Stole c \<and> cl_Attempt c = sx_Attempt r + 1 \<and>
           (\<forall>run. runJob \<epsilon> run runner now job d =
              run job scope (FloorPlan (now - js_ScheduleDelay job) (js_Cadence job)) c d')"
proof -
  let ?p = "FloorPlan (now - js_ScheduleDelay job) (js_Cadence job)"
  define f where "f x = (if sx_JobName x = js_Name job \<and> sx_Status x = ''RUNNING'' \<and> sx_StaleAfter x < now
      then x\<lparr>sx_Status := ''FAILED'', sx_FinishedAt := Some now, sx_ErrorCode := Some ''stale_timeout'',
         sx_ErrorMsg := Some ''lease expired without heartbeat''\<rparr> else x)" for x :: cron_row
  define swept where "swept = snd (markStaleAsFailed (js_Name job) now d)"
  have rows: "cron_rows swept = map f (cron_rows d)"
    by (simp add: swept_def markStaleAsFailed_def Let_def update_cron_def f_def)
  have key: "plan_key (f x) = plan_key x" for x by (simp add: f_def plan_key_def)
  have "sx_JobName r = js_Name job" using assms(7) by (simp add: plan_key_def key_of_def)
  then have due: "stealable job now (f r)" "sx_Attempt (f r) = sx_Attempt r"
    using assms(8-11) by (simp_all add: f_def stealable_def)
  have unique: "x = f r" if "x \<in> set (cron_rows swept)" "plan_key x = key_of job scope ?p" for x
  proof -
    from that obtain y where "y \<in> set (cron_rows d)" "x = f y" "plan_key y = plan_key r"
      using assms(7) by (auto simp: rows key)
    then show ?thesis using assms(5,6) by (auto simp: distinct_map dest: inj_onD)
  qed
  obtain c d' where claim: "tryClaim \<epsilon> job scope ?p now runner swept = (c, d')" "cl_Stole c" "cl_Attempt c = sx_Attempt r + 1"
    using tryClaim_due [of "f r" swept job scope ?p now \<epsilon> runner] unique due assms(6,7) by (auto simp: rows key)
  have "?p \<le> now - js_ScheduleDelay job" using FloorPlan_le [OF valid_cadence [OF assms(2)]] by blast
  then have "plansForTick job scope now swept = Inr [?p]"
    using assms(3) by (simp add: plansForTick_def Let_def)
  then have "runJob \<epsilon> run runner now job d = run job scope ?p c d'" for run
    using claim by (simp add: runJob_def assms(4) StaticScopes_def swept_def [symmetric] processPlan_def)
  then show ?thesis using claim by blast
qed

definition lone_db :: cron_db where
  "lone_db = snd (tryClaim demo_env (minute_job CatchUpLatestOnly False) ScopeGlobal 0 0 ''r'' (cw_db (cron_start 0)))"

theorem non_reentrant_job_reenters_witness:
  "\<exists>c d'. cl_Attempt c = 2 \<and>
     runJob demo_env (at_once flaky 0) ''s'' (20 * second) (minute_job CatchUpLatestOnly False) lone_db =
       at_once flaky 0 (minute_job CatchUpLatestOnly False) ScopeGlobal 0 c d'"
proof -
  let ?job = "minute_job CatchUpLatestOnly False" and ?r = "hd (cron_rows lone_db)"
  have job: "\<not> js_AllowStaleReentry ?job" "js_CatchUpMode ?job = CatchUpLatestOnly"
      "js_Scopes ?job = Some (StaticScopes [ScopeGlobal])"
    by (simp_all add: minute_job_def)
  have p: "FloorPlan (20 * second - js_ScheduleDelay ?job) (js_Cadence ?job) = 0" by code_simp
  have row: "distinct (map plan_key (cron_rows lone_db))" "?r \<in> set (cron_rows lone_db)" "plan_key ?r = key_of ?job ScopeGlobal 0"
      "sx_Status ?r = ''RUNNING''" "sx_StaleAfter ?r < 20 * second" "sx_Attempt ?r < sx_MaxAttempts ?r" "sx_NextRetryAt ?r = None"
      "sx_Attempt ?r + 1 = 2"
    by code_simp+
  show ?thesis
    using non_reentrant_job_reenters [OF job(1) minute_job_valid job(2,3) row(1,2) _ row(4-7), of demo_env "''s''", unfolded p, OF row(3)]
      row(8) by metis
qed

text \<open>C36: A tick reads the clock once, so a claim it makes after long handlers is dated back to the beginning of the
  tick: when that is further back than the lease lasts, another instance can claim the same plan without any time
  passing, and both handlers run.\<close>
theorem late_claim_runs_twice:
  assumes "job \<in> jobs" and "js_AllowStaleReentry job" and "1 < js_MaxAttempts job"
    and "tryClaim \<epsilon> job scope p t runner (cw_db w) = (c, d)" and "cl_Won c"
    and "t + stale_span (js_StaleTimeout job) < cw_now w" and "t \<le> cw_now w"
  shows "\<exists>w' c'. cron_steps \<epsilon> jobs w w' \<and> cw_now w' = cw_now w \<and> cl_Attempt c = 1 \<and> cl_Attempt c' = 2 \<and>
           (job, key_of job scope p, c) \<in> set (cw_running w') \<and> (job, key_of job scope p, c') \<in> set (cw_running w')"
proof -
  define w1 where "w1 = w\<lparr>cw_db := d, cw_running := (job, key_of job scope p, c) # cw_running w,
      cw_starts := cw_starts w @ [(key_of job scope p, c)]\<rparr>"
  have first: "cron_step \<epsilon> jobs w w1"
    unfolding w1_def using cron_step.claimed [OF assms(1,7,4)] assms(5) by simp
  from assms(4) show ?thesis
  proof (cases rule: tryClaim_cases)
    case won
    let ?row = "fresh_row \<epsilon> (cron_drawn (cw_db w)) job scope p t runner"
    have row: "?row \<in> set (cron_rows d)" "plan_key ?row = key_of job scope p" "stealable job (cw_now w) ?row" "sx_Attempt ?row = 1"
      using won(3) assms(2,3,6) by (simp_all add: fresh_row_def plan_key_def key_of_def stealable_def)
    have unique: "x = ?row" if "x \<in> set (cron_rows d)" "plan_key x = key_of job scope p" for x
      using that won(2,3) by auto
    obtain c' d' where again: "tryClaim \<epsilon> job scope p (cw_now w) runner d = (c', d')" "cl_Stole c'" "cl_Attempt c' = 2"
      using tryClaim_due [OF row(1-3) unique, of \<epsilon> runner] row(4) by auto
    define w2 where "w2 = w1\<lparr>cw_db := d', cw_running := (job, key_of job scope p, c') # cw_running w1,
        cw_starts := cw_starts w1 @ [(key_of job scope p, c')]\<rparr>"
    have "cron_step \<epsilon> jobs w1 w2"
      unfolding w2_def by (rule cron_step.claimed [where t = "cw_now w" and runner = runner]) (use assms(1) again in \<open>auto simp: w1_def\<close>)
    with first have "cron_steps \<epsilon> jobs w w2" by (meson converse_rtranclp_into_rtranclp rtranclp.rtrancl_refl)
    moreover have "cw_now w2 = cw_now w" "cw_running w2 = (job, key_of job scope p, c') # (job, key_of job scope p, c) # cw_running w"
      by (simp_all add: w2_def w1_def)
    ultimately show ?thesis using won(6) again(3) by (intro exI [of _ w2] exI [of _ c']) simp
  qed (use assms(5) in blast)+
qed

theorem late_claim_runs_twice_witness:
  "\<exists>w' c c'. cron_steps demo_env minute_jobs (cron_start (60 * second)) w' \<and> cw_now w' = 60 * second \<and>
     cl_Attempt c = 1 \<and> cl_Attempt c' = 2 \<and> (minute_job CatchUpLatestOnly True, key_of (minute_job CatchUpLatestOnly True) ScopeGlobal 0, c) \<in> set (cw_running w') \<and>
     (minute_job CatchUpLatestOnly True, key_of (minute_job CatchUpLatestOnly True) ScopeGlobal 0, c') \<in> set (cw_running w')"
proof -
  let ?job = "minute_job CatchUpLatestOnly True" and ?w = "cron_start (60 * second)"
  have job: "?job \<in> minute_jobs" "js_AllowStaleReentry ?job" "1 < js_MaxAttempts ?job"
      "0 + stale_span (js_StaleTimeout ?job) < cw_now ?w" "0 \<le> cw_now ?w"
    by (simp_all add: minute_jobs_def minute_job_def stale_span_def cron_start_def second_def)
  obtain c d where claim: "tryClaim demo_env ?job ScopeGlobal 0 0 ''r'' (cw_db ?w) = (c, d)"
    by (cases "tryClaim demo_env ?job ScopeGlobal 0 0 ''r'' (cw_db ?w)")
  then have "cl_Won c" by (auto simp: tryClaim_def cron_start_def Let_def)
  then show ?thesis
    using late_claim_runs_twice [OF job(1-3) claim _ job(4,5)] by (fastforce simp: cron_start_def)
qed

end
