(* ===== verification/Spec2Isabelle.thy ===== *)
theory Spec2Isabelle
  imports Orchestrator EmptyClaim QueueRecovery SchedulerPromises
begin

text \<open>
  Verification of the Mission orchestration core of the server: the Go package
  \<open>src/server/internal/service/orchestration\<close> with the queries it uses (\<open>src/server/pkg/db/generated\<close>), the
  invocation predicate of \<open>src/server/internal/agentaccess\<close>, and the task queue that carries its runs out:
  \<open>src/server/internal/service/task.go\<close> and \<open>task_orchestration.go\<close>, \<open>src/server/pkg/taskfailure\<close>, the empty-claim
  cache and the sweeps of \<open>src/server/cmd/server/runtime_sweeper.go\<close>.  Beside them, the scheduler of periodic jobs,
  \<open>src/server/internal/scheduler\<close>.

  The program.  A mission is an issue with a plan: a graph of task nodes, each with a duty (executor, integrator,
  ...).  An owner creates a mission, submits a plan or has a planner propose one, and starts it.  From
  then on the orchestrator works in steps (\<open>AdvanceMission\<close>): it retries failed runs, makes nodes ready
  whose dependencies are completed, routes ready nodes to agents, has their artifacts reviewed by other
  agents, and settles the mission.  A run is carried out by an agent task; the reconciler compares runs
  with their tasks, records artifacts and verdicts, expires mailbox messages and calls the next step.
  Owners intervene: retry a blocked node, resolve a human gate, approve a budget, cancel.  Every change
  is logged in a numbered activity log whose deduplication keys make commands idempotent.  The task queue
  holds the tasks of runs and the tasks of ordinary issues: the daemons of the runtimes poll it, claim a
  task under a lease, start it and report its end; failures of some kinds are retried, and sweeps fail the
  tasks of lost runtimes.  The scheduler runs periodic jobs on all instances of the server: a table row per job,
  scope and plan is lease and audit entry, and its token keeps an instance that lost the lease from writing.

  The model.  Data are records and datatypes with the names of the code; a Go string is a byte list, a
  string type with named constants is a datatype with one more constructor for every other text; \<open>int\<close>
  and \<open>int64\<close> are \<open>int\<close>, with the wrap-around written out where the code can reach it (\<open>i64\<close>, \<open>i32\<close>); a
  nullable column is an option.  The database is the record \<open>db\<close> of tables, each a list of rows; a
  transaction is a function \<open>db \<Rightarrow> error + ('a \<times> db)\<close>, so an error leaves the database as it was.  A query
  is a function of the same name as in \<open>pkg/db/generated\<close>, with the unique indexes of the migrations
  checked by the inserts.  Errors are values of the type \<open>error\<close>.  \<open>env\<close> holds what is not in the
  repository: \<open>uuid.Parse\<close>, the driver's \<open>Scan\<close>, the SHA-1 UUIDs, \<open>gen_random_uuid()\<close>, \<open>now()\<close> and the
  length of a jsonb text; \<open>env_ok\<close> says what is assumed of them.  SHA-256 and the writing and reading
  of JSON are modelled.

  The theories, bottom up:
    \<^item> \<open>Prelude\<close>, \<open>GoText\<close>, \<open>JsonText\<close>, \<open>JsonLaws\<close>: what the code uses of Go's library (trimming, decimal numbers,
      UTF-8, SHA-256, \<open>encoding/json\<close> both ways, on bytes); \<open>json_read_marshal\<close> is their round trip.
    \<^item> \<open>OrchTypes\<close>, \<open>Transition\<close>, \<open>FailurePolicy\<close>, \<open>Budget\<close>: \<open>types.go\<close>, \<open>transition.go\<close>, \<open>failure_policy.go\<close>, \<open>budget.go\<close>.
    \<^item> \<open>PlanTopology\<close>, \<open>PlanCheck\<close>, \<open>ReadyNodes\<close>: \<open>plan.go\<close>; \<open>PlanProposal\<close>: \<open>plan_proposal.go\<close>.
    \<^item> \<open>RoleConfig\<close>, \<open>RoleSnapshot\<close>, \<open>RolePolicy\<close>: \<open>role_profile.go\<close>, \<open>role_policy_snapshot.go\<close>.
    \<^item> \<open>Routing\<close>, \<open>RoutingRepo\<close>: \<open>routing_selector.go\<close>, \<open>agentaccess.go\<close>, \<open>routing_repository.go\<close>; the locale
      \<open>routing_querier\<close> is the interface of the loop that selects, locks and selects again.
    \<^item> \<open>Store\<close>, \<open>Queries\<close>, \<open>TxLogic\<close>: the tables, the queries, and \<open>obeys R act\<close> (whatever \<open>act\<close> commits is
      related to its start by \<open>R\<close>) with the locale \<open>tx_preorder\<close> that composes it.
    \<^item> \<open>CommandBase\<close>, \<open>Lifecycle\<close>, \<open>Interventions\<close>, \<open>ArtifactReview\<close>, \<open>MailboxCommands\<close>, \<open>PlanGate\<close>: the commands
      (\<open>service.go\<close>, \<open>repository*.go\<close>, \<open>retry_task_node.go\<close>, \<open>human_gate.go\<close>, \<open>budget_approval.go\<close>,
      \<open>artifact_review.go\<close>, \<open>mailbox*.go\<close>, \<open>request_plan.go\<close>, \<open>plan_gate.go\<close>).
    \<^item> \<open>Mailbox\<close>, \<open>Execution\<close>, \<open>Advance\<close>: messages and the context of a run (\<open>mailbox.go\<close>, \<open>mailbox_context.go\<close>),
      the execution gateway, the orchestrator's step (\<open>advance.go\<close>, \<open>repository_advance.go\<close>).
    \<^item> \<open>Receipts\<close>, \<open>Reconcile\<close>, \<open>Reconciler\<close>, \<open>Stopping\<close>: what executions report (\<open>run_result.go\<close>), the reconciliation of
      a run (\<open>reconcile.go\<close>, \<open>repository_reconcile*.go\<close>), its loop with the cursor, and the stop of the
      executions of a cancelled mission.
    \<^item> \<open>Commands\<close>, \<open>System\<close>: every entry point as one type of events, \<open>handle\<close>, and the reachable states
      \<open>evolves\<close>, in which the rest of the server may change the tables it owns between events (\<open>outside\<close>).
    \<^item> \<open>History\<close>, \<open>LogOrder\<close>, \<open>PlanGraph\<close>, \<open>Conduct\<close>: the preorders and invariants that every query keeps (the past
      is kept, the log is numbered, the stored graph mirrors the plan, the unique indexes hold and
      messages leave pending once).  The locales \<open>advance_queries\<close>, \<open>intervention_queries\<close>,
      \<open>reconcile_queries\<close>, \<open>mailbox_queries\<close>, \<open>planning_queries\<close>, \<open>reconciler_queries\<close> and \<open>system_queries\<close> lift a
      relation from the queries to the commands and to \<open>evolves\<close>; each is interpreted for each of them.
    \<^item> \<open>LifecycleLaws\<close>, \<open>PlanProgress\<close>, \<open>CancelEffect\<close>, \<open>AdvanceLaws\<close>, \<open>AdvanceLimits\<close>, \<open>Planner\<close>, \<open>Hazards\<close>: the laws of single
      components; \<open>Hazards\<close> has the situations in which the orchestrator cannot go on.
    \<^item> \<open>TaskFailure\<close>: the reasons of failures, their classification from error texts and the retry policy
      (\<open>pkg/taskfailure\<close>, \<open>task.go\<close>); \<open>EmptyClaim\<close>: the cached verdict that a runtime has no task
      (\<open>empty_claim_cache.go\<close>), with \<open>claim_step\<close>, which interleaves polls, enqueues and expiring keys.
    \<^item> \<open>TaskQueue\<close>, \<open>TaskService\<close>: the queries of the queue (\<open>agent.sql.go\<close>, \<open>runtime.sql.go\<close>) and the methods over
      them, up to \<open>queue_handle\<close>, all entry points of the queue as one type of events.
    \<^item> \<open>QueueLaws\<close>, \<open>QueueState\<close>, \<open>QueueSystem\<close>: what an update may do to a task (\<open>queue_move\<close>); the locales
      \<open>queue_retries\<close> and \<open>queue_queries\<close> lift a relation from the queries to \<open>queue_handle\<close>, and are interpreted for
      \<open>outside\<close>, which makes the queue a part of the orchestrator's environment, and for \<open>queue_conduct\<close>, the promises
      of the queue; \<open>serves\<close> interleaves the events of the orchestrator, the queue and the rest of the server,
      which may move tasks to other runtimes and edit the limits of agents at any time (\<open>serve_step\<close>).
    \<^item> \<open>Scheduler\<close>: the jobs, the statements on the table and the tick (\<open>spec.go\<close>, \<open>db_ops.go\<close>, \<open>manager.go\<close>,
      \<open>jobs_task_usage.go\<close>); \<open>SchedulerRuns\<close>: \<open>cron_step\<close>, the instances at work on one table, and its invariant;
      \<open>SchedulerGuarantees\<close>: the locale \<open>fenced_lease\<close>, interpreted for \<open>cron_step\<close>, and the tick as a run of it;
      \<open>SchedulerPromises\<close>: the properties of the scheduler.
    \<^item> \<open>Scenario\<close>, \<open>Guarantees\<close>, \<open>Operations\<close>, \<open>Orchestrator\<close>, \<open>QueueGuarantees\<close>, \<open>QueueReports\<close>, \<open>QueueRecovery\<close> and
      this theory: the properties C1 to C40, with witnesses evaluated in concrete databases.

  Bounds and fuel.  \<open>topo_loop\<close> ends by the number of unprocessed nodes and queue entries, \<open>cut_to_valid\<close> by the
  length of the text.  The JSON reader takes the length of the text as fuel, of which every step uses
  at least one (\<open>read_fuel\<close>).  \<open>select_and_lock\<close> has the attempts of the code, two more than there are
  candidates; in one transaction the first is enough.  All other recursion is structural.

  Not modelled.  Failures of the database and of the network; row locks, which the atomic transactions of
  the model make superfluous, apart from the race of two copies of a command (\<open>tx_race\<close>); CHECK
  constraints; analytics, notifications and events; the scheduler's ticker and the handler of its one job; task tokens, and the columns of agent tasks that are kept
  for the audit trail.  Of enqueueing only the insert is modelled: who is accountable for a task, the merging
  of comments into a waiting task, manual reruns and deferred escalations belong to the handlers of
  comments and issues, which are left out with the rest of the HTTP layer, as are the daemon and the
  adapters of agents, which are programs around external processes.  Nil slices
  are told from empty ones only for the context references of a proposal, where the code compares them.
  The wording of \<open>encoding/json\<close> errors is one constant, and the reader of proposals takes the last of
  repeated members, where \<open>encoding/json\<close> decodes them one into the other.
\<close>

section \<open>Plans\<close>

text \<open>C20: \<open>ValidatePlan\<close> reports no error exactly for the plans of the contract \<open>plan_ok\<close>: right
  version and mission, limits within the hard limits, 1 to 16 well-formed nodes with distinct keys,
  known dependencies that form an acyclic graph without a chain of five edges, a root node, an
  integrator that nothing depends on, and every integrator fed by a non-integrator.\<close>
theorem plan_accepted_iff:
  "ValidatePlan plan missionID hardLimits = [] \<longleftrightarrow> plan_ok plan missionID hardLimits"
  by (rule ValidatePlan_Nil_iff)

text \<open>C21: On a well-formed dependency graph the queue-driven \<open>validatePlanTopology\<close> accepts exactly
  the acyclic graphs whose longest dependency chain has at most four edges.\<close>
theorem plan_topology_accepts_iff:
  assumes "distinct (map fst byKey)"
    and "dep_graph (fst ` set byKey) D dependents"
    and "\<And>k n. (k, n) \<in> set byKey \<Longrightarrow> D k = set (pn_DependsOn n) \<and> distinct (pn_DependsOn n)"
  shows "validatePlanTopology byKey dependents = [] \<longleftrightarrow>
    acyclic (dep_edges (fst ` set byKey) D) \<and> dep_edges (fst ` set byKey) D ^^ 5 = {}"
  using assms by (rule validatePlanTopology_Nil_iff)

definition sample_node :: "string \<Rightarrow> Duty \<Rightarrow> string list \<Rightarrow> PlanNode" where
  "sample_node key duty deps =
     \<lparr>pn_Key = key, pn_Title = ''t'', pn_Description = ''d'', pn_Duty = duty,
      pn_AcceptanceCriteria = [''works''], pn_ArtifactKinds = [ArtifactKindFinalDelivery],
      pn_DependsOn = deps, pn_BudgetEstimate = \<lparr>est_Tokens = 0, est_CostUSDTicks = 0\<rparr>\<rparr>"

theorem plan_topology_accepts_iff_witness:
  "validatePlanTopology [(''a'', sample_node ''a'' DutyExecutor []),
       (''b'', sample_node ''b'' DutyIntegrator [''a''])] ((\<lambda>_. [])(''a'' := [''b''])) = [] \<longleftrightarrow>
   acyclic {(''a'', ''b'')} \<and> {(''a'', ''b'')} ^^ 5 = {}"
proof -
  let ?K = "[(''a'', sample_node ''a'' DutyExecutor []), (''b'', sample_node ''b'' DutyIntegrator [''a''])]"
  let ?D = "(\<lambda>_. {})(''b'' := {''a''})" and ?d = "(\<lambda>_. [])(''a'' := [''b''])"
  have e: "dep_edges (fst ` set ?K) ?D = {(''a'', ''b'')}" by (auto simp: dep_edges_def)
  have "validatePlanTopology ?K ?d = [] \<longleftrightarrow>
      acyclic (dep_edges (fst ` set ?K) ?D) \<and> dep_edges (fst ` set ?K) ?D ^^ 5 = {}"
  proof (rule plan_topology_accepts_iff)
    show "dep_graph (fst ` set ?K) ?D ?d" by (auto simp: dep_graph_def)
  qed (auto simp: sample_node_def)
  then show ?thesis unfolding e .
qed

section \<open>Choosing ready nodes\<close>

text \<open>In a running mission \<open>ReadyNodeKeys\<close> fills the free run slots, never more, with pending or
  rework nodes without an active assignment whose dependencies are all completed, in the order of
  priority, creation and key, and every eligible node it leaves out ranks after those it takes.\<close>
theorem ready_keys_choice:
  assumes "ReadyNodeKeys MissionStatusRunning ns active maxRuns = Inr keys" and "active < maxRuns"
  shows "keys = map ns_Key (chosen ns (nat (maxRuns - active))) \<and>
    set (chosen ns (nat (maxRuns - active))) \<subseteq> ready_set ns \<and>
    length keys = min (nat (maxRuns - active)) (card (ready_set ns)) \<and> distinct keys \<and>
    (\<forall>x \<in> set (chosen ns (nat (maxRuns - active))).
       \<forall>y \<in> ready_set ns - set (chosen ns (nat (maxRuns - active))). ready_rank x < ready_rank y)"
proof -
  have d: "distinct (map ns_Key ns)" and k: "keys = map ns_Key (chosen ns (nat (maxRuns - active)))"
    using assms unfolding ReadyNodeKeys_Inr snapshots_ok_def chosen_def by simp_all
  have "distinct (map ns_Key (filter (ready_candidate (snap_keyed ns)) ns))"
    using d by (rule distinct_map_filter)
  then have "distinct (map ns_Key (sort_key ready_rank (filter (ready_candidate (snap_keyed ns)) ns)))"
    by (simp add: distinct_map)
  then have "distinct keys"
    unfolding k chosen_def by (simp add: take_map [symmetric])
  then show ?thesis
    using k chosen_subset [OF d] chosen_all_or_full [OF d] chosen_before_rest [OF d] by simp
qed

definition sample_snapshot :: "string \<Rightarrow> TaskStatus \<Rightarrow> int \<Rightarrow> string list \<Rightarrow> NodeSnapshot" where
  "sample_snapshot key status prio deps =
     \<lparr>ns_Key = key, ns_Status = status, ns_Priority = prio, ns_CreatedOrder = 0,
      ns_DependencyKeys = deps, ns_HasActiveAssignment = False\<rparr>"

definition sample_snapshots :: "NodeSnapshot list" where
  "sample_snapshots =
     [sample_snapshot ''a'' TaskStatusCompleted 0 [], sample_snapshot ''b'' TaskStatusPending 1 [''a''],
      sample_snapshot ''c'' TaskStatusRework 2 [''a'']]"

theorem ready_keys_choice_witness:
  "length [''c''] = min (nat (3 - 2)) (card (ready_set sample_snapshots))"
proof -
  have "ReadyNodeKeys MissionStatusRunning sample_snapshots 2 3 = Inr [''c'']" by code_simp
  from ready_keys_choice [OF this] show ?thesis by (meson rel_simps)
qed

text \<open>\<open>ReadyNodeKeys\<close> fails exactly when the run limit is below one, the number of active runs is
  negative, or the snapshot is malformed: a blank or repeated key, or an unknown dependency.\<close>
theorem ready_keys_total_iff:
  "(\<exists>keys. ReadyNodeKeys status ns active maxRuns = Inr keys) \<longleftrightarrow>
     1 \<le> maxRuns \<and> 0 \<le> active \<and> snapshots_ok ns"
  unfolding ReadyNodeKeys_Inr by auto

section \<open>Lifecycles, failures and budgets\<close>

text \<open>C40: A run changes its status at most three times along the transition table, and not at all once
  it succeeded, failed or was cancelled.\<close>
theorem run_lifecycle_bounded:
  assumes "(run_step ^^ n) s t"
  shows "n \<le> 3 \<and> (isTerminalRunStatus s \<longrightarrow> n = 0 \<and> t = s)"
proof -
  have "n \<le> 3" using run_path_length [OF assms] run_rank_le_3 [of t] by linarith
  moreover have "n = 0 \<and> t = s" if "isTerminalRunStatus s"
  proof (cases n)
    case (Suc k)
    then obtain u where "run_step s u" using assms by (auto elim: relpowp_Suc_E2 simp del: relpowp.simps)
    with run_step_from_terminal [OF that] show ?thesis by blast
  qed (use assms in simp)
  ultimately show ?thesis by simp
qed

theorem run_lifecycle_bounded_witness:
  "(run_step ^^ 2) RunStatusQueued RunStatusFailed \<and> (2::nat) \<le> 3"
proof -
  have "(run_step ^^ 2) RunStatusQueued RunStatusFailed"
    by (auto simp: numeral_2_eq_2 run_step_cases relcompp_apply)
  with run_lifecycle_bounded [OF this] show ?thesis by simp
qed

text \<open>The failure policy retries a run on the same assignment exactly when its normalized failure
  kind is a transient one and attempts remain; the statuses it leaves an exhausted node in are
  blocked for an offline runtime or a dispatch timeout, failed otherwise.\<close>
theorem failure_policy_decision:
  "EvaluateFailurePolicy kind attempts maxAttempts =
     \<lparr>fp_FailureKind = normalizePolicyFailureKind kind,
      RetrySameAssignment = (retryable_kind (normalizePolicyFailureKind kind) \<and>
        0 < attempts \<and> attempts < maxAttempts),
      ExhaustedTaskStatus =
        (if normalizePolicyFailureKind kind \<in> {FailureKindRuntimeOffline, FailureKindDispatchTimeout}
         then TaskStatusBlocked else TaskStatusFailed)\<rparr> \<and>
   normalizePolicyFailureKind kind \<in> set known_failure_kinds"
proof -
  have "fp_FailureKind (EvaluateFailurePolicy kind attempts maxAttempts) =
      normalizePolicyFailureKind kind"
    by (simp add: EvaluateFailurePolicy_def Let_def)
  then show ?thesis
    using retry_iff [of kind attempts maxAttempts] exhausted_status [of kind attempts maxAttempts]
      normalize_known [of kind]
    by (cases "EvaluateFailurePolicy kind attempts maxAttempts") simp
qed

text \<open>On non-negative 64-bit amounts a task is admitted exactly when, in every limited dimension,
  consumed plus reserved plus the estimate stays within the limit plus the granted allowance (both
  sides clipped at the largest 64-bit integer, where additions saturate).\<close>
theorem budget_admission_iff:
  assumes "usage_ok u" and "allowance_ok a" and "estimate_ok e" and "policy_ok p"
  shows "Allowed (EvaluateBudgetAdmission (Some p) u a e) \<longleftrightarrow>
    budget_ok p a (usage_tokens u + est_Tokens e) (usage_ticks u + est_CostUSDTicks e)"
  using assms by (rule admission_iff)

theorem budget_admission_iff_witness:
  "\<not> Allowed (EvaluateBudgetAdmission
     (Some \<lparr>MaxTokens = Some 100, MaxCostUSDTicks = None, Gate = ''fail_closed''\<rparr>)
     \<lparr>ConsumedTokens = 60, ReservedTokens = 30, ConsumedCostUSDTicks = 0, ReservedCostUSDTicks = 0\<rparr>
     \<lparr>GrantTokens = 0, GrantCostUSDTicks = 0\<rparr> \<lparr>est_Tokens = 11, est_CostUSDTicks = 5\<rparr>)"
  by (subst budget_admission_iff)
    (simp_all add: usage_ok_def allowance_ok_def estimate_ok_def policy_ok_def nonneg64_def
      budget_ok_def dim_ok_def usage_tokens_def usage_ticks_def max_int64_def)

section \<open>Routing\<close>

text \<open>The invocation predicate grants access to the owner, and to others only on a public agent
  with a workspace target (for workspace members and internal principals) or a member target naming
  the effective user; team and unknown targets grant nothing.\<close>
theorem can_invoke_contract:
  "CanInvoke p g targets \<longleftrightarrow>
     (EffectiveUserID p \<noteq> [] \<and> OwnerID g = EffectiveUserID p) \<or>
     (PermissionMode g = ''public_to'' \<and>
      (\<exists>t \<in> set targets.
         target_Type t = ''workspace'' \<and> (IsWorkspaceMember g \<or> ActorType p \<in> {''agent'', ''system''}) \<or>
         target_Type t = ''member'' \<and> EffectiveUserID p \<noteq> [] \<and> target_ID t = EffectiveUserID p))"
  unfolding CanInvoke_iff target_admits_iff ..

text \<open>C35: The candidate that \<open>SelectRoutingCandidate\<close> selects is one of those considered, passes
  every hard filter of the frozen policy, and no eligible candidate ranks before it by separation,
  preferred runtime, load, age and agent id.\<close>
theorem routing_selects_best:
  assumes "rr_Selected (SelectRoutingCandidate input) = Some c"
  shows "\<exists>f \<in> set (considered input). routing_eligible input f \<and>
    sel_AgentID c = rf_AgentID f \<and> sel_RuntimeID c = rf_RuntimeID f \<and>
    (\<forall>g \<in> set (considered input). routing_eligible input g \<longrightarrow>
       candidate_rank input f \<le> candidate_rank input g)"
  using Selected_Some [OF assms] by metis

text \<open>Routing fails to select exactly when no considered candidate passes every hard filter.\<close>
theorem routing_selects_none_iff:
  "rr_Selected (SelectRoutingCandidate input) = None \<longleftrightarrow>
     set (considered input) \<inter> {f. routing_eligible input f} = {}"
  unfolding Selected_None_iff by blast

text \<open>The selection does not depend on the order in which the database returned the candidates.\<close>
theorem routing_order_independent:
  assumes "mset cs = mset (ri_Candidates input)" and "distinct (map rf_AgentID (ri_Candidates input))"
  shows "rr_Selected (SelectRoutingCandidate (input\<lparr>ri_Candidates := cs\<rparr>)) =
    rr_Selected (SelectRoutingCandidate input)"
  using assms by (rule Selected_perm)

definition sample_facts :: "string \<Rightarrow> int \<Rightarrow> RoutingCandidateFacts" where
  "sample_facts agent load =
     \<lparr>rf_AgentID = agent, rf_RuntimeID = ''r'', rf_AgentCreatedAt = 0, rf_Archived = False,
      rf_AgentOwnerID = ''o'', rf_PermissionMode = ''private'', rf_WorkspaceGrant = False,
      rf_MemberGrant = False, rf_Model = ''m'', rf_MaxConcurrentTasks = 2, rf_RuntimeBound = True,
      rf_RuntimeStatus = ''online'', rf_Provider = ''p'', rf_MetadataCapabilitiesKnown = True,
      rf_MetadataCapabilities = [''go''], rf_MetadataCapabilitiesMalformed = False,
      rf_RuntimeOwnerPresent = True, rf_RuntimeOwnerID = ''o'', rf_RuntimeVisibility = ''private'',
      rf_CurrentLoad = load\<rparr>"

definition sample_config :: RoleProfileConfig where
  "sample_config =
     \<lparr>Instructions = '' do it '', RequiredCapabilities = [''go'', '' go''],
      cfg_Runtime = \<lparr>AllowedRuntimeIDs = [], PreferredRuntimeIDs = [], Providers = [], Models = []\<rparr>,
      cfg_Tools = \<lparr>AllowedTools = [], AllowedPaths = []\<rparr>,
      cfg_Budget = \<lparr>rb_MaxTokens = None, rb_MaxCostUSDTicks = None, rb_MaxReworkCycles = 1,
        rb_MaxTechnicalRetries = 1\<rparr>,
      cfg_TimeoutSeconds = 60, cfg_MaxConcurrency = 2\<rparr>"

definition sample_policy :: RolePolicySnapshot where
  "sample_policy =
     \<lparr>rps_ID = ''s'', rps_WorkspaceID = ''w'', rps_MissionID = ''m'', rps_SchemaVersion = 1,
      rps_Duty = DutyReviewer, rps_RoleProfileID = ''p'', rps_RoleProfileKey = ''k'',
      rps_RoleProfileVersion = 1, rps_ProfileName = ''n'', rps_ProfileDescription = [],
      rps_Config = sample_config\<lparr>RequiredCapabilities := [''go'']\<rparr>, rps_AgentID = [],
      rps_ContentHash = ''h'', rps_FrozenBy = ''o'', rps_FrozenAt = 0\<rparr>"

definition sample_input :: "RoutingCandidateFacts list \<Rightarrow> RoutingSelectionInput" where
  "sample_input cs =
     \<lparr>ri_Snapshot = sample_policy, ri_EffectiveOwnerID = ''o'', ri_Candidates = cs,
      ri_ProducerAgentID = ''a'', ri_AvoidAgentID = []\<rparr>"

lemma sample_selected:
  "rr_Selected (SelectRoutingCandidate (sample_input
     [sample_facts ''a'' 0, sample_facts ''c'' 1, sample_facts ''b'' 1, sample_facts ''d'' 2])) =
   Some \<lparr>sel_AgentID = ''b'', sel_RuntimeID = ''r''\<rparr>"
  unfolding Selected_eq by code_simp

theorem routing_selects_best_witness:
  "\<exists>f. routing_eligible (sample_input
     [sample_facts ''a'' 0, sample_facts ''c'' 1, sample_facts ''b'' 1, sample_facts ''d'' 2]) f \<and>
   rf_AgentID f = ''b''"
  using routing_selects_best [OF sample_selected] by auto

theorem routing_order_independent_witness:
  "rr_Selected (SelectRoutingCandidate (sample_input
     [sample_facts ''d'' 2, sample_facts ''b'' 1, sample_facts ''c'' 1, sample_facts ''a'' 0])) =
   Some \<lparr>sel_AgentID = ''b'', sel_RuntimeID = ''r''\<rparr>"
  using routing_order_independent [of "[sample_facts ''d'' 2, sample_facts ''b'' 1, sample_facts ''c'' 1,
      sample_facts ''a'' 0]" "sample_input [sample_facts ''a'' 0, sample_facts ''c'' 1,
      sample_facts ''b'' 1, sample_facts ''d'' 2]"] sample_selected
  by (simp add: sample_input_def sample_facts_def)

section \<open>Role profiles and proposals\<close>

text \<open>A role configuration that was accepted is a fixed point of normalization: normalizing it
  again, as reading a stored snapshot does, changes nothing and reports no error.\<close>
theorem role_config_normalized_once:
  assumes "snd (normalizeAndValidateRoleProfileConfig \<epsilon> c) = []"
  shows "normalizeAndValidateRoleProfileConfig \<epsilon> (fst (normalizeAndValidateRoleProfileConfig \<epsilon> c)) =
    (fst (normalizeAndValidateRoleProfileConfig \<epsilon> c), [])"
  using assms by (rule normalizeConfig_again)

definition sample_env :: env where
  "sample_env =
     \<lparr>env_uuid_parse = Some, env_uuid_scan = Some, env_uuid_sha1 = (@),
      env_jsonb_size = (\<lambda>j. length (json_marshal j)), env_gen_uuid = (\<lambda>n. replicate (n + 1) (CHR ''a'')), env_now = 1\<rparr>"

lemma sample_env_ok: "env_ok sample_env"
  by (auto simp: env_ok_def sample_env_def inj_def nil_uuid_def replicate_eq_replicate)
   
theorem role_config_normalized_once_witness:
  "normalizeAndValidateRoleProfileConfig sample_env
     (sample_config\<lparr>Instructions := ''do it'', RequiredCapabilities := [''go'']\<rparr>) =
   (sample_config\<lparr>Instructions := ''do it'', RequiredCapabilities := [''go'']\<rparr>, [])"
proof -
  have "normalizeAndValidateRoleProfileConfig sample_env sample_config =
    (sample_config\<lparr>Instructions := ''do it'', RequiredCapabilities := [''go'']\<rparr>, [])"
    by code_simp
  with role_config_normalized_once [of sample_env sample_config] show ?thesis by simp
qed

text \<open>The start bindings of a mission are accepted exactly when each is well formed and they name
  the executor, the reviewer and the integrator once each.\<close>
theorem start_bindings_accepted_iff:
  "snd (normalizeStartRolePolicyBindings bs) = [] \<longleftrightarrow>
     list_all binding_ok bs \<and> distinct (map rpb_Duty bs) \<and>
     rpb_Duty ` set bs = {DutyExecutor, DutyReviewer, DutyIntegrator}"
  unfolding list_all_iff by (rule start_bindings_accepted)


definition sample_proposal :: PlanProposal where
  "sample_proposal =
     \<lparr>pp_SchemaVersion = 1, pp_MissionID = ''m'', pp_ProposalKey = ''k'',
      pp_Input = \<lparr>Objective = ''o'', ContextRefs = Some [\<lparr>cr_Kind = ''file'', cr_URI = ''u'', cr_ContentHash = []\<rparr>],
        DeliveryCriteria = [''c'']\<rparr>,
      pp_Limits = \<lparr>MaxParallelRuns = 2, MaxTaskAttempts = 2, MaxReworkCycles = 1,
        Budget = Some \<lparr>MaxTokens = Some 100, MaxCostUSDTicks = None, Gate = ''owner_approval''\<rparr>\<rparr>,
      pp_Nodes = [sample_node ''a'' DutyExecutor []]\<rparr>"


text \<open>A proposal is accepted exactly when its version is supported, its input is well formed and
  the plan made of it satisfies the plan contract; dropping the plan's duty errors in favour of the
  proposal's own never hides a rejection.\<close>
theorem proposal_accepted_iff:
  "ValidatePlanProposal p missionID hardLimits = [] \<longleftrightarrow>
     pp_SchemaVersion p = PlanProposalSchemaVersion \<and> ValidatePlanProposalInput (pp_Input p) = [] \<and>
     plan_ok (PlanFromProposal p) missionID hardLimits"
  unfolding ValidatePlanProposal_accepted ValidatePlan_Nil_iff ..

end
